(* ===== verification/Prelude.thy ===== *)
theory Prelude
  imports "HOL-Library.Word" "HOL-Library.Char_ord" "HOL-Library.List_Lexorder" "HOL-Library.Sublist"
begin

unbundle bit_operations_syntax

text \<open>
  What every contract of the repository shares and what is not itself code of the repository: byte
  strings, results that may stop with an exception, the integer and text conversions of the virtual
  machine and of its standard library, and the ordered key-value storage a contract owns.

  A Go \<open>[]byte\<close> and a Go \<open>string\<close> are the same byte string in the virtual machine, so both are
  the type \<open>bytes\<close> (a list of 8-bit characters); \<open>nil\<close> is the empty string unless the code
  tells the two apart, where an option is used. A Go \<open>int\<close> is an arbitrary precision integer.
\<close>

type_synonym bytes = string

section \<open>Results\<close>

text \<open>
  \<open>Panic m\<close> is \<open>panic(m)\<close>, which a caller may recover; \<open>Fault m\<close> is a fault of the
  virtual machine (a failed conversion, an index out of range, a null operand); \<open>Abort m\<close> is the
  ABORT instruction. All three undo the whole transaction, so an error carries no state.
\<close>

datatype error = Panic string | Fault string | Abort string

type_synonym 'a res = "error + 'a"

fun andThen :: "'e + 'a \<Rightarrow> ('a \<Rightarrow> 'e + 'b) \<Rightarrow> 'e + 'b" where
  "andThen (Inl e) f = Inl e"
| "andThen (Inr x) f = f x"

definition check :: "bool \<Rightarrow> error \<Rightarrow> unit res" where
  "check b e = (if b then Inr () else Inl e)"

primrec foldR :: "('a \<Rightarrow> 's \<Rightarrow> 'e + 's) \<Rightarrow> 'a list \<Rightarrow> 's \<Rightarrow> 'e + 's" where
  "foldR f [] s = Inr s"
| "foldR f (x # xs) s = andThen (f x s) (foldR f xs)"

primrec mapR :: "('a \<Rightarrow> 'e + 'b) \<Rightarrow> 'a list \<Rightarrow> 'e + 'b list" where
  "mapR f [] = Inr []"
| "mapR f (x # xs) = andThen (f x) (\<lambda>y. andThen (mapR f xs) (\<lambda>ys. Inr (y # ys)))"

lemma andThen_cong [fundef_cong]:
  "m = m' \<Longrightarrow> (\<And>x. m' = Inr x \<Longrightarrow> f x = g x) \<Longrightarrow> andThen m f = andThen m' g"
  by (cases m') auto

lemma andThen_Inr_iff [simp]: "andThen m f = Inr y \<longleftrightarrow> (\<exists>x. m = Inr x \<and> f x = Inr y)"
  by (cases m) auto

lemma andThen_InrE: "andThen m f = Inr y \<Longrightarrow> (\<And>x. m = Inr x \<Longrightarrow> f x = Inr y \<Longrightarrow> P) \<Longrightarrow> P"
  by (cases m) auto

lemma guard_InrE: "(if b then Inl e else m) = Inr y \<Longrightarrow> (\<not> b \<Longrightarrow> m = Inr y \<Longrightarrow> P) \<Longrightarrow> P"
  by (cases b) auto

lemma andThen_Inl_iff: "andThen m f = Inl e \<longleftrightarrow> m = Inl e \<or> (\<exists>x. m = Inr x \<and> f x = Inl e)"
  by (cases m) auto

lemma check_Inr [simp]: "check b e = Inr u \<longleftrightarrow> b"
  by (simp add: check_def)

lemma check_True [simp]: "b \<Longrightarrow> check b e = Inr ()"
  by (simp add: check_def)

lemma check_False [simp]: "\<not> b \<Longrightarrow> check b e = Inl e"
  by (simp add: check_def)

lemma foldR_invariant:
  assumes "foldR f xs s = Inr t" and "P s"
    and "\<And>x s s'. x \<in> set xs \<Longrightarrow> P s \<Longrightarrow> f x s = Inr s' \<Longrightarrow> P s'"
  shows "P t"
  using assms
proof (induction xs arbitrary: s)
  case (Cons x xs)
  then obtain s' where "f x s = Inr s'" and "foldR f xs s' = Inr t" by auto
  with Cons show ?case by (meson list.set_intros)
qed simp

lemma foldR_append: "foldR f (xs @ ys) s = andThen (foldR f xs s) (foldR f ys)"
proof (induction xs arbitrary: s)
  case (Cons x xs)
  then show ?case by (cases "f x s") simp_all
qed simp

lemma foldR_total:
  assumes "\<And>x s. x \<in> set xs \<Longrightarrow> \<exists>s'. f x s = Inr s'"
  shows "\<exists>t. foldR f xs s = Inr t"
  using assms
proof (induction xs arbitrary: s)
  case (Cons x xs)
  then obtain s' where "f x s = Inr s'" by (metis list.set_intros(1))
  then show ?case using Cons by simp
qed simp

lemma mapR_Inr: "(\<And>x. x \<in> set xs \<Longrightarrow> f x = Inr (g x)) \<Longrightarrow> mapR f xs = Inr (map g xs)"
  by (induction xs) auto

lemma mapR_Inr_length: "mapR f xs = Inr ys \<Longrightarrow> length ys = length xs"
  by (induction xs arbitrary: ys) auto

text \<open>A loop whose body never fails is a plain left fold.\<close>

lemma foldR_pure: "foldR (\<lambda>x s. Inr (g x s)) xs s = Inr (fold g xs s)"
  by (induction xs arbitrary: s) auto

section \<open>Integers\<close>

text \<open>
  Go and the virtual machine divide towards zero. Integers become bytes in two's complement, little
  endian, with no superfluous byte, and zero is the empty string (the CONVERT instruction between
  Integer and ByteString).
\<close>

definition goDiv :: "int \<Rightarrow> int \<Rightarrow> int" where
  "goDiv a b = sgn a * sgn b * (\<bar>a\<bar> div \<bar>b\<bar>)"

lemma goDiv_nonneg: "0 \<le> a \<Longrightarrow> 0 \<le> b \<Longrightarrow> goDiv a b = a div b"
  by (cases "a = 0"; cases "b = 0") (auto simp: goDiv_def)

lemma goDiv_middle:
  assumes "lo \<le> hi"
  shows "lo \<le> goDiv (lo + hi) 2" and "goDiv (lo + hi) 2 \<le> hi"
proof -
  have "lo \<le> goDiv (lo + hi) 2 \<and> goDiv (lo + hi) 2 \<le> hi"
  proof (cases "0 \<le> lo + hi")
    case True
    then show ?thesis using assms by (simp add: goDiv_nonneg; presburger)
  next
    case False
    then have "goDiv (lo + hi) 2 = - ((- (lo + hi)) div 2)" by (simp add: goDiv_def)
    then show ?thesis using assms by presburger
  qed
  then show "lo \<le> goDiv (lo + hi) 2" and "goDiv (lo + hi) 2 \<le> hi" by auto
qed

function int_tail :: "int \<Rightarrow> bytes" where
  "int_tail n = (if - 128 \<le> n \<and> n \<le> 127 then [char_of n]
     else char_of n # int_tail (n div 256))"
  by pat_completeness auto
termination
  by (relation "measure (\<lambda>n. nat \<bar>n\<bar>)") auto

declare int_tail.simps [simp del]

lemma of_char_of_int: "(of_char (char_of n :: char) :: int) = n mod 256"
  by (simp add: take_bit_eq_mod)

lemma of_char_bounds: "0 \<le> (of_char c :: int)" "(of_char c :: int) < 256"
proof -
  have "(of_char c :: int) = int (of_char c)" by (simp only: of_nat_of_char)
  moreover have "(of_char c :: nat) < 256" by simp
  ultimately show "0 \<le> (of_char c :: int)" "(of_char c :: int) < 256" by linarith+
qed

definition int_bytes :: "int \<Rightarrow> bytes" where
  "int_bytes n = (if n = 0 then [] else int_tail n)"

fun bytes_int :: "bytes \<Rightarrow> int" where
  "bytes_int [] = 0"
| "bytes_int [c] = (if of_char c < (128 :: int) then of_char c else of_char c - 256)"
| "bytes_int (c # d # cs) = of_char c + 256 * bytes_int (d # cs)"

lemma int_tail_not_Nil [simp]: "int_tail n \<noteq> []"
  by (subst int_tail.simps) simp

lemma bytes_int_Cons: "cs \<noteq> [] \<Longrightarrow> bytes_int (c # cs) = of_char c + 256 * bytes_int cs"
  by (cases cs) auto

lemma bytes_int_tail: "bytes_int (int_tail n) = n"
proof (induction n rule: int_tail.induct)
  case (1 n)
  show ?case
  proof (cases "- 128 \<le> n \<and> n \<le> 127")
    case True
    then have "n mod 256 = (if 0 \<le> n then n else n + 256)"
      using mod_pos_pos_trivial [of "n + 256" 256] by simp
    with True show ?thesis
      by (subst int_tail.simps) (simp add: take_bit_eq_mod)
  next
    case False
    then have eq: "int_tail n = char_of n # int_tail (n div 256)"
      by (subst int_tail.simps) (rule if_not_P)
    have "bytes_int (int_tail (n div 256)) = n div 256" using 1 False by blast
    moreover have "n mod 256 + 256 * (n div 256) = n" by (rule mod_mult_div_eq)
    ultimately show ?thesis
      by (simp only: eq bytes_int_Cons int_tail_not_Nil of_char_of_int not_False_eq_True)
  qed
qed

lemma bytes_int_bytes [simp]: "bytes_int (int_bytes n) = n"
  by (simp add: int_bytes_def bytes_int_tail)

lemma int_bytes_inject [simp]: "int_bytes m = int_bytes n \<longleftrightarrow> m = n"
  by (metis bytes_int_bytes)

text \<open>The four bytes, big endian, of an unsigned 32-bit integer (\<open>convert.Uint32ToBytesBE\<close>).\<close>

definition uint32_be :: "int \<Rightarrow> bytes" where
  "uint32_be n = [char_of (n div 256 div 256 div 256), char_of (n div 256 div 256),
     char_of (n div 256), char_of n]"

text \<open>The conversion \<open>uint32(n)\<close>.\<close>

definition uint32_of :: "int \<Rightarrow> int" where
  "uint32_of n = n mod 4294967296"

definition be_uint32 :: "bytes \<Rightarrow> int" where
  "be_uint32 bs = foldl (\<lambda>a c. a * 256 + of_char c) 0 bs"

lemma length_uint32_be [simp]: "length (uint32_be n) = 4"
  by (simp add: uint32_be_def)

lemma be_uint32_be:
  assumes "0 \<le> n" and "n < 4294967296"
  shows "be_uint32 (uint32_be n) = n"
proof -
  have step: "m = m div 256 * 256 + m mod 256" for m :: int by simp
  have "n div 256 div 256 div 256 = n div 16777216"
    by (simp add: zdiv_zmult2_eq [symmetric])
  moreover have "n div 16777216 < 4294967296 div 16777216"
    using assms zdiv_mono1 [of n 4294967295 16777216] by simp
  ultimately have "0 \<le> n div 256 div 256 div 256" and "n div 256 div 256 div 256 < 256"
    using assms by (simp_all add: pos_imp_zdiv_nonneg_iff)
  then have top: "n div 256 div 256 div 256 mod 256 = n div 256 div 256 div 256"
    by (rule mod_pos_pos_trivial)
  have "be_uint32 (uint32_be n) = (((n div 256 div 256 div 256 mod 256) * 256
      + n div 256 div 256 mod 256) * 256 + n div 256 mod 256) * 256 + n mod 256"
    by (simp only: be_uint32_def uint32_be_def foldl.simps of_char_of_int mult_zero_left add_0)
  then show ?thesis by (simp only: top div_mult_mod_eq)
qed

text \<open>The big endian form keeps the order, and prefixes keep the order of byte strings.\<close>

lemma be_uint32_Nil [simp]: "be_uint32 [] = 0"
  by (simp add: be_uint32_def)

lemma be_uint32_snoc: "be_uint32 (bs @ [c]) = be_uint32 bs * 256 + of_char c"
  by (simp add: be_uint32_def)

lemma be_uint32_Cons: "be_uint32 (c # bs) = of_char c * 256 ^ length bs + be_uint32 bs"
proof (induction bs rule: rev_induct)
  case (snoc d bs)
  have "be_uint32 (c # bs @ [d]) = be_uint32 (c # bs) * 256 + of_char d"
    using be_uint32_snoc [of "c # bs" d] by simp
  then show ?case using snoc by (simp add: be_uint32_snoc algebra_simps)
qed (simp add: be_uint32_def)

lemma be_uint32_bounds: "0 \<le> be_uint32 bs" "be_uint32 bs < 256 ^ length bs"
proof (induction bs rule: rev_induct)
  case (snoc c bs)
  {
    case 1
    then show ?case using snoc.IH(1) of_char_bounds(1) [of c] by (simp add: be_uint32_snoc)
  next
    case 2
    have "be_uint32 bs * 256 + of_char c < (be_uint32 bs + 1) * 256" using of_char_bounds(2) [of c] by simp
    also have "\<dots> \<le> 256 ^ length bs * 256" using snoc.IH(2) by (intro mult_right_mono) auto
    finally show ?case by (simp add: be_uint32_snoc)
  }
qed simp_all

lemma char_less_iff: "c < d \<longleftrightarrow> (of_char c :: int) < of_char d"
proof -
  have "(of_char c :: int) < of_char d \<longleftrightarrow> int (of_char c) < int (of_char d)" by (simp only: of_nat_of_char)
  then show ?thesis by (simp add: less_char_def)
qed

lemma be_uint32_mono: "length xs = length ys \<Longrightarrow> xs \<le> ys \<Longrightarrow> be_uint32 xs \<le> be_uint32 ys"
proof (induction xs ys rule: list_induct2)
  case (Cons x xs y ys)
  show ?case
  proof (cases "x = y")
    case True
    then show ?thesis using Cons by (simp add: be_uint32_Cons)
  next
    case False
    then have "(of_char x :: int) + 1 \<le> of_char y" using Cons.prems by (simp add: char_less_iff)
    then have "((of_char x :: int) + 1) * 256 ^ length xs \<le> of_char y * 256 ^ length xs"
      by (rule mult_right_mono) simp
    then show ?thesis using be_uint32_bounds [of xs] be_uint32_bounds [of ys] Cons.hyps
      by (simp add: be_uint32_Cons algebra_simps)
  qed
qed simp

lemma take_le_take: "(xs :: bytes) \<le> ys \<Longrightarrow> n \<le> length xs \<Longrightarrow> n \<le> length ys \<Longrightarrow> take n xs \<le> take n ys"
proof (induction n arbitrary: xs ys)
  case (Suc n)
  then show ?case by (cases xs; cases ys) auto
qed simp

lemma append_less_iff [simp]: "(p :: bytes) @ xs < p @ ys \<longleftrightarrow> xs < ys"
  by (induction p) auto

lemma append_le_iff [simp]: "(p :: bytes) @ xs \<le> p @ ys \<longleftrightarrow> xs \<le> ys"
  by (simp add: le_less)

lemma uint32_be_inject:
  "0 \<le> m \<Longrightarrow> m < 4294967296 \<Longrightarrow> 0 \<le> n \<Longrightarrow> n < 4294967296 \<Longrightarrow> uint32_be m = uint32_be n \<longleftrightarrow> m = n"
  by (metis be_uint32_be)

end
