(* ===== verification/StdLib.thy ===== *)
theory StdLib
  imports Prelude
begin

text \<open>
  The functions of the virtual machine's standard library (\<open>interop/native/std\<close>) the contracts
  call on text: decimal conversion, splitting and searching. They are the documented behaviour of that
  library; hexadecimal, JSON and Base58 conversions stay parameters of the run-time environment.
\<close>

section \<open>Decimal numbers\<close>

definition digit_char :: "nat \<Rightarrow> char" where
  "digit_char d = char_of (48 + int d)"

definition is_digit :: "char \<Rightarrow> bool" where
  "is_digit c \<longleftrightarrow> 48 \<le> (of_char c :: int) \<and> (of_char c :: int) \<le> 57"

definition digit_val :: "char \<Rightarrow> int" where
  "digit_val c = of_char c - 48"

fun nat_digits :: "nat \<Rightarrow> string" where
  "nat_digits n = (if n < 10 then [digit_char n] else nat_digits (n div 10) @ [digit_char (n mod 10)])"

declare nat_digits.simps [simp del]

text \<open>\<open>std.Itoa10\<close>, \<open>std.Itoa(x, 10)\<close> and \<open>std.Atoi10\<close>.\<close>

definition itoa10 :: "int \<Rightarrow> string" where
  "itoa10 n = (if n < 0 then CHR ''-'' # nat_digits (nat (- n)) else nat_digits (nat n))"

text \<open>The same digits computed on integers, which the kernel evaluates on binary numerals.\<close>

function int_digits :: "int \<Rightarrow> string" where
  "int_digits n = (if n < 10 then [char_of (48 + n)] else int_digits (n div 10) @ [char_of (48 + n mod 10)])"
  by pat_completeness auto
termination
  by (relation "measure nat") auto

declare int_digits.simps [simp del]

lemma nat_digits_int: "nat_digits n = int_digits (int n)"
proof (induction n rule: nat_digits.induct)
  case (1 n)
  have "int_digits (int n) = (if n < 10 then [digit_char n] else int_digits (int (n div 10)) @ [digit_char (n mod 10)])"
    by (subst int_digits.simps) (simp add: digit_char_def zdiv_int zmod_int)
  then show ?case using 1 by (subst nat_digits.simps) simp
qed

lemma itoa10_code [code]: "itoa10 n = (if n < 0 then CHR ''-'' # int_digits (- n) else int_digits n)"
  by (simp add: itoa10_def nat_digits_int)

definition digits_val :: "string \<Rightarrow> int" where
  "digits_val = foldl (\<lambda>a c. a * 10 + digit_val c) 0"

definition unsigned_val :: "string \<Rightarrow> int res" where
  "unsigned_val s = (if s \<noteq> [] \<and> list_all is_digit s then Inr (digits_val s)
     else Inl (Fault ''invalid format''))"

definition atoi10 :: "string \<Rightarrow> int res" where
  "atoi10 s = (case s of
     [] \<Rightarrow> Inl (Fault ''invalid format'')
   | c # cs \<Rightarrow> if c = CHR ''-'' then andThen (unsigned_val cs) (\<lambda>v. Inr (- v))
               else if c = CHR ''+'' then unsigned_val cs
               else unsigned_val s)"

lemma of_char_digit_char: "d < 10 \<Longrightarrow> (of_char (digit_char d) :: int) = 48 + int d"
  by (simp only: digit_char_def of_char_of_int) simp

lemma is_digit_digit_char: "d < 10 \<Longrightarrow> is_digit (digit_char d)"
  by (simp add: is_digit_def of_char_digit_char)

lemma digit_val_digit_char: "d < 10 \<Longrightarrow> digit_val (digit_char d) = int d"
  by (simp add: digit_val_def of_char_digit_char)

lemma digits_val_snoc: "digits_val (s @ [c]) = digits_val s * 10 + digit_val c"
  by (simp add: digits_val_def)

lemma nat_digits_not_Nil [simp]: "nat_digits n \<noteq> []"
  by (subst nat_digits.simps) simp

lemma nat_digits_digits: "list_all is_digit (nat_digits n)"
proof (induction n rule: nat_digits.induct)
  case (1 n)
  then show ?case
    by (cases "n < 10") (simp_all add: nat_digits.simps [of n] is_digit_digit_char)
qed

lemma digits_val_nat_digits: "digits_val (nat_digits n) = int n"
proof (induction n rule: nat_digits.induct)
  case (1 n)
  show ?case
  proof (cases "n < 10")
    case True
    then show ?thesis by (simp add: nat_digits.simps [of n] digits_val_def digit_val_digit_char)
  next
    case False
    then have "digits_val (nat_digits n) = int (n div 10) * 10 + int (n mod 10)"
      using 1 by (simp add: nat_digits.simps [of n] digits_val_snoc digit_val_digit_char)
    also have "\<dots> = int n" by (metis div_mult_mod_eq of_nat_add of_nat_mult of_nat_numeral)
    finally show ?thesis .
  qed
qed

lemma unsigned_val_nat_digits: "unsigned_val (nat_digits n) = Inr (int n)"
  by (simp add: unsigned_val_def nat_digits_digits digits_val_nat_digits)

lemma hd_nat_digits: "is_digit (hd (nat_digits n))"
  using nat_digits_digits [of n] nat_digits_not_Nil [of n] by (cases "nat_digits n") auto

lemma not_digit_sign [simp]: "\<not> is_digit CHR ''-''" "\<not> is_digit CHR ''+''"
  by (simp_all add: is_digit_def)

lemma atoi10_nat_digits: "atoi10 (nat_digits n) = Inr (int n)"
proof (cases "nat_digits n")
  case (Cons c cs)
  then have "is_digit c" using hd_nat_digits [of n] by simp
  then have "c \<noteq> CHR ''-''" and "c \<noteq> CHR ''+''" by (metis not_digit_sign)+
  then show ?thesis using Cons unsigned_val_nat_digits [of n] by (simp add: atoi10_def)
qed simp

lemma atoi10_itoa10 [simp]: "atoi10 (itoa10 n) = Inr n"
  by (cases "n < 0") (simp_all add: itoa10_def atoi10_nat_digits, simp add: atoi10_def unsigned_val_nat_digits)

section \<open>Splitting and searching\<close>

text \<open>\<open>std.StringSplit(s, c)\<close> for a one-character separator, and its inverse.\<close>

fun string_split :: "char \<Rightarrow> string \<Rightarrow> string list" where
  "string_split c [] = [[]]"
| "string_split c (x # xs) = (if x = c then [] # string_split c xs
     else (case string_split c xs of [] \<Rightarrow> [[x]] | w # ws \<Rightarrow> (x # w) # ws))"

fun string_join :: "char \<Rightarrow> string list \<Rightarrow> string" where
  "string_join c [] = []"
| "string_join c [w] = w"
| "string_join c (w # v # vs) = w @ c # string_join c (v # vs)"

lemma string_split_not_Nil [simp]: "string_split c s \<noteq> []"
  by (cases s) (auto split: list.splits)

lemma string_join_Cons: "ws \<noteq> [] \<Longrightarrow> string_join c (w # ws) = w @ c # string_join c ws"
  by (cases ws) auto

lemma string_join_split: "string_join c (string_split c s) = s"
proof (induction s)
  case (Cons x xs)
  obtain w ws where sp: "string_split c xs = w # ws" by (cases "string_split c xs") auto
  then show ?case using Cons by (cases ws) (auto simp: string_join_Cons)
qed simp

lemma string_split_no_sep: "w \<in> set (string_split c s) \<Longrightarrow> c \<notin> set w"
proof (induction s arbitrary: w)
  case (Cons x xs)
  obtain v vs where "string_split c xs = v # vs" by (cases "string_split c xs") auto
  then show ?case using Cons by (auto split: if_splits)
qed simp

lemma string_split_word: "c \<notin> set w \<Longrightarrow> string_split c w = [w]"
  by (induction w) auto

lemma string_split_append: "c \<notin> set w \<Longrightarrow> string_split c (w @ c # s) = w # string_split c s"
  by (induction w) auto

lemma string_split_join:
  "ws \<noteq> [] \<Longrightarrow> (\<And>w. w \<in> set ws \<Longrightarrow> c \<notin> set w) \<Longrightarrow> string_split c (string_join c ws) = ws"
proof (induction ws rule: induct_list012)
  case (3 w v vs)
  then show ?case by (simp add: string_split_append del: string_split.simps)
qed (auto simp: string_split_word)

text \<open>\<open>std.StringSplitNonEmpty\<close>, \<open>std.MemorySearch\<close> and \<open>std.MemorySearchLastIndex\<close>.\<close>

definition string_split_non_empty :: "char \<Rightarrow> string \<Rightarrow> string list" where
  "string_split_non_empty c s = filter (\<lambda>w. w \<noteq> []) (string_split c s)"

fun memory_search :: "bytes \<Rightarrow> bytes \<Rightarrow> int" where
  "memory_search [] v = (if v = [] then 0 else - 1)"
| "memory_search (x # xs) v = (if prefix v (x # xs) then 0
     else (let i = memory_search xs v in if i = - 1 then - 1 else i + 1))"

fun memory_search_last :: "bytes \<Rightarrow> bytes \<Rightarrow> int" where
  "memory_search_last [] v = (if v = [] then 0 else - 1)"
| "memory_search_last (x # xs) v = (let i = memory_search_last xs v in
     if i \<noteq> - 1 then i + 1 else if prefix v (x # xs) then 0 else - 1)"

definition memory_search_last_index :: "bytes \<Rightarrow> bytes \<Rightarrow> nat \<Rightarrow> int" where
  "memory_search_last_index m v start = memory_search_last (take start m) v"

lemma memory_search_last_ge: "- 1 \<le> memory_search_last m v"
  by (induction m) (auto simp: Let_def)

lemma memory_search_last_suffix: "memory_search_last (a @ v) v = int (length a)"
proof (induction a)
  case Nil
  show ?case
  proof (cases v)
    case (Cons x xs)
    have "memory_search_last ys w = - 1" if "length ys < length w" for ys w
      using that
    proof (induction ys)
      case (Cons y ys)
      then have "\<not> prefix w (y # ys)" using prefix_length_le by fastforce
      with Cons show ?case by simp
    qed simp
    then have "memory_search_last xs v = - 1" using Cons by simp
    then show ?thesis using Cons by simp
  qed simp
qed (simp add: Let_def)

lemma memory_search_last_hit:
  "memory_search_last m v = int i \<Longrightarrow> prefix v (drop i m)"
proof (induction m arbitrary: i)
  case (Cons x xs)
  show ?case
  proof (cases "memory_search_last xs v = - 1")
    case False
    then have "0 \<le> memory_search_last xs v" using memory_search_last_ge [of xs v] by linarith
    then obtain j where j: "memory_search_last xs v = int j" by (metis nonneg_int_cases)
    then have "i = Suc j" using Cons.prems by simp
    with j show ?thesis using Cons.IH by simp
  next
    case True
    then show ?thesis using Cons.prems by (auto split: if_splits)
  qed
qed (auto split: if_splits)

text \<open>A name ends with a suffix exactly when the last hit of the suffix reaches the name's end.\<close>

lemma memory_search_last_index_suffix:
  "memory_search_last_index m v (length m) = int i \<and> i + length v = length m
    \<longleftrightarrow> (\<exists>a. m = a @ v \<and> length a = i)"
proof
  assume *: "memory_search_last_index m v (length m) = int i \<and> i + length v = length m"
  then have "prefix v (drop i m)"
    by (simp add: memory_search_last_index_def memory_search_last_hit)
  moreover have "i + length v = length m" using * by simp
  then have "length (drop i m) = length v" by simp
  ultimately have "drop i m = v"
    by (metis append_eq_conv_conj prefix_def take_all_iff order_refl)
  then have "m = take i m @ v" by (metis append_take_drop_id)
  moreover have "length (take i m) = i" using \<open>i + length v = length m\<close> by simp
  ultimately show "\<exists>a. m = a @ v \<and> length a = i" by blast
next
  assume "\<exists>a. m = a @ v \<and> length a = i"
  then show "memory_search_last_index m v (length m) = int i \<and> i + length v = length m"
    by (auto simp: memory_search_last_index_def memory_search_last_suffix)
qed

end
