(* ===== verification/Storage.thy ===== *)
theory Storage
  imports StdLib
begin

text \<open>
  The storage of a contract (\<open>interop/storage\<close>): a map from byte-string keys to values, kept as a
  list sorted by key, because \<open>storage.Find\<close> visits the keys with a given prefix in byte order and
  the code depends on it. A value is either the bytes that were put, or the image of a structure under
  \<open>std.Serialize\<close>; the only thing the model knows of that image is that \<open>std.Deserialize\<close>
  gives the structure back. An iterator visits the entries present when \<open>Find\<close> was called.
\<close>

section \<open>Sorted association lists\<close>

type_synonym 'v store = "(bytes \<times> 'v) list"

definition store_get :: "bytes \<Rightarrow> 'v store \<Rightarrow> 'v option" where
  "store_get k s = map_of s k"

fun store_put :: "bytes \<Rightarrow> 'v \<Rightarrow> 'v store \<Rightarrow> 'v store" where
  "store_put k v [] = [(k, v)]"
| "store_put k v (e # s) = (if fst e < k then e # store_put k v s
     else if fst e = k then (k, v) # s else (k, v) # e # s)"

definition store_delete :: "bytes \<Rightarrow> 'v store \<Rightarrow> 'v store" where
  "store_delete k s = filter (\<lambda>e. fst e \<noteq> k) s"

definition store_find :: "bytes \<Rightarrow> 'v store \<Rightarrow> (bytes \<times> 'v) list" where
  "store_find p s = filter (\<lambda>e. prefix p (fst e)) s"

definition store_ok :: "'v store \<Rightarrow> bool" where
  "store_ok s \<longleftrightarrow> sorted_wrt (<) (map fst s)"

lemma map_of_store_put: "map_of (store_put k v s) = (map_of s)(k \<mapsto> v)"
  by (induction s) (auto simp: fun_eq_iff)

lemma store_put_keys: "fst ` set (store_put k v s) = insert k (fst ` set s)"
  by (induction s) auto

lemma store_put_ok: "store_ok s \<Longrightarrow> store_ok (store_put k v s)"
proof (induction s)
  case (Cons e s)
  then have "store_ok (store_put k v s)" by (simp add: store_ok_def)
  then show ?case using Cons.prems store_put_keys [of k v s]
    by (auto simp: store_ok_def not_less_iff_gr_or_eq image_iff)
qed (simp add: store_ok_def)

lemma store_filter_ok: "store_ok s \<Longrightarrow> store_ok (filter P s)"
  by (induction s) (auto simp: store_ok_def)

lemma store_ok_distinct: "store_ok s \<Longrightarrow> distinct (map fst s)"
  by (induction s) (auto simp: store_ok_def)

section \<open>Sums over the entries under a prefix\<close>

text \<open>A measure of the entries under a prefix: a count, a sum of balances, a sum of reported sizes.\<close>

definition store_sum :: "('v \<Rightarrow> int) \<Rightarrow> bytes \<Rightarrow> 'v store \<Rightarrow> int" where
  "store_sum f p s = sum_list (map (\<lambda>e. f (snd e)) (store_find p s))"

definition entry_val :: "('v \<Rightarrow> int) \<Rightarrow> 'v option \<Rightarrow> int" where
  "entry_val f v = (case v of None \<Rightarrow> 0 | Some w \<Rightarrow> f w)"

lemma entry_val_simps [simp]: "entry_val f None = 0" "entry_val f (Some v) = f v"
  by (simp_all add: entry_val_def)

lemma store_get_None: "(\<And>e. e \<in> set s \<Longrightarrow> fst e \<noteq> k) \<Longrightarrow> store_get k s = None"
  by (auto simp: store_get_def map_of_eq_None_iff)

lemma store_sum_put:
  assumes "store_ok s"
  shows "store_sum f p (store_put k v s) = store_sum f p s
    + (if prefix p k then f v - entry_val f (store_get k s) else 0)"
  using assms
proof (induction s)
  case Nil
  then show ?case by (simp add: store_sum_def store_find_def store_get_def)
next
  case (Cons e s)
  then have IH: "store_sum f p (store_put k v s) = store_sum f p s
      + (if prefix p k then f v - entry_val f (store_get k s) else 0)"
    by (simp add: store_ok_def)
  have tail: "\<And>e'. e' \<in> set s \<Longrightarrow> fst e < fst e'" using Cons.prems by (simp add: store_ok_def)
  consider "fst e < k" | "fst e = k" | "k < fst e" by fastforce
  then show ?case
  proof cases
    case 1
    then show ?thesis using IH by (cases e) (auto simp: store_sum_def store_find_def store_get_def)
  next
    case 2
    then show ?thesis by (cases e) (auto simp: store_sum_def store_find_def store_get_def)
  next
    case 3
    then have "store_get k (e # s) = None" using tail by (intro store_get_None) fastforce
    then show ?thesis using 3 by (auto simp: store_sum_def store_find_def)
  qed
qed

lemma store_delete_absent: "(\<And>e. e \<in> set s \<Longrightarrow> fst e \<noteq> k) \<Longrightarrow> store_delete k s = s"
  by (auto simp: store_delete_def filter_id_conv)

lemma store_sum_delete:
  assumes "store_ok s"
  shows "store_sum f p (store_delete k s) = store_sum f p s
    - (if prefix p k then entry_val f (store_get k s) else 0)"
  using assms
proof (induction s)
  case Nil
  then show ?case by (simp add: store_sum_def store_find_def store_delete_def store_get_def)
next
  case (Cons e s)
  then have IH: "store_sum f p (store_delete k s) = store_sum f p s
      - (if prefix p k then entry_val f (store_get k s) else 0)"
    by (simp add: store_ok_def)
  show ?case
  proof (cases "fst e = k")
    case True
    have "\<And>e'. e' \<in> set s \<Longrightarrow> fst e' \<noteq> k" using Cons.prems True by (auto simp: store_ok_def)
    then have "store_delete k s = s" by (rule store_delete_absent)
    then show ?thesis using True
      by (cases e) (auto simp: store_sum_def store_find_def store_get_def store_delete_def)
  next
    case False
    then show ?thesis using IH
      by (cases e) (auto simp: store_sum_def store_find_def store_get_def store_delete_def)
  qed
qed

section \<open>The interface of a contract's storage\<close>

text \<open>
  What the contracts rely on: a value put under a key is the one read back, other keys keep theirs, and
  a search for a prefix lists, in ascending order and once each, the entries whose key has the prefix.
\<close>

locale kv_store =
  fixes get :: "bytes \<Rightarrow> 's \<Rightarrow> 'v option"
    and put :: "bytes \<Rightarrow> 'v \<Rightarrow> 's \<Rightarrow> 's"
    and delete :: "bytes \<Rightarrow> 's \<Rightarrow> 's"
    and find :: "bytes \<Rightarrow> 's \<Rightarrow> (bytes \<times> 'v) list"
    and ok :: "'s \<Rightarrow> bool"
  assumes get_put: "get k' (put k v s) = (if k' = k then Some v else get k' s)"
    and get_delete: "get k' (delete k s) = (if k' = k then None else get k' s)"
    and find_get: "ok s \<Longrightarrow> (k, v) \<in> set (find p s) \<longleftrightarrow> prefix p k \<and> get k s = Some v"
    and find_sorted: "ok s \<Longrightarrow> sorted_wrt (<) (map fst (find p s))"
    and ok_put: "ok s \<Longrightarrow> ok (put k v s)"
    and ok_delete: "ok s \<Longrightarrow> ok (delete k s)"
begin

lemma find_distinct: "ok s \<Longrightarrow> distinct (map fst (find p s))"
  using find_sorted strict_sorted_iff by blast

lemma find_keys: "ok s \<Longrightarrow> fst ` set (find p s) = {k. prefix p k \<and> get k s \<noteq> None}"
proof (intro equalityI subsetI)
  fix k assume "ok s" "k \<in> {k. prefix p k \<and> get k s \<noteq> None}"
  then obtain v where "(k, v) \<in> set (find p s)" by (auto simp: find_get)
  then show "k \<in> fst ` set (find p s)" by (rule rev_image_eqI) simp
qed (auto simp: find_get)

text \<open>Two searches agree when the entries under the prefix do.\<close>

lemma find_cong:
  assumes "ok s" and "ok t" and "\<And>k. prefix p k \<Longrightarrow> get k s = get k t"
  shows "find p s = find p t"
proof (rule map_sorted_distinct_set_unique)
  show eq: "set (find p s) = set (find p t)"
    using assms by (auto simp: find_get)
  show "inj_on fst (set (find p s) \<union> set (find p t))"
    using find_distinct [OF assms(1)] by (simp add: eq [symmetric] distinct_map)
  show "sorted (map fst (find p s))" "distinct (map fst (find p s))"
    "sorted (map fst (find p t))" "distinct (map fst (find p t))"
    using find_sorted [OF assms(1)] find_sorted [OF assms(2)] by (simp_all add: strict_sorted_iff)
qed

end

interpretation kv: kv_store store_get store_put store_delete store_find store_ok
proof unfold_locales
  fix k k' p :: bytes and v :: 'v and s :: "'v store"
  show "store_get k' (store_put k v s) = (if k' = k then Some v else store_get k' s)"
    by (simp add: store_get_def map_of_store_put)
  show "store_get k' (store_delete k s) = (if k' = k then None else store_get k' s)"
    by (induction s) (auto simp: store_get_def store_delete_def)
  assume ok: "store_ok s"
  show "(k, v) \<in> set (store_find p s) \<longleftrightarrow> prefix p k \<and> store_get k s = Some v"
    using store_ok_distinct [OF ok] by (auto simp: store_find_def store_get_def)
  show "sorted_wrt (<) (map fst (store_find p s))"
    using store_filter_ok [OF ok] by (simp add: store_find_def store_ok_def)
  show "store_ok (store_put k v s)" using ok by (rule store_put_ok)
  show "store_ok (store_delete k s)" using ok by (simp add: store_delete_def store_filter_ok)
qed

section \<open>Contract state\<close>

text \<open>
  \<open>'s\<close> is the type of the structures a contract serializes, \<open>'e\<close> that of its notifications
  (\<open>runtime.Notify\<close>), which are kept in the order they were thrown.
\<close>

datatype 's sval = Raw bytes | Ser 's

record ('s, 'e) contract =
  storage :: "'s sval store"
  notifications :: "'e list"

definition LocalGet :: "bytes \<Rightarrow> ('s, 'e) contract \<Rightarrow> 's sval option" where
  "LocalGet k c = store_get k (storage c)"

definition LocalPut :: "bytes \<Rightarrow> 's sval \<Rightarrow> ('s, 'e) contract \<Rightarrow> ('s, 'e) contract" where
  "LocalPut k v c = c\<lparr>storage := store_put k v (storage c)\<rparr>"

definition LocalDelete :: "bytes \<Rightarrow> ('s, 'e) contract \<Rightarrow> ('s, 'e) contract" where
  "LocalDelete k c = c\<lparr>storage := store_delete k (storage c)\<rparr>"

definition LocalFind :: "bytes \<Rightarrow> ('s, 'e) contract \<Rightarrow> (bytes \<times> 's sval) list" where
  "LocalFind p c = store_find p (storage c)"

definition Notify :: "'e \<Rightarrow> ('s, 'e) contract \<Rightarrow> ('s, 'e) contract" where
  "Notify e c = c\<lparr>notifications := notifications c @ [e]\<rparr>"

definition contract_ok :: "('s, 'e) contract \<Rightarrow> bool" where
  "contract_ok c \<longleftrightarrow> store_ok (storage c)"

definition new_contract :: "('s, 'e) contract" where
  "new_contract = \<lparr>storage = [], notifications = []\<rparr>"

text \<open>The keys an iterator with \<open>KeysOnly|RemovePrefix\<close> yields, and the values of \<open>ValuesOnly\<close>.\<close>

definition find_keys_no_prefix :: "bytes \<Rightarrow> ('s, 'e) contract \<Rightarrow> bytes list" where
  "find_keys_no_prefix p c = map (\<lambda>e. drop (length p) (fst e)) (LocalFind p c)"

definition find_values :: "bytes \<Rightarrow> ('s, 'e) contract \<Rightarrow> 's sval list" where
  "find_values p c = map snd (LocalFind p c)"

text \<open>Every Find-then-delete loop of the contracts: remove the keys the iterator yields.\<close>

definition deleteKeys :: "bytes list \<Rightarrow> ('s, 'e) contract \<Rightarrow> ('s, 'e) contract" where
  "deleteKeys ks c = fold LocalDelete ks c"

text \<open>Reading a stored value: \<open>std.Deserialize\<close>, a byte-string cast, \<open>convert.ToInteger\<close> (a
  missing value is Null, which no arithmetic accepts; the 256-bit limit of the machine's integers is
  not modelled) and \<open>convert.ToBool\<close>.\<close>

definition deserialize :: "'s sval \<Rightarrow> 's res" where
  "deserialize v = (case v of Ser x \<Rightarrow> Inr x | Raw b \<Rightarrow> Inl (Fault ''deserialization''))"

definition as_bytes :: "'s sval \<Rightarrow> bytes res" where
  "as_bytes v = (case v of Raw b \<Rightarrow> Inr b | Ser x \<Rightarrow> Inl (Fault ''not a byte string''))"

definition to_integer :: "'s sval option \<Rightarrow> int res" where
  "to_integer v = (case v of None \<Rightarrow> Inl (Fault ''null integer'')
     | Some w \<Rightarrow> andThen (as_bytes w) (\<lambda>b. Inr (bytes_int b)))"

definition bytes_to_bool :: "bytes \<Rightarrow> bool" where
  "bytes_to_bool b = list_ex (\<lambda>c. c \<noteq> CHR 0x00) b"

definition to_bool :: "'s sval option \<Rightarrow> bool res" where
  "to_bool v = (case v of None \<Rightarrow> Inr False | Some w \<Rightarrow> andThen (as_bytes w) (\<lambda>b. Inr (bytes_to_bool b)))"

definition put_int :: "bytes \<Rightarrow> int \<Rightarrow> ('s, 'e) contract \<Rightarrow> ('s, 'e) contract" where
  "put_int k n = LocalPut k (Raw (int_bytes n))"

definition put_bool :: "bytes \<Rightarrow> bool \<Rightarrow> ('s, 'e) contract \<Rightarrow> ('s, 'e) contract" where
  "put_bool k b = LocalPut k (Raw (if b then [CHR 0x01] else [CHR 0x00]))"

section \<open>Rules for contract state\<close>

named_theorems storage_simps \<open>reading a contract's state after an update\<close>

lemma LocalGet_LocalPut [storage_simps, simp]:
  "LocalGet k' (LocalPut k v c) = (if k' = k then Some v else LocalGet k' c)"
  by (simp add: LocalGet_def LocalPut_def kv.get_put)

lemma LocalGet_LocalDelete [storage_simps, simp]:
  "LocalGet k' (LocalDelete k c) = (if k' = k then None else LocalGet k' c)"
  by (simp add: LocalGet_def LocalDelete_def kv.get_delete)

lemma LocalGet_Notify [storage_simps, simp]: "LocalGet k (Notify e c) = LocalGet k c"
  by (simp add: LocalGet_def Notify_def)

lemma LocalFind_Notify [storage_simps, simp]: "LocalFind p (Notify e c) = LocalFind p c"
  by (simp add: LocalFind_def Notify_def)

lemma LocalGet_new_contract [storage_simps, simp]: "LocalGet k new_contract = None"
  by (simp add: LocalGet_def new_contract_def store_get_def)

lemma notifications_updates [storage_simps, simp]:
  "notifications (LocalPut k v c) = notifications c"
  "notifications (LocalDelete k c) = notifications c"
  "notifications (Notify e c) = notifications c @ [e]"
  by (simp_all add: LocalPut_def LocalDelete_def Notify_def)

lemma contract_ok_updates [storage_simps, simp, intro]:
  "contract_ok c \<Longrightarrow> contract_ok (LocalPut k v c)"
  "contract_ok c \<Longrightarrow> contract_ok (LocalDelete k c)"
  "contract_ok c \<Longrightarrow> contract_ok (Notify e c)"
  "contract_ok new_contract"
  by (simp_all add: contract_ok_def LocalPut_def LocalDelete_def Notify_def new_contract_def
      kv.ok_put kv.ok_delete, simp add: store_ok_def)

lemma LocalGet_deleteKeys [storage_simps, simp]:
  "LocalGet k (deleteKeys ks c) = (if k \<in> set ks then None else LocalGet k c)"
  by (induction ks arbitrary: c) (auto simp: deleteKeys_def)

lemma contract_ok_deleteKeys [storage_simps, simp, intro]: "contract_ok c \<Longrightarrow> contract_ok (deleteKeys ks c)"
  by (induction ks arbitrary: c) (auto simp: deleteKeys_def)

lemma notifications_deleteKeys [storage_simps, simp]: "notifications (deleteKeys ks c) = notifications c"
  by (induction ks arbitrary: c) (auto simp: deleteKeys_def)

lemma put_int_simps [storage_simps, simp]:
  "LocalGet k' (put_int k n c) = (if k' = k then Some (Raw (int_bytes n)) else LocalGet k' c)"
  "notifications (put_int k n c) = notifications c"
  "contract_ok c \<Longrightarrow> contract_ok (put_int k n c)"
  by (simp_all add: put_int_def)

lemma put_bool_simps [storage_simps, simp]:
  "LocalGet k' (put_bool k b c) = (if k' = k then Some (Raw [if b then CHR 0x01 else CHR 0x00]) else LocalGet k' c)"
  "notifications (put_bool k b c) = notifications c"
  "contract_ok c \<Longrightarrow> contract_ok (put_bool k b c)"
  by (simp_all add: put_bool_def)

lemma LocalFind_iff:
  "contract_ok c \<Longrightarrow> (k, v) \<in> set (LocalFind p c) \<longleftrightarrow> prefix p k \<and> LocalGet k c = Some v"
  by (simp add: contract_ok_def LocalFind_def LocalGet_def kv.find_get)

lemma LocalFind_distinct: "contract_ok c \<Longrightarrow> distinct (map fst (LocalFind p c))"
  by (simp add: contract_ok_def LocalFind_def kv.find_distinct)

lemma LocalFind_sorted: "contract_ok c \<Longrightarrow> sorted_wrt (<) (map fst (LocalFind p c))"
  by (simp add: contract_ok_def LocalFind_def kv.find_sorted)

lemma LocalFind_cong:
  assumes "contract_ok c" and "contract_ok d"
    and "\<And>k. prefix p k \<Longrightarrow> LocalGet k c = LocalGet k d"
  shows "LocalFind p c = LocalFind p d"
  using assms unfolding contract_ok_def LocalFind_def LocalGet_def by (rule kv.find_cong)

text \<open>When two contracts hold corresponding entries under two prefixes, their searches correspond.\<close>

lemma LocalFind_shift:
  assumes c: "contract_ok c" and d: "contract_ok d"
    and corr: "\<And>k. LocalGet (p @ k) c = map_option g (LocalGet (q @ k) d)"
  shows "LocalFind p c = map (\<lambda>(k, v). (p @ drop (length q) k, g v)) (LocalFind q d)"
proof (rule map_sorted_distinct_set_unique)
  let ?r = "map (\<lambda>(k, v). (p @ drop (length q) k, g v)) (LocalFind q d)"
  have q: "\<exists>x. fst e = q @ x" if "e \<in> set (LocalFind q d)" for e
    using that by (auto simp: LocalFind_def store_find_def prefix_def)
  have "sorted_wrt (<) (map (\<lambda>e. p @ drop (length q) (fst e)) (LocalFind q d))"
    unfolding sorted_wrt_map
  proof (rule sorted_wrt_mono_rel)
    show "sorted_wrt (\<lambda>x y. fst x < fst y) (LocalFind q d)"
      using LocalFind_sorted [OF d, of q] by (simp add: sorted_wrt_map)
    show "p @ drop (length q) (fst x) < p @ drop (length q) (fst y)"
      if "x \<in> set (LocalFind q d)" "y \<in> set (LocalFind q d)" "fst x < fst y" for x y
      using q [OF that(1)] q [OF that(2)] that(3) by auto
  qed
  moreover have "map fst ?r = map (\<lambda>e. p @ drop (length q) (fst e)) (LocalFind q d)" by (simp add: case_prod_beta)
  ultimately have s: "sorted_wrt (<) (map fst ?r)" by (simp only:)
  then show "sorted (map fst ?r)" "distinct (map fst ?r)" by (simp_all add: strict_sorted_iff)
  show "sorted (map fst (LocalFind p c))" "distinct (map fst (LocalFind p c))"
    using LocalFind_sorted [OF c, of p] by (simp_all add: strict_sorted_iff)
  have mem: "(k, v) \<in> set (LocalFind p c) \<longleftrightarrow> (k, v) \<in> set ?r" for k v
  proof -
    have "(k, v) \<in> set (LocalFind p c) \<longleftrightarrow> (\<exists>x. k = p @ x \<and> LocalGet (p @ x) c = Some v)"
      by (auto simp: LocalFind_iff [OF c] prefix_def)
    also have "\<dots> \<longleftrightarrow> (\<exists>x w. k = p @ x \<and> LocalGet (q @ x) d = Some w \<and> v = g w)"
      unfolding corr by auto
    also have "\<dots> \<longleftrightarrow> (\<exists>k' w. (k', w) \<in> set (LocalFind q d) \<and> k = p @ drop (length q) k' \<and> v = g w)"
    proof
      assume "\<exists>x w. k = p @ x \<and> LocalGet (q @ x) d = Some w \<and> v = g w"
      then obtain x w where "k = p @ x" "LocalGet (q @ x) d = Some w" "v = g w" by blast
      then show "\<exists>k' w. (k', w) \<in> set (LocalFind q d) \<and> k = p @ drop (length q) k' \<and> v = g w"
        by (intro exI [of _ "q @ x"] exI [of _ w]) (simp add: LocalFind_iff [OF d])
    qed (auto simp: LocalFind_iff [OF d] prefix_def)
    also have "\<dots> \<longleftrightarrow> (k, v) \<in> set ?r" by (simp add: image_iff split_beta Bex_def)
    finally show ?thesis .
  qed
  then show eq: "set (LocalFind p c) = set ?r" by auto
  show "inj_on fst (set (LocalFind p c) \<union> set ?r)"
    using LocalFind_distinct [OF c, of p] by (simp only: eq [symmetric] Un_absorb distinct_map)
qed

lemma LocalFind_prefix: "e \<in> set (LocalFind p c) \<Longrightarrow> prefix p (fst e)"
  by (auto simp: LocalFind_def store_find_def)

text \<open>What a search with \<open>RemovePrefix\<close> yields: the rest of each key, and the value.\<close>

definition find_no_prefix :: "bytes \<Rightarrow> ('s, 'e) contract \<Rightarrow> (bytes \<times> 's sval) list" where
  "find_no_prefix p c = map (\<lambda>(k, v). (drop (length p) k, v)) (LocalFind p c)"

lemma LocalFind_no_prefix: "LocalFind p c = map (\<lambda>(k, v). (p @ k, v)) (find_no_prefix p c)"
proof -
  have "(\<lambda>(k, v). (p @ k, v)) ((\<lambda>(k, v). (drop (length p) k, v)) e) = e" if "e \<in> set (LocalFind p c)" for e
    using LocalFind_prefix [OF that] by (cases e) (auto simp: prefix_def)
  then have "map (\<lambda>e. (\<lambda>(k, v). (p @ k, v)) ((\<lambda>(k, v). (drop (length p) k, v)) e)) (LocalFind p c) = LocalFind p c"
    by (intro map_idI)
  then show ?thesis by (simp only: find_no_prefix_def map_map comp_def)
qed

lemma find_no_prefix_iff:
  assumes "contract_ok c"
  shows "(k, v) \<in> set (find_no_prefix p c) \<longleftrightarrow> LocalGet (p @ k) c = Some v"
proof -
  have "(p @ k, v) \<in> set (LocalFind p c) \<longleftrightarrow> (k, v) \<in> set (find_no_prefix p c)"
    by (subst LocalFind_no_prefix) (force simp: image_iff)
  then show ?thesis using LocalFind_iff [OF assms, of "p @ k" v p] by simp
qed

lemma find_no_prefix_sorted:
  assumes "contract_ok c"
  shows "sorted_wrt (<) (map fst (find_no_prefix p c))"
proof -
  have "map fst (LocalFind p c) = map ((@) p) (map fst (find_no_prefix p c))"
    by (subst LocalFind_no_prefix) (simp add: comp_def split_beta)
  then have "sorted_wrt (<) (map ((@) p) (map fst (find_no_prefix p c)))"
    using LocalFind_sorted [OF assms, of p] by simp
  then show ?thesis by (simp only: sorted_wrt_map append_less_iff)
qed

lemma find_no_prefix_distinct: "contract_ok c \<Longrightarrow> distinct (map fst (find_no_prefix p c))"
  using find_no_prefix_sorted strict_sorted_iff by blast

lemma find_keys_no_prefix: "find_keys_no_prefix p c = map fst (find_no_prefix p c)"
  by (simp add: find_keys_no_prefix_def find_no_prefix_def comp_def split_beta)

text \<open>The sum of a measure over the entries of a contract's storage under a prefix.\<close>

definition LocalSum :: "('s sval \<Rightarrow> int) \<Rightarrow> bytes \<Rightarrow> ('s, 'e) contract \<Rightarrow> int" where
  "LocalSum f p c = store_sum f p (storage c)"

lemma LocalSum_find: "LocalSum f p c = sum_list (map (\<lambda>e. f (snd e)) (LocalFind p c))"
  by (simp add: LocalSum_def store_sum_def LocalFind_def)

lemma LocalSum_LocalPut [storage_simps]:
  "contract_ok c \<Longrightarrow> LocalSum f p (LocalPut k v c) = LocalSum f p c
    + (if prefix p k then f v - entry_val f (LocalGet k c) else 0)"
  by (simp add: LocalSum_def LocalPut_def LocalGet_def contract_ok_def store_sum_put)

lemma LocalSum_LocalDelete [storage_simps]:
  "contract_ok c \<Longrightarrow> LocalSum f p (LocalDelete k c) = LocalSum f p c
    - (if prefix p k then entry_val f (LocalGet k c) else 0)"
  by (simp add: LocalSum_def LocalDelete_def LocalGet_def contract_ok_def store_sum_delete)

lemma LocalSum_Notify [storage_simps, simp]: "LocalSum f p (Notify e c) = LocalSum f p c"
  by (simp add: LocalSum_def Notify_def)

lemma LocalSum_put_int [storage_simps]:
  "contract_ok c \<Longrightarrow> LocalSum f p (put_int k n c) = LocalSum f p c
    + (if prefix p k then f (Raw (int_bytes n)) - entry_val f (LocalGet k c) else 0)"
  by (simp add: put_int_def LocalSum_LocalPut)

lemma LocalSum_new_contract [storage_simps, simp]: "LocalSum f p new_contract = 0"
  by (simp add: LocalSum_def new_contract_def store_sum_def store_find_def)

lemma deserialize_Ser [simp]: "deserialize (Ser x) = Inr x" "deserialize v = Inr x \<longleftrightarrow> v = Ser x"
  by (auto simp: deserialize_def split: sval.splits)

lemma as_bytes_Raw [simp]: "as_bytes (Raw b) = Inr b" "as_bytes v = Inr b \<longleftrightarrow> v = Raw b"
  by (auto simp: as_bytes_def split: sval.splits)

lemma to_bool_bool [simp]: "to_bool (Some (Raw [if b then CHR 0x01 else CHR 0x00])) = Inr b"
  by (simp add: to_bool_def bytes_to_bool_def)

lemma to_integer_int [simp]: "to_integer (Some (Raw (int_bytes n))) = Inr n"
  by (simp add: to_integer_def)

lemma to_integer_Some: "to_integer v = Inr n \<Longrightarrow> \<exists>b. v = Some (Raw b)"
  by (auto simp: to_integer_def split: option.splits)

text \<open>A counter kept under a key, read without failing; used to state what a contract records.\<close>

definition raw_int :: "bytes \<Rightarrow> ('s, 'e) contract \<Rightarrow> int" where
  "raw_int k c = (case LocalGet k c of Some (Raw b) \<Rightarrow> bytes_int b | _ \<Rightarrow> 0)"

definition is_raw :: "'s sval option \<Rightarrow> bool" where
  "is_raw v \<longleftrightarrow> (\<exists>b. v = Some (Raw b))"

lemma is_raw_simps [simp]: "is_raw (Some (Raw b))" "\<not> is_raw None" "\<not> is_raw (Some (Ser x))"
  by (simp_all add: is_raw_def)

lemma raw_int_updates [storage_simps, simp]:
  "raw_int k' (put_int k n c) = (if k' = k then n else raw_int k' c)"
  "raw_int k (Notify e c) = raw_int k c"
  "k' \<noteq> k \<Longrightarrow> raw_int k' (put_bool k b c) = raw_int k' c"
  "k' \<noteq> k \<Longrightarrow> raw_int k' (LocalPut k v c) = raw_int k' c"
  "k' \<noteq> k \<Longrightarrow> raw_int k' (LocalDelete k c) = raw_int k' c"
  "raw_int k new_contract = 0"
  by (simp_all add: raw_int_def)

lemma to_integer_raw: "is_raw (LocalGet k c) \<Longrightarrow> to_integer (LocalGet k c) = Inr (raw_int k c)"
  by (auto simp: is_raw_def to_integer_def raw_int_def)

lemma to_integer_InrD: "to_integer (LocalGet k c) = Inr n \<Longrightarrow> is_raw (LocalGet k c) \<and> n = raw_int k c"
  by (auto simp: is_raw_def to_integer_def raw_int_def split: option.splits)

lemma raw_int_cong: "LocalGet k c = LocalGet k d \<Longrightarrow> raw_int k c = raw_int k d"
  by (simp add: raw_int_def)

end
