(* ===== verification/Runtime.thy ===== *)
theory Runtime
  imports Storage
begin

text \<open>
  The run-time environment of a contract call: what the code asks of the virtual machine, of the native
  contracts and of the cryptographic library, none of which is code of the repository. Every field is a
  parameter of the definitions that use it; a theorem that needs more of one than its type says so in a
  hypothesis.
\<close>

text \<open>What \<open>std.JSONDeserialize\<close> gives.\<close>

datatype json = JNull | JBool bool | JInt int | JString string | JArray "json list" | JMap "(string \<times> json) list"

record env =
  rt_witness :: "bytes \<Rightarrow> bool"           \<comment> \<open>runtime.CheckWitness of a well-formed argument\<close>
  rt_committee :: "bytes list"             \<comment> \<open>neo.GetCommittee\<close>
  rt_committee_address :: bytes            \<comment> \<open>neo.GetCommitteeAddress\<close>
  rt_alphabet_role :: "int \<Rightarrow> bytes list"  \<comment> \<open>roles.GetDesignatedByRole(roles.NeoFSAlphabet, index)\<close>
  rt_height :: int                         \<comment> \<open>ledger.CurrentIndex\<close>
  rt_time :: int                           \<comment> \<open>runtime.GetTime, in milliseconds\<close>
  rt_caller :: bytes                       \<comment> \<open>runtime.GetCallingScriptHash\<close>
  rt_self :: bytes                         \<comment> \<open>runtime.GetExecutingScriptHash\<close>
  rt_sender :: bytes                       \<comment> \<open>runtime.GetScriptContainer().Sender\<close>
  rt_tx_hash :: bytes                      \<comment> \<open>runtime.GetScriptContainer().Hash\<close>
  rt_signers :: "bytes list"               \<comment> \<open>accounts of runtime.CurrentSigners\<close>
  rt_is_key :: "bytes \<Rightarrow> bool"             \<comment> \<open>the bytes are the encoding of a public key\<close>
  rt_std_account :: "bytes \<Rightarrow> bytes"       \<comment> \<open>contract.CreateStandardAccount of such bytes\<close>
  rt_multisig :: "int \<Rightarrow> bytes list \<Rightarrow> bytes"  \<comment> \<open>contract.CreateMultisigAccount\<close>
  rt_sha256 :: "bytes \<Rightarrow> bytes"            \<comment> \<open>crypto.Sha256\<close>
  rt_ripemd160 :: "bytes \<Rightarrow> bytes"         \<comment> \<open>crypto.Ripemd160\<close>
  rt_verify_ecdsa :: "bytes \<Rightarrow> bytes \<Rightarrow> bytes \<Rightarrow> bool"  \<comment> \<open>crypto.VerifyWithECDsa(msg, pub, sig)\<close>
  rt_atoi16 :: "string \<Rightarrow> int res"         \<comment> \<open>std.Atoi(s, 16)\<close>
  rt_base58 :: "bytes \<Rightarrow> string"           \<comment> \<open>std.Base58Encode\<close>
  rt_address_to_hash :: "string \<Rightarrow> bytes"  \<comment> \<open>address.ToHash160\<close>
  rt_hash_to_address :: "bytes \<Rightarrow> string"  \<comment> \<open>address.FromHash160\<close>
  rt_address_version :: char               \<comment> \<open>runtime.GetAddressVersion\<close>
  rt_is_contract :: "bytes \<Rightarrow> bool"        \<comment> \<open>management.IsContract, management.GetContract != nil\<close>
  rt_has_method :: "bytes \<Rightarrow> string \<Rightarrow> nat \<Rightarrow> bool"  \<comment> \<open>management.HasMethod\<close>
  rt_nns_hash :: "bytes option"            \<comment> \<open>management.GetContractByID(1)\<close>
  rt_json :: "string \<Rightarrow> json res"          \<comment> \<open>std.JSONDeserialize\<close>
  rt_burn_gas :: "int \<Rightarrow> bool"             \<comment> \<open>runtime.BurnGas of that amount succeeds\<close>
  rt_gas :: bytes                          \<comment> \<open>gas.Hash\<close>
  rt_neo :: bytes                          \<comment> \<open>neo.Hash\<close>

text \<open>Lengths of \<open>interop.Hash160\<close>, \<open>interop.Hash256\<close> and a compressed public key.\<close>

abbreviation Hash160Len :: nat where "Hash160Len \<equiv> 20"
abbreviation Hash256Len :: nat where "Hash256Len \<equiv> 32"
abbreviation PublicKeyCompressedLen :: nat where "PublicKeyCompressedLen \<equiv> 33"

text \<open>\<open>runtime.CheckWitness\<close> takes an account hash or a public key and faults on anything else.\<close>

definition CheckWitness :: "env \<Rightarrow> bytes \<Rightarrow> bool res" where
  "CheckWitness E h = (if length h = Hash160Len \<or> length h = PublicKeyCompressedLen
     then Inr (rt_witness E h) else Inl (Fault ''neither a key nor a hash''))"

text \<open>\<open>contract.CreateStandardAccount\<close> faults on bytes that are not the encoding of a public key.\<close>

definition CreateStandardAccount :: "env \<Rightarrow> bytes \<Rightarrow> bytes res" where
  "CreateStandardAccount E k = (if rt_is_key E k then Inr (rt_std_account E k) else Inl (Fault ''invalid public key''))"

lemma CreateStandardAccount_Inr [simp]:
  "CreateStandardAccount E k = Inr a \<longleftrightarrow> rt_is_key E k \<and> a = rt_std_account E k"
  by (auto simp: CreateStandardAccount_def)

lemma CreateStandardAccount_key [simp]: "rt_is_key E k \<Longrightarrow> CreateStandardAccount E k = Inr (rt_std_account E k)"
  by simp

lemma CheckWitness_Inr_True: "CheckWitness E h = Inr True \<Longrightarrow> rt_witness E h"
  by (simp add: CheckWitness_def split: if_splits)

lemma CheckWitness_Inr: "CheckWitness E h = Inr b \<Longrightarrow> b = rt_witness E h"
  by (simp add: CheckWitness_def split: if_splits)

text \<open>Division, which faults on a zero divisor, and a byte as an integer in a byte string literal.\<close>

definition quotient :: "int \<Rightarrow> int \<Rightarrow> int res" where
  "quotient a b = (if b = 0 then Inl (Fault ''division by zero'') else Inr (goDiv a b))"

definition BurnGas :: "env \<Rightarrow> int \<Rightarrow> unit res" where
  "BurnGas E n = (if rt_burn_gas E n then Inr () else Inl (Fault ''GAS must be positive and enough''))"

lemma BurnGas_Inr [simp]: "BurnGas E n = Inr u \<longleftrightarrow> rt_burn_gas E n"
  by (simp add: BurnGas_def)

text \<open>
  A \<open>[]any\<close> of deployment arguments, and the virtual machine's dynamic values in general.
\<close>

datatype arg = ANull | AInt int | ABool bool | ABytes bytes | AArray "arg list"

definition arg_int :: "arg \<Rightarrow> int res" where
  "arg_int a = (case a of AInt n \<Rightarrow> Inr n | ABytes b \<Rightarrow> Inr (bytes_int b) | ABool b \<Rightarrow> Inr (of_bool b)
     | _ \<Rightarrow> Inl (Fault ''not an integer''))"

definition arg_bytes :: "arg \<Rightarrow> bytes res" where
  "arg_bytes a = (case a of ABytes b \<Rightarrow> Inr b | ANull \<Rightarrow> Inr [] | AInt n \<Rightarrow> Inr (int_bytes n)
     | ABool b \<Rightarrow> Inr [if b then CHR 0x01 else CHR 0x00] | AArray l \<Rightarrow> Inl (Fault ''not a byte string''))"

definition arg_bool :: "arg \<Rightarrow> bool res" where
  "arg_bool a = (case a of ANull \<Rightarrow> Inr False | AInt n \<Rightarrow> Inr (n \<noteq> 0) | ABool b \<Rightarrow> Inr b
     | ABytes b \<Rightarrow> Inr (list_ex (\<lambda>c. c \<noteq> CHR 0x00) b) | AArray l \<Rightarrow> Inr True)"

text \<open>\<open>args[len(args)-1].(int)\<close>, the version the update of a contract starts from.\<close>

definition last_version :: "arg list \<Rightarrow> int res" where
  "last_version args = (if args = [] then Inl (Fault ''index out of range'') else arg_int (last args))"

text \<open>
  \<open>data.(struct{...})\<close> and \<open>args[i]\<close>: a field of the deployment arguments by its position.
\<close>

definition arg_at :: "nat \<Rightarrow> arg list \<Rightarrow> arg res" where
  "arg_at i args = (if i < length args then Inr (args ! i) else Inl (Fault ''index out of range''))"

definition arg_array :: "arg \<Rightarrow> arg list res" where
  "arg_array a = (case a of AArray l \<Rightarrow> Inr l | _ \<Rightarrow> Inl (Fault ''not an array''))"

definition arg_byte_arrays :: "arg \<Rightarrow> bytes list res" where
  "arg_byte_arrays a = (case a of ANull \<Rightarrow> Inr [] | _ \<Rightarrow> andThen (arg_array a) (mapR arg_bytes))"

text \<open>The slice expressions \<open>b[i:j]\<close> and \<open>b[i:]\<close>.\<close>

definition slice :: "nat \<Rightarrow> nat \<Rightarrow> bytes \<Rightarrow> bytes res" where
  "slice i j b = (if i \<le> j \<and> j \<le> length b then Inr (take (j - i) (drop i b)) else Inl (Fault ''slice out of range''))"

definition slice_from :: "nat \<Rightarrow> bytes \<Rightarrow> bytes res" where
  "slice_from i b = (if i \<le> length b then Inr (drop i b) else Inl (Fault ''slice out of range''))"

lemma slice_Inr [simp]: "slice i j b = Inr r \<longleftrightarrow> i \<le> j \<and> j \<le> length b \<and> r = take (j - i) (drop i b)"
  "slice_from i b = Inr r \<longleftrightarrow> i \<le> length b \<and> r = drop i b"
  by (auto simp: slice_def slice_from_def)

end
