(* ===== verification/Common.thy ===== *)
theory Common
  imports Runtime
begin

text \<open>
  The package \<open>common\<close>: Alphabet and committee addresses, witness checks, contract versions, transfer
  details, name resolution and the voting of the notary-disabled main chain contract.
\<close>

section \<open>Alphabet and committee (ir.go, update.go, witness.go)\<close>

definition ErrAlphabetWitnessFailed :: string where
  "ErrAlphabetWitnessFailed = ''alphabet witness check failed''"

definition ErrOwnerWitnessFailed :: string where
  "ErrOwnerWitnessFailed = ''owner witness check failed''"

definition ErrWitnessFailed :: string where
  "ErrWitnessFailed = ''witness check failed''"

text \<open>The number of signatures \<open>Multiaddress\<close> asks for: 2/3 of the keys plus one, or a majority.\<close>

definition multiaddress_threshold :: "nat \<Rightarrow> bool \<Rightarrow> nat" where
  "multiaddress_threshold n committee = (if committee then n div 2 + 1 else n * 2 div 3 + 1)"

definition Multiaddress :: "env \<Rightarrow> bytes list \<Rightarrow> bool \<Rightarrow> bytes" where
  "Multiaddress E n committee = rt_multisig E (int (multiaddress_threshold (length n) committee)) n"

fun InnerRingInvoker :: "env \<Rightarrow> bytes list \<Rightarrow> bytes res" where
  "InnerRingInvoker E [] = Inr []"
| "InnerRingInvoker E (node # ir) = andThen (CheckWitness E node)
     (\<lambda>ok. if ok then Inr node else InnerRingInvoker E ir)"

definition InnerRingNodes :: "env \<Rightarrow> bytes list" where
  "InnerRingNodes E = rt_alphabet_role E (rt_height E + 1)"

definition AlphabetNodes :: "env \<Rightarrow> bytes list" where
  "AlphabetNodes E = rt_committee E"

definition AlphabetAddress :: "env \<Rightarrow> bytes" where
  "AlphabetAddress E = Multiaddress E (rt_committee E) False"

definition CommitteeAddress :: "env \<Rightarrow> bytes" where
  "CommitteeAddress E = Multiaddress E (rt_committee E) True"

definition ContainsAlphabetWitness :: "env \<Rightarrow> bool res" where
  "ContainsAlphabetWitness E = andThen (CheckWitness E (Multiaddress E (rt_committee E) False))
     (\<lambda>ok. if ok then Inr True else CheckWitness E (Multiaddress E (rt_committee E) True))"

definition HasUpdateAccess :: "env \<Rightarrow> bool res" where
  "HasUpdateAccess E = CheckWitness E (CommitteeAddress E)"

definition checkWitnessWithPanic :: "env \<Rightarrow> bytes \<Rightarrow> string \<Rightarrow> unit res" where
  "checkWitnessWithPanic E caller panicMsg = andThen (CheckWitness E caller)
     (\<lambda>ok. if ok then Inr () else Inl (Panic panicMsg))"

definition CheckAlphabetWitness :: "env \<Rightarrow> unit res" where
  "CheckAlphabetWitness E = checkWitnessWithPanic E (AlphabetAddress E) ErrAlphabetWitnessFailed"

definition CheckOwnerWitness :: "env \<Rightarrow> bytes \<Rightarrow> unit res" where
  "CheckOwnerWitness E caller = checkWitnessWithPanic E caller ErrOwnerWitnessFailed"

definition CheckWitnessPanic :: "env \<Rightarrow> bytes \<Rightarrow> unit res" where
  "CheckWitnessPanic E caller = checkWitnessWithPanic E caller ErrWitnessFailed"

text \<open>An address whose witness is there: the guard of a privileged method.\<close>

definition witnessed :: "env \<Rightarrow> bytes \<Rightarrow> bool" where
  "witnessed E h \<longleftrightarrow> CheckWitness E h = Inr True"

definition alphabet_ok :: "env \<Rightarrow> bool" where
  "alphabet_ok E \<longleftrightarrow> witnessed E (AlphabetAddress E)"

named_theorems guard_simps \<open>the witness guards of the contracts\<close>

lemma checkWitnessWithPanic_Inr [guard_simps, simp]:
  "checkWitnessWithPanic E h m = Inr u \<longleftrightarrow> witnessed E h"
  by (auto simp: checkWitnessWithPanic_def witnessed_def)

lemma CheckAlphabetWitness_Inr [guard_simps, simp]: "CheckAlphabetWitness E = Inr u \<longleftrightarrow> alphabet_ok E"
  by (simp add: CheckAlphabetWitness_def alphabet_ok_def)

lemma CheckOwnerWitness_Inr [guard_simps, simp]: "CheckOwnerWitness E h = Inr u \<longleftrightarrow> witnessed E h"
  by (simp add: CheckOwnerWitness_def)

lemma CheckWitnessPanic_Inr [guard_simps, simp]: "CheckWitnessPanic E h = Inr u \<longleftrightarrow> witnessed E h"
  by (simp add: CheckWitnessPanic_def)

lemma guards_ok [guard_simps, simp]:
  "alphabet_ok E \<Longrightarrow> CheckAlphabetWitness E = Inr ()" "witnessed E h \<Longrightarrow> CheckOwnerWitness E h = Inr ()"
  "witnessed E h \<Longrightarrow> CheckWitnessPanic E h = Inr ()"
  by simp_all

lemma InnerRingInvoker_member:
  "InnerRingInvoker E ir = Inr k \<Longrightarrow> k \<noteq> [] \<Longrightarrow> k \<in> set ir \<and> rt_witness E k"
  by (induction ir) (auto split: if_splits dest: CheckWitness_Inr_True)

section \<open>Versions (version.go)\<close>

definition Version :: int where "Version = 0 * 1000000 + 28 * 1000 + 0"

definition PrevVersion :: int where "PrevVersion = 0 * 1000000 + 25 * 1000 + 0"

definition CheckVersion :: "int \<Rightarrow> unit res" where
  "CheckVersion from =
     (if from < PrevVersion
        then Inl (Panic (''previous version mismatch'' @ '': expected >='' @ itoa10 PrevVersion))
      else if from \<ge> Version
        then Inl (Panic (''contract is already of the latest version'' @ '': '' @ itoa10 Version))
      else Inr ())"

definition AppendVersion :: "arg list option \<Rightarrow> arg list" where
  "AppendVersion data = (case data of None \<Rightarrow> [AInt Version] | Some args \<Rightarrow> args @ [AInt Version])"

lemma CheckVersion_Inr [guard_simps, simp]:
  "CheckVersion v = Inr u \<longleftrightarrow> PrevVersion \<le> v \<and> v < Version"
  by (auto simp: CheckVersion_def)

lemma last_version_AppendVersion: "last_version (AppendVersion data) = Inr Version"
  by (auto simp: last_version_def AppendVersion_def arg_int_def split: option.splits)

text \<open>
  Every contract's \<open>Update\<close>: the committee's witness, then the management contract's \<open>update\<close>
  method, which is a parameter and receives the arguments with the version appended.
\<close>

definition update_by_committee ::
  "env \<Rightarrow> (bytes \<Rightarrow> bytes \<Rightarrow> arg list \<Rightarrow> 'w \<Rightarrow> 'w res) \<Rightarrow> bytes \<Rightarrow> bytes \<Rightarrow> arg list option \<Rightarrow> 'w \<Rightarrow> 'w res" where
  "update_by_committee E management nefFile manifest data w =
     andThen (HasUpdateAccess E) (\<lambda>ok.
     if \<not> ok then Inl (Panic ''only committee can update contract'')
     else management nefFile manifest (AppendVersion data) w)"

section \<open>Transfer details and wallets (transfer.go)\<close>

definition WalletToScriptHash :: "bytes \<Rightarrow> bytes res" where
  "WalletToScriptHash wallet = (if length wallet < 5 then Inl (Fault ''slice out of range'')
     else Inr (take (length wallet - 5) (drop 1 wallet)))"

definition MintTransferDetails :: "bytes \<Rightarrow> bytes" where
  "MintTransferDetails txDetails = CHR 0x01 # txDetails"

definition BurnTransferDetails :: "bytes \<Rightarrow> bytes" where
  "BurnTransferDetails txDetails = CHR 0x02 # txDetails"

definition LockTransferDetails :: "bytes \<Rightarrow> bytes" where
  "LockTransferDetails txDetails = CHR 0x03 # txDetails"

definition UnlockTransferDetails :: "int \<Rightarrow> bytes" where
  "UnlockTransferDetails epoch = CHR 0x04 # int_bytes epoch"

definition ContainerFeeTransferDetails :: "bytes \<Rightarrow> bytes" where
  "ContainerFeeTransferDetails cid = CHR 0x10 # cid"

section \<open>Name resolution (nns.go, netmap.go)\<close>

text \<open>The NNS contract is reached through its \<open>resolve\<close> method, a parameter here.\<close>

definition InferNNSHash :: "env \<Rightarrow> bytes res" where
  "InferNNSHash E = (case rt_nns_hash E of None \<Rightarrow> Inl (Panic ''no NNS contract'') | Some h \<Rightarrow> Inr h)"

text \<open>Storing an integer in a byte slice: the machine takes -128..255 and keeps the low byte.\<close>

definition set_byte :: "int \<Rightarrow> char res" where
  "set_byte n = (if - 128 \<le> n \<and> n \<le> 255 then Inr (char_of n) else Inl (Fault ''byte overflow''))"

definition ResolveFSContractWithNNS ::
  "env \<Rightarrow> (bytes \<Rightarrow> string \<Rightarrow> int \<Rightarrow> string list res) \<Rightarrow> bytes \<Rightarrow> string \<Rightarrow> bytes res" where
  "ResolveFSContractWithNNS E resolve nns contractName =
     andThen (resolve nns (contractName @ ''.'' @ ''neofs'') 16) (\<lambda>records.
     case records of
       [] \<Rightarrow> Inl (Panic (''did not find a record of the '' @ contractName @ '' contract in the NNS''))
     | r # _ \<Rightarrow>
         if length r = 2 * Hash160Len
         then mapR (\<lambda>i. let ii = (Hash160Len - i - 1) * 2 in
                andThen (rt_atoi16 E (take 2 (drop ii r))) set_byte) [0..<Hash160Len]
         else Inr (rt_address_to_hash E r))"

definition ResolveFSContract ::
  "env \<Rightarrow> (bytes \<Rightarrow> string \<Rightarrow> int \<Rightarrow> string list res) \<Rightarrow> string \<Rightarrow> bytes res" where
  "ResolveFSContract E resolve name =
     andThen (InferNNSHash E) (\<lambda>nns. ResolveFSContractWithNNS E resolve nns name)"

definition common_SubscribeForNewEpoch ::
  "env \<Rightarrow> (bytes \<Rightarrow> string \<Rightarrow> int \<Rightarrow> string list res) \<Rightarrow> (bytes \<Rightarrow> bytes \<Rightarrow> 'w \<Rightarrow> 'w res) \<Rightarrow> 'w \<Rightarrow> 'w res" where
  "common_SubscribeForNewEpoch E resolve subscribe w =
     andThen (ResolveFSContract E resolve ''netmap'') (\<lambda>h. subscribe h (rt_self E) w)"

definition common_UnsubscribeFromNewEpoch ::
  "env \<Rightarrow> (bytes \<Rightarrow> string \<Rightarrow> int \<Rightarrow> string list res) \<Rightarrow> (bytes \<Rightarrow> bytes \<Rightarrow> 'w \<Rightarrow> 'w res) \<Rightarrow> 'w \<Rightarrow> 'w res" where
  "common_UnsubscribeFromNewEpoch E resolve unsubscribe w =
     andThen (ResolveFSContract E resolve ''netmap'') (\<lambda>h. unsubscribe h (rt_self E) w)"

section \<open>Voting (vote.go)\<close>

record ballot =
  ID :: bytes
  Voters :: "bytes list"
  Height :: int

text \<open>The structures the main chain contract, the only one that votes, serializes.\<close>

datatype main_ser = SBallots "ballot list" | SKeys "bytes list"

definition voteKey :: bytes where "voteKey = ''ballots''"

definition blockDiff :: int where "blockDiff = 20"

definition SetSerialized :: "bytes \<Rightarrow> 's \<Rightarrow> ('s, 'e) contract \<Rightarrow> ('s, 'e) contract" where
  "SetSerialized key value c = LocalPut key (Ser value) c"

lemma SetSerialized_simps [storage_simps, simp]:
  "LocalGet k' (SetSerialized k v c) = (if k' = k then Some (Ser v) else LocalGet k' c)"
  "notifications (SetSerialized k v c) = notifications c"
  "contract_ok c \<Longrightarrow> contract_ok (SetSerialized k v c)"
  by (simp_all add: SetSerialized_def)

lemma LocalSum_SetSerialized [storage_simps]:
  "contract_ok c \<Longrightarrow> LocalSum f p (SetSerialized k v c) = LocalSum f p c
    + (if prefix p k then f (Ser v) - entry_val f (LocalGet k c) else 0)"
  by (simp add: SetSerialized_def LocalSum_LocalPut)

definition InitVote :: "(main_ser, 'e) contract \<Rightarrow> (main_ser, 'e) contract" where
  "InitVote c = SetSerialized voteKey (SBallots []) c"

definition getBallots :: "(main_ser, 'e) contract \<Rightarrow> ballot list res" where
  "getBallots c = (case LocalGet voteKey c of
     None \<Rightarrow> Inr []
   | Some v \<Rightarrow> andThen (deserialize v) (\<lambda>x. case x of
       SBallots bs \<Rightarrow> Inr bs | SKeys ks \<Rightarrow> Inl (Fault ''not ballots'')))"

text \<open>
  The loop over the stored ballots: \<open>Inl n\<close> is the early return of a voter that already voted,
  \<open>Inr (newCandidates, found)\<close> the end of the loop.
\<close>

fun vote_loop :: "bytes \<Rightarrow> bytes \<Rightarrow> int \<Rightarrow> ballot list \<Rightarrow> ballot list \<Rightarrow> int \<Rightarrow> int + ballot list \<times> int" where
  "vote_loop i from h [] newCandidates found = Inr (newCandidates, found)"
| "vote_loop i from h (cnd # cnds) newCandidates found =
     (if h - Height cnd > blockDiff then vote_loop i from h cnds newCandidates found
      else if ID cnd = i then
        (if from \<in> set (Voters cnd) then Inl (int (length (Voters cnd)))
         else let voters = Voters cnd @ [from] in
           vote_loop i from h cnds (newCandidates @ [\<lparr>ID = i, Voters = voters, Height = h\<rparr>])
             (int (length voters)))
      else vote_loop i from h cnds (newCandidates @ [cnd]) found)"

definition Vote :: "env \<Rightarrow> bytes \<Rightarrow> bytes \<Rightarrow> (main_ser, 'e) contract \<Rightarrow> (int \<times> (main_ser, 'e) contract) res" where
  "Vote E i from c = andThen (getBallots c) (\<lambda>candidates.
     case vote_loop i from (rt_height E) candidates [] (- 1) of
       Inl n \<Rightarrow> Inr (n, c)
     | Inr (newCandidates, found) \<Rightarrow>
         if found < 0
         then Inr (1, SetSerialized voteKey (SBallots (newCandidates @
                [\<lparr>ID = i, Voters = [from], Height = rt_height E\<rparr>])) c)
         else Inr (found, SetSerialized voteKey (SBallots newCandidates) c))"

text \<open>The first index of the decision's ballot, or 0 when there is none.\<close>

fun ballot_index :: "bytes \<Rightarrow> ballot list \<Rightarrow> nat option" where
  "ballot_index i [] = None"
| "ballot_index i (cnd # cnds) = (if ID cnd = i then Some 0 else map_option Suc (ballot_index i cnds))"

definition RemoveVotes :: "bytes \<Rightarrow> (main_ser, 'e) contract \<Rightarrow> (main_ser, 'e) contract res" where
  "RemoveVotes i c = andThen (getBallots c) (\<lambda>candidates.
     let index = (case ballot_index i candidates of None \<Rightarrow> 0 | Some j \<Rightarrow> j) in
     if index < length candidates
     then Inr (SetSerialized voteKey (SBallots (take index candidates @ drop (Suc index) candidates)) c)
     else Inl (Fault ''remove out of range''))"

end
