(* ===== verification/Balance_Contract.thy ===== *)
theory Balance_Contract
  imports Common
begin

text \<open>
  The Balance contract (\<open>contracts/balance/contract.go\<close>) but for \<open>SettleContainerPayment\<close>, which
  calls three other contracts and stands in the theory \<open>Settlement\<close>. Accounts are stored under
  \<open>'a'\<close> followed by the account hash, the circulation under its own key.
\<close>

section \<open>Data\<close>

record account =
  Balance :: int
  Until :: int
  Parent :: bytes

datatype bal_event =
    BalTransfer bytes bytes int
  | BalTransferX bytes bytes int bytes
  | BalLock bytes bytes bytes int int
  | BalPayment bytes bytes int int
  | BalChangePaymentStatus bytes int bool

type_synonym balance = "(account, bal_event) contract"

definition bal_symbol :: string where "bal_symbol = ''NEOFS''"

definition bal_decimals :: int where "bal_decimals = 12"

definition circulation :: bytes where "circulation = ''MainnetGAS''"

definition accKey :: "bytes \<Rightarrow> bytes" where "accKey a = CHR ''a'' # a"

definition unpaidKey :: "bytes \<Rightarrow> bytes" where "unpaidKey cid = CHR ''d'' # cid"

definition paidKey :: "bytes \<Rightarrow> bytes" where "paidKey cid = CHR ''e'' # cid"

definition gigabyte :: int where "gigabyte = 2 ^ 30"

definition emptyAccount :: account where
  "emptyAccount = \<lparr>Balance = 0, Until = 0, Parent = []\<rparr>"

section \<open>Operations\<close>

definition getAccount :: "bytes \<Rightarrow> balance \<Rightarrow> account res" where
  "getAccount key c = (case LocalGet (accKey key) c of None \<Rightarrow> Inr emptyAccount | Some v \<Rightarrow> deserialize v)"

definition isUsableAddress :: "env \<Rightarrow> bytes \<Rightarrow> bool" where
  "isUsableAddress E addr \<longleftrightarrow> length addr = Hash160Len \<and> (rt_witness E addr \<or> rt_caller E = addr)"

definition getSupply :: "balance \<Rightarrow> int res" where
  "getSupply c = (case LocalGet circulation c of None \<Rightarrow> Inr 0 | Some v \<Rightarrow> to_integer (Some v))"

definition balance_TotalSupply :: "balance \<Rightarrow> int res" where
  "balance_TotalSupply c = getSupply c"

definition balanceOf :: "bytes \<Rightarrow> balance \<Rightarrow> int res" where
  "balanceOf holder c = andThen (getAccount holder c) (\<lambda>acc. Inr (Balance acc))"

definition balance_BalanceOf :: "bytes \<Rightarrow> balance \<Rightarrow> int res" where
  "balance_BalanceOf account c = balanceOf account c"

definition canTransfer :: "env \<Rightarrow> bytes \<Rightarrow> bytes \<Rightarrow> int \<Rightarrow> bool \<Rightarrow> balance \<Rightarrow> (account \<times> bool) res" where
  "canTransfer E frm to amount innerRing c =
     (if \<not> innerRing \<and> (length to \<noteq> Hash160Len \<or> \<not> isUsableAddress E frm) then Inr (emptyAccount, False)
      else if innerRing \<and> length frm = 0 then Inr (emptyAccount, True)
      else andThen (getAccount frm c) (\<lambda>amountFrom.
        if Balance amountFrom < amount then Inr (emptyAccount, False) else Inr (amountFrom, True)))"

definition debit :: "bytes \<Rightarrow> account \<Rightarrow> int \<Rightarrow> balance \<Rightarrow> balance" where
  "debit frm amountFrom amount c =
     (if length frm = Hash160Len
      then (if Balance amountFrom = amount then LocalDelete (accKey frm) c
            else SetSerialized (accKey frm) (amountFrom\<lparr>Balance := Balance amountFrom - amount\<rparr>) c)
      else c)"

definition credit :: "bytes \<Rightarrow> int \<Rightarrow> balance \<Rightarrow> balance res" where
  "credit to amount c =
     (if length to = Hash160Len
      then andThen (getAccount to c) (\<lambda>amountTo.
        Inr (SetSerialized (accKey to) (amountTo\<lparr>Balance := Balance amountTo + amount\<rparr>) c))
      else Inr c)"

definition transfer ::
  "env \<Rightarrow> bytes \<Rightarrow> bytes \<Rightarrow> int \<Rightarrow> bool \<Rightarrow> bytes \<Rightarrow> balance \<Rightarrow> (bool \<times> balance) res" where
  "transfer E frm to amount innerRing details c =
     (if amount < 0 then Inl (Panic ''negative amount'')
      else andThen (canTransfer E frm to amount innerRing c) (\<lambda>(amountFrom, ok).
        if \<not> ok then Inr (False, c)
        else andThen (credit to amount (debit frm amountFrom amount c)) (\<lambda>c'.
          Inr (True, Notify (BalTransferX frm to amount details) (Notify (BalTransfer frm to amount) c')))))"

definition balance_Transfer :: "env \<Rightarrow> bytes \<Rightarrow> bytes \<Rightarrow> int \<Rightarrow> balance \<Rightarrow> (bool \<times> balance) res" where
  "balance_Transfer E frm to amount c = transfer E frm to amount False [] c"

definition balance_TransferX ::
  "env \<Rightarrow> bytes \<Rightarrow> bytes \<Rightarrow> int \<Rightarrow> bytes \<Rightarrow> balance \<Rightarrow> (bool \<times> balance) res" where
  "balance_TransferX E frm to amount details c =
     andThen (CheckAlphabetWitness E) (\<lambda>_. transfer E frm to amount True details c)"

definition balance_Lock :: "env \<Rightarrow> bytes \<Rightarrow> bytes \<Rightarrow> bytes \<Rightarrow> int \<Rightarrow> int \<Rightarrow> balance \<Rightarrow> balance res" where
  "balance_Lock E txDetails frm to amount until c =
     andThen (CheckAlphabetWitness E) (\<lambda>_.
     let details = LockTransferDetails txDetails;
         c1 = SetSerialized (accKey to) \<lparr>Balance = 0, Until = until, Parent = frm\<rparr> c in
     andThen (transfer E frm to amount True details c1) (\<lambda>(result, c2).
     if \<not> result then Inl (Panic (''can'' @ [CHR 0x27] @ ''t lock funds''))
     else Inr (Notify (BalLock txDetails frm to amount until) c2)))"

definition unlock_account :: "env \<Rightarrow> int \<Rightarrow> bytes \<Rightarrow> balance \<Rightarrow> balance res" where
  "unlock_account E epochNum addr c =
     (if length addr \<noteq> Hash160Len then Inr c
      else andThen (getAccount addr c) (\<lambda>acc.
        if Until acc = 0 then Inr c
        else if epochNum \<ge> Until acc
        then andThen (transfer E addr (Parent acc) (Balance acc) True (UnlockTransferDetails epochNum) c)
               (\<lambda>(_, c'). Inr c')
        else Inr c))"

definition balance_NewEpoch :: "env \<Rightarrow> int \<Rightarrow> balance \<Rightarrow> balance res" where
  "balance_NewEpoch E epochNum c =
     andThen (CheckAlphabetWitness E) (\<lambda>_.
     foldR (unlock_account E epochNum) (find_keys_no_prefix (accKey []) c) c)"

definition balance_Mint :: "env \<Rightarrow> bytes \<Rightarrow> int \<Rightarrow> bytes \<Rightarrow> balance \<Rightarrow> balance res" where
  "balance_Mint E to amount txDetails c =
     andThen (CheckAlphabetWitness E) (\<lambda>_.
     andThen (transfer E [] to amount True (MintTransferDetails txDetails) c) (\<lambda>(ok, c1).
     if \<not> ok then Inl (Panic (''can'' @ [CHR 0x27] @ ''t transfer assets''))
     else andThen (getSupply c1) (\<lambda>supply. Inr (put_int circulation (supply + amount) c1))))"

definition balance_Burn :: "env \<Rightarrow> bytes \<Rightarrow> int \<Rightarrow> bytes \<Rightarrow> balance \<Rightarrow> balance res" where
  "balance_Burn E frm amount txDetails c =
     andThen (CheckAlphabetWitness E) (\<lambda>_.
     andThen (transfer E frm [] amount True (BurnTransferDetails txDetails) c) (\<lambda>(ok, c1).
     if \<not> ok then Inl (Panic (''can'' @ [CHR 0x27] @ ''t transfer assets''))
     else andThen (getSupply c1) (\<lambda>supply.
       if supply < amount then Inl (Panic ''negative supply after burn'')
       else Inr (put_int circulation (supply - amount) c1))))"

definition balance_GetUnpaidContainerEpoch :: "bytes \<Rightarrow> balance \<Rightarrow> int res" where
  "balance_GetUnpaidContainerEpoch cid c =
     (if length cid \<noteq> Hash256Len then Inl (Panic ''invalid container id'')
      else case LocalGet (unpaidKey cid) c of None \<Rightarrow> Inr (- 1) | Some v \<Rightarrow> to_integer (Some v))"

definition balance_IterateUnpaid :: "balance \<Rightarrow> (bytes \<times> account sval) list" where
  "balance_IterateUnpaid c = map (\<lambda>(k, v). (drop 1 k, v)) (LocalFind (unpaidKey []) c)"

text \<open>\<open>_deploy\<close>: the first deployment subscribes to epochs, an update checks the version.\<close>

definition balance_deploy ::
  "env \<Rightarrow> (bytes \<Rightarrow> string \<Rightarrow> int \<Rightarrow> string list res) \<Rightarrow> (bytes \<Rightarrow> bytes \<Rightarrow> 'w \<Rightarrow> 'w res) \<Rightarrow>
   arg list \<Rightarrow> bool \<Rightarrow> 'w \<Rightarrow> 'w res" where
  "balance_deploy E resolve subscribe data isUpdate w =
     (if isUpdate
      then andThen (last_version data) (\<lambda>version. andThen (CheckVersion version) (\<lambda>_. Inr w))
      else common_SubscribeForNewEpoch E resolve subscribe w)"

definition balance_Update ::
  "env \<Rightarrow> (bytes \<Rightarrow> bytes \<Rightarrow> arg list \<Rightarrow> 'w \<Rightarrow> 'w res) \<Rightarrow> bytes \<Rightarrow> bytes \<Rightarrow> arg list option \<Rightarrow> 'w \<Rightarrow> 'w res" where
  "balance_Update E management nefFile manifest data w =
     update_by_committee E management nefFile manifest data w"

definition getContractHash ::
  "env \<Rightarrow> (bytes \<Rightarrow> string \<Rightarrow> int \<Rightarrow> string list res) \<Rightarrow> char \<Rightarrow> string \<Rightarrow> balance \<Rightarrow> (bytes \<times> balance) res" where
  "getContractHash E resolve storageKey nnsKey c =
     (case LocalGet [storageKey] c of
        Some v \<Rightarrow> andThen (as_bytes v) (\<lambda>h. Inr (h, c))
      | None \<Rightarrow> andThen (InferNNSHash E) (\<lambda>nnsAddr.
          andThen (ResolveFSContractWithNNS E resolve nnsAddr nnsKey) (\<lambda>h.
          if length h \<noteq> Hash160Len
          then Inl (Panic (''NNS contract does not know '' @ nnsKey @ '' address''))
          else Inr (h, LocalPut [storageKey] (Raw h) c))))"

end
