(* ===== verification/Balance_Ledger.thy ===== *)
theory Balance_Ledger
  imports Balance_Contract
begin

text \<open>
  The ledger the Balance contract maintains: what each account holds, the sum of all accounts and the
  recorded supply, with the effect of every operation on the three. An abstract ledger is a function from
  account hashes to amounts; \<open>transfer\<close> refines a pure update of it.
\<close>

section \<open>Abstraction and invariant\<close>

definition bal_of :: "balance \<Rightarrow> bytes \<Rightarrow> int" where
  "bal_of c a = (case LocalGet (accKey a) c of Some (Ser x) \<Rightarrow> Balance x | _ \<Rightarrow> 0)"

definition supply_of :: "balance \<Rightarrow> int" where
  "supply_of c = (case LocalGet circulation c of Some (Raw b) \<Rightarrow> bytes_int b | _ \<Rightarrow> 0)"

definition acc_val :: "account sval \<Rightarrow> int" where
  "acc_val v = (case v of Ser x \<Rightarrow> Balance x | Raw b \<Rightarrow> 0)"

definition accounts_total :: "balance \<Rightarrow> int" where
  "accounts_total c = LocalSum acc_val (accKey []) c"

definition balance_ok :: "balance \<Rightarrow> bool" where
  "balance_ok c \<longleftrightarrow> contract_ok c \<and>
     (\<forall>a v. LocalGet (accKey a) c = Some v \<longrightarrow> (\<exists>x. v = Ser x \<and> 0 \<le> Balance x)) \<and>
     (\<forall>v. LocalGet circulation c = Some v \<longrightarrow> (\<exists>b. v = Raw b))"

lemma accKey_simps [simp]: "accKey a = accKey b \<longleftrightarrow> a = b" "accKey a \<noteq> circulation"
  "circulation \<noteq> accKey a" "prefix (accKey []) (accKey a)" "\<not> prefix (accKey []) circulation"
  "accKey a \<noteq> CHR ''b'' # x" "accKey a \<noteq> CHR ''c'' # x" "accKey a \<noteq> CHR ''d'' # x" "accKey a \<noteq> CHR ''e'' # x"
  by (auto simp: accKey_def circulation_def)

lemma acc_val_simps [simp]: "acc_val (Ser x) = Balance x" "acc_val (Raw b) = 0"
  by (simp_all add: acc_val_def)

lemma balance_ok_contract [simp]: "balance_ok c \<Longrightarrow> contract_ok c"
  by (simp add: balance_ok_def)

lemma balance_okD: "balance_ok c \<Longrightarrow> LocalGet (accKey a) c = Some v \<Longrightarrow> \<exists>x. v = Ser x \<and> 0 \<le> Balance x"
  by (simp add: balance_ok_def)

lemma bal_of_nonneg: "balance_ok c \<Longrightarrow> 0 \<le> bal_of c a"
  by (auto simp: bal_of_def split: option.splits sval.splits dest: balance_okD)

lemma getAccount_bal: "getAccount a c = Inr x \<Longrightarrow> Balance x = bal_of c a"
  by (auto simp: getAccount_def bal_of_def emptyAccount_def split: option.splits)

lemma getAccount_ok:
  assumes "balance_ok c"
  obtains x where "getAccount a c = Inr x" "Balance x = bal_of c a"
proof (cases "LocalGet (accKey a) c")
  case None
  with that show thesis by (auto simp: getAccount_def bal_of_def emptyAccount_def)
next
  case (Some v)
  with balance_okD [OF assms Some] that show thesis by (auto simp: getAccount_def bal_of_def)
qed

lemma entry_val_bal_of: "entry_val acc_val (LocalGet (accKey a) c) = bal_of c a"
  by (auto simp: bal_of_def split: option.splits sval.splits)

lemma getSupply_ok: "balance_ok c \<Longrightarrow> getSupply c = Inr (supply_of c)"
  by (auto simp: getSupply_def supply_of_def balance_ok_def to_integer_def split: option.splits)

section \<open>One transfer\<close>

definition ledger_debit :: "bytes \<Rightarrow> int \<Rightarrow> (bytes \<Rightarrow> int) \<Rightarrow> bytes \<Rightarrow> int" where
  "ledger_debit frm amount l = (if length frm = Hash160Len then l(frm := l frm - amount) else l)"

definition ledger_credit :: "bytes \<Rightarrow> int \<Rightarrow> (bytes \<Rightarrow> int) \<Rightarrow> bytes \<Rightarrow> int" where
  "ledger_credit to amount l = (if length to = Hash160Len then l(to := l to + amount) else l)"

definition ledger_transfer :: "bytes \<Rightarrow> bytes \<Rightarrow> int \<Rightarrow> (bytes \<Rightarrow> int) \<Rightarrow> bytes \<Rightarrow> int" where
  "ledger_transfer frm to amount l = ledger_credit to amount (ledger_debit frm amount l)"

definition flow :: "bytes \<Rightarrow> int \<Rightarrow> int" where
  "flow a amount = (if length a = Hash160Len then amount else 0)"

definition may_transfer :: "env \<Rightarrow> bytes \<Rightarrow> bytes \<Rightarrow> int \<Rightarrow> bool \<Rightarrow> (bytes \<Rightarrow> int) \<Rightarrow> bool" where
  "may_transfer E frm to amount innerRing l \<longleftrightarrow>
     (if innerRing then frm = [] \<or> amount \<le> l frm
      else length to = Hash160Len \<and> isUsableAddress E frm \<and> amount \<le> l frm)"

lemma bal_of_put [simp]:
  "bal_of (SetSerialized (accKey a) x c) b = (if b = a then Balance x else bal_of c b)"
  by (simp add: bal_of_def)

lemma bal_of_delete [simp]: "bal_of (LocalDelete (accKey a) c) b = (if b = a then 0 else bal_of c b)"
  by (simp add: bal_of_def)

lemma bal_of_Notify [simp]: "bal_of (Notify e c) = bal_of c" "supply_of (Notify e c) = supply_of c"
    "accounts_total (Notify e c) = accounts_total c" "balance_ok (Notify e c) = balance_ok c"
proof -
  have "contract_ok (Notify e c) = contract_ok c" by (simp add: contract_ok_def Notify_def)
  then show "balance_ok (Notify e c) = balance_ok c" by (simp add: balance_ok_def)
qed (simp_all add: bal_of_def supply_of_def accounts_total_def fun_eq_iff)

lemma supply_of_acc [simp]:
  "supply_of (SetSerialized (accKey a) x c) = supply_of c" "supply_of (LocalDelete (accKey a) c) = supply_of c"
  by (simp_all add: supply_of_def)

lemma balance_ok_put: "balance_ok c \<Longrightarrow> 0 \<le> Balance x \<Longrightarrow> balance_ok (SetSerialized (accKey a) x c)"
  by (auto simp: balance_ok_def)

lemma balance_ok_delete: "balance_ok c \<Longrightarrow> balance_ok (LocalDelete (accKey a) c)"
  by (auto simp: balance_ok_def)

lemma accounts_total_put:
  "balance_ok c \<Longrightarrow> accounts_total (SetSerialized (accKey a) x c) = accounts_total c + Balance x - bal_of c a"
  by (simp add: accounts_total_def LocalSum_SetSerialized entry_val_bal_of)

lemma accounts_total_delete:
  "balance_ok c \<Longrightarrow> accounts_total (LocalDelete (accKey a) c) = accounts_total c - bal_of c a"
  by (simp add: accounts_total_def LocalSum_LocalDelete entry_val_bal_of)

lemma debit_spec:
  assumes ok: "balance_ok c" and "length frm = Hash160Len \<Longrightarrow> Balance x = bal_of c frm \<and> amount \<le> bal_of c frm"
  shows "balance_ok (debit frm x amount c)" "bal_of (debit frm x amount c) = ledger_debit frm amount (bal_of c)"
    "supply_of (debit frm x amount c) = supply_of c"
    "accounts_total (debit frm x amount c) = accounts_total c - flow frm amount"
  using assms by (auto simp: debit_def ledger_debit_def flow_def fun_eq_iff balance_ok_put balance_ok_delete
      accounts_total_put accounts_total_delete)

lemma credit_spec:
  assumes ok: "balance_ok c" and "0 \<le> amount"
  obtains c' where "credit to amount c = Inr c'" "balance_ok c'"
    "bal_of c' = ledger_credit to amount (bal_of c)" "supply_of c' = supply_of c"
    "accounts_total c' = accounts_total c + flow to amount"
proof (cases "length to = Hash160Len")
  case True
  obtain x where x: "getAccount to c = Inr x" "Balance x = bal_of c to" by (rule getAccount_ok [OF ok])
  show thesis
    by (rule that [of "SetSerialized (accKey to) (x\<lparr>Balance := Balance x + amount\<rparr>) c"])
      (use True x assms bal_of_nonneg [OF ok, of to] in
        \<open>auto simp: credit_def ledger_credit_def flow_def fun_eq_iff balance_ok_put accounts_total_put\<close>)
next
  case False
  with that ok show thesis by (simp add: credit_def ledger_credit_def flow_def)
qed

lemma canTransfer_spec:
  assumes "balance_ok c" and "0 \<le> amount"
  shows "\<exists>x. canTransfer E frm to amount ir c = Inr (x, may_transfer E frm to amount ir (bal_of c)) \<and>
    (may_transfer E frm to amount ir (bal_of c) \<longrightarrow> length frm = Hash160Len \<longrightarrow>
       Balance x = bal_of c frm \<and> amount \<le> bal_of c frm)"
proof -
  obtain x where "getAccount frm c = Inr x" "Balance x = bal_of c frm" by (rule getAccount_ok [OF assms(1)])
  then show ?thesis by (auto simp: canTransfer_def may_transfer_def)
qed

text \<open>
  The refinement of one transfer: it never fails on a well-formed state and a non-negative amount, it
  succeeds exactly when it may, a refused transfer changes nothing, and an accepted one is the pure
  ledger update.
\<close>

lemma transfer_spec:
  assumes ok: "balance_ok c" and nonneg: "0 \<le> amount"
  obtains c' where "transfer E frm to amount ir details c = Inr (may_transfer E frm to amount ir (bal_of c), c')"
    "balance_ok c'" "supply_of c' = supply_of c"
    "bal_of c' = (if may_transfer E frm to amount ir (bal_of c) then ledger_transfer frm to amount (bal_of c) else bal_of c)"
    "accounts_total c' = accounts_total c +
      (if may_transfer E frm to amount ir (bal_of c) then flow to amount - flow frm amount else 0)"
    "\<not> may_transfer E frm to amount ir (bal_of c) \<Longrightarrow> c' = c"
proof -
  obtain x where can: "canTransfer E frm to amount ir c = Inr (x, may_transfer E frm to amount ir (bal_of c))"
      and x: "may_transfer E frm to amount ir (bal_of c) \<Longrightarrow> length frm = Hash160Len \<Longrightarrow>
         Balance x = bal_of c frm \<and> amount \<le> bal_of c frm"
    using canTransfer_spec [OF assms] by blast
  show thesis
  proof (cases "may_transfer E frm to amount ir (bal_of c)")
    case True
    note d = debit_spec [OF ok x [OF True]]
    obtain c' where "credit to amount (debit frm x amount c) = Inr c'" "balance_ok c'"
      "bal_of c' = ledger_credit to amount (bal_of (debit frm x amount c))"
      "supply_of c' = supply_of (debit frm x amount c)"
      "accounts_total c' = accounts_total (debit frm x amount c) + flow to amount"
      by (rule credit_spec [OF d(1) nonneg])
    then show thesis
      by (intro that [of "Notify (BalTransferX frm to amount details) (Notify (BalTransfer frm to amount) c')"])
        (use True nonneg can d in \<open>simp_all add: transfer_def ledger_transfer_def\<close>)
  next
    case False
    then show thesis using nonneg can ok by (intro that [of c]) (simp_all add: transfer_def)
  qed
qed

lemma transfer_negative: "amount < 0 \<Longrightarrow> transfer E frm to amount ir details c = Inl (Panic ''negative amount'')"
  by (simp add: transfer_def)

lemma transfer_Inr_nonneg: "transfer E frm to amount ir details c = Inr r \<Longrightarrow> 0 \<le> amount"
  by (simp add: transfer_def split: if_splits)

text \<open>The same, read from a run that returned.\<close>

lemma transfer_Inr:
  assumes ok: "balance_ok c" and run: "transfer E frm to amount ir details c = Inr (b, c')"
  shows "0 \<le> amount" "b = may_transfer E frm to amount ir (bal_of c)" "balance_ok c'" "supply_of c' = supply_of c"
    "bal_of c' = (if b then ledger_transfer frm to amount (bal_of c) else bal_of c)"
    "accounts_total c' = accounts_total c + (if b then flow to amount - flow frm amount else 0)"
    "\<not> b \<Longrightarrow> c' = c"
proof -
  show nonneg: "0 \<le> amount" using run by (rule transfer_Inr_nonneg)
  obtain d where "transfer E frm to amount ir details c = Inr (may_transfer E frm to amount ir (bal_of c), d)"
    "balance_ok d" "supply_of d = supply_of c"
    "bal_of d = (if may_transfer E frm to amount ir (bal_of c) then ledger_transfer frm to amount (bal_of c) else bal_of c)"
    "accounts_total d = accounts_total c +
      (if may_transfer E frm to amount ir (bal_of c) then flow to amount - flow frm amount else 0)"
    "\<not> may_transfer E frm to amount ir (bal_of c) \<Longrightarrow> d = c"
    by (rule transfer_spec [OF ok nonneg, where E = E and frm = frm and to = to and ir = ir and details = details])
      blast
  with run show "b = may_transfer E frm to amount ir (bal_of c)" "balance_ok c'" "supply_of c' = supply_of c"
    "bal_of c' = (if b then ledger_transfer frm to amount (bal_of c) else bal_of c)"
    "accounts_total c' = accounts_total c + (if b then flow to amount - flow frm amount else 0)"
    "\<not> b \<Longrightarrow> c' = c" by simp_all
qed

section \<open>Minting, burning, locking\<close>

lemma put_supply_simps [simp]:
  "bal_of (put_int circulation n c) = bal_of c" "supply_of (put_int circulation n c) = n"
  by (simp_all add: bal_of_def supply_of_def fun_eq_iff)

lemma put_supply_ok: "balance_ok c \<Longrightarrow> balance_ok (put_int circulation n c)"
    "balance_ok c \<Longrightarrow> accounts_total (put_int circulation n c) = accounts_total c"
  by (auto simp: balance_ok_def accounts_total_def LocalSum_put_int)

lemma Mint_Inr:
  assumes ok: "balance_ok c" and run: "balance_Mint E to amount txDetails c = Inr c'"
  shows "alphabet_ok E" "0 \<le> amount" "balance_ok c'" "supply_of c' = supply_of c + amount"
    "bal_of c' = ledger_credit to amount (bal_of c)"
    "accounts_total c' = accounts_total c + flow to amount"
proof -
  from run obtain c1 s where t: "transfer E [] to amount True (MintTransferDetails txDetails) c = Inr (True, c1)"
      and s: "getSupply c1 = Inr s" "c' = put_int circulation (s + amount) c1" and "alphabet_ok E"
    by (auto simp: balance_Mint_def split: if_split_asm prod.split_asm)
  then show "alphabet_ok E" by simp
  note r = transfer_Inr [OF ok t]
  show "0 \<le> amount" "balance_ok c'" "supply_of c' = supply_of c + amount"
    "bal_of c' = ledger_credit to amount (bal_of c)" "accounts_total c' = accounts_total c + flow to amount"
    using r s getSupply_ok [OF r(3)]
    by (simp_all add: put_supply_ok ledger_transfer_def ledger_debit_def flow_def)
qed

lemma Burn_Inr:
  assumes ok: "balance_ok c" and run: "balance_Burn E frm amount txDetails c = Inr c'"
  shows "alphabet_ok E" "0 \<le> amount" "balance_ok c'" "supply_of c' = supply_of c - amount" "amount \<le> supply_of c"
    "bal_of c' = ledger_debit frm amount (bal_of c)" "frm \<noteq> [] \<Longrightarrow> amount \<le> bal_of c frm"
    "accounts_total c' = accounts_total c - flow frm amount"
proof -
  from run obtain c1 s where t: "transfer E frm [] amount True (BurnTransferDetails txDetails) c = Inr (True, c1)"
      and s: "getSupply c1 = Inr s" "amount \<le> s" "c' = put_int circulation (s - amount) c1" and "alphabet_ok E"
    by (auto simp: balance_Burn_def split: if_split_asm prod.split_asm)
  then show "alphabet_ok E" by simp
  note r = transfer_Inr [OF ok t]
  show "0 \<le> amount" "balance_ok c'" "supply_of c' = supply_of c - amount" "amount \<le> supply_of c"
    "bal_of c' = ledger_debit frm amount (bal_of c)" "accounts_total c' = accounts_total c - flow frm amount"
    using r s getSupply_ok [OF r(3)]
    by (simp_all add: put_supply_ok ledger_transfer_def ledger_credit_def flow_def)
  show "frm \<noteq> [] \<Longrightarrow> amount \<le> bal_of c frm" using r(2) by (simp add: may_transfer_def)
qed

lemma Lock_Inr:
  assumes ok: "balance_ok c" and run: "balance_Lock E txDetails frm to amount until c = Inr c'"
  shows "alphabet_ok E" "0 \<le> amount" "balance_ok c'" "supply_of c' = supply_of c"
    "bal_of c' = ledger_transfer frm to amount ((bal_of c)(to := 0))"
    "accounts_total c' = accounts_total c - bal_of c to + flow to amount - flow frm amount"
    "frm \<noteq> [] \<Longrightarrow> amount \<le> ((bal_of c)(to := 0)) frm"
proof -
  let ?c1 = "SetSerialized (accKey to) \<lparr>Balance = 0, Until = until, Parent = frm\<rparr> c"
  from run obtain c2 where t: "transfer E frm to amount True (LockTransferDetails txDetails) ?c1 = Inr (True, c2)"
      and c': "c' = Notify (BalLock txDetails frm to amount until) c2" and "alphabet_ok E"
    by (auto simp: balance_Lock_def Let_def split: if_split_asm prod.split_asm)
  then show "alphabet_ok E" by simp
  have ok1: "balance_ok ?c1" using ok by (intro balance_ok_put) auto
  have bal1: "bal_of ?c1 = (bal_of c)(to := 0)" by (simp add: fun_eq_iff)
  note r = transfer_Inr [OF ok1 t]
  show "0 \<le> amount" "balance_ok c'" "supply_of c' = supply_of c"
    "bal_of c' = ledger_transfer frm to amount ((bal_of c)(to := 0))"
    "accounts_total c' = accounts_total c - bal_of c to + flow to amount - flow frm amount"
    using r c' ok by (simp_all add: bal1 accounts_total_put)
  show "frm \<noteq> [] \<Longrightarrow> amount \<le> ((bal_of c)(to := 0)) frm" using r(2) bal1 by (simp add: may_transfer_def)
qed

section \<open>Lock accounts and the epoch change\<close>

text \<open>The lock data of an account: until which epoch, and whom the assets go back to.\<close>

definition lock_of :: "balance \<Rightarrow> bytes \<Rightarrow> (int \<times> bytes) option" where
  "lock_of c a = (case LocalGet (accKey a) c of
     Some (Ser x) \<Rightarrow> if Until x = 0 then None else Some (Until x, Parent x) | _ \<Rightarrow> None)"

definition expired :: "int \<Rightarrow> balance \<Rightarrow> bytes \<Rightarrow> bool" where
  "expired n c a \<longleftrightarrow> length a = Hash160Len \<and> (case lock_of c a of None \<Rightarrow> False | Some (u, p) \<Rightarrow> u \<le> n)"

definition parent_of :: "balance \<Rightarrow> bytes \<Rightarrow> bytes" where
  "parent_of c a = (case lock_of c a of None \<Rightarrow> [] | Some (u, p) \<Rightarrow> p)"

definition locks_ok :: "balance \<Rightarrow> bool" where
  "locks_ok c \<longleftrightarrow> (\<forall>a u p. lock_of c a = Some (u, p) \<longrightarrow> length p = Hash160Len)"

lemma lock_of_simps [simp]:
  "lock_of (SetSerialized (accKey a) x c) b =
     (if b = a then (if Until x = 0 then None else Some (Until x, Parent x)) else lock_of c b)"
  "lock_of (LocalDelete (accKey a) c) b = (if b = a then None else lock_of c b)"
  "lock_of (Notify e c) = lock_of c"
  "lock_of (put_int circulation n c) = lock_of c"
  by (auto simp: lock_of_def fun_eq_iff)

lemma getAccount_lock_of:
  "getAccount a c = Inr x \<Longrightarrow> lock_of c a = (if Until x = 0 then None else Some (Until x, Parent x))"
  by (auto simp: getAccount_def lock_of_def emptyAccount_def split: option.splits)

lemma transfer_lock_of:
  assumes "transfer E frm to amount ir details c = Inr (True, c')"
  shows "lock_of c' b = (if b = frm \<and> length frm = Hash160Len \<and> amount = bal_of c frm then None else lock_of c b)"
proof -
  from assms obtain x c1 where can: "canTransfer E frm to amount ir c = Inr (x, True)"
    and cr: "credit to amount (debit frm x amount c) = Inr c1"
    and c': "c' = Notify (BalTransferX frm to amount details) (Notify (BalTransfer frm to amount) c1)"
    by (auto simp: transfer_def split: if_split_asm)
  have "getAccount frm c = Inr x" if "length frm = Hash160Len"
    using can that by (auto simp: canTransfer_def split: if_split_asm)
  then have "lock_of (debit frm x amount c) b =
      (if b = frm \<and> length frm = Hash160Len \<and> amount = bal_of c frm then None else lock_of c b)" for b
    using getAccount_lock_of [of frm c x] getAccount_bal [of frm c x] by (auto simp: debit_def)
  moreover have "lock_of c1 b = lock_of (debit frm x amount c) b"
    using cr getAccount_lock_of by (auto simp: credit_def split: if_split_asm)
  ultimately show ?thesis by (simp add: c')
qed

lemma unlock_account_idle:
  assumes "balance_ok c" and "\<not> expired n c a"
  shows "unlock_account E n a c = Inr c"
proof -
  obtain x where x: "getAccount a c = Inr x" by (rule getAccount_ok [OF assms(1)])
  then show ?thesis using assms(2) getAccount_lock_of [OF x]
    by (auto simp: unlock_account_def expired_def split: if_split_asm)
qed

lemma unlock_account_expired:
  assumes ok: "balance_ok c" and ex: "expired n c a"
  obtains c' where "unlock_account E n a c = Inr c'" "balance_ok c'" "supply_of c' = supply_of c"
    "bal_of c' = ledger_transfer a (parent_of c a) (bal_of c a) (bal_of c)"
    "accounts_total c' = accounts_total c + flow (parent_of c a) (bal_of c a) - bal_of c a"
    "\<And>b. lock_of c' b = (if b = a then None else lock_of c b)"
proof -
  obtain x where x: "getAccount a c = Inr x" "Balance x = bal_of c a" by (rule getAccount_ok [OF ok])
  have until: "Until x \<noteq> 0" "Until x \<le> n" "length a = Hash160Len" and par: "Parent x = parent_of c a"
    using ex getAccount_lock_of [OF x(1)]
    by (auto simp: expired_def parent_of_def split: if_split_asm)
  obtain c' where t: "transfer E a (Parent x) (Balance x) True (UnlockTransferDetails n) c
        = Inr (may_transfer E a (Parent x) (Balance x) True (bal_of c), c')"
    and r: "balance_ok c'" "supply_of c' = supply_of c"
      "bal_of c' = (if may_transfer E a (Parent x) (Balance x) True (bal_of c)
         then ledger_transfer a (Parent x) (Balance x) (bal_of c) else bal_of c)"
      "accounts_total c' = accounts_total c + (if may_transfer E a (Parent x) (Balance x) True (bal_of c)
         then flow (Parent x) (Balance x) - flow a (Balance x) else 0)"
    by (rule transfer_spec [OF ok, of "Balance x" E a "Parent x" True "UnlockTransferDetails n"])
      (simp add: x bal_of_nonneg [OF ok])
  have may: "may_transfer E a (Parent x) (Balance x) True (bal_of c)" by (simp add: may_transfer_def x)
  show thesis
  proof (rule that [of c'])
    show "unlock_account E n a c = Inr c'" using x t until by (simp add: unlock_account_def)
    show "lock_of c' b = (if b = a then None else lock_of c b)" for b
      using transfer_lock_of t may until(3) x by simp
  qed (use r may x par until(3) in \<open>simp_all add: flow_def\<close>)
qed

text \<open>What the expired locks among some accounts give back to an account.\<close>

definition returned :: "int \<Rightarrow> balance \<Rightarrow> bytes list \<Rightarrow> bytes \<Rightarrow> int" where
  "returned n c ks b = (if length b = Hash160Len
     then sum_list (map (bal_of c) (filter (\<lambda>a. expired n c a \<and> parent_of c a = b) ks)) else 0)"

lemma expired_lock_cong: "(\<And>a. a \<in> set ks \<Longrightarrow> lock_of c a = lock_of d a \<and> (expired n c a \<longrightarrow> bal_of c a = bal_of d a))
    \<Longrightarrow> returned n c ks b = returned n d ks b"
proof -
  assume *: "\<And>a. a \<in> set ks \<Longrightarrow> lock_of c a = lock_of d a \<and> (expired n c a \<longrightarrow> bal_of c a = bal_of d a)"
  then have "filter (\<lambda>a. expired n c a \<and> parent_of c a = b) ks = filter (\<lambda>a. expired n d a \<and> parent_of d a = b) ks"
    by (intro filter_cong) (auto simp: expired_def parent_of_def)
  moreover have "map (bal_of c) (filter (\<lambda>a. expired n d a \<and> parent_of d a = b) ks) =
      map (bal_of d) (filter (\<lambda>a. expired n d a \<and> parent_of d a = b) ks)"
    using * by (intro map_cong) (auto simp: expired_def)
  ultimately show ?thesis unfolding returned_def by (simp only:)
qed

lemma unlock_all:
  assumes "balance_ok c" and "distinct ks"
    and "\<And>a. a \<in> set ks \<Longrightarrow> expired n c a \<Longrightarrow> parent_of c a \<noteq> a \<and> \<not> expired n c (parent_of c a)"
  shows "\<exists>c'. foldR (unlock_account E n) ks c = Inr c' \<and> balance_ok c' \<and> supply_of c' = supply_of c \<and>
    (\<forall>b. lock_of c' b = (if b \<in> set ks \<and> expired n c b then None else lock_of c b)) \<and>
    (\<forall>b. bal_of c' b = (if b \<in> set ks \<and> expired n c b then 0 else bal_of c b) + returned n c ks b)"
  using assms
proof (induction ks arbitrary: c)
  case Nil
  then show ?case by (simp add: returned_def)
next
  case (Cons a ks)
  show ?case
  proof (cases "expired n c a")
    case False
    then have "unlock_account E n a c = Inr c" using Cons.prems by (simp add: unlock_account_idle)
    moreover have "returned n c (a # ks) b = returned n c ks b" for b using False by (simp add: returned_def)
    moreover have "b \<in> set (a # ks) \<and> expired n c b \<longleftrightarrow> b \<in> set ks \<and> expired n c b" for b using False by auto
    ultimately show ?thesis using Cons.IH [of c] Cons.prems by simp
  next
    case True
    obtain d where d: "unlock_account E n a c = Inr d" "balance_ok d" "supply_of d = supply_of c"
        "bal_of d = ledger_transfer a (parent_of c a) (bal_of c a) (bal_of c)"
        "\<And>b. lock_of d b = (if b = a then None else lock_of c b)"
      by (rule unlock_account_expired [OF Cons.prems(1) True, of E]) blast
    have par: "parent_of c a \<noteq> a" "\<not> expired n c (parent_of c a)" using Cons.prems(3) [of a] True by auto
    have same: "lock_of d b = lock_of c b" if "b \<noteq> a" for b using d(5) that by simp
    have ex: "expired n d b \<longleftrightarrow> expired n c b" "parent_of d b = parent_of c b" if "b \<noteq> a" for b
      using same [OF that] by (simp_all add: expired_def parent_of_def)
    have notin: "a \<notin> set ks" using Cons.prems(2) by simp
    have bal: "bal_of d b = bal_of c b" if "b \<noteq> a" "expired n c b" for b
      using that par d(4) by (auto simp: ledger_transfer_def ledger_debit_def ledger_credit_def)
    have "\<And>b. b \<in> set ks \<Longrightarrow> expired n d b \<Longrightarrow> parent_of d b \<noteq> b \<and> \<not> expired n d (parent_of d b)"
      using Cons.prems(3) notin ex by (metis d(5) expired_def list.set_intros(2) option.simps(4))
    then obtain c' where c': "foldR (unlock_account E n) ks d = Inr c'" "balance_ok c'" "supply_of c' = supply_of d"
        "\<And>b. lock_of c' b = (if b \<in> set ks \<and> expired n d b then None else lock_of d b)"
        "\<And>b. bal_of c' b = (if b \<in> set ks \<and> expired n d b then 0 else bal_of d b) + returned n d ks b"
      using Cons.IH [OF d(2)] Cons.prems(2) by auto
    have ret: "returned n d ks b = returned n c ks b" for b
      using notin same bal ex by (intro expired_lock_cong) metis
    have "lock_of c' b = (if b \<in> set (a # ks) \<and> expired n c b then None else lock_of c b)" for b
      using c'(4) [of b] d(5) [of b] ex [of b] notin True by (cases "b = a") auto
    moreover have "bal_of c' b = (if b \<in> set (a # ks) \<and> expired n c b then 0 else bal_of c b)
        + returned n c (a # ks) b" for b
    proof -
      have "a \<noteq> []" using True by (auto simp: expired_def)
      then show ?thesis
        using c'(5) [of b] ret [of b] ex [of b] notin True par d(4) bal [of b]
        by (cases "b = a")
          (auto simp: returned_def ledger_transfer_def ledger_debit_def ledger_credit_def expired_def)
    qed
    ultimately show ?thesis using d c' by auto
  qed
qed

lemma account_keys:
  assumes "contract_ok c"
  shows "distinct (find_keys_no_prefix (accKey []) c)"
    "set (find_keys_no_prefix (accKey []) c) = {a. LocalGet (accKey a) c \<noteq> None}"
proof -
  have key: "accKey (drop 1 k) = k" if "prefix (accKey []) k" for k
    using that by (auto simp: accKey_def prefix_def)
  have keys: "map accKey (find_keys_no_prefix (accKey []) c) = map fst (LocalFind (accKey []) c)"
    using LocalFind_prefix [of _ "accKey []" c] key by (auto simp: find_keys_no_prefix_def accKey_def [of "[]"])
  then show "distinct (find_keys_no_prefix (accKey []) c)"
    using LocalFind_distinct [OF assms, of "accKey []"] by (metis distinct_map)
  show "set (find_keys_no_prefix (accKey []) c) = {a. LocalGet (accKey a) c \<noteq> None}"
  proof (intro set_eqI iffI)
    fix a assume "a \<in> set (find_keys_no_prefix (accKey []) c)"
    then have "accKey a \<in> fst ` set (LocalFind (accKey []) c)" using keys by (metis image_eqI image_set)
    then show "a \<in> {a. LocalGet (accKey a) c \<noteq> None}" using LocalFind_iff [OF assms] by force
  next
    fix a assume "a \<in> {a. LocalGet (accKey a) c \<noteq> None}"
    then obtain v where "(accKey a, v) \<in> set (LocalFind (accKey []) c)" using LocalFind_iff [OF assms] by auto
    then have "accKey a \<in> set (map accKey (find_keys_no_prefix (accKey []) c))" using keys by force
    then show "a \<in> set (find_keys_no_prefix (accKey []) c)" by auto
  qed
qed

lemma expired_has_account: "expired n c a \<Longrightarrow> LocalGet (accKey a) c \<noteq> None"
  by (auto simp: expired_def lock_of_def split: option.splits)

lemma unlock_account_total:
  assumes ok: "balance_ok c" and locks: "locks_ok c" and run: "unlock_account E n a c = Inr c'"
  shows "balance_ok c' \<and> locks_ok c' \<and> supply_of c' = supply_of c \<and> accounts_total c' = accounts_total c"
proof (cases "expired n c a")
  case False
  then show ?thesis using unlock_account_idle [OF ok False, of E] run ok locks by simp
next
  case True
  have "length (parent_of c a) = Hash160Len"
    using True locks by (auto simp: expired_def parent_of_def locks_ok_def split: option.splits)
  then have flow: "flow (parent_of c a) (bal_of c a) = bal_of c a" by (simp add: flow_def)
  obtain d where d: "unlock_account E n a c = Inr d" "balance_ok d" "supply_of d = supply_of c"
      "accounts_total d = accounts_total c + flow (parent_of c a) (bal_of c a) - bal_of c a"
      "\<And>b. lock_of d b = (if b = a then None else lock_of c b)"
    by (rule unlock_account_expired [OF ok True, of E]) blast
  have "locks_ok d" using locks d(5) by (auto simp: locks_ok_def split: if_split_asm)
  then show ?thesis using d run flow by simp
qed

lemma NewEpoch_total:
  assumes "balance_ok c" and "locks_ok c" and "balance_NewEpoch E n c = Inr c'"
  shows "balance_ok c' \<and> locks_ok c' \<and> supply_of c' = supply_of c \<and> accounts_total c' = accounts_total c"
proof -
  have "foldR (unlock_account E n) (find_keys_no_prefix (accKey []) c) c = Inr c'"
    using assms(3) by (auto simp: balance_NewEpoch_def)
  then show ?thesis
  proof (rule foldR_invariant [where P = "\<lambda>d. balance_ok d \<and> locks_ok d \<and> supply_of d = supply_of c
      \<and> accounts_total d = accounts_total c"])
    fix a d d'
    assume d: "balance_ok d \<and> locks_ok d \<and> supply_of d = supply_of c \<and> accounts_total d = accounts_total c"
      and run: "unlock_account E n a d = Inr d'"
    show "balance_ok d' \<and> locks_ok d' \<and> supply_of d' = supply_of c \<and> accounts_total d' = accounts_total c"
      using unlock_account_total [OF _ _ run] d by simp
  qed (use assms in simp)
qed

end
