(* ===== verification/Proto.thy ===== *)
theory Proto
  imports Runtime
begin

text \<open>
  The package \<open>internal/proto\<close>: Protocol Buffers tags, lengths and base-128 varints, as the Container
  contract uses them to build the bytes a container identifier is the hash of. \<open>uint64\<close> is
  \<open>64 word\<close>; a buffer the code writes into is a byte list, and a write outside of it is a fault.
\<close>

section \<open>Writing (encoding.go)\<close>

text \<open>The conversions \<open>byte(x)\<close>, which keeps the low 8 bits, and \<open>uint64(b)\<close>.\<close>

definition byte_of :: "64 word \<Rightarrow> char" where
  "byte_of w = char_of (uint w)"

definition of_byte :: "char \<Rightarrow> 64 word" where
  "of_byte c = word_of_int (of_char c)"

definition maxUint32 :: "64 word" where "maxUint32 = 4294967295"

definition errVarintOverflow :: string where "errVarintOverflow = ''varint overflow''"

definition EncodeTag :: "64 word \<Rightarrow> 64 word \<Rightarrow> 64 word" where
  "EncodeTag num typ = push_bit 3 num OR (typ AND 7)"

lemma drop_bit_7_less: "0x80 \<le> x \<Longrightarrow> unat (drop_bit 7 x) < unat (x :: 64 word)"
  by (simp only: unat_drop_bit_eq) (simp add: drop_bit_eq_div word_le_nat_alt)

function SizeVarint_loop :: "64 word \<Rightarrow> nat \<Rightarrow> nat" where
  "SizeVarint_loop x i = (if 0x80 \<le> x then SizeVarint_loop (drop_bit 7 x) (i + 1) else i + 1)"
  by pat_completeness auto
termination
  by (relation "measure (\<lambda>(x, i). unat x)") (auto simp: drop_bit_7_less)

declare SizeVarint_loop.simps [simp del]

definition SizeVarint :: "64 word \<Rightarrow> nat" where
  "SizeVarint x = SizeVarint_loop x 0"

definition SizeTag :: "64 word \<Rightarrow> nat" where
  "SizeTag num = SizeVarint (push_bit 3 num)"

definition SizeLEN :: "nat \<Rightarrow> nat" where
  "SizeLEN ln = SizeVarint (of_nat ln) + ln"

definition write_byte :: "bytes \<Rightarrow> nat \<Rightarrow> char \<Rightarrow> bytes res" where
  "write_byte buf i c = (if i < length buf then Inr (buf[i := c]) else Inl (Fault ''index out of range''))"

function PutUvarint_loop :: "bytes \<Rightarrow> nat \<Rightarrow> 64 word \<Rightarrow> nat \<Rightarrow> (bytes \<times> nat) res" where
  "PutUvarint_loop buf off x i =
     (if 0x80 \<le> x
      then andThen (write_byte buf (off + i) (byte_of ((x AND 0xFF) OR 0x80)))
             (\<lambda>buf'. PutUvarint_loop buf' off (drop_bit 7 x) (i + 1))
      else andThen (write_byte buf (off + i) (byte_of x)) (\<lambda>buf'. Inr (buf', i + 1)))"
  by pat_completeness auto
termination
  by (relation "measure (\<lambda>(buf, off, x, i). unat x)") (auto simp: drop_bit_7_less)

declare PutUvarint_loop.simps [simp del]

definition PutUvarint :: "bytes \<Rightarrow> nat \<Rightarrow> 64 word \<Rightarrow> (bytes \<times> nat) res" where
  "PutUvarint buf off x = PutUvarint_loop buf off x 0"

section \<open>Reading (encoding.go)\<close>

text \<open>
  A reading function returns its values and an exception text that is empty on success. The loop of
  \<open>uvarint\<close> over a buffer that ends before the last byte of the varint falls through to the final
  \<open>return 0, 0, ""\<close>.
\<close>

fun uvarint_loop :: "bytes \<Rightarrow> nat \<Rightarrow> 64 word \<Rightarrow> nat \<Rightarrow> 64 word \<times> int \<times> string" where
  "uvarint_loop [] i x s = (0, 0, [])"
| "uvarint_loop (b # bs) i x s =
     (if i = 10 then (0, 0, errVarintOverflow)
      else if of_byte b < 0x80
        then (if i = 9 \<and> 1 < of_byte b then (0, 0, errVarintOverflow)
              else (x OR push_bit s (of_byte b), int i + 1, []))
      else uvarint_loop bs (i + 1) (x OR push_bit s (of_byte b AND 0x7f)) (s + 7))"

definition uvarint :: "bytes \<Rightarrow> 64 word \<times> int \<times> string" where
  "uvarint buf = uvarint_loop buf 0 0 0"

definition MaxFieldNumber :: "64 word" where "MaxFieldNumber = 536870911"

definition firstUnknownFieldType :: "64 word" where "firstUnknownFieldType = 6"

definition ReadTag :: "bytes \<Rightarrow> int \<times> int \<times> int \<times> string" where
  "ReadTag b = (case uvarint b of (n, r, e) \<Rightarrow>
     if e \<noteq> [] then (0, 0, 0, e)
     else let num = drop_bit 3 n in
       if num = 0 \<or> MaxFieldNumber < num
       then (0, 0, 0, ''invalid/unsupported protobuf field num '' @ itoa10 (uint n))
       else let typ = n AND 7 in
         if firstUnknownFieldType \<le> typ
         then (0, 0, 0, ''invalid/unsupported protobuf field type '' @ itoa10 (uint typ))
         else (uint num, uint typ, r, []))"

definition ReadSizeLEN :: "bytes \<Rightarrow> int \<times> int \<times> string" where
  "ReadSizeLEN b = (case uvarint b of (n, r, e) \<Rightarrow>
     if e \<noteq> [] then (0, 0, e)
     else let full = word_of_int (int (length b)) :: 64 word in
       if full < n \<or> full - word_of_int r < n
       then (0, 0, ''too big field len '' @ itoa10 (uint n) @ '', full '' @ itoa10 (int (length b)))
       else (uint n, r, []))"

definition ReadUint32 :: "bytes \<Rightarrow> 32 word \<times> int \<times> string" where
  "ReadUint32 b = (case uvarint b of (n, r, e) \<Rightarrow>
     if e \<noteq> [] then (0, 0, e)
     else if maxUint32 < n then (0, 0, itoa10 (uint n) @ '' overflows uint32'')
     else (ucast n, r, []))"

section \<open>Field types (message.go, util.go)\<close>

definition StringifyFieldType :: "int \<Rightarrow> string" where
  "StringifyFieldType typ =
     (if typ = 0 then ''VARINT'' else if typ = 1 then ''I64'' else if typ = 2 then ''LEN''
      else if typ = 3 then ''SGROUP'' else if typ = 4 then ''EGROUP'' else if typ = 5 then ''I32''
      else ''UNKNOWN#'' @ itoa10 typ)"

definition CheckFieldType :: "int \<Rightarrow> int \<Rightarrow> int \<Rightarrow> string" where
  "CheckFieldType num got exp =
     (if got \<noteq> exp
      then ''wrong type of field #'' @ itoa10 num @ '': expected '' @ StringifyFieldType exp
             @ '', got '' @ StringifyFieldType exp
      else [])"

definition AssertFieldType :: "int \<Rightarrow> int \<Rightarrow> int \<Rightarrow> unit res" where
  "AssertFieldType num got exp = (let e = CheckFieldType num got exp in
     if e \<noteq> [] then Inl (Panic e) else Inr ())"

section \<open>The reference encoding\<close>

text \<open>The varint of a number as a byte string of its own, low groups of seven bits first.\<close>

function varint_bytes :: "64 word \<Rightarrow> bytes" where
  "varint_bytes x = (if 0x80 \<le> x then byte_of ((x AND 0xFF) OR 0x80) # varint_bytes (drop_bit 7 x)
     else [byte_of x])"
  by pat_completeness auto
termination
  by (relation "measure unat") (auto simp: drop_bit_7_less)

declare varint_bytes.simps [simp del]

lemma SizeVarint_loop_eq: "SizeVarint_loop x i = i + length (varint_bytes x)"
proof (induction x arbitrary: i rule: varint_bytes.induct)
  case (1 x)
  then show ?case
    by (cases "0x80 \<le> x") (simp_all add: SizeVarint_loop.simps [of x] varint_bytes.simps [of x])
qed

lemma SizeVarint_eq: "SizeVarint x = length (varint_bytes x)"
  by (simp add: SizeVarint_def SizeVarint_loop_eq)

lemma varint_bytes_not_Nil [simp]: "varint_bytes x \<noteq> []"
  by (subst varint_bytes.simps) simp

text \<open>Writing into a buffer replaces exactly the bytes of the encoding.\<close>

lemma take_drop_list_update:
  "k < length xs \<Longrightarrow> xs[k := c] = take k xs @ c # drop (Suc k) xs"
  by (rule upd_conv_take_nth_drop)

lemma PutUvarint_loop_eq:
  "off + i + length (varint_bytes x) \<le> length buf \<Longrightarrow>
   PutUvarint_loop buf off x i = Inr (take (off + i) buf @ varint_bytes x
      @ drop (off + i + length (varint_bytes x)) buf, i + length (varint_bytes x))"
proof (induction x arbitrary: i buf rule: varint_bytes.induct)
  case (1 x)
  show ?case
  proof (cases "0x80 \<le> x")
    case True
    let ?c = "byte_of ((x AND 0xFF) OR 0x80)" and ?buf = "buf[off + i := byte_of ((x AND 0xFF) OR 0x80)]"
    have len: "length (varint_bytes x) = Suc (length (varint_bytes (drop_bit 7 x)))"
      using True by (simp add: varint_bytes.simps [of x])
    then have "PutUvarint_loop ?buf off (drop_bit 7 x) (i + 1) = Inr (take (off + (i + 1)) ?buf
        @ varint_bytes (drop_bit 7 x) @ drop (off + (i + 1) + length (varint_bytes (drop_bit 7 x))) ?buf,
        i + 1 + length (varint_bytes (drop_bit 7 x)))"
      using 1 True by simp
    moreover have "take (off + (i + 1)) ?buf = take (off + i) buf @ [?c]"
      using "1.prems" len by (simp add: take_Suc_conv_app_nth)
    ultimately show ?thesis using True "1.prems" len
      by (subst PutUvarint_loop.simps) (simp add: write_byte_def varint_bytes.simps [of x])
  next
    case False
    then have "varint_bytes x = [byte_of x]" by (simp add: varint_bytes.simps [of x])
    then show ?thesis using False "1.prems"
      by (subst PutUvarint_loop.simps) (simp add: write_byte_def take_drop_list_update)
  qed
qed

lemma PutUvarint_eq:
  "off + SizeVarint x \<le> length buf \<Longrightarrow>
   PutUvarint buf off x = Inr (take off buf @ varint_bytes x @ drop (off + SizeVarint x) buf, SizeVarint x)"
  using PutUvarint_loop_eq [of off 0 x buf] by (simp add: PutUvarint_def SizeVarint_eq)

section \<open>Reading back what was written\<close>

lemma of_byte_of: "of_byte (byte_of w) = take_bit 8 w"
proof -
  have "uint w mod 256 = take_bit 8 (uint w)" by (simp add: take_bit_eq_mod)
  then show ?thesis
    by (simp only: of_byte_def byte_of_def of_char_of_int) (simp add: word_of_int_uint flip: unsigned_take_bit_eq)
qed

lemma byte_masks: "(0x7F :: 64 word) = mask 7" "(0xFF :: 64 word) = mask 8" "(0x80 :: 64 word) = 2 ^ 7"
  by (simp_all add: mask_eq_exp_minus_1)

lemma of_byte_of_small: "w < 0x80 \<Longrightarrow> of_byte (byte_of w) = w"
  by (rule word_unat_eq_iff [THEN iffD2])
    (simp add: of_byte_of unsigned_take_bit_eq word_less_nat_alt take_bit_nat_eq_self)

lemma of_byte_cont:
  fixes x :: "64 word"
  defines "b \<equiv> of_byte (byte_of ((x AND 0xFF) OR 0x80))"
  shows "\<not> b < 0x80" and "b AND 0x7F = x AND 0x7F"
proof -
  have b: "b = (x AND 0xFF) OR 0x80"
    unfolding b_def of_byte_of take_bit_eq_mask byte_masks(2) [symmetric]
    by (simp add: bit.conj_disj_distrib2 and.assoc)
  show "\<not> b < 0x80" unfolding b using le_word_or1 [of "0x80 :: 64 word" "x AND 0xFF"]
    by (simp add: not_less or.commute)
  show "b AND 0x7F = x AND 0x7F" unfolding b
    by (simp add: bit.conj_disj_distrib2 and.assoc)
qed

lemma low_high_bits: "(x AND 0x7F) OR push_bit 7 (drop_bit 7 x) = (x :: 64 word)"
  unfolding byte_masks
  by (rule bit_word_eqI) (auto simp: bit_simps not_less, metis le_add_diff_inverse not_le)

lemma unat_uint64_less: "unat (x :: 64 word) < 2 ^ 64"
  using unsigned_less [of x, where 'a = nat] by simp

lemma uvarint_loop_varint:
  assumes "unat y < 2 ^ (64 - 7 * i)" and "i \<le> 9"
  shows "i + length (varint_bytes y) \<le> 10 \<and>
    uvarint_loop (varint_bytes y @ rest) i x (7 * i) =
      (x OR push_bit (7 * i) y, int (i + length (varint_bytes y)), [])"
  using assms
proof (induction y arbitrary: i x rule: varint_bytes.induct)
  case (1 y)
  show ?case
  proof (cases "0x80 \<le> y")
    case True
    let ?b = "byte_of ((y AND 0xFF) OR 0x80)" and ?y = "drop_bit 7 y"
    have i: "i < 9"
    proof (rule ccontr)
      assume "\<not> i < 9"
      with "1.prems" True show False by (simp add: word_le_nat_alt)
    qed
    have exp: "(2 :: nat) ^ (64 - 7 * i) = 2 ^ (64 - 7 * Suc i) * 128"
    proof -
      have "64 - 7 * i = (64 - 7 * Suc i) + 7" using i by simp
      then show ?thesis by (simp only: power_add) simp
    qed
    then have "unat ?y < 2 ^ (64 - 7 * Suc i)"
      using "1.prems"(1) unfolding unat_drop_bit_eq
      by (simp add: drop_bit_eq_div less_mult_imp_div_less)
    then have IH: "Suc i + length (varint_bytes ?y) \<le> 10 \<and>
      uvarint_loop (varint_bytes ?y @ rest) (Suc i) z (7 * Suc i) =
        (z OR push_bit (7 * Suc i) ?y, int (Suc i + length (varint_bytes ?y)), [])" for z
      using "1.IH" [OF True, of "Suc i" z] i by simp
    have step: "push_bit (7 * i) (y AND 0x7F) OR push_bit (7 * Suc i) ?y = push_bit (7 * i) y"
    proof -
      have "push_bit (7 * Suc i) ?y = push_bit (7 * i) (push_bit 7 ?y)" by (simp add: ac_simps)
      then show ?thesis by (simp only: low_high_bits flip: push_bit_or)
    qed
    have "uvarint_loop (varint_bytes y @ rest) i x (7 * i) =
        uvarint_loop (varint_bytes ?y @ rest) (Suc i) (x OR push_bit (7 * i) (y AND 0x7F)) (7 * Suc i)"
      using True i of_byte_cont [of y]
      by (subst varint_bytes.simps) (simp add: add.commute)
    then show ?thesis using IH [of "x OR push_bit (7 * i) (y AND 0x7F)"] True
      by (simp only: or.assoc step) (simp add: varint_bytes.simps [of y])
  next
    case False
    have "\<not> (i = 9 \<and> 1 < y)" using "1.prems" by (auto simp: word_less_nat_alt)
    then show ?thesis using False "1.prems"(2)
      by (auto simp: varint_bytes.simps [of y] of_byte_of_small)
  qed
qed

text \<open>\<open>uvarint\<close> reads back what \<open>PutUvarint\<close> wrote, whatever follows it, in at most ten bytes.\<close>

lemma uvarint_varint_bytes:
  "uvarint (varint_bytes x @ rest) = (x, int (SizeVarint x), [])"
  using uvarint_loop_varint [of x 0 rest 0] unat_uint64_less [of x]
  by (simp add: uvarint_def SizeVarint_eq)

lemma SizeVarint_bounds: "1 \<le> SizeVarint x" "SizeVarint x \<le> 10"
  using uvarint_loop_varint [of x 0 "[]" 0] unat_uint64_less [of x]
  by (simp_all add: SizeVarint_eq Suc_le_eq)

lemma uvarint_loop_consumed:
  "uvarint_loop bs i x s = (n, r, []) \<Longrightarrow> r = 0 \<or> int i < r \<and> r \<le> int (i + length bs)"
  by (induction bs i x s rule: uvarint_loop.induct)
    (auto simp: errVarintOverflow_def split: if_splits)

lemma uvarint_consumed: "uvarint b = (n, r, []) \<Longrightarrow> 0 \<le> r \<and> r \<le> int (length b)"
  using uvarint_loop_consumed [of b 0 0 0 n r] by (auto simp: uvarint_def)

section \<open>Tags\<close>

lemma EncodeTag_fields:
  assumes "num \<le> MaxFieldNumber"
  shows "drop_bit 3 (EncodeTag num typ) = num" "EncodeTag num typ AND 7 = typ AND 7"
proof -
  have seven: "(7 :: 64 word) = mask 3" by (simp add: mask_eq_exp_minus_1)
  have "unat num < 2 ^ 29" using assms by (simp add: MaxFieldNumber_def word_le_nat_alt)
  then have "take_bit 29 num = num"
    by (intro word_unat_eq_iff [THEN iffD2]) (simp add: unsigned_take_bit_eq take_bit_nat_eq_self)
  then have high: "\<not> bit num n" if "29 \<le> n" for n using that by (metis bit_take_bit_iff not_less)
  show "drop_bit 3 (EncodeTag num typ) = num"
  proof (rule bit_word_eqI)
    fix n assume "n < LENGTH(64)"
    show "bit (drop_bit 3 (EncodeTag num typ)) n = bit num n"
      using high [of n] by (cases "29 \<le> n") (auto simp: EncodeTag_def seven bit_simps)
  qed
  show "EncodeTag num typ AND 7 = typ AND 7"
    by (rule bit_word_eqI) (auto simp: EncodeTag_def seven bit_simps)
qed

lemma varint_bytes_length_cong:
  "drop_bit 7 x = drop_bit 7 y \<Longrightarrow> length (varint_bytes x) = length (varint_bytes y)"
proof -
  assume eq: "drop_bit 7 x = drop_bit 7 y"
  have small: "z < 0x80 \<longleftrightarrow> drop_bit 7 z = 0" for z :: "64 word"
    by (simp add: drop_bit_eq_div word_less_nat_alt word_unat_eq_iff unat_div div_eq_0_iff)
  show ?thesis using eq small [of x] small [of y]
    by (cases "0x80 \<le> x"; cases "0x80 \<le> y") (simp_all add: varint_bytes.simps [of x] varint_bytes.simps [of y] not_le not_less)
qed

lemma SizeTag_EncodeTag: "SizeTag num = SizeVarint (EncodeTag num typ)"
proof -
  have seven: "(7 :: 64 word) = mask 3" by (simp add: mask_eq_exp_minus_1)
  have "drop_bit 7 (EncodeTag num typ) = drop_bit 7 (push_bit 3 num)"
    by (rule bit_word_eqI) (auto simp: EncodeTag_def seven bit_simps)
  then show ?thesis unfolding SizeTag_def SizeVarint_eq by (rule varint_bytes_length_cong [symmetric])
qed

section \<open>The properties\<close>

text \<open>Writing an unsigned 64-bit integer as a varint at an offset of a buffer with room for
  \<open>SizeVarint\<close> bytes succeeds, returns that size, which is between 1 and 10, replaces exactly those
  bytes of the buffer, and reading at the offset gives the integer and the same number of bytes back.\<close>

theorem PutUvarint_roundtrip:
  assumes "off + SizeVarint x \<le> length buf"
  shows "\<exists>buf'. PutUvarint buf off x = Inr (buf', SizeVarint x) \<and> length buf' = length buf \<and>
    take off buf' = take off buf \<and> drop (off + SizeVarint x) buf' = drop (off + SizeVarint x) buf \<and>
    uvarint (drop off buf') = (x, int (SizeVarint x), []) \<and> 1 \<le> SizeVarint x \<and> SizeVarint x \<le> 10"
proof -
  let ?buf = "take off buf @ varint_bytes x @ drop (off + SizeVarint x) buf"
  have off: "off \<le> length buf" using assms by simp
  have "uvarint (drop off ?buf) = (x, int (SizeVarint x), [])" using off by (simp add: uvarint_varint_bytes)
  moreover have "length ?buf = length buf" using assms by (simp add: SizeVarint_eq)
  moreover have "drop (off + SizeVarint x) ?buf = drop (off + SizeVarint x) buf"
    using off by (simp add: SizeVarint_eq)
  ultimately show ?thesis using off PutUvarint_eq [OF assms] SizeVarint_bounds [of x]
    by (intro exI [of _ ?buf]) simp
qed

theorem PutUvarint_roundtrip_witness:
  "\<exists>buf'. PutUvarint (replicate 12 (CHR 0x00)) 2 0xFFFFFFFFFFFFFFFF = Inr (buf', 10) \<and>
     uvarint (drop 2 buf') = (0xFFFFFFFFFFFFFFFF, 10, [])"
proof -
  have "SizeVarint 0xFFFFFFFFFFFFFFFF = 10" by code_simp
  then show ?thesis
    using PutUvarint_roundtrip [of 2 "0xFFFFFFFFFFFFFFFF" "replicate 12 (CHR 0x00)"] by auto
qed

text \<open>Reading a tag written for a field number Protocol Buffers allows and a known field type gives
  that number, that type and the number of bytes \<open>SizeTag\<close> had announced, whatever follows the tag.\<close>

theorem ReadTag_EncodeTag:
  assumes "num \<noteq> 0" and "num \<le> MaxFieldNumber" and "t < firstUnknownFieldType"
  shows "ReadTag (varint_bytes (EncodeTag num t) @ rest) = (uint num, uint t, int (SizeTag num), [])"
proof -
  have "t AND 7 = t"
  proof -
    have "unat t < 2 ^ 3" using assms(3) by (simp add: firstUnknownFieldType_def word_less_nat_alt)
    then have "take_bit 3 t = t"
      by (intro word_unat_eq_iff [THEN iffD2]) (simp add: unsigned_take_bit_eq take_bit_nat_eq_self)
    then show ?thesis by (simp add: take_bit_eq_mask mask_eq_exp_minus_1)
  qed
  then show ?thesis using assms EncodeTag_fields [OF assms(2), of t]
    by (simp add: ReadTag_def uvarint_varint_bytes SizeTag_EncodeTag [of num t] Let_def not_le not_less)
qed

theorem ReadTag_EncodeTag_witness: "ReadTag (varint_bytes (EncodeTag 12 2) @ ''rest'') = (12, 2, 1, [])"
proof -
  have "SizeTag 12 = 1" by code_simp
  then show ?thesis using ReadTag_EncodeTag [of 12 2 "''rest''"]
    by (simp add: MaxFieldNumber_def firstUnknownFieldType_def)
qed

text \<open>A length prefix that \<open>ReadSizeLEN\<close> accepts never points outside of the message: the
  announced length fits in what remains after the prefix.\<close>

theorem ReadSizeLEN_in_bounds:
  assumes "length b < 2 ^ 64" and "ReadSizeLEN b = (n, r, [])"
  shows "0 \<le> n \<and> 0 \<le> r \<and> r + n \<le> int (length b)"
proof -
  obtain w r' e where u: "uvarint b = (w, r', e)" by (cases "uvarint b") auto
  let ?full = "word_of_int (int (length b)) :: 64 word"
  from assms(2) u have e: "e = []" and n: "n = uint w" "r = r'" and le: "w \<le> ?full - word_of_int r'"
    by (auto simp: ReadSizeLEN_def Let_def not_less split: if_split_asm)
  have r: "0 \<le> r'" "r' \<le> int (length b)" using u e uvarint_consumed by auto
  have "int (length b) < 2 ^ 64" using assms(1) by (metis of_nat_less_iff of_nat_numeral of_nat_power)
  moreover have "?full - word_of_int r' = word_of_int (int (length b) - r')" by (simp only: of_int_diff)
  ultimately have "uint (?full - word_of_int r') = int (length b) - r'"
    using r by (simp only: unsigned_of_int) (simp add: take_bit_int_eq_self)
  moreover have "uint w \<le> uint (?full - word_of_int r')" using le by (simp add: word_le_def)
  ultimately show ?thesis using n r by simp
qed

theorem ReadSizeLEN_in_bounds_witness:
  "ReadSizeLEN (CHR 0x03 # ''abcd'') = (3, 1, []) \<and> (1 :: int) + 3 \<le> int (length (CHR 0x03 # ''abcd''))"
proof -
  have "ReadSizeLEN (CHR 0x03 # ''abcd'') = (3, 1, [])" by code_simp
  then show ?thesis using ReadSizeLEN_in_bounds [of "CHR 0x03 # ''abcd''" 3 1] by simp
qed

end
