(* ===== verification/Container_Data.thy ===== *)
theory Container_Data
  imports Proto Common
begin

text \<open>
  The data of the Container contract (\<open>contracts/container/contract.go\<close>, \<open>containerconst\<close>): its
  structures, storage keys and notifications, the services of other contracts it calls, and the
  Protocol Buffers form of a container, whose digest is the container's identifier.
\<close>

section \<open>Structures\<close>

record api_version =
  Major :: "32 word"
  Minor :: "32 word"

record attribute =
  a_Key :: string
  a_Value :: string

record info =
  ci_Version :: api_version
  ci_Owner :: bytes
  ci_Nonce :: bytes
  ci_BasicACL :: "32 word"
  ci_Attributes :: "attribute list"
  ci_StoragePolicy :: bytes

record info_rev = info +
  ci_Revision :: int

record billing_stat =
  bs_Account :: bytes
  bs_LatestContainerSize :: int
  bs_LatestEpoch :: int
  bs_LastUpdateTime :: int
  bs_LatestEpochAverageSize :: int
  bs_PreviousContainerSize :: int
  bs_PreviousEpoch :: int
  bs_PreviousEpochAverageSize :: int

record node_report =
  nr_PublicKey :: bytes
  nr_ContainerSize :: int
  nr_NumberOfObjects :: int
  nr_NumberOfReports :: int
  nr_LastUpdateEpoch :: int

record report_summary =
  rs_ContainerSize :: int
  rs_NumberOfObjects :: int

record quota =
  q_SoftLimit :: int
  q_HardLimit :: int

text \<open>\<open>CInfo\<close> is a container stored before revisions were introduced.\<close>

datatype cnt_ser =
    CInfo info
  | CInfoRev info_rev
  | CReport node_report
  | CSummary report_summary
  | CBilling billing_stat
  | CQuota quota

datatype cnt_event =
    CntTransfer "bytes option" "bytes option" int bytes
  | CntNodesUpdate bytes
  | CntEACLChanged bytes
  | CntContainerUpdated bytes int
  | CntContainerQuotaSet bytes int bool
  | CntUserQuotaSet bytes int bool
  | CntAttributeChanged bytes string

type_synonym container = "(cnt_ser, cnt_event) contract"

definition emptyBilling :: billing_stat where
  "emptyBilling = \<lparr>bs_Account = [], bs_LatestContainerSize = 0, bs_LatestEpoch = 0, bs_LastUpdateTime = 0,
     bs_LatestEpochAverageSize = 0, bs_PreviousContainerSize = 0, bs_PreviousEpoch = 0, bs_PreviousEpochAverageSize = 0\<rparr>"

definition emptyReport :: node_report where
  "emptyReport = \<lparr>nr_PublicKey = [], nr_ContainerSize = 0, nr_NumberOfObjects = 0, nr_NumberOfReports = 0, nr_LastUpdateEpoch = 0\<rparr>"

definition emptySummary :: report_summary where
  "emptySummary = \<lparr>rs_ContainerSize = 0, rs_NumberOfObjects = 0\<rparr>"

definition emptyQuota :: quota where "emptyQuota = \<lparr>q_SoftLimit = 0, q_HardLimit = 0\<rparr>"

definition cnt_info :: "cnt_ser sval \<Rightarrow> info_rev res" where
  "cnt_info v = andThen (deserialize v) (\<lambda>x. case x of CInfoRev i \<Rightarrow> Inr i | _ \<Rightarrow> Inl (Fault ''not a container''))"

definition cnt_report :: "cnt_ser sval \<Rightarrow> node_report res" where
  "cnt_report v = andThen (deserialize v) (\<lambda>x. case x of CReport r \<Rightarrow> Inr r | _ \<Rightarrow> Inl (Fault ''not a report''))"

definition cnt_summary :: "cnt_ser sval \<Rightarrow> report_summary res" where
  "cnt_summary v = andThen (deserialize v) (\<lambda>x. case x of CSummary r \<Rightarrow> Inr r | _ \<Rightarrow> Inl (Fault ''not a summary''))"

definition cnt_billing :: "cnt_ser sval \<Rightarrow> billing_stat res" where
  "cnt_billing v = andThen (deserialize v) (\<lambda>x. case x of CBilling r \<Rightarrow> Inr r | _ \<Rightarrow> Inl (Fault ''not a billing stat''))"

definition cnt_quota :: "cnt_ser sval \<Rightarrow> quota res" where
  "cnt_quota v = andThen (deserialize v) (\<lambda>x. case x of CQuota r \<Rightarrow> Inr r | _ \<Rightarrow> Inl (Fault ''not a quota''))"

lemma cnt_values [simp]: "cnt_info (Ser (CInfoRev i)) = Inr i" "cnt_report (Ser (CReport r)) = Inr r"
  "cnt_summary (Ser (CSummary s)) = Inr s" "cnt_billing (Ser (CBilling b)) = Inr b" "cnt_quota (Ser (CQuota q)) = Inr q"
  by (simp_all add: cnt_info_def cnt_report_def cnt_summary_def cnt_billing_def cnt_quota_def)

lemma cnt_values_iff [simp]: "cnt_info v = Inr i \<longleftrightarrow> v = Ser (CInfoRev i)" "cnt_report v = Inr r \<longleftrightarrow> v = Ser (CReport r)"
  "cnt_summary v = Inr s \<longleftrightarrow> v = Ser (CSummary s)" "cnt_billing v = Inr b \<longleftrightarrow> v = Ser (CBilling b)"
  "cnt_quota v = Inr q \<longleftrightarrow> v = Ser (CQuota q)"
  by (cases v; rename_tac x; case_tac x;
      auto simp: cnt_info_def cnt_report_def cnt_summary_def cnt_billing_def cnt_quota_def deserialize_def)+

section \<open>Keys and constants\<close>

definition balanceContractKey :: bytes where "balanceContractKey = ''balanceScriptHash''"
definition netmapContractKey :: bytes where "netmapContractKey = ''netmapScriptHash''"
definition nnsContractKey :: bytes where "nnsContractKey = ''nnsScriptHash''"
definition nnsRootKey :: bytes where "nnsRootKey = ''nnsRoot''"
definition nnsHasAliasKey :: "bytes \<Rightarrow> bytes" where "nnsHasAliasKey i = ''nnsHasAlias'' @ i"

definition summaryKey :: "bytes \<Rightarrow> bytes" where "summaryKey i = CHR ''s'' # i"
definition reportsPrefix :: "bytes \<Rightarrow> bytes" where "reportsPrefix i = CHR ''i'' # i"
definition ownerPrefix :: "bytes \<Rightarrow> bytes" where "ownerPrefix a = CHR ''o'' # a"
definition deletedKey :: "bytes \<Rightarrow> bytes" where "deletedKey i = CHR ''d'' # i"
definition nodesPrefix :: "bytes \<Rightarrow> bytes" where "nodesPrefix i = CHR ''n'' # i"
definition replicasPrefix :: "bytes \<Rightarrow> bytes" where "replicasPrefix i = CHR ''r'' # i"
definition nextNodesPrefix :: "bytes \<Rightarrow> bytes" where "nextNodesPrefix i = CHR ''u'' # i"
definition containerQuotaKey :: "bytes \<Rightarrow> bytes" where "containerQuotaKey i = CHR ''a'' # i"
definition userQuotaKey :: "bytes \<Rightarrow> bytes" where "userQuotaKey u = CHR ''b'' # u"
definition userTotalStorageKey :: "bytes \<Rightarrow> bytes" where "userTotalStorageKey u = CHR ''e'' # u"
definition billingPrefix :: "bytes \<Rightarrow> bytes" where "billingPrefix i = CHR ''f'' # i"
definition infoKey :: "bytes \<Rightarrow> bytes" where "infoKey i = CHR 0x00 # i"
definition eACLKey :: "bytes \<Rightarrow> bytes" where "eACLKey i = ''eACL'' @ i"

lemmas cnt_key_defs = summaryKey_def reportsPrefix_def ownerPrefix_def deletedKey_def nodesPrefix_def replicasPrefix_def
  nextNodesPrefix_def containerQuotaKey_def userQuotaKey_def userTotalStorageKey_def billingPrefix_def infoKey_def eACLKey_def
  balanceContractKey_def netmapContractKey_def nnsContractKey_def nnsRootKey_def nnsHasAliasKey_def

definition corsAttributeName :: string where "corsAttributeName = ''CORS''"
definition lockAttributeName :: string where "lockAttributeName = ''__NEOFS__LOCK_UNTIL''"
definition s3TagsAttributeName :: string where "s3TagsAttributeName = ''S3_TAGS''"
definition s3SettingsAttributeName :: string where "s3SettingsAttributeName = ''S3_SETTINGS''"
definition s3NotificationsAttributeName :: string where "s3NotificationsAttributeName = ''S3_NOTIFICATIONS''"
definition nnsDefaultTLD :: string where "nnsDefaultTLD = ''container''"

definition maxNumberOfReportsPerEpoch :: int where "maxNumberOfReportsPerEpoch = 3"
definition maxNumOfREPs :: int where "maxNumOfREPs = 255"
definition defaultRefresh :: int where "defaultRefresh = 3600"
definition defaultRetry :: int where "defaultRetry = 600"
definition defaultExpire :: int where "defaultExpire = 3600 * 24 * 365 * 10"
definition defaultTTL :: int where "defaultTTL = 3600"
definition nep11TransferAmount :: int where "nep11TransferAmount = 1"
definition objectBillingSize :: int where "objectBillingSize = 16384"
definition NeoFSUserAccountLength :: nat where "NeoFSUserAccountLength = 25"

definition RegistrationFeeKey :: string where "RegistrationFeeKey = ''ContainerFee''"
definition AliasFeeKey :: string where "AliasFeeKey = ''ContainerAliasFee''"
definition AlphabetManagesQuotasKey :: string where "AlphabetManagesQuotasKey = ''AlphabetManagesQuotas''"
definition EpochDurationKey :: string where "EpochDurationKey = ''EpochDuration''"
definition NotFoundError :: string where "NotFoundError = ''container does not exist''"
definition ErrorDeleted :: string where "ErrorDeleted = ''container was previously deleted''"
definition ErrorTooBigNumberOfNodes :: string where "ErrorTooBigNumberOfNodes = ''number of container nodes exceeds limits''"
definition ErrorInvalidContainerID :: string where "ErrorInvalidContainerID = ''invalid container id''"
definition ErrorInvalidPublicKey :: string where "ErrorInvalidPublicKey = ''invalid public key''"
definition ErrorLocked :: string where "ErrorLocked = ''container is locked''"

section \<open>Services of other contracts\<close>

text \<open>
  The methods of the NNS, Netmap and Balance contracts and of the receivers of tokens that the contract
  calls: the first argument is the hash of the called contract, \<open>'o\<close> the state of the other contracts.
  A missing Netmap configuration value is \<open>None\<close>. A receiver of a token may call this contract back.
\<close>

record 'o services =
  nnsIsAvailable :: "bytes \<Rightarrow> string \<Rightarrow> 'o \<Rightarrow> bool res"
  nnsRegisterTLD :: "bytes \<Rightarrow> string \<Rightarrow> string \<Rightarrow> int \<Rightarrow> int \<Rightarrow> int \<Rightarrow> int \<Rightarrow> 'o \<Rightarrow> 'o res"
  nnsRegister :: "bytes \<Rightarrow> string \<Rightarrow> bytes \<Rightarrow> string \<Rightarrow> int \<Rightarrow> int \<Rightarrow> int \<Rightarrow> int \<Rightarrow> 'o \<Rightarrow> (bool \<times> 'o) res"
  nnsAddRecord :: "bytes \<Rightarrow> string \<Rightarrow> int \<Rightarrow> string \<Rightarrow> 'o \<Rightarrow> 'o res"
  nnsOwnerOf :: "bytes \<Rightarrow> string \<Rightarrow> 'o \<Rightarrow> bytes res"
  nnsGetRecords :: "bytes \<Rightarrow> string \<Rightarrow> int \<Rightarrow> 'o \<Rightarrow> string list res"
  nnsDeleteRecords :: "bytes \<Rightarrow> string \<Rightarrow> int \<Rightarrow> 'o \<Rightarrow> 'o res"
  netmapConfig :: "bytes \<Rightarrow> string \<Rightarrow> 'o \<Rightarrow> bytes option res"
  netmapEpoch :: "bytes \<Rightarrow> 'o \<Rightarrow> int res"
  netmapLastEpochTime :: "bytes \<Rightarrow> 'o \<Rightarrow> int res"
  balanceBalanceOf :: "bytes \<Rightarrow> bytes \<Rightarrow> 'o \<Rightarrow> int res"
  balanceTransferX :: "bytes \<Rightarrow> bytes \<Rightarrow> bytes \<Rightarrow> int \<Rightarrow> bytes \<Rightarrow> 'o \<Rightarrow> (bool \<times> 'o) res"
  nep11Payment :: "bytes \<Rightarrow> bytes option \<Rightarrow> int \<Rightarrow> bytes \<Rightarrow> arg \<Rightarrow> container \<times> 'o \<Rightarrow> (container \<times> 'o) res"

text \<open>A hash or a text the deployment stored; without it a call of the contract faults.\<close>

definition stored_bytes :: "bytes \<Rightarrow> container \<Rightarrow> bytes res" where
  "stored_bytes k c = (case LocalGet k c of None \<Rightarrow> Inl (Fault ''null'') | Some v \<Rightarrow> as_bytes v)"

section \<open>Addresses and the container's bytes\<close>

text \<open>Go's \<open>copy(buf[off:], src)\<close>: as many bytes as fit.\<close>

definition copy_at :: "bytes \<Rightarrow> nat \<Rightarrow> bytes \<Rightarrow> bytes" where
  "copy_at buf off src = take off buf @ take (length buf - off) src @ drop (off + length src) buf"

definition scriptHashToAddress :: "env \<Rightarrow> bytes \<Rightarrow> bytes" where
  "scriptHashToAddress E h =
     (let addr = replicate NeoFSUserAccountLength (CHR 0x00);
          addr1 = addr[0 := rt_address_version E];
          addr2 = copy_at addr1 1 h;
          sh = rt_sha256 E (take (1 + Hash160Len) addr2) in
      copy_at addr2 (1 + Hash160Len) (rt_sha256 E sh))"

definition fieldAPIVersion :: "64 word" where "fieldAPIVersion = 1"
definition fieldOwner :: "64 word" where "fieldOwner = 2"
definition fieldNonce :: "64 word" where "fieldNonce = 3"
definition fieldBasicACL :: "64 word" where "fieldBasicACL = 4"
definition fieldAttribute :: "64 word" where "fieldAttribute = 5"
definition fieldPolicy :: "64 word" where "fieldPolicy = 6"
definition fieldAPIVersionMajor :: "64 word" where "fieldAPIVersionMajor = 1"
definition fieldAPIVersionMinor :: "64 word" where "fieldAPIVersionMinor = 2"
definition fieldOwnerVal :: "64 word" where "fieldOwnerVal = 1"
definition fieldAttributeKey :: "64 word" where "fieldAttributeKey = 1"
definition fieldAttributeValue :: "64 word" where "fieldAttributeValue = 2"
definition FieldTypeVARINT :: "64 word" where "FieldTypeVARINT = 0"
definition FieldTypeLEN :: "64 word" where "FieldTypeLEN = 2"

text \<open>\<open>off += PutUvarint(b, off, x)\<close> and \<open>off += copy(b[off:], src)\<close> on a buffer and an offset.\<close>

definition put_uv :: "64 word \<Rightarrow> bytes \<times> nat \<Rightarrow> (bytes \<times> nat) res" where
  "put_uv x st = (case st of (b, off) \<Rightarrow> andThen (PutUvarint b off x) (\<lambda>(b', n). Inr (b', off + n)))"

definition put_copy :: "bytes \<Rightarrow> bytes \<times> nat \<Rightarrow> (bytes \<times> nat) res" where
  "put_copy src st = (case st of (b, off) \<Rightarrow>
     if off \<le> length b then Inr (copy_at b off src, off + min (length src) (length b - off))
     else Inl (Fault ''slice out of range''))"

definition version_len :: "info \<Rightarrow> nat" where
  "version_len cnr =
     (if Major (ci_Version cnr) \<noteq> 0 then SizeTag fieldAPIVersionMajor + SizeVarint (ucast (Major (ci_Version cnr))) else 0) +
     (if Minor (ci_Version cnr) \<noteq> 0 then SizeTag fieldAPIVersionMinor + SizeVarint (ucast (Minor (ci_Version cnr))) else 0)"

definition attr_len :: "attribute \<Rightarrow> nat" where
  "attr_len a =
     (if a_Key a \<noteq> [] then SizeTag fieldAttributeKey + SizeLEN (length (a_Key a)) else 0) +
     (if a_Value a \<noteq> [] then SizeTag fieldAttributeValue + SizeLEN (length (a_Value a)) else 0)"

definition full_len :: "env \<Rightarrow> info \<Rightarrow> nat" where
  "full_len E cnr =
     (let ownerAddr = scriptHashToAddress E (ci_Owner cnr);
          ownerLen = SizeTag fieldOwnerVal + SizeLEN (length ownerAddr) in
      SizeTag fieldAPIVersion + SizeLEN (version_len cnr) +
      SizeTag fieldOwner + SizeLEN ownerLen +
      SizeTag fieldNonce + SizeLEN (length (ci_Nonce cnr)) +
      length (ci_Attributes cnr) * SizeTag fieldAttribute +
      SizeTag fieldPolicy + SizeLEN (length (ci_StoragePolicy cnr)) +
      (if ci_BasicACL cnr \<noteq> 0 then SizeTag fieldBasicACL + SizeVarint (ucast (ci_BasicACL cnr)) else 0) +
      sum_list (map (\<lambda>a. SizeLEN (attr_len a)) (ci_Attributes cnr)))"

definition put_version :: "info \<Rightarrow> bytes \<times> nat \<Rightarrow> (bytes \<times> nat) res" where
  "put_version cnr st =
     andThen (put_uv (EncodeTag fieldAPIVersion FieldTypeLEN) st) (\<lambda>st.
     andThen (put_uv (of_nat (version_len cnr)) st) (\<lambda>st.
     andThen (if Major (ci_Version cnr) \<noteq> 0
              then andThen (put_uv (EncodeTag fieldAPIVersionMajor FieldTypeVARINT) st)
                     (put_uv (ucast (Major (ci_Version cnr))))
              else Inr st) (\<lambda>st.
     if Minor (ci_Version cnr) \<noteq> 0
     then andThen (put_uv (EncodeTag fieldAPIVersionMinor FieldTypeVARINT) st)
            (put_uv (ucast (Minor (ci_Version cnr))))
     else Inr st)))"

definition put_owner :: "env \<Rightarrow> info \<Rightarrow> bytes \<times> nat \<Rightarrow> (bytes \<times> nat) res" where
  "put_owner E cnr st =
     (let ownerAddr = scriptHashToAddress E (ci_Owner cnr);
          ownerLen = SizeTag fieldOwnerVal + SizeLEN (length ownerAddr) in
      andThen (put_uv (EncodeTag fieldOwner FieldTypeLEN) st) (\<lambda>st.
      andThen (put_uv (of_nat ownerLen) st) (\<lambda>st.
      andThen (put_uv (EncodeTag fieldOwnerVal FieldTypeLEN) st) (\<lambda>st.
      andThen (put_uv (of_nat (length ownerAddr)) st) (put_copy ownerAddr)))))"

text \<open>A length-delimited field: tag, length, bytes.\<close>

definition put_len_field :: "64 word \<Rightarrow> bytes \<Rightarrow> bytes \<times> nat \<Rightarrow> (bytes \<times> nat) res" where
  "put_len_field num src st =
     andThen (put_uv (EncodeTag num FieldTypeLEN) st) (\<lambda>st.
     andThen (put_uv (of_nat (length src)) st) (put_copy src))"

definition put_attribute :: "attribute \<Rightarrow> bytes \<times> nat \<Rightarrow> (bytes \<times> nat) res" where
  "put_attribute a st =
     andThen (put_uv (EncodeTag fieldAttribute FieldTypeLEN) st) (\<lambda>st.
     andThen (put_uv (of_nat (attr_len a)) st) (\<lambda>st.
     andThen (if a_Key a \<noteq> [] then put_len_field fieldAttributeKey (a_Key a) st else Inr st) (\<lambda>st.
     if a_Value a \<noteq> [] then put_len_field fieldAttributeValue (a_Value a) st else Inr st)))"

definition toBytes :: "env \<Rightarrow> info \<Rightarrow> bytes res" where
  "toBytes E cnr =
     andThen (put_version cnr (replicate (full_len E cnr) (CHR 0x00), 0)) (\<lambda>st.
     andThen (put_owner E cnr st) (\<lambda>st.
     andThen (put_len_field fieldNonce (ci_Nonce cnr) st) (\<lambda>st.
     andThen (if ci_BasicACL cnr \<noteq> 0
              then andThen (put_uv (EncodeTag fieldBasicACL FieldTypeVARINT) st) (put_uv (ucast (ci_BasicACL cnr)))
              else Inr st) (\<lambda>st.
     andThen (foldR put_attribute (ci_Attributes cnr) st) (\<lambda>st.
     andThen (put_len_field fieldPolicy (ci_StoragePolicy cnr) st) (\<lambda>(b, off). Inr b))))))"

end
