(* ===== verification/Container_Lifecycle.thy ===== *)
theory Container_Lifecycle
  imports Container_Data
begin

text \<open>
  The life of a container (\<open>contracts/container/contract.go\<close>): creation with its fee and its name,
  removal, the space its owner occupies, and the operations of the NEP-11 token each container is.
  An operation that calls other contracts takes their methods as \<open>S\<close> and acts on the state of this
  contract paired with the state of the others.
\<close>

section \<open>Reading containers\<close>

definition GetRevisionedInfo :: "bytes \<Rightarrow> container \<Rightarrow> info_rev res" where
  "GetRevisionedInfo i c = (case LocalGet (infoKey i) c of
     None \<Rightarrow> Inl (Panic NotFoundError) | Some v \<Rightarrow> cnt_info v)"

definition GetInfo :: "bytes \<Rightarrow> container \<Rightarrow> info res" where
  "GetInfo i c = andThen (GetRevisionedInfo i c) (\<lambda>r. Inr (info.truncate r))"

definition getOwnerByID :: "env \<Rightarrow> bytes \<Rightarrow> container \<Rightarrow> bytes option res" where
  "getOwnerByID E cid c = (case LocalGet (infoKey cid) c of
     None \<Rightarrow> Inr None
   | Some v \<Rightarrow> andThen (cnt_info v) (\<lambda>info. Inr (Some (scriptHashToAddress E (ci_Owner info)))))"

text \<open>The exception of a missing container: deleted before, or never created.\<close>

definition missing_error :: "bytes \<Rightarrow> container \<Rightarrow> error" where
  "missing_error tokenID c = Panic (if LocalGet (deletedKey tokenID) c \<noteq> None then ErrorDeleted else NotFoundError)"

definition cnt_OwnerOf :: "env \<Rightarrow> bytes \<Rightarrow> container \<Rightarrow> bytes res" where
  "cnt_OwnerOf E tokenID c = andThen (getOwnerByID E tokenID c) (\<lambda>owner. case owner of
     None \<Rightarrow> Inl (missing_error tokenID c)
   | Some a \<Rightarrow> slice 1 (1 + Hash160Len) a)"

definition cnt_Owner :: "env \<Rightarrow> bytes \<Rightarrow> container \<Rightarrow> bytes res" where
  "cnt_Owner E cid c = andThen (cnt_OwnerOf E cid c) (\<lambda>h. Inr (scriptHashToAddress E h))"

definition cnt_Alias :: "bytes \<Rightarrow> container \<Rightarrow> bytes option res" where
  "cnt_Alias cid c = (if LocalGet (infoKey cid) c = None then Inl (Panic NotFoundError)
     else case LocalGet (nnsHasAliasKey cid) c of None \<Rightarrow> Inr None
       | Some v \<Rightarrow> andThen (as_bytes v) (\<lambda>d. Inr (Some d)))"

definition cnt_TotalSupply :: "container \<Rightarrow> int" where
  "cnt_TotalSupply c = int (length (LocalFind (infoKey []) c))"

definition cnt_Count :: "container \<Rightarrow> int" where "cnt_Count c = cnt_TotalSupply c"

definition cnt_ContainersOf :: "bytes \<Rightarrow> container \<Rightarrow> cnt_ser sval list" where
  "cnt_ContainersOf owner c = find_values (if owner = [] then ownerPrefix [] else ownerPrefix owner) c"

definition cnt_BalanceOf :: "env \<Rightarrow> bytes \<Rightarrow> container \<Rightarrow> int res" where
  "cnt_BalanceOf E owner c = (if length owner \<noteq> Hash160Len
     then Inl (Panic (''invalid owner len '' @ itoa10 (int (length owner))))
     else Inr (int (length (LocalFind (ownerPrefix (scriptHashToAddress E owner)) c))))"

definition cnt_TokensOf :: "env \<Rightarrow> bytes \<Rightarrow> container \<Rightarrow> cnt_ser sval list res" where
  "cnt_TokensOf E owner c = (if length owner \<noteq> Hash160Len
     then Inl (Panic (''invalid owner len '' @ itoa10 (int (length owner))))
     else Inr (find_values (ownerPrefix (scriptHashToAddress E owner)) c))"

definition cnt_Tokens :: "container \<Rightarrow> bytes list" where
  "cnt_Tokens c = find_keys_no_prefix (infoKey []) c"

text \<open>A map of the virtual machine keeps the order of insertion; an update keeps the place.\<close>

fun map_set :: "string \<Rightarrow> 'v \<Rightarrow> (string \<times> 'v) list \<Rightarrow> (string \<times> 'v) list" where
  "map_set k v [] = [(k, v)]"
| "map_set k v (e # m) = (if fst e = k then (k, v) # m else e # map_set k v m)"

fun properties_loop :: "attribute list \<Rightarrow> string \<times> (string \<times> string) list \<Rightarrow> string \<times> (string \<times> string) list" where
  "properties_loop [] st = st"
| "properties_loop (a # as) (name, props) =
     (if a_Key a = ''Name'' then properties_loop as (a_Value a, props)
      else properties_loop as (name, map_set (a_Key a) (a_Value a) props))"

definition cnt_Properties :: "env \<Rightarrow> bytes \<Rightarrow> container \<Rightarrow> (string \<times> string) list res" where
  "cnt_Properties E tokenID c = (case LocalGet (infoKey tokenID) c of
     None \<Rightarrow> Inl (missing_error tokenID c)
   | Some item \<Rightarrow> andThen (cnt_info item) (\<lambda>cnr.
       let (name, props) = properties_loop (ci_Attributes cnr) ([], []) in
       Inr (map_set ''name'' (if name = [] then rt_base58 E tokenID else name) props)))"

section \<open>Occupied space\<close>

definition getTakenSpaceByKey :: "bytes \<Rightarrow> container \<Rightarrow> int res" where
  "getTakenSpaceByKey key c = (case LocalGet key c of None \<Rightarrow> Inr 0 | Some v \<Rightarrow> to_integer (Some v))"

definition GetTakenSpaceByUser :: "bytes \<Rightarrow> container \<Rightarrow> int res" where
  "GetTakenSpaceByUser user c = getTakenSpaceByKey (userTotalStorageKey user) c"

definition updateUserTakenSpace :: "bytes \<Rightarrow> int \<Rightarrow> container \<Rightarrow> container res" where
  "updateUserTakenSpace owner diff c =
     (if diff = 0 then Inr c
      else andThen (getTakenSpaceByKey (userTotalStorageKey owner) c) (\<lambda>v.
        let usrSpaceVal = v + diff in
        if usrSpaceVal > 0 then Inr (put_int (userTotalStorageKey owner) usrSpaceVal c)
        else Inr (LocalDelete (userTotalStorageKey owner) c)))"

section \<open>Locks\<close>

text \<open>The exception is a text, empty when there is none; only the first lock attribute counts.\<close>

fun checkLock_loop :: "env \<Rightarrow> attribute list \<Rightarrow> string res" where
  "checkLock_loop E [] = Inr []"
| "checkLock_loop E (a # as) = (if a_Key a = lockAttributeName
     then andThen (atoi10 (a_Value a)) (\<lambda>n.
       if rt_time E \<le> n * 1000
       then Inr (ErrorLocked @ '' until '' @ a_Value a @ ''000, now '' @ itoa10 (rt_time E))
       else Inr [])
     else checkLock_loop E as)"

definition checkLock :: "env \<Rightarrow> info_rev \<Rightarrow> string res" where
  "checkLock E cnr = checkLock_loop E (ci_Attributes cnr)"

definition checkLockUntilAttribute :: "env \<Rightarrow> string \<Rightarrow> (int \<times> string) res" where
  "checkLockUntilAttribute E val = andThen (atoi10 val) (\<lambda>until.
     if until \<le> 0
     then Inr (0, ''invalid '' @ lockAttributeName @ '' attribute: non-positive value '' @ val)
     else if until * 1000 \<le> rt_time E
     then Inr (0, ''lock expiration time '' @ val @ ''000 is not later than current '' @ itoa10 (rt_time E))
     else Inr (until, []))"

section \<open>Creation\<close>

definition initInfo :: "info \<Rightarrow> info_rev" where
  "initInfo cnr = info.extend cnr \<lparr>ci_Revision = 1\<rparr>"

definition notifyNEP11Transfer :: "bytes \<Rightarrow> bytes option \<Rightarrow> bytes option \<Rightarrow> container \<Rightarrow> container" where
  "notifyNEP11Transfer tokenID from to c = Notify (CntTransfer from to nep11TransferAmount tokenID) c"

definition onNEP11Payment ::
  "env \<Rightarrow> 'o services \<Rightarrow> bytes \<Rightarrow> bytes option \<Rightarrow> bytes \<Rightarrow> arg \<Rightarrow> container \<times> 'o \<Rightarrow> (container \<times> 'o) res" where
  "onNEP11Payment E S tokenID from to data w =
     (if rt_is_contract E to then nep11Payment S to from nep11TransferAmount tokenID data w else Inr w)"

text \<open>The method the NNS contract calls when it registers a name for this contract: it does nothing.\<close>

definition cnt_OnNEP11Payment :: "bytes \<Rightarrow> int \<Rightarrow> bytes \<Rightarrow> arg \<Rightarrow> container \<Rightarrow> container" where
  "cnt_OnNEP11Payment a b tok d c = c"

definition checkNiceNameAvailable :: "env \<Rightarrow> 'o services \<Rightarrow> bytes \<Rightarrow> string \<Rightarrow> 'o \<Rightarrow> bool res" where
  "checkNiceNameAvailable E S nns domain others =
     andThen (nnsIsAvailable S nns domain others) (\<lambda>isAvail.
     if isAvail then Inr True
     else andThen (nnsOwnerOf S nns domain others) (\<lambda>owner.
       if owner \<noteq> CommitteeAddress E \<and> owner \<noteq> rt_self E
       then Inl (Panic ''committee or container contract must own registered domain'')
       else andThen (nnsGetRecords S nns domain 16 others) (\<lambda>res.
         if res \<noteq> [] then Inl (Panic ''name is already taken'') else Inr False)))"

definition registerNiceNameTLD :: "'o services \<Rightarrow> bytes \<Rightarrow> string \<Rightarrow> 'o \<Rightarrow> 'o res" where
  "registerNiceNameTLD S nns nnsRoot others =
     andThen (nnsIsAvailable S nns nnsRoot others) (\<lambda>isAvail.
     if \<not> isAvail then Inr others
     else nnsRegisterTLD S nns nnsRoot ''ops@nspcc.ru'' defaultRefresh defaultRetry defaultExpire defaultTTL others)"

text \<open>The loop over the attributes: the name, the zone, and the check of every lock.\<close>

fun create_attributes :: "env \<Rightarrow> attribute list \<Rightarrow> string \<times> string \<Rightarrow> (string \<times> string) res" where
  "create_attributes E [] st = Inr st"
| "create_attributes E (a # as) (name, zone) =
     (if a_Key a = ''__NEOFS__NAME'' then create_attributes E as (a_Value a, zone)
      else if a_Key a = ''__NEOFS__ZONE'' then create_attributes E as (name, a_Value a)
      else if a_Key a = lockAttributeName
        then andThen (checkLockUntilAttribute E (a_Value a)) (\<lambda>(_, exc).
          if exc \<noteq> [] then Inl (Panic exc) else create_attributes E as (name, zone))
      else create_attributes E as (name, zone))"

text \<open>The domain of a named container: registered if it is free, given a TXT record, remembered.\<close>

definition create_domain ::
  "env \<Rightarrow> 'o services \<Rightarrow> bytes \<Rightarrow> string \<Rightarrow> string \<Rightarrow> container \<times> 'o \<Rightarrow> (container \<times> 'o) res" where
  "create_domain E S i name zone w = (case w of (c, others) \<Rightarrow>
     andThen (if zone = [] then stored_bytes nnsRootKey c else Inr zone) (\<lambda>zone.
     andThen (stored_bytes nnsContractKey c) (\<lambda>nns.
     let domain = name @ ''.'' @ zone in
     andThen (checkNiceNameAvailable E S nns domain others) (\<lambda>free.
     andThen (if free
       then andThen (nnsRegister S nns domain (rt_self E) ''ops@nspcc.ru'' defaultRefresh defaultRetry defaultExpire defaultTTL others)
              (\<lambda>(ok, others). if \<not> ok then Inl (Panic ''domain registration failed'') else Inr others)
       else Inr others) (\<lambda>others.
     andThen (nnsAddRecord S nns domain 16 (rt_base58 E i) others) (\<lambda>others.
     Inr (LocalPut (nnsHasAliasKey i) (Raw domain) c, others)))))))"

text \<open>
  The creation fee, plus the alias fee of a named container. A missing configuration value is Null,
  which no addition takes and which is not greater than zero.
\<close>

definition creation_fee :: "'o services \<Rightarrow> bool \<Rightarrow> bytes \<Rightarrow> 'o \<Rightarrow> int option res" where
  "creation_fee S named netmap others =
     andThen (netmapConfig S netmap RegistrationFeeKey others) (\<lambda>fee.
     if \<not> named then Inr (map_option bytes_int fee)
     else andThen (netmapConfig S netmap AliasFeeKey others) (\<lambda>aliasFee.
       case (fee, aliasFee) of (Some a, Some b) \<Rightarrow> Inr (Some (bytes_int a + bytes_int b))
         | _ \<Rightarrow> Inl (Fault ''null operand'')))"

definition charge_fee :: "env \<Rightarrow> 'o services \<Rightarrow> bytes \<Rightarrow> int \<Rightarrow> bytes \<Rightarrow> bytes \<Rightarrow> 'o \<Rightarrow> 'o res" where
  "charge_fee E S owner fee i balance others =
     andThen (balanceBalanceOf S balance owner others) (\<lambda>ownerBalance.
     if ownerBalance < fee * int (length (AlphabetNodes E))
     then Inl (Panic ''insufficient balance to create container'')
     else foldR (\<lambda>k others. andThen (CreateStandardAccount E k) (\<lambda>to.
              andThen (balanceTransferX S balance owner to fee (ContainerFeeTransferDetails i) others)
                (\<lambda>(_, others). Inr others)))
            (AlphabetNodes E) others)"

definition pay_fee :: "env \<Rightarrow> 'o services \<Rightarrow> info \<Rightarrow> bool \<Rightarrow> bytes \<Rightarrow> container \<times> 'o \<Rightarrow> 'o res" where
  "pay_fee E S cnr named i w = (case w of (c, others) \<Rightarrow>
     andThen (stored_bytes netmapContractKey c) (\<lambda>netmap.
     andThen (creation_fee S named netmap others) (\<lambda>fee.
     case fee of
       Some f \<Rightarrow> if f > 0
         then andThen (stored_bytes balanceContractKey c) (\<lambda>balance. charge_fee E S (ci_Owner cnr) f i balance others)
         else Inr others
     | None \<Rightarrow> Inr others)))"

definition store_container :: "env \<Rightarrow> bytes \<Rightarrow> info \<Rightarrow> container \<Rightarrow> container" where
  "store_container E i cnr c =
     notifyNEP11Transfer i None (Some (ci_Owner cnr))
       (LocalPut (ownerPrefix (scriptHashToAddress E (ci_Owner cnr)) @ i) (Raw i)
          (LocalPut (infoKey i) (Ser (CInfoRev (initInfo cnr))) c))"

definition CreateV2 :: "env \<Rightarrow> 'o services \<Rightarrow> info \<Rightarrow> container \<times> 'o \<Rightarrow> (bytes \<times> container \<times> 'o) res" where
  "CreateV2 E S cnr w =
     andThen (checkWitnessWithPanic E (Multiaddress E (AlphabetNodes E) False) ErrAlphabetWitnessFailed) (\<lambda>_.
     andThen (toBytes E cnr) (\<lambda>cnrBytes.
     let i = rt_sha256 E cnrBytes in
     if LocalGet (deletedKey i) (fst w) \<noteq> None then Inl (Panic ErrorDeleted)
     else andThen (create_attributes E (ci_Attributes cnr) ([], [])) (\<lambda>(name, zone).
       andThen (if name \<noteq> [] then create_domain E S i name zone w else Inr w) (\<lambda>(c, others).
       andThen (pay_fee E S cnr (name \<noteq> []) i (c, others)) (\<lambda>others.
       andThen (onNEP11Payment E S i None (ci_Owner cnr) ANull (store_container E i cnr c, others)) (\<lambda>w.
       Inr (i, w)))))))"

definition CreateV2Overloaded :: "env \<Rightarrow> 'o services \<Rightarrow> info \<Rightarrow> bytes \<Rightarrow> container \<times> 'o \<Rightarrow> (container \<times> 'o) res" where
  "CreateV2Overloaded E S cnr originalRequest w = andThen (CreateV2 E S cnr w) (\<lambda>(_, w). Inr w)"

section \<open>Removal\<close>

definition deleteByPrefix :: "bytes \<Rightarrow> container \<Rightarrow> container" where
  "deleteByPrefix p c = deleteKeys (map fst (LocalFind p c)) c"

definition removeContainer :: "bytes \<Rightarrow> bytes \<Rightarrow> container \<Rightarrow> container res" where
  "removeContainer i owner c =
     andThen (case LocalGet (summaryKey i) c of
        None \<Rightarrow> Inr c
      | Some v \<Rightarrow> andThen (cnt_summary v) (\<lambda>s. updateUserTakenSpace owner (- rs_ContainerSize s) c)) (\<lambda>c0.
     let c1 = LocalDelete (ownerPrefix owner @ i) c0;
         c2 = deleteByPrefix (nodesPrefix i) c1;
         c3 = deleteByPrefix (nextNodesPrefix i) c2;
         c4 = deleteByPrefix (replicasPrefix i) c3;
         c5 = deleteByPrefix (reportsPrefix i) c4;
         c6 = deleteByPrefix (billingPrefix i) c5;
         c7 = LocalDelete (containerQuotaKey i) c6;
         c8 = LocalDelete (summaryKey i) c7;
         c9 = LocalDelete (infoKey i) c8;
         c10 = LocalDelete (eACLKey i) c9
     in Inr (LocalPut (deletedKey i) (Raw []) c10))"

text \<open>
  The deferred recovery: an exception about an expired or missing domain is accepted, and what the
  failed call changed is undone; any other one is raised again. A fault or an abort cannot be recovered.
\<close>

definition deleteNNSRecords :: "'o services \<Rightarrow> string \<Rightarrow> container \<times> 'o \<Rightarrow> 'o res" where
  "deleteNNSRecords S domain w = (case w of (c, others) \<Rightarrow>
     andThen (stored_bytes nnsContractKey c) (\<lambda>nns.
     case nnsDeleteRecords S nns domain 16 others of
       Inr others' \<Rightarrow> Inr others'
     | Inl (Panic msg) \<Rightarrow>
         if memory_search msg ''has expired'' = - 1 \<and> memory_search msg ''not found'' = - 1
         then Inl (Panic (''unable to delete NNS record: '' @ msg))
         else Inr others
     | Inl e \<Rightarrow> Inl e))"

definition cnt_Remove :: "env \<Rightarrow> 'o services \<Rightarrow> bytes \<Rightarrow> container \<times> 'o \<Rightarrow> (container \<times> 'o) res" where
  "cnt_Remove E S i w = (case w of (c, others) \<Rightarrow>
     andThen (CheckAlphabetWitness E) (\<lambda>_.
     if length i \<noteq> Hash256Len then Inl (Panic ''invalid container ID length'')
     else case LocalGet (infoKey i) c of
       None \<Rightarrow> Inr w
     | Some val \<Rightarrow> andThen (cnt_info val) (\<lambda>cnr.
         andThen (checkLock E cnr) (\<lambda>e.
         if e \<noteq> [] then Inl (Panic e)
         else andThen (removeContainer i (scriptHashToAddress E (ci_Owner cnr)) c) (\<lambda>c1.
           andThen (case LocalGet (nnsHasAliasKey i) c1 of
              None \<Rightarrow> Inr (c1, others)
            | Some v \<Rightarrow> andThen (as_bytes v) (\<lambda>domain.
                if domain = [] then Inr (c1, others)
                else let c2 = LocalDelete (nnsHasAliasKey i) c1 in
                  andThen (deleteNNSRecords S domain (c2, others)) (\<lambda>others. Inr (c2, others)))) (\<lambda>(c2, others).
           Inr (notifyNEP11Transfer i (Some (ci_Owner cnr)) None c2, others)))))))"

definition RemoveOverloaded :: "env \<Rightarrow> 'o services \<Rightarrow> bytes \<Rightarrow> bytes \<Rightarrow> container \<times> 'o \<Rightarrow> (container \<times> 'o) res" where
  "RemoveOverloaded E S i originalRequest w = cnt_Remove E S i w"

section \<open>Transfer\<close>

text \<open>
  The summary of a container is converted to an integer here without being deserialized: \<open>ser\<close> gives
  the bytes \<open>std.Serialize\<close> gives, and the conversion takes 32 bytes at most.
\<close>

definition summary_as_integer :: "(cnt_ser \<Rightarrow> bytes) \<Rightarrow> cnt_ser sval \<Rightarrow> int res" where
  "summary_as_integer ser v = (let b = (case v of Raw b \<Rightarrow> b | Ser x \<Rightarrow> ser x) in
     if length b \<le> 32 then Inr (bytes_int b) else Inl (Fault ''integer too big''))"

definition move_container :: "env \<Rightarrow> (cnt_ser \<Rightarrow> bytes) \<Rightarrow> bytes \<Rightarrow> bytes \<Rightarrow> info_rev \<Rightarrow> container \<Rightarrow> container res" where
  "move_container E ser to tokenID cnr c =
     (let from = ci_Owner cnr;
          cnr1 = cnr\<lparr>ci_Owner := to, ci_Revision := ci_Revision cnr + 1\<rparr>;
          c1 = Notify (CntContainerUpdated tokenID (ci_Revision cnr1)) c;
          c2 = LocalPut (infoKey tokenID) (Ser (CInfoRev cnr1)) c1;
          c3 = LocalDelete (ownerPrefix (scriptHashToAddress E from) @ tokenID) c2;
          c4 = LocalPut (ownerPrefix (scriptHashToAddress E to) @ tokenID) (Raw tokenID) c3
      in case LocalGet (summaryKey tokenID) c4 of
           None \<Rightarrow> Inr c4
         | Some v \<Rightarrow> andThen (summary_as_integer ser v) (\<lambda>cnrSize.
             andThen (updateUserTakenSpace (scriptHashToAddress E from) (- cnrSize) c4)
               (updateUserTakenSpace (scriptHashToAddress E to) cnrSize)))"

definition cnt_Transfer ::
  "env \<Rightarrow> 'o services \<Rightarrow> (cnt_ser \<Rightarrow> bytes) \<Rightarrow> bytes \<Rightarrow> bytes \<Rightarrow> arg \<Rightarrow> container \<times> 'o \<Rightarrow> (bool \<times> container \<times> 'o) res" where
  "cnt_Transfer E S ser to tokenID data w = (case w of (c, others) \<Rightarrow>
     if length to \<noteq> Hash160Len then Inl (Panic (''invalid receiver len '' @ itoa10 (int (length to))))
     else case LocalGet (infoKey tokenID) c of
       None \<Rightarrow> Inl (missing_error tokenID c)
     | Some item \<Rightarrow> andThen (cnt_info item) (\<lambda>cnr.
         andThen (CheckWitness E (ci_Owner cnr)) (\<lambda>ok.
         andThen (if ok then CheckWitness E to else Inr False) (\<lambda>ok.
         if \<not> ok then Inr (False, w)
         else andThen (if ci_Owner cnr = to then Inr c else move_container E ser to tokenID cnr c) (\<lambda>c1.
           andThen (onNEP11Payment E S tokenID (Some (ci_Owner cnr)) to data
                      (notifyNEP11Transfer tokenID (Some (ci_Owner cnr)) (Some to) c1, others)) (\<lambda>w.
           Inr (True, w)))))))"

end
