(* ===== verification/Container_Nodes.thy ===== *)
theory Container_Nodes
  imports Container_Lifecycle
begin

text \<open>
  The nodes of a container: the two-phase update of its placement (\<open>AddNextEpochNodes\<close>,
  \<open>CommitContainerListUpdate\<close>), the numbers of replicas and the check of placement signatures.
  A placement vector is indexed by one byte and its number of replicas is stored as one byte.
\<close>

definition cid_length_error :: "bytes \<Rightarrow> error" where
  "cid_length_error cID = Panic (ErrorInvalidContainerID @ '': length: '' @ itoa10 (int (length cID)))"

definition validatePlacementIndex :: "bytes \<Rightarrow> int \<Rightarrow> container \<Rightarrow> unit res" where
  "validatePlacementIndex cID inx c =
     (if inx = 0 then Inr ()
      else andThen (set_byte (inx - 1)) (\<lambda>b.
        if LocalFind (nextNodesPrefix (cID @ [b])) c = []
        then Inl (Panic (''invalid placement vector: '' @ itoa10 (inx - 1) @ '' index not found but '' @
                    itoa10 inx @ '' requested''))
        else Inr ()))"

definition add_next_node :: "env \<Rightarrow> bytes \<Rightarrow> bytes \<Rightarrow> container \<Rightarrow> container res" where
  "add_next_node E commonPrefix publicKey c =
     (if length publicKey \<noteq> PublicKeyCompressedLen
      then Inl (Panic (ErrorInvalidPublicKey @ '': length: '' @ itoa10 (int (length publicKey))))
      else andThen (CreateStandardAccount E publicKey) (\<lambda>account.
        Inr (LocalPut (commonPrefix @ account) (Raw publicKey) c)))"

definition AddNextEpochNodes :: "env \<Rightarrow> bytes \<Rightarrow> int \<Rightarrow> bytes list \<Rightarrow> container \<Rightarrow> container res" where
  "AddNextEpochNodes E cID placementVector publicKeys c =
     (if length cID \<noteq> Hash256Len then Inl (cid_length_error cID)
      else if placementVector \<ge> maxNumOfREPs
      then Inl (Panic (ErrorTooBigNumberOfNodes @ '': '' @ itoa10 placementVector))
      else andThen (validatePlacementIndex cID placementVector c) (\<lambda>_.
        andThen (CheckAlphabetWitness E) (\<lambda>_.
        andThen (set_byte placementVector) (\<lambda>b.
        foldR (add_next_node E (nextNodesPrefix (cID @ [b]))) publicKeys c))))"

section \<open>Committing the next placement\<close>

text \<open>Is the node of an old entry in a placement vector of the next list? Only the vector's byte differs.\<close>

definition stillInNetmap :: "nat \<Rightarrow> bytes \<Rightarrow> container \<Rightarrow> bool" where
  "stillInNetmap vectors k c = list_ex (\<lambda>i.
     LocalGet ((CHR ''u'' # drop 1 k)[1 + Hash256Len := char_of i]) c \<noteq> None) [0..<vectors]"

text \<open>
  An old entry is deleted. A node that left every vector loses its report, which is subtracted; the
  loop's state is the contract and the differences of the sizes and of the numbers of objects.
\<close>

definition drop_old_node :: "nat \<Rightarrow> bytes \<times> cnt_ser sval \<Rightarrow> container \<times> int \<times> int \<Rightarrow> (container \<times> int \<times> int) res" where
  "drop_old_node vectors kv st = (case kv of (k, v) \<Rightarrow> case st of (c, spaceDiff, objsDiff) \<Rightarrow>
     if vectors \<noteq> 0 \<and> length k \<le> 1 + Hash256Len then Inl (Fault ''index out of range'')
     else andThen (if stillInNetmap vectors k c then Inr st
       else andThen (slice_from (1 + Hash256Len + 1) k) (\<lambda>acc.
         let reportKey = reportsPrefix (take Hash256Len (drop 1 k) @ acc) in
         case LocalGet reportKey c of
           None \<Rightarrow> Inr st
         | Some r \<Rightarrow> andThen (cnt_report r) (\<lambda>report.
             Inr (LocalDelete reportKey c, spaceDiff - nr_ContainerSize report, objsDiff - nr_NumberOfObjects report))))
       (\<lambda>(c, spaceDiff, objsDiff). Inr (LocalDelete k c, spaceDiff, objsDiff)))"

definition move_new_node :: "bytes \<times> cnt_ser sval \<Rightarrow> container \<Rightarrow> container" where
  "move_new_node kv c = (case kv of (k, v) \<Rightarrow> LocalPut (nodesPrefix (drop 1 k)) v (LocalDelete k c))"

fun put_replicas :: "bytes \<Rightarrow> bytes \<Rightarrow> nat \<Rightarrow> container \<Rightarrow> container res" where
  "put_replicas cID [] i c = Inr c"
| "put_replicas cID (replica # replicas) i c =
     (if of_char replica > maxNumOfREPs
      then Inl (Panic (ErrorTooBigNumberOfNodes @ '': '' @ itoa10 (of_char replica)))
      else put_replicas cID replicas (Suc i) (LocalPut (replicasPrefix (cID @ [char_of i])) (Raw [replica]) c))"

definition commit_stat :: "env \<Rightarrow> bytes \<Rightarrow> int \<Rightarrow> int \<Rightarrow> container \<Rightarrow> container res" where
  "commit_stat E cID spaceDiff objsDiff c =
     (if spaceDiff = 0 \<and> objsDiff = 0 then Inr c
      else case LocalGet (summaryKey cID) c of
        None \<Rightarrow> Inl (Fault ''null'')
      | Some v \<Rightarrow> andThen (cnt_summary v) (\<lambda>s.
          let c1 = LocalPut (summaryKey cID) (Ser (CSummary (s\<lparr>rs_ContainerSize := rs_ContainerSize s + spaceDiff,
                rs_NumberOfObjects := rs_NumberOfObjects s + objsDiff\<rparr>))) c in
          andThen (getOwnerByID E cID c1) (\<lambda>owner. case owner of
            None \<Rightarrow> if spaceDiff = 0 then Inr c1 else Inl (Fault ''null'')
          | Some a \<Rightarrow> updateUserTakenSpace a spaceDiff c1)))"

definition CommitContainerListUpdate :: "env \<Rightarrow> bytes \<Rightarrow> bytes \<Rightarrow> container \<Rightarrow> container res" where
  "CommitContainerListUpdate E cID replicas c =
     (if length cID \<noteq> Hash256Len then Inl (cid_length_error cID)
      else andThen (CheckAlphabetWitness E) (\<lambda>_.
        andThen (foldR (drop_old_node (length replicas)) (LocalFind (nodesPrefix cID) c) (c, 0, 0)) (\<lambda>(c1, spaceDiff, objsDiff).
        let c2 = fold move_new_node (LocalFind (nextNodesPrefix cID) c1) c1;
            c3 = deleteKeys (map fst (LocalFind (replicasPrefix cID) c2)) c2 in
        andThen (put_replicas cID replicas 0 c3) (\<lambda>c4.
        andThen (commit_stat E cID spaceDiff objsDiff c4) (\<lambda>c5.
        Inr (Notify (CntNodesUpdate cID) c5))))))"

definition ReplicasNumbers :: "bytes \<Rightarrow> container \<Rightarrow> cnt_ser sval list res" where
  "ReplicasNumbers cID c = (if length cID \<noteq> Hash256Len then Inl (cid_length_error cID)
     else Inr (find_values (replicasPrefix cID) c))"

definition cnt_Nodes :: "bytes \<Rightarrow> int \<Rightarrow> container \<Rightarrow> cnt_ser sval list res" where
  "cnt_Nodes cID placementVector c = (if length cID \<noteq> Hash256Len then Inl (cid_length_error cID)
     else andThen (set_byte placementVector) (\<lambda>b. Inr (find_values (nodesPrefix (cID @ [b])) c)))"

definition nodeFromContainer :: "bytes \<Rightarrow> bytes \<Rightarrow> container \<Rightarrow> bool" where
  "nodeFromContainer cID key c = list_ex (\<lambda>pk. pk = Raw key) (find_values (nodesPrefix cID) c)"

section \<open>Placement signatures\<close>

text \<open>
  The signatures for one vector: each counts if some node of the vector made it, and the count is
  compared with the number of replicas after each one.
\<close>

fun verify_vector :: "env \<Rightarrow> bytes \<Rightarrow> bytes list \<Rightarrow> int \<Rightarrow> bytes list \<Rightarrow> int \<Rightarrow> bool" where
  "verify_vector E msg pubs m [] counter = False"
| "verify_vector E msg pubs m (sig # sigs) counter =
     (let counter' = (if list_ex (\<lambda>pub. rt_verify_ecdsa E msg pub sig) pubs then counter + 1 else counter) in
      if counter' = m then True else verify_vector E msg pubs m sigs counter')"

fun verify_loop :: "env \<Rightarrow> bytes \<Rightarrow> bytes \<Rightarrow> cnt_ser sval list \<Rightarrow> nat \<Rightarrow> bytes list list \<Rightarrow> container \<Rightarrow> bool res" where
  "verify_loop E cid msg [] i sigs c = Inr True"
| "verify_loop E cid msg (r # reps) i sigs c =
     (case sigs of
        [] \<Rightarrow> Inr False
      | s # sigs' \<Rightarrow> andThen (to_integer (Some r)) (\<lambda>m.
          if int (length s) < m then Inr False
          else andThen (cnt_Nodes cid (int i mod 256) c) (\<lambda>nodes.
            andThen (mapR as_bytes nodes) (\<lambda>pubs.
            if verify_vector E msg pubs m s 0 then verify_loop E cid msg reps (Suc i) sigs' c else Inr False))))"

definition VerifyPlacementSignatures :: "env \<Rightarrow> bytes \<Rightarrow> bytes \<Rightarrow> bytes list list \<Rightarrow> container \<Rightarrow> bool res" where
  "VerifyPlacementSignatures E cid msg sigs c =
     andThen (ReplicasNumbers cid c) (\<lambda>reps. verify_loop E cid msg reps 0 sigs c)"

end
