(* ===== verification/Container_Reports.thy ===== *)
theory Container_Reports
  imports Container_Nodes
begin

text \<open>
  What the nodes of a container report about the space it takes, the billing statistics made of it, and
  the quotas of containers and users.
\<close>

section \<open>Reports\<close>

definition exists_or_NotFound :: "bytes \<Rightarrow> container \<Rightarrow> unit res" where
  "exists_or_NotFound cid c = check (LocalGet (infoKey cid) c \<noteq> None) (Panic NotFoundError)"

definition read_or :: "'a \<Rightarrow> (cnt_ser sval \<Rightarrow> 'a res) \<Rightarrow> bytes \<Rightarrow> container \<Rightarrow> 'a res" where
  "read_or d f k c = (case LocalGet k c of None \<Rightarrow> Inr d | Some v \<Rightarrow> f v)"

text \<open>The first report of a node, and the billing statistics it starts.\<close>

definition first_report :: "bytes \<Rightarrow> int \<Rightarrow> int \<Rightarrow> int \<Rightarrow> node_report" where
  "first_report pubKey sizeBytes objsNumber currEpoch =
     \<lparr>nr_PublicKey = pubKey, nr_ContainerSize = sizeBytes, nr_NumberOfObjects = objsNumber,
      nr_NumberOfReports = 1, nr_LastUpdateEpoch = currEpoch\<rparr>"

definition first_billing :: "bytes \<Rightarrow> int \<Rightarrow> int \<Rightarrow> int \<Rightarrow> billing_stat" where
  "first_billing nodeAcc billingSize currEpoch currTime =
     \<lparr>bs_Account = nodeAcc, bs_LatestContainerSize = billingSize, bs_LatestEpoch = currEpoch,
      bs_LastUpdateTime = currTime, bs_LatestEpochAverageSize = billingSize, bs_PreviousContainerSize = 0,
      bs_PreviousEpoch = 0, bs_PreviousEpochAverageSize = 0\<rparr>"

text \<open>
  The billing statistics after a later report: within the epoch the change of size counts for the rest
  of the epoch; in a new epoch the old size counts for the part that has passed.
\<close>

definition next_billing :: "billing_stat \<Rightarrow> node_report \<Rightarrow> int \<Rightarrow> int \<Rightarrow> int \<Rightarrow> int \<Rightarrow> int \<Rightarrow> billing_stat res" where
  "next_billing b report billingSize currEpoch currTime epochDuration lastEpochTick =
     (let epochRest = lastEpochTick + epochDuration - currTime;
          oldBillingSize = nr_ContainerSize report + nr_NumberOfObjects report * objectBillingSize in
      andThen (if nr_LastUpdateEpoch report = currEpoch
         then andThen (quotient ((billingSize - oldBillingSize) * epochRest) epochDuration) (\<lambda>q.
           Inr (b\<lparr>bs_LatestEpochAverageSize := bs_LatestEpochAverageSize b + q, bs_LastUpdateTime := currTime\<rparr>))
         else andThen (quotient (oldBillingSize * (currTime - lastEpochTick) + billingSize * epochRest) epochDuration) (\<lambda>q.
           Inr (b\<lparr>bs_PreviousContainerSize := bs_LatestContainerSize b, bs_PreviousEpoch := bs_LatestEpoch b,
                 bs_PreviousEpochAverageSize := bs_LatestEpochAverageSize b, bs_LastUpdateTime := currTime,
                 bs_LatestEpoch := currEpoch, bs_LatestEpochAverageSize := q\<rparr>))) (\<lambda>b1.
      Inr (b1\<lparr>bs_LatestContainerSize := billingSize\<rparr>)))"

definition next_report :: "node_report \<Rightarrow> int \<Rightarrow> int \<Rightarrow> int \<Rightarrow> node_report" where
  "next_report report sizeBytes objsNumber currEpoch =
     (if nr_LastUpdateEpoch report = currEpoch
      then report\<lparr>nr_NumberOfReports := nr_NumberOfReports report + 1\<rparr>
      else report\<lparr>nr_LastUpdateEpoch := currEpoch, nr_NumberOfReports := 1\<rparr>)
     \<lparr>nr_ContainerSize := sizeBytes, nr_NumberOfObjects := objsNumber\<rparr>"

text \<open>The length of an epoch in milliseconds; the configuration keeps seconds.\<close>

definition epoch_duration :: "'o services \<Rightarrow> bytes \<Rightarrow> 'o \<Rightarrow> int res" where
  "epoch_duration S netmap others = andThen (netmapConfig S netmap EpochDurationKey others) (\<lambda>d.
     case d of None \<Rightarrow> Inl (Fault ''null operand'') | Some b \<Rightarrow> Inr (bytes_int b * 1000))"

definition store_report ::
  "bytes \<Rightarrow> bytes \<Rightarrow> bytes \<Rightarrow> node_report \<Rightarrow> billing_stat \<Rightarrow> int \<Rightarrow> report_summary \<Rightarrow> container \<Rightarrow> container res" where
  "store_report cid nodeAcc owner report billing storageDiff summary c =
     andThen (updateUserTakenSpace owner storageDiff
        (LocalPut (billingPrefix (cid @ nodeAcc)) (Ser (CBilling billing))
          (LocalPut (reportsPrefix (cid @ nodeAcc)) (Ser (CReport report)) c))) (\<lambda>c1.
     Inr (LocalPut (summaryKey cid) (Ser (CSummary summary)) c1))"

definition PutReport :: "env \<Rightarrow> 'o services \<Rightarrow> bytes \<Rightarrow> int \<Rightarrow> int \<Rightarrow> bytes \<Rightarrow> container \<times> 'o \<Rightarrow> (container \<times> 'o) res" where
  "PutReport E S cid sizeBytes objsNumber pubKey w = (case w of (c, others) \<Rightarrow>
     andThen (CheckWitnessPanic E pubKey) (\<lambda>_.
     andThen (getOwnerByID E cid c) (\<lambda>ownerID. case ownerID of
       None \<Rightarrow> Inl (Panic NotFoundError)
     | Some owner \<Rightarrow>
         if \<not> nodeFromContainer cid pubKey c
         then Inl (Panic ''method must be invoked by storage node from container'')
         else andThen (stored_bytes netmapContractKey c) (\<lambda>netmap.
           andThen (netmapEpoch S netmap others) (\<lambda>currEpoch.
           andThen (CreateStandardAccount E pubKey) (\<lambda>nodeAcc.
           let billingSize = sizeBytes + objsNumber * objectBillingSize;
               currTime = rt_time E in
           andThen (read_or emptySummary cnt_summary (summaryKey cid) c) (\<lambda>summary.
           andThen (read_or emptyReport cnt_report (reportsPrefix (cid @ nodeAcc)) c) (\<lambda>report.
           andThen (read_or emptyBilling cnt_billing (billingPrefix (cid @ nodeAcc)) c) (\<lambda>billing0.
           let billing = billing0\<lparr>bs_Account := nodeAcc\<rparr> in
           andThen (if LocalGet (reportsPrefix (cid @ nodeAcc)) c = None
             then store_report cid nodeAcc owner (first_report pubKey sizeBytes objsNumber currEpoch)
                    (first_billing nodeAcc billingSize currEpoch currTime) sizeBytes
                    (summary\<lparr>rs_ContainerSize := rs_ContainerSize summary + sizeBytes,
                      rs_NumberOfObjects := rs_NumberOfObjects summary + objsNumber\<rparr>) c
             else if nr_LastUpdateEpoch report = currEpoch \<and> nr_NumberOfReports report = maxNumberOfReportsPerEpoch
             then Inl (Panic (''max number of reports ('' @ itoa10 maxNumberOfReportsPerEpoch @ '') reached''))
             else andThen (epoch_duration S netmap others) (\<lambda>epochDuration.
               andThen (netmapLastEpochTime S netmap others) (\<lambda>lastEpochTick.
               andThen (next_billing billing report billingSize currEpoch currTime epochDuration lastEpochTick) (\<lambda>billing1.
               store_report cid nodeAcc owner (next_report report sizeBytes objsNumber currEpoch) billing1
                 (sizeBytes - nr_ContainerSize report)
                 (summary\<lparr>rs_ContainerSize := rs_ContainerSize summary - nr_ContainerSize report + sizeBytes,
                   rs_NumberOfObjects := rs_NumberOfObjects summary - nr_NumberOfObjects report + objsNumber\<rparr>) c))))
             (\<lambda>c1. Inr (c1, others)))))))))))"

definition GetNodeReportSummary :: "bytes \<Rightarrow> container \<Rightarrow> report_summary res" where
  "GetNodeReportSummary cid c =
     andThen (exists_or_NotFound cid c) (\<lambda>_. read_or emptySummary cnt_summary (summaryKey cid) c)"

definition getReportByKey :: "bytes \<Rightarrow> container \<Rightarrow> node_report res" where
  "getReportByKey key c = read_or emptyReport cnt_report key c"

definition GetReportByNode :: "env \<Rightarrow> bytes \<Rightarrow> bytes \<Rightarrow> container \<Rightarrow> node_report res" where
  "GetReportByNode E cid pubKey c = andThen (exists_or_NotFound cid c) (\<lambda>_.
     andThen (CreateStandardAccount E pubKey) (\<lambda>acc. getReportByKey (reportsPrefix (cid @ acc)) c))"

definition GetReportByAccount :: "bytes \<Rightarrow> bytes \<Rightarrow> container \<Rightarrow> node_report res" where
  "GetReportByAccount cid acc c = andThen (exists_or_NotFound cid c) (\<lambda>_.
     if length acc \<noteq> Hash160Len then Inl (Panic ''invalid account'')
     else getReportByKey (reportsPrefix (cid @ acc)) c)"

definition IterateReports :: "bytes \<Rightarrow> container \<Rightarrow> node_report list res" where
  "IterateReports cid c = (if length cid \<noteq> Hash256Len then Inl (Panic ''invalid container id'')
     else mapR cnt_report (find_values (reportsPrefix cid) c))"

definition GetBillingStatByNode :: "env \<Rightarrow> bytes \<Rightarrow> bytes \<Rightarrow> container \<Rightarrow> billing_stat res" where
  "GetBillingStatByNode E cid pubKey c = andThen (exists_or_NotFound cid c) (\<lambda>_.
     andThen (CreateStandardAccount E pubKey) (\<lambda>acc. read_or emptyBilling cnt_billing (billingPrefix (cid @ acc)) c))"

definition IterateBillingStats :: "bytes \<Rightarrow> container \<Rightarrow> billing_stat list res" where
  "IterateBillingStats cid c = (if length cid \<noteq> Hash256Len then Inl (Panic ''invalid container id'')
     else mapR cnt_billing (find_values (billingPrefix cid) c))"

definition IterateAllReportSummaries :: "container \<Rightarrow> (bytes \<times> report_summary) list res" where
  "IterateAllReportSummaries c = mapR (\<lambda>(k, v). andThen (cnt_summary v) (\<lambda>s. Inr (k, s)))
     (find_no_prefix (summaryKey []) c)"

section \<open>Quotas\<close>

text \<open>The Alphabet manages quotas when the configuration says so, the owner otherwise.\<close>

definition checkQuotaSigner :: "env \<Rightarrow> 'o services \<Rightarrow> bytes \<Rightarrow> container \<times> 'o \<Rightarrow> unit res" where
  "checkQuotaSigner E S userScriptHash w = (case w of (c, others) \<Rightarrow>
     andThen (stored_bytes netmapContractKey c) (\<lambda>netmap.
     andThen (netmapConfig S netmap AlphabetManagesQuotasKey others) (\<lambda>vRaw.
     case vRaw of
       None \<Rightarrow> CheckOwnerWitness E userScriptHash
     | Some b \<Rightarrow> if \<not> bytes_to_bool b then CheckOwnerWitness E userScriptHash else CheckAlphabetWitness E)))"

definition set_limit :: "int \<Rightarrow> bool \<Rightarrow> quota \<Rightarrow> quota" where
  "set_limit sz hard q = (if hard then q\<lparr>q_HardLimit := sz\<rparr> else q\<lparr>q_SoftLimit := sz\<rparr>)"

definition setContainerQuota :: "env \<Rightarrow> 'o services \<Rightarrow> bytes \<Rightarrow> int \<Rightarrow> bool \<Rightarrow> container \<times> 'o \<Rightarrow> (container \<times> 'o) res" where
  "setContainerQuota E S cID sz hard w = (case w of (c, others) \<Rightarrow>
     if length cID \<noteq> Hash256Len then Inl (Panic ''invalid container id'')
     else andThen (getOwnerByID E cID c) (\<lambda>ownerID. case ownerID of
       None \<Rightarrow> Inl (Panic NotFoundError)
     | Some owner \<Rightarrow> andThen (WalletToScriptHash owner) (\<lambda>h.
         andThen (checkQuotaSigner E S h w) (\<lambda>_.
         andThen (read_or emptyQuota cnt_quota (containerQuotaKey cID) c) (\<lambda>q.
         Inr (Notify (CntContainerQuotaSet cID sz hard)
               (LocalPut (containerQuotaKey cID) (Ser (CQuota (set_limit sz hard q))) c), others))))))"

definition SetSoftContainerQuota :: "env \<Rightarrow> 'o services \<Rightarrow> bytes \<Rightarrow> int \<Rightarrow> container \<times> 'o \<Rightarrow> (container \<times> 'o) res" where
  "SetSoftContainerQuota E S cID sz w = setContainerQuota E S cID sz False w"

definition SetHardContainerQuota :: "env \<Rightarrow> 'o services \<Rightarrow> bytes \<Rightarrow> int \<Rightarrow> container \<times> 'o \<Rightarrow> (container \<times> 'o) res" where
  "SetHardContainerQuota E S cID sz w = setContainerQuota E S cID sz True w"

definition ContainerQuota :: "bytes \<Rightarrow> container \<Rightarrow> quota res" where
  "ContainerQuota cID c = (if length cID \<noteq> Hash256Len then Inl (Panic ''invalid container id'')
     else andThen (exists_or_NotFound cID c) (\<lambda>_. read_or emptyQuota cnt_quota (containerQuotaKey cID) c))"

definition setUserQuota :: "env \<Rightarrow> 'o services \<Rightarrow> bytes \<Rightarrow> int \<Rightarrow> bool \<Rightarrow> container \<times> 'o \<Rightarrow> (container \<times> 'o) res" where
  "setUserQuota E S user sz hard w = (case w of (c, others) \<Rightarrow>
     if length user \<noteq> NeoFSUserAccountLength then Inl (Panic ''invalid user id'')
     else andThen (WalletToScriptHash user) (\<lambda>h.
       andThen (checkQuotaSigner E S h w) (\<lambda>_.
       andThen (read_or emptyQuota cnt_quota (userQuotaKey user) c) (\<lambda>q.
       Inr (Notify (CntUserQuotaSet user sz hard)
             (LocalPut (userQuotaKey user) (Ser (CQuota (set_limit sz hard q))) c), others)))))"

definition SetSoftUserQuota :: "env \<Rightarrow> 'o services \<Rightarrow> bytes \<Rightarrow> int \<Rightarrow> container \<times> 'o \<Rightarrow> (container \<times> 'o) res" where
  "SetSoftUserQuota E S user sz w = setUserQuota E S user sz False w"

definition SetHardUserQuota :: "env \<Rightarrow> 'o services \<Rightarrow> bytes \<Rightarrow> int \<Rightarrow> container \<times> 'o \<Rightarrow> (container \<times> 'o) res" where
  "SetHardUserQuota E S user sz w = setUserQuota E S user sz True w"

definition UserQuota :: "bytes \<Rightarrow> container \<Rightarrow> quota res" where
  "UserQuota user c = (if length user \<noteq> NeoFSUserAccountLength then Inl (Panic ''invalid user id'')
     else read_or emptyQuota cnt_quota (userQuotaKey user) c)"

end
