(* ===== verification/Netmap_Contract.thy ===== *)
theory Netmap_Contract
  imports Common
begin

text \<open>
  The Netmap contract (\<open>contracts/netmap/contract.go\<close>): storage node candidates (key \<open>'2'\<close> and the
  node's key), versions of the network map (\<open>'p'\<close>, four bytes of the version, the node's key), the
  version each epoch started (\<open>'k'\<close>, four bytes of the epoch), the block and time of every epoch
  (\<open>'i'\<close>), configuration, and the contracts called back at each epoch (\<open>'e'\<close>, an index byte, the hash).
\<close>

section \<open>Data\<close>

text \<open>\<open>nodestate.Type\<close>.\<close>

definition Online :: int where "Online = 1"
definition Offline :: int where "Offline = 2"
definition Maintenance :: int where "Maintenance = 3"

record node2 =
  Addresses :: "string list"
  Attributes :: "(string \<times> string) list"
  Key :: bytes
  State :: int

text \<open>A candidate has the fields of a node and one more.\<close>

record candidate = node2 +
  LastActiveEpoch :: int

record epoch_item =
  ei_height :: int
  ei_time :: int

datatype nm_ser = SNode node2 | SCand candidate | SEpochItem epoch_item

datatype nm_event =
    NmAddNode bytes "string list" "(string \<times> string) list"
  | NmUpdateStateSuccess bytes int
  | NmNewEpoch int
  | NmNewNetmap int
  | NmNewEpochSubscription bytes
  | NmNewEpochUnsubscription bytes

type_synonym netmap = "(nm_ser, nm_event) contract"

definition DefaultSnapshotCount :: int where "DefaultSnapshotCount = 10"
definition defaultCleanupThreshold :: int where "defaultCleanupThreshold = 3"
definition snapshotCountKey :: bytes where "snapshotCountKey = ''snapshotCount''"
definition epochKey :: bytes where "epochKey = ''snapshotEpoch''"
definition cleanupThresholdKey :: bytes where "cleanupThresholdKey = ''t''"
definition netmapVersionKey :: bytes where "netmapVersionKey = ''j''"
definition netmapChangedFlagKey :: bytes where "netmapChangedFlagKey = ''l''"
definition configPrefix :: bytes where "configPrefix = ''config''"

definition candKey :: "bytes \<Rightarrow> bytes" where "candKey k = CHR ''2'' # k"
definition nodeKey :: "int \<Rightarrow> bytes \<Rightarrow> bytes" where "nodeKey ver k = CHR ''p'' # uint32_be ver @ k"
definition epochIndexKey :: "int \<Rightarrow> bytes" where "epochIndexKey n = CHR ''i'' # uint32_be n"
definition epochToNetmapVersionKey :: "int \<Rightarrow> bytes" where "epochToNetmapVersionKey n = CHR ''k'' # uint32_be n"
definition subscriberKey :: "char \<Rightarrow> bytes \<Rightarrow> bytes" where "subscriberKey num h = CHR ''e'' # num # h"

definition nm_node :: "nm_ser sval \<Rightarrow> node2 res" where
  "nm_node v = andThen (deserialize v) (\<lambda>x. case x of SNode n \<Rightarrow> Inr n | _ \<Rightarrow> Inl (Fault ''not a node''))"

definition nm_candidate :: "nm_ser sval \<Rightarrow> candidate res" where
  "nm_candidate v = andThen (deserialize v) (\<lambda>x. case x of SCand n \<Rightarrow> Inr n | _ \<Rightarrow> Inl (Fault ''not a candidate''))"

definition nm_epoch_item :: "nm_ser sval \<Rightarrow> epoch_item res" where
  "nm_epoch_item v = andThen (deserialize v) (\<lambda>x. case x of SEpochItem n \<Rightarrow> Inr n | _ \<Rightarrow> Inl (Fault ''not an epoch item''))"

section \<open>Reading\<close>

definition netmap_Epoch :: "netmap \<Rightarrow> int res" where
  "netmap_Epoch c = to_integer (LocalGet epochKey c)"

definition netmap_NetworkMapVersion :: "netmap \<Rightarrow> int res" where
  "netmap_NetworkMapVersion c = to_integer (LocalGet netmapVersionKey c)"

definition netmap_CleanupThreshold :: "netmap \<Rightarrow> int res" where
  "netmap_CleanupThreshold c = to_integer (LocalGet cleanupThresholdKey c)"

definition getSnapshotCount :: "netmap \<Rightarrow> int res" where
  "getSnapshotCount c = to_integer (LocalGet snapshotCountKey c)"

definition netmapChangedFlag :: "netmap \<Rightarrow> bool res" where
  "netmapChangedFlag c = to_bool (LocalGet netmapChangedFlagKey c)"

definition setNetmapChangedFlag :: "bool \<Rightarrow> netmap \<Rightarrow> netmap" where
  "setNetmapChangedFlag flag c = put_bool netmapChangedFlagKey flag c"

definition netmap_GetEpochBlock :: "int \<Rightarrow> netmap \<Rightarrow> int res" where
  "netmap_GetEpochBlock epoch c = (case LocalGet (epochIndexKey epoch) c of
     None \<Rightarrow> Inr 0 | Some v \<Rightarrow> andThen (nm_epoch_item v) (\<lambda>i. Inr (ei_height i)))"

definition netmap_GetEpochTime :: "int \<Rightarrow> netmap \<Rightarrow> int res" where
  "netmap_GetEpochTime epoch c = (case LocalGet (epochIndexKey epoch) c of
     None \<Rightarrow> Inr 0 | Some v \<Rightarrow> andThen (nm_epoch_item v) (\<lambda>i. Inr (ei_time i)))"

definition netmap_LastEpochBlock :: "netmap \<Rightarrow> int res" where
  "netmap_LastEpochBlock c = andThen (netmap_Epoch c) (\<lambda>curEpoch. netmap_GetEpochBlock curEpoch c)"

definition netmap_LastEpochTime :: "netmap \<Rightarrow> int res" where
  "netmap_LastEpochTime c = andThen (netmap_Epoch c) (\<lambda>curEpoch. netmap_GetEpochTime curEpoch c)"

text \<open>The binary search over epochs; an epoch without a record has time 0.\<close>

function epoch_search :: "int \<Rightarrow> int \<Rightarrow> int \<Rightarrow> int \<Rightarrow> netmap \<Rightarrow> int res" where
  "epoch_search ts lo hi r c =
     (if lo \<le> hi
      then let mid = goDiv (lo + hi) 2 in
        andThen (netmap_GetEpochTime mid c) (\<lambda>t.
        if t = 0 then epoch_search ts (mid + 1) hi r c
        else if t > ts then epoch_search ts lo (mid - 1) r c
        else andThen (netmap_GetEpochBlock mid c) (\<lambda>b. epoch_search ts (mid + 1) hi b c))
      else Inr r)"
  by pat_completeness auto
termination
  by (relation "measure (\<lambda>(ts, lo, hi, r, c). nat (hi - lo + 1))") (use goDiv_middle in \<open>fastforce+\<close>)

declare epoch_search.simps [simp del]

definition netmap_GetEpochBlockByTime :: "int \<Rightarrow> netmap \<Rightarrow> int res" where
  "netmap_GetEpochBlockByTime ts c = andThen (netmap_Epoch c) (\<lambda>maxEpoch. epoch_search ts 0 maxEpoch 0 c)"

text \<open>The newest version that started no later than the epoch, read backwards.\<close>

fun nm_version_scan :: "int \<Rightarrow> (bytes \<times> nm_ser sval) list \<Rightarrow> int res" where
  "nm_version_scan epoch [] = Inr 0"
| "nm_version_scan epoch ((k, v) # kvs) = (if be_uint32 k \<le> uint32_of epoch
     then andThen (to_integer (Some v)) (\<lambda>ver. Inr (uint32_of ver))
     else nm_version_scan epoch kvs)"

definition nmVersionForEpoch :: "int \<Rightarrow> netmap \<Rightarrow> int res" where
  "nmVersionForEpoch epoch c =
     nm_version_scan epoch (rev (find_no_prefix ''k'' c))"

definition getStorageNodeInEpoch :: "bytes \<Rightarrow> int \<Rightarrow> netmap \<Rightarrow> nm_ser sval option res" where
  "getStorageNodeInEpoch key epoch c =
     andThen (nmVersionForEpoch epoch c) (\<lambda>ver. Inr (LocalGet (nodeKey ver key) c))"

definition netmap_IsStorageNode :: "bytes \<Rightarrow> netmap \<Rightarrow> bool res" where
  "netmap_IsStorageNode key c = andThen (netmap_Epoch c) (\<lambda>epoch.
     andThen (getStorageNodeInEpoch key epoch c) (\<lambda>raw. Inr (raw \<noteq> None)))"

definition netmap_IsStorageNodeInEpoch :: "bytes \<Rightarrow> int \<Rightarrow> netmap \<Rightarrow> bool res" where
  "netmap_IsStorageNodeInEpoch key epoch c = andThen (netmap_Epoch c) (\<lambda>cur.
     if epoch > cur then Inr False
     else andThen (getStorageNodeInEpoch key epoch c) (\<lambda>raw. Inr (raw \<noteq> None)))"

definition netmap_IsStorageNodeStatus :: "bytes \<Rightarrow> int \<Rightarrow> int \<Rightarrow> netmap \<Rightarrow> bool res" where
  "netmap_IsStorageNodeStatus key epoch status c = andThen (netmap_Epoch c) (\<lambda>cur.
     if epoch > cur then Inr False
     else andThen (getStorageNodeInEpoch key epoch c) (\<lambda>nodeRaw.
       case nodeRaw of None \<Rightarrow> Inr (status = Offline)
       | Some v \<Rightarrow> andThen (nm_node v) (\<lambda>n2. Inr (State n2 = status))))"

text \<open>The iterators, as the list of values they yield.\<close>

definition netmap_ListNodesVersion :: "int \<Rightarrow> netmap \<Rightarrow> node2 list res" where
  "netmap_ListNodesVersion version c = mapR nm_node (find_values (nodeKey version []) c)"

definition netmap_ListNodes :: "netmap \<Rightarrow> node2 list res" where
  "netmap_ListNodes c = andThen (netmap_NetworkMapVersion c) (\<lambda>v. netmap_ListNodesVersion v c)"

definition netmap_ListNodesEpoch :: "int \<Rightarrow> netmap \<Rightarrow> node2 list res" where
  "netmap_ListNodesEpoch epoch c = andThen (nmVersionForEpoch epoch c) (\<lambda>v. netmap_ListNodesVersion v c)"

definition netmap_ListCandidates :: "netmap \<Rightarrow> candidate list res" where
  "netmap_ListCandidates c = mapR nm_candidate (find_values (candKey []) c)"

section \<open>Configuration\<close>

definition netmap_setConfig :: "bytes \<Rightarrow> bytes \<Rightarrow> netmap \<Rightarrow> netmap" where
  "netmap_setConfig key val c = LocalPut (configPrefix @ key) (Raw val) c"

definition netmap_Config :: "bytes \<Rightarrow> netmap \<Rightarrow> bytes option res" where
  "netmap_Config key c = (case LocalGet (configPrefix @ key) c of
     None \<Rightarrow> Inr None | Some v \<Rightarrow> andThen (as_bytes v) (\<lambda>b. Inr (Some b)))"

definition netmap_SetConfig :: "env \<Rightarrow> bytes \<Rightarrow> bytes \<Rightarrow> bytes \<Rightarrow> netmap \<Rightarrow> netmap res" where
  "netmap_SetConfig E i key val c = andThen (CheckAlphabetWitness E) (\<lambda>_. Inr (netmap_setConfig key val c))"

definition netmap_ListConfig :: "netmap \<Rightarrow> (bytes \<times> bytes) list res" where
  "netmap_ListConfig c = mapR (\<lambda>(k, v). andThen (as_bytes v) (\<lambda>b. Inr (drop (length configPrefix) k, b)))
     (LocalFind configPrefix c)"

definition netmap_SetCleanupThreshold :: "env \<Rightarrow> int \<Rightarrow> netmap \<Rightarrow> netmap res" where
  "netmap_SetCleanupThreshold E val c =
     (if val < 0 then Inl (Panic ''negative value'')
      else andThen (CheckAlphabetWitness E) (\<lambda>_. Inr (put_int cleanupThresholdKey val c)))"

section \<open>Candidates\<close>

definition removeFromNetmap :: "bytes \<Rightarrow> netmap \<Rightarrow> netmap" where
  "removeFromNetmap key c = LocalDelete (candKey key) c"

definition updateNetmapState :: "bytes \<Rightarrow> int \<Rightarrow> netmap \<Rightarrow> netmap res" where
  "updateNetmapState key state c =
     (case LocalGet (candKey key) c of
        None \<Rightarrow> Inl (Panic ''peer is missing'')
      | Some raw \<Rightarrow> andThen (nm_candidate raw) (\<lambda>cand.
          let c1 = (if State cand \<noteq> state then setNetmapChangedFlag True c else c) in
          andThen (netmap_Epoch c1) (\<lambda>epoch.
          Inr (LocalPut (candKey key) (Ser (SCand (cand\<lparr>State := state, LastActiveEpoch := epoch\<rparr>))) c1))))"

definition updateCandidateState :: "bytes \<Rightarrow> int \<Rightarrow> netmap \<Rightarrow> netmap res" where
  "updateCandidateState publicKey state c =
     andThen (if state = Offline then Inr (setNetmapChangedFlag True (removeFromNetmap publicKey c))
              else if state = Online \<or> state = Maintenance then updateNetmapState publicKey state c
              else Inl (Panic ''unsupported state''))
       (\<lambda>c1. Inr (Notify (NmUpdateStateSuccess publicKey state) c1))"

definition netmap_DeleteNode :: "env \<Rightarrow> bytes \<Rightarrow> netmap \<Rightarrow> netmap res" where
  "netmap_DeleteNode E pkey c =
     (if length pkey \<noteq> PublicKeyCompressedLen then Inl (Panic ''incorrect public key'')
      else andThen (CheckAlphabetWitness E) (\<lambda>_. updateCandidateState pkey Offline c))"

definition netmap_UpdateState :: "env \<Rightarrow> int \<Rightarrow> bytes \<Rightarrow> netmap \<Rightarrow> netmap res" where
  "netmap_UpdateState E state publicKey c =
     (if length publicKey \<noteq> PublicKeyCompressedLen then Inl (Panic ''incorrect public key'')
      else andThen (CheckWitnessPanic E publicKey) (\<lambda>_.
        andThen (CheckAlphabetWitness E) (\<lambda>_. updateCandidateState publicKey state c)))"

section \<open>Epochs\<close>

definition incNetmapVersion :: "netmap \<Rightarrow> (int \<times> netmap) res" where
  "incNetmapVersion c = andThen (case LocalGet netmapVersionKey c of None \<Rightarrow> Inr 0 | Some v \<Rightarrow> to_integer (Some v))
     (\<lambda>ver. Inr (ver + 1, put_int netmapVersionKey (ver + 1) c))"

definition drop_stale :: "int \<Rightarrow> int \<Rightarrow> bytes \<times> nm_ser sval \<Rightarrow> netmap \<times> bool \<Rightarrow> (netmap \<times> bool) res" where
  "drop_stale cleanupThreshold epoch kv st = (case kv of (k, v) \<Rightarrow> case st of (c, changed) \<Rightarrow>
     andThen (nm_candidate v) (\<lambda>cand.
     if cleanupThreshold > 0 \<and> LastActiveEpoch cand < epoch - cleanupThreshold
     then andThen (updateCandidateState (drop 1 k) Offline c) (\<lambda>c1. Inr (c1, True))
     else Inr (c, changed)))"

definition put_node :: "int \<Rightarrow> bytes \<times> nm_ser sval \<Rightarrow> netmap \<Rightarrow> netmap res" where
  "put_node newVersion kv c = (case kv of (k, v) \<Rightarrow> andThen (nm_candidate v) (\<lambda>cand.
     Inr (LocalPut (nodeKey newVersion (drop 1 k)) (Ser (SNode
       \<lparr>Addresses = Addresses cand, Attributes = Attributes cand, Key = Key cand, State = State cand\<rparr>)) c)))"

definition updateNetmap :: "int \<Rightarrow> netmap \<Rightarrow> netmap res" where
  "updateNetmap epoch c =
     andThen (netmapChangedFlag c) (\<lambda>changed0.
     andThen (netmap_CleanupThreshold c) (\<lambda>cleanupThreshold.
     andThen (foldR (drop_stale cleanupThreshold epoch) (LocalFind (candKey []) c) (c, changed0)) (\<lambda>(c1, netmapChanged).
     if \<not> netmapChanged then Inr c1
     else andThen (incNetmapVersion c1) (\<lambda>(newVersion, c2).
       andThen (foldR (put_node newVersion) (LocalFind (candKey []) c2) c2) (\<lambda>c3.
       Inr (Notify (NmNewNetmap newVersion) (setNetmapChangedFlag False
             (put_int (epochToNetmapVersionKey epoch) newVersion c3))))))))"

fun dropNetmaps_loop :: "int \<Rightarrow> bytes list \<Rightarrow> netmap \<Rightarrow> netmap res" where
  "dropNetmaps_loop latestValid [] c = Inr c"
| "dropNetmaps_loop latestValid (k # ks) c = andThen (slice 1 5 k) (\<lambda>v.
     if be_uint32 v \<ge> latestValid then Inr c
     else dropNetmaps_loop latestValid ks (LocalDelete k c))"

definition dropNetmaps :: "netmap \<Rightarrow> netmap res" where
  "dropNetmaps c = andThen (netmap_NetworkMapVersion c) (\<lambda>ver. andThen (getSnapshotCount c) (\<lambda>count.
     let latestValidVersion = ver - count in
     if latestValidVersion \<le> 0 then Inr c
     else dropNetmaps_loop latestValidVersion (map fst (LocalFind ''p'' c)) c))"

definition netmap_UpdateSnapshotCount :: "env \<Rightarrow> int \<Rightarrow> netmap \<Rightarrow> netmap res" where
  "netmap_UpdateSnapshotCount E count c =
     andThen (CheckAlphabetWitness E) (\<lambda>_.
     if count < 0 then Inl (Panic ''count must be positive'')
     else andThen (getSnapshotCount c) (\<lambda>oldCount.
       if oldCount = count then Inl (Panic ''count has not changed'')
       else dropNetmaps (put_int snapshotCountKey count c)))"

text \<open>
  The calls to the subscribers: \<open>call h m n\<close> is the method \<open>m\<close> of the contract \<open>h\<close> with the
  argument \<open>n\<close>, acting on this contract (which it may call back) and on the other contracts.
\<close>

definition cleanup ::
  "(bytes \<Rightarrow> string \<Rightarrow> int \<Rightarrow> netmap \<times> 'o \<Rightarrow> (netmap \<times> 'o) res) \<Rightarrow> int \<Rightarrow> netmap \<times> 'o \<Rightarrow> (netmap \<times> 'o) res" where
  "cleanup call epoch w = foldR (\<lambda>k w. andThen (slice_from 1 k) (\<lambda>h. call h ''newEpoch'' epoch w))
     (find_keys_no_prefix ''e'' (fst w)) w"

definition netmap_NewEpoch ::
  "env \<Rightarrow> (bytes \<Rightarrow> string \<Rightarrow> int \<Rightarrow> netmap \<times> 'o \<Rightarrow> (netmap \<times> 'o) res) \<Rightarrow> int \<Rightarrow> netmap \<times> 'o \<Rightarrow> (netmap \<times> 'o) res" where
  "netmap_NewEpoch E call epochNum w = (case w of (c, others) \<Rightarrow>
     andThen (CheckAlphabetWitness E) (\<lambda>_.
     andThen (netmap_Epoch c) (\<lambda>currentEpoch.
     if epochNum \<le> currentEpoch
     then Inl (Panic (''invalid epoch, current: '' @ itoa10 currentEpoch @ '', received: '' @ itoa10 epochNum))
     else andThen (updateNetmap epochNum (put_int epochKey epochNum c)) (\<lambda>c1.
       andThen (dropNetmaps c1) (\<lambda>c2.
       andThen (cleanup call epochNum (c2, others)) (\<lambda>(c3, others').
       Inr (Notify (NmNewEpoch epochNum) (LocalPut (epochIndexKey epochNum)
              (Ser (SEpochItem \<lparr>ei_height = rt_height E, ei_time = rt_time E\<rparr>)) c3), others')))))))"

text \<open>The number of containers comes from the Container contract, found through the name service.\<close>

definition netmap_AddNode ::
  "env \<Rightarrow> (bytes \<Rightarrow> string \<Rightarrow> int \<Rightarrow> string list res) \<Rightarrow> (bytes \<Rightarrow> 'o \<Rightarrow> int res) \<Rightarrow>
   (bytes \<Rightarrow> string \<Rightarrow> int \<Rightarrow> netmap \<times> 'o \<Rightarrow> (netmap \<times> 'o) res) \<Rightarrow> node2 \<Rightarrow> netmap \<times> 'o \<Rightarrow> (netmap \<times> 'o) res" where
  "netmap_AddNode E resolve totalSupply call n w = (case w of (c, others) \<Rightarrow>
     if State n \<noteq> Online then Inl (Panic (''can'' @ [CHR 0x27] @ ''t add non-online node''))
     else if length (Key n) \<noteq> PublicKeyCompressedLen then Inl (Panic ''incorrect public key'')
     else andThen (CheckWitnessPanic E (Key n)) (\<lambda>_.
       andThen (CheckAlphabetWitness E) (\<lambda>_.
       andThen (netmap_Epoch c) (\<lambda>epoch.
       let cand = \<lparr>Addresses = Addresses n, Attributes = Attributes n, Key = Key n, State = State n,
                   LastActiveEpoch = epoch\<rparr>;
           c1 = Notify (NmAddNode (Key n) (Addresses n) (Attributes n))
                  (setNetmapChangedFlag True (LocalPut (candKey (Key n)) (Ser (SCand cand)) c)) in
       andThen (ResolveFSContract E resolve ''container'') (\<lambda>h.
       andThen (totalSupply h others) (\<lambda>numOfContainers.
       if numOfContainers = 0
       then andThen (netmap_Epoch c1) (\<lambda>curr. netmap_NewEpoch E call (curr + 1) (c1, others))
       else Inr (c1, others)))))))"

section \<open>Subscriptions\<close>

fun unsubscribe_loop :: "bytes \<Rightarrow> bytes list \<Rightarrow> netmap \<Rightarrow> netmap res" where
  "unsubscribe_loop h [] c = Inr c"
| "unsubscribe_loop h (k # ks) c = andThen (slice_from 2 k) (\<lambda>contractHash.
     if h = contractHash then Inr (Notify (NmNewEpochUnsubscription h) (LocalDelete k c))
     else unsubscribe_loop h ks c)"

definition netmap_UnsubscribeFromNewEpoch :: "env \<Rightarrow> bytes \<Rightarrow> netmap \<Rightarrow> netmap res" where
  "netmap_UnsubscribeFromNewEpoch E h c =
     andThen (CheckAlphabetWitness E) (\<lambda>_. unsubscribe_loop h (map fst (LocalFind ''e'' c)) c)"

text \<open>\<open>None\<close> when the contract is already subscribed, the number of subscribers otherwise.\<close>

fun subscribe_loop :: "bytes \<Rightarrow> bytes list \<Rightarrow> int \<Rightarrow> int option res" where
  "subscribe_loop h [] num = Inr (Some num)"
| "subscribe_loop h (k # ks) num = andThen (slice_from 1 k) (\<lambda>raw.
     if h = raw then Inr None else subscribe_loop h ks (num + 1))"

definition netmap_SubscribeForNewEpoch :: "env \<Rightarrow> bytes \<Rightarrow> netmap \<Rightarrow> netmap res" where
  "netmap_SubscribeForNewEpoch E h c =
     andThen (CheckAlphabetWitness E) (\<lambda>_.
     if \<not> rt_has_method E h ''newEpoch'' 1
     then Inl (Panic (rt_hash_to_address E h @ '' contract does not have `newEpoch(epoch)` method''))
     else andThen (subscribe_loop h (find_keys_no_prefix ''e'' c) 0) (\<lambda>r.
       case r of None \<Rightarrow> Inr c
       | Some num \<Rightarrow> andThen (set_byte num) (\<lambda>b.
           Inr (Notify (NmNewEpochSubscription h) (LocalPut (subscriberKey b h) (Raw []) c)))))"

section \<open>Deployment and update\<close>

text \<open>Network maps stored by epoch become network maps stored by version.\<close>

definition migrate_entry :: "int \<Rightarrow> bytes \<times> nm_ser sval \<Rightarrow> netmap \<Rightarrow> netmap res" where
  "migrate_entry currEpoch kv c = (case kv of (k, v) \<Rightarrow>
     andThen (slice 1 5 k) (\<lambda>eb.
     let e = be_uint32 eb in
     if e = currEpoch - 1 then Inr (LocalDelete k (LocalPut (nodeKey 1 (drop 5 k)) v c))
     else if e = currEpoch then Inr (LocalDelete k (LocalPut (nodeKey 2 (drop 5 k)) v c))
     else Inr (LocalDelete k c)))"

definition migrateToVersionedNetmap :: "netmap \<Rightarrow> netmap res" where
  "migrateToVersionedNetmap c = andThen (netmap_Epoch c) (\<lambda>currEpoch.
     let nmIt = LocalFind ''p'' c;
         c1 = put_int netmapVersionKey 2 c;
         c2 = put_int (epochToNetmapVersionKey (currEpoch - 1)) 1 c1;
         c3 = put_int (epochToNetmapVersionKey currEpoch) 2 c2;
         c4 = LocalPut netmapChangedFlagKey (Raw [CHR 0x00]) c3 in
     foldR (migrate_entry currEpoch) nmIt c4)"

fun deploy_config :: "bytes list \<Rightarrow> netmap \<Rightarrow> netmap" where
  "deploy_config (key # val # kvs) c = deploy_config kvs (netmap_setConfig key val c)"
| "deploy_config _ c = c"

definition drop_obsolete :: "netmap \<Rightarrow> netmap" where
  "drop_obsolete c =
     (let c1 = LocalDelete (configPrefix @ ''MaintenanceModeAllowed'') (LocalDelete (configPrefix @ ''AuditFee'')
                 (LocalDelete (configPrefix @ ''UseNodeV2'') c));
          c2 = deleteKeys (map fst (LocalFind ''snapshot_'' c1)) c1;
          c3 = deleteKeys (map fst (LocalFind ''candidate'' c2)) c2 in
      LocalDelete ''snapshotCurrent'' c3)"

definition netmap_deploy :: "arg list \<Rightarrow> bool \<Rightarrow> netmap \<Rightarrow> netmap res" where
  "netmap_deploy data isUpdate c =
     (if isUpdate
      then andThen (last_version data) (\<lambda>version.
        andThen (CheckVersion version) (\<lambda>_.
        let c1 = (if version < 26000 then drop_obsolete c else c) in
        if version < 27000
        then migrateToVersionedNetmap (LocalDelete (configPrefix @ ''HomomorphicHashingDisabled'') c1)
        else Inr c1))
      else andThen (andThen (arg_at 4 data) arg_byte_arrays) (\<lambda>config.
        if length config mod 2 \<noteq> 0 then Inl (Panic ''bad configuration'')
        else Inr (put_int (epochToNetmapVersionKey 0) 0 (put_int netmapVersionKey 0
               (put_int cleanupThresholdKey defaultCleanupThreshold (put_int epochKey 0
               (put_int snapshotCountKey DefaultSnapshotCount (deploy_config config c))))))))"

definition netmap_Update ::
  "env \<Rightarrow> (bytes \<Rightarrow> bytes \<Rightarrow> arg list \<Rightarrow> 'w \<Rightarrow> 'w res) \<Rightarrow> bytes \<Rightarrow> bytes \<Rightarrow> arg list option \<Rightarrow> 'w \<Rightarrow> 'w res" where
  "netmap_Update E management nefFile manifest data w =
     update_by_committee E management nefFile manifest data w"

end
