(* ===== verification/Settlement.thy ===== *)
theory Settlement
  imports Balance_Ledger Container_Reports Netmap_Contract
begin

text \<open>
  \<open>SettleContainerPayment\<close> of the Balance contract (\<open>contracts/balance/contract.go\<close>): the owner of a
  container pays the nodes that reported its objects. It reads the Container and Netmap contracts; the
  methods it calls are the fields of \<open>readers\<close>, the first argument being the hash of the contract.
\<close>

definition balNetmapContractKey :: char where "balNetmapContractKey = CHR ''b''"
definition balContainerContractKey :: char where "balContainerContractKey = CHR ''c''"
definition BasicIncomeRateKey :: string where "BasicIncomeRateKey = ''BasicIncomeRate''"

record readers =
  r_owner :: "bytes \<Rightarrow> bytes \<Rightarrow> bytes res"
  r_iterateBillingStats :: "bytes \<Rightarrow> bytes \<Rightarrow> billing_stat list res"
  r_getReportByAccount :: "bytes \<Rightarrow> bytes \<Rightarrow> bytes \<Rightarrow> node_report res"
  r_config :: "bytes \<Rightarrow> string \<Rightarrow> bytes option res"
  r_epoch :: "bytes \<Rightarrow> int res"
  r_isStorageNodeStatus :: "bytes \<Rightarrow> bytes \<Rightarrow> int \<Rightarrow> int \<Rightarrow> bool res"

text \<open>The methods of a Container contract and a Netmap contract in a given state.\<close>

definition contract_readers :: "env \<Rightarrow> container \<Rightarrow> netmap \<Rightarrow> readers" where
  "contract_readers E cnr nm = \<lparr>
     r_owner = (\<lambda>_ cid. cnt_Owner E cid cnr),
     r_iterateBillingStats = (\<lambda>_ cid. IterateBillingStats cid cnr),
     r_getReportByAccount = (\<lambda>_ cid acc. GetReportByAccount cid acc cnr),
     r_config = (\<lambda>_ key. netmap_Config key nm),
     r_epoch = (\<lambda>_. netmap_Epoch nm),
     r_isStorageNodeStatus = (\<lambda>_ key epoch st. netmap_IsStorageNodeStatus key epoch st nm)\<rparr>"

text \<open>The size a node is paid for.\<close>

definition payment_size :: "billing_stat \<Rightarrow> int \<Rightarrow> int \<Rightarrow> int" where
  "payment_size r currEpoch paymentEpoch =
     (if bs_LatestEpoch r < paymentEpoch then bs_LatestContainerSize r
      else if bs_LatestEpoch r = currEpoch
      then (if bs_PreviousEpoch r = paymentEpoch then bs_PreviousEpochAverageSize r else bs_PreviousContainerSize r)
      else if bs_LatestEpoch r = paymentEpoch then bs_LatestEpochAverageSize r
      else 0)"

definition payment_amount :: "int \<Rightarrow> int \<Rightarrow> int" where
  "payment_amount rate sz = (let p = goDiv (rate * sz) gigabyte in if p = 0 then 1 else p)"

text \<open>
  Whether an entry is skipped or for how much its account is paid. The report gives the public key of
  the account, the network map whether that node was online.
\<close>

definition due_payment :: "readers \<Rightarrow> bytes \<Rightarrow> bytes \<Rightarrow> bytes \<Rightarrow> int \<Rightarrow> int \<Rightarrow> billing_stat \<Rightarrow> int option res" where
  "due_payment R netmap cnr cid rate currEpoch r =
     (let paymentEpoch = currEpoch - 1; sz = payment_size r currEpoch paymentEpoch in
      if sz = 0 then Inr None
      else andThen (r_getReportByAccount R cnr cid (bs_Account r)) (\<lambda>rep.
        if length (nr_PublicKey rep) \<noteq> PublicKeyCompressedLen then Inr None
        else andThen (r_isStorageNodeStatus R netmap (nr_PublicKey rep) paymentEpoch Online) (\<lambda>isOnline.
          if \<not> isOnline then Inr None else Inr (Some (payment_amount rate sz)))))"

text \<open>The loop stops at the first payment the owner cannot make.\<close>

fun settle_loop ::
  "env \<Rightarrow> (billing_stat \<Rightarrow> int option res) \<Rightarrow> bytes \<Rightarrow> billing_stat list \<Rightarrow> int \<Rightarrow> balance \<Rightarrow> (bool \<times> int \<times> balance) res" where
  "settle_loop E due owner [] sum_paid c = Inr (True, sum_paid, c)"
| "settle_loop E due owner (r # rs) sum_paid c =
     andThen (due r) (\<lambda>d. case d of
       None \<Rightarrow> settle_loop E due owner rs sum_paid c
     | Some payment \<Rightarrow> andThen (transfer E owner (bs_Account r) payment True [] c) (\<lambda>(ok, c1).
         if \<not> ok then Inr (False, sum_paid, c1)
         else settle_loop E due owner rs (sum_paid + payment) c1))"

definition mark_payment :: "bytes \<Rightarrow> int \<Rightarrow> bool \<Rightarrow> balance \<Rightarrow> balance" where
  "mark_payment cid paymentEpoch paymentOK c =
     (let alreadyMarkedUnpaid = (LocalGet (unpaidKey cid) c \<noteq> None) in
      if paymentOK \<and> alreadyMarkedUnpaid
      then LocalDelete (unpaidKey cid) (Notify (BalChangePaymentStatus cid paymentEpoch False) c)
      else if \<not> paymentOK \<and> \<not> alreadyMarkedUnpaid
      then put_int (unpaidKey cid) paymentEpoch (Notify (BalChangePaymentStatus cid paymentEpoch True) c)
      else c)"

definition SettleContainerPayment ::
  "env \<Rightarrow> (bytes \<Rightarrow> string \<Rightarrow> int \<Rightarrow> string list res) \<Rightarrow> readers \<Rightarrow> bytes \<Rightarrow> balance \<Rightarrow> (bool \<times> balance) res" where
  "SettleContainerPayment E resolver R cid c =
     (if length cid \<noteq> Hash256Len then Inl (Panic ''invalid container id'')
      else andThen (CheckAlphabetWitness E) (\<lambda>_.
        andThen (getContractHash E resolver balNetmapContractKey ''netmap'' c) (\<lambda>(netmap, c).
        andThen (getContractHash E resolver balContainerContractKey ''container'' c) (\<lambda>(cnr, c).
        andThen (r_owner R cnr cid) (\<lambda>wallet.
        andThen (WalletToScriptHash wallet) (\<lambda>owner.
        andThen (r_config R netmap BasicIncomeRateKey) (\<lambda>rateRaw.
        andThen (r_epoch R netmap) (\<lambda>currEpoch.
        case rateRaw of
          None \<Rightarrow> Inl (Fault ''null operand'')
        | Some rateBytes \<Rightarrow>
            let rate = bytes_int rateBytes; paymentEpoch = currEpoch - 1 in
            if rate = 0 \<or> paymentEpoch < 0 then Inr (True, c)
            else andThen (case LocalGet (paidKey cid) c of None \<Rightarrow> Inr False
                  | Some v \<Rightarrow> andThen (to_integer (Some v)) (\<lambda>e. Inr (e \<ge> paymentEpoch))) (\<lambda>paid.
              if paid then Inr (False, c)
              else andThen (r_iterateBillingStats R cnr cid) (\<lambda>stats.
                andThen (settle_loop E (due_payment R netmap cnr cid rate currEpoch) owner stats 0 c)
                  (\<lambda>(paymentOK, transferredTotal, c1).
                let c2 = mark_payment cid paymentEpoch paymentOK c1 in
                Inr (paymentOK, if paymentOK
                  then Notify (BalPayment owner cid paymentEpoch transferredTotal) (put_int (paidKey cid) paymentEpoch c2)
                  else c2))))))))))))"

end
