(* ===== verification/Asset_Ledger.thy ===== *)
theory Asset_Ledger
  imports Prelude
begin

text \<open>
  The interface of a contract that keeps assets (the Balance contract, the native GAS contract), as its
  callers rely on it: a transfer from one of the accounts the caller may pay from, to one of the accounts that
  take payments, moves exactly the amount when the sender can afford it, and is refused and changes nothing
  when it cannot. What follows for a caller that makes payments one after another.
\<close>

section \<open>Payments\<close>

type_synonym payment = "bytes \<times> int"

definition paid_sum :: "payment list \<Rightarrow> int" where
  "paid_sum ps = sum_list (map snd ps)"

definition paid_to :: "bytes \<Rightarrow> payment list \<Rightarrow> int" where
  "paid_to a ps = paid_sum (filter (\<lambda>p. fst p = a) ps)"

text \<open>The payments an owner who has \<open>n\<close> can make, in their order.\<close>

fun affordable :: "int \<Rightarrow> payment list \<Rightarrow> payment list" where
  "affordable n [] = []"
| "affordable n ((a, p) # ps) = (if p \<le> n then (a, p) # affordable (n - p) ps else [])"

lemma paid_simps [simp]: "paid_sum [] = 0" "paid_sum ((a, p) # ps) = p + paid_sum ps"
  "paid_to b [] = 0" "paid_to b ((a, p) # ps) = (if a = b then p else 0) + paid_to b ps"
  by (simp_all add: paid_sum_def paid_to_def)

lemma paid_same [simp]: "paid_sum (map (\<lambda>k. (f k, n)) ks) = int (length ks) * n"
  "paid_to b (map (\<lambda>k. (f k, n)) ks) = int (length (filter (\<lambda>k. f k = b) ks)) * n"
  by (induction ks) (auto simp: algebra_simps)

lemma affordable_prefix: "prefix (affordable n ps) ps"
  by (induction n ps rule: affordable.induct) auto

lemma paid_sum_nonneg: "\<forall>(a, p) \<in> set ps. 0 \<le> p \<Longrightarrow> 0 \<le> paid_sum ps"
  by (force simp: paid_sum_def intro!: sum_list_nonneg)

lemma affordable_all: "\<forall>(a, p) \<in> set ps. 0 \<le> p \<Longrightarrow> affordable n ps = ps \<longleftrightarrow> ps = [] \<or> paid_sum ps \<le> n"
proof (induction n ps rule: affordable.induct)
  case (2 n a p ps)
  then show ?case using paid_sum_nonneg [of ps] by auto
qed simp

lemma affordable_sum: "affordable n ps = [] \<or> paid_sum (affordable n ps) \<le> n"
  by (induction n ps rule: affordable.induct) auto

text \<open>Payments one after another up to the first that is refused.\<close>

fun send_all :: "(bytes \<Rightarrow> bytes \<Rightarrow> int \<Rightarrow> 's \<Rightarrow> (bool \<times> 's) res) \<Rightarrow> bytes \<Rightarrow> payment list \<Rightarrow> 's \<Rightarrow> (bool \<times> 's) res" where
  "send_all send frm [] s = Inr (True, s)"
| "send_all send frm ((a, p) # ps) s = andThen (send frm a p s) (\<lambda>(ok, s1).
     if \<not> ok then Inr (False, s1) else send_all send frm ps s1)"

section \<open>The interface\<close>

locale asset_ledger =
  fixes bal :: "'s \<Rightarrow> bytes \<Rightarrow> int"
    and send :: "bytes \<Rightarrow> bytes \<Rightarrow> int \<Rightarrow> 's \<Rightarrow> (bool \<times> 's) res"
    and ok :: "'s \<Rightarrow> bool"
    and payer :: "bytes \<Rightarrow> bool"
    and account :: "bytes \<Rightarrow> bool"
  assumes send_enough: "ok s \<Longrightarrow> payer frm \<Longrightarrow> account to \<Longrightarrow> 0 \<le> n \<Longrightarrow> n \<le> bal s frm \<Longrightarrow>
      \<exists>s'. send frm to n s = Inr (True, s') \<and> ok s' \<and>
        (\<forall>a. bal s' a = bal s a - (if a = frm then n else 0) + (if a = to then n else 0))"
    and send_short: "ok s \<Longrightarrow> payer frm \<Longrightarrow> account to \<Longrightarrow> 0 \<le> n \<Longrightarrow> bal s frm < n \<Longrightarrow> send frm to n s = Inr (False, s)"
begin

lemma send_all_spec:
  assumes "ok s" and "payer frm" and "\<forall>(a, p) \<in> set ps. 0 \<le> p \<and> account a \<and> a \<noteq> frm"
  shows "\<exists>s'. send_all send frm ps s = Inr (affordable (bal s frm) ps = ps, s') \<and> ok s' \<and>
    (\<forall>b. bal s' b = bal s b + paid_to b (affordable (bal s frm) ps) -
       (if b = frm then paid_sum (affordable (bal s frm) ps) else 0))"
  using assms
proof (induction ps arbitrary: s)
  case (Cons x ps)
  obtain a p where x: "x = (a, p)" by (cases x)
  have ap: "0 \<le> p" "account a" "a \<noteq> frm" using Cons.prems(3) x by auto
  show ?case
  proof (cases "p \<le> bal s frm")
    case False
    then show ?thesis using send_short [OF Cons.prems(1,2) ap(2,1)] Cons.prems(1) x by auto
  next
    case True
    obtain s1 where s1: "send frm a p s = Inr (True, s1)" "ok s1"
      "\<And>b. bal s1 b = bal s b - (if b = frm then p else 0) + (if b = a then p else 0)"
      using send_enough [OF Cons.prems(1,2) ap(2,1) True] by blast
    have "bal s1 frm = bal s frm - p" using s1(3) [of frm] ap(3) by simp
    then show ?thesis using Cons.IH [OF s1(2) Cons.prems(2)] Cons.prems(3) s1 True x by (auto simp: ap(3))
  qed
qed simp

text \<open>Everything is paid when the sum of the payments is there.\<close>

lemma send_all_enough:
  assumes "ok s" and "payer frm" and "\<forall>(a, p) \<in> set ps. 0 \<le> p \<and> account a \<and> a \<noteq> frm" and "paid_sum ps \<le> bal s frm"
  shows "\<exists>s'. send_all send frm ps s = Inr (True, s') \<and> ok s' \<and>
    (\<forall>b. bal s' b = bal s b + paid_to b ps - (if b = frm then paid_sum ps else 0))"
proof -
  have all: "affordable (bal s frm) ps = ps" using assms(3,4) affordable_all [of ps "bal s frm"] by auto
  show ?thesis using send_all_spec [OF assms(1-3)] unfolding all by simp
qed

end

end
