(* ===== verification/Settlement_Ledger.thy ===== *)
theory Settlement_Ledger
  imports Settlement Asset_Ledger
begin

text \<open>
  What the settlement of a container does to the ledger: which of the payments due are made, what they
  leave of the owner's account and where they go, and which marks stay on the container.
\<close>

section \<open>The payments due\<close>

fun payments :: "billing_stat list \<Rightarrow> int option list \<Rightarrow> payment list" where
  "payments (r # rs) (Some p # ds) = (bs_Account r, p) # payments rs ds"
| "payments (r # rs) (None # ds) = payments rs ds"
| "payments rs ds = []"

section \<open>The Balance contract keeps assets\<close>

text \<open>The Balance contract, called by the Alphabet or by itself, provides the interface.\<close>

interpretation bal_assets: asset_ledger bal_of "\<lambda>frm to n c. transfer E frm to n True details c" balance_ok
  "\<lambda>a. length a = Hash160Len" "\<lambda>a. length a = Hash160Len" for E details
proof
  fix c :: balance and frm to :: bytes and n :: int
  assume a: "balance_ok c" "length frm = Hash160Len" "length to = Hash160Len" "0 \<le> n"
  obtain c' where t: "transfer E frm to n True details c = Inr (may_transfer E frm to n True (bal_of c), c')"
    "balance_ok c'"
    "bal_of c' = (if may_transfer E frm to n True (bal_of c) then ledger_transfer frm to n (bal_of c) else bal_of c)"
    "\<not> may_transfer E frm to n True (bal_of c) \<Longrightarrow> c' = c"
    by (rule transfer_spec [OF a(1,4), where E = E and frm = frm and to = to and ir = True and details = details]) blast
  have may: "may_transfer E frm to n True (bal_of c) \<longleftrightarrow> n \<le> bal_of c frm" using a(2) by (auto simp: may_transfer_def)
  show "\<exists>s'. transfer E frm to n True details c = Inr (True, s') \<and> balance_ok s' \<and>
      (\<forall>a. bal_of s' a = bal_of c a - (if a = frm then n else 0) + (if a = to then n else 0))" if "n \<le> bal_of c frm"
    using t may that a by (auto simp: ledger_transfer_def ledger_debit_def ledger_credit_def)
  show "transfer E frm to n True details c = Inr (False, c)" if "bal_of c frm < n"
    using t may that by simp
qed

section \<open>The loop of transfers\<close>

text \<open>The loop makes the payments due one after another and adds up the ones that were made.\<close>

lemma settle_loop_sends:
  assumes "mapR due rs = Inr ds" and "send_all (\<lambda>frm to n c. transfer E frm to n True [] c) owner (payments rs ds) c = Inr (b, c')"
  shows "\<exists>n. settle_loop E due owner rs s c = Inr (b, n, c') \<and> (b \<longrightarrow> n = s + paid_sum (payments rs ds))"
  using assms
proof (induction rs arbitrary: ds s c)
  case (Cons r rs)
  obtain d ds' where d: "due r = Inr d" "mapR due rs = Inr ds'" "ds = d # ds'" using Cons.prems(1) by auto
  show ?case
  proof (cases d)
    case None
    then show ?thesis using Cons.IH [OF d(2)] Cons.prems(2) d by simp
  next
    case (Some p)
    obtain ok c1 where t: "transfer E owner (bs_Account r) p True [] c = Inr (ok, c1)"
      and rest: "(if \<not> ok then Inr (False, c1)
        else send_all (\<lambda>frm to n c. transfer E frm to n True [] c) owner (payments rs ds') c1) = Inr (b, c')"
      using Cons.prems(2) d(3) Some by auto
    show ?thesis
    proof (cases ok)
      case True
      then show ?thesis using Cons.IH [OF d(2), of c1 "s + p"] rest t d Some by (auto simp: algebra_simps)
    qed (use rest t d Some in auto)
  qed
qed auto

lemma settle_loop_frame:
  assumes "settle_loop E due owner rs s c = Inr (b, n, c')" and "\<And>a. k \<noteq> accKey a"
  shows "LocalGet k c' = LocalGet k c"
  using assms(1)
proof (induction rs arbitrary: s c)
  case (Cons r rs)
  have frame: "LocalGet k d' = LocalGet k d" if "transfer E owner a p True [] d = Inr (ok, d')" for a p ok d d'
    using that assms(2) by (auto simp: transfer_def credit_def debit_def canTransfer_def split: if_splits)
  obtain d where d: "due r = Inr d" using Cons.prems by auto
  show ?case
  proof (cases d)
    case (Some p)
    then obtain ok c1 where "transfer E owner (bs_Account r) p True [] c = Inr (ok, c1)"
      "c' = c1 \<or> settle_loop E due owner rs (s + p) c1 = Inr (b, n, c')"
      using Cons.prems d by (auto split: if_splits)
    then show ?thesis using frame Cons.IH by metis
  qed (use Cons d in simp)
qed simp

lemma settle_loop_spec:
  assumes "balance_ok c" and "length owner = Hash160Len" and "mapR due rs = Inr ds" and "ps = payments rs ds"
    and "\<forall>(a, p) \<in> set ps. 0 \<le> p \<and> length a = Hash160Len \<and> a \<noteq> owner"
  shows "\<exists>n c'. settle_loop E due owner rs 0 c = Inr (affordable (bal_of c owner) ps = ps, n, c') \<and>
    (affordable (bal_of c owner) ps = ps \<longrightarrow> n = paid_sum ps) \<and>
    (\<forall>b. bal_of c' b = bal_of c b + paid_to b (affordable (bal_of c owner) ps) -
       (if b = owner then paid_sum (affordable (bal_of c owner) ps) else 0))"
proof -
  obtain c' where c': "send_all (\<lambda>frm to n c. transfer E frm to n True [] c) owner ps c = Inr (affordable (bal_of c owner) ps = ps, c')"
    "\<forall>b. bal_of c' b = bal_of c b + paid_to b (affordable (bal_of c owner) ps) -
       (if b = owner then paid_sum (affordable (bal_of c owner) ps) else 0)"
    using bal_assets.send_all_spec [OF assms(1,2,5), of E "[]"] by blast
  then show ?thesis using settle_loop_sends [OF assms(3), of E owner c _ c' 0] assms(4) by auto
qed

lemma payments_account:
  "mapR due rs = Inr ds \<Longrightarrow> \<forall>(a, p) \<in> set (payments rs ds). P a \<Longrightarrow> \<forall>r \<in> set rs. P (bs_Account r) \<or> due r = Inr None"
proof (induction rs arbitrary: ds)
  case (Cons r rs)
  obtain d ds' where d: "due r = Inr d" "mapR due rs = Inr ds'" "ds = d # ds'" using Cons.prems(1) by auto
  then show ?case using Cons.IH [OF d(2)] Cons.prems(2) by (cases d) auto
qed simp

lemma settle_loop_balanced:
  assumes "settle_loop E due owner rs s c = Inr (b, s', c')" and "balance_ok c" and "length owner = Hash160Len"
    and "\<forall>r \<in> set rs. length (bs_Account r) = Hash160Len \<or> due r = Inr None"
  shows "balance_ok c' \<and> supply_of c' = supply_of c \<and> accounts_total c' = accounts_total c \<and> (locks_ok c \<longrightarrow> locks_ok c')"
  using assms
proof (induction rs arbitrary: s c)
  case (Cons r rs)
  show ?case
  proof (cases "due r")
    case (Inr d)
    show ?thesis
    proof (cases d)
      case (Some p)
      obtain ok c1 where t: "transfer E owner (bs_Account r) p True [] c = Inr (ok, c1)"
        and rest: "(if \<not> ok then Inr (False, s, c1) else settle_loop E due owner rs (s + p) c1) = Inr (b, s', c')"
        using Cons.prems(1) Inr Some by auto
      note q = transfer_Inr [OF Cons.prems(2) t]
      have locks: "ok \<Longrightarrow> locks_ok c \<Longrightarrow> locks_ok c1"
        using transfer_lock_of [of E owner "bs_Account r" p True "[]" c c1] t
        by (auto simp: locks_ok_def split: if_split_asm)
      show ?thesis
      proof (cases ok)
        case True
        moreover have "length (bs_Account r) = Hash160Len" using Cons.prems(4) Inr Some by simp
        ultimately show ?thesis using Cons.IH [of "s + p" c1] rest q locks Cons.prems(3,4) by (simp add: flow_def)
      next
        case False
        then show ?thesis using rest q Cons.prems(2) by auto
      qed
    qed (use Cons Inr in auto)
  qed (use Cons in auto)
qed auto

section \<open>The marks on a container\<close>

lemma mark_payment_simps:
  "LocalGet (unpaidKey cid) (mark_payment cid n ok c) =
     (if ok then None else if LocalGet (unpaidKey cid) c = None then Some (Raw (int_bytes n)) else LocalGet (unpaidKey cid) c)"
  "k \<noteq> unpaidKey cid \<Longrightarrow> LocalGet k (mark_payment cid n ok c) = LocalGet k c"
  by (auto simp: mark_payment_def Let_def)

lemma accKey_marks [simp]: "accKey a \<noteq> unpaidKey cid" "accKey a \<noteq> paidKey cid" "unpaidKey cid \<noteq> paidKey cid"
  "unpaidKey cid \<noteq> accKey a" "paidKey cid \<noteq> accKey a" "paidKey cid \<noteq> unpaidKey cid"
  "circulation \<noteq> unpaidKey cid" "circulation \<noteq> paidKey cid" "unpaidKey cid \<noteq> circulation" "paidKey cid \<noteq> circulation"
  "unpaidKey cid \<noteq> [balNetmapContractKey]" "unpaidKey cid \<noteq> [balContainerContractKey]"
  "paidKey cid \<noteq> [balNetmapContractKey]" "paidKey cid \<noteq> [balContainerContractKey]"
  "accKey a \<noteq> [balNetmapContractKey]" "accKey a \<noteq> [balContainerContractKey]"
  "circulation \<noteq> [balNetmapContractKey]" "circulation \<noteq> [balContainerContractKey]"
  "[balNetmapContractKey] \<noteq> accKey a" "[balContainerContractKey] \<noteq> accKey a"
  "[balNetmapContractKey] \<noteq> circulation" "[balContainerContractKey] \<noteq> circulation"
  by (auto simp: accKey_def unpaidKey_def paidKey_def circulation_def balNetmapContractKey_def balContainerContractKey_def)

text \<open>The ledger depends on the accounts and the circulation only.\<close>

definition same_ledger :: "balance \<Rightarrow> balance \<Rightarrow> bool" where
  "same_ledger c d \<longleftrightarrow> bal_of d = bal_of c \<and> supply_of d = supply_of c \<and> accounts_total d = accounts_total c \<and>
     balance_ok d = balance_ok c \<and> locks_ok d = locks_ok c"

lemma same_ledger_trans: "same_ledger c d \<Longrightarrow> same_ledger d e \<Longrightarrow> same_ledger c e"
  by (simp add: same_ledger_def)

lemma same_ledger_refl [simp]: "same_ledger c c"
  by (simp add: same_ledger_def)

lemma same_ledger_Notify [simp]: "same_ledger c (Notify e c)"
  by (simp add: same_ledger_def locks_ok_def)

text \<open>Which keys are neither accounts nor the circulation.\<close>

lemma same_ledger_updates:
  assumes "balance_ok c" and "\<And>a. k \<noteq> accKey a" and "k \<noteq> circulation"
  shows "same_ledger c (LocalPut k v c)" "same_ledger c (LocalDelete k c)"
proof -
  have sym: "\<And>a. accKey a \<noteq> k" "circulation \<noteq> k" using assms(2,3) by metis+
  have p: "\<not> prefix (accKey []) k" using assms(2) [of "drop 1 k"] by (auto simp: accKey_def prefix_def)
  show "same_ledger c (LocalPut k v c)" "same_ledger c (LocalDelete k c)"
    using assms p sym by (auto simp: same_ledger_def fun_eq_iff bal_of_def supply_of_def accounts_total_def balance_ok_def
        locks_ok_def lock_of_def LocalSum_LocalPut LocalSum_LocalDelete)
qed

lemma same_ledger_mark:
  assumes "balance_ok c"
  shows "same_ledger c (mark_payment cid n ok c)"
proof -
  have "same_ledger (Notify e c) (LocalPut (unpaidKey cid) v (Notify e c))"
    "same_ledger (Notify e c) (LocalDelete (unpaidKey cid) (Notify e c))" for e v
    using assms by (simp_all add: same_ledger_updates)
  then have "same_ledger c (LocalPut (unpaidKey cid) v (Notify e c))"
    "same_ledger c (LocalDelete (unpaidKey cid) (Notify e c))" for e v
    using same_ledger_trans [OF same_ledger_Notify] by blast+
  then show ?thesis by (simp add: mark_payment_def Let_def put_int_def)
qed

lemma same_ledger_getContractHash:
  assumes "getContractHash E resolver s name c = Inr (h, c')" and "balance_ok c"
    and "s = balNetmapContractKey \<or> s = balContainerContractKey"
  shows "same_ledger c c'"
  using assms by (auto simp: getContractHash_def split: option.splits if_splits intro!: same_ledger_updates)

section \<open>A whole settlement\<close>

text \<open>
  The reads of a settlement: the owner, the rate, the current epoch and the billing statistics, and the
  state with the hashes of the other contracts remembered.
\<close>

definition settlement_reads ::
  "env \<Rightarrow> (bytes \<Rightarrow> string \<Rightarrow> int \<Rightarrow> string list res) \<Rightarrow> readers \<Rightarrow> bytes \<Rightarrow> balance \<Rightarrow>
   (bytes \<times> bytes \<times> bytes \<times> int \<times> int \<times> balance) res" where
  "settlement_reads E resolver R cid c =
     andThen (getContractHash E resolver balNetmapContractKey ''netmap'' c) (\<lambda>(netmap, c).
     andThen (getContractHash E resolver balContainerContractKey ''container'' c) (\<lambda>(cnr, c).
     andThen (r_owner R cnr cid) (\<lambda>wallet.
     andThen (WalletToScriptHash wallet) (\<lambda>owner.
     andThen (r_config R netmap BasicIncomeRateKey) (\<lambda>rateRaw.
     andThen (r_epoch R netmap) (\<lambda>currEpoch.
     case rateRaw of None \<Rightarrow> Inl (Fault ''null operand'')
       | Some b \<Rightarrow> Inr (netmap, cnr, owner, bytes_int b, currEpoch, c)))))))"

definition already_paid :: "bytes \<Rightarrow> int \<Rightarrow> balance \<Rightarrow> bool res" where
  "already_paid cid paymentEpoch c = (case LocalGet (paidKey cid) c of None \<Rightarrow> Inr False
     | Some v \<Rightarrow> andThen (to_integer (Some v)) (\<lambda>e. Inr (e \<ge> paymentEpoch)))"

lemma SettleContainerPayment_eq:
  "SettleContainerPayment E resolver R cid c =
    (if length cid \<noteq> Hash256Len then Inl (Panic ''invalid container id'')
     else andThen (CheckAlphabetWitness E) (\<lambda>_.
     andThen (settlement_reads E resolver R cid c) (\<lambda>(netmap, cnr, owner, rate, currEpoch, c).
     if rate = 0 \<or> currEpoch - 1 < 0 then Inr (True, c)
     else andThen (already_paid cid (currEpoch - 1) c) (\<lambda>paid.
       if paid then Inr (False, c)
       else andThen (r_iterateBillingStats R cnr cid) (\<lambda>stats.
         andThen (settle_loop E (due_payment R netmap cnr cid rate currEpoch) owner stats 0 c)
           (\<lambda>(paymentOK, transferredTotal, c1).
         let c2 = mark_payment cid (currEpoch - 1) paymentOK c1 in
         Inr (paymentOK, if paymentOK
           then Notify (BalPayment owner cid (currEpoch - 1) transferredTotal) (put_int (paidKey cid) (currEpoch - 1) c2)
           else c2)))))))"
proof -
  have step: "andThen (andThen m f) g = andThen m (\<lambda>x. andThen (f x) g)" for m :: "'x res" and f :: "'x \<Rightarrow> 'y res" and g :: "'y \<Rightarrow> 'z res"
    by (cases m) simp_all
  have opt: "andThen (case z of None \<Rightarrow> Inl e | Some b \<Rightarrow> Inr (h b)) g = (case z of None \<Rightarrow> Inl e | Some b \<Rightarrow> g (h b))"
    for z :: "bytes option" and e and h :: "bytes \<Rightarrow> 'y" and g :: "'y \<Rightarrow> 'z res" by (cases z) simp_all
  show ?thesis
    by (simp only: SettleContainerPayment_def settlement_reads_def already_paid_def step opt case_prod_beta' Let_def fst_conv snd_conv)
qed

lemma settlement_reads_ledger:
  assumes "settlement_reads E resolver R cid c = Inr (netmap, cnr, owner, rate, currEpoch, c')" and "balance_ok c"
  shows "same_ledger c c'" "LocalGet (paidKey i) c' = LocalGet (paidKey i) c" "LocalGet (unpaidKey i) c' = LocalGet (unpaidKey i) c"
proof -
  obtain h1 h2 c1 where h: "getContractHash E resolver balNetmapContractKey ''netmap'' c = Inr (h1, c1)"
    "getContractHash E resolver balContainerContractKey ''container'' c1 = Inr (h2, c')"
    using assms(1) by (auto simp: settlement_reads_def split: option.splits)
  have s1: "same_ledger c c1" using same_ledger_getContractHash [OF h(1) assms(2)] by simp
  then have "same_ledger c1 c'" using same_ledger_getContractHash [OF h(2)] assms(2) by (simp add: same_ledger_def)
  then show "same_ledger c c'" using s1 same_ledger_trans by blast
  have frame: "k \<noteq> [s] \<Longrightarrow> LocalGet k d' = LocalGet k d" if "getContractHash E resolver s name d = Inr (x, d')" for k s name d x d'
    using that by (auto simp: getContractHash_def split: option.splits if_splits)
  show "LocalGet (paidKey i) c' = LocalGet (paidKey i) c" "LocalGet (unpaidKey i) c' = LocalGet (unpaidKey i) c"
    by (simp_all add: frame [OF h(2)] frame [OF h(1)])
qed

text \<open>A settlement moves assets between accounts and neither creates nor destroys any.\<close>

lemma settlement_balanced:
  assumes "SettleContainerPayment E resolver R cid c = Inr (b, c')" and "balance_ok c"
    and owners: "\<And>h i w x. r_owner R h i = Inr w \<Longrightarrow> WalletToScriptHash w = Inr x \<Longrightarrow> length x = Hash160Len"
    and accounts: "\<And>h i rs. r_iterateBillingStats R h i = Inr rs \<Longrightarrow> \<forall>r \<in> set rs. length (bs_Account r) = Hash160Len"
  shows "balance_ok c' \<and> supply_of c' = supply_of c \<and> accounts_total c' = accounts_total c \<and> (locks_ok c \<longrightarrow> locks_ok c')"
proof -
  obtain netmap cnr owner rate currEpoch c0 where r: "settlement_reads E resolver R cid c = Inr (netmap, cnr, owner, rate, currEpoch, c0)"
    using assms(1) by (auto simp: SettleContainerPayment_eq split: if_splits)
  have s0: "same_ledger c c0" using settlement_reads_ledger [OF r assms(2)] by simp
  have own: "length owner = Hash160Len"
    using r owners by (auto simp: settlement_reads_def split: option.splits)
  consider "c' = c0" | stats s ok c1 where "r_iterateBillingStats R cnr cid = Inr stats"
    "settle_loop E (due_payment R netmap cnr cid rate currEpoch) owner stats 0 c0 = Inr (ok, s, c1)"
    "c' = (let c2 = mark_payment cid (currEpoch - 1) ok c1 in if ok
       then Notify (BalPayment owner cid (currEpoch - 1) s) (put_int (paidKey cid) (currEpoch - 1) c2) else c2)"
    using assms(1) r by (auto simp: SettleContainerPayment_eq Let_def split: if_splits)
  then show ?thesis
  proof cases
    case 1
    then show ?thesis using s0 assms(2) by (simp add: same_ledger_def)
  next
    case 2
    have l: "balance_ok c1 \<and> supply_of c1 = supply_of c0 \<and> accounts_total c1 = accounts_total c0 \<and> (locks_ok c0 \<longrightarrow> locks_ok c1)"
      using settle_loop_balanced [OF 2(2) _ own] accounts [OF 2(1)] s0 assms(2) by (simp add: same_ledger_def)
    let ?c2 = "mark_payment cid (currEpoch - 1) ok c1"
    have m: "same_ledger c1 ?c2" using same_ledger_mark l by simp
    then have "same_ledger c1 (LocalPut (paidKey cid) v ?c2)" for v
      using same_ledger_trans [OF m same_ledger_updates(1)] l by (simp add: same_ledger_def)
    then have "same_ledger c1 c'" using m same_ledger_trans [OF _ same_ledger_Notify]
      by (cases ok) (simp_all add: 2(3) Let_def put_int_def)
    then show ?thesis using l s0 by (auto simp: same_ledger_def)
  qed
qed

end
