(* ===== verification/Sample.thy ===== *)
theory Sample
  imports Common
begin

text \<open>
  A concrete run-time environment and some addresses, on which the properties of the contracts are
  applied to concrete inputs.
\<close>

definition addrA :: bytes where "addrA = replicate 20 CHR ''A''"
definition addrB :: bytes where "addrB = replicate 20 CHR ''B''"
definition addrC :: bytes where "addrC = replicate 20 CHR ''C''"

definition keyA :: bytes where "keyA = CHR 0x02 # replicate 32 CHR ''A''"
definition keyB :: bytes where "keyB = CHR 0x03 # replicate 32 CHR ''B''"
definition keyC :: bytes where "keyC = CHR 0x03 # replicate 32 CHR ''C''"

definition cidX :: bytes where "cidX = replicate 32 CHR ''X''"
definition cidY :: bytes where "cidY = replicate 32 CHR ''Y''"

text \<open>Every witness is there, four keys form the committee, digests are constant-length stand-ins.\<close>

definition sample_env :: env where
  "sample_env = \<lparr>
     rt_witness = (\<lambda>_. True),
     rt_committee = [keyA, keyB, keyC],
     rt_committee_address = addrC,
     rt_alphabet_role = (\<lambda>_. [keyA, keyB, keyC]),
     rt_height = 100,
     rt_time = 5000,
     rt_caller = addrA,
     rt_self = addrB,
     rt_sender = addrA,
     rt_tx_hash = replicate 32 CHR ''t'',
     rt_signers = [addrA],
     rt_is_key = (\<lambda>k. length k = PublicKeyCompressedLen),
     rt_std_account = (\<lambda>k. take 20 (k @ replicate 20 CHR ''0'')),
     rt_multisig = (\<lambda>m ks. addrC),
     rt_sha256 = (\<lambda>b. take 32 (b @ replicate 32 CHR ''s'')),
     rt_ripemd160 = (\<lambda>b. take 20 (b @ replicate 20 CHR ''r'')),
     rt_verify_ecdsa = (\<lambda>m k s. s = take 4 k),
     rt_atoi16 = (\<lambda>s. Inr 0),
     rt_base58 = (\<lambda>b. b),
     rt_address_to_hash = (\<lambda>a. a),
     rt_hash_to_address = (\<lambda>a. a),
     rt_address_version = CHR ''5'',
     rt_is_contract = (\<lambda>_. False),
     rt_has_method = (\<lambda>_ _ _. False),
     rt_nns_hash = Some addrC,
     rt_json = (\<lambda>s. Inl (Fault ''invalid JSON'')),
     rt_burn_gas = (\<lambda>n. 0 < n),
     rt_gas = replicate 20 CHR ''g'',
     rt_neo = replicate 20 CHR ''n''\<rparr>"

lemma sample_env_sel [simp]:
  "rt_witness sample_env h" "rt_caller sample_env = addrA" "rt_self sample_env = addrB"
  "rt_multisig sample_env m ks = addrC" "rt_height sample_env = 100" "rt_time sample_env = 5000"
  "rt_committee sample_env = [keyA, keyB, keyC]" "rt_is_contract sample_env h = False"
  by (simp_all add: sample_env_def)

lemma sample_lengths [simp]: "length addrA = 20" "length addrB = 20" "length addrC = 20"
  "length keyA = 33" "length keyB = 33" "length keyC = 33" "length cidX = 32" "length cidY = 32"
  by (simp_all add: addrA_def addrB_def addrC_def keyA_def keyB_def keyC_def cidX_def cidY_def)

lemma sample_distinct [simp]: "addrA \<noteq> addrB" "addrB \<noteq> addrA" "addrA \<noteq> addrC" "addrC \<noteq> addrA" "addrB \<noteq> addrC" "addrC \<noteq> addrB"
  "keyA \<noteq> keyB" "keyB \<noteq> keyA" "keyA \<noteq> keyC" "keyC \<noteq> keyA" "keyB \<noteq> keyC" "keyC \<noteq> keyB" "cidX \<noteq> cidY" "cidY \<noteq> cidX"
  "addrA \<noteq> []" "addrB \<noteq> []" "addrC \<noteq> []"
  by (simp_all add: addrA_def addrB_def addrC_def keyA_def keyB_def keyC_def cidX_def cidY_def)

lemma sample_alphabet [simp]: "alphabet_ok sample_env"
  by (simp add: alphabet_ok_def witnessed_def CheckWitness_def AlphabetAddress_def Multiaddress_def)

lemma sample_witnessed [simp]: "witnessed sample_env h \<longleftrightarrow> length h = Hash160Len \<or> length h = PublicKeyCompressedLen"
  by (simp add: witnessed_def CheckWitness_def)

end
