(* ===== verification/Balance_Properties.thy ===== *)
theory Balance_Properties
  imports Settlement_Ledger Sample
begin

text \<open>
  What the Balance contract promises: a transfer is the update of an abstract ledger, minting, burning
  and locking move the supply and the accounts as they should, an epoch change returns expired locks, and
  in every reachable state the recorded circulation is the sum of all accounts and of what \<open>Lock\<close> has
  overwritten in accounts that held assets.
\<close>

section \<open>Calls and reachable states\<close>

datatype bal_call =
    CallTransfer bytes bytes int
  | CallTransferX bytes bytes int bytes
  | CallLock bytes bytes bytes int int
  | CallNewEpoch int
  | CallMint bytes int bytes
  | CallBurn bytes int bytes

definition bal_call :: "env \<Rightarrow> bal_call \<Rightarrow> balance \<Rightarrow> balance res" where
  "bal_call E call c = (case call of
     CallTransfer frm to amount \<Rightarrow> andThen (balance_Transfer E frm to amount c) (\<lambda>(_, c'). Inr c')
   | CallTransferX frm to amount details \<Rightarrow> andThen (balance_TransferX E frm to amount details c) (\<lambda>(_, c'). Inr c')
   | CallLock txDetails frm to amount until \<Rightarrow> balance_Lock E txDetails frm to amount until c
   | CallNewEpoch n \<Rightarrow> balance_NewEpoch E n c
   | CallMint to amount txDetails \<Rightarrow> balance_Mint E to amount txDetails c
   | CallBurn frm amount txDetails \<Rightarrow> balance_Burn E frm amount txDetails c)"

text \<open>The parameters the methods declare as \<open>interop.Hash160\<close> have twenty bytes.\<close>

definition call_typed :: "bal_call \<Rightarrow> bool" where
  "call_typed call = (case call of
     CallTransfer frm to amount \<Rightarrow> True
   | CallTransferX frm to amount details \<Rightarrow> length frm = Hash160Len \<and> length to = Hash160Len
   | CallLock txDetails frm to amount until \<Rightarrow> length frm = Hash160Len \<and> length to = Hash160Len
   | CallNewEpoch n \<Rightarrow> True
   | CallMint to amount txDetails \<Rightarrow> length to = Hash160Len
   | CallBurn frm amount txDetails \<Rightarrow> length frm = Hash160Len)"

text \<open>
  \<open>Lock\<close> stores a new lock account under the target without reading what is there: the assets of a
  target that held some are gone. How much a call destroys in this way:
\<close>

definition overwritten :: "bal_call \<Rightarrow> balance \<Rightarrow> int" where
  "overwritten call c = (case call of CallLock txDetails frm to amount until \<Rightarrow> bal_of c to | _ \<Rightarrow> 0)"

text \<open>A settlement reads wallets and billing statistics of accounts of twenty bytes.\<close>

definition readers_typed :: "readers \<Rightarrow> bool" where
  "readers_typed R \<longleftrightarrow>
     (\<forall>h i w x. r_owner R h i = Inr w \<longrightarrow> WalletToScriptHash w = Inr x \<longrightarrow> length x = Hash160Len) \<and>
     (\<forall>h i rs. r_iterateBillingStats R h i = Inr rs \<longrightarrow> (\<forall>r \<in> set rs. length (bs_Account r) = Hash160Len))"

text \<open>The reachable states, each with what the locks on the way to it have overwritten.\<close>

inductive bal_reach :: "balance \<Rightarrow> int \<Rightarrow> bool" where
  deployed: "bal_reach new_contract 0"
| called: "bal_reach c lost \<Longrightarrow> call_typed call \<Longrightarrow> bal_call E call c = Inr c' \<Longrightarrow>
    bal_reach c' (lost + overwritten call c)"
| settled: "bal_reach c lost \<Longrightarrow> readers_typed R \<Longrightarrow> SettleContainerPayment E resolver R cid c = Inr (b, c') \<Longrightarrow>
    bal_reach c' lost"

inductive_cases bal_reach_cases [elim]: "bal_reach c lost"

lemma new_balance_ok [simp]: "balance_ok new_contract" "locks_ok new_contract" "supply_of new_contract = 0"
    "accounts_total new_contract = 0" "bal_of new_contract a = 0"
  by (simp_all add: balance_ok_def locks_ok_def supply_of_def accounts_total_def lock_of_def bal_of_def)

definition balanced :: "balance \<Rightarrow> int \<Rightarrow> bool" where
  "balanced c lost \<longleftrightarrow> balance_ok c \<and> locks_ok c \<and> 0 \<le> lost \<and> supply_of c = accounts_total c + lost"

lemma locks_ok_transfer:
  "locks_ok c \<Longrightarrow> transfer E frm to amount ir details c = Inr (True, c') \<Longrightarrow> locks_ok c'"
  using transfer_lock_of [of E frm to amount ir details c c'] by (auto simp: locks_ok_def split: if_split_asm)

lemma balanced_transfer:
  assumes "balanced c lost" and run: "transfer E frm to amount ir details c = Inr (b, c')"
    and "b \<Longrightarrow> length frm = Hash160Len \<and> length to = Hash160Len"
  shows "balanced c' lost"
proof (cases b)
  case True
  have ok: "balance_ok c" using assms(1) by (simp add: balanced_def)
  note r = transfer_Inr [OF ok run]
  have "locks_ok c'" using locks_ok_transfer [of c] run True assms(1) by (simp add: balanced_def)
  then show ?thesis using r True assms by (simp add: balanced_def flow_def)
next
  case False
  have ok: "balance_ok c" using assms(1) by (simp add: balanced_def)
  have "c' = c" using transfer_Inr(7) [OF ok run False] .
  then show ?thesis using assms(1) by simp
qed

lemma transfer_hashes:
  "transfer E frm to amount False details c = Inr (True, c') \<Longrightarrow> length frm = Hash160Len \<and> length to = Hash160Len"
  by (auto simp: transfer_def canTransfer_def isUsableAddress_def split: if_split_asm)

lemma locks_ok_simps [simp]: "locks_ok (put_int circulation n c) = locks_ok c" "locks_ok (Notify e c) = locks_ok c"
  by (simp_all add: locks_ok_def)

lemma locks_ok_Mint: "locks_ok c \<Longrightarrow> balance_Mint E to amount txDetails c = Inr c' \<Longrightarrow> locks_ok c'"
  by (auto simp: balance_Mint_def split: if_split_asm prod.split_asm intro: locks_ok_transfer)

lemma locks_ok_Burn: "locks_ok c \<Longrightarrow> balance_Burn E frm amount txDetails c = Inr c' \<Longrightarrow> locks_ok c'"
  by (auto simp: balance_Burn_def split: if_split_asm prod.split_asm intro: locks_ok_transfer)

lemma locks_ok_Lock:
  assumes "locks_ok c" and "length frm = Hash160Len" and "balance_Lock E txDetails frm to amount until c = Inr c'"
  shows "locks_ok c'"
proof -
  let ?c1 = "SetSerialized (accKey to) \<lparr>Balance = 0, Until = until, Parent = frm\<rparr> c"
  have "locks_ok ?c1" using assms(1,2) by (auto simp: locks_ok_def)
  with assms(3) show ?thesis
    by (auto simp: balance_Lock_def Let_def split: if_split_asm prod.split_asm intro: locks_ok_transfer)
qed

lemma balanced_call:
  assumes "balanced c lost" and "call_typed call" and "bal_call E call c = Inr c'"
  shows "balanced c' (lost + overwritten call c)"
proof -
  have ok: "balance_ok c" "locks_ok c" using assms(1) by (simp_all add: balanced_def)
  note simps = call_typed_def overwritten_def balanced_def flow_def
  show ?thesis
  proof (cases call)
    case (CallTransfer frm to amount)
    with assms(3) obtain b where "transfer E frm to amount False [] c = Inr (b, c')"
      by (auto simp: bal_call_def balance_Transfer_def)
    with assms(1) CallTransfer show ?thesis using transfer_hashes
      by (cases b) (auto simp: overwritten_def intro: balanced_transfer)
  next
    case (CallTransferX frm to amount details)
    with assms(3) obtain b where "transfer E frm to amount True details c = Inr (b, c')"
      by (auto simp: bal_call_def balance_TransferX_def)
    with assms(1,2) CallTransferX show ?thesis by (auto simp: call_typed_def overwritten_def intro: balanced_transfer)
  next
    case (CallLock txDetails frm to amount until)
    with assms(3) have run: "balance_Lock E txDetails frm to amount until c = Inr c'" by (simp add: bal_call_def)
    show ?thesis using Lock_Inr [OF ok(1) run] locks_ok_Lock [OF ok(2) _ run] assms(1,2) CallLock
        bal_of_nonneg [OF ok(1), of to] by (simp add: simps)
  next
    case (CallNewEpoch n)
    then show ?thesis using NewEpoch_total [OF ok, of E n c'] assms(1,3) by (simp add: bal_call_def balanced_def overwritten_def)
  next
    case (CallMint to amount txDetails)
    with assms(3) have run: "balance_Mint E to amount txDetails c = Inr c'" by (simp add: bal_call_def)
    show ?thesis using Mint_Inr [OF ok(1) run] locks_ok_Mint [OF ok(2) run] assms(1,2) CallMint
      by (simp add: simps)
  next
    case (CallBurn frm amount txDetails)
    with assms(3) have run: "balance_Burn E frm amount txDetails c = Inr c'" by (simp add: bal_call_def)
    show ?thesis using Burn_Inr [OF ok(1) run] locks_ok_Burn [OF ok(2) run] assms(1,2) CallBurn
      by (simp add: simps)
  qed
qed

lemma bal_reach_balanced: "bal_reach c lost \<Longrightarrow> balanced c lost"
proof (induction rule: bal_reach.induct)
  case (settled c lost R E resolver cid b c')
  then show ?case using settlement_balanced [OF settled.hyps(3)] settled.hyps(2)
    by (auto simp: balanced_def readers_typed_def)
qed (auto simp: balanced_def [of new_contract] intro: balanced_call)

section \<open>The properties\<close>

text \<open>C1: in every state the Balance contract can reach by its methods, called with script hashes of
  the right length, every account holds a non-negative amount and the circulation recorded under
  \<open>MainnetGAS\<close> is the sum of all accounts plus the amounts that \<open>Lock\<close> has overwritten: no call creates
  assets except Mint and none destroys them except Burn, both moving the circulation by the same amount,
  and Lock, which drops what its target account held and leaves the circulation. As long as every lock
  goes to an empty account, nothing is lost and the circulation is the sum of all accounts. Settlements of
  container payments are among the calls.\<close>

theorem balance_supply_is_sum:
  assumes "bal_reach c lost"
  shows "0 \<le> lost \<and> (\<exists>s. balance_TotalSupply c = Inr s \<and> s = accounts_total c + lost \<and>
    (\<forall>a. \<exists>n \<ge> 0. balance_BalanceOf a c = Inr n))"
proof -
  have b: "balanced c lost" using assms by (rule bal_reach_balanced)
  then have ok: "balance_ok c" by (simp add: balanced_def)
  have "\<exists>n \<ge> 0. balance_BalanceOf a c = Inr n" for a
    using bal_of_nonneg [OF ok, of a] getAccount_ok [OF ok, of a]
    by (metis andThen.simps(2) balanceOf_def balance_BalanceOf_def)
  then show ?thesis using getSupply_ok [OF ok] b by (simp add: balance_TotalSupply_def balanced_def)
qed

text \<open>The loss is real: locking assets in an account that holds some succeeds, and drops them.\<close>

theorem Lock_drops_funds:
  assumes "balance_ok c" and "alphabet_ok E" and "length frm = Hash160Len" and "length to = Hash160Len"
    and "frm \<noteq> to" and "0 \<le> amount" and "amount \<le> bal_of c frm"
  shows "\<exists>c'. balance_Lock E txDetails frm to amount until c = Inr c' \<and> supply_of c' = supply_of c \<and>
    bal_of c' to = amount \<and> accounts_total c' = accounts_total c - bal_of c to"
proof -
  let ?c1 = "SetSerialized (accKey to) \<lparr>Balance = 0, Until = until, Parent = frm\<rparr> c"
  have ok1: "balance_ok ?c1" using assms(1) by (intro balance_ok_put) auto
  have may: "may_transfer E frm to amount True (bal_of ?c1)" using assms(3,5,7) by (simp add: may_transfer_def)
  obtain c2 where "transfer E frm to amount True (LockTransferDetails txDetails) ?c1 = Inr (True, c2)"
    using transfer_spec [OF ok1 assms(6), of E frm to True "LockTransferDetails txDetails"] may by metis
  then have run: "balance_Lock E txDetails frm to amount until c = Inr (Notify (BalLock txDetails frm to amount until) c2)"
    using assms(2) CheckAlphabetWitness_Inr [of E "()"] by (simp add: balance_Lock_def Let_def)
  show ?thesis using run Lock_Inr [OF assms(1) run] assms(3-5)
    by (simp add: ledger_transfer_def ledger_debit_def ledger_credit_def flow_def)
qed

lemma getAccount_put [simp]: "getAccount a (SetSerialized (accKey b) x c) = (if a = b then Inr x else getAccount a c)"
    "getAccount a (LocalDelete (accKey b) c) = (if a = b then Inr emptyAccount else getAccount a c)"
    "getAccount a (Notify e c) = getAccount a c" "getAccount a (put_int circulation n c) = getAccount a c"
    "getAccount a new_contract = Inr emptyAccount"
  by (simp_all add: getAccount_def)

definition minted :: balance where
  "minted = (case balance_Mint sample_env addrA 7 ''tx'' new_contract of Inr c \<Rightarrow> c | Inl e \<Rightarrow> new_contract)"

lemma minted_eq: "balance_Mint sample_env addrA 7 ''tx'' new_contract = Inr minted"
  by (simp add: minted_def balance_Mint_def transfer_def canTransfer_def debit_def credit_def
      emptyAccount_def getSupply_def)

text \<open>C4: a transfer by an account owner refines the pure ledger update. A negative amount is refused
  with an exception. Otherwise the method returns normally, and it returns true exactly when the
  recipient is a script hash, the sender is one that signed or is the calling contract, and its balance
  is at least the amount; then exactly the amount moves, and a refused transfer changes nothing at all.\<close>

theorem balance_Transfer_refines:
  assumes "balance_ok c"
  shows "(amount < 0 \<longrightarrow> balance_Transfer E frm to amount c = Inl (Panic ''negative amount'')) \<and>
    (0 \<le> amount \<longrightarrow> (\<exists>c'. balance_Transfer E frm to amount c = Inr
        (length to = Hash160Len \<and> length frm = Hash160Len \<and> (rt_witness E frm \<or> rt_caller E = frm)
           \<and> amount \<le> bal_of c frm, c') \<and> balance_ok c' \<and>
      (if length to = Hash160Len \<and> length frm = Hash160Len \<and> (rt_witness E frm \<or> rt_caller E = frm)
           \<and> amount \<le> bal_of c frm
       then bal_of c' = (bal_of c)(frm := bal_of c frm - amount,
               to := (if to = frm then bal_of c frm else bal_of c to + amount)) \<and>
            supply_of c' = supply_of c \<and> accounts_total c' = accounts_total c
       else c' = c)))"
proof (cases "amount < 0")
  case True
  then show ?thesis by (simp add: balance_Transfer_def transfer_negative)
next
  case False
  then have nonneg: "0 \<le> amount" by simp
  obtain c' where c': "transfer E frm to amount False [] c =
        Inr (may_transfer E frm to amount False (bal_of c), c')" "balance_ok c'" "supply_of c' = supply_of c"
      "bal_of c' = (if may_transfer E frm to amount False (bal_of c)
         then ledger_transfer frm to amount (bal_of c) else bal_of c)"
      "accounts_total c' = accounts_total c + (if may_transfer E frm to amount False (bal_of c)
         then flow to amount - flow frm amount else 0)"
      "\<not> may_transfer E frm to amount False (bal_of c) \<Longrightarrow> c' = c"
    by (rule transfer_spec [OF assms nonneg, where E = E and frm = frm and to = to and ir = False and details = "[]"])
      blast
  have may: "may_transfer E frm to amount False (bal_of c) \<longleftrightarrow> length to = Hash160Len \<and>
      length frm = Hash160Len \<and> (rt_witness E frm \<or> rt_caller E = frm) \<and> amount \<le> bal_of c frm"
    by (auto simp: may_transfer_def isUsableAddress_def)
  have eff: "ledger_transfer frm to amount l = l(frm := l frm - amount,
      to := (if to = frm then l frm else l to + amount))"
    if "length to = Hash160Len" "length frm = Hash160Len" for l
    using that by (auto simp: ledger_transfer_def ledger_debit_def ledger_credit_def fun_eq_iff)
  show ?thesis using False c' unfolding balance_Transfer_def may
    by (intro conjI impI exI [of _ c']) (auto simp: eff flow_def)
qed

theorem balance_Transfer_refines_witness:
  "\<exists>c'. balance_Transfer sample_env addrA addrB 3 minted = Inr (True, c') \<and>
     bal_of c' addrA = 4 \<and> bal_of c' addrB = 3 \<and> accounts_total c' = accounts_total minted"
proof -
  have ok: "balance_ok minted" by (rule Mint_Inr(3) [OF _ minted_eq]) simp
  have "bal_of minted = ledger_credit addrA 7 (bal_of new_contract)" by (rule Mint_Inr(5) [OF _ minted_eq]) simp
  then have "bal_of minted addrA = 7" "bal_of minted addrB = 0" by (simp_all add: ledger_credit_def)
  then show ?thesis using balance_Transfer_refines [OF ok, of 3 sample_env addrA addrB] by auto
qed

text \<open>Minting and burning, when they return, did so with the Alphabet's witness and a non-negative
  amount, moved the recorded circulation and exactly one account by that amount, and burning never takes
  more than the account holds or than is in circulation.\<close>

theorem balance_Mint_Burn_accounting:
  assumes "balance_ok c" and "length a = Hash160Len"
  shows "(balance_Mint E a amount txDetails c = Inr c' \<longrightarrow>
      alphabet_ok E \<and> 0 \<le> amount \<and> supply_of c' = supply_of c + amount \<and>
      bal_of c' = (bal_of c)(a := bal_of c a + amount)) \<and>
    (balance_Burn E a amount txDetails c = Inr c' \<longrightarrow>
      alphabet_ok E \<and> 0 \<le> amount \<and> amount \<le> bal_of c a \<and> amount \<le> supply_of c \<and>
      supply_of c' = supply_of c - amount \<and> bal_of c' = (bal_of c)(a := bal_of c a - amount))"
proof (intro conjI impI)
  assume run: "balance_Mint E a amount txDetails c = Inr c'"
  note r = Mint_Inr [OF assms(1) run]
  show "alphabet_ok E" "0 \<le> amount" "supply_of c' = supply_of c + amount"
    "bal_of c' = (bal_of c)(a := bal_of c a + amount)"
    using r assms(2) by (simp_all add: ledger_credit_def)
next
  assume run: "balance_Burn E a amount txDetails c = Inr c'"
  note r = Burn_Inr [OF assms(1) run]
  have "a \<noteq> []" using assms(2) by auto
  then show "alphabet_ok E" "0 \<le> amount" "amount \<le> bal_of c a" "amount \<le> supply_of c"
    "supply_of c' = supply_of c - amount" "bal_of c' = (bal_of c)(a := bal_of c a - amount)"
    using r assms(2) by (simp_all add: ledger_debit_def)
qed

theorem balance_Mint_Burn_accounting_witness:
  "supply_of minted = 7 \<and> bal_of minted addrA = 7 \<and> bal_of minted addrB = 0"
  using balance_Mint_Burn_accounting [of new_contract addrA sample_env 7 "''tx''" minted] minted_eq by simp







text \<open>Two mints, and a lock into the second account: its seven units are lost.\<close>

definition minted_both :: balance where
  "minted_both = (case balance_Mint sample_env addrB 7 ''tx'' minted of Inr c \<Rightarrow> c | Inl e \<Rightarrow> new_contract)"

definition lock_lost :: balance where
  "lock_lost = (case balance_Lock sample_env ''tx'' addrA addrB 5 10 minted_both of Inr c \<Rightarrow> c | Inl e \<Rightarrow> new_contract)"

lemma lock_lost_runs: "balance_Mint sample_env addrB 7 ''tx'' minted = Inr minted_both"
    "balance_Lock sample_env ''tx'' addrA addrB 5 10 minted_both = Inr lock_lost" "bal_of minted_both addrB = 7"
  by code_simp+

theorem balance_supply_is_sum_witness:
  "\<exists>s. balance_TotalSupply lock_lost = Inr s \<and> s = accounts_total lock_lost + 7 \<and>
     (\<forall>a. \<exists>n \<ge> 0. balance_BalanceOf a lock_lost = Inr n)"
proof -
  have "bal_reach minted (0 + overwritten (CallMint addrA 7 ''tx'') new_contract)"
    by (rule bal_reach.called [where E = sample_env]) (simp_all add: bal_reach.deployed call_typed_def bal_call_def minted_eq)
  then have "bal_reach minted 0" by (simp add: overwritten_def)
  then have "bal_reach minted_both (0 + overwritten (CallMint addrB 7 ''tx'') minted)"
    by (rule bal_reach.called [where E = sample_env]) (simp_all add: call_typed_def bal_call_def lock_lost_runs)
  then have "bal_reach minted_both 0" by (simp add: overwritten_def)
  then have "bal_reach lock_lost (0 + overwritten (CallLock ''tx'' addrA addrB 5 10) minted_both)"
    by (rule bal_reach.called [where E = sample_env]) (simp_all add: call_typed_def bal_call_def lock_lost_runs)
  then have "bal_reach lock_lost 7" by (simp add: overwritten_def lock_lost_runs)
  from balance_supply_is_sum [OF this] show ?thesis by simp
qed

end
