(* ===== verification/Netmap_State.thy ===== *)
theory Netmap_State
  imports Netmap_Contract Sample
begin

text \<open>
  What the Netmap contract keeps, as functions of its storage: the candidates, the nodes of every stored
  version, the current epoch and version; its well-formedness, and what the steps of an epoch change do
  to all of them.
\<close>

section \<open>Abstraction and invariant\<close>

definition cand_of :: "netmap \<Rightarrow> bytes \<Rightarrow> candidate option" where
  "cand_of c k = (case LocalGet (candKey k) c of Some (Ser (SCand x)) \<Rightarrow> Some x | _ \<Rightarrow> None)"

definition node_of :: "netmap \<Rightarrow> int \<Rightarrow> bytes \<Rightarrow> node2 option" where
  "node_of c ver k = (case LocalGet (nodeKey ver k) c of Some (Ser (SNode n)) \<Rightarrow> Some n | _ \<Rightarrow> None)"

definition nm_epoch :: "netmap \<Rightarrow> int" where "nm_epoch c = raw_int epochKey c"
definition nm_version :: "netmap \<Rightarrow> int" where "nm_version c = raw_int netmapVersionKey c"
definition nm_threshold :: "netmap \<Rightarrow> int" where "nm_threshold c = raw_int cleanupThresholdKey c"
definition nm_snapshots :: "netmap \<Rightarrow> int" where "nm_snapshots c = raw_int snapshotCountKey c"

definition nm_changed :: "netmap \<Rightarrow> bool" where
  "nm_changed c = (case LocalGet netmapChangedFlagKey c of Some (Raw b) \<Rightarrow> bytes_to_bool b | _ \<Rightarrow> False)"

definition stale :: "int \<Rightarrow> int \<Rightarrow> candidate \<Rightarrow> bool" where
  "stale th epoch x \<longleftrightarrow> 0 < th \<and> LastActiveEpoch x < epoch - th"

definition to_node :: "candidate \<Rightarrow> node2" where
  "to_node x = \<lparr>Addresses = Addresses x, Attributes = Attributes x, Key = Key x, State = State x\<rparr>"

definition netmap_ok :: "netmap \<Rightarrow> bool" where
  "netmap_ok c \<longleftrightarrow> contract_ok c \<and>
     (\<forall>k v. LocalGet (candKey k) c = Some v \<longrightarrow> (\<exists>x. v = Ser (SCand x))) \<and>
     (\<forall>k v. LocalGet (CHR ''p'' # k) c = Some v \<longrightarrow> (\<exists>n. v = Ser (SNode n)) \<and> 4 \<le> length k \<and>
        be_uint32 (take 4 k) \<le> nm_version c) \<and>
     (\<forall>k v. LocalGet (CHR ''e'' # k) c = Some v \<longrightarrow> k \<noteq> []) \<and>
     is_raw (LocalGet epochKey c) \<and> is_raw (LocalGet netmapVersionKey c) \<and>
     is_raw (LocalGet cleanupThresholdKey c) \<and> is_raw (LocalGet snapshotCountKey c) \<and>
     (LocalGet netmapChangedFlagKey c = None \<or> is_raw (LocalGet netmapChangedFlagKey c)) \<and>
     0 \<le> nm_version c \<and> 0 \<le> nm_snapshots c"

lemmas nm_key_defs = candKey_def nodeKey_def epochIndexKey_def epochToNetmapVersionKey_def subscriberKey_def
  snapshotCountKey_def epochKey_def cleanupThresholdKey_def netmapVersionKey_def netmapChangedFlagKey_def configPrefix_def

lemma netmap_reads:
  assumes "netmap_ok c"
  shows "netmap_Epoch c = Inr (nm_epoch c)" "netmap_NetworkMapVersion c = Inr (nm_version c)"
    "netmap_CleanupThreshold c = Inr (nm_threshold c)" "getSnapshotCount c = Inr (nm_snapshots c)"
    "netmapChangedFlag c = Inr (nm_changed c)"
  using assms by (auto simp: netmap_ok_def netmap_Epoch_def netmap_NetworkMapVersion_def netmap_CleanupThreshold_def
      getSnapshotCount_def nm_epoch_def nm_version_def nm_threshold_def nm_snapshots_def to_integer_raw
      netmapChangedFlag_def nm_changed_def to_bool_def is_raw_def)

lemma nm_candidate_simps [simp]: "nm_candidate (Ser (SCand x)) = Inr x" "nm_node (Ser (SNode n)) = Inr n"
    "nm_epoch_item (Ser (SEpochItem i)) = Inr i"
  by (simp_all add: nm_candidate_def nm_node_def nm_epoch_item_def)

lemma netmap_ok_node:
  "netmap_ok c \<Longrightarrow> LocalGet (CHR ''p'' # k) c = Some v \<Longrightarrow>
   (\<exists>n. v = Ser (SNode n)) \<and> 4 \<le> length k \<and> be_uint32 (take 4 k) \<le> nm_version c"
  by (simp add: netmap_ok_def)

lemma cand_entries:
  assumes "netmap_ok c" and "e \<in> set (LocalFind (candKey []) c)"
  shows "\<exists>pk x. e = (candKey pk, Ser (SCand x)) \<and> cand_of c pk = Some x"
proof -
  obtain k v where e: "e = (k, v)" by (cases e)
  have "contract_ok c" using assms(1) by (simp add: netmap_ok_def)
  with assms(2) e obtain pk where k: "k = candKey pk" "LocalGet k c = Some v"
    by (auto simp: LocalFind_iff prefix_def candKey_def)
  then obtain x where "v = Ser (SCand x)" using assms(1) by (auto simp: netmap_ok_def)
  with e k show ?thesis by (auto simp: cand_of_def)
qed

lemma cand_entry_iff:
  "netmap_ok c \<Longrightarrow> (candKey pk, Ser (SCand x)) \<in> set (LocalFind (candKey []) c) \<longleftrightarrow> cand_of c pk = Some x"
  by (auto simp: LocalFind_iff netmap_ok_def cand_of_def candKey_def split: option.splits sval.splits nm_ser.splits)

section \<open>Dropping stale candidates\<close>

lemma updateCandidateState_offline:
  "updateCandidateState k Offline c = Inr (Notify (NmUpdateStateSuccess k Offline)
     (put_bool netmapChangedFlagKey True (LocalDelete (candKey k) c)))"
  by (simp add: updateCandidateState_def setNetmapChangedFlag_def removeFromNetmap_def)

definition gone :: "int \<Rightarrow> int \<Rightarrow> (bytes \<times> nm_ser sval) list \<Rightarrow> bytes \<Rightarrow> bool" where
  "gone th ep kvs k \<longleftrightarrow> (\<exists>x. (k, Ser (SCand x)) \<in> set kvs \<and> stale th ep x)"

lemma candKey_inj [simp]: "candKey a = candKey b \<longleftrightarrow> a = b" "candKey a \<noteq> netmapChangedFlagKey"
  "netmapChangedFlagKey \<noteq> candKey a"
  by (simp_all add: candKey_def netmapChangedFlagKey_def)

lemma drop_stale_fold:
  assumes "\<And>e. e \<in> set kvs \<Longrightarrow> \<exists>pk x. e = (candKey pk, Ser (SCand x))"
  shows "\<exists>c'. foldR (drop_stale th ep) kvs (c, ch) = Inr (c', ch \<or> (\<exists>k. gone th ep kvs k)) \<and>
    (contract_ok c \<longrightarrow> contract_ok c') \<and>
    (\<forall>k. LocalGet k c' = (if gone th ep kvs k then None
       else if k = netmapChangedFlagKey \<and> (\<exists>k. gone th ep kvs k) then Some (Raw [CHR 0x01]) else LocalGet k c))"
  using assms
proof (induction kvs arbitrary: c ch)
  case Nil
  have "gone th ep [] = (\<lambda>k. False)" by (simp add: gone_def fun_eq_iff)
  then show ?case by simp
next
  case (Cons e kvs)
  obtain pk x where e: "e = (candKey pk, Ser (SCand x))" using Cons.prems [of e] by auto
  have flag: "\<not> gone th ep kvs netmapChangedFlagKey"
    using Cons.prems by (force simp: gone_def)
  show ?case
  proof (cases "stale th ep x")
    case False
    then have step: "foldR (drop_stale th ep) (e # kvs) (c, ch) = foldR (drop_stale th ep) kvs (c, ch)"
      using e by (auto simp: drop_stale_def stale_def)
    have same: "gone th ep (e # kvs) = gone th ep kvs" using False e by (auto simp: gone_def fun_eq_iff)
    show ?thesis unfolding step same by (rule Cons.IH) (use Cons.prems in simp)
  next
    case True
    let ?c = "Notify (NmUpdateStateSuccess pk Offline) (put_bool netmapChangedFlagKey True (LocalDelete (candKey pk) c))"
    have "drop_stale th ep e (c, ch) = Inr (?c, True)"
      using True e by (simp add: drop_stale_def stale_def updateCandidateState_offline candKey_def)
    moreover have gone: "gone th ep (e # kvs) k \<longleftrightarrow> k = candKey pk \<or> gone th ep kvs k" for k
      using True e by (auto simp: gone_def)
    ultimately show ?thesis using Cons.IH [of ?c True] Cons.prems flag by (fastforce simp: gone)
  qed
qed

section \<open>Storing a version\<close>

lemma nodeKey_inj [simp]: "nodeKey v a = nodeKey v b \<longleftrightarrow> a = b"
  by (simp add: nodeKey_def)

lemma put_node_fold:
  assumes "distinct (map fst kvs)" and "\<And>e. e \<in> set kvs \<Longrightarrow> \<exists>pk x. e = (candKey pk, Ser (SCand x))"
  shows "\<exists>c'. foldR (put_node ver) kvs c = Inr c' \<and> (contract_ok c \<longrightarrow> contract_ok c') \<and>
    (\<forall>pk x. (candKey pk, Ser (SCand x)) \<in> set kvs \<longrightarrow> LocalGet (nodeKey ver pk) c' = Some (Ser (SNode (to_node x)))) \<and>
    (\<forall>k. (\<forall>pk. k = nodeKey ver pk \<longrightarrow> candKey pk \<notin> fst ` set kvs) \<longrightarrow> LocalGet k c' = LocalGet k c)"
  using assms
proof (induction kvs arbitrary: c)
  case Nil
  then show ?case by simp
next
  case (Cons e kvs)
  obtain pk x where e: "e = (candKey pk, Ser (SCand x))" using Cons.prems(2) [of e] by auto
  let ?c = "LocalPut (nodeKey ver pk) (Ser (SNode (to_node x))) c"
  have step: "put_node ver e c = Inr ?c" using e by (simp add: put_node_def to_node_def candKey_def)
  obtain c' where c': "foldR (put_node ver) kvs ?c = Inr c'" "contract_ok ?c \<longrightarrow> contract_ok c'"
    "\<And>pk x. (candKey pk, Ser (SCand x)) \<in> set kvs \<Longrightarrow> LocalGet (nodeKey ver pk) c' = Some (Ser (SNode (to_node x)))"
    "\<And>k. (\<And>pk. k = nodeKey ver pk \<Longrightarrow> candKey pk \<notin> fst ` set kvs) \<Longrightarrow> LocalGet k c' = LocalGet k ?c"
    using Cons.IH [of ?c] Cons.prems by auto
  have new: "candKey pk \<notin> fst ` set kvs" using Cons.prems(1) e by simp
  have "LocalGet (nodeKey ver pk) c' = Some (Ser (SNode (to_node x)))" using c'(4) [of "nodeKey ver pk"] new by auto
  moreover have "LocalGet k c' = LocalGet k c"
    if "\<And>pk. k = nodeKey ver pk \<Longrightarrow> candKey pk \<notin> fst ` set (e # kvs)" for k
  proof -
    have "k \<noteq> nodeKey ver pk" using that [of pk] e by auto
    moreover have "LocalGet k c' = LocalGet k ?c" using that by (intro c'(4)) auto
    ultimately show ?thesis by simp
  qed
  ultimately show ?case using step c' e by auto
qed

section \<open>The new network map\<close>

text \<open>The candidates an epoch change removes.\<close>

definition stale_set :: "int \<Rightarrow> netmap \<Rightarrow> bytes set" where
  "stale_set epoch c = {k. \<exists>x. cand_of c k = Some x \<and> stale (nm_threshold c) epoch x}"

definition new_map :: "int \<Rightarrow> netmap \<Rightarrow> bool" where
  "new_map epoch c \<longleftrightarrow> nm_changed c \<or> stale_set epoch c \<noteq> {}"

definition kept :: "int \<Rightarrow> netmap \<Rightarrow> bytes \<Rightarrow> candidate option" where
  "kept epoch c k = (if k \<in> stale_set epoch c then None else cand_of c k)"

lemma nodeKey_prefix: "nodeKey ver k = CHR ''p'' # uint32_be ver @ k"
  by (simp add: nodeKey_def)

lemma fresh_version:
  assumes "netmap_ok c" and "nm_version c < ver" and "ver < 4294967296"
  shows "LocalGet (nodeKey ver k) c = None"
proof (rule ccontr)
  assume "LocalGet (nodeKey ver k) c \<noteq> None"
  then have "be_uint32 (take 4 (uint32_be ver @ k)) \<le> nm_version c"
    using netmap_ok_node [OF assms(1), of "uint32_be ver @ k"] by (auto simp: nodeKey_def)
  moreover have "0 \<le> nm_version c" using assms(1) by (simp add: netmap_ok_def)
  ultimately show False using assms(2,3) be_uint32_be [of ver] by simp
qed

lemma updateNetmap_spec:
  assumes ok: "netmap_ok c" and ver: "nm_version c + 1 < 4294967296"
  shows "\<exists>c'. updateNetmap epoch c = Inr c' \<and> contract_ok c' \<and>
    (if new_map epoch c then
       (\<forall>k. LocalGet (candKey k) c' = map_option (Ser \<circ> SCand) (kept epoch c k)) \<and>
       (\<forall>k. LocalGet (nodeKey (nm_version c + 1) k) c' = map_option (Ser \<circ> SNode \<circ> to_node) (kept epoch c k)) \<and>
       LocalGet netmapVersionKey c' = Some (Raw (int_bytes (nm_version c + 1))) \<and>
       LocalGet (epochToNetmapVersionKey epoch) c' = Some (Raw (int_bytes (nm_version c + 1))) \<and>
       LocalGet netmapChangedFlagKey c' = Some (Raw [CHR 0x00]) \<and>
       (\<forall>k. k \<notin> range candKey \<union> range (nodeKey (nm_version c + 1)) \<union>
            {netmapVersionKey, epochToNetmapVersionKey epoch, netmapChangedFlagKey} \<longrightarrow> LocalGet k c' = LocalGet k c)
     else \<forall>k. LocalGet k c' = LocalGet k c)"
proof -
  let ?kvs = "LocalFind (candKey []) c" and ?th = "nm_threshold c" and ?v = "nm_version c + 1"
  have cok: "contract_ok c" using ok by (simp add: netmap_ok_def)
  have gone: "gone ?th epoch ?kvs k \<longleftrightarrow> (\<exists>pk. k = candKey pk \<and> pk \<in> stale_set epoch c)" for k
    using cand_entries [OF ok] cand_entry_iff [OF ok] by (fastforce simp: gone_def stale_set_def)
  then have some: "(\<exists>k. gone ?th epoch ?kvs k) \<longleftrightarrow> stale_set epoch c \<noteq> {}" by auto
  have "\<exists>pk x. e = (candKey pk, Ser (SCand x))" if "e \<in> set ?kvs" for e using cand_entries [OF ok that] by blast
  from drop_stale_fold [of ?kvs ?th epoch c "nm_changed c", OF this]
  obtain c1 where c1': "foldR (drop_stale ?th epoch) ?kvs (c, nm_changed c) = Inr (c1, nm_changed c \<or> (\<exists>k. gone ?th epoch ?kvs k))"
    "contract_ok c \<longrightarrow> contract_ok c1"
    "\<forall>k. LocalGet k c1 = (if gone ?th epoch ?kvs k then None
       else if k = netmapChangedFlagKey \<and> (\<exists>k. gone ?th epoch ?kvs k) then Some (Raw [CHR 0x01]) else LocalGet k c)"
    by blast
  have c1: "foldR (drop_stale ?th epoch) ?kvs (c, nm_changed c) = Inr (c1, new_map epoch c)" "contract_ok c1"
    "LocalGet k c1 = (if \<exists>pk. k = candKey pk \<and> pk \<in> stale_set epoch c then None
       else if k = netmapChangedFlagKey \<and> stale_set epoch c \<noteq> {} then Some (Raw [CHR 0x01]) else LocalGet k c)" for k
    using c1' cok unfolding some new_map_def by (simp_all add: gone)
  show ?thesis
  proof (cases "new_map epoch c")
    case False
    then have "stale_set epoch c = {}" by (simp add: new_map_def)
    with c1(3) have "LocalGet k c1 = LocalGet k c" for k by simp
    then show ?thesis using False c1 by (simp add: updateNetmap_def netmap_reads [OF ok])
  next
    case True
    have cand1: "LocalGet (candKey k) c1 = map_option (Ser \<circ> SCand) (kept epoch c k)" for k
      using ok c1(3) [of "candKey k"]
      by (cases "LocalGet (candKey k) c") (fastforce simp: kept_def cand_of_def netmap_ok_def)+
    have vk: "LocalGet netmapVersionKey c1 = LocalGet netmapVersionKey c"
      using c1(3) [of netmapVersionKey] by (simp add: nm_key_defs)
    then have v1: "to_integer (LocalGet netmapVersionKey c1) = Inr (nm_version c)"
      using ok by (simp add: netmap_ok_def to_integer_raw nm_version_def)
    let ?c2 = "put_int netmapVersionKey ?v c1"
    have inc: "incNetmapVersion c1 = Inr (?v, ?c2)"
      using v1 vk ok by (auto simp: incNetmapVersion_def netmap_ok_def is_raw_def)
    have cok2: "contract_ok ?c2" using c1(2) by simp
    have cand2: "LocalGet (candKey k) ?c2 = map_option (Ser \<circ> SCand) (kept epoch c k)" for k
      using cand1 [of k] by (simp add: nm_key_defs)
    have ent: "(candKey k, v) \<in> set (LocalFind (candKey []) ?c2) \<longleftrightarrow> (\<exists>x. kept epoch c k = Some x \<and> v = Ser (SCand x))" for k v
      using cand2 [of k] by (auto simp: LocalFind_iff [OF cok2] candKey_def [of "[]"]) (simp_all add: candKey_def)
    have ents: "\<exists>pk x. e = (candKey pk, Ser (SCand x))" if mem: "e \<in> set (LocalFind (candKey []) ?c2)" for e
    proof -
      obtain k v where e: "e = (k, v)" by (cases e)
      then obtain pk where "k = candKey pk" using LocalFind_prefix [OF mem] by (auto simp: candKey_def prefix_def)
      then show ?thesis using mem ent [of pk v] e by auto
    qed
    obtain c3 where c3: "foldR (put_node ?v) (LocalFind (candKey []) ?c2) ?c2 = Inr c3" "contract_ok c3"
      "\<And>pk x. kept epoch c pk = Some x \<Longrightarrow> LocalGet (nodeKey ?v pk) c3 = Some (Ser (SNode (to_node x)))"
      "\<And>k. (\<And>pk. k = nodeKey ?v pk \<Longrightarrow> kept epoch c pk = None) \<Longrightarrow> LocalGet k c3 = LocalGet k ?c2"
    proof -
      have keys: "candKey pk \<in> fst ` set (LocalFind (candKey []) ?c2) \<longleftrightarrow> kept epoch c pk \<noteq> None" for pk
        using ent [of pk] by (force simp: image_iff)
      show thesis
        using put_node_fold [OF LocalFind_distinct [OF cok2] ents, of "candKey []" ?v ?c2] cok2 ent keys that by auto
    qed
    have node3: "LocalGet (nodeKey ?v k) c3 = map_option (Ser \<circ> SNode \<circ> to_node) (kept epoch c k)" for k
    proof (cases "kept epoch c k")
      case None
      then have "LocalGet (nodeKey ?v k) c3 = LocalGet (nodeKey ?v k) ?c2" by (intro c3(4)) auto
      also have "\<dots> = LocalGet (nodeKey ?v k) c" using c1(3) [of "nodeKey ?v k"] by (simp add: nm_key_defs)
      also have "\<dots> = None" using ok ver by (intro fresh_version) auto
      finally show ?thesis using None by simp
    qed (simp add: c3(3))
    have same3: "LocalGet k c3 = LocalGet k ?c2" if "k \<notin> range (nodeKey ?v)" for k using that by (intro c3(4)) auto
    let ?c' = "Notify (NmNewNetmap ?v) (setNetmapChangedFlag False (put_int (epochToNetmapVersionKey epoch) ?v c3))"
    have "updateNetmap epoch c = Inr ?c'"
      using True c1(1) inc c3(1) by (simp add: updateNetmap_def netmap_reads [OF ok])
    moreover have "contract_ok ?c'" using c3(2) by (simp add: setNetmapChangedFlag_def)
    moreover have "LocalGet (candKey k) ?c' = map_option (Ser \<circ> SCand) (kept epoch c k)" for k
      using same3 [of "candKey k"] cand2 [of k] by (auto simp: setNetmapChangedFlag_def nm_key_defs)
    moreover have "LocalGet (nodeKey ?v k) ?c' = map_option (Ser \<circ> SNode \<circ> to_node) (kept epoch c k)" for k
      using node3 [of k] by (simp add: setNetmapChangedFlag_def nm_key_defs)
    moreover have "LocalGet netmapVersionKey ?c' = Some (Raw (int_bytes ?v))"
      using same3 [of netmapVersionKey] by (auto simp: setNetmapChangedFlag_def nm_key_defs)
    moreover have "LocalGet k ?c' = LocalGet k c" if "k \<notin> range candKey \<union> range (nodeKey ?v) \<union>
            {netmapVersionKey, epochToNetmapVersionKey epoch, netmapChangedFlagKey}" for k
      using that same3 [of k] c1(3) [of k] by (auto simp: setNetmapChangedFlag_def)
    ultimately show ?thesis using True by (auto simp: setNetmapChangedFlag_def nm_key_defs)
  qed
qed

section \<open>Forgetting old versions\<close>

definition old_version :: "int \<Rightarrow> bytes \<Rightarrow> bool" where
  "old_version v k \<longleftrightarrow> (\<exists>r. k = CHR ''p'' # r \<and> be_uint32 (take 4 r) < v)"

lemma dropNetmaps_loop_spec:
  assumes "sorted_wrt (<) ks" and "\<And>k. k \<in> set ks \<Longrightarrow> \<exists>r. k = CHR ''p'' # r \<and> 4 \<le> length r"
  shows "\<exists>c'. dropNetmaps_loop v ks c = Inr c' \<and> (contract_ok c \<longrightarrow> contract_ok c') \<and>
    (\<forall>k. LocalGet k c' = (if k \<in> set ks \<and> old_version v k then None else LocalGet k c))"
  using assms
proof (induction ks arbitrary: c)
  case (Cons k ks)
  obtain r where r: "k = CHR ''p'' # r" "4 \<le> length r" using Cons.prems(2) [of k] by auto
  have sl: "slice 1 5 k = Inr (take 4 r)" using r by simp
  show ?case
  proof (cases "v \<le> be_uint32 (take 4 r)")
    case True
    have "\<not> old_version v k'" if mem: "k' \<in> set (k # ks)" for k'
    proof -
      obtain r' where r': "k' = CHR ''p'' # r'" "4 \<le> length r'" using Cons.prems(2) mem by blast
      have "r \<le> r'" using mem Cons.prems(1) r r' by auto
      then have "be_uint32 (take 4 r) \<le> be_uint32 (take 4 r')" using r r' by (intro be_uint32_mono take_le_take) auto
      then show ?thesis using True r' by (simp add: old_version_def)
    qed
    then show ?thesis using True sl by auto
  next
    case False
    have "sorted_wrt (<) ks" using Cons.prems(1) by simp
    from Cons.IH [OF this, of "LocalDelete k c"] Cons.prems(2)
    obtain c' where c': "dropNetmaps_loop v ks (LocalDelete k c) = Inr c'" "contract_ok (LocalDelete k c) \<longrightarrow> contract_ok c'"
      "\<forall>k'. LocalGet k' c' = (if k' \<in> set ks \<and> old_version v k' then None else LocalGet k' (LocalDelete k c))"
      by auto
    have "old_version v k" using False r by (simp add: old_version_def)
    then show ?thesis using False sl c' by auto
  qed
qed simp

lemma dropNetmaps_spec:
  assumes ok: "netmap_ok c"
  shows "\<exists>c'. dropNetmaps c = Inr c' \<and> contract_ok c' \<and>
    (\<forall>k. LocalGet k c' = (if old_version (nm_version c - nm_snapshots c) k then None else LocalGet k c))"
proof -
  let ?v = "nm_version c - nm_snapshots c"
  have cok: "contract_ok c" using ok by (simp add: netmap_ok_def)
  show ?thesis
  proof (cases "?v \<le> 0")
    case True
    have "\<not> old_version ?v k" for k
    proof
      assume "old_version ?v k"
      then obtain r where "be_uint32 (take 4 r) < ?v" by (auto simp: old_version_def)
      with True be_uint32_bounds(1) [of "take 4 r"] show False by linarith
    qed
    then show ?thesis using True cok by (simp add: dropNetmaps_def netmap_reads [OF ok])
  next
    case False
    let ?ks = "map fst (LocalFind ''p'' c)"
    have keys: "k \<in> set ?ks \<longleftrightarrow> prefix ''p'' k \<and> LocalGet k c \<noteq> None" for k
      using LocalFind_iff [OF cok, of k _ "''p''"] by force
    have "\<exists>r. k = CHR ''p'' # r \<and> 4 \<le> length r" if mem: "k \<in> set ?ks" for k
    proof -
      obtain r v where "k = CHR ''p'' # r" "LocalGet k c = Some v" using mem keys by (auto simp: prefix_def)
      then show ?thesis using netmap_ok_node [OF ok] by blast
    qed
    from dropNetmaps_loop_spec [OF LocalFind_sorted [OF cok, of "''p''"] this, where v = ?v and c = c] obtain c' where
      c': "dropNetmaps_loop (nm_version c - nm_snapshots c) ?ks c = Inr c'" "contract_ok c \<longrightarrow> contract_ok c'"
      "\<forall>k. LocalGet k c' = (if k \<in> set ?ks \<and> old_version ?v k then None else LocalGet k c)" by blast
    have "prefix ''p'' k" if "old_version ?v k" for k using that by (auto simp: old_version_def)
    then have "LocalGet k c' = (if old_version ?v k then None else LocalGet k c)" for k using c'(3) keys by auto
    then show ?thesis using False c' cok by (simp add: dropNetmaps_def netmap_reads [OF ok])
  qed
qed

section \<open>The invariant through an epoch change\<close>

lemma netmap_okI:
  assumes "contract_ok c"
    and "\<And>k v. LocalGet (candKey k) c = Some v \<Longrightarrow> \<exists>x. v = Ser (SCand x)"
    and "\<And>k v. LocalGet (CHR ''p'' # k) c = Some v \<Longrightarrow> (\<exists>n. v = Ser (SNode n)) \<and> 4 \<le> length k \<and>
        be_uint32 (take 4 k) \<le> nm_version c"
    and "\<And>k v. LocalGet (CHR ''e'' # k) c = Some v \<Longrightarrow> k \<noteq> []"
    and "is_raw (LocalGet epochKey c)" "is_raw (LocalGet netmapVersionKey c)"
     "is_raw (LocalGet cleanupThresholdKey c)" "is_raw (LocalGet snapshotCountKey c)"
     "LocalGet netmapChangedFlagKey c = None \<or> is_raw (LocalGet netmapChangedFlagKey c)"
     "0 \<le> nm_version c" "0 \<le> nm_snapshots c"
  shows "netmap_ok c"
  using assms unfolding netmap_ok_def by blast

text \<open>Updates of keys the invariant does not constrain, and of the counters.\<close>

lemma netmap_ok_frame:
  assumes ok: "netmap_ok c" and cok: "contract_ok d"
    and same: "\<And>k. \<not> free k \<Longrightarrow> LocalGet k d = LocalGet k c"
    and free: "\<And>k. free k \<Longrightarrow> \<not> prefix ''2'' k \<and> \<not> prefix ''p'' k \<and> \<not> prefix ''e'' k \<and>
      k \<notin> {epochKey, netmapVersionKey, cleanupThresholdKey, snapshotCountKey, netmapChangedFlagKey}"
  shows "netmap_ok d"
proof (rule netmap_okI [OF cok])
  have eq: "LocalGet k d = LocalGet k c" if "k \<in> {epochKey, netmapVersionKey, cleanupThresholdKey, snapshotCountKey,
      netmapChangedFlagKey} \<or> prefix ''2'' k \<or> prefix ''p'' k \<or> prefix ''e'' k" for k
    using free [of k] same [of k] that by blast
  have ints: "nm_version d = nm_version c" "nm_snapshots d = nm_snapshots c"
    by (auto simp: nm_version_def nm_snapshots_def intro!: raw_int_cong eq)
  note eqs = eq [of "candKey k" for k] eq [of "CHR ''p'' # k" for k] eq [of "CHR ''e'' # k" for k]
  show "LocalGet (candKey k) d = Some v \<Longrightarrow> \<exists>x. v = Ser (SCand x)" for k v
    using ok eqs(1) by (simp add: netmap_ok_def candKey_def)
  show "LocalGet (CHR ''p'' # k) d = Some v \<Longrightarrow> (\<exists>n. v = Ser (SNode n)) \<and> 4 \<le> length k \<and>
        be_uint32 (take 4 k) \<le> nm_version d" for k v
    using netmap_ok_node [OF ok] eqs(2) ints by simp
  show "LocalGet (CHR ''e'' # k) d = Some v \<Longrightarrow> k \<noteq> []" for k v
    using ok eqs(3) by (simp add: netmap_ok_def)
  have keys: "LocalGet k d = LocalGet k c" if "k \<in> {epochKey, netmapVersionKey, cleanupThresholdKey, snapshotCountKey,
      netmapChangedFlagKey}" for k by (rule eq) (use that in blast)
  show "is_raw (LocalGet epochKey d)" "is_raw (LocalGet netmapVersionKey d)" "is_raw (LocalGet cleanupThresholdKey d)"
    "is_raw (LocalGet snapshotCountKey d)" "0 \<le> nm_version d" "0 \<le> nm_snapshots d"
    "LocalGet netmapChangedFlagKey d = None \<or> is_raw (LocalGet netmapChangedFlagKey d)"
    using ok unfolding ints by (simp_all only: keys insertI1 insertI2) (simp_all add: netmap_ok_def)
qed

lemma updateNetmap_ok:
  assumes ok: "netmap_ok c" and ver: "nm_version c + 1 < 4294967296"
  obtains c' where "updateNetmap epoch c = Inr c'" "netmap_ok c'"
    "nm_version c' = nm_version c + (if new_map epoch c then 1 else 0)" "nm_snapshots c' = nm_snapshots c"
    "\<And>k. cand_of c' k = kept epoch c k"
    "\<And>k. new_map epoch c \<Longrightarrow> node_of c' (nm_version c + 1) k = map_option to_node (kept epoch c k)"
    "new_map epoch c \<Longrightarrow> LocalGet (epochToNetmapVersionKey epoch) c' = Some (Raw (int_bytes (nm_version c + 1)))"
    "nm_changed c' = (nm_changed c \<and> \<not> new_map epoch c)"
    "\<And>k. k \<notin> range candKey \<union> range (nodeKey (nm_version c + 1)) \<union>
        {netmapVersionKey, epochToNetmapVersionKey epoch, netmapChangedFlagKey} \<Longrightarrow> LocalGet k c' = LocalGet k c"
    "\<And>k. \<not> new_map epoch c \<Longrightarrow> LocalGet k c' = LocalGet k c"
proof -
  obtain c' where run: "updateNetmap epoch c = Inr c'" and cok: "contract_ok c'" and eff: "if new_map epoch c then
       (\<forall>k. LocalGet (candKey k) c' = map_option (Ser \<circ> SCand) (kept epoch c k)) \<and>
       (\<forall>k. LocalGet (nodeKey (nm_version c + 1) k) c' = map_option (Ser \<circ> SNode \<circ> to_node) (kept epoch c k)) \<and>
       LocalGet netmapVersionKey c' = Some (Raw (int_bytes (nm_version c + 1))) \<and>
       LocalGet (epochToNetmapVersionKey epoch) c' = Some (Raw (int_bytes (nm_version c + 1))) \<and>
       LocalGet netmapChangedFlagKey c' = Some (Raw [CHR 0x00]) \<and>
       (\<forall>k. k \<notin> range candKey \<union> range (nodeKey (nm_version c + 1)) \<union>
            {netmapVersionKey, epochToNetmapVersionKey epoch, netmapChangedFlagKey} \<longrightarrow> LocalGet k c' = LocalGet k c)
     else \<forall>k. LocalGet k c' = LocalGet k c"
    using updateNetmap_spec [OF assms, of epoch] by blast
  show thesis
  proof (cases "new_map epoch c")
    case False
    then have same: "LocalGet k c' = LocalGet k c" for k using eff by simp
    have "netmap_ok c'" by (rule netmap_ok_frame [OF ok cok, where free = "\<lambda>_. False"]) (simp_all add: same)
    moreover have "kept epoch c k = cand_of c k" for k using False by (simp add: kept_def new_map_def)
    ultimately show ?thesis using False same run
      by (intro that [of c'])
        (auto simp: nm_version_def nm_snapshots_def cand_of_def nm_changed_def raw_int_def)
  next
    case True
    note eff = eff [unfolded if_P [OF True]]
    have same: "LocalGet k c' = LocalGet k c" if "k \<notin> range candKey \<union> range (nodeKey (nm_version c + 1)) \<union>
            {netmapVersionKey, epochToNetmapVersionKey epoch, netmapChangedFlagKey}" for k using eff that by blast
    have keys: "LocalGet k c' = LocalGet k c" if "k \<in> {epochKey, cleanupThresholdKey, snapshotCountKey}" for k
      using that by (intro same) (auto simp: nm_key_defs)
    have v': "nm_version c' = nm_version c + 1" using eff by (simp add: nm_version_def raw_int_def)
    have s': "nm_snapshots c' = nm_snapshots c" using keys by (auto simp: nm_snapshots_def intro!: raw_int_cong)
    have v0: "0 \<le> nm_version c" using ok by (simp add: netmap_ok_def)
    have "netmap_ok c'"
    proof (rule netmap_okI [OF cok])
      show "LocalGet (candKey k) c' = Some v \<Longrightarrow> \<exists>x. v = Ser (SCand x)" for k v using eff by auto
      show "(\<exists>n. v = Ser (SNode n)) \<and> 4 \<le> length k \<and> be_uint32 (take 4 k) \<le> nm_version c'"
        if v: "LocalGet (CHR ''p'' # k) c' = Some v" for k v
      proof (cases "CHR ''p'' # k \<in> range (nodeKey (nm_version c + 1))")
        case True
        then obtain pk where pk: "CHR ''p'' # k = nodeKey (nm_version c + 1) pk" by auto
        then have "k = uint32_be (nm_version c + 1) @ pk" by (simp add: nodeKey_def)
        moreover have "map_option (Ser \<circ> SNode \<circ> to_node) (kept epoch c pk) = Some v" using v eff pk by simp
        ultimately show ?thesis using ver v0 be_uint32_be [of "nm_version c + 1"] v' by auto
      next
        case False
        have "LocalGet (CHR ''p'' # k) c' = LocalGet (CHR ''p'' # k) c"
          using False by (intro same) (auto simp: nm_key_defs)
        then show ?thesis using netmap_ok_node [OF ok, of k v] v v' by simp
      qed
      have "LocalGet (CHR ''e'' # k) c' = LocalGet (CHR ''e'' # k) c" for k
        by (intro same) (auto simp: nm_key_defs)
      then show "LocalGet (CHR ''e'' # k) c' = Some v \<Longrightarrow> k \<noteq> []" for k v
        using ok by (simp add: netmap_ok_def)
      show "is_raw (LocalGet epochKey c')" "is_raw (LocalGet cleanupThresholdKey c')" "is_raw (LocalGet snapshotCountKey c')"
        using ok keys by (simp_all add: netmap_ok_def)
      show "is_raw (LocalGet netmapVersionKey c')" "LocalGet netmapChangedFlagKey c' = None \<or> is_raw (LocalGet netmapChangedFlagKey c')"
        using eff by simp_all
      show "0 \<le> nm_version c'" "0 \<le> nm_snapshots c'" using ok v' s' by (simp_all add: netmap_ok_def)
    qed
    moreover have "cand_of c' k = kept epoch c k" for k
      using eff by (cases "kept epoch c k") (auto simp: cand_of_def)
    moreover have "node_of c' (nm_version c + 1) k = map_option to_node (kept epoch c k)" for k
      using eff by (cases "kept epoch c k") (auto simp: node_of_def)
    moreover have "\<not> nm_changed c'" using eff by (simp add: nm_changed_def bytes_to_bool_def)
    ultimately show ?thesis using True v' s' eff run same by (intro that [of c']) simp_all
  qed
qed

lemma dropNetmaps_ok:
  assumes ok: "netmap_ok c"
  obtains c' where "dropNetmaps c = Inr c'" "netmap_ok c'"
    "\<And>k. LocalGet k c' = (if old_version (nm_version c - nm_snapshots c) k then None else LocalGet k c)"
proof -
  obtain c' where c': "dropNetmaps c = Inr c'" "contract_ok c'"
    "\<And>k. LocalGet k c' = (if old_version (nm_version c - nm_snapshots c) k then None else LocalGet k c)"
    using dropNetmaps_spec [OF ok] by blast
  have same: "LocalGet k c' = LocalGet k c" if "\<not> prefix ''p'' k" for k
    using c'(3) [of k] that by (auto simp: old_version_def)
  have v': "nm_version c' = nm_version c" "nm_snapshots c' = nm_snapshots c"
    by (auto simp: nm_version_def nm_snapshots_def nm_key_defs intro!: raw_int_cong same)
  have "netmap_ok c'"
  proof (rule netmap_okI [OF c'(2)])
    show "(\<exists>n. v = Ser (SNode n)) \<and> 4 \<le> length k \<and> be_uint32 (take 4 k) \<le> nm_version c'"
      if "LocalGet (CHR ''p'' # k) c' = Some v" for k v
      using netmap_ok_node [OF ok, of k v] c'(3) [of "CHR ''p'' # k"] that v' by (auto split: if_split_asm)
  qed (use ok v' in \<open>simp_all add: netmap_ok_def same nm_key_defs\<close>)
  with c' show thesis using that by blast
qed

end
