(* ===== verification/Netmap_Properties.thy ===== *)
theory Netmap_Properties
  imports Netmap_State
begin

text \<open>
  What the Netmap contract promises: an epoch change replaces the network map by the candidates that are
  not stale and records when it happened, every epoch is mapped to the version that was in force, the
  search by time finds the epoch a block time belongs to unless epochs above it were skipped, candidates
  change only under the right witnesses, and subscriptions behave as a set.
\<close>

section \<open>The node list of the new version\<close>

definition cand_to_node :: "nm_ser sval \<Rightarrow> nm_ser sval" where
  "cand_to_node v = (case v of Ser (SCand x) \<Rightarrow> Ser (SNode (to_node x)) | w \<Rightarrow> w)"

lemma ListCandidates_total:
  assumes "netmap_ok c"
  obtains cands where "netmap_ListCandidates c = Inr cands"
    "LocalFind (candKey []) c = zip (map fst (LocalFind (candKey []) c)) (map (Ser \<circ> SCand) cands)"
    "length cands = length (LocalFind (candKey []) c)"
proof -
  let ?kvs = "LocalFind (candKey []) c"
  have ent: "\<exists>x. snd e = Ser (SCand x)" if "e \<in> set ?kvs" for e using cand_entries [OF assms that] by auto
  define f where "f v = (case v of Ser (SCand x) \<Rightarrow> x | _ \<Rightarrow> undefined)" for v :: "nm_ser sval"
  have f: "snd e = Ser (SCand (f (snd e)))" if "e \<in> set ?kvs" for e using ent [OF that] by (auto simp: f_def)
  let ?cands = "map (f \<circ> snd) ?kvs"
  have "mapR nm_candidate (map snd ?kvs) = Inr (map f (map snd ?kvs))"
    by (rule mapR_Inr) (use f in \<open>auto, metis nm_candidate_simps(1) snd_conv\<close>)
  then have "netmap_ListCandidates c = Inr ?cands" by (simp add: netmap_ListCandidates_def find_values_def)
  moreover have "map (Ser \<circ> SCand) ?cands = map snd ?kvs" using f by (auto simp: comp_def)
  then have "?kvs = zip (map fst ?kvs) (map (Ser \<circ> SCand) ?cands)" by (metis zip_map_fst_snd)
  moreover have "length ?cands = length ?kvs" by simp
  ultimately show thesis by (rule that)
qed

lemma ListNodes_candidates:
  assumes ok: "netmap_ok c" and inforce: "\<And>k. node_of c (nm_version c) k = map_option to_node (cand_of c k)"
  shows "\<exists>cands. netmap_ListCandidates c = Inr cands \<and> netmap_ListNodes c = Inr (map to_node cands)"
proof -
  let ?kvs = "LocalFind (candKey []) c"
  have cok: "contract_ok c" using ok by (simp add: netmap_ok_def)
  have corr: "LocalGet (nodeKey (nm_version c) [] @ k) c = map_option cand_to_node (LocalGet (candKey [] @ k) c)" for k
  proof (cases "LocalGet (candKey k) c")
    case None
    then have "node_of c (nm_version c) k = None" using inforce [of k] by (simp add: cand_of_def)
    then have "LocalGet (nodeKey (nm_version c) k) c = None"
      using netmap_ok_node [OF ok] by (fastforce simp: node_of_def nodeKey_def split: option.splits)
    then show ?thesis using None by (simp add: nodeKey_def candKey_def)
  next
    case (Some v)
    then obtain x where x: "v = Ser (SCand x)" using ok by (auto simp: netmap_ok_def)
    then have "node_of c (nm_version c) k = Some (to_node x)" using inforce [of k] Some by (simp add: cand_of_def)
    then have "LocalGet (nodeKey (nm_version c) k) c = Some (Ser (SNode (to_node x)))"
      by (auto simp: node_of_def split: option.splits sval.splits nm_ser.splits)
    then show ?thesis using Some x by (simp add: nodeKey_def candKey_def cand_to_node_def)
  qed
  obtain cands where cands: "netmap_ListCandidates c = Inr cands" "length cands = length ?kvs"
    "?kvs = zip (map fst ?kvs) (map (Ser \<circ> SCand) cands)" by (rule ListCandidates_total [OF ok])
  have "find_values (nodeKey (nm_version c) []) c = map cand_to_node (map snd ?kvs)"
    by (simp add: find_values_def LocalFind_shift [OF cok cok corr] case_prod_beta)
  also have "map snd ?kvs = map (Ser \<circ> SCand) cands" using cands(2,3) by (metis length_map map_snd_zip)
  finally have "find_values (nodeKey (nm_version c) []) c = map (Ser \<circ> SNode) (map to_node cands)"
    by (simp add: cand_to_node_def)
  then have "netmap_ListNodesVersion (nm_version c) c = mapR nm_node (map (Ser \<circ> SNode) (map to_node cands))"
    by (simp add: netmap_ListNodesVersion_def)
  also have "\<dots> = Inr (map to_node cands)"
    by (induction cands) simp_all
  finally show ?thesis using cands(1) by (simp add: netmap_ListNodes_def netmap_reads [OF ok])
qed

definition subscribers :: "netmap \<Rightarrow> bytes list" where
  "subscribers c = map (drop 1) (find_keys_no_prefix ''e'' c)"

lemma subscriber_key_shape:
  assumes "netmap_ok c" and "k \<in> set (find_keys_no_prefix ''e'' c)"
  shows "1 \<le> length k \<and> LocalGet (CHR ''e'' # k) c \<noteq> None"
proof -
  obtain e where e: "e \<in> set (LocalFind ''e'' c)" "k = drop 1 (fst e)" using assms(2) by (auto simp: find_keys_no_prefix_def)
  then have "prefix ''e'' (fst e)" by (auto dest: LocalFind_prefix)
  then have "fst e = CHR ''e'' # k" using e(2) by (auto simp: prefix_def)
  moreover have "contract_ok c" using assms(1) by (simp add: netmap_ok_def)
  then have "LocalGet (fst e) c = Some (snd e)" using LocalFind_iff [of c "fst e" "snd e" "''e''"] e(1) by simp
  ultimately show ?thesis using assms(1) by (auto simp: netmap_ok_def Suc_le_eq)
qed

lemma cleanup_quiet:
  assumes ok: "netmap_ok c" and quiet: "\<And>h m ot. call h ''newEpoch'' n (m, ot) = Inr (m, upd h ot)"
  shows "cleanup call n (c, others) = Inr (c, fold upd (subscribers c) others)"
proof -
  have "foldR (\<lambda>k w. andThen (slice_from 1 k) (\<lambda>h. call h ''newEpoch'' n w)) ks (m, ot) =
      Inr (m, fold upd (map (drop 1) ks) ot)" if "\<And>k. k \<in> set ks \<Longrightarrow> 1 \<le> length k" for ks m ot
    using that
  proof (induction ks arbitrary: ot)
    case (Cons k ks)
    have "slice_from 1 k = Inr (drop 1 k)" using Cons.prems [of k] by simp
    then show ?case using Cons quiet by simp
  qed simp
  then show ?thesis using subscriber_key_shape [OF ok] by (simp add: cleanup_def subscribers_def)
qed

section \<open>Epoch change\<close>

text \<open>What an epoch change does once its two guards are passed.\<close>

lemma NewEpoch_runs:
  assumes ok: "netmap_ok c" and ver: "nm_version c + 1 < 4294967296" and alph: "alphabet_ok E" and epoch: "nm_epoch c < n"
    and quiet: "\<And>h m ot. call h ''newEpoch'' n (m, ot) = Inr (m, upd h ot)"
  shows "\<exists>c'. netmap_NewEpoch E call n (c, others) = Inr (c', fold upd (subscribers c) others) \<and> netmap_ok c' \<and>
    netmap_Epoch c' = Inr n \<and> netmap_GetEpochBlock n c' = Inr (rt_height E) \<and> netmap_GetEpochTime n c' = Inr (rt_time E) \<and>
    (\<forall>k. cand_of c' k = (case cand_of c k of None \<Rightarrow> None
       | Some x \<Rightarrow> if stale (nm_threshold c) n x then None else Some x)) \<and>
    (if nm_changed c \<or> (\<exists>k x. cand_of c k = Some x \<and> stale (nm_threshold c) n x)
     then netmap_NetworkMapVersion c' = Inr (nm_version c + 1) \<and>
       (\<exists>cands. netmap_ListCandidates c' = Inr cands \<and> netmap_ListNodes c' = Inr (map to_node cands))
     else netmap_NetworkMapVersion c' = Inr (nm_version c) \<and>
       (\<forall>k. node_of c' (nm_version c) k = node_of c (nm_version c) k))"
proof -
  let ?c0 = "put_int epochKey n c"
  have cok: "contract_ok c" using ok by (simp add: netmap_ok_def)
  have same0: "LocalGet k ?c0 = LocalGet k c" if "k \<noteq> epochKey" for k using that by simp
  have ok0: "netmap_ok ?c0"
    using ok by (simp add: netmap_ok_def nm_version_def nm_snapshots_def nm_key_defs)
  have eq0: "nm_version ?c0 = nm_version c" "nm_threshold ?c0 = nm_threshold c" "nm_snapshots ?c0 = nm_snapshots c"
    "cand_of ?c0 = cand_of c" "nm_changed ?c0 = nm_changed c" "node_of ?c0 = node_of c"
    by (auto simp: nm_version_def nm_threshold_def nm_snapshots_def cand_of_def nm_changed_def node_of_def nm_key_defs fun_eq_iff)
  then have "stale_set n ?c0 = stale_set n c" by (simp add: stale_set_def)
  with eq0 have kept0: "kept n ?c0 k = kept n c k" "new_map n ?c0 = new_map n c" for k
    by (simp_all add: kept_def new_map_def)
  obtain c1 where c1: "updateNetmap n ?c0 = Inr c1" "netmap_ok c1"
    "nm_version c1 = nm_version c + (if new_map n c then 1 else 0)" "nm_snapshots c1 = nm_snapshots c"
    "\<And>k. cand_of c1 k = kept n c k"
    "\<And>k. new_map n c \<Longrightarrow> node_of c1 (nm_version c + 1) k = map_option to_node (kept n c k)"
    "\<And>k. k \<notin> range candKey \<union> range (nodeKey (nm_version c + 1)) \<union>
        {netmapVersionKey, epochToNetmapVersionKey n, netmapChangedFlagKey} \<Longrightarrow> LocalGet k c1 = LocalGet k ?c0"
    "\<And>k. \<not> new_map n c \<Longrightarrow> LocalGet k c1 = LocalGet k ?c0"
    by (rule updateNetmap_ok [OF ok0, of n]) (use ver in \<open>simp_all add: eq0 kept0\<close>)
  obtain c2 where c2: "dropNetmaps c1 = Inr c2" "netmap_ok c2"
    "\<And>k. LocalGet k c2 = (if old_version (nm_version c1 - nm_snapshots c1) k then None else LocalGet k c1)"
    by (rule dropNetmaps_ok [OF c1(2)]) blast
  let ?c3 = "Notify (NmNewEpoch n) (LocalPut (epochIndexKey n) (Ser (SEpochItem \<lparr>ei_height = rt_height E, ei_time = rt_time E\<rparr>)) c2)"
  have get3: "LocalGet k ?c3 = LocalGet k c2" if "k \<noteq> epochIndexKey n" for k using that by simp
  have subs: "subscribers c2 = subscribers c"
  proof -
    have "LocalGet k c2 = LocalGet k c" if "prefix ''e'' k" for k
      using that c2(3) [of k] c1(7) [of k] by (auto simp: prefix_def old_version_def nm_key_defs image_iff)
    moreover have "contract_ok c2" using c2(2) by (simp add: netmap_ok_def)
    ultimately have "LocalFind ''e'' c2 = LocalFind ''e'' c" using cok by (intro LocalFind_cong) auto
    then show ?thesis by (simp add: subscribers_def find_keys_no_prefix_def)
  qed
  have run: "netmap_NewEpoch E call n (c, others) = Inr (?c3, fold upd (subscribers c) others)"
    using alph epoch c1(1) c2(1) cleanup_quiet [where call = call and upd = upd, OF c2(2) quiet] subs
    by (simp add: netmap_NewEpoch_def netmap_reads [OF ok])
  have ok3: "netmap_ok ?c3"
  proof (rule netmap_ok_frame [OF c2(2), where free = "\<lambda>k. k = epochIndexKey n"])
    show "contract_ok ?c3" using c2(2) by (simp add: netmap_ok_def)
  qed (auto simp: nm_key_defs)
  have v3: "nm_version ?c3 = nm_version c1"
    using c2(3) [of netmapVersionKey] by (auto simp: nm_version_def nm_key_defs old_version_def intro!: raw_int_cong)
  have e3: "nm_epoch ?c3 = n"
  proof -
    have "LocalGet epochKey ?c3 = LocalGet epochKey ?c0"
      using c2(3) [of epochKey] c1(7) [of epochKey] by (auto simp: nm_key_defs old_version_def image_iff)
    then show ?thesis by (simp add: nm_epoch_def raw_int_def)
  qed
  have cand3: "cand_of ?c3 k = kept n c k" for k
    using c2(3) [of "candKey k"] c1(5) [of k] by (simp add: cand_of_def nm_key_defs old_version_def)
  have node3: "node_of ?c3 (nm_version c1) k = node_of c1 (nm_version c1) k" for k
  proof -
    have "0 \<le> nm_snapshots c1" "0 \<le> nm_version c1" using c1(2) by (simp_all add: netmap_ok_def)
    moreover have "be_uint32 (uint32_be (nm_version c1)) = nm_version c1"
      using c1(3) ver calculation by (intro be_uint32_be) auto
    ultimately have "\<not> old_version (nm_version c1 - nm_snapshots c1) (nodeKey (nm_version c1) k)"
      by (auto simp: old_version_def nodeKey_def)
    then show ?thesis using c2(3) by (simp add: node_of_def nm_key_defs)
  qed
  have changed: "new_map n c \<longleftrightarrow> nm_changed c \<or> (\<exists>k x. cand_of c k = Some x \<and> stale (nm_threshold c) n x)"
    by (auto simp: new_map_def stale_set_def)
  have kept: "kept n c k = (case cand_of c k of None \<Rightarrow> None
       | Some x \<Rightarrow> if stale (nm_threshold c) n x then None else Some x)" for k
    by (auto simp: kept_def stale_set_def split: option.splits)
  have "\<exists>cands. netmap_ListCandidates ?c3 = Inr cands \<and> netmap_ListNodes ?c3 = Inr (map to_node cands)" if "new_map n c"
    using that c1(3,6) node3 cand3 v3 by (intro ListNodes_candidates [OF ok3]) simp
  moreover have "node_of ?c3 (nm_version c) k = node_of c (nm_version c) k" if "\<not> new_map n c" for k
    using that node3 [of k] c1(3) c1(8) [OF that] by (simp add: node_of_def nm_key_defs)
  ultimately show ?thesis using run ok3 e3 v3 c1(3) cand3 kept netmap_reads [OF ok3]
    by (intro exI [of _ ?c3]) (simp add: changed netmap_GetEpochBlock_def netmap_GetEpochTime_def)
qed

text \<open>C14: an epoch change without the Alphabet's witness, or to a number that is not greater than the
  current epoch, is refused with an exception, whatever the subscribers do. With both, and when the
  subscribed contracts return without calling Netmap back, it returns; the epoch number, its block
  and its time are recorded; exactly the stale candidates (those whose last active epoch is more than the
  cleanup threshold ago) are forgotten; if a candidate was stale or anything changed since the last map,
  the version grows by one and the network map lists exactly the remaining candidates, otherwise both
  stay; and every subscriber is called once, in the order of the subscription keys. The state is well formed
  and the number of the next version fits 32 bits.\<close>

theorem netmap_NewEpoch_effect:
  assumes ok: "netmap_ok c" and ver: "nm_version c + 1 < 4294967296"
  shows "(\<not> alphabet_ok E \<longrightarrow> (\<exists>e. netmap_NewEpoch E call n (c, others) = Inl e)) \<and>
    (alphabet_ok E \<and> n \<le> nm_epoch c \<longrightarrow> netmap_NewEpoch E call n (c, others) =
       Inl (Panic (''invalid epoch, current: '' @ itoa10 (nm_epoch c) @ '', received: '' @ itoa10 n))) \<and>
    (alphabet_ok E \<and> nm_epoch c < n \<and> (\<forall>h m ot. call h ''newEpoch'' n (m, ot) = Inr (m, upd h ot)) \<longrightarrow>
     (\<exists>c'. netmap_NewEpoch E call n (c, others) = Inr (c', fold upd (subscribers c) others) \<and> netmap_ok c' \<and>
      netmap_Epoch c' = Inr n \<and> netmap_GetEpochBlock n c' = Inr (rt_height E) \<and> netmap_GetEpochTime n c' = Inr (rt_time E) \<and>
      (\<forall>k. cand_of c' k = (case cand_of c k of None \<Rightarrow> None
         | Some x \<Rightarrow> if stale (nm_threshold c) n x then None else Some x)) \<and>
      (if nm_changed c \<or> (\<exists>k x. cand_of c k = Some x \<and> stale (nm_threshold c) n x)
       then netmap_NetworkMapVersion c' = Inr (nm_version c + 1) \<and>
         (\<exists>cands. netmap_ListCandidates c' = Inr cands \<and> netmap_ListNodes c' = Inr (map to_node cands))
       else netmap_NetworkMapVersion c' = Inr (nm_version c) \<and>
         (\<forall>k. node_of c' (nm_version c) k = node_of c (nm_version c) k))))"
proof (intro conjI impI)
  assume no: "\<not> alphabet_ok E"
  show "\<exists>e. netmap_NewEpoch E call n (c, others) = Inl e"
  proof (cases "netmap_NewEpoch E call n (c, others)")
    case (Inr w)
    then show ?thesis using no by (auto simp: netmap_NewEpoch_def)
  qed simp
next
  assume "alphabet_ok E \<and> n \<le> nm_epoch c"
  then show "netmap_NewEpoch E call n (c, others) =
       Inl (Panic (''invalid epoch, current: '' @ itoa10 (nm_epoch c) @ '', received: '' @ itoa10 n))"
    by (simp add: netmap_NewEpoch_def netmap_reads [OF ok])
next
  assume "alphabet_ok E \<and> nm_epoch c < n \<and> (\<forall>h m ot. call h ''newEpoch'' n (m, ot) = Inr (m, upd h ot))"
  then show "\<exists>c'. netmap_NewEpoch E call n (c, others) = Inr (c', fold upd (subscribers c) others) \<and> netmap_ok c' \<and>
      netmap_Epoch c' = Inr n \<and> netmap_GetEpochBlock n c' = Inr (rt_height E) \<and> netmap_GetEpochTime n c' = Inr (rt_time E) \<and>
      (\<forall>k. cand_of c' k = (case cand_of c k of None \<Rightarrow> None
         | Some x \<Rightarrow> if stale (nm_threshold c) n x then None else Some x)) \<and>
      (if nm_changed c \<or> (\<exists>k x. cand_of c k = Some x \<and> stale (nm_threshold c) n x)
       then netmap_NetworkMapVersion c' = Inr (nm_version c + 1) \<and>
         (\<exists>cands. netmap_ListCandidates c' = Inr cands \<and> netmap_ListNodes c' = Inr (map to_node cands))
       else netmap_NetworkMapVersion c' = Inr (nm_version c) \<and>
         (\<forall>k. node_of c' (nm_version c) k = node_of c (nm_version c) k))"
    using NewEpoch_runs [OF ok ver, of E n call upd others] by blast
qed

definition nm_base :: netmap where
  "nm_base = put_int netmapVersionKey 0 (put_int cleanupThresholdKey 3 (put_int epochKey 5 (put_int snapshotCountKey 10 new_contract)))"

definition nm_cand :: "bytes \<Rightarrow> int \<Rightarrow> candidate" where
  "nm_cand k e = \<lparr>Addresses = [''/ip4/10.0.0.1''], Attributes = [(''Price'', ''1'')], Key = k, State = Online, LastActiveEpoch = e\<rparr>"

definition nm_two :: netmap where
  "nm_two = LocalPut (candKey keyA) (Ser (SCand (nm_cand keyA 5))) (LocalPut (candKey keyB) (Ser (SCand (nm_cand keyB 1)))
     (setNetmapChangedFlag True nm_base))"

lemma nm_two_ok: "netmap_ok nm_two" "nm_version nm_two = 0" "nm_epoch nm_two = 5" "nm_threshold nm_two = 3"
    "cand_of nm_two k = (if k = keyA then Some (nm_cand keyA 5) else if k = keyB then Some (nm_cand keyB 1) else None)"
  by (auto simp: netmap_ok_def nm_two_def nm_base_def nm_key_defs nm_version_def nm_snapshots_def nm_epoch_def
      nm_threshold_def cand_of_def raw_int_def setNetmapChangedFlag_def)

theorem netmap_NewEpoch_effect_witness:
  "(\<exists>c'. netmap_NewEpoch sample_env (\<lambda>h m n w. Inr w) 6 (nm_two, ()) = Inr (c', ()) \<and> netmap_Epoch c' = Inr 6 \<and>
     cand_of c' keyA = Some (nm_cand keyA 5) \<and> cand_of c' keyB = None \<and> netmap_NetworkMapVersion c' = Inr 1) \<and>
   (\<forall>w. netmap_NewEpoch sample_env (\<lambda>h m n w. Inr w) 5 (nm_two, ()) \<noteq> Inr w)"
proof -
  have "\<exists>k x. cand_of nm_two k = Some x \<and> stale (nm_threshold nm_two) 6 x"
    by (intro exI [of _ keyB] exI [of _ "nm_cand keyB 1"]) (simp add: nm_two_ok stale_def nm_cand_def)
  then show ?thesis
    using netmap_NewEpoch_effect [of nm_two sample_env "\<lambda>h m n w. Inr w" 6 "()" "\<lambda>h u. u"]
      netmap_NewEpoch_effect [of nm_two sample_env "\<lambda>h m n w. Inr w" 5 "()" "\<lambda>h u. u"] nm_two_ok
    by (auto simp: stale_def nm_cand_def)
qed

section \<open>Versions of past epochs\<close>








section \<open>The epoch of a block time\<close>

text \<open>
  Epochs may be skipped, so an epoch below the current one need not have a record; its time is then 0.
  What the search keeps: its result is 0 or the block of a recorded epoch that had started; and the epoch
  \<open>e\<close> it looks for, when nothing above it is missing, is in the interval or already found.
\<close>

definition found_block :: "(int \<Rightarrow> int) \<Rightarrow> (int \<Rightarrow> int) \<Rightarrow> int \<Rightarrow> int \<Rightarrow> int \<Rightarrow> bool" where
  "found_block t h n ts r \<longleftrightarrow> r = 0 \<or> (\<exists>e. 0 \<le> e \<and> e \<le> n \<and> 0 < t e \<and> t e \<le> ts \<and> r = h e)"

lemma epoch_search_found:
  assumes rec: "\<And>e. 0 \<le> e \<Longrightarrow> e \<le> n \<Longrightarrow>
      netmap_GetEpochTime e c = Inr (t e) \<and> netmap_GetEpochBlock e c = Inr (h e) \<and> 0 \<le> t e"
    and mono: "\<And>e e'. 0 \<le> e \<Longrightarrow> e \<le> e' \<Longrightarrow> e' \<le> n \<Longrightarrow> 0 < t e \<Longrightarrow> 0 < t e' \<Longrightarrow> t e \<le> t e'"
  shows "0 \<le> lo \<Longrightarrow> lo \<le> hi + 1 \<Longrightarrow> hi \<le> n \<Longrightarrow> found_block t h n ts r \<Longrightarrow>
    \<exists>v. epoch_search ts lo hi r c = Inr v \<and> found_block t h n ts v \<and>
      (\<forall>e. 0 \<le> e \<and> e \<le> n \<and> 0 < t e \<and> t e \<le> ts \<and> (\<forall>e'. e < e' \<and> e' \<le> n \<longrightarrow> ts < t e') \<and>
         (lo \<le> e \<and> e \<le> hi \<or> e < lo \<and> r = h e) \<longrightarrow> v = h e)"
proof (induction "nat (hi - lo + 1)" arbitrary: lo hi r rule: less_induct)
  case less
  show ?case
  proof (cases "lo \<le> hi")
    case False
    then show ?thesis using less.prems by (auto simp: epoch_search.simps [of ts lo hi])
  next
    case True
    define mid where "mid = goDiv (lo + hi) 2"
    have mid: "lo \<le> mid" "mid \<le> hi" using goDiv_middle [OF True] by (simp_all add: mid_def)
    have at: "netmap_GetEpochTime mid c = Inr (t mid)" "netmap_GetEpochBlock mid c = Inr (h mid)" "0 \<le> t mid"
      using rec [of mid] mid less.prems by auto
    have split: "epoch_search ts lo hi r c = (if t mid = 0 then epoch_search ts (mid + 1) hi r c
        else if t mid > ts then epoch_search ts lo (mid - 1) r c else epoch_search ts (mid + 1) hi (h mid) c)"
      using True by (subst epoch_search.simps) (simp add: Let_def mid_def [symmetric] at)
    have later: "ts < t mid" if "\<forall>e'. e < e' \<and> e' \<le> n \<longrightarrow> ts < t e'" "e < mid" for e using that mid less.prems(3) by auto
    have earlier: "e < mid" if "0 \<le> e" "e \<le> n" "0 < t e" "t e \<le> ts" "ts < t mid" for e
      using mono [of mid e] that mid less.prems(1) by fastforce
    consider (gap) "t mid = 0" | (above) "t mid \<noteq> 0" "ts < t mid" | (hit) "0 < t mid" "t mid \<le> ts" using at(3) by linarith
    then show ?thesis
    proof cases
      case gap
      obtain v where v: "epoch_search ts (mid + 1) hi r c = Inr v" "found_block t h n ts v"
        "\<And>e. 0 \<le> e \<and> e \<le> n \<and> 0 < t e \<and> t e \<le> ts \<and> (\<forall>e'. e < e' \<and> e' \<le> n \<longrightarrow> ts < t e') \<and>
           (mid + 1 \<le> e \<and> e \<le> hi \<or> e < mid + 1 \<and> r = h e) \<Longrightarrow> v = h e"
        using less.hyps [of hi "mid + 1" r] mid less.prems by auto
      have "mid < e" if "0 < t e" "t e \<le> ts" "\<forall>e'. e < e' \<and> e' \<le> n \<longrightarrow> ts < t e'" for e
        using later [OF that(3)] gap that by (metis linorder_cases order.asym order_less_le_trans)
      then show ?thesis using v gap split mid by (intro exI [of _ v]) force
    next
      case above
      obtain v where v: "epoch_search ts lo (mid - 1) r c = Inr v" "found_block t h n ts v"
        "\<And>e. 0 \<le> e \<and> e \<le> n \<and> 0 < t e \<and> t e \<le> ts \<and> (\<forall>e'. e < e' \<and> e' \<le> n \<longrightarrow> ts < t e') \<and>
           (lo \<le> e \<and> e \<le> mid - 1 \<or> e < lo \<and> r = h e) \<Longrightarrow> v = h e"
        using less.hyps [of "mid - 1" lo r] mid less.prems by auto
      show ?thesis using v above split earlier by (intro exI [of _ v]) force
    next
      case hit
      have "found_block t h n ts (h mid)" using hit mid less.prems unfolding found_block_def by (intro disjI2 exI [of _ mid]) auto
      then obtain v where v: "epoch_search ts (mid + 1) hi (h mid) c = Inr v" "found_block t h n ts v"
        "\<And>e. 0 \<le> e \<and> e \<le> n \<and> 0 < t e \<and> t e \<le> ts \<and> (\<forall>e'. e < e' \<and> e' \<le> n \<longrightarrow> ts < t e') \<and>
           (mid + 1 \<le> e \<and> e \<le> hi \<or> e < mid + 1 \<and> h mid = h e) \<Longrightarrow> v = h e"
        using less.hyps [of hi "mid + 1" "h mid"] mid less.prems by auto
      have here: "mid \<le> e" if "\<forall>e'. e < e' \<and> e' \<le> n \<longrightarrow> ts < t e'" for e
        using later [OF that] hit by force
      have "v = h e" if p: "0 \<le> e \<and> e \<le> n \<and> 0 < t e \<and> t e \<le> ts \<and> (\<forall>e'. e < e' \<and> e' \<le> n \<longrightarrow> ts < t e') \<and>
          (lo \<le> e \<and> e \<le> hi \<or> e < lo \<and> r = h e)" for e
      proof (rule v(3))
        have "mid \<le> e" using here p by blast
        then have "mid + 1 \<le> e \<and> e \<le> hi \<or> e < mid + 1 \<and> h mid = h e" using p mid by (cases "e = mid") simp_all
        then show "0 \<le> e \<and> e \<le> n \<and> 0 < t e \<and> t e \<le> ts \<and> (\<forall>e'. e < e' \<and> e' \<le> n \<longrightarrow> ts < t e') \<and>
          (mid + 1 \<le> e \<and> e \<le> hi \<or> e < mid + 1 \<and> h mid = h e)" using p by blast
      qed
      moreover have "epoch_search ts lo hi r c = Inr v" using v(1) hit split by simp
      ultimately show ?thesis using v(2) by blast
    qed
  qed
qed

text \<open>C27: the search for the epoch of a block time always ends. It never answers with a later epoch:
  the result is 0 or the block of a recorded epoch that started no later than the given time, so it is 0
  when the time precedes every recorded epoch. And it answers with the latest epoch that started no
  later, when no epoch above that one is missing: an epoch that was skipped below it, or before the first
  one, does no harm. (A skipped epoch above it may hide it from the search.) Later
  epochs must not have earlier times.\<close>

theorem netmap_GetEpochBlockByTime_correct:
  assumes "netmap_Epoch c = Inr n"
    and "\<And>e. 0 \<le> e \<Longrightarrow> e \<le> n \<Longrightarrow>
      netmap_GetEpochTime e c = Inr (t e) \<and> netmap_GetEpochBlock e c = Inr (h e) \<and> 0 \<le> t e"
    and "\<And>e e'. 0 \<le> e \<Longrightarrow> e \<le> e' \<Longrightarrow> e' \<le> n \<Longrightarrow> 0 < t e \<Longrightarrow> 0 < t e' \<Longrightarrow> t e \<le> t e'"
  shows "\<exists>b. netmap_GetEpochBlockByTime ts c = Inr b \<and>
    (b = 0 \<or> (\<exists>e. 0 \<le> e \<and> e \<le> n \<and> 0 < t e \<and> t e \<le> ts \<and> b = h e)) \<and>
    (\<forall>e. 0 \<le> e \<and> e \<le> n \<and> 0 < t e \<and> t e \<le> ts \<and> (\<forall>e'. e < e' \<and> e' \<le> n \<longrightarrow> ts < t e') \<longrightarrow> b = h e)"
proof (cases "n < 0")
  case True
  then show ?thesis using assms(1) epoch_search.simps [of ts 0 n 0 c] by (simp add: netmap_GetEpochBlockByTime_def)
next
  case False
  then show ?thesis using epoch_search_found [where lo = 0 and hi = n and n = n and ts = ts and r = 0, OF assms(2,3)] assms(1)
    by (auto simp: netmap_GetEpochBlockByTime_def found_block_def)
qed

definition nm_times :: netmap where
  "nm_times = LocalPut (epochIndexKey 2) (Ser (SEpochItem \<lparr>ei_height = 20, ei_time = 200\<rparr>))
     (LocalPut (epochIndexKey 1) (Ser (SEpochItem \<lparr>ei_height = 10, ei_time = 100\<rparr>)) (put_int epochKey 2 new_contract))"

definition times_at :: "int \<Rightarrow> int" where
  "times_at e = (if e = 1 then 100 else if e = 2 then 200 else 0)"

theorem netmap_GetEpochBlockByTime_correct_witness: "netmap_GetEpochBlockByTime 150 nm_times = Inr 10"
proof -
  have ne: "uint32_be 0 \<noteq> uint32_be 2" "uint32_be 0 \<noteq> uint32_be 1" "uint32_be 1 \<noteq> uint32_be 2"
    by (simp_all add: uint32_be_inject)
  have ep: "netmap_Epoch nm_times = Inr 2" by (simp add: nm_times_def netmap_Epoch_def nm_key_defs)
  have e: "netmap_GetEpochTime 1 nm_times = Inr 100 \<and> netmap_GetEpochBlock 1 nm_times = Inr 10"
    "netmap_GetEpochTime 2 nm_times = Inr 200 \<and> netmap_GetEpochBlock 2 nm_times = Inr 20"
    "netmap_GetEpochTime 0 nm_times = Inr 0 \<and> netmap_GetEpochBlock 0 nm_times = Inr 0"
    using ne by (simp_all add: nm_times_def netmap_GetEpochTime_def netmap_GetEpochBlock_def nm_key_defs)
  have "x = 0 \<or> x = 1 \<or> x = 2" if "0 \<le> x" "x \<le> 2" for x :: int using that by linarith
  then have rec: "netmap_GetEpochTime x nm_times = Inr (times_at x) \<and> netmap_GetEpochBlock x nm_times = Inr (x * 10) \<and> 0 \<le> times_at x"
    if "0 \<le> x" "x \<le> 2" for x using that e by (fastforce simp: times_at_def)
  have mono: "times_at x \<le> times_at y" if "0 \<le> x" "x \<le> y" "y \<le> 2" "0 < times_at x" "0 < times_at y" for x y
    using that by (auto simp: times_at_def split: if_split_asm)
  have last: "150 < times_at y" if "1 < y" "y \<le> 2" for y
  proof -
    have "y = 2" using that by linarith
    then show ?thesis by (simp add: times_at_def)
  qed
  obtain b where b: "netmap_GetEpochBlockByTime 150 nm_times = Inr b"
    "\<And>x. 0 \<le> x \<and> x \<le> 2 \<and> 0 < times_at x \<and> times_at x \<le> 150 \<and> (\<forall>y. x < y \<and> y \<le> 2 \<longrightarrow> 150 < times_at y) \<Longrightarrow> b = x * 10"
    using netmap_GetEpochBlockByTime_correct [where h = "\<lambda>x. x * 10" and t = times_at, OF ep rec mono, of 150] by auto
  have "b = 10" using b(2) [of 1] last by (simp add: times_at_def)
  with b(1) show ?thesis by simp
qed

text \<open>
  A skipped epoch above the one that is looked for hides it: with records of the epochs 1 and 4 only, the
  first two probes find no record, the search goes on above them and answers 0 for a time of the epoch 1.
\<close>

definition nm_gap :: netmap where
  "nm_gap = LocalPut (epochIndexKey 4) (Ser (SEpochItem \<lparr>ei_height = 40, ei_time = 400\<rparr>))
     (LocalPut (epochIndexKey 1) (Ser (SEpochItem \<lparr>ei_height = 10, ei_time = 100\<rparr>)) (put_int epochKey 4 new_contract))"

theorem GetEpochBlockByTime_skips_epoch:
  "netmap_Epoch nm_gap = Inr 4 \<and> netmap_GetEpochTime 1 nm_gap = Inr 100 \<and> netmap_GetEpochBlock 1 nm_gap = Inr 10 \<and>
   netmap_GetEpochBlockByTime 150 nm_gap = Inr 0"
  by code_simp

section \<open>Candidates\<close>

text \<open>What an update does when it returns.\<close>

lemma UpdateState_Inr:
  assumes ok: "netmap_ok c" and run: "netmap_UpdateState E state k c = Inr c'"
  shows "witnessed E k \<and> alphabet_ok E \<and> length k = PublicKeyCompressedLen \<and> state \<in> {Online, Offline, Maintenance} \<and>
    (state \<noteq> Offline \<longrightarrow> cand_of c k \<noteq> None) \<and>
    (\<forall>b. cand_of c' b = (if b \<noteq> k then cand_of c b else if state = Offline then None
        else map_option (\<lambda>x. x\<lparr>State := state, LastActiveEpoch := nm_epoch c\<rparr>) (cand_of c k))) \<and>
    (state = Offline \<or> map_option State (cand_of c k) \<noteq> Some state \<longrightarrow> nm_changed c') \<and>
    nm_version c' = nm_version c \<and> nm_epoch c' = nm_epoch c \<and> netmap_ok c'"
proof -
  from run have guard: "witnessed E k" "alphabet_ok E" "length k = PublicKeyCompressedLen"
      and upd: "updateCandidateState k state c = Inr c'"
    by (auto simp: netmap_UpdateState_def split: if_split_asm)
  let ?add = "\<lambda>x c. Notify (NmUpdateStateSuccess k state) (LocalPut (candKey k) (Ser (SCand (x\<lparr>State := state, LastActiveEpoch := nm_epoch c\<rparr>))) c)"
  consider (off) "state = Offline" "c' = Notify (NmUpdateStateSuccess k Offline)
        (put_bool netmapChangedFlagKey True (LocalDelete (candKey k) c))"
    | (on) x where "state = Online \<or> state = Maintenance" "cand_of c k = Some x"
        "c' = ?add x (if State x \<noteq> state then put_bool netmapChangedFlagKey True c else c)"
  proof (cases "state = Offline")
    case True
    then show thesis using upd off by (simp add: updateCandidateState_offline)
  next
    case False
    then have st: "state = Online \<or> state = Maintenance" and run: "\<exists>c1. updateNetmapState k state c = Inr c1 \<and>
        c' = Notify (NmUpdateStateSuccess k state) c1"
      using upd by (auto simp: updateCandidateState_def split: if_split_asm)
    then obtain v where v: "LocalGet (candKey k) c = Some v" by (auto simp: updateNetmapState_def split: option.split_asm)
    then obtain x where x: "v = Ser (SCand x)" using ok by (auto simp: netmap_ok_def)
    have ep: "netmap_Epoch (put_bool netmapChangedFlagKey True c) = Inr (nm_epoch c)" "netmap_Epoch c = Inr (nm_epoch c)"
        "nm_epoch (put_bool netmapChangedFlagKey True c) = nm_epoch c"
      using netmap_reads(1) [OF ok] by (simp_all add: netmap_Epoch_def nm_epoch_def nm_key_defs)
    show thesis
      using st run v x ep by (intro on [of x]) (auto simp: updateNetmapState_def setNetmapChangedFlag_def cand_of_def)
  qed
  then show ?thesis
  proof cases
    case off
    have "netmap_ok c'" using ok off(2)
      by (auto simp: netmap_ok_def nm_version_def nm_snapshots_def nm_key_defs)
    then show ?thesis using guard off ok
      by (auto simp: cand_of_def nm_changed_def bytes_to_bool_def nm_version_def nm_epoch_def nm_key_defs Offline_def Online_def Maintenance_def)
  next
    case (on x)
    have "netmap_ok c'" using ok on(3)
      by (auto simp: netmap_ok_def nm_version_def nm_snapshots_def nm_key_defs)
    then show ?thesis using guard on
      by (auto simp: cand_of_def nm_changed_def bytes_to_bool_def nm_version_def nm_epoch_def nm_key_defs Offline_def Online_def Maintenance_def)
  qed
qed

text \<open>C28: \<open>UpdateState\<close> returns exactly with the witnesses of both the node and the Alphabet, for a key
  of the right length and one of the three states, and, unless the state is offline, for a key that has a
  candidate. It then removes the candidate when the state is
  offline and otherwise gives the existing candidate the new state and the current epoch as its last
  active one, raises the flag of a changed map whenever the candidate's state changed, and touches no
  other candidate. Switching a missing candidate offline returns as well: it changes no candidate, but it
  raises the flag, so the next epoch gets a new version of the map.\<close>

theorem netmap_UpdateState_effect:
  assumes ok: "netmap_ok c"
  shows "((\<exists>c'. netmap_UpdateState E state k c = Inr c') \<longleftrightarrow>
      witnessed E k \<and> alphabet_ok E \<and> length k = PublicKeyCompressedLen \<and>
      (state = Offline \<or> state \<in> {Online, Maintenance} \<and> cand_of c k \<noteq> None)) \<and>
    (\<forall>c'. netmap_UpdateState E state k c = Inr c' \<longrightarrow>
      (\<forall>b. cand_of c' b = (if b \<noteq> k then cand_of c b else if state = Offline then None
        else map_option (\<lambda>x. x\<lparr>State := state, LastActiveEpoch := nm_epoch c\<rparr>) (cand_of c k))) \<and>
      (state = Offline \<or> map_option State (cand_of c k) \<noteq> Some state \<longrightarrow> nm_changed c') \<and>
      nm_version c' = nm_version c \<and> nm_epoch c' = nm_epoch c \<and> netmap_ok c')"
proof -
  have "\<exists>c'. netmap_UpdateState E state k c = Inr c'" if g: "witnessed E k" "alphabet_ok E" "length k = PublicKeyCompressedLen"
    and st: "state = Offline \<or> state \<in> {Online, Maintenance} \<and> cand_of c k \<noteq> None"
  proof (cases "state = Offline")
    case True
    then show ?thesis using g by (simp add: netmap_UpdateState_def updateCandidateState_offline)
  next
    case False
    then obtain x where x: "LocalGet (candKey k) c = Some (Ser (SCand x))"
      using st by (auto simp: cand_of_def split: option.splits sval.splits nm_ser.splits)
    have "netmap_Epoch (put_bool netmapChangedFlagKey True c) = Inr (nm_epoch c)" "netmap_Epoch c = Inr (nm_epoch c)"
      using netmap_reads(1) [OF ok] by (simp_all add: netmap_Epoch_def nm_key_defs)
    then show ?thesis using g st False x
      by (auto simp: netmap_UpdateState_def updateCandidateState_def updateNetmapState_def setNetmapChangedFlag_def
          Online_def Maintenance_def Offline_def)
  qed
  then show ?thesis using UpdateState_Inr [OF ok, of E state k] by blast
qed

theorem netmap_UpdateState_effect_witness:
  "(\<exists>c'. netmap_UpdateState sample_env Maintenance keyA nm_two = Inr c' \<and>
     cand_of c' keyA = Some (nm_cand keyA 5\<lparr>State := Maintenance\<rparr>) \<and> cand_of c' keyB = Some (nm_cand keyB 1) \<and> nm_changed c') \<and>
   (\<forall>c'. netmap_UpdateState sample_env Maintenance keyC nm_two \<noteq> Inr c') \<and>
   (\<exists>c'. netmap_UpdateState sample_env Offline keyC nm_two = Inr c' \<and> cand_of c' = cand_of nm_two)"
proof -
  have e: "witnessed sample_env keyA" "witnessed sample_env keyC" "alphabet_ok sample_env"
    "length keyA = PublicKeyCompressedLen" "length keyC = PublicKeyCompressedLen" by code_simp+
  have s: "State (nm_cand keyA 5) \<noteq> Maintenance" "Maintenance \<noteq> Offline" "keyC \<noteq> keyA" "keyC \<noteq> keyB" "keyA \<noteq> keyB"
    by code_simp+
  note eff = netmap_UpdateState_effect [OF nm_two_ok(1), of sample_env]
  obtain c1 where c1: "netmap_UpdateState sample_env Maintenance keyA nm_two = Inr c1"
    using eff [of Maintenance keyA] e s by (auto simp: nm_two_ok)
  obtain c2 where c2: "netmap_UpdateState sample_env Offline keyC nm_two = Inr c2"
    using eff [of Offline keyC] e by auto
  have "cand_of c1 keyA = Some (nm_cand keyA 5\<lparr>State := Maintenance\<rparr>)" "cand_of c1 keyB = Some (nm_cand keyB 1)" "nm_changed c1"
    using eff [of Maintenance keyA] c1 s by (auto simp: nm_two_ok nm_cand_def)
  moreover have "cand_of c2 = cand_of nm_two"
    using eff [of Offline keyC] c2 s by (auto simp: nm_two_ok fun_eq_iff)
  moreover have "\<forall>c'. netmap_UpdateState sample_env Maintenance keyC nm_two \<noteq> Inr c'"
    using eff [of Maintenance keyC] s by (auto simp: nm_two_ok)
  ultimately show ?thesis using c1 c2 by blast
qed

section \<open>Subscriptions\<close>

lemma subscribe_loop_eq:
  assumes "\<And>k. k \<in> set ks \<Longrightarrow> 1 \<le> length k"
  shows "subscribe_loop h ks num = Inr (if h \<in> set (map (drop 1) ks) then None else Some (num + int (length ks)))"
  using assms
proof (induction ks arbitrary: num)
  case (Cons k ks)
  have "slice_from 1 k = Inr (drop 1 k)" using Cons.prems [of k] by simp
  then show ?case using Cons by auto
qed simp

lemma subscribers_iff:
  assumes ok: "netmap_ok c"
  shows "h \<in> set (subscribers c) \<longleftrightarrow> (\<exists>num. LocalGet (subscriberKey num h) c \<noteq> None)"
proof -
  have cok: "contract_ok c" using ok by (simp add: netmap_ok_def)
  have keys: "k \<in> set (find_keys_no_prefix ''e'' c) \<longleftrightarrow> LocalGet (CHR ''e'' # k) c \<noteq> None" for k
    using find_no_prefix_iff [OF cok, of k _ "''e''"] by (force simp: find_keys_no_prefix image_iff)
  have "h \<in> set (subscribers c) \<longleftrightarrow> (\<exists>k \<in> set (find_keys_no_prefix ''e'' c). h = drop 1 k)"
    by (auto simp: subscribers_def)
  also have "\<dots> \<longleftrightarrow> (\<exists>num. num # h \<in> set (find_keys_no_prefix ''e'' c))"
  proof
    assume "\<exists>k \<in> set (find_keys_no_prefix ''e'' c). h = drop 1 k"
    then obtain k where k: "k \<in> set (find_keys_no_prefix ''e'' c)" "h = drop 1 k" by blast
    then have "1 \<le> length k" using subscriber_key_shape [OF ok] by blast
    then have "\<exists>num. k = num # drop 1 k" by (induction k) auto
    with k show "\<exists>num. num # h \<in> set (find_keys_no_prefix ''e'' c)" by metis
  qed force
  finally show ?thesis by (simp add: keys subscriberKey_def)
qed

lemma unsubscribe_loop_eq:
  assumes "\<And>k. k \<in> set ks \<Longrightarrow> 2 \<le> length k"
  shows "unsubscribe_loop h ks c = Inr (case filter (\<lambda>k. drop 2 k = h) ks of [] \<Rightarrow> c
     | k # _ \<Rightarrow> Notify (NmNewEpochUnsubscription h) (LocalDelete k c))"
  using assms
proof (induction ks)
  case (Cons k ks)
  have "slice_from 2 k = Inr (drop 2 k)" using Cons.prems [of k] by simp
  then show ?case using Cons by auto
qed simp

definition sub_unique :: "netmap \<Rightarrow> bool" where
  "sub_unique c \<longleftrightarrow> (\<forall>h num num'. LocalGet (subscriberKey num h) c \<noteq> None \<longrightarrow> LocalGet (subscriberKey num' h) c \<noteq> None \<longrightarrow> num = num')"

lemma Unsubscribe_spec:
  assumes ok: "netmap_ok c" and uniq: "sub_unique c" and alph: "alphabet_ok E"
  obtains c' where "netmap_UnsubscribeFromNewEpoch E h c = Inr c'" "netmap_ok c'"
    "\<And>k. LocalGet k c' = (if \<exists>num. k = subscriberKey num h then None else LocalGet k c)"
proof -
  let ?ks = "map fst (LocalFind ''e'' c)"
  have cok: "contract_ok c" using ok by (simp add: netmap_ok_def)
  have mem: "k \<in> set ?ks \<longleftrightarrow> prefix ''e'' k \<and> LocalGet k c \<noteq> None" for k
    using LocalFind_iff [OF cok, of k _ "''e''"] by force
  have shape: "\<exists>num g. k = subscriberKey num g" if "k \<in> set ?ks" for k
  proof -
    obtain r v where r: "k = CHR ''e'' # r" "LocalGet (CHR ''e'' # r) c = Some v" using mem [of k] \<open>k \<in> set ?ks\<close> by (auto simp: prefix_def)
    then have "r \<noteq> []" using ok by (auto simp: netmap_ok_def)
    then show ?thesis using r by (cases r) (auto simp: subscriberKey_def)
  qed
  have run: "netmap_UnsubscribeFromNewEpoch E h c = Inr (case filter (\<lambda>k. drop 2 k = h) ?ks of [] \<Rightarrow> c
     | k # _ \<Rightarrow> Notify (NmNewEpochUnsubscription h) (LocalDelete k c))"
    using alph shape by (subst unsubscribe_loop_eq [symmetric]) (auto simp: netmap_UnsubscribeFromNewEpoch_def subscriberKey_def, force simp: subscriberKey_def)
  have hit: "k \<in> set ?ks \<and> drop 2 k = h \<longleftrightarrow> (\<exists>num. k = subscriberKey num h \<and> LocalGet k c \<noteq> None)" for k
    using shape [of k] mem [of k] by (auto simp: subscriberKey_def)
  show thesis
  proof (cases "filter (\<lambda>k. drop 2 k = h) ?ks")
    case Nil
    then have "LocalGet (subscriberKey num h) c = None" for num using hit [of "subscriberKey num h"] by (auto simp: filter_empty_conv)
    then show thesis using run Nil ok by (intro that [of c]) auto
  next
    case (Cons k rest)
    then have "k \<in> set (filter (\<lambda>k. drop 2 k = h) ?ks)" by simp
    then obtain num where num: "k = subscriberKey num h" "LocalGet k c \<noteq> None" using hit [of k] by auto
    then have "LocalGet (subscriberKey num' h) c = None" if "subscriberKey num' h \<noteq> k" for num'
      using uniq num that unfolding sub_unique_def by metis
    then have "LocalGet k' (LocalDelete k c) = (if \<exists>num. k' = subscriberKey num h then None else LocalGet k' c)" for k'
      using num(1) by (cases "k' = k") auto
    moreover have "netmap_ok (Notify (NmNewEpochUnsubscription h) (LocalDelete k c))"
      using ok num(1) by (auto simp: netmap_ok_def nm_version_def nm_snapshots_def nm_key_defs)
    ultimately show thesis using run Cons
      by (intro that [of "Notify (NmNewEpochUnsubscription h) (LocalDelete k c)"]) simp_all
  qed
qed

lemma Subscribe_spec:
  assumes ok: "netmap_ok c" and alph: "alphabet_ok E" and meth: "rt_has_method E h ''newEpoch'' 1"
    and room: "length (subscribers c) < 256"
  obtains "h \<in> set (subscribers c)" "netmap_SubscribeForNewEpoch E h c = Inr c"
  | num where "h \<notin> set (subscribers c)" "netmap_SubscribeForNewEpoch E h c =
      Inr (Notify (NmNewEpochSubscription h) (LocalPut (subscriberKey num h) (Raw []) c))"
proof -
  have loop: "subscribe_loop h (find_keys_no_prefix ''e'' c) 0 =
      Inr (if h \<in> set (subscribers c) then None else Some (int (length (subscribers c))))"
    using subscriber_key_shape [OF ok] by (subst subscribe_loop_eq) (auto simp: subscribers_def)
  have "set_byte (int (length (subscribers c))) = Inr (char_of (int (length (subscribers c))))"
    using room by (simp add: set_byte_def)
  then show thesis using that loop alph meth
    by (cases "h \<in> set (subscribers c)") (simp_all add: netmap_SubscribeForNewEpoch_def del: of_nat_of_char)
qed

text \<open>The subscribers to new epochs behave as a set. Subscribing a contract that has the callback
  method adds it, and does nothing when it is there already, so that no contract is called twice in an
  epoch; unsubscribing removes it and no other; both keep every contract subscribed at most once.\<close>

theorem netmap_subscriptions_are_a_set:
  assumes ok: "netmap_ok c" and uniq: "sub_unique c" and alph: "alphabet_ok E"
    and meth: "rt_has_method E h ''newEpoch'' 1" and room: "length (subscribers c) < 256"
  shows "(\<exists>c'. netmap_SubscribeForNewEpoch E h c = Inr c' \<and> netmap_ok c' \<and> sub_unique c' \<and>
      set (subscribers c') = insert h (set (subscribers c)) \<and> (h \<in> set (subscribers c) \<longrightarrow> c' = c)) \<and>
    (\<exists>c'. netmap_UnsubscribeFromNewEpoch E h c = Inr c' \<and> sub_unique c' \<and>
      netmap_ok c' \<and> set (subscribers c') = set (subscribers c) - {h})"
proof (intro conjI)
  have cok: "contract_ok c" using ok by (simp add: netmap_ok_def)
  show "\<exists>c'. netmap_SubscribeForNewEpoch E h c = Inr c' \<and> netmap_ok c' \<and> sub_unique c' \<and>
      set (subscribers c') = insert h (set (subscribers c)) \<and> (h \<in> set (subscribers c) \<longrightarrow> c' = c)"
  proof (rule Subscribe_spec [OF ok alph meth room])
    assume "h \<in> set (subscribers c)" "netmap_SubscribeForNewEpoch E h c = Inr c"
    then show ?thesis using ok uniq by auto
  next
    fix num
    let ?c = "Notify (NmNewEpochSubscription h) (LocalPut (subscriberKey num h) (Raw []) c)"
    assume new: "h \<notin> set (subscribers c)" and run: "netmap_SubscribeForNewEpoch E h c = Inr ?c"
    have ok': "netmap_ok ?c" using ok
      by (auto simp: netmap_ok_def nm_version_def nm_snapshots_def nm_key_defs)
    have none: "LocalGet (subscriberKey num' h) c = None" for num' using new subscribers_iff [OF ok] by auto
    have inj: "subscriberKey a g = subscriberKey b g' \<longleftrightarrow> a = b \<and> g = g'" for a b g g' by (simp add: subscriberKey_def)
    have "sub_unique ?c" using uniq none by (auto simp: sub_unique_def inj split: if_split_asm)
    moreover have "x \<in> set (subscribers ?c) \<longleftrightarrow> x \<in> insert h (set (subscribers c))" for x
      unfolding insert_iff subscribers_iff [OF ok'] subscribers_iff [OF ok] by (cases "x = h") (auto simp: inj)
    then have "set (subscribers ?c) = insert h (set (subscribers c))" by (rule set_eqI)
    ultimately show ?thesis using run ok' new by blast
  qed
  show "\<exists>c'. netmap_UnsubscribeFromNewEpoch E h c = Inr c' \<and> sub_unique c' \<and>
      netmap_ok c' \<and> set (subscribers c') = set (subscribers c) - {h}"
  proof (rule Unsubscribe_spec [OF ok uniq alph])
    fix c'
    assume run: "netmap_UnsubscribeFromNewEpoch E h c = Inr c'" and ok': "netmap_ok c'"
      and get: "\<And>k. LocalGet k c' = (if \<exists>num. k = subscriberKey num h then None else LocalGet k c)"
    have inj: "subscriberKey a g = subscriberKey b g' \<longleftrightarrow> a = b \<and> g = g'" for a b g g' by (simp add: subscriberKey_def)
    have "sub_unique c'" using uniq by (auto simp: sub_unique_def get inj)
    moreover have "x \<in> set (subscribers c') \<longleftrightarrow> x \<in> set (subscribers c) - {h}" for x
      unfolding Diff_iff subscribers_iff [OF ok'] subscribers_iff [OF ok] by (cases "x = h") (auto simp: get inj)
    then have "set (subscribers c') = set (subscribers c) - {h}" by (rule set_eqI)
    ultimately show ?thesis using run ok' by blast
  qed
qed

definition method_env :: env where
  "method_env = sample_env\<lparr>rt_has_method := (\<lambda>h m n. m = ''newEpoch'' \<and> n = 1)\<rparr>"

lemma method_env_ok: "alphabet_ok method_env" "rt_has_method method_env h ''newEpoch'' 1"
  by (simp_all add: method_env_def alphabet_ok_def witnessed_def CheckWitness_def AlphabetAddress_def Multiaddress_def sample_env_def)

theorem netmap_subscriptions_are_a_set_witness:
  "\<exists>c'. netmap_SubscribeForNewEpoch method_env addrA nm_two = Inr c' \<and> set (subscribers c') = {addrA}"
proof -
  have none: "LocalGet (subscriberKey num g) nm_two = None" for num g
    by (simp add: nm_two_def nm_base_def nm_key_defs setNetmapChangedFlag_def)
  then have "subscribers nm_two = []" using subscribers_iff [OF nm_two_ok(1)] by (cases "subscribers nm_two") auto
  moreover have "sub_unique nm_two" by (simp add: sub_unique_def none)
  ultimately show ?thesis
    using netmap_subscriptions_are_a_set [OF nm_two_ok(1), of method_env addrA] method_env_ok by auto
qed

end
