(* ===== verification/NNS_Contract.thy ===== *)
theory NNS_Contract
  imports Common
begin

text \<open>
  The NNS contract (\<open>contracts/nns/contract.go\<close>, \<open>namestate.go\<close>, \<open>recordtype\<close>): domain names as
  non-fungible tokens, their records, and name resolution. A token key is the RIPEMD-160 digest of the
  name, a parameter of the run-time environment.
\<close>

section \<open>Data\<close>

text \<open>\<open>Owner\<close> is empty for a domain of the committee; \<open>Admin\<close> may be nil.\<close>

record name_state =
  Owner :: bytes
  Name :: string
  Expiration :: int
  Admin :: "bytes option"

record record_state =
  rs_Name :: string
  rs_Type :: int
  rs_Data :: string
  rs_ID :: int

datatype nns_ser = SName name_state | SRecord record_state

datatype nns_event =
    NnsTransfer bytes bytes int bytes
  | NnsRenew string int int
  | NnsSetAdmin string "bytes option" "bytes option"

type_synonym nns = "(nns_ser, nns_event) contract"

definition prefixTotalSupply :: char where "prefixTotalSupply = CHR 0x00"
definition prefixBalance :: char where "prefixBalance = CHR 0x01"
definition prefixAccountToken :: char where "prefixAccountToken = CHR 0x02"
definition prefixRegisterPrice :: char where "prefixRegisterPrice = CHR 0x10"
definition prefixRoot :: char where "prefixRoot = CHR 0x20"
definition prefixName :: char where "prefixName = CHR 0x21"
definition prefixRecord :: char where "prefixRecord = CHR 0x22"

definition maxRegisterPrice :: int where "maxRegisterPrice = 1000000000000"
definition maxRootLength :: nat where "maxRootLength = 16"
definition maxDomainNameFragmentLength :: nat where "maxDomainNameFragmentLength = 63"
definition minDomainNameLength :: nat where "minDomainNameLength = 3"
definition maxDomainNameLength :: nat where "maxDomainNameLength = 255"
definition maxTXTRecordLength :: nat where "maxTXTRecordLength = 255"
definition maxRecordID :: int where "maxRecordID = 15"
definition defaultRegisterPrice :: int where "defaultRegisterPrice = 1000000000"
definition millisecondsInSecond :: int where "millisecondsInSecond = 1000"
definition millisecondsInYear :: int where "millisecondsInYear = 365 * 24 * 3600 * millisecondsInSecond"
definition millisecondsInTenYears :: int where "millisecondsInTenYears = 10 * millisecondsInYear"

text \<open>\<open>recordtype.Type\<close>.\<close>

definition RT_A :: int where "RT_A = 1"
definition RT_CNAME :: int where "RT_CNAME = 5"
definition RT_SOA :: int where "RT_SOA = 6"
definition RT_TXT :: int where "RT_TXT = 16"
definition RT_AAAA :: int where "RT_AAAA = 28"
definition RT_Neo :: int where "RT_Neo = 100"

definition nns_name :: "nns_ser sval \<Rightarrow> name_state res" where
  "nns_name v = andThen (deserialize v) (\<lambda>x. case x of SName n \<Rightarrow> Inr n | _ \<Rightarrow> Inl (Fault ''not a name state''))"

definition nns_record :: "nns_ser sval \<Rightarrow> record_state res" where
  "nns_record v = andThen (deserialize v) (\<lambda>x. case x of SRecord r \<Rightarrow> Inr r | _ \<Rightarrow> Inl (Fault ''not a record''))"

section \<open>Names\<close>

definition isAlNum :: "char \<Rightarrow> bool" where
  "isAlNum c \<longleftrightarrow> CHR ''a'' \<le> c \<and> c \<le> CHR ''z'' \<or> CHR ''0'' \<le> c \<and> c \<le> CHR ''9''"

definition checkFragment :: "string \<Rightarrow> bool \<Rightarrow> bool" where
  "checkFragment v isRoot =
     (let maxLength = (if isRoot then maxRootLength else maxDomainNameFragmentLength) in
      if length v = 0 \<or> length v > maxLength then False
      else if isRoot \<and> (v ! 0 < CHR ''a'' \<or> v ! 0 > CHR ''z'') then False
      else if \<not> isRoot \<and> \<not> isAlNum (v ! 0) then False
      else if list_ex (\<lambda>i. v ! i \<noteq> CHR ''-'' \<and> \<not> isAlNum (v ! i)) [1..<length v - 1] then False
      else isAlNum (v ! (length v - 1)))"

text \<open>The fragments, or the exception text.\<close>

definition safeSplitAndCheck :: "string \<Rightarrow> string list + string" where
  "safeSplitAndCheck name =
     (if length name < minDomainNameLength \<or> maxDomainNameLength < length name
      then Inr ''invalid domain name length''
      else let fragments = string_split CHR ''.'' name; l = length fragments in
        if list_ex (\<lambda>i. \<not> checkFragment (fragments ! i) (i = l - 1)) [0..<l]
        then Inr ''invalid domain fragment''
        else Inl fragments)"

definition splitAndCheck :: "string \<Rightarrow> string list res" where
  "splitAndCheck name = (case safeSplitAndCheck name of Inl fs \<Rightarrow> Inr fs | Inr e \<Rightarrow> Inl (Panic e))"

text \<open>The loop over the four numbers of an IPv4 address: \<open>None\<close> is \<open>return false\<close>.\<close>

fun ipv4_numbers :: "string list \<Rightarrow> int list option res" where
  "ipv4_numbers [] = Inr (Some [])"
| "ipv4_numbers (f # fs) =
     (if f = [] then Inr None
      else andThen (atoi10 f) (\<lambda>number.
        if number < 0 \<or> 255 < number then Inl (Panic ''not a byte'')
        else if number > 0 \<and> hd f = CHR ''0'' then Inr None
        else if number = 0 \<and> length f > 1 then Inr None
        else andThen (ipv4_numbers fs) (\<lambda>ns. Inr (map_option ((#) number) ns))))"

definition checkIPv4 :: "string \<Rightarrow> bool res" where
  "checkIPv4 data =
     (if length data < 7 \<or> 15 < length data then Inr False
      else let fragments = string_split CHR ''.'' data in
        if length fragments \<noteq> 4 then Inr False
        else andThen (ipv4_numbers fragments) (\<lambda>r. case r of
          None \<Rightarrow> Inr False
        | Some numbers \<Rightarrow>
            let n0 = numbers ! 0; n1 = numbers ! 1; n3 = numbers ! 3 in
            if n0 = 0 \<or> n0 = 10 \<or> n0 = 127 \<or> n0 \<ge> 224 \<or> (n0 = 169 \<and> n1 = 254)
               \<or> (n0 = 172 \<and> 16 \<le> n1 \<and> n1 \<le> 31) \<or> (n0 = 192 \<and> n1 = 168) \<or> n3 = 0 \<or> n3 = 255
            then Inr False else Inr True))"

text \<open>The loop over the groups of an IPv6 address, with \<open>hasEmpty\<close> and \<open>nums\<close> as its state.\<close>

fun ipv6_groups :: "env \<Rightarrow> string list \<Rightarrow> nat \<Rightarrow> string list \<Rightarrow> bool \<Rightarrow> int list \<Rightarrow> (bool \<times> int list) option res" where
  "ipv6_groups E fragments i [] hasEmpty nums = Inr (Some (hasEmpty, nums))"
| "ipv6_groups E fragments i (f # fs) hasEmpty nums =
     (let l = length fragments in
      if f = [] then
        (if i = 0 then (if fragments ! 1 \<noteq> [] then Inr None
           else ipv6_groups E fragments (i + 1) fs hasEmpty (nums[i := 0]))
         else if i = l - 1 then (if fragments ! (i - 1) \<noteq> [] then Inr None
           else ipv6_groups E fragments (i + 1) fs hasEmpty (nums[7 := 0]))
         else if hasEmpty then Inr None
         else ipv6_groups E fragments (i + 1) fs True (fold (\<lambda>j ns. ns[j := 0]) [i..<9 - l + i] nums))
      else if length f > 4 then Inr None
      else andThen (rt_atoi16 E f) (\<lambda>n.
        if 65535 < n then Inl (Panic (''fragment overflows uint16: '' @ f))
        else ipv6_groups E fragments (i + 1) fs hasEmpty (nums[(if hasEmpty then i + 8 - l else i) := n])))"

definition checkIPv6 :: "env \<Rightarrow> string \<Rightarrow> bool res" where
  "checkIPv6 E data =
     (if length data < 2 \<or> 39 < length data then Inr False
      else let fragments = string_split CHR '':'' data; l = length fragments in
        if l < 3 \<or> 8 < l then Inr False
        else andThen (ipv6_groups E fragments 0 fragments False (replicate 8 0)) (\<lambda>r. case r of
          None \<Rightarrow> Inr False
        | Some (hasEmpty, nums) \<Rightarrow>
            if l < 8 \<and> \<not> hasEmpty then Inr False
            else let f0 = nums ! 0 in
              if f0 < 8192 \<or> f0 = 8194 \<or> f0 = 16382 \<or> f0 > 16383 then Inr False
              else if f0 = 8193 \<and> (nums ! 1 < 512 \<or> nums ! 1 = 3512) then Inr False
              else Inr True))"

section \<open>Access\<close>

definition isValid :: "bytes \<Rightarrow> bool" where
  "isValid address \<longleftrightarrow> length address = Hash160Len"

definition checkCommittee :: "env \<Rightarrow> unit res" where
  "checkCommittee E = andThen (CheckWitness E (rt_committee_address E)) (\<lambda>ok.
     if \<not> ok then Inl (Panic ''not witnessed by committee'') else Inr ())"

definition ensureNotExpired :: "env \<Rightarrow> name_state \<Rightarrow> unit res" where
  "ensureNotExpired E n = (if rt_time E \<ge> Expiration n then Inl (Panic ''name has expired'') else Inr ())"

definition checkAdmin :: "env \<Rightarrow> name_state \<Rightarrow> unit res" where
  "checkAdmin E n =
     (if length (Owner n) = 0 then checkCommittee E
      else andThen (CheckWitness E (Owner n)) (\<lambda>ok.
        if ok then Inr ()
        else case Admin n of None \<Rightarrow> Inl (Panic ''not witnessed by admin'')
        | Some a \<Rightarrow> andThen (CheckWitness E a) (\<lambda>ok.
            if \<not> ok then Inl (Panic ''not witnessed by admin'') else Inr ())))"

section \<open>Keys and stored states\<close>

definition getTokenKey :: "env \<Rightarrow> bytes \<Rightarrow> bytes" where
  "getTokenKey E tokenID = rt_ripemd160 E tokenID"

definition getNameStateKey :: "bytes \<Rightarrow> bytes" where
  "getNameStateKey tokenKey = prefixName # tokenKey"

definition makeTLDKey :: "string \<Rightarrow> bytes" where
  "makeTLDKey name = prefixRoot # name"

definition nns_balanceKey :: "bytes \<Rightarrow> bytes" where
  "nns_balanceKey acc = prefixBalance # acc"

definition accountTokenKey :: "bytes \<Rightarrow> bytes \<Rightarrow> bytes" where
  "accountTokenKey acc tokenKey = prefixAccountToken # acc @ tokenKey"

definition getRecordsKey :: "env \<Rightarrow> bytes \<Rightarrow> string \<Rightarrow> bytes" where
  "getRecordsKey E tokenId name = prefixRecord # getTokenKey E tokenId @ getTokenKey E name"

definition getRecordsKeyByType :: "env \<Rightarrow> bytes \<Rightarrow> string \<Rightarrow> int \<Rightarrow> bytes res" where
  "getRecordsKeyByType E tokenId name typ =
     andThen (set_byte typ) (\<lambda>t. Inr (getRecordsKey E tokenId name @ [t]))"

definition getIdRecordKey :: "env \<Rightarrow> bytes \<Rightarrow> string \<Rightarrow> int \<Rightarrow> int \<Rightarrow> bytes res" where
  "getIdRecordKey E tokenId name typ i =
     andThen (set_byte typ) (\<lambda>t. andThen (set_byte i) (\<lambda>b. Inr (getRecordsKey E tokenId name @ [t, b])))"

definition getNeoRecordKey :: "env \<Rightarrow> bytes \<Rightarrow> string \<Rightarrow> bytes \<Rightarrow> bytes res" where
  "getNeoRecordKey E tokenId name address =
     andThen (getRecordsKeyByType E tokenId name RT_Neo) (\<lambda>k. Inr (k @ address))"

definition putNameStateWithKey :: "bytes \<Rightarrow> name_state \<Rightarrow> nns \<Rightarrow> nns" where
  "putNameStateWithKey tokenKey ns c = LocalPut (getNameStateKey tokenKey) (Ser (SName ns)) c"

definition putNameState :: "env \<Rightarrow> name_state \<Rightarrow> nns \<Rightarrow> nns" where
  "putNameState E ns c = putNameStateWithKey (getTokenKey E (Name ns)) ns c"

definition getNameStateWithKey :: "env \<Rightarrow> bytes \<Rightarrow> nns \<Rightarrow> name_state res" where
  "getNameStateWithKey E tokenKey c = (case LocalGet (getNameStateKey tokenKey) c of
     None \<Rightarrow> Inl (Panic ''token not found'')
   | Some v \<Rightarrow> andThen (nns_name v) (\<lambda>ns. andThen (ensureNotExpired E ns) (\<lambda>_. Inr ns)))"

text \<open>
  \<open>parentExpired\<close> walks from the last fragment down to \<open>first\<close>; the arguments are the reversed list
  of the fragments it visits and the name built so far, \<open>None\<close> before the last fragment.
\<close>

definition prepend_fragment :: "string \<Rightarrow> string option \<Rightarrow> string" where
  "prepend_fragment f name = (case name of None \<Rightarrow> f | Some n \<Rightarrow> f @ ''.'' @ n)"

fun parent_walk :: "env \<Rightarrow> string list \<Rightarrow> string option \<Rightarrow> nns \<Rightarrow> bool res" where
  "parent_walk E [] name c = Inr False"
| "parent_walk E (f # fs) name c =
     (let name' = prepend_fragment f name in
      case LocalGet (getNameStateKey (getTokenKey E name')) c of
        None \<Rightarrow> Inr True
      | Some v \<Rightarrow> andThen (nns_name v) (\<lambda>ns.
          if rt_time E \<ge> Expiration ns then Inr True else parent_walk E fs (Some name') c))"

definition parentExpired :: "env \<Rightarrow> nat \<Rightarrow> string list \<Rightarrow> nns \<Rightarrow> bool res" where
  "parentExpired E first fragments c = parent_walk E (rev (drop first fragments)) None c"

definition getFragmentedNameState :: "env \<Rightarrow> bytes \<Rightarrow> string list \<Rightarrow> nns \<Rightarrow> name_state res" where
  "getFragmentedNameState E tokenID fragments c =
     andThen (getNameStateWithKey E (getTokenKey E tokenID) c) (\<lambda>ns.
     let fs = (if fragments = [] then string_split CHR ''.'' tokenID else fragments) in
     andThen (parentExpired E 1 fs c) (\<lambda>expired.
     if expired then Inl (Panic ''parent domain has expired'') else Inr ns))"

definition getNameState :: "env \<Rightarrow> bytes \<Rightarrow> nns \<Rightarrow> name_state res" where
  "getNameState E tokenID c = getFragmentedNameState E tokenID [] c"

text \<open>The longest registered and valid suffix of the name, the name itself when there is none.\<close>

fun token_walk :: "env \<Rightarrow> string \<Rightarrow> string list \<Rightarrow> string \<Rightarrow> nns \<Rightarrow> string res" where
  "token_walk E name [] rest c = Inr name"
| "token_walk E name [f] rest c = Inr name"
| "token_walk E name (f # g # fs) rest c =
     (case LocalGet (getNameStateKey (getTokenKey E rest)) c of
        None \<Rightarrow> token_walk E name (g # fs) (drop (length f + 1) rest) c
      | Some v \<Rightarrow> andThen (nns_name v) (\<lambda>ns.
          if rt_time E < Expiration ns then Inr rest
          else token_walk E name (g # fs) (drop (length f + 1) rest) c))"

definition tokenIDFromName :: "env \<Rightarrow> string \<Rightarrow> nns \<Rightarrow> string res" where
  "tokenIDFromName E name c = andThen (splitAndCheck name) (\<lambda>fragments. token_walk E name fragments name c)"

section \<open>Token operations\<close>

definition nns_TotalSupply :: "nns \<Rightarrow> int res" where
  "nns_TotalSupply c = to_integer (LocalGet [prefixTotalSupply] c)"

definition updateTotalSupply :: "int \<Rightarrow> nns \<Rightarrow> nns res" where
  "updateTotalSupply diff c = andThen (nns_TotalSupply c) (\<lambda>ts. Inr (put_int [prefixTotalSupply] (ts + diff) c))"

definition nns_BalanceOf :: "bytes \<Rightarrow> nns \<Rightarrow> int res" where
  "nns_BalanceOf owner c = (if \<not> isValid owner then Inl (Panic ''invalid owner'')
     else case LocalGet (nns_balanceKey owner) c of None \<Rightarrow> Inr 0 | Some v \<Rightarrow> to_integer (Some v))"

definition updateBalance :: "env \<Rightarrow> bytes \<Rightarrow> bytes \<Rightarrow> int \<Rightarrow> nns \<Rightarrow> nns res" where
  "updateBalance E tokenId acc diff c =
     andThen (case LocalGet (nns_balanceKey acc) c of None \<Rightarrow> Inr 0 | Some v \<Rightarrow> to_integer (Some v)) (\<lambda>old.
     let balance = old + diff;
         c1 = (if balance = 0 then LocalDelete (nns_balanceKey acc) c else put_int (nns_balanceKey acc) balance c);
         k = accountTokenKey acc (getTokenKey E tokenId) in
     Inr (if diff < 0 then LocalDelete k c1 else LocalPut k (Raw tokenId) c1))"

text \<open>
  \<open>onNEP11Payment\<close> of the receiving contract: \<open>payment to from amount tokenID data\<close> may act on
  this contract, which it can call back, and on the others.
\<close>

definition nns_postTransfer ::
  "env \<Rightarrow> (bytes \<Rightarrow> bytes \<Rightarrow> int \<Rightarrow> bytes \<Rightarrow> arg \<Rightarrow> nns \<times> 'o \<Rightarrow> (nns \<times> 'o) res) \<Rightarrow>
   bytes \<Rightarrow> bytes \<Rightarrow> bytes \<Rightarrow> arg \<Rightarrow> nns \<times> 'o \<Rightarrow> (nns \<times> 'o) res" where
  "nns_postTransfer E payment frm to tokenID data w =
     (let w1 = (Notify (NnsTransfer frm to 1 tokenID) (fst w), snd w) in
      if rt_is_contract E to then payment to frm 1 tokenID data w1 else Inr w1)"

definition nns_OwnerOf :: "env \<Rightarrow> bytes \<Rightarrow> nns \<Rightarrow> bytes res" where
  "nns_OwnerOf E tokenID c =
     (let fragments = string_split CHR ''.'' tokenID in
      if length fragments = 1 then Inl (Panic ''token not found'')
      else andThen (getFragmentedNameState E tokenID fragments c) (\<lambda>ns. Inr (Owner ns)))"

definition nns_Properties :: "env \<Rightarrow> bytes \<Rightarrow> nns \<Rightarrow> (string \<times> int \<times> bytes option) res" where
  "nns_Properties E tokenID c =
     (let fragments = string_split CHR ''.'' tokenID in
      if length fragments = 1 then Inl (Panic ''token not found'')
      else andThen (getFragmentedNameState E tokenID fragments c) (\<lambda>ns. Inr (Name ns, Expiration ns, Admin ns)))"

definition nns_Tokens :: "nns \<Rightarrow> string list res" where
  "nns_Tokens c = mapR (\<lambda>v. andThen (nns_name v) (\<lambda>ns. Inr (Name ns))) (find_values [prefixName] c)"

definition nns_TokensOf :: "bytes \<Rightarrow> nns \<Rightarrow> bytes list res" where
  "nns_TokensOf owner c = (if \<not> isValid owner then Inl (Panic ''invalid owner'')
     else mapR as_bytes (find_values (prefixAccountToken # owner) c))"

definition nns_Transfer ::
  "env \<Rightarrow> (bytes \<Rightarrow> bytes \<Rightarrow> int \<Rightarrow> bytes \<Rightarrow> arg \<Rightarrow> nns \<times> 'o \<Rightarrow> (nns \<times> 'o) res) \<Rightarrow>
   bytes \<Rightarrow> bytes \<Rightarrow> arg \<Rightarrow> nns \<times> 'o \<Rightarrow> (bool \<times> nns \<times> 'o) res" where
  "nns_Transfer E payment to tokenID data w = (case w of (c, others) \<Rightarrow>
     if \<not> isValid to then Inl (Panic ''invalid receiver'')
     else let fragments = string_split CHR ''.'' tokenID in
       if length fragments = 1 then Inl (Panic ''token not found'')
       else let tokenKey = getTokenKey E tokenID in
         andThen (getNameStateWithKey E tokenKey c) (\<lambda>ns.
         let frm = Owner ns in
         andThen (CheckWitness E frm) (\<lambda>ok.
         if \<not> ok then Inr (False, c, others)
         else andThen (if frm \<noteq> to
             then andThen (updateBalance E tokenID frm (- 1)
                      (putNameStateWithKey tokenKey (ns\<lparr>Owner := to, Admin := None\<rparr>) c)) (\<lambda>c1.
                    updateBalance E tokenID to 1 c1)
             else Inr c) (\<lambda>c2.
           andThen (nns_postTransfer E payment frm to tokenID data (c2, others)) (\<lambda>w'. Inr (True, w'))))))"

definition nns_Roots :: "nns \<Rightarrow> bytes list" where
  "nns_Roots c = find_keys_no_prefix [prefixRoot] c"

definition nns_SetPrice :: "env \<Rightarrow> int \<Rightarrow> nns \<Rightarrow> nns res" where
  "nns_SetPrice E price c = andThen (checkCommittee E) (\<lambda>_.
     if price < 0 \<or> price > maxRegisterPrice then Inl (Panic ''The price is out of range.'')
     else Inr (put_int [prefixRegisterPrice] price c))"

definition nns_GetPrice :: "nns \<Rightarrow> int res" where
  "nns_GetPrice c = to_integer (LocalGet [prefixRegisterPrice] c)"

section \<open>Records\<close>

definition storeRecord :: "env \<Rightarrow> bytes \<Rightarrow> string \<Rightarrow> int \<Rightarrow> int \<Rightarrow> string \<Rightarrow> nns \<Rightarrow> nns res" where
  "storeRecord E tokenId name typ i data c =
     andThen (getIdRecordKey E tokenId name typ i) (\<lambda>k.
     Inr (LocalPut k (Ser (SRecord \<lparr>rs_Name = name, rs_Type = typ, rs_Data = data, rs_ID = i\<rparr>)) c))"

definition putSoaRecord :: "env \<Rightarrow> string \<Rightarrow> string \<Rightarrow> int \<Rightarrow> int \<Rightarrow> int \<Rightarrow> int \<Rightarrow> nns \<Rightarrow> nns res" where
  "putSoaRecord E name email refresh retry expire ttl c =
     andThen (tokenIDFromName E name c) (\<lambda>tokenId.
     let data = name @ '' '' @ email @ '' '' @ itoa10 (rt_time E) @ '' '' @ itoa10 refresh @ '' '' @
                itoa10 retry @ '' '' @ itoa10 expire @ '' '' @ itoa10 ttl in
     storeRecord E tokenId name RT_SOA 0 data c)"

definition updateSoaSerial :: "env \<Rightarrow> bytes \<Rightarrow> nns \<Rightarrow> nns res" where
  "updateSoaSerial E tokenId c =
     andThen (getIdRecordKey E tokenId tokenId RT_SOA 0) (\<lambda>recordKey.
     case LocalGet recordKey c of
       None \<Rightarrow> Inl (Panic ''not found soa record'')
     | Some v \<Rightarrow> andThen (nns_record v) (\<lambda>rec.
         let split = string_split_non_empty CHR '' '' (rs_Data rec) in
         if length split \<noteq> 7 then Inl (Panic ''invalid soa record'')
         else let split' = split[2 := itoa10 (rt_time E)] in
           Inr (LocalPut recordKey (Ser (SRecord (rec\<lparr>rs_Data := split' ! 0 @ '' '' @ split' ! 1 @ '' '' @
             split' ! 2 @ '' '' @ split' ! 3 @ '' '' @ split' ! 4 @ '' '' @ split' ! 5 @ '' '' @ split' ! 6\<rparr>))) c)))"

definition checkRecord :: "env \<Rightarrow> string \<Rightarrow> int \<Rightarrow> string \<Rightarrow> nns \<Rightarrow> bytes res" where
  "checkRecord E name typ data c =
     andThen (tokenIDFromName E name c) (\<lambda>tokenID.
     andThen (if typ = RT_A then checkIPv4 data
              else if typ = RT_CNAME then Inr (case safeSplitAndCheck data of Inl fs \<Rightarrow> True | Inr msg \<Rightarrow> msg = [])
              else if typ = RT_TXT then Inr (length data \<le> maxTXTRecordLength)
              else if typ = RT_AAAA then checkIPv6 E data
              else if typ = RT_Neo then Inr (length data = Hash160Len)
              else Inl (Panic ''unsupported record type'')) (\<lambda>ok.
     if \<not> ok then Inl (Panic ''invalid record data'')
     else let fragments = string_split CHR ''.'' tokenID in
       if length fragments = 1 then Inl (Panic ''token not found'')
       else andThen (getFragmentedNameState E tokenID fragments c) (\<lambda>ns.
         andThen (checkAdmin E ns) (\<lambda>_. Inr tokenID))))"

definition nns_SetRecord :: "env \<Rightarrow> string \<Rightarrow> int \<Rightarrow> int \<Rightarrow> string \<Rightarrow> nns \<Rightarrow> nns res" where
  "nns_SetRecord E name typ i data c =
     (if typ = RT_Neo then Inl (Panic ''unsupported for Neo type'')
      else andThen (checkRecord E name typ data c) (\<lambda>tokenID.
        andThen (getIdRecordKey E tokenID name typ i) (\<lambda>recordKey.
        case LocalGet recordKey c of
          None \<Rightarrow> Inl (Panic ''invalid record id'')
        | Some _ \<Rightarrow> andThen (storeRecord E tokenID name typ i data c) (updateSoaSerial E tokenID))))"

text \<open>The number of records of the type, or an exception when the record is there already.\<close>

fun count_records :: "string \<Rightarrow> int \<Rightarrow> string \<Rightarrow> nns_ser sval list \<Rightarrow> int \<Rightarrow> int res" where
  "count_records name typ data [] i = Inr i"
| "count_records name typ data (v # vs) i = andThen (nns_record v) (\<lambda>r.
     if rs_Name r = name \<and> rs_Type r = typ \<and> rs_Data r = data then Inl (Panic ''record already exists'')
     else count_records name typ data vs (i + 1))"

definition nns_AddRecord :: "env \<Rightarrow> string \<Rightarrow> int \<Rightarrow> string \<Rightarrow> nns \<Rightarrow> nns res" where
  "nns_AddRecord E name typ data c =
     (if typ = RT_Neo then Inl (Panic ''use AddNeoRecord for Neo type'')
      else andThen (checkRecord E name typ data c) (\<lambda>tokenID.
        andThen (getRecordsKeyByType E tokenID name typ) (\<lambda>recordsKey.
        andThen (count_records name typ data (find_values recordsKey c) 0) (\<lambda>i.
        if i > maxRecordID then Inl (Panic ''maximum number of records reached'')
        else if typ = RT_CNAME \<and> i \<noteq> 0 then Inl (Panic (''you shouldn'' @ [CHR 0x27] @ ''t have more than one CNAME record''))
        else andThen (storeRecord E tokenID name typ i data c) (updateSoaSerial E tokenID)))))"

definition nns_AddNeoRecord :: "env \<Rightarrow> string \<Rightarrow> bytes \<Rightarrow> nns \<Rightarrow> nns res" where
  "nns_AddNeoRecord E name address c =
     andThen (checkRecord E name RT_Neo address c) (\<lambda>tokenID.
     andThen (getNeoRecordKey E tokenID name address) (\<lambda>key.
     updateSoaSerial E tokenID (LocalPut key (Raw []) c)))"

definition getRecordsByType :: "env \<Rightarrow> bytes \<Rightarrow> string \<Rightarrow> int \<Rightarrow> nns \<Rightarrow> string list res" where
  "getRecordsByType E tokenId name typ c =
     andThen (getRecordsKeyByType E tokenId name typ) (\<lambda>recordsKey.
     andThen (mapR nns_record (find_values recordsKey c)) (\<lambda>rs.
     Inr (map rs_Data (filter (\<lambda>r. rs_Type r = typ) rs))))"

definition nns_GetRecords :: "env \<Rightarrow> string \<Rightarrow> int \<Rightarrow> nns \<Rightarrow> string list res" where
  "nns_GetRecords E name typ c =
     (let fragments = string_split CHR ''.'' name in
      if length fragments = 1 then Inl (Panic ''token not found'')
      else if typ = RT_Neo then Inl (Panic ''use GetNeoRecordsIterator for Neo type'')
      else andThen (tokenIDFromName E name c) (\<lambda>tokenID.
        andThen (getFragmentedNameState E tokenID fragments c) (\<lambda>_. getRecordsByType E tokenID name typ c)))"

definition getNeoRecordsIterator :: "env \<Rightarrow> bytes \<Rightarrow> string \<Rightarrow> nns \<Rightarrow> bytes list res" where
  "getNeoRecordsIterator E tokenId name c =
     andThen (getRecordsKeyByType E tokenId name RT_Neo) (\<lambda>recordsKey. Inr (find_keys_no_prefix recordsKey c))"

definition nns_GetNeoRecordsIterator :: "env \<Rightarrow> string \<Rightarrow> nns \<Rightarrow> bytes list res" where
  "nns_GetNeoRecordsIterator E name c =
     (let fragments = string_split CHR ''.'' name in
      if length fragments = 1 then Inl (Panic ''token not found'')
      else andThen (tokenIDFromName E name c) (\<lambda>tokenID.
        andThen (getFragmentedNameState E tokenID fragments c) (\<lambda>_. getNeoRecordsIterator E tokenID name c)))"

definition nns_DeleteRecords :: "env \<Rightarrow> string \<Rightarrow> int \<Rightarrow> nns \<Rightarrow> nns res" where
  "nns_DeleteRecords E name typ c =
     (if typ = RT_SOA then Inl (Panic ''you cannot delete soa record'')
      else andThen (tokenIDFromName E name c) (\<lambda>tokenID.
        let fragments = string_split CHR ''.'' tokenID in
        if length fragments = 1 then Inl (Panic ''token not found'')
        else andThen (getFragmentedNameState E tokenID fragments c) (\<lambda>ns.
          andThen (checkAdmin E ns) (\<lambda>_.
          andThen (getRecordsKeyByType E tokenID name typ) (\<lambda>recordsKey.
          updateSoaSerial E tokenID (deleteKeys (map fst (LocalFind recordsKey c)) c))))))"

definition nns_DeleteNeoRecord :: "env \<Rightarrow> string \<Rightarrow> bytes \<Rightarrow> nns \<Rightarrow> nns res" where
  "nns_DeleteNeoRecord E name address c =
     (if length address \<noteq> Hash160Len then Inl (Panic ''invalid address format'')
      else andThen (tokenIDFromName E name c) (\<lambda>tokenID.
        let fragments = string_split CHR ''.'' tokenID in
        if length fragments = 1 then Inl (Panic ''token not found'')
        else andThen (getFragmentedNameState E tokenID fragments c) (\<lambda>ns.
          andThen (checkAdmin E ns) (\<lambda>_.
          andThen (getNeoRecordKey E tokenID name address) (\<lambda>key.
          updateSoaSerial E tokenID (LocalDelete key c))))))"

definition nns_HasNeoRecord :: "env \<Rightarrow> string \<Rightarrow> bytes \<Rightarrow> nns \<Rightarrow> bool res" where
  "nns_HasNeoRecord E name address c =
     (let fragments = string_split CHR ''.'' name in
      if length fragments = 1 then Inl (Panic ''token not found'')
      else andThen (tokenIDFromName E name c) (\<lambda>tokenID.
        andThen (getFragmentedNameState E tokenID fragments c) (\<lambda>_.
        andThen (getNeoRecordKey E tokenID name address) (\<lambda>key. Inr (LocalGet key c \<noteq> None)))))"

text \<open>The values an iterator with \<open>ValuesOnly|DeserializeValues\<close> yields, before they are deserialized.\<close>

definition getAllRecords :: "env \<Rightarrow> string \<Rightarrow> string list \<Rightarrow> nns \<Rightarrow> nns_ser sval list res" where
  "getAllRecords E name fragments c =
     andThen (tokenIDFromName E name c) (\<lambda>tokenID.
     andThen (getFragmentedNameState E tokenID fragments c) (\<lambda>_.
     Inr (find_values (getRecordsKey E tokenID name) c)))"

definition nns_GetAllRecords :: "env \<Rightarrow> string \<Rightarrow> nns \<Rightarrow> record_state list res" where
  "nns_GetAllRecords E name c =
     (let fragments = string_split CHR ''.'' name in
      if length fragments = 1 then Inl (Panic ''token not found'')
      else andThen (getAllRecords E name fragments c) (mapR nns_record))"

definition drop_last_dot :: "string \<Rightarrow> string" where
  "drop_last_dot name = (if last name = CHR ''.'' then butlast name else name)"

definition last_cname :: "record_state list \<Rightarrow> string" where
  "last_cname rs = fold (\<lambda>r cname. if rs_Type r = RT_CNAME then rs_Data r else cname) rs []"

function resolve :: "env \<Rightarrow> string list \<Rightarrow> string \<Rightarrow> int \<Rightarrow> int \<Rightarrow> nns \<Rightarrow> string list res" where
  "resolve E res name typ redirect c =
     (if redirect < 0 then Inl (Panic ''invalid redirect'')
      else if length name = 0 then Inl (Panic ''invalid name'')
      else andThen (andThen (getAllRecords E (drop_last_dot name) [] c) (mapR nns_record)) (\<lambda>rs.
        let res' = res @ map rs_Data (filter (\<lambda>r. rs_Type r = typ) rs); cname = last_cname rs in
        if cname = [] \<or> typ = RT_CNAME then Inr res'
        else resolve E res' cname typ (redirect - 1) c))"
  by pat_completeness auto
termination
  by (relation "measure (\<lambda>(E, res, name, typ, redirect, c). nat (redirect + 1))") auto

declare resolve.simps [simp del]

definition nns_Resolve :: "env \<Rightarrow> string \<Rightarrow> int \<Rightarrow> nns \<Rightarrow> string list res" where
  "nns_Resolve E name typ c =
     (let fragments = string_split CHR ''.'' name in
      if length fragments = 1 then Inl (Panic ''token not found'')
      else if typ = RT_Neo then Inl (Panic ''use ResolveNeoIterator for Neo type'')
      else resolve E [] name typ 2 c)"

function resolveNeoIterator :: "env \<Rightarrow> string \<Rightarrow> int \<Rightarrow> nns \<Rightarrow> bytes list res" where
  "resolveNeoIterator E name0 redirect c =
     (if redirect < 0 then Inl (Panic ''invalid redirect'')
      else if length name0 = 0 then Inl (Panic ''invalid name'')
      else let name = drop_last_dot name0 in
        andThen (tokenIDFromName E name c) (\<lambda>tokenID.
        andThen (getFragmentedNameState E tokenID [] c) (\<lambda>_.
        if redirect > 0
        then andThen (getRecordsKeyByType E tokenID name RT_CNAME) (\<lambda>cnameKey.
          case find_values cnameKey c of
            [] \<Rightarrow> getNeoRecordsIterator E tokenID name c
          | v # _ \<Rightarrow> andThen (nns_record v) (\<lambda>r.
              if rs_Data r \<noteq> [] then resolveNeoIterator E (rs_Data r) (redirect - 1) c
              else getNeoRecordsIterator E tokenID name c))
        else getNeoRecordsIterator E tokenID name c)))"
  by pat_completeness auto
termination
  by (relation "measure (\<lambda>(E, name, redirect, c). nat (redirect + 1))") auto

declare resolveNeoIterator.simps [simp del]

definition nns_ResolveNeoIterator :: "env \<Rightarrow> string \<Rightarrow> nns \<Rightarrow> bytes list res" where
  "nns_ResolveNeoIterator E name c =
     (if length (string_split CHR ''.'' name) = 1 then Inl (Panic ''token not found'')
      else resolveNeoIterator E name 2 c)"

section \<open>Registration\<close>

text \<open>The first record under the parent's key whose name ends with the name to register.\<close>

fun conflict_loop :: "string \<Rightarrow> nns_ser sval list \<Rightarrow> string res" where
  "conflict_loop sfx [] = Inr []"
| "conflict_loop sfx (v # vs) = andThen (nns_record v) (\<lambda>r.
     let ind = memory_search_last_index (rs_Name r) sfx (length (rs_Name r)) in
     if ind > 0 \<and> ind + int (length sfx) = int (length (rs_Name r)) then Inr (rs_Name r)
     else conflict_loop sfx vs)"

definition getParentConflictingRecord :: "env \<Rightarrow> string \<Rightarrow> string list \<Rightarrow> nns \<Rightarrow> string res" where
  "getParentConflictingRecord E name fragments c =
     andThen (slice_from (length (fragments ! 0) + 1) name) (\<lambda>parent.
     conflict_loop name (find_values (prefixRecord # getTokenKey E parent) c))"

definition nns_IsAvailable :: "env \<Rightarrow> string \<Rightarrow> nns \<Rightarrow> bool res" where
  "nns_IsAvailable E name c =
     andThen (splitAndCheck name) (\<lambda>fragments.
     let l = length fragments in
     if LocalGet (makeTLDKey (fragments ! (l - 1))) c = None
     then (if l \<noteq> 1 then Inl (Panic ''TLD not found'') else Inr True)
     else andThen (parentExpired E 0 fragments c) (\<lambda>expired.
       if \<not> expired then Inr False
       else andThen (getParentConflictingRecord E name fragments c) (\<lambda>conflict. Inr (conflict = []))))"

definition saveDomain :: "env \<Rightarrow> string \<Rightarrow> string \<Rightarrow> int \<Rightarrow> int \<Rightarrow> int \<Rightarrow> int \<Rightarrow> bytes \<Rightarrow> nns \<Rightarrow> nns res" where
  "saveDomain E name email refresh retry expire ttl owner c =
     putSoaRecord E name email refresh retry expire ttl
       (putNameStateWithKey (getTokenKey E name)
          \<lparr>Owner = owner, Name = name, Expiration = rt_time E + expire * millisecondsInSecond, Admin = None\<rparr> c)"

definition saveCommitteeDomain :: "env \<Rightarrow> string \<Rightarrow> string \<Rightarrow> int \<Rightarrow> int \<Rightarrow> int \<Rightarrow> int \<Rightarrow> nns \<Rightarrow> nns res" where
  "saveCommitteeDomain E name email refresh retry expire ttl c =
     andThen (splitAndCheck name) (\<lambda>fragments.
     if length fragments \<noteq> 1 then Inl (Panic ''not a TLD'')
     else let tldKey = makeTLDKey name in
       andThen (if LocalGet tldKey c \<noteq> None then parentExpired E 0 fragments c else Inr True) (\<lambda>free.
       if \<not> free then Inl (Panic ''TLD already exists'')
       else saveDomain E name email refresh retry expire ttl [] (put_int tldKey 0 c)))"

definition nns_RegisterTLD :: "env \<Rightarrow> string \<Rightarrow> string \<Rightarrow> int \<Rightarrow> int \<Rightarrow> int \<Rightarrow> int \<Rightarrow> nns \<Rightarrow> nns res" where
  "nns_RegisterTLD E name email refresh retry expire ttl c =
     andThen (checkCommittee E) (\<lambda>_. saveCommitteeDomain E name email refresh retry expire ttl c)"

definition nns_Register ::
  "env \<Rightarrow> (bytes \<Rightarrow> bytes \<Rightarrow> int \<Rightarrow> bytes \<Rightarrow> arg \<Rightarrow> nns \<times> 'o \<Rightarrow> (nns \<times> 'o) res) \<Rightarrow>
   string \<Rightarrow> bytes \<Rightarrow> string \<Rightarrow> int \<Rightarrow> int \<Rightarrow> int \<Rightarrow> int \<Rightarrow> nns \<times> 'o \<Rightarrow> (bool \<times> nns \<times> 'o) res" where
  "nns_Register E payment name owner email refresh retry expire ttl w = (case w of (c, others) \<Rightarrow>
     andThen (splitAndCheck name) (\<lambda>fragments.
     let l = length fragments in
     if l = 1 then Inl (Panic ''TLD denied'')
     else if LocalGet (makeTLDKey (fragments ! (l - 1))) c = None then Inl (Panic ''TLD not found'')
     else andThen (parentExpired E 1 fragments c) (\<lambda>expired.
     if expired then Inl (Panic ''one of the parent domains is not registered'')
     else andThen (slice_from (length (fragments ! 0) + 1) name) (\<lambda>parent.
     andThen (if l > 2
         then (case LocalGet (getNameStateKey (getTokenKey E parent)) c of
             None \<Rightarrow> Inl (Fault ''deserialization'')
           | Some v \<Rightarrow> andThen (nns_name v) (checkAdmin E))
         else Inr ()) (\<lambda>_.
     andThen (getParentConflictingRecord E name fragments c) (\<lambda>conflict.
     if conflict \<noteq> [] then Inl (Panic (''parent domain has conflicting records: '' @ conflict))
     else if \<not> isValid owner then Inl (Panic ''invalid owner'')
     else andThen (CheckOwnerWitness E owner) (\<lambda>_.
     andThen (nns_GetPrice c) (\<lambda>price.
     andThen (BurnGas E price) (\<lambda>_.
     let tokenKey = getTokenKey E name in
     andThen (case LocalGet (getNameStateKey tokenKey) c of
         Some v \<Rightarrow> andThen (nns_name v) (\<lambda>ns.
           if rt_time E < Expiration ns then Inr None
           else andThen (updateBalance E name (Owner ns) (- 1) c) (\<lambda>c1. Inr (Some (Owner ns, c1))))
       | None \<Rightarrow> andThen (updateTotalSupply 1 c) (\<lambda>c1. Inr (Some ([], c1)))) (\<lambda>r.
     case r of None \<Rightarrow> Inr (False, c, others)
     | Some (oldOwner, c1) \<Rightarrow>
         andThen (saveDomain E name email refresh retry expire ttl owner c1) (\<lambda>c2.
         andThen (updateBalance E name owner 1 c2) (\<lambda>c3.
         andThen (nns_postTransfer E payment oldOwner owner name ANull (c3, others)) (\<lambda>w'. Inr (True, w'))))))))))))))"

definition nns_Renew :: "env \<Rightarrow> string \<Rightarrow> int \<Rightarrow> nns \<Rightarrow> (int \<times> nns) res" where
  "nns_Renew E name years c =
     (if years < 1 \<or> years > 10 then Inl (Panic ''invalid renewal period value'')
      else if length name > maxDomainNameLength then Inl (Panic ''invalid domain name format'')
      else andThen (nns_GetPrice c) (\<lambda>price.
        andThen (BurnGas E (price * years)) (\<lambda>_.
        andThen (getNameState E name c) (\<lambda>ns.
        andThen (checkAdmin E ns) (\<lambda>_.
        let ns' = ns\<lparr>Expiration := Expiration ns + millisecondsInYear * years\<rparr> in
        andThen (splitAndCheck name) (\<lambda>fragments.
        if length fragments > 1 \<and> Expiration ns' > rt_time E + millisecondsInTenYears
        then Inl (Panic ''10 years of expiration period at max is allowed'')
        else Inr (Expiration ns', Notify (NnsRenew name (Expiration ns) (Expiration ns')) (putNameState E ns' c))))))))"

definition nns_RenewDefault :: "env \<Rightarrow> string \<Rightarrow> nns \<Rightarrow> (int \<times> nns) res" where
  "nns_RenewDefault E name c = nns_Renew E name 1 c"

definition nns_UpdateSOA :: "env \<Rightarrow> string \<Rightarrow> string \<Rightarrow> int \<Rightarrow> int \<Rightarrow> int \<Rightarrow> int \<Rightarrow> nns \<Rightarrow> nns res" where
  "nns_UpdateSOA E name email refresh retry expire ttl c =
     (if length name > maxDomainNameLength then Inl (Panic ''too long name'')
      else andThen (getNameState E name c) (\<lambda>ns.
        andThen (checkAdmin E ns) (\<lambda>_. putSoaRecord E name email refresh retry expire ttl c)))"

definition nns_SetAdmin :: "env \<Rightarrow> string \<Rightarrow> bytes option \<Rightarrow> nns \<Rightarrow> nns res" where
  "nns_SetAdmin E name admin c =
     (if length name > maxDomainNameLength then Inl (Panic ''too long name'')
      else let fragments = string_split CHR ''.'' name in
        if length fragments = 1 then Inl (Panic ''token not found'')
        else andThen (case admin of None \<Rightarrow> Inr True | Some a \<Rightarrow> CheckWitness E a) (\<lambda>ok.
          if \<not> ok then Inl (Panic ''not witnessed by admin'')
          else andThen (getFragmentedNameState E name fragments c) (\<lambda>ns.
            andThen (CheckOwnerWitness E (Owner ns)) (\<lambda>_.
            Inr (Notify (NnsSetAdmin name (Admin ns) admin) (putNameState E (ns\<lparr>Admin := admin\<rparr>) c))))))"

section \<open>Deployment and update\<close>

definition deploy_tld :: "env \<Rightarrow> arg \<Rightarrow> nns \<Rightarrow> nns res" where
  "deploy_tld E tld c = andThen (arg_array tld) (\<lambda>fields.
     andThen (andThen (arg_at 0 fields) arg_bytes) (\<lambda>name.
     andThen (andThen (arg_at 1 fields) arg_bytes) (\<lambda>email.
     saveCommitteeDomain E name email 3600 600 (10 * 365 * 24 * 60 * 60) 3600 c)))"

definition nns_deploy :: "env \<Rightarrow> arg \<Rightarrow> bool \<Rightarrow> nns \<Rightarrow> nns res" where
  "nns_deploy E data isUpdate c =
     (if isUpdate
      then andThen (arg_array data) (\<lambda>args. andThen (last_version args) (\<lambda>v. andThen (CheckVersion v) (\<lambda>_. Inr c)))
      else let c1 = put_int [prefixRegisterPrice] defaultRegisterPrice (put_int [prefixTotalSupply] 0 c) in
        if data = ANull then Inr c1
        else andThen (arg_array data) (\<lambda>args. andThen (andThen (arg_at 0 args) arg_array) (\<lambda>tldSet.
          foldR (deploy_tld E) tldSet c1)))"

definition nns_Update ::
  "env \<Rightarrow> (bytes \<Rightarrow> bytes \<Rightarrow> arg list \<Rightarrow> 'w \<Rightarrow> 'w res) \<Rightarrow> bytes \<Rightarrow> bytes \<Rightarrow> arg list option \<Rightarrow> 'w \<Rightarrow> 'w res" where
  "nns_Update E management nefFile manifest data w =
     andThen (checkCommittee E) (\<lambda>_. management nefFile manifest (AppendVersion data) w)"

end
