(* ===== verification/NNS_State.thy ===== *)
theory NNS_State
  imports NNS_Contract
begin

text \<open>
  The NNS contract over its life: which operations touch the tokens, everything that transactions and
  called back contracts may do, and the accounting invariant of the tokens: the stored balances, token
  lists and the total supply are those of the stored names.
\<close>

section \<open>What an operation leaves alone\<close>

text \<open>The keys of the tokens: the supply, the balances, the token lists and the names.\<close>

definition token_key :: "bytes \<Rightarrow> bool" where
  "token_key k \<longleftrightarrow> k \<noteq> [] \<and> hd k \<in> {prefixTotalSupply, prefixBalance, prefixAccountToken, prefixName}"

definition token_same :: "nns \<Rightarrow> nns \<Rightarrow> bool" where
  "token_same c d \<longleftrightarrow> (contract_ok c \<longrightarrow> contract_ok d) \<and> (\<forall>k. token_key k \<longrightarrow> LocalGet k d = LocalGet k c)"

named_theorems token_intros \<open>operations that keep the tokens\<close>

lemmas nns_prefix_defs = prefixTotalSupply_def prefixBalance_def prefixAccountToken_def prefixRegisterPrice_def
  prefixRoot_def prefixName_def prefixRecord_def

lemma token_same_refl [token_intros, simp]: "token_same c c"
  by (simp add: token_same_def)

lemma token_same_trans [trans]: "token_same c d \<Longrightarrow> token_same d e \<Longrightarrow> token_same c e"
  by (auto simp: token_same_def)

lemma token_same_updates [token_intros]:
  "token_same c d \<Longrightarrow> \<not> token_key k \<Longrightarrow> token_same c (LocalPut k v d)"
  "token_same c d \<Longrightarrow> \<not> token_key k \<Longrightarrow> token_same c (LocalDelete k d)"
  "token_same c d \<Longrightarrow> \<not> token_key k \<Longrightarrow> token_same c (put_int k n d)"
  "token_same c d \<Longrightarrow> token_same c (Notify e d)"
  "token_same c d \<Longrightarrow> (\<And>k. k \<in> set ks \<Longrightarrow> \<not> token_key k) \<Longrightarrow> token_same c (deleteKeys ks d)"
  by (auto simp: token_same_def)

lemma token_key_simps [simp]:
  "token_key (getNameStateKey t)" "token_key (nns_balanceKey a)" "token_key (accountTokenKey a t)" "token_key [prefixTotalSupply]"
  "\<not> token_key (getRecordsKey E t n)" "\<not> token_key (getRecordsKey E t n @ x)" "\<not> token_key (makeTLDKey n)"
  "\<not> token_key [prefixRegisterPrice]"
  by (simp_all add: token_key_def getNameStateKey_def nns_balanceKey_def accountTokenKey_def getRecordsKey_def makeTLDKey_def
      nns_prefix_defs)

lemma token_key_records [simp]:
  "getRecordsKeyByType E t n typ = Inr k \<Longrightarrow> \<not> token_key k" "getIdRecordKey E t n typ i = Inr k \<Longrightarrow> \<not> token_key k"
  "getNeoRecordKey E t n a = Inr k \<Longrightarrow> \<not> token_key k"
  by (auto simp: getRecordsKeyByType_def getIdRecordKey_def getNeoRecordKey_def)

lemma token_key_find:
  assumes "getRecordsKeyByType E t n typ = Inr p" and "k \<in> set (map fst (LocalFind p c))"
  shows "\<not> token_key k"
proof -
  obtain x where "k = p @ x" using assms(2) LocalFind_prefix [of _ p c] by (auto simp: prefix_def)
  then show ?thesis using assms(1) by (auto simp: getRecordsKeyByType_def)
qed

lemma token_same_storeRecord: "storeRecord E t n typ i d c = Inr c' \<Longrightarrow> token_same c c'"
  by (auto simp: storeRecord_def intro!: token_intros)

lemma token_same_putSoaRecord: "putSoaRecord E n e a b x y c = Inr c' \<Longrightarrow> token_same c c'"
  by (auto simp: putSoaRecord_def Let_def intro: token_same_storeRecord)

lemma token_same_updateSoaSerial: "updateSoaSerial E t c = Inr c' \<Longrightarrow> token_same c c'"
  by (auto simp: updateSoaSerial_def Let_def intro!: token_intros split: option.splits if_splits)

lemma token_same_then_soa: "updateSoaSerial E t d = Inr e \<Longrightarrow> token_same c d \<Longrightarrow> token_same c e"
  using token_same_trans token_same_updateSoaSerial by blast

lemma token_same_store_soa:
  "storeRecord E t n typ i x c = Inr d \<Longrightarrow> updateSoaSerial E t d = Inr e \<Longrightarrow> token_same c e"
  using token_same_storeRecord token_same_then_soa by blast

lemma token_same_SetRecord: "nns_SetRecord E n typ i d c = Inr c' \<Longrightarrow> token_same c c'"
  by (auto simp: nns_SetRecord_def split: if_splits option.splits dest: token_same_store_soa)

lemma token_same_AddRecord: "nns_AddRecord E n typ d c = Inr c' \<Longrightarrow> token_same c c'"
  by (auto simp: nns_AddRecord_def split: if_splits dest: token_same_store_soa)

lemma token_same_AddNeoRecord:
  assumes "nns_AddNeoRecord E n a c = Inr c'"
  shows "token_same c c'"
proof -
  obtain t k where "getNeoRecordKey E t n a = Inr k" and s: "updateSoaSerial E t (LocalPut k (Raw []) c) = Inr c'"
    using assms by (auto simp: nns_AddNeoRecord_def)
  then show ?thesis by (intro token_same_then_soa [OF s] token_same_updates) auto
qed

lemma token_same_DeleteRecords:
  assumes "nns_DeleteRecords E n typ c = Inr c'"
  shows "token_same c c'"
proof -
  obtain t p where p: "getRecordsKeyByType E t n typ = Inr p"
    and s: "updateSoaSerial E t (deleteKeys (map fst (LocalFind p c)) c) = Inr c'"
    using assms by (auto simp: nns_DeleteRecords_def Let_def split: if_splits)
  show ?thesis using token_key_find [OF p] by (intro token_same_then_soa [OF s] token_same_updates) auto
qed

lemma token_same_DeleteNeoRecord:
  assumes "nns_DeleteNeoRecord E n a c = Inr c'"
  shows "token_same c c'"
proof -
  obtain t k where "getNeoRecordKey E t n a = Inr k" and s: "updateSoaSerial E t (LocalDelete k c) = Inr c'"
    using assms by (auto simp: nns_DeleteNeoRecord_def Let_def split: if_splits)
  then show ?thesis by (intro token_same_then_soa [OF s] token_same_updates) auto
qed

lemma token_same_UpdateSOA: "nns_UpdateSOA E n e a b x y c = Inr c' \<Longrightarrow> token_same c c'"
  by (auto simp: nns_UpdateSOA_def split: if_splits intro: token_same_putSoaRecord)

lemma token_same_SetPrice: "nns_SetPrice E p c = Inr c' \<Longrightarrow> token_same c c'"
  by (auto simp: nns_SetPrice_def split: if_splits intro!: token_intros)

section \<open>Everything that can happen\<close>

text \<open>
  \<open>nns_reach P U w w'\<close>: the states \<open>w\<close> and \<open>w'\<close> of this contract and of the others are connected
  by operations in environments that satisfy \<open>P\<close>, on domain names of \<open>U\<close>. The payment of a
  token calls the receiver, which may do to this contract whatever the relation allows.
\<close>

inductive nns_reach :: "(env \<Rightarrow> bool) \<Rightarrow> (string \<Rightarrow> bool) \<Rightarrow> nns \<times> 'o \<Rightarrow> nns \<times> 'o \<Rightarrow> bool" for P U where
  same: "nns_reach P U w w"
| step: "nns_reach P U u v \<Longrightarrow> nns_reach P U v w \<Longrightarrow> nns_reach P U u w"
| others: "nns_reach P U (c, x) (c, y)"
| new_transaction: "nns_reach P U (c, x) (c\<lparr>notifications := []\<rparr>, x)"
| register: "P E \<Longrightarrow> U name \<Longrightarrow> nns_Register E pay name owner email refresh retry expire ttl w = Inr (b, w') \<Longrightarrow>
    (\<And>to frm n i d u v. pay to frm n i d u = Inr v \<Longrightarrow> nns_reach P U u v) \<Longrightarrow> nns_reach P U w w'"
| tld: "P E \<Longrightarrow> U name \<Longrightarrow> saveCommitteeDomain E name email refresh retry expire ttl c = Inr c' \<Longrightarrow> nns_reach P U (c, x) (c', x)"
| transfer: "P E \<Longrightarrow> U name \<Longrightarrow> nns_Transfer E pay to name data w = Inr (b, w') \<Longrightarrow>
    (\<And>to frm n i d u v. pay to frm n i d u = Inr v \<Longrightarrow> nns_reach P U u v) \<Longrightarrow> nns_reach P U w w'"
| renew: "P E \<Longrightarrow> nns_Renew E name years c = Inr (n, c') \<Longrightarrow> nns_reach P U (c, x) (c', x)"
| set_admin: "P E \<Longrightarrow> nns_SetAdmin E name admin c = Inr c' \<Longrightarrow> nns_reach P U (c, x) (c', x)"
| set_record: "P E \<Longrightarrow> nns_SetRecord E name typ i dat c = Inr c' \<Longrightarrow> nns_reach P U (c, x) (c', x)"
| add_record: "P E \<Longrightarrow> nns_AddRecord E name typ dat c = Inr c' \<Longrightarrow> nns_reach P U (c, x) (c', x)"
| add_neo: "P E \<Longrightarrow> nns_AddNeoRecord E name a c = Inr c' \<Longrightarrow> nns_reach P U (c, x) (c', x)"
| delete_records: "P E \<Longrightarrow> nns_DeleteRecords E name typ c = Inr c' \<Longrightarrow> nns_reach P U (c, x) (c', x)"
| delete_neo: "P E \<Longrightarrow> nns_DeleteNeoRecord E name a c = Inr c' \<Longrightarrow> nns_reach P U (c, x) (c', x)"
| soa: "P E \<Longrightarrow> nns_UpdateSOA E name email refresh retry expire ttl c = Inr c' \<Longrightarrow> nns_reach P U (c, x) (c', x)"
| price: "P E \<Longrightarrow> nns_SetPrice E n c = Inr c' \<Longrightarrow> nns_reach P U (c, x) (c', x)"

lemma tld_by_committee: "nns_RegisterTLD E name email refresh retry expire ttl c = Inr c' \<Longrightarrow> P E \<Longrightarrow> U name \<Longrightarrow>
    nns_reach P U (c, x) (c', x)"
  by (rule nns_reach.tld) (auto simp: nns_RegisterTLD_def)

section \<open>The operations on tokens, read backwards\<close>

definition name_at :: "nns \<Rightarrow> bytes \<Rightarrow> name_state option" where
  "name_at c t = (case LocalGet (getNameStateKey t) c of Some (Ser (SName ns)) \<Rightarrow> Some ns | _ \<Rightarrow> None)"

lemma nns_name_Inr [simp]: "nns_name v = Inr ns \<longleftrightarrow> v = Ser (SName ns)"
proof (cases v)
  case (Ser x)
  then show ?thesis by (cases x) (auto simp: nns_name_def)
qed (simp add: nns_name_def deserialize_def)

lemma getNameStateWithKey_Inr:
  "getNameStateWithKey E t c = Inr ns \<longleftrightarrow> LocalGet (getNameStateKey t) c = Some (Ser (SName ns)) \<and> rt_time E < Expiration ns"
  by (auto simp: getNameStateWithKey_def ensureNotExpired_def split: option.splits if_splits)

lemma string_split_single: "length (string_split c s) = 1 \<longleftrightarrow> c \<notin> set s"
proof
  assume "length (string_split c s) = 1"
  then obtain w where "string_split c s = [w]" by (cases "string_split c s") auto
  then have "s = w" using string_join_split [of c s] by simp
  then show "c \<notin> set s" using \<open>string_split c s = [w]\<close> string_split_no_sep [of w c s] by simp
qed (simp add: string_split_word)

definition change_owner :: "env \<Rightarrow> bytes \<Rightarrow> name_state \<Rightarrow> bytes \<Rightarrow> nns \<Rightarrow> nns res" where
  "change_owner E name ns to c = (if Owner ns \<noteq> to
     then andThen (updateBalance E name (Owner ns) (- 1)
            (putNameStateWithKey (getTokenKey E name) (ns\<lparr>Owner := to, Admin := None\<rparr>) c)) (updateBalance E name to 1)
     else Inr c)"

lemma nns_Transfer_result:
  assumes "nns_Transfer E pay to name data (c, x) = Inr (b, w')"
  obtains (refused) "w' = (c, x)" "\<not> b"
  | (moved) ns c3 where "CHR ''.'' \<in> set name" "isValid to" "b"
      "LocalGet (getNameStateKey (getTokenKey E name)) c = Some (Ser (SName ns))" "rt_time E < Expiration ns"
      "witnessed E (Owner ns)" "change_owner E name ns to c = Inr c3"
      "nns_postTransfer E pay (Owner ns) to name data (c3, x) = Inr w'"
proof -
  have dot: "length (string_split CHR ''.'' name) \<noteq> 1 \<Longrightarrow> CHR ''.'' \<in> set name"
    using string_split_single by blast
  have eq: "nns_Transfer E pay to name data (c, x) = (if \<not> isValid to then Inl (Panic ''invalid receiver'')
      else if length (string_split CHR ''.'' name) = 1 then Inl (Panic ''token not found'')
      else andThen (getNameStateWithKey E (getTokenKey E name) c) (\<lambda>ns. andThen (CheckWitness E (Owner ns)) (\<lambda>ok.
        if \<not> ok then Inr (False, c, x) else andThen (change_owner E name ns to c) (\<lambda>c2.
          andThen (nns_postTransfer E pay (Owner ns) to name data (c2, x)) (\<lambda>w'. Inr (True, w'))))))"
    by (simp only: nns_Transfer_def Let_def change_owner_def prod.case)
  have "(w' = (c, x) \<and> \<not> b) \<or> (\<exists>ns c3. CHR ''.'' \<in> set name \<and> isValid to \<and> b \<and>
      LocalGet (getNameStateKey (getTokenKey E name)) c = Some (Ser (SName ns)) \<and> rt_time E < Expiration ns \<and>
      witnessed E (Owner ns) \<and> change_owner E name ns to c = Inr c3 \<and>
      nns_postTransfer E pay (Owner ns) to name data (c3, x) = Inr w')"
    using assms dot unfolding eq by (auto simp: getNameStateWithKey_Inr witnessed_def split: if_split_asm)
  then show ?thesis using refused moved by blast
qed

lemma splitAndCheck_fragments: "splitAndCheck name = Inr fs \<Longrightarrow> fs = string_split CHR ''.'' name"
  by (auto simp: splitAndCheck_def safeSplitAndCheck_def Let_def split: if_splits)

lemma Register_result:
  assumes "nns_Register E pay name owner email refresh retry expire ttl (c, x) = Inr (b, w')"
  obtains (taken) "w' = (c, x)" "\<not> b"
  | (registered) old c1 c2 c3 where "CHR ''.'' \<in> set name" "isValid owner" "witnessed E owner" "b"
      "if LocalGet (getNameStateKey (getTokenKey E name)) c = None
       then old = [] \<and> updateTotalSupply 1 c = Inr c1
       else \<exists>ns. LocalGet (getNameStateKey (getTokenKey E name)) c = Some (Ser (SName ns)) \<and> Expiration ns \<le> rt_time E \<and>
         old = Owner ns \<and> updateBalance E name (Owner ns) (- 1) c = Inr c1"
      "saveDomain E name email refresh retry expire ttl owner c1 = Inr c2" "updateBalance E name owner 1 c2 = Inr c3"
      "nns_postTransfer E pay old owner name ANull (c3, x) = Inr w'"
proof -
  let ?key = "getNameStateKey (getTokenKey E name)"
  let ?pre = "case LocalGet ?key c of
         Some v \<Rightarrow> andThen (nns_name v) (\<lambda>ns.
           if rt_time E < Expiration ns then Inr None
           else andThen (updateBalance E name (Owner ns) (- 1) c) (\<lambda>c1. Inr (Some (Owner ns, c1))))
       | None \<Rightarrow> andThen (updateTotalSupply 1 c) (\<lambda>c1. Inr (Some ([], c1)))"
  let ?post = "\<lambda>r. case r of None \<Rightarrow> Inr (False, c, x)
     | Some (oldOwner, c1) \<Rightarrow>
         andThen (saveDomain E name email refresh retry expire ttl owner c1) (\<lambda>c2.
         andThen (updateBalance E name owner 1 c2) (\<lambda>c3.
         andThen (nns_postTransfer E pay oldOwner owner name ANull (c3, x)) (\<lambda>w'. Inr (True, w'))))"
  obtain fs r where fs: "splitAndCheck name = Inr fs" "length fs \<noteq> 1" "isValid owner" "witnessed E owner"
    and r: "?pre = Inr r" "?post r = Inr (b, w')"
    using assms unfolding nns_Register_def Let_def prod.case
    by (elim andThen_InrE guard_InrE) (rule that, assumption, simp, simp, simp, assumption, assumption)
  then have "length (string_split CHR ''.'' name) \<noteq> 1" using splitAndCheck_fragments by blast
  then have dot: "CHR ''.'' \<in> set name" using string_split_single by blast
  show ?thesis
  proof (cases r)
    case None
    then show ?thesis using r(2) taken by auto
  next
    case (Some p)
    obtain old c1 where p: "p = (old, c1)" by (cases p)
    have "if LocalGet ?key c = None then old = [] \<and> updateTotalSupply 1 c = Inr c1
       else \<exists>ns. LocalGet ?key c = Some (Ser (SName ns)) \<and> Expiration ns \<le> rt_time E \<and>
         old = Owner ns \<and> updateBalance E name (Owner ns) (- 1) c = Inr c1"
      using r(1) Some p by (auto split: option.splits if_split_asm)
    moreover obtain c2 c3 where "saveDomain E name email refresh retry expire ttl owner c1 = Inr c2"
      "updateBalance E name owner 1 c2 = Inr c3" "nns_postTransfer E pay old owner name ANull (c3, x) = Inr w'" "b"
      using r(2) Some p by auto
    ultimately show ?thesis using registered dot fs(3,4) by blast
  qed
qed

section \<open>The accounting of the tokens\<close>

type_synonym names = "bytes \<Rightarrow> nns_ser sval option"

text \<open>A state read as names, balances, token lists and the supply.\<close>

definition tokens_are ::
  "names \<Rightarrow> (bytes \<Rightarrow> int) \<Rightarrow> (bytes \<Rightarrow> bytes \<Rightarrow> nns_ser sval option) \<Rightarrow> int \<Rightarrow> nns \<Rightarrow> bool" where
  "tokens_are N B I n c \<longleftrightarrow> contract_ok c \<and> (\<forall>t. LocalGet (getNameStateKey t) c = N t) \<and>
     (\<forall>a. length a = Hash160Len \<longrightarrow> LocalGet (nns_balanceKey a) c = (if B a = 0 then None else Some (Raw (int_bytes (B a))))) \<and>
     (\<forall>a t. length a = Hash160Len \<longrightarrow> LocalGet (accountTokenKey a t) c = I a t) \<and>
     LocalGet [prefixTotalSupply] c = Some (Raw (int_bytes n))"

lemma token_keys_distinct [simp]:
  "getNameStateKey t = getNameStateKey u \<longleftrightarrow> t = u" "nns_balanceKey a = nns_balanceKey b \<longleftrightarrow> a = b"
  "getNameStateKey t \<noteq> nns_balanceKey a" "nns_balanceKey a \<noteq> getNameStateKey t" "getNameStateKey t \<noteq> accountTokenKey a u"
  "accountTokenKey a u \<noteq> getNameStateKey t" "nns_balanceKey a \<noteq> accountTokenKey b u" "accountTokenKey b u \<noteq> nns_balanceKey a"
  "getNameStateKey t \<noteq> [prefixTotalSupply]" "nns_balanceKey a \<noteq> [prefixTotalSupply]" "accountTokenKey a t \<noteq> [prefixTotalSupply]"
  "[prefixTotalSupply] \<noteq> getNameStateKey t" "[prefixTotalSupply] \<noteq> nns_balanceKey a" "[prefixTotalSupply] \<noteq> accountTokenKey a t"
  by (simp_all add: getNameStateKey_def nns_balanceKey_def accountTokenKey_def nns_prefix_defs)

lemma accountTokenKey_inject:
  "length a = Hash160Len \<Longrightarrow> length b = Hash160Len \<Longrightarrow> accountTokenKey a t = accountTokenKey b u \<longleftrightarrow> a = b \<and> t = u"
  by (auto simp: accountTokenKey_def)

lemma tokens_are_same: "token_same c d \<Longrightarrow> tokens_are N B I n c \<Longrightarrow> tokens_are N B I n d"
  by (simp add: tokens_are_def token_same_def)

lemma tokens_are_name: "tokens_are N B I n c \<Longrightarrow> tokens_are (N(t \<mapsto> Ser (SName ns))) B I n (putNameStateWithKey t ns c)"
  by (auto simp: tokens_are_def putNameStateWithKey_def)

lemma tokens_are_supply:
  "tokens_are N B I n c \<Longrightarrow> updateTotalSupply d c = Inr c' \<Longrightarrow> tokens_are N B I (n + d) c'"
  by (auto simp: tokens_are_def updateTotalSupply_def nns_TotalSupply_def put_int_def)

lemma tokens_are_balance:
  assumes "tokens_are N B I n c" and "length acc = Hash160Len" and "updateBalance E name acc d c = Inr c'"
  shows "tokens_are N (B(acc := B acc + d))
    (\<lambda>a t. if a = acc \<and> t = getTokenKey E name then (if d < 0 then None else Some (Raw name)) else I a t) n c'"
proof -
  have old: "(case LocalGet (nns_balanceKey acc) c of None \<Rightarrow> Inr 0 | Some v \<Rightarrow> to_integer (Some v)) = Inr (B acc)"
    using assms(1,2) by (auto simp: tokens_are_def split: option.splits)
  show ?thesis using assms old by (auto simp: tokens_are_def updateBalance_def Let_def accountTokenKey_inject put_int_def)
qed

text \<open>The tokens of an account, as the stored names have it, and all tokens.\<close>

definition owner_of :: "names \<Rightarrow> bytes \<Rightarrow> bytes option" where
  "owner_of N t = (case N t of Some (Ser (SName ns)) \<Rightarrow> Some (Owner ns) | _ \<Rightarrow> None)"

definition tokens_of :: "names \<Rightarrow> bytes \<Rightarrow> bytes set" where
  "tokens_of N a = {t. owner_of N t = Some a}"

definition all_tokens :: "names \<Rightarrow> bytes set" where
  "all_tokens N = {t. \<exists>a. owner_of N t = Some a \<and> a \<noteq> []}"

text \<open>
  What a stored name must look like: its key is the digest \<open>H\<close> of the name, a top-level domain has
  no owner and any other one has an account.
\<close>

definition name_ok :: "(bytes \<Rightarrow> bytes) \<Rightarrow> (string \<Rightarrow> bool) \<Rightarrow> bytes \<Rightarrow> name_state \<Rightarrow> bool" where
  "name_ok H U t ns \<longleftrightarrow> t = H (Name ns) \<and> U (Name ns) \<and>
     (if CHR ''.'' \<in> set (Name ns) then length (Owner ns) = Hash160Len else Owner ns = [])"

definition index_of :: "names \<Rightarrow> bytes \<Rightarrow> bytes \<Rightarrow> nns_ser sval option" where
  "index_of N a t = (case N t of Some (Ser (SName ns)) \<Rightarrow> if Owner ns = a then Some (Raw (Name ns)) else None | _ \<Rightarrow> None)"

definition accounts_are :: "(bytes \<Rightarrow> bytes) \<Rightarrow> (string \<Rightarrow> bool) \<Rightarrow> names \<Rightarrow> nns \<Rightarrow> bool" where
  "accounts_are H U N c \<longleftrightarrow>
     tokens_are N (\<lambda>a. int (card (tokens_of N a))) (index_of N) (int (card (all_tokens N))) c \<and>
     (\<forall>t v. N t = Some v \<longrightarrow> (\<exists>ns. v = Ser (SName ns) \<and> name_ok H U t ns))"

definition accounting :: "(bytes \<Rightarrow> bytes) \<Rightarrow> (string \<Rightarrow> bool) \<Rightarrow> nns \<Rightarrow> bool" where
  "accounting H U c \<longleftrightarrow> (\<exists>N. accounts_are H U N c)"

lemma accounting_same: "token_same c d \<Longrightarrow> accounting H U c \<Longrightarrow> accounting H U d"
  using tokens_are_same unfolding accounting_def accounts_are_def by blast

lemma accounting_Notify [simp]: "accounting H U c \<Longrightarrow> accounting H U (Notify e c)"
  by (rule accounting_same) (rule token_intros token_same_refl)+

lemma owner_of_None: "owner_of N t = Some a \<Longrightarrow> N t \<noteq> None"
  by (auto simp: owner_of_def split: option.splits)

lemma finite_names: "tokens_are N B I n c \<Longrightarrow> finite {t. N t \<noteq> None}"
proof -
  assume t: "tokens_are N B I n c"
  have "getNameStateKey ` {t. N t \<noteq> None} \<subseteq> fst ` set (LocalFind [] c)"
  proof
    fix k assume "k \<in> getNameStateKey ` {t. N t \<noteq> None}"
    then obtain u v where "k = getNameStateKey u" "LocalGet k c = Some v" using t by (auto simp: tokens_are_def)
    then show "k \<in> fst ` set (LocalFind [] c)"
      using t LocalFind_iff [of c k v "[]"] by (force simp: tokens_are_def)
  qed
  then have "finite (getNameStateKey ` {t. N t \<noteq> None})" by (rule finite_subset) simp
  then show ?thesis by (rule finite_imageD) (auto simp: inj_on_def)
qed

lemma finite_tokens:
  assumes "finite {t. N t \<noteq> None}"
  shows "finite (tokens_of N a)" "finite (all_tokens N)"
  using owner_of_None by (auto simp: tokens_of_def all_tokens_def intro: finite_subset [OF _ assms])

lemma card_remove_int: "finite A \<Longrightarrow> x \<in> A \<Longrightarrow> int (card (A - {x})) = int (card A) - 1"
  using card_Suc_Diff1 [of A x] by simp

text \<open>A changed or new name moves one token.\<close>

lemma tokens_of_update:
  "tokens_of (N(t \<mapsto> Ser (SName ns))) a = (if Owner ns = a then insert t (tokens_of N a) else tokens_of N a - {t})"
  "all_tokens (N(t \<mapsto> Ser (SName ns))) = (if Owner ns \<noteq> [] then insert t (all_tokens N) else all_tokens N - {t})"
  by (auto simp: tokens_of_def all_tokens_def owner_of_def)

lemma card_tokens_update:
  assumes "finite {t. N t \<noteq> None}"
  shows "int (card (tokens_of (N(t \<mapsto> Ser (SName ns))) a)) = int (card (tokens_of N a)) +
      (if Owner ns = a \<and> owner_of N t \<noteq> Some a then 1 else 0) - (if Owner ns \<noteq> a \<and> owner_of N t = Some a then 1 else 0)"
    "int (card (all_tokens (N(t \<mapsto> Ser (SName ns))))) = int (card (all_tokens N)) +
      (if Owner ns \<noteq> [] \<and> t \<notin> all_tokens N then 1 else 0) - (if Owner ns = [] \<and> t \<in> all_tokens N then 1 else 0)"
proof -
  note fin = finite_tokens [OF assms]
  have "t \<in> tokens_of N a \<longleftrightarrow> owner_of N t = Some a" by (simp add: tokens_of_def)
  then show "int (card (tokens_of (N(t \<mapsto> Ser (SName ns))) a)) = int (card (tokens_of N a)) +
      (if Owner ns = a \<and> owner_of N t \<noteq> Some a then 1 else 0) - (if Owner ns \<noteq> a \<and> owner_of N t = Some a then 1 else 0)"
    using fin(1) [of a] card_remove_int [OF fin(1) [of a], of t]
    by (simp add: tokens_of_update(1) card_insert_if del: fun_upd_apply)
  show "int (card (all_tokens (N(t \<mapsto> Ser (SName ns))))) = int (card (all_tokens N)) +
      (if Owner ns \<noteq> [] \<and> t \<notin> all_tokens N then 1 else 0) - (if Owner ns = [] \<and> t \<in> all_tokens N then 1 else 0)"
    using fin(2) card_remove_int [OF fin(2), of t]
    by (simp add: tokens_of_update(2) card_insert_if del: fun_upd_apply)
qed

end
