(* ===== verification/NNS_Accounting.thy ===== *)
theory NNS_Accounting
  imports NNS_State
begin

text \<open>
  Every operation of the NNS contract keeps the accounting of the tokens, as long as the digests of the
  names in use do not collide.
\<close>

lemma accounts_are_update:
  assumes "accounts_are H U N c" and "tokens_are (N(t \<mapsto> Ser (SName ns))) B I n d" and "name_ok H U t ns"
    and "\<And>a. length a = Hash160Len \<Longrightarrow> B a = int (card (tokens_of N a)) +
      (if Owner ns = a \<and> owner_of N t \<noteq> Some a then 1 else 0) - (if Owner ns \<noteq> a \<and> owner_of N t = Some a then 1 else 0)"
    and "\<And>a u. length a = Hash160Len \<Longrightarrow>
      I a u = (if u = t then (if Owner ns = a then Some (Raw (Name ns)) else None) else index_of N a u)"
    and "n = int (card (all_tokens N)) + (if Owner ns \<noteq> [] \<and> t \<notin> all_tokens N then 1 else 0) -
      (if Owner ns = [] \<and> t \<in> all_tokens N then 1 else 0)"
  shows "accounting H U d"
proof -
  let ?N = "N(t \<mapsto> Ser (SName ns))"
  have fin: "finite {t. N t \<noteq> None}" using assms(1) finite_names by (auto simp: accounts_are_def)
  have "tokens_are ?N (\<lambda>a. int (card (tokens_of ?N a))) (index_of ?N) (int (card (all_tokens ?N))) d"
    using assms(2,4,5,6) card_tokens_update [OF fin, of t ns] by (simp add: tokens_are_def index_of_def)
  moreover have "\<forall>u v. ?N u = Some v \<longrightarrow> (\<exists>ns. v = Ser (SName ns) \<and> name_ok H U u ns)"
    using assms(1,3) by (auto simp: accounts_are_def)
  ultimately show ?thesis unfolding accounting_def accounts_are_def by blast
qed

text \<open>The stored name under the digest of a name in use is that name.\<close>

lemma stored_name:
  assumes "accounts_are H U N c" and "inj_on H {n. U n}" and "U name" and "LocalGet (getNameStateKey (H name)) c = Some v"
  shows "\<exists>ns. v = Ser (SName ns) \<and> N (H name) = Some v \<and> Name ns = name \<and> name_ok H U (H name) ns \<and> owner_of N (H name) = Some (Owner ns)"
proof -
  have N: "N (H name) = Some v" using assms(1,4) by (simp add: accounts_are_def tokens_are_def)
  then obtain ns where ns: "v = Ser (SName ns)" "name_ok H U (H name) ns" using assms(1) by (auto simp: accounts_are_def)
  then have "Name ns = name" using assms(2,3) by (auto simp: name_ok_def dest: inj_onD)
  then show ?thesis using ns N by (simp add: owner_of_def)
qed

lemma token_same_saveDomain:
  assumes "saveDomain E name email refresh retry expire ttl owner c = Inr d"
  shows "token_same (putNameStateWithKey (getTokenKey E name)
    \<lparr>Owner = owner, Name = name, Expiration = rt_time E + expire * millisecondsInSecond, Admin = None\<rparr> c) d"
  using assms token_same_putSoaRecord by (auto simp: saveDomain_def)

lemma accounting_change_owner:
  assumes "accounting H U c" and "inj_on H {n. U n}" and "U name" and "rt_ripemd160 E = H" and "CHR ''.'' \<in> set name"
    and "LocalGet (getNameStateKey (getTokenKey E name)) c = Some (Ser (SName ns))" and "length to = Hash160Len"
    and "change_owner E name ns to c = Inr d"
  shows "accounting H U d"
proof (cases "Owner ns = to")
  case True
  then show ?thesis using assms(1,8) by (simp add: change_owner_def)
next
  case False
  obtain N where N: "accounts_are H U N c" using assms(1) by (auto simp: accounting_def)
  have key: "getTokenKey E name = H name" using assms(4) by (simp add: getTokenKey_def)
  have ns: "Name ns = name" "name_ok H U (H name) ns" "owner_of N (H name) = Some (Owner ns)"
    using stored_name [OF N assms(2,3)] assms(6) by (auto simp: key)
  then have own: "length (Owner ns) = Hash160Len" using assms(5) by (simp add: name_ok_def)
  let ?ns = "ns\<lparr>Owner := to, Admin := None\<rparr>"
  obtain c2 where c2: "updateBalance E name (Owner ns) (- 1) (putNameStateWithKey (H name) ?ns c) = Inr c2"
    "updateBalance E name to 1 c2 = Inr d" using assms(8) False by (auto simp: change_owner_def key)
  have "tokens_are N (\<lambda>a. int (card (tokens_of N a))) (index_of N) (int (card (all_tokens N))) c"
    using N by (simp add: accounts_are_def)
  note t = tokens_are_balance [OF tokens_are_balance [OF tokens_are_name [OF this] own c2(1)] assms(7) c2(2)]
  have "index_of N a (H name) = (if Owner ns = a then Some (Raw name) else None)" for a
    using stored_name [OF N assms(2,3)] assms(6) by (auto simp: index_of_def key)
  moreover have "H name \<in> all_tokens N" using ns(3) own by (auto simp: all_tokens_def)
  ultimately show ?thesis using ns False assms(3,5,7) own
    by (intro accounts_are_update [OF N t]) (auto simp: key name_ok_def)
qed

lemma accounting_register:
  assumes "accounting H U c" and "inj_on H {n. U n}" and "U name" and "rt_ripemd160 E = H" and "CHR ''.'' \<in> set name"
    and "length owner = Hash160Len"
    and pre: "if LocalGet (getNameStateKey (getTokenKey E name)) c = None
       then old = [] \<and> updateTotalSupply 1 c = Inr c1
       else \<exists>ns. LocalGet (getNameStateKey (getTokenKey E name)) c = Some (Ser (SName ns)) \<and> Expiration ns \<le> rt_time E \<and>
         old = Owner ns \<and> updateBalance E name (Owner ns) (- 1) c = Inr c1"
    and "saveDomain E name email refresh retry expire ttl owner c1 = Inr c2" and "updateBalance E name owner 1 c2 = Inr d"
  shows "accounting H U d"
proof -
  obtain N where N: "accounts_are H U N c" using assms(1) by (auto simp: accounting_def)
  have key: "getTokenKey E name = H name" using assms(4) by (simp add: getTokenKey_def)
  let ?ns = "\<lparr>Owner = owner, Name = name, Expiration = rt_time E + expire * millisecondsInSecond, Admin = None\<rparr>"
  have tok: "tokens_are N (\<lambda>a. int (card (tokens_of N a))) (index_of N) (int (card (all_tokens N))) c"
    using N by (simp add: accounts_are_def)
  have ok: "name_ok H U (H name) ?ns" using assms(3,5,6) by (simp add: name_ok_def)
  show ?thesis
  proof (cases "LocalGet (getNameStateKey (getTokenKey E name)) c")
    case None
    then have c1: "updateTotalSupply 1 c = Inr c1" using pre by simp
    have "N (H name) = None" using None tok by (simp add: tokens_are_def key)
    then have free: "owner_of N (H name) = None" "H name \<notin> all_tokens N" "\<And>a. index_of N a (H name) = None"
      by (simp_all add: owner_of_def all_tokens_def index_of_def)
    note t = tokens_are_balance [OF tokens_are_same [OF token_same_saveDomain [OF assms(8)]
        tokens_are_name [OF tokens_are_supply [OF tok c1]]] assms(6,9)]
    show ?thesis using free assms(6)
      by (intro accounts_are_update [OF N t [unfolded key] ok]) auto
  next
    case (Some v)
    obtain ns where ns: "v = Ser (SName ns)" "N (H name) = Some v" "Name ns = name" "name_ok H U (H name) ns"
      "owner_of N (H name) = Some (Owner ns)" using stored_name [OF N assms(2,3)] Some by (auto simp: key)
    then have c1: "updateBalance E name (Owner ns) (- 1) c = Inr c1" using pre Some by auto
    have own: "length (Owner ns) = Hash160Len" using ns(3,4) assms(5) by (simp add: name_ok_def)
    note t = tokens_are_balance [OF tokens_are_same [OF token_same_saveDomain [OF assms(8)]
        tokens_are_name [OF tokens_are_balance [OF tok own c1]]] assms(6,9)]
    have "H name \<in> all_tokens N" using ns(5) own by (auto simp: all_tokens_def)
    then show ?thesis using ns own assms(6)
      by (intro accounts_are_update [OF N t [unfolded key] ok]) (auto simp: index_of_def)
  qed
qed

lemma accounting_tld:
  assumes "accounting H U c" and "inj_on H {n. U n}" and "U name" and "rt_ripemd160 E = H"
    and "saveCommitteeDomain E name email refresh retry expire ttl c = Inr d"
  shows "accounting H U d"
proof -
  obtain fs where fs: "splitAndCheck name = Inr fs" "length fs = 1"
    and s: "saveDomain E name email refresh retry expire ttl [] (put_int (makeTLDKey name) 0 c) = Inr d"
    using assms(5) by (auto simp: saveCommitteeDomain_def Let_def split: if_splits)
  have dot: "CHR ''.'' \<notin> set name" using fs splitAndCheck_fragments string_split_single by blast
  have "token_same c (put_int (makeTLDKey name) 0 c)" by (intro token_intros) simp_all
  then have "accounting H U (put_int (makeTLDKey name) 0 c)" using accounting_same assms(1) by blast
  then obtain N where N: "accounts_are H U N (put_int (makeTLDKey name) 0 c)" by (auto simp: accounting_def)
  have key: "getTokenKey E name = H name" using assms(4) by (simp add: getTokenKey_def)
  have tok: "tokens_are N (\<lambda>a. int (card (tokens_of N a))) (index_of N) (int (card (all_tokens N))) (put_int (makeTLDKey name) 0 c)"
    using N by (simp add: accounts_are_def)
  note t = tokens_are_same [OF token_same_saveDomain [OF s] tokens_are_name [OF tok]]
  have "owner_of N (H name) = None \<or> owner_of N (H name) = Some []"
  proof (cases "N (H name)")
    case (Some v)
    then show ?thesis using stored_name [OF N assms(2,3), of v] tok dot by (auto simp: tokens_are_def name_ok_def)
  qed (simp add: owner_of_def)
  moreover from this have "index_of N a (H name) = None" if "length a = Hash160Len" for a
    using that by (auto simp: index_of_def owner_of_def split: option.splits sval.splits nns_ser.splits)
  ultimately show ?thesis using dot assms(3)
    by (intro accounts_are_update [OF N t [unfolded key]]) (auto simp: name_ok_def all_tokens_def)
qed

text \<open>A change of expiration or administrator.\<close>

lemma accounting_same_owner:
  assumes "accounting H U c" and "LocalGet (getNameStateKey t) c = Some (Ser (SName ns))"
    and "Owner ns' = Owner ns" and "Name ns' = Name ns" and "rt_ripemd160 E = H"
  shows "accounting H U (putNameState E ns' c)"
proof -
  obtain N where N: "accounts_are H U N c" using assms(1) by (auto simp: accounting_def)
  then have n: "N t = Some (Ser (SName ns))" using assms(2) by (simp add: accounts_are_def tokens_are_def)
  then have ok: "name_ok H U t ns" using N by (auto simp: accounts_are_def)
  have tok: "tokens_are N (\<lambda>a. int (card (tokens_of N a))) (index_of N) (int (card (all_tokens N))) c"
    using N by (simp add: accounts_are_def)
  have "putNameState E ns' c = putNameStateWithKey t ns' c"
    using ok assms(4,5) by (simp add: putNameState_def getTokenKey_def name_ok_def)
  moreover have "owner_of N t = Some (Owner ns)" using n by (simp add: owner_of_def)
  moreover have "accounting H U (putNameStateWithKey t ns' c)"
    using ok assms(3,4) n calculation
    by (intro accounts_are_update [OF N tokens_are_name [OF tok]]) (auto simp: name_ok_def index_of_def all_tokens_def)
  ultimately show ?thesis by simp
qed

lemma getFragmentedNameState_stored:
  "getFragmentedNameState E name fs c = Inr ns \<Longrightarrow> LocalGet (getNameStateKey (getTokenKey E name)) c = Some (Ser (SName ns))"
  by (auto simp: getFragmentedNameState_def getNameStateWithKey_Inr Let_def split: if_splits)

lemma Renew_result:
  assumes "nns_Renew E name years c = Inr (n, c')"
  obtains ns where "LocalGet (getNameStateKey (getTokenKey E name)) c = Some (Ser (SName ns))" "0 < years"
    "c' = Notify (NnsRenew name (Expiration ns) n) (putNameState E (ns\<lparr>Expiration := n\<rparr>) c)"
    "n = Expiration ns + millisecondsInYear * years"
  using assms by (auto simp: nns_Renew_def getNameState_def Let_def split: if_splits dest!: getFragmentedNameState_stored)

lemma SetAdmin_result:
  assumes "nns_SetAdmin E name admin c = Inr c'"
  obtains ns where "LocalGet (getNameStateKey (getTokenKey E name)) c = Some (Ser (SName ns))" "witnessed E (Owner ns)"
    "c' = Notify (NnsSetAdmin name (Admin ns) admin) (putNameState E (ns\<lparr>Admin := admin\<rparr>) c)"
  using assms by (auto simp: nns_SetAdmin_def Let_def split: if_splits dest!: getFragmentedNameState_stored)

lemma postTransfer_keeps:
  assumes "nns_postTransfer E pay frm to name data w = Inr w'" and "Q (Notify (NnsTransfer frm to 1 name) (fst w))"
    and "\<And>to frm n i d u v. pay to frm n i d u = Inr v \<Longrightarrow> Q (fst u) \<Longrightarrow> Q (fst v)"
  shows "Q (fst w')"
  using assms by (fastforce simp: nns_postTransfer_def Let_def split: if_splits)

lemma accounting_reach:
  assumes "nns_reach (\<lambda>E. rt_ripemd160 E = H) U w w'" and inj: "inj_on H {n. U n}" and "accounting H U (fst w)"
  shows "accounting H U (fst w')"
  using assms(1,3)
proof (induction rule: nns_reach.induct)
  case (register E name pay owner email refresh retry expire ttl w b w')
  obtain c x where w: "w = (c, x)" by (cases w)
  from register.hyps(3) [unfolded w] show ?case
  proof (cases rule: Register_result)
    case taken
    then show ?thesis using register.prems w by simp
  next
    case (registered old c1 c2 c3)
    have "accounting H U c3"
      using accounting_register [OF _ inj register.hyps(2,1) registered(1) _ registered(5,6,7)] registered(2) register.prems
      by (simp add: w isValid_def)
    then show ?thesis using postTransfer_keeps [OF registered(8), of "accounting H U"] register.IH by simp
  qed
next
  case (transfer E name pay to data w b w')
  obtain c x where w: "w = (c, x)" by (cases w)
  from transfer.hyps(3) [unfolded w] show ?case
  proof (cases rule: nns_Transfer_result)
    case refused
    then show ?thesis using transfer.prems w by simp
  next
    case (moved ns c3)
    have "accounting H U c3"
      using accounting_change_owner [OF _ inj transfer.hyps(2,1) moved(1,4) _ moved(7)] moved(2) transfer.prems
      by (simp add: w isValid_def)
    then show ?thesis using postTransfer_keeps [OF moved(8), of "accounting H U"] transfer.IH by simp
  qed
next
  case (tld E name email refresh retry expire ttl c c' x)
  then show ?case using accounting_tld [OF _ inj] by simp
next
  case (renew E name years c n c' x)
  from renew.hyps(2) show ?case
    by (rule Renew_result) (use renew accounting_same_owner [of H U c] in auto)
next
  case (set_admin E name admin c c' x)
  from set_admin.hyps(2) show ?case
    by (rule SetAdmin_result) (use set_admin accounting_same_owner [of H U c] in auto)
next
  case (new_transaction c x)
  have "token_same c (c\<lparr>notifications := []\<rparr>)" by (simp add: token_same_def contract_ok_def LocalGet_def)
  then show ?case using accounting_same new_transaction by fastforce
qed (auto intro: accounting_same token_same_SetRecord token_same_AddRecord token_same_AddNeoRecord
    token_same_DeleteRecords token_same_DeleteNeoRecord token_same_UpdateSOA token_same_SetPrice)

end
