(* ===== verification/NNS_Properties.thy ===== *)
theory NNS_Properties
  imports NNS_Accounting Sample
begin

text \<open>
  What the NNS contract promises: balances, token lists and the supply agree with the registered names; a
  domain changes hands by its owner's signature only while it has not expired; which names are well formed;
  and how far a resolution follows aliases.
\<close>

section \<open>Reading the accounting\<close>

text \<open>The registered domains, and those of an account, as they are stored.\<close>

definition domains :: "nns \<Rightarrow> string set" where
  "domains c = {d. \<exists>t ns. LocalGet (getNameStateKey t) c = Some (Ser (SName ns)) \<and> Name ns = d \<and> Owner ns \<noteq> []}"

definition domains_of :: "bytes \<Rightarrow> nns \<Rightarrow> string set" where
  "domains_of a c = {d. \<exists>t ns. LocalGet (getNameStateKey t) c = Some (Ser (SName ns)) \<and> Name ns = d \<and> Owner ns = a}"

definition token_name :: "names \<Rightarrow> bytes \<Rightarrow> string" where
  "token_name N t = (case N t of Some (Ser (SName ns)) \<Rightarrow> Name ns | _ \<Rightarrow> [])"

lemma domains_tokens:
  assumes "accounts_are H U N c"
  shows "domains c = token_name N ` all_tokens N"
    "domains_of a c = token_name N ` tokens_of N a"
    "inj_on (token_name N) {t. N t \<noteq> None}"
proof -
  have N: "LocalGet (getNameStateKey t) c = N t" for t using assms by (simp add: accounts_are_def tokens_are_def)
  have ok: "\<exists>ns. v = Ser (SName ns) \<and> name_ok H U t ns" if "N t = Some v" for t v using that assms by (auto simp: accounts_are_def)
  show "domains c = token_name N ` all_tokens N"
    using ok by (force simp: domains_def all_tokens_def owner_of_def token_name_def N image_iff split: option.splits)
  show "domains_of a c = token_name N ` tokens_of N a"
    using ok by (force simp: domains_of_def tokens_of_def owner_of_def token_name_def N image_iff split: option.splits)
  show "inj_on (token_name N) {t. N t \<noteq> None}"
  proof (rule inj_onI)
    fix t u assume "t \<in> {t. N t \<noteq> None}" "u \<in> {t. N t \<noteq> None}" and eq: "token_name N t = token_name N u"
    then obtain v w where "N t = Some v" "N u = Some w" by auto
    then obtain ns ms where "N t = Some (Ser (SName ns))" "t = H (Name ns)" "N u = Some (Ser (SName ms))" "u = H (Name ms)"
      using ok [of t v] ok [of u w] unfolding name_ok_def by metis
    then have "Name ns = token_name N t" "Name ms = token_name N u" by (simp_all only: token_name_def option.case sval.case nns_ser.case)
    then show "t = u" using eq \<open>t = H (Name ns)\<close> \<open>u = H (Name ms)\<close> by metis
  qed
qed

lemma card_domains:
  assumes "accounts_are H U N c"
  shows "card (domains c) = card (all_tokens N)" "card (domains_of a c) = card (tokens_of N a)"
  unfolding domains_tokens [OF assms]
  using owner_of_None by (auto intro!: card_image inj_on_subset [OF domains_tokens(3) [OF assms]] simp: all_tokens_def tokens_of_def)

lemma TokensOf_domains:
  assumes N: "accounts_are H U N c" and len: "length a = Hash160Len"
  shows "\<exists>ds. nns_TokensOf a c = Inr ds \<and> distinct ds \<and> set ds = domains_of a c"
proof -
  have tok: "tokens_are N (\<lambda>a. int (card (tokens_of N a))) (index_of N) (int (card (all_tokens N))) c"
    using N by (simp add: accounts_are_def)
  have ok: "contract_ok c" using tok by (simp add: tokens_are_def)
  let ?p = "prefixAccountToken # a" and ?name = "token_name N"
  let ?F = "find_no_prefix ?p c"
  have F: "(t, v) \<in> set ?F \<longleftrightarrow> index_of N a t = Some v" for t v
    using find_no_prefix_iff [OF ok, of t v ?p] tok len by (simp add: tokens_are_def accountTokenKey_def)
  have idx: "index_of N a t = Some v \<longleftrightarrow> t \<in> tokens_of N a \<and> v = Raw (?name t)" for t v
    by (auto simp: index_of_def tokens_of_def owner_of_def token_name_def split: option.splits sval.splits nns_ser.splits)
  have vals: "find_values ?p c = map snd ?F" by (simp add: find_values_def find_no_prefix_def comp_def split_beta)
  have raws: "map snd xs = map (\<lambda>t. Raw (?name t)) (map fst xs)" if "set xs \<subseteq> set ?F" for xs
    using that F idx by (induction xs) auto
  have m: "mapR as_bytes (map (\<lambda>t. Raw (?name t)) ts) = Inr (map ?name ts)" for ts :: "bytes list"
    by (induction ts) auto
  have "mapR as_bytes (map snd ?F) = Inr (map ?name (map fst ?F))" unfolding raws [OF subset_refl] by (rule m)
  moreover have "nns_TokensOf a c = mapR as_bytes (map snd ?F)"
    unfolding nns_TokensOf_def isValid_def vals using len by simp
  ultimately have list: "nns_TokensOf a c = Inr (map ?name (map fst ?F))" by (simp only:)
  have keys: "set (map fst ?F) = tokens_of N a"
  proof -
    have "t \<in> set (map fst xs) \<longleftrightarrow> (\<exists>v. (t, v) \<in> set xs)" for t and xs :: "(bytes \<times> nns_ser sval) list"
      by (induction xs) auto
    then show ?thesis by (simp only: set_eq_iff F idx simp_thms) simp
  qed
  have "distinct (map ?name (map fst ?F))"
  proof -
    have "tokens_of N a \<subseteq> {t. N t \<noteq> None}" using owner_of_None by (auto simp: tokens_of_def)
    then have "inj_on (token_name N) (set (map fst ?F))" unfolding keys by (rule inj_on_subset [OF domains_tokens(3) [OF N]])
    then show ?thesis using find_no_prefix_distinct [OF ok, of ?p] by (simp only: distinct_map)
  qed
  moreover have "set (map ?name (map fst ?F)) = domains_of a c"
    unfolding domains_tokens(2) [OF N, of a] set_map [of ?name] keys by (rule refl)
  ultimately show ?thesis using list by blast
qed

lemma accounting_deployed: "nns_deploy E ANull False new_contract = Inr c \<Longrightarrow> accounting H U c"
proof -
  assume "nns_deploy E ANull False new_contract = Inr c"
  then have c: "c = put_int [prefixRegisterPrice] defaultRegisterPrice (put_int [prefixTotalSupply] 0 new_contract)"
    by (simp add: nns_deploy_def Let_def)
  have "accounts_are H U (\<lambda>_. None) c"
    by (auto simp: c accounts_are_def tokens_are_def tokens_of_def all_tokens_def owner_of_def index_of_def
        getNameStateKey_def nns_balanceKey_def accountTokenKey_def nns_prefix_defs)
  then show ?thesis by (auto simp: accounting_def)
qed

section \<open>Who owns a name\<close>

text \<open>The name is registered to the account, and not expired before the time.\<close>

definition owned_until :: "(bytes \<Rightarrow> bytes) \<Rightarrow> string \<Rightarrow> bytes \<Rightarrow> int \<Rightarrow> nns \<Rightarrow> bool" where
  "owned_until H name a until c \<longleftrightarrow>
     (\<exists>ns. LocalGet (getNameStateKey (H name)) c = Some (Ser (SName ns)) \<and> Owner ns = a \<and> until \<le> Expiration ns)"

lemma owned_same: "token_same c d \<Longrightarrow> owned_until H name a u c \<Longrightarrow> owned_until H name a u d"
  by (simp add: owned_until_def token_same_def)

lemma owned_other_name:
  "owned_until H name a u c \<Longrightarrow> t \<noteq> H name \<Longrightarrow> owned_until H name a u (putNameStateWithKey t ns c)"
  by (simp add: owned_until_def putNameStateWithKey_def)

lemma owned_updateBalance:
  assumes "updateBalance E n acc d c = Inr c'"
  shows "owned_until H name a u c' \<longleftrightarrow> owned_until H name a u c"
  using assms by (auto simp: updateBalance_def Let_def owned_until_def put_int_def split: if_splits)

lemma owned_updateTotalSupply: "updateTotalSupply d c = Inr c' \<Longrightarrow> owned_until H name a u c' \<longleftrightarrow> owned_until H name a u c"
  by (auto simp: updateTotalSupply_def owned_until_def)

text \<open>
  The environments of this history: the digest is \<open>H\<close>, the time is before \<open>until\<close>, and the owner
  signs nothing.
\<close>

definition unsigned_before :: "(bytes \<Rightarrow> bytes) \<Rightarrow> bytes \<Rightarrow> int \<Rightarrow> env \<Rightarrow> bool" where
  "unsigned_before H a until E \<longleftrightarrow> rt_ripemd160 E = H \<and> rt_time E < until \<and> \<not> witnessed E a"

lemma owned_saveDomain:
  assumes "saveDomain E n email refresh retry expire ttl own c = Inr d" and "rt_ripemd160 E = H" and "H n \<noteq> H name"
    and "owned_until H name a u c"
  shows "owned_until H name a u d"
proof -
  let ?c = "putNameStateWithKey (getTokenKey E n)
    \<lparr>Owner = own, Name = n, Expiration = rt_time E + expire * millisecondsInSecond, Admin = None\<rparr> c"
  have "getTokenKey E n \<noteq> H name" using assms(2,3) by (simp add: getTokenKey_def)
  then have "owned_until H name a u ?c" using assms(4) owned_other_name by blast
  moreover have "token_same ?c d" using token_same_saveDomain [OF assms(1)] .
  ultimately show ?thesis using owned_same by blast
qed

text \<open>Together with the accounting, which tells that the keys of the names are their digests.\<close>

definition held :: "(bytes \<Rightarrow> bytes) \<Rightarrow> (string \<Rightarrow> bool) \<Rightarrow> string \<Rightarrow> bytes \<Rightarrow> int \<Rightarrow> nns \<Rightarrow> bool" where
  "held H U name a until c \<longleftrightarrow> accounting H U c \<and> owned_until H name a until c"

lemma held_same: "token_same c d \<Longrightarrow> held H U name a u c \<Longrightarrow> held H U name a u d"
  using accounting_same owned_same unfolding held_def by blast

lemma held_Notify [simp]: "held H U name a u c \<Longrightarrow> held H U name a u (Notify e c)"
  by (simp add: held_def owned_until_def)

lemma held_Register:
  assumes "nns_Register E pay n owner email refresh retry expire ttl w = Inr (b, w')" and "unsigned_before H a u E"
    and inj: "inj_on H {n. U n}" and "U n" and "U name" and "held H U name a u (fst w)"
    and pay: "\<And>to frm k i d v v'. pay to frm k i d v = Inr v' \<Longrightarrow> held H U name a u (fst v) \<Longrightarrow> held H U name a u (fst v')"
  shows "held H U name a u (fst w')"
proof -
  obtain c x where w: "w = (c, x)" by (cases w)
  have H: "rt_ripemd160 E = H" "rt_time E < u" using assms(2) by (auto simp: unsigned_before_def)
  have acc: "accounting H U c" and own: "owned_until H name a u c" using assms(6) by (simp_all add: w held_def)
  from assms(1) [unfolded w] show ?thesis
  proof (cases rule: Register_result)
    case taken
    then show ?thesis using assms(6) w by simp
  next
    case (registered old c1 c2 c3)
    have "n \<noteq> name" using registered(5) own H
      by (cases "LocalGet (getNameStateKey (getTokenKey E n)) c") (auto simp: owned_until_def getTokenKey_def)
    then have ne: "H n \<noteq> H name" using assms(3,4,5) by (auto dest: inj_onD)
    have "owned_until H name a u c1"
      using registered(5) own owned_updateBalance owned_updateTotalSupply by (auto split: if_splits)
    then have "owned_until H name a u c2" using owned_saveDomain [OF registered(6) H(1) ne] by simp
    then have "owned_until H name a u c3" using owned_updateBalance [OF registered(7)] by simp
    moreover have "accounting H U c3"
      using accounting_register [OF acc inj assms(4) H(1) registered(1) _ registered(5,6,7)] registered(2)
      by (simp add: isValid_def)
    ultimately have "held H U name a u (Notify e c3)" for e by (simp only: held_def) (simp add: owned_until_def)
    then show ?thesis using postTransfer_keeps [OF registered(8), of "held H U name a u"] pay by simp
  qed
qed

lemma held_Transfer:
  assumes "nns_Transfer E pay to n data w = Inr (b, w')" and "unsigned_before H a u E"
    and inj: "inj_on H {n. U n}" and "U n" and "U name" and "held H U name a u (fst w)"
    and pay: "\<And>to frm k i d v v'. pay to frm k i d v = Inr v' \<Longrightarrow> held H U name a u (fst v) \<Longrightarrow> held H U name a u (fst v')"
  shows "held H U name a u (fst w')"
proof -
  obtain c x where w: "w = (c, x)" by (cases w)
  have H: "rt_ripemd160 E = H" "\<not> witnessed E a" using assms(2) by (auto simp: unsigned_before_def)
  have acc: "accounting H U c" and own: "owned_until H name a u c" using assms(6) by (simp_all add: w held_def)
  from assms(1) [unfolded w] show ?thesis
  proof (cases rule: nns_Transfer_result)
    case refused
    then show ?thesis using assms(6) w by simp
  next
    case (moved ns c3)
    have "n \<noteq> name" using moved(4,6) own H by (auto simp: owned_until_def getTokenKey_def)
    then have ne: "getTokenKey E n \<noteq> H name" using assms(3,4,5) H(1) by (auto simp: getTokenKey_def dest: inj_onD)
    have "owned_until H name a u c3"
      using moved(7) own owned_other_name [OF own ne] owned_updateBalance by (auto simp: change_owner_def split: if_splits)
    moreover have "accounting H U c3"
      using accounting_change_owner [OF acc inj assms(4) H(1) moved(1,4) _ moved(7)] moved(2) by (simp add: isValid_def)
    ultimately have "held H U name a u (Notify e c3)" for e by (simp only: held_def) (simp add: owned_until_def)
    then show ?thesis using postTransfer_keeps [OF moved(8), of "held H U name a u"] pay by simp
  qed
qed

lemma held_tld:
  assumes "saveCommitteeDomain E n email refresh retry expire ttl c = Inr d" and "unsigned_before H a u E"
    and inj: "inj_on H {n. U n}" and "U n" and U: "U name" "CHR ''.'' \<in> set name" and "held H U name a u c"
  shows "held H U name a u d"
proof -
  have H: "rt_ripemd160 E = H" using assms(2) by (simp add: unsigned_before_def)
  obtain fs where fs: "splitAndCheck n = Inr fs" "length fs = 1"
    and s: "saveDomain E n email refresh retry expire ttl [] (put_int (makeTLDKey n) 0 c) = Inr d"
    using assms(1) by (auto simp: saveCommitteeDomain_def Let_def split: if_splits)
  have "n \<noteq> name" using fs U(2) splitAndCheck_fragments string_split_single by blast
  then have ne: "H n \<noteq> H name" using inj assms(4) U(1) by (auto dest: inj_onD)
  have "owned_until H name a u (put_int (makeTLDKey n) 0 c)"
    using assms(7) by (auto simp: held_def intro!: owned_same [of c] token_intros)
  then show ?thesis using owned_saveDomain [OF s H ne] accounting_tld [OF _ inj assms(4) H assms(1)] assms(7)
    by (simp add: held_def)
qed

lemma held_putNameState:
  assumes "held H U name a u c" and "rt_ripemd160 E = H" and "LocalGet (getNameStateKey (getTokenKey E n)) c = Some (Ser (SName ns))"
    and "Owner ns' = Owner ns" and "Expiration ns \<le> Expiration ns'" and "Name ns' = Name ns"
  shows "held H U name a u (putNameState E ns' c)"
proof -
  obtain N where "accounts_are H U N c" using assms(1) by (auto simp: accounting_def held_def)
  then have "getTokenKey E n = H (Name ns)" using assms(3) by (auto simp: accounts_are_def tokens_are_def name_ok_def)
  then have "owned_until H name a u (putNameState E ns' c)" using assms
    by (auto simp: held_def owned_until_def putNameState_def putNameStateWithKey_def getTokenKey_def)
  then show ?thesis using accounting_same_owner [OF _ assms(3,4,6,2)] assms(1) by (simp add: held_def)
qed

lemma held_reach:
  assumes "nns_reach (unsigned_before H a u) U w w'" and inj: "inj_on H {n. U n}" and U: "U name" "CHR ''.'' \<in> set name"
    and "held H U name a u (fst w)"
  shows "held H U name a u (fst w')"
  using assms(1,5)
proof (induction rule: nns_reach.induct)
  case (register E n pay owner email refresh retry expire ttl v b v')
  show ?case
    by (rule held_Register [OF register.hyps(3,1) inj register.hyps(2) U(1) register.prems]) (rule register.IH)
next
  case (transfer E n pay to data v b v')
  show ?case
    by (rule held_Transfer [OF transfer.hyps(3,1) inj transfer.hyps(2) U(1) transfer.prems]) (rule transfer.IH)
next
  case (tld E n email refresh retry expire ttl c c' x)
  then show ?case using held_tld [OF tld.hyps(3,1) inj tld.hyps(2) U] by simp
next
  case (renew E n years c m c' x)
  have "rt_ripemd160 E = H" using renew.hyps(1) by (simp add: unsigned_before_def)
  from renew.hyps(2) show ?case
    by (rule Renew_result)
      (use renew.prems \<open>rt_ripemd160 E = H\<close> in \<open>auto simp: millisecondsInYear_def millisecondsInSecond_def intro!: held_Notify held_putNameState\<close>)
next
  case (set_admin E n admin c c' x)
  have "rt_ripemd160 E = H" using set_admin.hyps(1) by (simp add: unsigned_before_def)
  from set_admin.hyps(2) show ?case
    by (rule SetAdmin_result) (use set_admin.prems \<open>rt_ripemd160 E = H\<close> in \<open>auto intro!: held_Notify held_putNameState\<close>)
next
  case (new_transaction c x)
  have "token_same c (c\<lparr>notifications := []\<rparr>)" by (simp add: token_same_def contract_ok_def LocalGet_def)
  then show ?case using held_same new_transaction by fastforce
qed (auto intro: held_same token_same_SetRecord token_same_AddRecord token_same_AddNeoRecord
    token_same_DeleteRecords token_same_DeleteNeoRecord token_same_UpdateSOA token_same_SetPrice)

text \<open>While names are stored as names, asking for a parent does not fault.\<close>

lemma parent_walk_total: "accounts_are H U N c \<Longrightarrow> \<exists>b. parent_walk E fs n c = Inr b"
proof (induction fs arbitrary: n)
  case (Cons f fs)
  let ?t = "getTokenKey E (prepend_fragment f n)"
  show ?case
  proof (cases "LocalGet (getNameStateKey ?t) c")
    case None
    then show ?thesis by (auto simp: Let_def)
  next
    case (Some v)
    then have "N ?t = Some v" using Cons.prems by (simp add: accounts_are_def tokens_are_def)
    then obtain ns where "v = Ser (SName ns)" using Cons.prems by (auto simp: accounts_are_def)
    then show ?thesis using Some Cons.IH [OF Cons.prems] by (auto simp: Let_def)
  qed
qed auto

lemma OwnerOf_held:
  assumes "held H U name a u c" and "rt_ripemd160 E = H" and "rt_time E < u" and "CHR ''.'' \<in> set name"
  shows "nns_OwnerOf E name c \<in> {Inr a, Inl (Panic ''parent domain has expired'')}"
proof -
  obtain N where N: "accounts_are H U N c" using assms(1) by (auto simp: held_def accounting_def)
  obtain b where "parentExpired E 1 (string_split CHR ''.'' name) c = Inr b"
    using parent_walk_total [OF N] unfolding parentExpired_def by blast
  moreover obtain ns where "getNameStateWithKey E (getTokenKey E name) c = Inr ns" "Owner ns = a"
    using assms by (auto simp: held_def owned_until_def getNameStateWithKey_Inr getTokenKey_def)
  ultimately show ?thesis using assms(4) string_split_single [of "CHR ''.''" name]
    by (simp add: nns_OwnerOf_def getFragmentedNameState_def Let_def)
qed

lemma OwnerOf_owned:
  assumes "nns_OwnerOf E name c = Inr a" and "nns_Properties E name c = Inr (n, u, adm)" and "rt_ripemd160 E = H"
  shows "owned_until H name a u c" "CHR ''.'' \<in> set name"
  using assms string_split_single [of "CHR ''.''" name]
  by (auto simp: nns_OwnerOf_def nns_Properties_def owned_until_def getTokenKey_def Let_def
      dest!: getFragmentedNameState_stored split: if_splits)

section \<open>Well formed names\<close>

text \<open>
  The labels of a name: letters and digits, with hyphens inside. The top-level label begins with a letter
  and has at most 16 characters, the others at most 63.
\<close>

definition label_ok :: "string \<Rightarrow> bool" where
  "label_ok l \<longleftrightarrow> l \<noteq> [] \<and> length l \<le> 63 \<and> (\<forall>x \<in> set l. isAlNum x \<or> x = CHR ''-'') \<and> isAlNum (hd l) \<and> isAlNum (last l)"

definition tld_ok :: "string \<Rightarrow> bool" where
  "tld_ok l \<longleftrightarrow> label_ok l \<and> length l \<le> 16 \<and> CHR ''a'' \<le> hd l \<and> hd l \<le> CHR ''z''"

lemma ends_and_middle:
  assumes "l \<noteq> []"
  shows "(\<forall>x \<in> set l. P x) \<longleftrightarrow> P (hd l) \<and> P (last l) \<and> (\<forall>i \<in> {1..<length l - 1}. P (l ! i))"
proof -
  have "(\<forall>x \<in> set l. P x) \<longleftrightarrow> (\<forall>i < length l. P (l ! i))" by (simp add: all_set_conv_all_nth)
  also have "\<dots> \<longleftrightarrow> P (l ! 0) \<and> P (l ! (length l - 1)) \<and> (\<forall>i \<in> {1..<length l - 1}. P (l ! i))"
  proof (intro iffI conjI allI impI)
    fix i assume "P (l ! 0) \<and> P (l ! (length l - 1)) \<and> (\<forall>i \<in> {1..<length l - 1}. P (l ! i))" "i < length l"
    then show "P (l ! i)" by (cases "i = 0"; cases "i = length l - 1") auto
  qed (use assms in auto)
  finally show ?thesis using assms by (simp add: hd_conv_nth last_conv_nth)
qed

lemma checkFragment_label: "checkFragment l isRoot \<longleftrightarrow> (if isRoot then tld_ok l else label_ok l)"
proof (cases "l = []")
  case False
  have letter: "CHR ''a'' \<le> x \<Longrightarrow> x \<le> CHR ''z'' \<Longrightarrow> isAlNum x" for x by (simp add: isAlNum_def)
  show ?thesis using False letter [of "hd l"] ends_and_middle [OF False, of "\<lambda>x. isAlNum x \<or> x = CHR ''-''"]
    by (auto simp: checkFragment_def label_ok_def tld_ok_def Let_def list_ex_iff maxRootLength_def not_less
        maxDomainNameFragmentLength_def hd_conv_nth last_conv_nth)
qed (simp add: checkFragment_def label_ok_def tld_ok_def)

lemma label_no_dot: "label_ok l \<Longrightarrow> CHR ''.'' \<notin> set l"
  by (auto simp: label_ok_def isAlNum_def less_eq_char_def)

section \<open>Following aliases\<close>

text \<open>
  The records found under a name, and a chain of names of which each is the alias (the last CNAME) of the
  one before; the last has none.
\<close>

definition records_at :: "env \<Rightarrow> nns \<Rightarrow> string \<Rightarrow> record_state list res" where
  "records_at E c n = (if n = [] then Inl (Panic ''invalid name'')
     else andThen (getAllRecords E (drop_last_dot n) [] c) (mapR nns_record))"

fun alias_chain :: "env \<Rightarrow> nns \<Rightarrow> (string \<times> record_state list) list \<Rightarrow> bool" where
  "alias_chain E c [] \<longleftrightarrow> False"
| "alias_chain E c [(n, rs)] \<longleftrightarrow> records_at E c n = Inr rs \<and> last_cname rs = []"
| "alias_chain E c ((n, rs) # (m, ss) # xs) \<longleftrightarrow>
     records_at E c n = Inr rs \<and> last_cname rs = m \<and> m \<noteq> [] \<and> alias_chain E c ((m, ss) # xs)"

definition answers :: "int \<Rightarrow> record_state list \<Rightarrow> string list" where
  "answers typ rs = map rs_Data (filter (\<lambda>r. rs_Type r = typ) rs)"

lemma resolve_records:
  "resolve E out n typ redirect c =
     (if redirect < 0 then Inl (Panic ''invalid redirect'')
      else andThen (records_at E c n) (\<lambda>rs.
        if last_cname rs = [] \<or> typ = RT_CNAME then Inr (out @ answers typ rs)
        else resolve E (out @ answers typ rs) (last_cname rs) typ (redirect - 1) c))"
  by (subst resolve.simps) (simp add: records_at_def answers_def Let_def cong: if_cong)

lemma resolve_chain:
  assumes "typ \<noteq> RT_CNAME"
  shows "resolve E out n typ (int k - 1) c = Inr res \<longleftrightarrow>
    (\<exists>xs. alias_chain E c xs \<and> fst (hd xs) = n \<and> length xs \<le> k \<and> res = out @ concat (map (\<lambda>x. answers typ (snd x)) xs))"
proof (induction k arbitrary: n out)
  case 0
  show ?case by (subst resolve_records) (auto simp: alias_chain.simps(1))
next
  case (Suc k)
  have chain: "(\<exists>xs. alias_chain E c xs \<and> fst (hd xs) = n \<and> length xs \<le> Suc k \<and> Q xs) \<longleftrightarrow>
      (\<exists>rs. records_at E c n = Inr rs \<and> (if last_cname rs = [] then Q [(n, rs)]
        else \<exists>xs. alias_chain E c xs \<and> fst (hd xs) = last_cname rs \<and> length xs \<le> k \<and> Q ((n, rs) # xs)))" for Q
  proof (intro iffI; elim exE conjE)
    fix xs assume "alias_chain E c xs" "fst (hd xs) = n" "length xs \<le> Suc k" "Q xs"
    then show "\<exists>rs. records_at E c n = Inr rs \<and> (if last_cname rs = [] then Q [(n, rs)]
        else \<exists>xs. alias_chain E c xs \<and> fst (hd xs) = last_cname rs \<and> length xs \<le> k \<and> Q ((n, rs) # xs))"
      by (cases "(E, c, xs)" rule: alias_chain.cases) (auto intro: exI [of _ "_ # _"])
  next
    fix rs assume "records_at E c n = Inr rs" and r: "if last_cname rs = [] then Q [(n, rs)]
        else \<exists>xs. alias_chain E c xs \<and> fst (hd xs) = last_cname rs \<and> length xs \<le> k \<and> Q ((n, rs) # xs)"
    show "\<exists>xs. alias_chain E c xs \<and> fst (hd xs) = n \<and> length xs \<le> Suc k \<and> Q xs"
    proof (cases "last_cname rs = []")
      case True
      then show ?thesis using r \<open>records_at E c n = Inr rs\<close> by (intro exI [of _ "[(n, rs)]"]) simp
    next
      case False
      then obtain xs where xs: "alias_chain E c xs" "fst (hd xs) = last_cname rs" "length xs \<le> k" "Q ((n, rs) # xs)"
        using r by auto
      then obtain m ss ys where "xs = (m, ss) # ys" by (cases xs) auto
      then show ?thesis using xs False \<open>records_at E c n = Inr rs\<close> by (intro exI [of _ "(n, rs) # xs"]) simp
    qed
  qed
  show ?case unfolding chain
    by (subst resolve_records) (cases "records_at E c n"; use assms Suc.IH in \<open>auto simp: algebra_simps\<close>)
qed

section \<open>The properties\<close>

text \<open>C3: the NNS contract's books are right. After any registrations, top-level domains, transfers,
  renewals, changes of administrators and records, with receivers of tokens calling back, \<open>TotalSupply\<close>
  is the number of registered domains, \<open>BalanceOf\<close> of an account is the number of domains it owns, and
  \<open>TokensOf\<close> lists exactly these, each once. The names in use must not collide under the digest.\<close>

theorem nns_accounting:
  assumes "nns_deploy E ANull False new_contract = Inr c0"
    and "nns_reach (\<lambda>E. rt_ripemd160 E = H) U (c0, x0) (c, x)" and "inj_on H {n. U n}" and "length a = Hash160Len"
  shows "nns_TotalSupply c = Inr (int (card (domains c))) \<and> nns_BalanceOf a c = Inr (int (card (domains_of a c))) \<and>
    (\<exists>ds. nns_TokensOf a c = Inr ds \<and> distinct ds \<and> set ds = domains_of a c)"
proof -
  have "accounting H U c" using accounting_reach [OF assms(2,3)] accounting_deployed [OF assms(1)] by simp
  then obtain N where N: "accounts_are H U N c" by (auto simp: accounting_def)
  then have tok: "tokens_are N (\<lambda>a. int (card (tokens_of N a))) (index_of N) (int (card (all_tokens N))) c"
    by (simp add: accounts_are_def)
  then have "nns_TotalSupply c = Inr (int (card (domains c)))"
    by (simp add: nns_TotalSupply_def tokens_are_def card_domains [OF N])
  moreover have "nns_BalanceOf a c = Inr (int (card (domains_of a c)))"
    using tok assms(4) by (auto simp: nns_BalanceOf_def isValid_def tokens_are_def card_domains [OF N] split: option.splits)
  ultimately show ?thesis using TokensOf_domains [OF N assms(4)] by blast
qed

text \<open>C5: nobody takes a domain from its owner. From the time \<open>OwnerOf\<close> and \<open>Properties\<close> answer that an
  account owns a name until some time, whatever the committee, the administrators and the owners of other names do,
  and whatever the receivers of tokens do when they are called, the account stays the owner, as long as it
  signs no transaction before that time; \<open>OwnerOf\<close> answers so, unless a parent domain has expired.\<close>

theorem owner_keeps_domain:
  assumes "nns_deploy E ANull False new_contract = Inr c0"
    and "nns_reach (\<lambda>E. rt_ripemd160 E = H) U (c0, x0) (c1, x1)" and "inj_on H {n. U n}" and "U name"
    and "rt_ripemd160 E1 = H" and "nns_OwnerOf E1 name c1 = Inr a" and "nns_Properties E1 name c1 = Inr (n, until, adm)"
    and "nns_reach (unsigned_before H a until) U (c1, x1) (c2, x2)"
    and "rt_ripemd160 E2 = H" and "rt_time E2 < until"
  shows "nns_OwnerOf E2 name c2 \<in> {Inr a, Inl (Panic ''parent domain has expired'')}"
proof -
  have "accounting H U c1" using accounting_reach [OF assms(2,3)] accounting_deployed [OF assms(1)] by simp
  then have "held H U name a until c1" using OwnerOf_owned [OF assms(6,7,5)] by (simp add: held_def)
  then have "held H U name a until c2" using held_reach [OF assms(8,3,4) OwnerOf_owned(2) [OF assms(6,7,5)]] by simp
  then show ?thesis using OwnerOf_held [OF _ assms(9,10) OwnerOf_owned(2) [OF assms(6,7,5)]] by simp
qed

text \<open>C18: the names the contract accepts are exactly those of its grammar: three to 255 characters, labels of
  letters, digits and inner hyphens joined by dots, the last label at most 16 characters beginning with a
  letter, the others at most 63. \<open>splitAndCheck\<close> returns the labels, so that joining them gives the name again.\<close>

theorem splitAndCheck_grammar:
  "splitAndCheck name = Inr labels \<longleftrightarrow> labels \<noteq> [] \<and> string_join CHR ''.'' labels = name \<and>
     3 \<le> length name \<and> length name \<le> 255 \<and> list_all label_ok (butlast labels) \<and> tld_ok (last labels)"
proof
  let ?fs = "string_split CHR ''.'' name"
  have idx: "\<not> list_ex (\<lambda>i. \<not> checkFragment (fs ! i) (i = length fs - 1)) [0..<length fs] \<longleftrightarrow>
      list_all label_ok (butlast fs) \<and> tld_ok (last fs)" if "fs \<noteq> []" for fs
    using that
  proof (induction fs rule: rev_induct)
    case (snoc x xs)
    have "\<not> list_ex (\<lambda>i. \<not> checkFragment ((xs @ [x]) ! i) (i = length (xs @ [x]) - 1)) [0..<length (xs @ [x])] \<longleftrightarrow>
        (\<forall>i < length xs. checkFragment (xs ! i) False) \<and> checkFragment x True"
      by (auto simp: list_ex_iff nth_append)
    then show ?case by (simp add: checkFragment_label list_all_length)
  qed simp
  show "labels \<noteq> [] \<and> string_join CHR ''.'' labels = name \<and> 3 \<le> length name \<and> length name \<le> 255 \<and>
      list_all label_ok (butlast labels) \<and> tld_ok (last labels)" if "splitAndCheck name = Inr labels"
    using that idx [of ?fs]
    by (auto simp: splitAndCheck_def safeSplitAndCheck_def Let_def string_join_split minDomainNameLength_def
        maxDomainNameLength_def not_less split: if_splits)
  show "splitAndCheck name = Inr labels" if ok: "labels \<noteq> [] \<and> string_join CHR ''.'' labels = name \<and>
      3 \<le> length name \<and> length name \<le> 255 \<and> list_all label_ok (butlast labels) \<and> tld_ok (last labels)"
  proof -
    have "set labels = insert (last labels) (set (butlast labels))"
      using ok by (metis append_butlast_last_id list.set(2) list.simps(15) rotate1.simps(2) set_rotate1)
    then have "CHR ''.'' \<notin> set l" if "l \<in> set labels" for l
      using ok that label_no_dot by (auto simp: list_all_iff tld_ok_def)
    then have "?fs = labels" using ok string_split_join by metis
    then show ?thesis using ok idx [of labels]
      by (simp add: splitAndCheck_def safeSplitAndCheck_def Let_def minDomainNameLength_def maxDomainNameLength_def)
  qed
qed

text \<open>C20: a resolution always comes to an end, and what it returns is what the chain of aliases holds: it
  succeeds if and only if the name starts a chain of at most three names, each the alias of the one before and
  the last without an alias, and then it yields the records of the type along the chain in order. A
  resolution of aliases themselves does not follow them, one of Neo records is refused.\<close>

theorem Resolve_follows_aliases:
  "nns_Resolve E name typ c = Inr res \<longleftrightarrow> CHR ''.'' \<in> set name \<and> typ \<noteq> RT_Neo \<and>
     (if typ = RT_CNAME then \<exists>rs. records_at E c name = Inr rs \<and> res = answers RT_CNAME rs
      else \<exists>chain. alias_chain E c chain \<and> fst (hd chain) = name \<and> length chain \<le> 3 \<and>
        res = concat (map (\<lambda>x. answers typ (snd x)) chain))"
proof (cases "typ = RT_CNAME")
  case True
  then show ?thesis using string_split_single [of "CHR ''.''" name]
    by (cases "records_at E c name") (auto simp: nns_Resolve_def resolve_records [of E "[]" name] RT_CNAME_def RT_Neo_def)
next
  case False
  then show ?thesis using string_split_single [of "CHR ''.''" name] resolve_chain [OF False, of E "[]" name 3 c res]
    by (auto simp: nns_Resolve_def)
qed

section \<open>Concrete runs\<close>

text \<open>Top-level domain com, a.com registered to one account, then b.com to another while the first signs nothing.\<close>

definition sample_names :: "string \<Rightarrow> bool" where
  "sample_names n \<longleftrightarrow> n \<in> {''com'', ''a.com'', ''b.com''}"

definition sample_digest :: "bytes \<Rightarrow> bytes" where
  "sample_digest = rt_ripemd160 sample_env"

definition only_B :: env where
  "only_B = sample_env\<lparr>rt_witness := \<lambda>h. h \<noteq> addrA\<rparr>"

definition no_payment :: "bytes \<Rightarrow> bytes \<Rightarrow> int \<Rightarrow> bytes \<Rightarrow> arg \<Rightarrow> nns \<times> unit \<Rightarrow> (nns \<times> unit) res" where
  "no_payment to frm n i d w = Inr w"

lemma sample_digest_inj: "inj_on sample_digest {n. sample_names n}"
  by (simp add: inj_on_def sample_names_def sample_digest_def sample_env_def)

lemma sample_run:
  "case nns_deploy sample_env ANull False new_contract of Inl e \<Rightarrow> False
   | Inr c0 \<Rightarrow> (case saveCommitteeDomain sample_env ''com'' ''o@com'' 1 2 1000 4 c0 of Inl e \<Rightarrow> False
   | Inr c1 \<Rightarrow> (case nns_Register sample_env no_payment ''a.com'' addrA ''a@com'' 1 2 1000 4 (c1, ()) of Inl e \<Rightarrow> False
   | Inr (b, c2, x) \<Rightarrow> nns_OwnerOf sample_env ''a.com'' c2 = Inr addrA \<and>
       nns_Properties sample_env ''a.com'' c2 = Inr (''a.com'', 1005000, None) \<and>
       (case nns_Register only_B no_payment ''b.com'' addrB ''b@com'' 1 2 1000 4 (c2, ()) of Inl e \<Rightarrow> False
       | Inr (b, c3, x) \<Rightarrow> nns_TotalSupply c3 = Inr 2 \<and> nns_BalanceOf addrA c3 = Inr 1 \<and> nns_TokensOf addrB c3 = Inr [''b.com''] \<and>
          nns_OwnerOf only_B ''a.com'' c3 = Inr addrA)))"
  by code_simp

lemma sample_states:
  obtains c0 c2 c3 where "nns_deploy sample_env ANull False new_contract = Inr c0"
    "nns_reach (\<lambda>E. rt_ripemd160 E = sample_digest) sample_names (c0, ()) (c2, ())"
    "nns_reach (unsigned_before sample_digest addrA 1005000) sample_names (c2, ()) (c3, ())"
    "nns_OwnerOf sample_env ''a.com'' c2 = Inr addrA" "nns_Properties sample_env ''a.com'' c2 = Inr (''a.com'', 1005000, None)"
    "nns_TotalSupply c3 = Inr 2" "nns_BalanceOf addrA c3 = Inr 1" "nns_TokensOf addrB c3 = Inr [''b.com'']"
    "nns_OwnerOf only_B ''a.com'' c3 = Inr addrA"
proof -
  obtain c0 c1 c2 c3 b b' where c: "nns_deploy sample_env ANull False new_contract = Inr c0"
    "saveCommitteeDomain sample_env ''com'' ''o@com'' 1 2 1000 4 c0 = Inr c1"
    "nns_Register sample_env no_payment ''a.com'' addrA ''a@com'' 1 2 1000 4 (c1, ()) = Inr (b, c2, ())"
    "nns_Register only_B no_payment ''b.com'' addrB ''b@com'' 1 2 1000 4 (c2, ()) = Inr (b', c3, ())"
    "nns_OwnerOf sample_env ''a.com'' c2 = Inr addrA" "nns_Properties sample_env ''a.com'' c2 = Inr (''a.com'', 1005000, None)"
    "nns_TotalSupply c3 = Inr 2" "nns_BalanceOf addrA c3 = Inr 1" "nns_TokensOf addrB c3 = Inr [''b.com'']"
    "nns_OwnerOf only_B ''a.com'' c3 = Inr addrA"
    using sample_run by (auto split: sum.splits)
  have pay: "no_payment to frm n i d u = Inr v \<Longrightarrow> nns_reach P U u v" for P U to frm n i d u v
    by (auto simp: no_payment_def intro: nns_reach.same)
  have U: "sample_names ''com''" "sample_names ''a.com''" "sample_names ''b.com''" by (simp_all add: sample_names_def)
  have B: "unsigned_before sample_digest addrA 1005000 only_B"
    by (simp add: unsigned_before_def sample_digest_def only_B_def witnessed_def CheckWitness_def)
  have "nns_reach (\<lambda>E. rt_ripemd160 E = sample_digest) sample_names (c0, ()) (c1, ())"
    by (rule nns_reach.tld [where E = sample_env and name = "''com''"]) (use c(2) U in \<open>simp_all add: sample_digest_def\<close>)
  moreover have "nns_reach (\<lambda>E. rt_ripemd160 E = sample_digest) sample_names (c1, ()) (c2, ())"
    by (rule nns_reach.register [where P = "\<lambda>E. rt_ripemd160 E = sample_digest" and U = sample_names and E = sample_env and name = "''a.com''", OF _ U(2) c(3) pay]) (simp_all add: sample_digest_def)
  moreover have "nns_reach (unsigned_before sample_digest addrA 1005000) sample_names (c2, ()) (c3, ())"
    by (rule nns_reach.register [where P = "unsigned_before sample_digest addrA 1005000" and U = sample_names and E = only_B and name = "''b.com''", OF B U(3) c(4) pay])
  ultimately show ?thesis using that c nns_reach.step by blast
qed

lemma reach_weaken: "nns_reach P U w w' \<Longrightarrow> (\<And>E. P E \<Longrightarrow> Q E) \<Longrightarrow> nns_reach Q U w w'"
proof (induction rule: nns_reach.induct)
  case (register E name pay owner email refresh retry expire ttl w b w')
  show ?case
    by (rule nns_reach.register [where P = Q and U = U and E = E and name = name, OF register.prems [OF register.hyps(1)] register.hyps(2,3)])
      (rule register.IH [OF _ register.prems])
next
  case (transfer E name pay to data w b w')
  show ?case
    by (rule nns_reach.transfer [where P = Q and U = U and E = E and name = name, OF transfer.prems [OF transfer.hyps(1)] transfer.hyps(2,3)])
      (rule transfer.IH [OF _ transfer.prems])
qed (auto intro: nns_reach.intros)

theorem nns_accounting_witness:
  "\<exists>c. nns_TotalSupply c = Inr (int (card (domains c))) \<and> nns_BalanceOf addrB c = Inr (int (card (domains_of addrB c))) \<and>
    nns_TokensOf addrB c = Inr [''b.com''] \<and> card (domains c) = 2 \<and> domains_of addrB c = {''b.com''}"
proof -
  obtain c0 c2 c3 where c: "nns_deploy sample_env ANull False new_contract = Inr c0"
    "nns_reach (\<lambda>E. rt_ripemd160 E = sample_digest) sample_names (c0, ()) (c2, ())"
    "nns_reach (unsigned_before sample_digest addrA 1005000) sample_names (c2, ()) (c3, ())"
    "nns_TotalSupply c3 = Inr 2" "nns_TokensOf addrB c3 = Inr [''b.com'']"
    by (rule sample_states) (rule that; assumption)
  have len: "length addrB = Hash160Len" by simp
  have "nns_reach (\<lambda>E. rt_ripemd160 E = sample_digest) sample_names (c0, ()) (c3, ())"
    by (rule nns_reach.step [OF c(2) reach_weaken [OF c(3)]]) (simp add: unsigned_before_def)
  note books = nns_accounting [OF c(1) this sample_digest_inj len]
  obtain ds where "nns_TokensOf addrB c3 = Inr ds" "set ds = domains_of addrB c3" using books by blast
  then have "domains_of addrB c3 = {''b.com''}" using c(5) by (metis list.set Inr_inject)
  moreover have "card (domains c3) = 2" using books unfolding c(4) by simp
  ultimately show ?thesis using c(5) books by blast
qed

theorem owner_keeps_domain_witness:
  "\<exists>c2 c3. nns_OwnerOf sample_env ''a.com'' c2 = Inr addrA \<and> nns_OwnerOf only_B ''a.com'' c3 = Inr addrA \<and>
    nns_OwnerOf only_B ''a.com'' c3 \<in> {Inr addrA, Inl (Panic ''parent domain has expired'')}"
proof -
  obtain c0 c2 c3 where c: "nns_deploy sample_env ANull False new_contract = Inr c0"
    "nns_reach (\<lambda>E. rt_ripemd160 E = sample_digest) sample_names (c0, ()) (c2, ())"
    "nns_reach (unsigned_before sample_digest addrA 1005000) sample_names (c2, ()) (c3, ())"
    "nns_OwnerOf sample_env ''a.com'' c2 = Inr addrA" "nns_Properties sample_env ''a.com'' c2 = Inr (''a.com'', 1005000, None)"
    "nns_OwnerOf only_B ''a.com'' c3 = Inr addrA"
    by (rule sample_states) (rule that; assumption)
  have "sample_names ''a.com''" by (simp add: sample_names_def)
  from owner_keeps_domain [OF c(1,2) sample_digest_inj this _ c(4,5,3), of only_B]
  have "nns_OwnerOf only_B ''a.com'' c3 \<in> {Inr addrA, Inl (Panic ''parent domain has expired'')}"
    by (simp add: sample_digest_def only_B_def)
  then show ?thesis using c(4,6) by blast
qed

end
