(* ===== verification/Container_Contract.thy ===== *)
theory Container_Contract
  imports Container_Reports
begin

text \<open>
  The attributes of a container that can change, with the validation of CORS rules, its extended access
  control list, and the deployment, migration and update of the contract.
\<close>

section \<open>CORS rules\<close>

text \<open>
  A JSON value used as a text (\<open>.(string)\<close>): \<open>None\<close> is Null, which stays Null. The lengths
  \<open>len\<close> takes of any value (of Null it is 0); a loop over Null faults.
\<close>

definition json_text :: "json \<Rightarrow> string option res" where
  "json_text j = (case j of JString s \<Rightarrow> Inr (Some s) | JNull \<Rightarrow> Inr None | JInt n \<Rightarrow> Inr (Some (int_bytes n))
     | JBool b \<Rightarrow> Inr (Some [if b then CHR 0x01 else CHR 0x00]) | _ \<Rightarrow> Inl (Fault ''invalid conversion''))"

definition json_len :: "json \<Rightarrow> nat" where
  "json_len j = (case j of JNull \<Rightarrow> 0 | JBool b \<Rightarrow> 1 | JInt n \<Rightarrow> length (int_bytes n) | JString s \<Rightarrow> length s
     | JArray l \<Rightarrow> length l | JMap m \<Rightarrow> length m)"

definition json_array :: "json \<Rightarrow> json list option res" where
  "json_array j = (case j of JArray l \<Rightarrow> Inr (Some l) | JNull \<Rightarrow> Inr None | _ \<Rightarrow> Inl (Fault ''invalid conversion''))"

definition json_map :: "json \<Rightarrow> (string \<times> json) list option res" where
  "json_map j = (case j of JMap m \<Rightarrow> Inr (Some m) | JNull \<Rightarrow> Inr None | _ \<Rightarrow> Inl (Fault ''invalid conversion''))"

definition json_range :: "'a option \<Rightarrow> 'a res" where
  "json_range x = (case x of Some l \<Rightarrow> Inr l | None \<Rightarrow> Inl (Fault ''range over null''))"

definition no_more_than_one_star :: "string \<Rightarrow> bool" where
  "no_more_than_one_star s \<longleftrightarrow> length (string_split CHR ''*'' s) \<le> 2"

fun allowed_methods_loop :: "json list \<Rightarrow> nat \<Rightarrow> string res" where
  "allowed_methods_loop [] i = Inr []"
| "allowed_methods_loop (j # js) i =
     (if j \<in> {JString ''GET'', JString ''PUT'', JString ''POST'', JString ''DELETE'', JString ''HEAD''}
      then allowed_methods_loop js (Suc i)
      else if j = JString [] then Inr (''empty method #'' @ itoa10 (int i))
      else andThen (json_text j) (\<lambda>t. case t of Some s \<Rightarrow> Inr (''invalid method '' @ s) | None \<Rightarrow> Inl (Fault ''null operand'')))"

definition validateCORSAllowedMethods :: "json list option \<Rightarrow> string res" where
  "validateCORSAllowedMethods items = (case items of
     None \<Rightarrow> Inr ''AllowedMethods is empty''
   | Some l \<Rightarrow> if l = [] then Inr ''AllowedMethods is empty'' else allowed_methods_loop l 0)"

fun allowed_origins_loop :: "json list \<Rightarrow> nat \<Rightarrow> string res" where
  "allowed_origins_loop [] i = Inr []"
| "allowed_origins_loop (j # js) i = andThen (json_text j) (\<lambda>t. case t of
     None \<Rightarrow> Inl (Fault ''null string'')
   | Some ori \<Rightarrow> if ori = [] then Inr (''empty origin #'' @ itoa10 (int i))
       else if \<not> no_more_than_one_star ori
       then Inr (''invalid origin #'' @ itoa10 (int i) @ '': must contain no more than one *'')
       else allowed_origins_loop js (Suc i))"

definition validateCORSAllowedOrigins :: "json list option \<Rightarrow> string res" where
  "validateCORSAllowedOrigins items = (case items of
     None \<Rightarrow> Inr ''AllowedOrigins is empty''
   | Some l \<Rightarrow> if l = [] then Inr ''AllowedOrigins is empty'' else allowed_origins_loop l 0)"

fun allowed_headers_loop :: "json list \<Rightarrow> nat \<Rightarrow> string res" where
  "allowed_headers_loop [] i = Inr []"
| "allowed_headers_loop (j # js) i = andThen (json_text j) (\<lambda>t. case t of
     None \<Rightarrow> Inl (Fault ''null string'')
   | Some h \<Rightarrow> if h = [] then Inr (''empty allowed header #'' @ itoa10 (int i))
       else if \<not> no_more_than_one_star h
       then Inr (''invalid allow header #'' @ itoa10 (int i) @ '': must contain no more than one *'')
       else allowed_headers_loop js (Suc i))"

definition validateCORSAllowedHeaders :: "json list option \<Rightarrow> string res" where
  "validateCORSAllowedHeaders items = andThen (json_range items) (\<lambda>l. allowed_headers_loop l 0)"

fun expose_headers_loop :: "json list \<Rightarrow> nat \<Rightarrow> string res" where
  "expose_headers_loop [] i = Inr []"
| "expose_headers_loop (j # js) i = andThen (json_text j) (\<lambda>h.
     if h = Some [] then Inr (''empty expose header '' @ itoa10 (int i)) else expose_headers_loop js (Suc i))"

definition validateCORSExposeHeaders :: "json list option \<Rightarrow> string res" where
  "validateCORSExposeHeaders items = andThen (json_range items) (\<lambda>l. expose_headers_loop l 0)"

text \<open>A list of one rule: it must be defined, be an array, and pass its validation.\<close>

definition cors_field :: "string \<Rightarrow> (json list option \<Rightarrow> string res) \<Rightarrow> (string \<times> json) list \<Rightarrow> string res" where
  "cors_field name validate rule = (case map_of rule name of
     None \<Rightarrow> Inr (name @ '' must be defined'')
   | Some j \<Rightarrow> andThen (json_array j) validate)"

definition max_age_negative :: "json \<Rightarrow> bool res" where
  "max_age_negative j = (case j of
     JInt n \<Rightarrow> Inr (n < 0) | JString s \<Rightarrow> Inr (bytes_int s < 0) | JBool b \<Rightarrow> Inr False | JNull \<Rightarrow> Inr False
   | _ \<Rightarrow> Inl (Fault ''invalid conversion''))"

definition validateCORSRule :: "json \<Rightarrow> string res" where
  "validateCORSRule rule =
     (if json_len rule = 0 then Inr ''empty rule''
      else case rule of
        JMap m \<Rightarrow>
          andThen (cors_field ''AllowedMethods'' validateCORSAllowedMethods m) (\<lambda>err. if err \<noteq> [] then Inr err else
          andThen (cors_field ''AllowedOrigins'' validateCORSAllowedOrigins m) (\<lambda>err. if err \<noteq> [] then Inr err else
          andThen (cors_field ''AllowedHeaders'' validateCORSAllowedHeaders m) (\<lambda>err. if err \<noteq> [] then Inr err else
          andThen (cors_field ''ExposeHeaders'' validateCORSExposeHeaders m) (\<lambda>err. if err \<noteq> [] then Inr err else
          case map_of m ''MaxAgeSeconds'' of
            None \<Rightarrow> Inr []
          | Some j \<Rightarrow> andThen (max_age_negative j) (\<lambda>b. Inr (if b then ''MaxAgeSeconds must be >= 0'' else []))))))
      | _ \<Rightarrow> Inl (Fault ''not a map''))"

fun cors_rules :: "json list \<Rightarrow> nat \<Rightarrow> unit res" where
  "cors_rules [] i = Inr ()"
| "cors_rules (item # list) i = andThen (validateCORSRule item) (\<lambda>err.
     if err \<noteq> [] then Inl (Panic (''invalid rule #'' @ itoa10 (int i) @ '': '' @ err)) else cors_rules list (Suc i))"

definition validateCORSAttribute :: "env \<Rightarrow> string \<Rightarrow> unit res" where
  "validateCORSAttribute E payload =
     andThen (rt_json E payload) (\<lambda>j. andThen (json_array j) (\<lambda>a. andThen (json_range a) (\<lambda>list. cors_rules list 0)))"

section \<open>Attributes\<close>

fun attr_index :: "string \<Rightarrow> attribute list \<Rightarrow> nat \<Rightarrow> int" where
  "attr_index name [] i = - 1"
| "attr_index name (a # as) i = (if a_Key a = name then int i else attr_index name as (Suc i))"

definition check_valid_until :: "env \<Rightarrow> int \<Rightarrow> unit res" where
  "check_valid_until E validUntil = (if rt_time E > validUntil * 1000
     then Inl (Panic (''request is valid until '' @ itoa10 validUntil @ ''000, now '' @ itoa10 (rt_time E)))
     else Inr ())"

fun s3_tags :: "(string \<times> json) list \<Rightarrow> unit res" where
  "s3_tags [] = Inr ()"
| "s3_tags ((k, v) # m) = (if k = [] then Inl (Panic ''tag key is empty'')
     else andThen (json_text v) (\<lambda>t. if t = Some [] then Inl (Panic (''tag '' @ k @ '' value is empty'')) else s3_tags m))"

definition validate_attribute :: "env \<Rightarrow> info_rev \<Rightarrow> string \<Rightarrow> string \<Rightarrow> int \<Rightarrow> unit res" where
  "validate_attribute E ir name val idx =
     (if name = corsAttributeName then validateCORSAttribute E val
      else if name = lockAttributeName
      then andThen (checkLockUntilAttribute E val) (\<lambda>(until, exc).
        if exc \<noteq> [] then Inl (Panic exc)
        else if idx \<ge> 0
        then andThen (atoi10 (a_Value (ci_Attributes ir ! nat idx))) (\<lambda>old.
          if until \<le> old
          then Inl (Panic (''lock expiration time '' @ val @ '' is not later than already set '' @
                           a_Value (ci_Attributes ir ! nat idx)))
          else Inr ())
        else Inr ())
      else if name = s3TagsAttributeName
      then andThen (rt_json E val) (\<lambda>j. andThen (json_map j) (\<lambda>m. andThen (json_range m) s3_tags))
      else if name = s3SettingsAttributeName \<or> name = s3NotificationsAttributeName
      then andThen (rt_json E val) (\<lambda>j. andThen (json_map j) (\<lambda>_. Inr ()))
      else Inl (Panic ''attribute is immutable''))"

definition put_info_rev :: "bytes \<Rightarrow> string \<Rightarrow> info_rev \<Rightarrow> container \<Rightarrow> container" where
  "put_info_rev cID name ir c =
     Notify (CntContainerUpdated cID (ci_Revision ir)) (Notify (CntAttributeChanged cID name)
       (LocalPut (infoKey cID) (Ser (CInfoRev ir)) c))"

definition SetAttribute :: "env \<Rightarrow> bytes \<Rightarrow> string \<Rightarrow> string \<Rightarrow> int \<Rightarrow> container \<Rightarrow> container res" where
  "SetAttribute E cID name val validUntil c =
     andThen (CheckAlphabetWitness E) (\<lambda>_.
     if name = [] then Inl (Panic ''name is empty'')
     else if val = [] then Inl (Panic ''value is empty'')
     else andThen (check_valid_until E validUntil) (\<lambda>_.
       andThen (GetRevisionedInfo cID c) (\<lambda>ir.
       let idx = attr_index name (ci_Attributes ir) 0 in
       andThen (validate_attribute E ir name val idx) (\<lambda>_.
       let attrs = (if idx \<ge> 0 then (ci_Attributes ir)[nat idx := (ci_Attributes ir ! nat idx)\<lparr>a_Value := val\<rparr>]
                    else ci_Attributes ir @ [\<lparr>a_Key = name, a_Value = val\<rparr>]) in
       Inr (put_info_rev cID name (ir\<lparr>ci_Attributes := attrs, ci_Revision := ci_Revision ir + 1\<rparr>) c)))))"

definition check_removable :: "env \<Rightarrow> info_rev \<Rightarrow> string \<Rightarrow> int \<Rightarrow> unit res" where
  "check_removable E ir name idx =
     (if name \<in> {corsAttributeName, s3TagsAttributeName, s3SettingsAttributeName, s3NotificationsAttributeName} then Inr ()
      else if name = lockAttributeName
      then (if idx \<ge> 0
        then andThen (atoi10 (a_Value (ci_Attributes ir ! nat idx))) (\<lambda>until.
          if until * 1000 > rt_time E
          then Inl (Panic (''lock expiration time '' @ a_Value (ci_Attributes ir ! nat idx) @
                           ''000 has not passed yet, now '' @ itoa10 (rt_time E)))
          else Inr ())
        else Inr ())
      else Inl (Panic ''attribute is immutable''))"

definition RemoveAttribute :: "env \<Rightarrow> bytes \<Rightarrow> string \<Rightarrow> int \<Rightarrow> container \<Rightarrow> container res" where
  "RemoveAttribute E cID name validUntil c =
     andThen (CheckAlphabetWitness E) (\<lambda>_.
     if name = [] then Inl (Panic ''name is empty'')
     else andThen (check_valid_until E validUntil) (\<lambda>_.
       andThen (GetRevisionedInfo cID c) (\<lambda>ir.
       let idx = attr_index name (ci_Attributes ir) 0 in
       andThen (check_removable E ir name idx) (\<lambda>_.
       if idx < 0 then Inr c
       else Inr (put_info_rev cID name (ir\<lparr>ci_Revision := ci_Revision ir + 1,
              ci_Attributes := take (nat idx) (ci_Attributes ir) @ drop (Suc (nat idx)) (ci_Attributes ir)\<rparr>) c)))))"

section \<open>Extended access control lists\<close>

text \<open>The container was created in this transaction when its Transfer from nobody is among the notifications.\<close>

definition just_created :: "bytes \<Rightarrow> cnt_event list \<Rightarrow> bool" where
  "just_created i ntfs = list_ex (\<lambda>n. case n of CntTransfer from to amount tok \<Rightarrow> from = None \<and> tok = i | _ \<Rightarrow> False) ntfs"

definition eacl_container_id :: "bytes \<Rightarrow> bytes res" where
  "eacl_container_id eACL =
     (if length eACL < 2 then Inl (Panic ''missing version field in eACL BLOB'')
      else let idOff = 2 + nat (of_char (eACL ! 1)) + 4 in
        if length eACL < idOff + Hash256Len then Inl (Panic ''missing container ID field in eACL BLOB'')
        else slice idOff (idOff + Hash256Len) eACL)"

definition PutEACL :: "env \<Rightarrow> bytes \<Rightarrow> container \<Rightarrow> container res" where
  "PutEACL E eACL c =
     andThen (CheckAlphabetWitness E) (\<lambda>_.
     andThen (eacl_container_id eACL) (\<lambda>i.
     case LocalGet (infoKey i) c of
       None \<Rightarrow> Inl (Panic NotFoundError)
     | Some cnrRaw \<Rightarrow>
         let c1 = Notify (CntEACLChanged i) (LocalPut (eACLKey i) (Raw eACL) c) in
         if just_created i (notifications c) then Inr c1
         else andThen (cnt_info cnrRaw) (\<lambda>cnr.
           let cnr1 = cnr\<lparr>ci_Revision := ci_Revision cnr + 1\<rparr> in
           Inr (Notify (CntContainerUpdated i (ci_Revision cnr1)) (LocalPut (infoKey i) (Ser (CInfoRev cnr1)) c1)))))"

definition PutEACLOverloaded :: "env \<Rightarrow> bytes \<Rightarrow> bytes \<Rightarrow> container \<Rightarrow> container res" where
  "PutEACLOverloaded E eACL originalRequest c = PutEACL E eACL c"

definition GetEACLData :: "bytes \<Rightarrow> container \<Rightarrow> bytes option res" where
  "GetEACLData i c = andThen (exists_or_NotFound i c) (\<lambda>_. case LocalGet (eACLKey i) c of
     None \<Rightarrow> Inr None | Some v \<Rightarrow> andThen (as_bytes v) (\<lambda>b. Inr (Some b)))"

section \<open>Deployment, migrations and update\<close>

text \<open>Versions before 0.26.1 left the account of the statistics unset; it is the end of the key.\<close>

definition migrate_account :: "bytes \<times> cnt_ser sval \<Rightarrow> container \<Rightarrow> container res" where
  "migrate_account kv c = (case kv of (k, v) \<Rightarrow> andThen (slice_from (1 + Hash256Len) k) (\<lambda>acc.
     if length acc \<noteq> Hash160Len then Inr c
     else andThen (cnt_billing v) (\<lambda>b.
       if length (bs_Account b) \<noteq> Hash160Len then Inr (LocalPut k (Ser (CBilling (b\<lparr>bs_Account := acc\<rparr>))) c)
       else Inr c)))"

definition migrate_billing_size :: "bytes \<times> cnt_ser sval \<Rightarrow> container \<Rightarrow> container res" where
  "migrate_billing_size kv c = (case kv of (k, v) \<Rightarrow>
     if length k \<noteq> 1 + Hash256Len + Hash160Len then Inr c
     else case LocalGet (reportsPrefix (drop 1 k)) c of
       None \<Rightarrow> Inr c
     | Some reportRaw \<Rightarrow> andThen (cnt_billing v) (\<lambda>b. andThen (cnt_report reportRaw) (\<lambda>r.
         let overhead = nr_NumberOfObjects r * objectBillingSize in
         Inr (LocalPut k (Ser (CBilling (b\<lparr>bs_LatestContainerSize := bs_LatestContainerSize b + overhead,
             bs_LatestEpochAverageSize := bs_LatestEpochAverageSize b + overhead,
             bs_PreviousContainerSize := bs_PreviousContainerSize b + overhead,
             bs_PreviousEpochAverageSize := bs_PreviousEpochAverageSize b + overhead\<rparr>))) c))))"

definition migrateBillingSizes :: "container \<Rightarrow> container res" where
  "migrateBillingSizes c = foldR migrate_billing_size (LocalFind (billingPrefix []) c) c"

definition migrate_revision :: "bytes \<times> cnt_ser sval \<Rightarrow> container \<Rightarrow> container res" where
  "migrate_revision kv c = (case kv of (k, v) \<Rightarrow> andThen (deserialize v) (\<lambda>x. case x of
     CInfo i \<Rightarrow> Inr (LocalPut k (Ser (CInfoRev (initInfo i))) c) | _ \<Rightarrow> Inl (Fault ''not a container'')))"

definition migrateToContainersWithRevision :: "container \<Rightarrow> container res" where
  "migrateToContainersWithRevision c = foldR migrate_revision (LocalFind (infoKey []) c) c"

definition cnt_migrate :: "int \<Rightarrow> container \<Rightarrow> container res" where
  "cnt_migrate version c =
     andThen (CheckVersion version) (\<lambda>_.
     andThen (if version < 26001 then foldR migrate_account (LocalFind (billingPrefix []) c) c else Inr c) (\<lambda>c.
     andThen (if version < 27000
       then migrateToContainersWithRevision (LocalDelete ''proxyScriptHash'' (deleteByPrefix ''m'' c))
       else Inr c) (\<lambda>c.
     if version < 28000
     then andThen (migrateBillingSizes c) (\<lambda>c. Inr (deleteByPrefix ''x'' c))
     else Inr c)))"

text \<open>An address argument counts if it is there and has the right length; the name service gives it otherwise.\<close>

definition deploy_address :: "nat \<Rightarrow> bytes res \<Rightarrow> arg list \<Rightarrow> bytes res" where
  "deploy_address n fallback args =
     (if n < length args
      then andThen (arg_bytes (args ! n)) (\<lambda>b. if length b = Hash160Len then Inr b else fallback)
      else fallback)"

definition cnt_deploy ::
  "env \<Rightarrow> 'o services \<Rightarrow> (bytes \<Rightarrow> string \<Rightarrow> int \<Rightarrow> string list res) \<Rightarrow> arg list \<Rightarrow> bool \<Rightarrow> container \<times> 'o \<Rightarrow> (container \<times> 'o) res" where
  "cnt_deploy E S resolver args isUpdate w = (case w of (c, others) \<Rightarrow>
     if isUpdate
     then andThen (last_version args) (\<lambda>version. andThen (cnt_migrate version c) (\<lambda>c1. Inr (c1, others)))
     else andThen (deploy_address 4 (InferNNSHash E) args) (\<lambda>addrNNS.
       andThen (deploy_address 1 (ResolveFSContractWithNNS E resolver addrNNS ''netmap'') args) (\<lambda>addrNetmap.
       andThen (deploy_address 2 (ResolveFSContractWithNNS E resolver addrNNS ''balance'') args) (\<lambda>addrBalance.
       andThen (if length args \<ge> 6
         then andThen (arg_bytes (args ! 5)) (\<lambda>b. Inr (if b \<noteq> [] then b else nnsDefaultTLD))
         else Inr nnsDefaultTLD) (\<lambda>nnsRoot.
       let c1 = LocalPut nnsRootKey (Raw nnsRoot) (LocalPut nnsContractKey (Raw addrNNS)
                 (LocalPut balanceContractKey (Raw addrBalance) (LocalPut netmapContractKey (Raw addrNetmap) c))) in
       andThen (registerNiceNameTLD S addrNNS nnsRoot others) (\<lambda>others1. Inr (c1, others1)))))))"

definition cnt_Update ::
  "env \<Rightarrow> (bytes \<Rightarrow> bytes \<Rightarrow> arg list \<Rightarrow> 'w \<Rightarrow> 'w res) \<Rightarrow> bytes \<Rightarrow> bytes \<Rightarrow> arg list option \<Rightarrow> 'w \<Rightarrow> 'w res" where
  "cnt_Update E management nefFile manifest data w = update_by_committee E management nefFile manifest data w"

end
