(* ===== verification/Container_Encoding.thy ===== *)
theory Container_Encoding
  imports Container_Contract Sample
begin

text \<open>
  The bytes of a container: \<open>toBytes\<close>, which computes the length in advance and fills a buffer, gives
  the Protocol Buffers message of the container, and different containers have different messages, so
  that a container identifier is the digest of exactly one container.
\<close>

section \<open>The reference message\<close>

text \<open>A length-delimited field, an unsigned field that is left out when it is zero, and the message.\<close>

definition msg_bytes :: "64 word \<Rightarrow> bytes \<Rightarrow> bytes" where
  "msg_bytes num bs = varint_bytes (EncodeTag num FieldTypeLEN) @ varint_bytes (of_nat (length bs)) @ bs"

definition msg_uint :: "64 word \<Rightarrow> 32 word \<Rightarrow> bytes" where
  "msg_uint num x = (if x = 0 then [] else varint_bytes (EncodeTag num FieldTypeVARINT) @ varint_bytes (ucast x))"

definition msg_opt_bytes :: "64 word \<Rightarrow> bytes \<Rightarrow> bytes" where
  "msg_opt_bytes num bs = (if bs = [] then [] else msg_bytes num bs)"

definition msg_version :: "api_version \<Rightarrow> bytes" where
  "msg_version v = msg_uint fieldAPIVersionMajor (Major v) @ msg_uint fieldAPIVersionMinor (Minor v)"

definition msg_attribute :: "attribute \<Rightarrow> bytes" where
  "msg_attribute a = msg_opt_bytes fieldAttributeKey (a_Key a) @ msg_opt_bytes fieldAttributeValue (a_Value a)"

definition container_message :: "env \<Rightarrow> info \<Rightarrow> bytes" where
  "container_message E cnr =
     msg_bytes fieldAPIVersion (msg_version (ci_Version cnr)) @
     msg_bytes fieldOwner (msg_bytes fieldOwnerVal (scriptHashToAddress E (ci_Owner cnr))) @
     msg_bytes fieldNonce (ci_Nonce cnr) @
     msg_uint fieldBasicACL (ci_BasicACL cnr) @
     concat (map (\<lambda>a. msg_bytes fieldAttribute (msg_attribute a)) (ci_Attributes cnr)) @
     msg_bytes fieldPolicy (ci_StoragePolicy cnr)"

section \<open>Filling the buffer\<close>

text \<open>A buffer of which a part is written and \<open>k\<close> zero bytes are left.\<close>

definition filled :: "bytes \<Rightarrow> nat \<Rightarrow> bytes \<times> nat" where
  "filled w k = (w @ replicate k (CHR 0x00), length w)"

lemma put_uv_filled:
  "put_uv x (filled w (length (varint_bytes x) + k)) = Inr (filled (w @ varint_bytes x) k)"
  by (simp add: put_uv_def filled_def PutUvarint_eq SizeVarint_eq)

lemma put_copy_filled: "put_copy src (filled w (length src + k)) = Inr (filled (w @ src) k)"
  by (simp add: put_copy_def filled_def copy_at_def)

lemma size_lemmas: "SizeLEN (length bs) = length (varint_bytes (of_nat (length bs)) @ bs)"
  by (simp add: SizeLEN_def SizeVarint_eq)

lemma SizeTag_tag: "SizeTag num = length (varint_bytes (EncodeTag num t))"
  using SizeTag_EncodeTag [of num t] by (simp add: SizeVarint_eq)

lemma length_msg_bytes: "length (msg_bytes num bs) = SizeTag num + SizeLEN (length bs)"
  using SizeTag_tag [of num FieldTypeLEN] by (simp add: msg_bytes_def size_lemmas)

lemma length_msg_uint: "length (msg_uint num x) = (if x \<noteq> 0 then SizeTag num + SizeVarint (ucast x) else 0)"
  using SizeTag_tag [of num FieldTypeVARINT] by (simp add: msg_uint_def SizeVarint_eq)

lemma version_len_eq: "version_len cnr = length (msg_version (ci_Version cnr))"
  by (simp add: version_len_def msg_version_def length_msg_uint)

lemma attr_len_eq: "attr_len a = length (msg_attribute a)"
  by (simp add: attr_len_def msg_attribute_def msg_opt_bytes_def length_msg_bytes)

lemma put_uint_filled:
  "(if x \<noteq> 0 then andThen (put_uv (EncodeTag num FieldTypeVARINT) (filled w (length (msg_uint num x) + k))) (put_uv (ucast x))
    else Inr (filled w (length (msg_uint num x) + k))) = Inr (filled (w @ msg_uint num x) k)"
  by (simp add: msg_uint_def put_uv_filled add.assoc)

lemma put_len_field_filled: "put_len_field num bs (filled w (length (msg_bytes num bs) + k)) = Inr (filled (w @ msg_bytes num bs) k)"
  by (simp add: put_len_field_def msg_bytes_def put_uv_filled put_copy_filled add.assoc)

lemma put_opt_filled:
  "(if bs \<noteq> [] then put_len_field num bs (filled w (length (msg_opt_bytes num bs) + k))
    else Inr (filled w (length (msg_opt_bytes num bs) + k))) = Inr (filled (w @ msg_opt_bytes num bs) k)"
  by (simp add: msg_opt_bytes_def put_len_field_filled)

lemma put_version_filled:
  "put_version cnr (filled w (length (msg_bytes fieldAPIVersion (msg_version (ci_Version cnr))) + k))
     = Inr (filled (w @ msg_bytes fieldAPIVersion (msg_version (ci_Version cnr))) k)"
  using put_uint_filled [of "Major (ci_Version cnr)" fieldAPIVersionMajor]
    put_uint_filled [of "Minor (ci_Version cnr)" fieldAPIVersionMinor]
  by (simp add: put_version_def msg_bytes_def version_len_eq put_uv_filled msg_version_def add.assoc)

lemma put_owner_filled:
  "put_owner E cnr (filled w (length (msg_bytes fieldOwner (msg_bytes fieldOwnerVal (scriptHashToAddress E (ci_Owner cnr)))) + k))
     = Inr (filled (w @ msg_bytes fieldOwner (msg_bytes fieldOwnerVal (scriptHashToAddress E (ci_Owner cnr)))) k)"
proof -
  let ?a = "scriptHashToAddress E (ci_Owner cnr)"
  have len: "SizeTag fieldOwnerVal + SizeLEN (length ?a) = length (msg_bytes fieldOwnerVal ?a)"
    by (simp add: length_msg_bytes)
  have put: "put_owner E cnr st = andThen (put_uv (EncodeTag fieldOwner FieldTypeLEN) st) (\<lambda>st.
      andThen (put_uv (of_nat (length (msg_bytes fieldOwnerVal ?a))) st) (put_len_field fieldOwnerVal ?a))" for st
    by (simp only: put_owner_def Let_def len put_len_field_def [abs_def])
  have split: "length (msg_bytes fieldOwner bs) + k = length (varint_bytes (EncodeTag fieldOwner FieldTypeLEN))
      + (length (varint_bytes (of_nat (length bs))) + (length bs + k))" for bs
    by (simp add: msg_bytes_def)
  show ?thesis unfolding put split
    by (simp add: put_uv_filled put_len_field_filled) (simp add: msg_bytes_def)
qed

lemma put_attribute_filled:
  "put_attribute a (filled w (length (msg_bytes fieldAttribute (msg_attribute a)) + k))
     = Inr (filled (w @ msg_bytes fieldAttribute (msg_attribute a)) k)"
  using put_opt_filled [of "a_Key a" fieldAttributeKey] put_opt_filled [of "a_Value a" fieldAttributeValue]
  by (simp add: put_attribute_def msg_bytes_def attr_len_eq put_uv_filled msg_attribute_def add.assoc)

lemma put_attributes_filled:
  "foldR put_attribute as (filled w (length (concat (map (\<lambda>a. msg_bytes fieldAttribute (msg_attribute a)) as)) + k))
     = Inr (filled (w @ concat (map (\<lambda>a. msg_bytes fieldAttribute (msg_attribute a)) as)) k)"
  by (induction as arbitrary: w) (simp_all add: put_attribute_filled add.assoc)

lemma full_len_eq: "full_len E cnr = length (container_message E cnr)"
proof -
  have "sum_list (map (\<lambda>a. SizeLEN (attr_len a)) as) + length as * SizeTag fieldAttribute
      = length (concat (map (\<lambda>a. msg_bytes fieldAttribute (msg_attribute a)) as))" for as
    by (induction as) (simp_all add: length_msg_bytes attr_len_eq)
  from this [of "ci_Attributes cnr"] show ?thesis
    by (simp add: full_len_def container_message_def Let_def length_msg_bytes length_msg_uint version_len_eq)
qed

text \<open>C19: \<open>toBytes\<close> never fails and gives exactly the Protocol Buffers message of the container: the
  length computed in advance is the length of the message, every write stays in the buffer and the
  buffer is full at the end. Fields with their default value are left out of the version and the
  attributes, as is a zero basic ACL.\<close>

theorem toBytes_is_message: "toBytes E cnr = Inr (container_message E cnr)"
proof -
  let ?ver = "msg_bytes fieldAPIVersion (msg_version (ci_Version cnr))"
  let ?own = "msg_bytes fieldOwner (msg_bytes fieldOwnerVal (scriptHashToAddress E (ci_Owner cnr)))"
  let ?non = "msg_bytes fieldNonce (ci_Nonce cnr)" and ?acl = "msg_uint fieldBasicACL (ci_BasicACL cnr)"
  let ?att = "concat (map (\<lambda>a. msg_bytes fieldAttribute (msg_attribute a)) (ci_Attributes cnr))"
  let ?pol = "msg_bytes fieldPolicy (ci_StoragePolicy cnr)"
  have len: "full_len E cnr = length ?ver + (length ?own + (length ?non + (length ?acl + (length ?att + (length ?pol + 0)))))"
    by (simp add: full_len_eq container_message_def)
  have start: "(replicate (full_len E cnr) (CHR 0x00), 0) = filled [] (full_len E cnr)" by (simp add: filled_def)
  have finish: "(case filled w 0 of (b, off) \<Rightarrow> Inr b) = Inr w" for w :: bytes by (simp add: filled_def)
  show ?thesis
    unfolding toBytes_def start unfolding len
    by (simp only: put_version_filled put_owner_filled put_len_field_filled put_uint_filled put_attributes_filled
        andThen.simps finish) (simp add: container_message_def)
qed

section \<open>Different containers, different messages\<close>

lemma varint_bytes_inject: "varint_bytes x @ r = varint_bytes y @ r' \<longleftrightarrow> x = y \<and> r = r'"
proof
  assume eq: "varint_bytes x @ r = varint_bytes y @ r'"
  have "uvarint (varint_bytes x @ r) = (x, int (SizeVarint x), [])" by (rule uvarint_varint_bytes)
  moreover have "uvarint (varint_bytes y @ r') = (y, int (SizeVarint y), [])" by (rule uvarint_varint_bytes)
  ultimately have "x = y" using eq by simp
  then show "x = y \<and> r = r'" using eq by simp
qed simp

lemma msg_bytes_inject:
  assumes "length a < 2 ^ 64" and "length b < 2 ^ 64"
  shows "msg_bytes num a @ r = msg_bytes num b @ r' \<longleftrightarrow> a = b \<and> r = r'"
proof
  assume "msg_bytes num a @ r = msg_bytes num b @ r'"
  then have len: "(of_nat (length a) :: 64 word) = of_nat (length b)" and rest: "a @ r = b @ r'"
    by (simp_all add: msg_bytes_def varint_bytes_inject)
  have "take_bit 64 (length a) = take_bit 64 (length b)" using len by (simp add: word_of_nat_eq_iff)
  then have "length a = length b" using assms by (simp add: take_bit_nat_eq_self)
  then show "a = b \<and> r = r'" using rest by simp
qed simp

text \<open>The tags of the fields are single bytes, which tell an absent field from the one that follows it.\<close>

lemma field_tags:
  "varint_bytes (EncodeTag fieldAPIVersionMajor FieldTypeVARINT) = [CHR 0x08]"
  "varint_bytes (EncodeTag fieldAPIVersionMinor FieldTypeVARINT) = [CHR 0x10]"
  "varint_bytes (EncodeTag fieldBasicACL FieldTypeVARINT) = [CHR 0x20]"
  "varint_bytes (EncodeTag fieldAttributeKey FieldTypeLEN) = [CHR 0x0A]"
  "varint_bytes (EncodeTag fieldAttributeValue FieldTypeLEN) = [CHR 0x12]"
  "varint_bytes (EncodeTag fieldAttribute FieldTypeLEN) = [CHR 0x2A]"
  "varint_bytes (EncodeTag fieldPolicy FieldTypeLEN) = [CHR 0x32]"
  by code_simp+

lemma msg_uint_inject:
  assumes "varint_bytes (EncodeTag num FieldTypeVARINT) = [t]" and "\<And>z. r \<noteq> t # z" and "\<And>z. r' \<noteq> t # z"
  shows "msg_uint num x @ r = msg_uint num y @ r' \<longleftrightarrow> x = y \<and> r = r'"
proof -
  have "x = y" if "ucast x = (ucast y :: 64 word)" for x y :: "32 word"
  proof (rule bit_word_eqI)
    fix n assume "n < LENGTH(32)"
    then show "bit x n = bit y n" using arg_cong [OF that, of "\<lambda>w. bit w n"] by (simp add: bit_simps)
  qed
  then show ?thesis using assms by (auto simp: msg_uint_def varint_bytes_inject)
qed

lemma msg_opt_bytes_inject:
  assumes "varint_bytes (EncodeTag num FieldTypeLEN) = [t]" and "\<And>z. r \<noteq> t # z" and "\<And>z. r' \<noteq> t # z"
    and "length a < 2 ^ 64" and "length b < 2 ^ 64"
  shows "msg_opt_bytes num a @ r = msg_opt_bytes num b @ r' \<longleftrightarrow> a = b \<and> r = r'"
proof (cases "a = [] \<or> b = []")
  case True
  then show ?thesis using assms(1-3) by (auto simp: msg_opt_bytes_def msg_bytes_def dest: sym)
next
  case False
  then show ?thesis using msg_bytes_inject [OF assms(4,5), of num r r'] by (simp add: msg_opt_bytes_def)
qed

lemma msg_version_inject: "msg_version v = msg_version w \<longleftrightarrow> v = w"
proof
  assume "msg_version v = msg_version w"
  moreover have "msg_uint fieldAPIVersionMinor x \<noteq> CHR 0x08 # z" for x z
    by (simp add: msg_uint_def field_tags)
  ultimately have "Major v = Major w" and min: "msg_uint fieldAPIVersionMinor (Minor v) = msg_uint fieldAPIVersionMinor (Minor w)"
    using msg_uint_inject [OF field_tags(1)] by (simp_all add: msg_version_def)
  moreover have "Minor v = Minor w"
    using min msg_uint_inject [OF field_tags(2), of "[]" "[]" "Minor v" "Minor w"] by simp
  ultimately show "v = w" by simp
qed simp

lemma length_msg_bytes_ge: "length bs \<le> length (msg_bytes num bs)"
  by (simp add: msg_bytes_def)

lemma msg_attribute_lengths: "length (a_Key a) \<le> length (msg_attribute a)" "length (a_Value a) \<le> length (msg_attribute a)"
  using length_msg_bytes_ge [of "a_Key a" fieldAttributeKey] length_msg_bytes_ge [of "a_Value a" fieldAttributeValue]
  by (auto simp: msg_attribute_def msg_opt_bytes_def)

lemma msg_attribute_inject:
  assumes "length (msg_attribute a) < 2 ^ 64" and "length (msg_attribute b) < 2 ^ 64"
  shows "msg_attribute a = msg_attribute b \<longleftrightarrow> a = b"
proof
  assume eq: "msg_attribute a = msg_attribute b"
  have other: "msg_opt_bytes fieldAttributeValue x \<noteq> CHR 0x0A # z" for x z
    by (simp add: msg_opt_bytes_def msg_bytes_def field_tags)
  have short: "length (a_Key a) < 2 ^ 64" "length (a_Key b) < 2 ^ 64" "length (a_Value a) < 2 ^ 64" "length (a_Value b) < 2 ^ 64"
    using assms msg_attribute_lengths [of a] msg_attribute_lengths [of b] by linarith+
  have "a_Key a = a_Key b \<and> msg_opt_bytes fieldAttributeValue (a_Value a) = msg_opt_bytes fieldAttributeValue (a_Value b)"
    using eq msg_opt_bytes_inject [OF field_tags(4) other other short(1,2)] by (simp add: msg_attribute_def)
  then show "a = b"
    using msg_opt_bytes_inject [OF field_tags(5), of "[]" "[]", OF _ _ short(3,4)] by simp
qed simp

text \<open>A list of attributes ends where the policy begins.\<close>

abbreviation msg_attributes :: "attribute list \<Rightarrow> bytes" where
  "msg_attributes as \<equiv> concat (map (\<lambda>a. msg_bytes fieldAttribute (msg_attribute a)) as)"

lemma msg_attributes_inject:
  assumes "length (msg_attributes as) < 2 ^ 64" and "length (msg_attributes bs) < 2 ^ 64"
    and "\<And>z. r \<noteq> CHR 0x2A # z" and "\<And>z. r' \<noteq> CHR 0x2A # z"
  shows "msg_attributes as @ r = msg_attributes bs @ r' \<longleftrightarrow> as = bs \<and> r = r'"
  using assms(1,2)
proof (induction as arbitrary: bs)
  case Nil
  then show ?case using assms(3,4) by (cases bs) (auto simp: msg_bytes_def field_tags)
next
  case (Cons a as)
  show ?case
  proof (cases bs)
    case Nil
    then show ?thesis using assms(4) by (auto simp: msg_bytes_def field_tags dest: sym)
  next
    case bs: (Cons b bs')
    have short: "length (msg_attribute a) < 2 ^ 64" "length (msg_attribute b) < 2 ^ 64"
      using Cons.prems length_msg_bytes_ge [of "msg_attribute a" fieldAttribute]
        length_msg_bytes_ge [of "msg_attribute b" fieldAttribute] by (simp_all add: bs)
    show ?thesis using Cons.IH [of bs'] Cons.prems
      by (simp add: bs msg_bytes_inject [OF short] msg_attribute_inject [OF short])
  qed
qed

section \<open>The owner's address\<close>

lemma scriptHashToAddress_eq:
  assumes "length h = Hash160Len"
  shows "\<exists>sum. scriptHashToAddress E h = rt_address_version E # h @ sum \<and> length (scriptHashToAddress E h) = 25"
proof -
  have v: "(replicate 25 (CHR 0x00))[0 := rt_address_version E] = rt_address_version E # replicate 24 (CHR 0x00)"
    by (simp add: numeral_eq_Suc)
  have c1: "copy_at (rt_address_version E # replicate 24 (CHR 0x00)) 1 h = (rt_address_version E # h) @ replicate 4 (CHR 0x00)"
    using assms by (simp add: copy_at_def)
  have c2: "copy_at (xs @ replicate 4 (CHR 0x00)) 21 ys = xs @ take 4 ys @ drop (length ys) (replicate 4 (CHR 0x00))"
    if "length xs = 21" for xs ys using that by (simp add: copy_at_def)
  have len: "length (rt_address_version E # h) = 21" using assms by simp
  obtain d where d: "scriptHashToAddress E h = copy_at ((rt_address_version E # h) @ replicate 4 (CHR 0x00)) 21 d"
    by (simp only: scriptHashToAddress_def NeoFSUserAccountLength_def Let_def v c1) simp
  show ?thesis using len unfolding d c2 [OF len]
    by (intro exI [of _ "take 4 d @ drop (length d) (replicate 4 (CHR 0x00))"]) simp
qed

lemma scriptHashToAddress_inject:
  assumes "length h = Hash160Len" and "length k = Hash160Len"
  shows "scriptHashToAddress E h = scriptHashToAddress E k \<longleftrightarrow> h = k"
proof
  assume eq: "scriptHashToAddress E h = scriptHashToAddress E k"
  obtain s where "scriptHashToAddress E h = rt_address_version E # h @ s" using scriptHashToAddress_eq [OF assms(1)] by blast
  moreover obtain t where "scriptHashToAddress E k = rt_address_version E # k @ t" using scriptHashToAddress_eq [OF assms(2)] by blast
  ultimately have "h @ s = k @ t" using eq by (metis list.inject)
  then show "h = k" using assms by (metis append_eq_append_conv)
qed simp

text \<open>Two containers whose owners are account hashes and whose bytes are equal are the same
  container: no field, no attribute and no order of attributes is lost or confused with another. (The
  length of the message fits an unsigned 64-bit integer, as every buffer's does.) So containers with
  different data have different identifiers, up to collisions of the digest.\<close>

theorem toBytes_injective:
  assumes "length (ci_Owner c) = Hash160Len" and "length (ci_Owner d) = Hash160Len"
    and "full_len E c < 2 ^ 64" and "toBytes E c = toBytes E d"
  shows "c = d"
proof -
  let ?own = "\<lambda>c. msg_bytes fieldOwnerVal (scriptHashToAddress E (ci_Owner c))"
  have eq: "container_message E c = container_message E d" using assms(4) by (simp add: toBytes_is_message)
  have small: "length (msg_version (ci_Version x)) < 2 ^ 64" "length (?own x) < 2 ^ 64" "length (ci_Nonce x) < 2 ^ 64"
    "length (msg_attributes (ci_Attributes x)) < 2 ^ 64" "length (ci_StoragePolicy x) < 2 ^ 64"
    "length (scriptHashToAddress E (ci_Owner x)) < 2 ^ 64"
    if "x = c \<or> x = d" for x
  proof -
    have "length (container_message E x) < 2 ^ 64" using that eq assms(3) by (auto simp: full_len_eq)
    then show "length (msg_version (ci_Version x)) < 2 ^ 64" "length (?own x) < 2 ^ 64" "length (ci_Nonce x) < 2 ^ 64"
      "length (msg_attributes (ci_Attributes x)) < 2 ^ 64" "length (ci_StoragePolicy x) < 2 ^ 64"
      "length (scriptHashToAddress E (ci_Owner x)) < 2 ^ 64"
      by (simp_all add: container_message_def msg_bytes_def)
  qed
  note inj = msg_bytes_inject [OF small(1) small(1)] msg_bytes_inject [OF small(2) small(2)]
    msg_bytes_inject [OF small(3) small(3)]
  have tag: "msg_attributes as @ msg_bytes fieldPolicy p \<noteq> CHR 0x20 # z" for as p z
    by (cases as) (simp_all add: msg_bytes_def field_tags)
  have end_tag: "msg_bytes fieldPolicy p \<noteq> CHR 0x2A # z" for p z by (simp add: msg_bytes_def field_tags)
  from eq have "ci_Version c = ci_Version d" and own: "?own c = ?own d" and "ci_Nonce c = ci_Nonce d"
    and "ci_BasicACL c = ci_BasicACL d" and "ci_Attributes c = ci_Attributes d"
    and pol: "msg_bytes fieldPolicy (ci_StoragePolicy c) = msg_bytes fieldPolicy (ci_StoragePolicy d)"
    by (simp_all add: container_message_def inj msg_version_inject msg_uint_inject [OF field_tags(3) tag tag]
        msg_attributes_inject [OF small(4) small(4) end_tag end_tag])
  moreover have "ci_StoragePolicy c = ci_StoragePolicy d"
    using pol msg_bytes_inject [OF small(5) small(5), of c d fieldPolicy "[]" "[]"] by simp
  moreover have "ci_Owner c = ci_Owner d"
    using own msg_bytes_inject [OF small(6) small(6), of c d fieldOwnerVal "[]" "[]"] scriptHashToAddress_inject assms(1,2) by simp
  ultimately show "c = d" by simp
qed

text \<open>A container with a name, two attributes and a policy, used to apply the properties.\<close>

definition cnr_a :: info where
  "cnr_a = \<lparr>ci_Version = \<lparr>Major = 2, Minor = 18\<rparr>, ci_Owner = addrA, ci_Nonce = replicate 16 CHR ''n'', ci_BasicACL = 0x1FBFBFFF,
     ci_Attributes = [\<lparr>a_Key = ''Name'', a_Value = ''photos''\<rparr>, \<lparr>a_Key = ''Timestamp'', a_Value = ''17''\<rparr>],
     ci_StoragePolicy = ''REP 3''\<rparr>"

theorem toBytes_injective_witness:
  "toBytes sample_env cnr_a \<noteq> toBytes sample_env (cnr_a\<lparr>ci_Attributes := rev (ci_Attributes cnr_a)\<rparr>)"
proof
  assume eq: "toBytes sample_env cnr_a = toBytes sample_env (cnr_a\<lparr>ci_Attributes := rev (ci_Attributes cnr_a)\<rparr>)"
  have "full_len sample_env cnr_a < 2 ^ 64"
  proof -
    have "full_len sample_env cnr_a = 99" by code_simp
    then show ?thesis by simp
  qed
  then have "cnr_a = cnr_a\<lparr>ci_Attributes := rev (ci_Attributes cnr_a)\<rparr>"
    using eq by (intro toBytes_injective) (simp_all add: cnr_a_def)
  then show False by (simp add: cnr_a_def)
qed

end
