(* ===== verification/Container_State.thy ===== *)
theory Container_State
  imports Container_Encoding
begin

text \<open>
  The Container contract over its life: everything that transactions, and the contracts they call back
  through token payments, may do to its state, as a relation; deleted containers and locked containers
  under that relation.
\<close>

section \<open>Everything that can happen\<close>

text \<open>
  \<open>cnt_reach P Q w w'\<close>: the states \<open>w\<close> and \<open>w'\<close> of this contract and of the others are
  connected by operations in environments that satisfy \<open>P\<close>, the containers created meanwhile having
  identifiers that satisfy \<open>Q\<close>. The other contracts may change in any way in between. An operation
  that pays a token calls the receiver, which may do to this contract whatever the relation allows.
\<close>

inductive cnt_reach ::
  "(env \<Rightarrow> bool) \<Rightarrow> (bytes \<Rightarrow> bool) \<Rightarrow> container \<times> 'o \<Rightarrow> container \<times> 'o \<Rightarrow> bool" for P Q where
  same: "cnt_reach P Q w w"
| step: "cnt_reach P Q u v \<Longrightarrow> cnt_reach P Q v w \<Longrightarrow> cnt_reach P Q u w"
| others: "cnt_reach P Q (c, x) (c, y)"
| new_transaction: "cnt_reach P Q (c, x) (c\<lparr>notifications := []\<rparr>, x)"
| create: "P E \<Longrightarrow> CreateV2 E S cnr w = Inr (i, w') \<Longrightarrow> Q i \<Longrightarrow>
    (\<And>h from n tok d u v. nep11Payment S h from n tok d u = Inr v \<Longrightarrow> cnt_reach P Q u v) \<Longrightarrow> cnt_reach P Q w w'"
| transfer: "P E \<Longrightarrow> cnt_Transfer E S ser to i data w = Inr (ok, w') \<Longrightarrow>
    (\<And>h from n tok d u v. nep11Payment S h from n tok d u = Inr v \<Longrightarrow> cnt_reach P Q u v) \<Longrightarrow> cnt_reach P Q w w'"
| remove: "P E \<Longrightarrow> cnt_Remove E S i w = Inr w' \<Longrightarrow> cnt_reach P Q w w'"
| report: "P E \<Longrightarrow> PutReport E S i sz objs k w = Inr w' \<Longrightarrow> cnt_reach P Q w w'"
| container_quota: "P E \<Longrightarrow> setContainerQuota E S i sz hard w = Inr w' \<Longrightarrow> cnt_reach P Q w w'"
| user_quota: "P E \<Longrightarrow> setUserQuota E S user sz hard w = Inr w' \<Longrightarrow> cnt_reach P Q w w'"
| add_nodes: "P E \<Longrightarrow> AddNextEpochNodes E i n ks c = Inr c' \<Longrightarrow> cnt_reach P Q (c, x) (c', x)"
| commit: "P E \<Longrightarrow> CommitContainerListUpdate E i rs c = Inr c' \<Longrightarrow> cnt_reach P Q (c, x) (c', x)"
| eacl: "P E \<Longrightarrow> PutEACL E b c = Inr c' \<Longrightarrow> cnt_reach P Q (c, x) (c', x)"
| set_attribute: "P E \<Longrightarrow> SetAttribute E i name val until c = Inr c' \<Longrightarrow> cnt_reach P Q (c, x) (c', x)"
| remove_attribute: "P E \<Longrightarrow> RemoveAttribute E i name until c = Inr c' \<Longrightarrow> cnt_reach P Q (c, x) (c', x)"
| migrate: "cnt_migrate ver c = Inr c' \<Longrightarrow> cnt_reach P Q (c, x) (c', x)"

section \<open>What an operation leaves alone\<close>

text \<open>
  Two kinds of entries are never touched but by the operations on containers themselves: the
  container records and the marks of deleted containers.
\<close>

definition core_key :: "bytes \<Rightarrow> bool" where
  "core_key k \<longleftrightarrow> (\<exists>i. k = infoKey i \<or> k = deletedKey i)"

definition core_same :: "container \<Rightarrow> container \<Rightarrow> bool" where
  "core_same c d \<longleftrightarrow> (contract_ok c \<longrightarrow> contract_ok d) \<and> (\<forall>k. core_key k \<longrightarrow> LocalGet k d = LocalGet k c)"

named_theorems core_intros \<open>operations that keep the containers and the deletion marks\<close>

lemma core_same_refl [core_intros, simp]: "core_same c c"
  by (simp add: core_same_def)

lemma core_same_trans [trans]: "core_same c d \<Longrightarrow> core_same d e \<Longrightarrow> core_same c e"
  by (auto simp: core_same_def)

lemma core_keys [simp]: "core_key (infoKey i)" "core_key (deletedKey i)" "\<not> core_key (summaryKey i)"
  "\<not> core_key (reportsPrefix i)" "\<not> core_key (ownerPrefix i)" "\<not> core_key (nodesPrefix i)" "\<not> core_key (replicasPrefix i)"
  "\<not> core_key (nextNodesPrefix i)" "\<not> core_key (containerQuotaKey i)" "\<not> core_key (userQuotaKey i)"
  "\<not> core_key (userTotalStorageKey i)" "\<not> core_key (billingPrefix i)" "\<not> core_key (eACLKey i)"
  "\<not> core_key (nnsHasAliasKey i)" "\<not> core_key nnsRootKey" "\<not> core_key nnsContractKey"
  "\<not> core_key balanceContractKey" "\<not> core_key netmapContractKey"
  by (auto simp: core_key_def cnt_key_defs)

lemma core_prefix_append: "p \<noteq> [] \<Longrightarrow> core_key (p @ k) \<longleftrightarrow> hd p = CHR 0x00 \<or> hd p = CHR ''d''"
  by (cases p) (auto simp: core_key_def infoKey_def deletedKey_def)

lemma core_key_hd: "core_key k \<longleftrightarrow> k \<noteq> [] \<and> (hd k = CHR 0x00 \<or> hd k = CHR ''d'')"
  by (cases k) (auto simp: core_key_def infoKey_def deletedKey_def)

lemma core_same_updates [core_intros]:
  "\<not> core_key k \<Longrightarrow> core_same c d \<Longrightarrow> core_same c (LocalPut k v d)"
  "\<not> core_key k \<Longrightarrow> core_same c d \<Longrightarrow> core_same c (LocalDelete k d)"
  "\<not> core_key k \<Longrightarrow> core_same c d \<Longrightarrow> core_same c (put_int k n d)"
  "core_same c d \<Longrightarrow> core_same c (Notify e d)"
  "(\<And>k. k \<in> set ks \<Longrightarrow> \<not> core_key k) \<Longrightarrow> core_same c d \<Longrightarrow> core_same c (deleteKeys ks d)"
  by (auto simp: core_same_def)

lemma core_same_get: "core_same c d \<Longrightarrow> LocalGet (infoKey i) d = LocalGet (infoKey i) c"
  "core_same c d \<Longrightarrow> LocalGet (deletedKey i) d = LocalGet (deletedKey i) c"
  by (simp_all add: core_same_def)

lemma core_same_deleteByPrefix [core_intros]:
  assumes "p \<noteq> []" "hd p \<noteq> CHR 0x00" "hd p \<noteq> CHR ''d''" and "core_same c d"
  shows "core_same c (deleteByPrefix p d)"
proof -
  have "\<not> core_key k" if "k \<in> set (map fst (LocalFind p d))" for k
  proof -
    have "prefix p k" using that LocalFind_prefix by fastforce
    then show ?thesis using assms(1-3) core_prefix_append by (auto simp: prefix_def)
  qed
  then show ?thesis using assms(4) by (auto simp: deleteByPrefix_def intro!: core_intros)
qed

lemma core_same_foldR:
  assumes "foldR f xs s = Inr t" and "core_same c (g s)"
    and "\<And>x s s'. x \<in> set xs \<Longrightarrow> f x s = Inr s' \<Longrightarrow> core_same (g s) (g s')"
  shows "core_same c (g t)"
  using foldR_invariant [OF assms(1), of "\<lambda>s. core_same c (g s)"] assms(2,3) core_same_trans by meson

lemma core_same_updateUserTakenSpace:
  "updateUserTakenSpace a n d = Inr e \<Longrightarrow> core_same c d \<Longrightarrow> core_same c e"
  by (auto simp: updateUserTakenSpace_def Let_def intro: core_intros split: if_splits)

lemma core_same_AddNextEpochNodes: "AddNextEpochNodes E i n ks c = Inr c' \<Longrightarrow> core_same c c'"
proof (unfold AddNextEpochNodes_def, clarsimp split: if_splits)
  fix b assume "foldR (add_next_node E (nextNodesPrefix (i @ [b]))) ks c = Inr c'"
  then show "core_same c c'"
    by (rule core_same_foldR [where g = id, simplified])
      (auto simp: add_next_node_def core_key_hd nextNodesPrefix_def intro!: core_intros split: if_splits)
qed

lemma core_same_drop_old_node:
  assumes "drop_old_node n kv st = Inr st'" and "\<not> core_key (fst kv)"
  shows "core_same (fst st) (fst st')"
  using assms by (auto simp: drop_old_node_def Let_def split: if_splits prod.splits option.splits intro!: core_intros)

lemma core_same_put_replicas: "put_replicas i rs n c = Inr d \<Longrightarrow> core_same c d"
  by (induction i rs n c rule: put_replicas.induct)
    (auto split: if_splits elim!: core_same_trans [rotated] intro!: core_intros)

lemma core_same_commit_stat: "commit_stat E i sd od c = Inr d \<Longrightarrow> core_same c d"
  by (auto simp: commit_stat_def Let_def split: if_splits option.splits intro!: core_intros
      elim!: core_same_updateUserTakenSpace)

lemma core_key_find:
  assumes "e \<in> set (LocalFind p c)" and "p \<noteq> []" "hd p \<noteq> CHR 0x00" "hd p \<noteq> CHR ''d''"
  shows "\<not> core_key (fst e)"
  using LocalFind_prefix [OF assms(1)] assms(2-4) by (auto simp: prefix_def core_prefix_append)

lemma core_same_move_new_node:
  "\<not> core_key (fst kv) \<Longrightarrow> core_same c d \<Longrightarrow> core_same c (move_new_node kv d)"
  by (cases kv) (auto simp: move_new_node_def intro!: core_intros)

lemma core_same_move_nodes:
  assumes "\<And>kv. kv \<in> set kvs \<Longrightarrow> \<not> core_key (fst kv)"
  shows "core_same c (fold move_new_node kvs c)"
proof -
  have "core_same c d \<Longrightarrow> core_same c (fold move_new_node kvs d)" for d
    using assms by (induction kvs arbitrary: d) (simp_all add: core_same_move_new_node)
  then show ?thesis by simp
qed

lemma core_same_CommitContainerListUpdate:
  assumes "CommitContainerListUpdate E i rs c = Inr c'"
  shows "core_same c c'"
proof -
  let ?d = "\<lambda>c1. fold move_new_node (LocalFind (nextNodesPrefix i) c1) c1"
  obtain c1 sd od c4 c5 where
    old: "foldR (drop_old_node (length rs)) (LocalFind (nodesPrefix i) c) (c, 0, 0) = Inr (c1, sd, od)"
    and reps: "put_replicas i rs 0 (deleteKeys (map fst (LocalFind (replicasPrefix i) (?d c1))) (?d c1)) = Inr c4"
    and stat: "commit_stat E i sd od c4 = Inr c5" and c': "c' = Notify (CntNodesUpdate i) c5"
    using assms by (auto simp: CommitContainerListUpdate_def Let_def split: if_splits)
  have "core_same c (fst (c1, sd, od))"
    using old
  proof (rule core_same_foldR)
    show "core_same (fst st) (fst st')"
      if "kv \<in> set (LocalFind (nodesPrefix i) c)" and "drop_old_node (length rs) kv st = Inr st'" for kv st st'
      using core_same_drop_old_node [OF that(2)] core_key_find [OF that(1)] by (simp add: nodesPrefix_def)
  qed simp
  also have "core_same (fst (c1, sd, od)) (?d c1)"
    using core_same_move_nodes core_key_find [of _ "nextNodesPrefix i" c1] by (auto simp: nextNodesPrefix_def)
  also have "core_same (?d c1) (deleteKeys (map fst (LocalFind (replicasPrefix i) (?d c1))) (?d c1))"
    using core_key_find [of _ "replicasPrefix i" "?d c1"] by (auto simp: replicasPrefix_def intro!: core_intros)
  also have "core_same \<dots> c4" using reps by (rule core_same_put_replicas)
  also have "core_same c4 c5" using stat by (rule core_same_commit_stat)
  also have "core_same c5 c'" by (simp add: c' core_intros)
  finally show ?thesis .
qed

lemma core_same_store_report: "store_report i a ow rep b df sm c = Inr d \<Longrightarrow> core_same c d"
  by (auto simp: store_report_def intro!: core_intros elim!: core_same_updateUserTakenSpace)

lemma core_same_PutReport:
  assumes "PutReport E S i sz objs k (c, x) = Inr (c', x')"
  shows "core_same c c'"
  using assms by (auto simp: PutReport_def Let_def split: option.splits if_splits intro: core_same_store_report)

lemma core_same_setContainerQuota: "setContainerQuota E S i sz hard (c, x) = Inr (c', x') \<Longrightarrow> core_same c c'"
  by (auto simp: setContainerQuota_def split: option.splits if_splits intro!: core_intros)

lemma core_same_setUserQuota: "setUserQuota E S user sz hard (c, x) = Inr (c', x') \<Longrightarrow> core_same c c'"
  by (auto simp: setUserQuota_def split: if_splits intro!: core_intros)

section \<open>Operations on containers\<close>

text \<open>Only the record of one container changes; its new value is \<open>v\<close>.\<close>

definition core_put :: "bytes \<Rightarrow> cnt_ser sval option \<Rightarrow> container \<Rightarrow> container \<Rightarrow> bool" where
  "core_put i v c d \<longleftrightarrow> (contract_ok c \<longrightarrow> contract_ok d) \<and> LocalGet (infoKey i) d = v \<and>
     (\<forall>k. core_key k \<longrightarrow> k \<noteq> infoKey i \<longrightarrow> LocalGet k d = LocalGet k c)"

lemma infoKey_inject [simp]: "infoKey i = infoKey j \<longleftrightarrow> i = j" "infoKey i \<noteq> deletedKey j" "deletedKey i \<noteq> infoKey j"
  "deletedKey i = deletedKey j \<longleftrightarrow> i = j"
  by (auto simp: infoKey_def deletedKey_def)

lemma core_put_LocalPut: "core_put i (Some v) c (LocalPut (infoKey i) v c)"
  by (simp add: core_put_def)

lemma core_put_same: "core_put i v c d \<Longrightarrow> core_same d e \<Longrightarrow> core_put i v c e"
  "core_same c d \<Longrightarrow> core_put i v d e \<Longrightarrow> core_put i v c e"
  by (auto simp: core_put_def core_same_def)

lemma core_put_get: "core_put i v c d \<Longrightarrow> LocalGet (infoKey j) d = (if j = i then v else LocalGet (infoKey j) c)"
  "core_put i v c d \<Longrightarrow> LocalGet (deletedKey j) d = LocalGet (deletedKey j) c"
  by (auto simp: core_put_def)

lemma core_put_PutEACL:
  assumes "PutEACL E b c = Inr c'"
  shows "core_same c c' \<or> (\<exists>i r. LocalGet (infoKey i) c = Some (Ser (CInfoRev r)) \<and>
    core_put i (Some (Ser (CInfoRev (r\<lparr>ci_Revision := ci_Revision r + 1\<rparr>)))) c c')"
proof -
  obtain i v where i: "eacl_container_id b = Inr i" and v: "LocalGet (infoKey i) c = Some v"
    using assms by (auto simp: PutEACL_def split: option.splits)
  let ?c1 = "Notify (CntEACLChanged i) (LocalPut (eACLKey i) (Raw b) c)"
  have c1: "core_same c ?c1" by (simp add: core_intros)
  show ?thesis
  proof (cases "just_created i (notifications c)")
    case True
    then have "c' = ?c1" using assms i v by (simp add: PutEACL_def Let_def)
    then show ?thesis using c1 by simp
  next
    case False
    then obtain r where r: "v = Ser (CInfoRev r)" and c': "c' = Notify (CntContainerUpdated i (ci_Revision r + 1))
        (LocalPut (infoKey i) (Ser (CInfoRev (r\<lparr>ci_Revision := ci_Revision r + 1\<rparr>))) ?c1)"
      using assms i v by (auto simp: PutEACL_def Let_def)
    have "core_put i (Some (Ser (CInfoRev (r\<lparr>ci_Revision := ci_Revision r + 1\<rparr>)))) c c'"
      using c1 core_put_LocalPut unfolding c' by (blast intro: core_put_same core_intros)
    then show ?thesis using v r by blast
  qed
qed

text \<open>The position \<open>attr_index\<close> finds splits the list of attributes at the first one of that name.\<close>

lemma attr_index_cases:
  obtains (missing) "attr_index name as n = - 1" "\<And>a. a \<in> set as \<Longrightarrow> a_Key a \<noteq> name"
  | (found) pre a post where "as = pre @ a # post" "a_Key a = name" "\<And>b. b \<in> set pre \<Longrightarrow> a_Key b \<noteq> name"
      "attr_index name as n = int (n + length pre)"
proof -
  have "attr_index name as n = - 1 \<and> (\<forall>a\<in>set as. a_Key a \<noteq> name) \<or>
    (\<exists>pre a post. as = pre @ a # post \<and> a_Key a = name \<and> (\<forall>b\<in>set pre. a_Key b \<noteq> name) \<and>
      attr_index name as n = int (n + length pre))"
  proof (induction as arbitrary: n)
    case (Cons a as)
    show ?case
    proof (cases "a_Key a = name")
      case True
      then show ?thesis by (intro disjI2 exI [of _ "[]"]) simp
    next
      case False
      show ?thesis using Cons.IH [of "Suc n"]
      proof (elim disjE exE conjE)
        fix pre b post
        assume as: "as = pre @ b # post" and b: "a_Key b = name" and pre: "\<forall>b\<in>set pre. a_Key b \<noteq> name"
          and idx: "attr_index name as (Suc n) = int (Suc n + length pre)"
        have "a # as = (a # pre) @ b # post" using as by simp
        moreover have "\<forall>b\<in>set (a # pre). a_Key b \<noteq> name" using pre False by simp
        moreover have "attr_index name (a # as) n = int (n + length (a # pre))" using idx False by simp
        ultimately show ?thesis using b by blast
      qed (use False in simp)
    qed
  qed simp
  then show thesis using missing found by blast
qed

definition replace_attr :: "string \<Rightarrow> string \<Rightarrow> attribute list \<Rightarrow> attribute list" where
  "replace_attr name val as = (let idx = attr_index name as 0 in
     if idx \<ge> 0 then as[nat idx := (as ! nat idx)\<lparr>a_Value := val\<rparr>] else as @ [\<lparr>a_Key = name, a_Value = val\<rparr>])"

lemma SetAttribute_result:
  assumes "SetAttribute E i name val until c = Inr c'"
  obtains r where "LocalGet (infoKey i) c = Some (Ser (CInfoRev r))"
    "validate_attribute E r name val (attr_index name (ci_Attributes r) 0) = Inr ()"
    "alphabet_ok E" "name \<noteq> []" "val \<noteq> []" "rt_time E \<le> until * 1000"
    "c' = put_info_rev i name (r\<lparr>ci_Attributes := replace_attr name val (ci_Attributes r), ci_Revision := ci_Revision r + 1\<rparr>) c"
  using assms
  by (auto simp: SetAttribute_def replace_attr_def Let_def GetRevisionedInfo_def check_valid_until_def split: if_splits option.splits)

lemma RemoveAttribute_result:
  assumes "RemoveAttribute E i name until c = Inr c'"
  obtains r idx where "LocalGet (infoKey i) c = Some (Ser (CInfoRev r))" "idx = attr_index name (ci_Attributes r) 0"
    "check_removable E r name idx = Inr ()" "alphabet_ok E" "rt_time E \<le> until * 1000"
    "c' = (if idx < 0 then c else put_info_rev i name (r\<lparr>ci_Revision := ci_Revision r + 1,
      ci_Attributes := take (nat idx) (ci_Attributes r) @ drop (Suc (nat idx)) (ci_Attributes r)\<rparr>) c)"
  using assms
  by (auto simp: RemoveAttribute_def Let_def GetRevisionedInfo_def check_valid_until_def split: if_splits option.splits)

lemma core_put_put_info_rev: "core_put i (Some (Ser (CInfoRev r))) c (put_info_rev i name r c)"
  by (simp add: put_info_rev_def core_put_def)

lemma core_same_removeContainer:
  assumes "removeContainer i a c = Inr d"
  shows "(contract_ok c \<longrightarrow> contract_ok d) \<and> LocalGet (infoKey i) d = None \<and> LocalGet (deletedKey i) d = Some (Raw []) \<and>
    (\<forall>k. core_key k \<longrightarrow> k \<noteq> infoKey i \<longrightarrow> k \<noteq> deletedKey i \<longrightarrow> LocalGet k d = LocalGet k c)"
proof -
  obtain c0 where c0: "(case LocalGet (summaryKey i) c of None \<Rightarrow> Inr c
      | Some v \<Rightarrow> andThen (cnt_summary v) (\<lambda>s. updateUserTakenSpace a (- rs_ContainerSize s) c)) = Inr c0"
    and d: "d = LocalPut (deletedKey i) (Raw []) (LocalDelete (eACLKey i) (LocalDelete (infoKey i) (LocalDelete (summaryKey i)
      (LocalDelete (containerQuotaKey i) (deleteByPrefix (billingPrefix i) (deleteByPrefix (reportsPrefix i)
      (deleteByPrefix (replicasPrefix i) (deleteByPrefix (nextNodesPrefix i) (deleteByPrefix (nodesPrefix i)
      (LocalDelete (ownerPrefix a @ i) c0))))))))))"
    using assms by (auto simp: removeContainer_def Let_def)
  have "core_same c c0" using c0
    by (auto split: option.splits elim!: core_same_updateUserTakenSpace)
  then have e: "core_same c (LocalDelete (summaryKey i) (LocalDelete (containerQuotaKey i) (deleteByPrefix (billingPrefix i)
      (deleteByPrefix (reportsPrefix i) (deleteByPrefix (replicasPrefix i) (deleteByPrefix (nextNodesPrefix i)
      (deleteByPrefix (nodesPrefix i) (LocalDelete (ownerPrefix a @ i) c0))))))))" (is "core_same c ?e")
    by (intro core_intros) (simp_all add: core_prefix_append cnt_key_defs core_key_hd)
  show ?thesis using e unfolding d core_same_def
    by (auto simp: core_key_hd cnt_key_defs)
qed

lemma onNEP11Payment_cases:
  assumes "onNEP11Payment E S i from to data w = Inr w'"
  obtains (account) "w' = w" | (receiver) "nep11Payment S to from nep11TransferAmount i data w = Inr w'"
proof (cases "rt_is_contract E to")
  case True
  then show ?thesis using assms receiver by (simp add: onNEP11Payment_def)
next
  case False
  then show ?thesis using assms account by (simp add: onNEP11Payment_def)
qed

lemma Remove_result:
  assumes "cnt_Remove E S i (c, x) = Inr (c', x')"
  obtains (absent) "LocalGet (infoKey i) c = None" "c' = c" "x' = x" "alphabet_ok E" "length i = Hash256Len"
  | (removed) r c1 c2 where "LocalGet (infoKey i) c = Some (Ser (CInfoRev r))" "checkLock E r = Inr []"
      "removeContainer i (scriptHashToAddress E (ci_Owner r)) c = Inr c1"
      "c2 = c1 \<or> c2 = LocalDelete (nnsHasAliasKey i) c1" "LocalGet (nnsHasAliasKey i) c2 \<in> {None, Some (Raw [])}"
      "c' = notifyNEP11Transfer i (Some (ci_Owner r)) None c2" "alphabet_ok E" "length i = Hash256Len"
proof (cases "LocalGet (infoKey i) c")
  case None
  then show ?thesis using assms absent by (auto simp: cnt_Remove_def split: if_splits)
next
  case (Some v)
  then obtain r c1 where v: "v = Ser (CInfoRev r)" and lock: "checkLock E r = Inr []"
    and c1: "removeContainer i (scriptHashToAddress E (ci_Owner r)) c = Inr c1" and ok: "alphabet_ok E" "length i = Hash256Len"
    and rest: "andThen (case LocalGet (nnsHasAliasKey i) c1 of None \<Rightarrow> Inr (c1, x)
            | Some v \<Rightarrow> andThen (as_bytes v) (\<lambda>domain. if domain = [] then Inr (c1, x)
                else let c2 = LocalDelete (nnsHasAliasKey i) c1 in
                  andThen (deleteNNSRecords S domain (c2, x)) (\<lambda>others. Inr (c2, others)))) (\<lambda>(c2, others).
           Inr (notifyNEP11Transfer i (Some (ci_Owner r)) None c2, others)) = Inr (c', x')"
    using assms by (auto simp: cnt_Remove_def split: if_splits simp del: andThen_Inr_iff) (auto split: if_splits)
  have "\<exists>c2. (c2 = c1 \<or> c2 = LocalDelete (nnsHasAliasKey i) c1) \<and> LocalGet (nnsHasAliasKey i) c2 \<in> {None, Some (Raw [])} \<and>
      c' = notifyNEP11Transfer i (Some (ci_Owner r)) None c2"
  proof (cases "LocalGet (nnsHasAliasKey i) c1")
    case None
    then show ?thesis using rest by (intro exI [of _ c1]) auto
  next
    case (Some a)
    then obtain d where a: "a = Raw d" using rest by auto
    show ?thesis
    proof (cases "d = []")
      case True
      then show ?thesis using rest Some a by (intro exI [of _ c1]) auto
    next
      case False
      then show ?thesis using rest Some a
        by (intro exI [of _ "LocalDelete (nnsHasAliasKey i) c1"]) (auto simp: Let_def)
    qed
  qed
  then show ?thesis using removed Some v lock c1 ok by blast
qed

lemma core_same_create_domain: "create_domain E S i name zone (c, x) = Inr (c', x') \<Longrightarrow> core_same c c'"
  by (auto simp: create_domain_def Let_def split: if_splits intro!: core_intros)

lemma CreateV2_result:
  assumes "CreateV2 E S cnr (c, x) = Inr (i, w')"
  obtains c1 name zone x1 x2 where "i = rt_sha256 E (container_message E cnr)" "LocalGet (deletedKey i) c = None"
    "create_attributes E (ci_Attributes cnr) ([], []) = Inr (name, zone)"
    "(if name \<noteq> [] then create_domain E S i name zone (c, x) else Inr (c, x)) = Inr (c1, x1)" "core_same c c1"
    "pay_fee E S cnr (name \<noteq> []) i (c1, x1) = Inr x2"
    "onNEP11Payment E S i None (ci_Owner cnr) ANull (store_container E i cnr c1, x2) = Inr w'"
    "witnessed E (Multiaddress E (AlphabetNodes E) False)"
proof -
  have i: "i = rt_sha256 E (container_message E cnr)" and none: "LocalGet (deletedKey i) c = None"
    and wit: "witnessed E (Multiaddress E (AlphabetNodes E) False)"
    using assms by (auto simp: CreateV2_def toBytes_is_message Let_def split: if_split_asm)
  have w: "checkWitnessWithPanic E (Multiaddress E (AlphabetNodes E) False) ErrAlphabetWitnessFailed = Inr ()" using wit by simp
  then have rest: "andThen (create_attributes E (ci_Attributes cnr) ([], [])) (\<lambda>(name, zone).
       andThen (if name \<noteq> [] then create_domain E S i name zone (c, x) else Inr (c, x)) (\<lambda>(c, others).
       andThen (pay_fee E S cnr (name \<noteq> []) i (c, others)) (\<lambda>others.
       andThen (onNEP11Payment E S i None (ci_Owner cnr) ANull (store_container E i cnr c, others)) (\<lambda>w. Inr (i, w))))) = Inr (i, w')"
    using assms unfolding CreateV2_def w toBytes_is_message andThen.simps Let_def fst_conv i [symmetric]
    by (simp add: none del: andThen_Inr_iff)
  obtain name zone where ca: "create_attributes E (ci_Attributes cnr) ([], []) = Inr (name, zone)"
    using rest by (cases "create_attributes E (ci_Attributes cnr) ([], [])") auto
  obtain c1 x1 where dom: "(if name \<noteq> [] then create_domain E S i name zone (c, x) else Inr (c, x)) = Inr (c1, x1)"
    using rest ca by (cases "if name \<noteq> [] then create_domain E S i name zone (c, x) else Inr (c, x)") (auto simp del: if_split)
  obtain x2 where **: "pay_fee E S cnr (name \<noteq> []) i (c1, x1) = Inr x2"
    "onNEP11Payment E S i None (ci_Owner cnr) ANull (store_container E i cnr c1, x2) = Inr w'"
    using rest by (auto simp only: ca dom andThen.simps prod.case andThen_Inr_iff sum.inject)
  have "core_same c c1" using dom core_same_create_domain by (auto split: if_splits)
  with i none wit ca dom ** show ?thesis using that by blast
qed

lemma core_put_store_container:
  "core_put i (Some (Ser (CInfoRev (initInfo cnr)))) c (store_container E i cnr c)"
  by (simp add: store_container_def notifyNEP11Transfer_def core_put_def core_key_hd ownerPrefix_def infoKey_def)

lemma core_put_move_container:
  assumes "move_container E ser to i r c = Inr d"
  shows "core_put i (Some (Ser (CInfoRev (r\<lparr>ci_Owner := to, ci_Revision := ci_Revision r + 1\<rparr>)))) c d"
proof -
  let ?r = "r\<lparr>ci_Owner := to, ci_Revision := ci_Revision r + 1\<rparr>"
  let ?c4 = "LocalPut (ownerPrefix (scriptHashToAddress E to) @ i) (Raw i)
    (LocalDelete (ownerPrefix (scriptHashToAddress E (ci_Owner r)) @ i)
      (LocalPut (infoKey i) (Ser (CInfoRev ?r)) (Notify (CntContainerUpdated i (ci_Revision ?r)) c)))"
  have "core_put i (Some (Ser (CInfoRev ?r))) c ?c4"
    by (simp add: core_put_def core_key_hd ownerPrefix_def infoKey_def)
  moreover have "core_same ?c4 d"
    using assms by (auto simp: move_container_def Let_def split: option.splits elim!: core_same_updateUserTakenSpace)
  ultimately show ?thesis by (rule core_put_same)
qed

lemma Transfer_result:
  assumes "cnt_Transfer E S ser to i data (c, x) = Inr (ok, w')"
  obtains (refused) "ok = False" "w' = (c, x)"
  | (moved) r c1 where "ok = True" "LocalGet (infoKey i) c = Some (Ser (CInfoRev r))" "length to = Hash160Len"
      "witnessed E (ci_Owner r)" "witnessed E to"
      "(if ci_Owner r = to then Inr c else move_container E ser to i r c) = Inr c1"
      "onNEP11Payment E S i (Some (ci_Owner r)) to data (notifyNEP11Transfer i (Some (ci_Owner r)) (Some to) c1, x) = Inr w'"
proof -
  obtain v where v: "LocalGet (infoKey i) c = Some v" and to: "length to = Hash160Len"
    using assms by (auto simp: cnt_Transfer_def split: if_splits option.splits)
  then obtain r where r: "v = Ser (CInfoRev r)" using assms by (auto simp: cnt_Transfer_def)
  obtain b1 where b1: "CheckWitness E (ci_Owner r) = Inr b1" using assms v r to by (auto simp: cnt_Transfer_def)
  obtain b2 where b2: "(if b1 then CheckWitness E to else Inr False) = Inr b2"
    using assms v r to b1 by (auto simp: cnt_Transfer_def)
  show ?thesis
  proof (cases b2)
    case False
    then show ?thesis using assms v r to b1 b2 refused by (simp add: cnt_Transfer_def)
  next
    case True
    then have "witnessed E (ci_Owner r)" "witnessed E to" using b1 b2 by (auto simp: witnessed_def split: if_splits)
    moreover obtain c1 where "(if ci_Owner r = to then Inr c else move_container E ser to i r c) = Inr c1"
      "onNEP11Payment E S i (Some (ci_Owner r)) to data (notifyNEP11Transfer i (Some (ci_Owner r)) (Some to) c1, x) = Inr w'"
      "ok = True"
      using assms v r to b1 b2 True by (auto simp: cnt_Transfer_def simp del: if_splits)
    ultimately show ?thesis using v r to moved by blast
  qed
qed

lemma core_same_migrate_account: "migrate_account kv c = Inr d \<Longrightarrow> \<not> core_key (fst kv) \<Longrightarrow> core_same c d"
  by (auto simp: migrate_account_def split: prod.splits if_splits intro!: core_intros)

lemma core_same_migrate_billing_size: "migrate_billing_size kv c = Inr d \<Longrightarrow> \<not> core_key (fst kv) \<Longrightarrow> core_same c d"
  by (auto simp: migrate_billing_size_def Let_def split: prod.splits if_splits option.splits intro!: core_intros)

text \<open>The migration to revisions only takes containers that have none yet.\<close>

lemma migrate_revision_Inr: "migrate_revision (k, v) s = Inr t \<longleftrightarrow> (\<exists>j. v = Ser (CInfo j) \<and> t = LocalPut k (Ser (CInfoRev (initInfo j))) s)"
  by (cases v; rename_tac y; case_tac y; auto simp: migrate_revision_def deserialize_def)

lemma migrateToContainersWithRevision_keeps:
  assumes "migrateToContainersWithRevision c = Inr d" and ok: "contract_ok c"
  shows "contract_ok d \<and> LocalGet (deletedKey i) d = LocalGet (deletedKey i) c \<and>
    (LocalGet (infoKey i) c = None \<longrightarrow> LocalGet (infoKey i) d = None) \<and> LocalGet (infoKey i) c \<noteq> Some (Ser (CInfoRev r))"
proof -
  let ?keeps = "\<lambda>d. contract_ok d \<and> LocalGet (deletedKey i) d = LocalGet (deletedKey i) c \<and>
    (LocalGet (infoKey i) c = None \<longrightarrow> LocalGet (infoKey i) d = None)"
  have step: "?keeps s'" if "kv \<in> set (LocalFind (infoKey []) c)" and "?keeps s" and "migrate_revision kv s = Inr s'" for kv s s'
  proof -
    obtain k v where kv: "kv = (k, v)" by (cases kv)
    have "LocalGet k c \<noteq> None" and "k \<noteq> deletedKey i"
      using that(1) ok unfolding kv by (auto simp: LocalFind_iff infoKey_def deletedKey_def prefix_def)
    then show ?thesis using that(2,3) by (auto simp: kv migrate_revision_Inr)
  qed
  have "LocalGet (infoKey i) c \<noteq> Some (Ser (CInfoRev r))"
  proof
    assume "LocalGet (infoKey i) c = Some (Ser (CInfoRev r))"
    then have "(infoKey i, Ser (CInfoRev r)) \<in> set (LocalFind (infoKey []) c)"
      using ok by (simp add: LocalFind_iff infoKey_def)
    moreover have "foldR migrate_revision kvs s \<noteq> Inr d" if "(k, Ser (CInfoRev r)) \<in> set kvs" for k kvs s
      using that by (induction kvs arbitrary: s) (auto simp: migrate_revision_Inr)
    ultimately show False using assms(1) by (auto simp: migrateToContainersWithRevision_def)
  qed
  moreover have "?keeps d"
    using foldR_invariant [OF assms(1) [unfolded migrateToContainersWithRevision_def], of ?keeps] ok step by blast
  ultimately show ?thesis by simp
qed

end
