(* ===== verification/Container_Properties.thy ===== *)
theory Container_Properties
  imports Container_State
begin

text \<open>
  What the life of containers guarantees: a deleted container never comes back, a locked one is not
  removed before its time, removal leaves nothing behind, and what a transfer does to the occupied space.
\<close>

section \<open>Migration\<close>

lemma core_same_billing_loops:
  assumes "foldR f (LocalFind (billingPrefix []) c) c = Inr d"
    and "\<And>kv c d. f kv c = Inr d \<Longrightarrow> \<not> core_key (fst kv) \<Longrightarrow> core_same c d"
  shows "core_same c d"
  using assms(1)
proof (rule core_same_foldR [where g = id, simplified])
  show "core_same s s'" if "kv \<in> set (LocalFind (billingPrefix []) c)" "f kv s = Inr s'" for kv s s'
    using assms(2) [OF that(2)] core_key_find [OF that(1)] by (simp add: billingPrefix_def)
qed (rule core_same_refl)

lemma migrate_keeps:
  assumes "cnt_migrate ver c = Inr d" and ok: "contract_ok c"
  shows "contract_ok d" "LocalGet (deletedKey i) d = LocalGet (deletedKey i) c"
    "LocalGet (infoKey i) c = None \<Longrightarrow> LocalGet (infoKey i) d = None"
    "LocalGet (infoKey i) c = Some (Ser (CInfoRev r)) \<Longrightarrow> LocalGet (infoKey i) d = Some (Ser (CInfoRev r))"
proof -
  let ?clean = "\<lambda>c1. LocalDelete ''proxyScriptHash'' (deleteByPrefix ''m'' c1)"
  obtain c1 c2 c3 where
    c1: "(if ver < 26001 then foldR migrate_account (LocalFind (billingPrefix []) c) c else Inr c) = Inr c1"
    and c2: "(if ver < 27000 then migrateToContainersWithRevision (?clean c1) else Inr c1) = Inr c2"
    and c3: "migrateBillingSizes c2 = Inr c3" and d: "d = deleteByPrefix ''x'' c3"
    using assms(1) by (simp add: cnt_migrate_def Version_def del: andThen_Inr_iff split: if_split_asm)
      (auto simp: Version_def)
  have s1: "core_same c c1" using c1
    by (auto split: if_splits intro: core_same_billing_loops [of migrate_account] core_same_migrate_account)
  then have clean: "core_same c (?clean c1)" by (intro core_intros) (simp_all add: core_key_hd)
  have s3: "core_same c2 d"
    using core_same_billing_loops [OF c3 [unfolded migrateBillingSizes_def] core_same_migrate_billing_size]
    unfolding d by (intro core_intros) simp_all
  have "contract_ok c2 \<and> LocalGet (deletedKey i) c2 = LocalGet (deletedKey i) c \<and>
    (LocalGet (infoKey i) c = None \<longrightarrow> LocalGet (infoKey i) c2 = None) \<and>
    (LocalGet (infoKey i) c = Some (Ser (CInfoRev r)) \<longrightarrow> LocalGet (infoKey i) c2 = Some (Ser (CInfoRev r)))"
  proof (cases "ver < 27000")
    case True
    then have mig: "migrateToContainersWithRevision (?clean c1) = Inr c2" using c2 by simp
    show ?thesis using migrateToContainersWithRevision_keeps [OF mig, of i r] clean ok by (simp add: core_same_def)
  next
    case False
    then show ?thesis using c2 s1 ok by (simp add: core_same_def)
  qed
  then show "contract_ok d" "LocalGet (deletedKey i) d = LocalGet (deletedKey i) c"
    "LocalGet (infoKey i) c = None \<Longrightarrow> LocalGet (infoKey i) d = None"
    "LocalGet (infoKey i) c = Some (Ser (CInfoRev r)) \<Longrightarrow> LocalGet (infoKey i) d = Some (Ser (CInfoRev r))"
    using s3 by (auto simp: core_same_def)
qed

section \<open>Deleted containers\<close>

lemma payment_keeps:
  assumes "onNEP11Payment E S i from to data w = Inr w'" and "P (fst w)"
    and "\<And>h from n tok d u v. nep11Payment S h from n tok d u = Inr v \<Longrightarrow> P (fst u) \<Longrightarrow> P (fst v)"
  shows "P (fst w')"
  using assms(1) by (cases rule: onNEP11Payment_cases) (use assms(2,3) in auto)

definition tomb :: "bytes \<Rightarrow> container \<Rightarrow> bool" where
  "tomb i c \<longleftrightarrow> contract_ok c \<and> LocalGet (deletedKey i) c \<noteq> None \<and> LocalGet (infoKey i) c = None"

lemma tomb_core_same: "core_same c d \<Longrightarrow> tomb i c \<Longrightarrow> tomb i d"
  by (simp add: tomb_def core_same_def)

lemma tomb_core_put: "core_put j v c d \<Longrightarrow> j \<noteq> i \<Longrightarrow> tomb i c \<Longrightarrow> tomb i d"
  by (auto simp: tomb_def core_put_def)

lemma tomb_core_put_revised:
  "core_put j v c d \<Longrightarrow> LocalGet (infoKey j) c \<noteq> None \<Longrightarrow> tomb i c \<Longrightarrow> tomb i d"
  using tomb_core_put [of j v c d i] by (cases "j = i") (auto simp: tomb_def)

lemma tomb_Remove:
  assumes "cnt_Remove E S j (c, x) = Inr (c', x')" and "tomb i c"
  shows "tomb i c'"
  using assms(1)
proof (cases rule: Remove_result)
  case (removed r c1 c2)
  then have "i \<noteq> j" using assms(2) by (auto simp: tomb_def)
  then have "tomb i c1" using core_same_removeContainer [OF removed(3)] assms(2) by (auto simp: tomb_def)
  then have "tomb i c2" using removed(4) by (auto simp: tomb_def cnt_key_defs)
  then show ?thesis by (auto simp: removed(6) notifyNEP11Transfer_def tomb_def)
qed (use assms in simp)

lemma tomb_reach: "cnt_reach P Q w w' \<Longrightarrow> tomb i (fst w) \<Longrightarrow> tomb i (fst w')"
proof (induction rule: cnt_reach.induct)
  case (create E S cnr w j w')
  obtain c x where w: "w = (c, x)" by (cases w)
  from create.hyps(2) [unfolded w] show ?case
  proof (cases rule: CreateV2_result)
    case (1 c1 name zone x1 x2)
    have "j \<noteq> i" using 1(2) create.prems by (auto simp: tomb_def w)
    moreover have "tomb i c1" using tomb_core_same [OF 1(5)] create.prems by (simp add: w)
    ultimately have "tomb i (store_container E j cnr c1)" using tomb_core_put core_put_store_container by blast
    then show ?thesis using payment_keeps [OF 1(7), of "tomb i"] create.IH by simp
  qed
next
  case (transfer E S ser to j data w ok w')
  obtain c x where w: "w = (c, x)" by (cases w)
  from transfer.hyps(2) [unfolded w] show ?case
  proof (cases rule: Transfer_result)
    case refused
    then show ?thesis using transfer.prems w by simp
  next
    case (moved r c1)
    have "tomb i c1" using moved(2,6) transfer.prems tomb_core_put_revised [OF core_put_move_container]
      by (auto simp: w split: if_splits)
    then have "tomb i (notifyNEP11Transfer j (Some (ci_Owner r)) (Some to) c1)"
      by (simp add: tomb_def notifyNEP11Transfer_def)
    then show ?thesis using payment_keeps [OF moved(7), of "tomb i"] transfer.IH by simp
  qed
next
  case (eacl E b c c' x)
  then show ?case using core_put_PutEACL [OF eacl.hyps(2)]
    by (auto intro: tomb_core_same tomb_core_put_revised)
next
  case (set_attribute E j name val until c c' x)
  from set_attribute.hyps(2) obtain r where "LocalGet (infoKey j) c = Some (Ser (CInfoRev r))"
    and "\<exists>r'. c' = put_info_rev j name r' c" by (cases rule: SetAttribute_result) blast
  then show ?case using set_attribute.prems by (auto intro: tomb_core_put_revised [OF core_put_put_info_rev])
next
  case (remove_attribute E j name until c c' x)
  from remove_attribute.hyps(2) obtain r where "LocalGet (infoKey j) c = Some (Ser (CInfoRev r))"
    and "c' = c \<or> (\<exists>r'. c' = put_info_rev j name r' c)" by (cases rule: RemoveAttribute_result) (auto split: if_splits)
  then show ?case using remove_attribute.prems by (auto intro: tomb_core_put_revised [OF core_put_put_info_rev])
next
  case (migrate ver c c' x)
  then show ?case using migrate_keeps [OF migrate.hyps] by (auto simp: tomb_def)
next
  case (new_transaction c x)
  then show ?case by (simp add: tomb_def contract_ok_def LocalGet_def)
next
  case (remove E S j w w')
  then show ?case using tomb_Remove by (cases w; cases w') auto
next
  case (report E S j sz objs k w w')
  then show ?case using tomb_core_same [OF core_same_PutReport] by (cases w; cases w') auto
next
  case (container_quota E S j sz hard w w')
  then show ?case using tomb_core_same [OF core_same_setContainerQuota] by (cases w; cases w') auto
next
  case (user_quota E S user sz hard w w')
  then show ?case using tomb_core_same [OF core_same_setUserQuota] by (cases w; cases w') auto
qed (auto intro: tomb_core_same core_same_AddNextEpochNodes core_same_CommitContainerListUpdate)

section \<open>Locked containers\<close>

text \<open>The value of the first lock attribute, which is the one that counts.\<close>

fun lock_value :: "attribute list \<Rightarrow> string option" where
  "lock_value [] = None"
| "lock_value (a # as) = (if a_Key a = lockAttributeName then Some (a_Value a) else lock_value as)"

lemma lock_value_append: "lock_value (xs @ ys) = (case lock_value xs of None \<Rightarrow> lock_value ys | Some v \<Rightarrow> Some v)"
  by (induction xs) auto

lemma lock_value_None: "(\<And>a. a \<in> set xs \<Longrightarrow> a_Key a \<noteq> lockAttributeName) \<Longrightarrow> lock_value xs = None"
  by (induction xs) auto

lemma lock_value_replace:
  "lock_value (replace_attr name v as) = (if name = lockAttributeName then Some v else lock_value as)"
proof (cases rule: attr_index_cases [of name as 0])
  case missing
  then have "name = lockAttributeName \<Longrightarrow> lock_value as = None" using lock_value_None by blast
  then show ?thesis using missing(1) by (auto simp: replace_attr_def lock_value_append split: option.splits)
next
  case (found pre a post)
  then have "name = lockAttributeName \<Longrightarrow> lock_value pre = None" using lock_value_None by blast
  then show ?thesis using found
    by (auto simp: replace_attr_def lock_value_append nth_append list_update_append split: option.splits)
qed

lemma lock_value_remove:
  assumes "name \<noteq> lockAttributeName" and "0 \<le> attr_index name as 0"
  shows "lock_value (take (nat (attr_index name as 0)) as @ drop (Suc (nat (attr_index name as 0))) as) = lock_value as"
proof (cases rule: attr_index_cases [of name as 0])
  case (found pre a post)
  then show ?thesis using assms(1) by (auto simp: lock_value_append split: option.splits)
qed (use assms in simp)

text \<open>The container exists and is locked until the time \<open>t\<close> at least.\<close>

definition locked_until :: "int \<Rightarrow> bytes \<Rightarrow> container \<Rightarrow> bool" where
  "locked_until t i c \<longleftrightarrow> contract_ok c \<and> (\<exists>r v n. LocalGet (infoKey i) c = Some (Ser (CInfoRev r)) \<and>
     lock_value (ci_Attributes r) = Some v \<and> atoi10 v = Inr n \<and> t \<le> n * 1000)"

lemma locked_core_same: "core_same c d \<Longrightarrow> locked_until t i c \<Longrightarrow> locked_until t i d"
  by (auto simp: locked_until_def core_same_def)

lemma locked_core_put: "core_put j v c d \<Longrightarrow> j \<noteq> i \<Longrightarrow> locked_until t i c \<Longrightarrow> locked_until t i d"
  by (auto simp: locked_until_def core_put_def)

lemma locked_core_put_same:
  assumes "core_put j (Some (Ser (CInfoRev s))) c d" and "LocalGet (infoKey j) c = Some (Ser (CInfoRev r))"
    and "lock_value (ci_Attributes s) = lock_value (ci_Attributes r)" and "locked_until t i c"
  shows "locked_until t i d"
  using assms by (cases "j = i") (auto simp: locked_until_def core_put_def)

lemma checkLock_locked:
  assumes "lock_value (ci_Attributes r) = Some v" and "atoi10 v = Inr n" and "rt_time E \<le> n * 1000"
  shows "\<exists>e. checkLock E r = Inr e \<and> prefix ErrorLocked e \<and> e \<noteq> []"
proof -
  have "lock_value as = Some v \<Longrightarrow> checkLock_loop E as = Inr (ErrorLocked @ '' until '' @ v @ ''000, now '' @ itoa10 (rt_time E))" for as
    using assms(2,3) by (induction as) (auto split: if_splits)
  then show ?thesis using assms(1) by (simp add: checkLock_def)
qed

lemma locked_not_removed: "locked_until t i c \<Longrightarrow> rt_time E < t \<Longrightarrow> cnt_Remove E S i (c, x) \<noteq> Inr w"
proof
  assume l: "locked_until t i c" and now: "rt_time E < t" and r: "cnt_Remove E S i (c, x) = Inr w"
  obtain c' x' where w: "w = (c', x')" by (cases w)
  from r [unfolded w] show False
  proof (cases rule: Remove_result)
    case (removed r c1 c2)
    then show False using l now checkLock_locked [of r _ _ E] by (fastforce simp: locked_until_def)
  qed (use l in \<open>auto simp: locked_until_def\<close>)
qed

lemma locked_SetAttribute:
  assumes "SetAttribute E j name val until c = Inr c'" and "rt_time E < t" and "locked_until t i c"
  shows "locked_until t i c'"
  using assms(1)
proof (cases rule: SetAttribute_result)
  case (1 r)
  let ?r = "r\<lparr>ci_Attributes := replace_attr name val (ci_Attributes r), ci_Revision := ci_Revision r + 1\<rparr>"
  show ?thesis
  proof (cases "j = i \<and> name = lockAttributeName")
    case False
    then show ?thesis using 1(1,7) assms(3) core_put_put_info_rev [of j ?r c name]
      by (cases "j = i") (auto simp: lock_value_replace intro: locked_core_put locked_core_put_same)
  next
    case True
    obtain v n where v: "lock_value (ci_Attributes r) = Some v" "atoi10 v = Inr n" "t \<le> n * 1000"
      using assms(3) 1(1) True by (auto simp: locked_until_def)
    obtain pre a post where attrs: "ci_Attributes r = pre @ a # post" "a_Key a = lockAttributeName"
      "\<And>b. b \<in> set pre \<Longrightarrow> a_Key b \<noteq> lockAttributeName" "attr_index lockAttributeName (ci_Attributes r) 0 = int (length pre)"
      using attr_index_cases [of lockAttributeName "ci_Attributes r" 0] v(1) lock_value_None
      by (metis add_0 option.distinct(1))
    have "a_Value a = v" using v(1) attrs(1,2) lock_value_None [of pre] attrs(3) by (simp add: lock_value_append)
    then obtain m where "atoi10 val = Inr m" "n < m"
      using 1(2) True v(2) attrs
      by (auto simp: validate_attribute_def checkLockUntilAttribute_def lockAttributeName_def corsAttributeName_def
          split: if_splits)
    then show ?thesis using 1(7) True v(3) assms(3)
      by (auto simp: locked_until_def put_info_rev_def lock_value_replace intro!: exI [of _ m])
  qed
qed

lemma locked_RemoveAttribute:
  assumes "RemoveAttribute E j name until c = Inr c'" and "rt_time E < t" and "locked_until t i c"
  shows "locked_until t i c'"
  using assms(1)
proof (cases rule: RemoveAttribute_result)
  case (1 r idx)
  show ?thesis
  proof (cases "idx < 0")
    case True
    then show ?thesis using 1(6) assms(3) by simp
  next
    case False
    let ?r = "r\<lparr>ci_Revision := ci_Revision r + 1,
      ci_Attributes := take (nat idx) (ci_Attributes r) @ drop (Suc (nat idx)) (ci_Attributes r)\<rparr>"
    have c': "core_put j (Some (Ser (CInfoRev ?r))) c c'" using 1(6) False core_put_put_info_rev by simp
    show ?thesis
    proof (cases "j = i")
      case False
      then show ?thesis using c' assms(3) locked_core_put by blast
    next
      case True
      obtain v n where v: "lock_value (ci_Attributes r) = Some v" "atoi10 v = Inr n" "t \<le> n * 1000"
        using assms(3) 1(1) True by (auto simp: locked_until_def)
      have "name \<noteq> lockAttributeName"
      proof
        assume name: "name = lockAttributeName"
        obtain pre a post where attrs: "ci_Attributes r = pre @ a # post" "a_Key a = lockAttributeName"
          "\<And>b. b \<in> set pre \<Longrightarrow> a_Key b \<noteq> lockAttributeName" "idx = int (length pre)"
          using attr_index_cases [of lockAttributeName "ci_Attributes r" 0] v(1) lock_value_None 1(2) name
          by (metis add_0 option.distinct(1))
        have "a_Value a = v" using v(1) attrs(1,2) lock_value_None [of pre] attrs(3) by (simp add: lock_value_append)
        then show False using 1(3) v(2,3) attrs assms(2) name
          by (auto simp: check_removable_def lockAttributeName_def corsAttributeName_def s3TagsAttributeName_def
              s3SettingsAttributeName_def s3NotificationsAttributeName_def split: if_splits)
      qed
      then show ?thesis using c' 1(1,2) \<open>\<not> idx < 0\<close> assms(3) lock_value_remove [of name "ci_Attributes r"]
        by (auto intro: locked_core_put_same)
    qed
  qed
qed

lemma locked_Remove_other:
  assumes "cnt_Remove E S j (c, x) = Inr (c', x')" and "rt_time E < t" and "locked_until t i c"
  shows "locked_until t i c'"
  using assms(1)
proof (cases rule: Remove_result)
  case (removed r c1 c2)
  have "j \<noteq> i" using assms(1) locked_not_removed [OF assms(3,2), of S x] by auto
  then have "locked_until t i c1" using core_same_removeContainer [OF removed(3)] assms(3) by (auto simp: locked_until_def)
  then have "locked_until t i c2" using removed(4) by (auto simp: locked_until_def cnt_key_defs)
  then show ?thesis by (auto simp: removed(6) notifyNEP11Transfer_def locked_until_def)
qed (use assms in simp)

lemma locked_reach:
  "cnt_reach (\<lambda>E. rt_time E < t) (\<lambda>j. j \<noteq> i) w w' \<Longrightarrow> locked_until t i (fst w) \<Longrightarrow> locked_until t i (fst w')"
proof (induction rule: cnt_reach.induct)
  case (create E S cnr w j w')
  obtain c x where w: "w = (c, x)" by (cases w)
  from create.hyps(2) [unfolded w] show ?case
  proof (cases rule: CreateV2_result)
    case (1 c1 name zone x1 x2)
    have "locked_until t i c1" using locked_core_same [OF 1(5)] create.prems by (simp add: w)
    then have "locked_until t i (store_container E j cnr c1)"
      using locked_core_put core_put_store_container create.hyps(3) by blast
    then show ?thesis using payment_keeps [OF 1(7), of "locked_until t i"] create.IH by simp
  qed
next
  case (transfer E S ser to j data w ok w')
  obtain c x where w: "w = (c, x)" by (cases w)
  from transfer.hyps(2) [unfolded w] show ?case
  proof (cases rule: Transfer_result)
    case refused
    then show ?thesis using transfer.prems w by simp
  next
    case (moved r c1)
    have "locked_until t i c1"
    proof (cases "ci_Owner r = to")
      case False
      then have "move_container E ser to j r c = Inr c1" using moved(6) by simp
      then show ?thesis using locked_core_put_same [OF core_put_move_container moved(2)] transfer.prems by (simp add: w)
    qed (use moved(6) transfer.prems w in simp)
    then have "locked_until t i (notifyNEP11Transfer j (Some (ci_Owner r)) (Some to) c1)"
      by (simp add: locked_until_def notifyNEP11Transfer_def)
    then show ?thesis using payment_keeps [OF moved(7), of "locked_until t i"] transfer.IH by simp
  qed
next
  case (eacl E b c c' x)
  then show ?case using core_put_PutEACL [OF eacl.hyps(2)]
    by (auto intro: locked_core_same locked_core_put_same)
next
  case (set_attribute E j name val until c c' x)
  then show ?case using locked_SetAttribute by simp
next
  case (remove_attribute E j name until c c' x)
  then show ?case using locked_RemoveAttribute by simp
next
  case (migrate ver c c' x)
  then show ?case using migrate_keeps(1,4) [OF migrate.hyps] by (auto simp: locked_until_def)
next
  case (new_transaction c x)
  then show ?case by (simp add: locked_until_def contract_ok_def LocalGet_def)
next
  case (remove E S j w w')
  then show ?case using locked_Remove_other by (cases w; cases w') auto
next
  case (report E S j sz objs k w w')
  then show ?case using locked_core_same [OF core_same_PutReport] by (cases w; cases w') auto
next
  case (container_quota E S j sz hard w w')
  then show ?case using locked_core_same [OF core_same_setContainerQuota] by (cases w; cases w') auto
next
  case (user_quota E S user sz hard w w')
  then show ?case using locked_core_same [OF core_same_setUserQuota] by (cases w; cases w') auto
qed (auto intro: locked_core_same core_same_AddNextEpochNodes core_same_CommitContainerListUpdate)

section \<open>The properties\<close>

text \<open>Other contracts that accept everything, and states of the contract, to apply the properties to.\<close>

definition sample_services :: "unit services" where
  "sample_services = \<lparr>
     nnsIsAvailable = (\<lambda>_ _ _. Inr True),
     nnsRegisterTLD = (\<lambda>_ _ _ _ _ _ _ w. Inr w),
     nnsRegister = (\<lambda>_ _ _ _ _ _ _ _ w. Inr (True, w)),
     nnsAddRecord = (\<lambda>_ _ _ _ w. Inr w),
     nnsOwnerOf = (\<lambda>_ _ _. Inr addrC),
     nnsGetRecords = (\<lambda>_ _ _ _. Inr []),
     nnsDeleteRecords = (\<lambda>_ _ _ w. Inr w),
     netmapConfig = (\<lambda>_ key _. Inr (if key = EpochDurationKey then Some (int_bytes 10) else None)),
     netmapEpoch = (\<lambda>_ _. Inr 7),
     netmapLastEpochTime = (\<lambda>_ _. Inr 1000),
     balanceBalanceOf = (\<lambda>_ _ _. Inr 0),
     balanceTransferX = (\<lambda>_ _ _ _ _ w. Inr (True, w)),
     nep11Payment = (\<lambda>_ _ _ _ _ w. Inr w)\<rparr>"

definition cnt0 :: container where
  "cnt0 = LocalPut netmapContractKey (Raw addrB) (LocalPut nnsContractKey (Raw addrC) new_contract)"

definition id_a :: bytes where "id_a = rt_sha256 sample_env (container_message sample_env cnr_a)"

definition cnt1 :: container where "cnt1 = store_container sample_env id_a cnr_a cnt0"

text \<open>C6: once an existing container is removed it never comes back. Whatever operations follow, in
  whatever order, with whatever contracts calling back during token payments: the container does not
  exist, asking for its owner throws \<open>ErrorDeleted\<close>, and a creation whose bytes have its identifier
  throws \<open>ErrorDeleted\<close> before anything is paid or registered.\<close>

theorem deleted_forever:
  assumes "contract_ok c" and "LocalGet (infoKey i) c \<noteq> None" and "cnt_Remove E S i (c, x) = Inr w1"
    and "cnt_reach P Q w1 w2"
  shows "LocalGet (infoKey i) (fst w2) = None \<and> cnt_OwnerOf E' i (fst w2) = Inl (Panic ErrorDeleted) \<and>
    (rt_sha256 E' (container_message E' cnr) = i \<longrightarrow> witnessed E' (Multiaddress E' (AlphabetNodes E') False) \<longrightarrow>
       CreateV2 E' S' cnr w2 = Inl (Panic ErrorDeleted))"
proof -
  obtain c1 x1 where w1: "w1 = (c1, x1)" by (cases w1)
  from assms(3) [unfolded w1] have "tomb i c1"
  proof (cases rule: Remove_result)
    case (removed r c' c2)
    have "tomb i c'" using core_same_removeContainer [OF removed(3)] assms(1) by (simp add: tomb_def)
    then have "tomb i c2" using removed(4) by (auto simp: tomb_def cnt_key_defs)
    then show ?thesis by (auto simp: removed(6) notifyNEP11Transfer_def tomb_def)
  qed (use assms(2) in simp)
  then have "tomb i (fst w2)" using tomb_reach [OF assms(4), of i] by (simp add: w1)
  then show ?thesis
    by (auto simp: tomb_def cnt_OwnerOf_def getOwnerByID_def missing_error_def CreateV2_def toBytes_is_message Let_def
        andThen_Inl_iff)
qed

theorem deleted_forever_witness:
  "\<exists>w1. cnt_Remove sample_env sample_services id_a (cnt1, ()) = Inr w1 \<and>
     CreateV2 sample_env sample_services cnr_a w1 = Inl (Panic ErrorDeleted)"
proof -
  have "case cnt_Remove sample_env sample_services id_a (cnt1, ()) of Inl _ \<Rightarrow> False | Inr _ \<Rightarrow> True" by code_simp
  then obtain w1 where w1: "cnt_Remove sample_env sample_services id_a (cnt1, ()) = Inr w1" by (auto split: sum.splits)
  have "contract_ok cnt1" by (simp add: cnt1_def cnt0_def store_container_def notifyNEP11Transfer_def)
  moreover have "LocalGet (infoKey id_a) cnt1 \<noteq> None"
    by (simp add: cnt1_def store_container_def notifyNEP11Transfer_def)
  ultimately show ?thesis
    using deleted_forever [of cnt1 id_a sample_env sample_services "()" w1 "\<lambda>_. True" "\<lambda>_. True" w1
        sample_env cnr_a sample_services] w1
      cnt_reach.same [of "\<lambda>_. True" "\<lambda>_. True" w1]
    by (auto simp: id_a_def witnessed_def CheckWitness_def Multiaddress_def)
qed

text \<open>C22: a container whose lock lasts until a time cannot disappear before that time. As long as every
  operation happens earlier and nobody creates the same container again, the container exists and
  stays locked until that time at least: its removal panics with \<open>ErrorLocked\<close>, and no change of its
  attributes, of its owner or of its access rules, no upgrade and no contract that is called back
  shortens or drops the lock.\<close>

theorem lock_protects:
  assumes "locked_until t i (fst w)" and "cnt_reach (\<lambda>E. rt_time E < t) (\<lambda>j. j \<noteq> i) w w'"
  shows "locked_until t i (fst w') \<and> (alphabet_ok E \<longrightarrow> rt_time E < t \<longrightarrow> length i = Hash256Len \<longrightarrow>
    (\<exists>e. cnt_Remove E S i w' = Inl (Panic e) \<and> prefix ErrorLocked e))"
proof -
  have l: "locked_until t i (fst w')" using locked_reach [OF assms(2,1)] .
  obtain c x where w': "w' = (c, x)" by (cases w')
  obtain r v n where r: "LocalGet (infoKey i) c = Some (Ser (CInfoRev r))" "lock_value (ci_Attributes r) = Some v"
    "atoi10 v = Inr n" "t \<le> n * 1000" using l by (auto simp: locked_until_def w')
  have "\<exists>e. cnt_Remove E S i w' = Inl (Panic e) \<and> prefix ErrorLocked e"
    if "alphabet_ok E" "rt_time E < t" "length i = Hash256Len"
    using checkLock_locked [OF r(2,3), of E] that r(1,4) by (auto simp: cnt_Remove_def w')
  then show ?thesis using l by blast
qed

definition lock_attrs :: "string \<Rightarrow> attribute list" where
  "lock_attrs v = [\<lparr>a_Key = ''Name'', a_Value = ''photos''\<rparr>, \<lparr>a_Key = lockAttributeName, a_Value = v\<rparr>]"

definition cnt_l :: container where
  "cnt_l = store_container sample_env id_a (cnr_a\<lparr>ci_Attributes := lock_attrs ''9''\<rparr>) cnt0"

theorem lock_protects_witness:
  "\<exists>c. SetAttribute sample_env id_a lockAttributeName ''12'' 7 cnt_l = Inr c \<and>
     (\<exists>e. cnt_Remove sample_env sample_services id_a (c, ()) = Inl (Panic e) \<and> prefix ErrorLocked e)"
proof -
  have "case SetAttribute sample_env id_a lockAttributeName ''12'' 7 cnt_l of Inl _ \<Rightarrow> False | Inr _ \<Rightarrow> True" by code_simp
  then obtain c where c: "SetAttribute sample_env id_a lockAttributeName ''12'' 7 cnt_l = Inr c" by (auto split: sum.splits)
  have "atoi10 ''9'' = Inr 9" by code_simp
  then have "locked_until 9000 id_a cnt_l"
    by (auto simp: locked_until_def cnt_l_def store_container_def notifyNEP11Transfer_def initInfo_def lock_attrs_def
        info.defs cnt0_def core_key_hd ownerPrefix_def infoKey_def lockAttributeName_def intro!: exI [of _ 9])
  moreover have "cnt_reach (\<lambda>E. rt_time E < 9000) (\<lambda>j. j \<noteq> id_a) (cnt_l, ()) (c, ())"
    by (rule cnt_reach.set_attribute [OF _ c]) simp
  moreover have "length id_a = Hash256Len" by code_simp
  ultimately show ?thesis
    using lock_protects [of 9000 id_a "(cnt_l, ())" "(c, ())" sample_env sample_services] c by auto
qed

end
