(* ===== verification/Container_Typing.thy ===== *)
theory Container_Typing
  imports Container_State
begin

text \<open>
  The types of the values the Container contract keeps, by the first byte of the key, and what each
  operation changes: an operation that is not about reports leaves all entries of reports and of their
  summaries alone.
\<close>

section \<open>Typed storage\<close>

definition value_typed :: "bytes \<Rightarrow> cnt_ser sval \<Rightarrow> bool" where
  "value_typed k v \<longleftrightarrow> (case v of
     Raw b \<Rightarrow> k = [] \<or> hd k \<notin> {CHR 0x00, CHR ''i'', CHR ''s'', CHR ''f'', CHR ''a''} \<and>
       (hd k = CHR ''b'' \<longrightarrow> length k \<noteq> 1 + NeoFSUserAccountLength)
   | Ser x \<Rightarrow> k \<noteq> [] \<and> (case x of
       CInfo i \<Rightarrow> False
     | CInfoRev r \<Rightarrow> hd k = CHR 0x00
     | CReport r \<Rightarrow> hd k = CHR ''i''
     | CSummary s \<Rightarrow> hd k = CHR ''s''
     | CBilling b \<Rightarrow> hd k = CHR ''f''
     | CQuota q \<Rightarrow> hd k = CHR ''a'' \<or> hd k = CHR ''b'' \<and> length k = 1 + NeoFSUserAccountLength))"

definition typed :: "container \<Rightarrow> bool" where
  "typed c \<longleftrightarrow> (\<forall>k v. LocalGet k c = Some v \<longrightarrow> value_typed k v)"

lemma typed_new [simp]: "typed new_contract"
  by (simp add: typed_def)

lemma typedD: "typed c \<Longrightarrow> LocalGet k c = Some v \<Longrightarrow> value_typed k v"
  by (simp add: typed_def)

text \<open>The type of the values under each kind of key.\<close>

lemma value_typed_kinds:
  "value_typed (infoKey i) v \<longleftrightarrow> (\<exists>r. v = Ser (CInfoRev r))"
  "value_typed (reportsPrefix i) v \<longleftrightarrow> (\<exists>r. v = Ser (CReport r))"
  "value_typed (summaryKey i) v \<longleftrightarrow> (\<exists>s. v = Ser (CSummary s))"
  "value_typed (billingPrefix i) v \<longleftrightarrow> (\<exists>b. v = Ser (CBilling b))"
  "value_typed (containerQuotaKey i) v \<longleftrightarrow> (\<exists>q. v = Ser (CQuota q))"
  "length i = NeoFSUserAccountLength \<Longrightarrow> value_typed (userQuotaKey i) v \<longleftrightarrow> (\<exists>q. v = Ser (CQuota q))"
  "value_typed (nextNodesPrefix i) v \<longleftrightarrow> (\<exists>b. v = Raw b)"
  "value_typed (nodesPrefix i) v \<longleftrightarrow> (\<exists>b. v = Raw b)"
  "value_typed (replicasPrefix i) v \<longleftrightarrow> (\<exists>b. v = Raw b)"
  "value_typed (userTotalStorageKey i) v \<longleftrightarrow> (\<exists>b. v = Raw b)"
  "value_typed (ownerPrefix i) v \<longleftrightarrow> (\<exists>b. v = Raw b)"
  "value_typed (deletedKey i) v \<longleftrightarrow> (\<exists>b. v = Raw b)"
  "value_typed (eACLKey i) v \<longleftrightarrow> (\<exists>b. v = Raw b)"
  "value_typed (nnsHasAliasKey i) v \<longleftrightarrow> (\<exists>b. v = Raw b)"
  by (auto simp: value_typed_def cnt_key_defs split: sval.splits cnt_ser.splits)

lemmas typed_kinds = typedD [of _ "infoKey i" for i, unfolded value_typed_kinds]
  typedD [of _ "reportsPrefix i" for i, unfolded value_typed_kinds]
  typedD [of _ "summaryKey i" for i, unfolded value_typed_kinds]
  typedD [of _ "billingPrefix i" for i, unfolded value_typed_kinds]
  typedD [of _ "containerQuotaKey i" for i, unfolded value_typed_kinds]
  typedD [of _ "nodesPrefix i" for i, unfolded value_typed_kinds]
  typedD [of _ "userTotalStorageKey i" for i, unfolded value_typed_kinds]
  typedD [of _ "eACLKey i" for i, unfolded value_typed_kinds]
  typedD [of _ "nnsHasAliasKey i" for i, unfolded value_typed_kinds]

section \<open>What an operation changes\<close>

text \<open>
  \<open>changes K c d\<close>: from \<open>c\<close> to \<open>d\<close> the storage stays ordered and typed, and no entry whose key
  satisfies \<open>K\<close> changes.
\<close>

definition changes :: "(bytes \<Rightarrow> bool) \<Rightarrow> container \<Rightarrow> container \<Rightarrow> bool" where
  "changes K c d \<longleftrightarrow> (contract_ok c \<longrightarrow> contract_ok d) \<and> (typed c \<longrightarrow> typed d) \<and>
     (\<forall>k. K k \<longrightarrow> LocalGet k d = LocalGet k c)"

definition report_key :: "bytes \<Rightarrow> bool" where
  "report_key k \<longleftrightarrow> k \<noteq> [] \<and> (hd k = CHR ''i'' \<or> hd k = CHR ''s'')"

named_theorems change_intros \<open>operations that keep the storage typed and some keys unchanged\<close>

lemma changes_refl [change_intros, simp]: "changes K c c"
  by (simp add: changes_def)

lemma changes_trans [trans]: "changes K c d \<Longrightarrow> changes K d e \<Longrightarrow> changes K c e"
  by (auto simp: changes_def)

lemma changes_updates [change_intros]:
  "\<not> K k \<Longrightarrow> value_typed k v \<Longrightarrow> changes K c d \<Longrightarrow> changes K c (LocalPut k v d)"
  "\<not> K k \<Longrightarrow> changes K c d \<Longrightarrow> changes K c (LocalDelete k d)"
  "\<not> K k \<Longrightarrow> value_typed k (Raw (int_bytes n)) \<Longrightarrow> changes K c d \<Longrightarrow> changes K c (put_int k n d)"
  "changes K c d \<Longrightarrow> changes K c (Notify e d)"
  "(\<And>k. k \<in> set ks \<Longrightarrow> \<not> K k) \<Longrightarrow> changes K c d \<Longrightarrow> changes K c (deleteKeys ks d)"
  by (auto simp: changes_def typed_def)

lemma changes_foldR:
  assumes "foldR f xs s = Inr t" and "changes K c (g s)"
    and "\<And>x s s'. x \<in> set xs \<Longrightarrow> f x s = Inr s' \<Longrightarrow> changes K (g s) (g s')"
  shows "changes K c (g t)"
  using foldR_invariant [OF assms(1), of "\<lambda>s. changes K c (g s)"] assms(2,3) changes_trans by meson

lemma deleteByPrefix_changes [change_intros]:
  assumes "\<And>k. prefix p k \<Longrightarrow> \<not> K k" and "changes K c d"
  shows "changes K c (deleteByPrefix p d)"
  unfolding deleteByPrefix_def using assms LocalFind_prefix by (fastforce intro!: change_intros)

lemma report_key_simps [simp]:
  "report_key (reportsPrefix i)" "report_key (summaryKey i)" "\<not> report_key (ownerPrefix i)" "\<not> report_key (nodesPrefix i)"
  "\<not> report_key (replicasPrefix i)" "\<not> report_key (nextNodesPrefix i)" "\<not> report_key (containerQuotaKey i)"
  "\<not> report_key (userQuotaKey i)" "\<not> report_key (userTotalStorageKey i)" "\<not> report_key (billingPrefix i)"
  "\<not> report_key (eACLKey i)" "\<not> report_key (nnsHasAliasKey i)" "\<not> report_key (infoKey i)" "\<not> report_key (deletedKey i)"
  "\<not> report_key nnsRootKey" "\<not> report_key nnsContractKey" "\<not> report_key balanceContractKey" "\<not> report_key netmapContractKey"
  by (simp_all add: report_key_def cnt_key_defs)

lemma report_key_prefix: "p \<noteq> [] \<Longrightarrow> prefix p k \<Longrightarrow> report_key k \<longleftrightarrow> report_key p"
  by (cases p) (auto simp: report_key_def prefix_def)

lemmas key_sides = cnt_key_defs value_typed_def report_key_def

section \<open>The operations\<close>

text \<open>Those that leave the reports alone.\<close>

abbreviation quiet :: "container \<Rightarrow> container \<Rightarrow> bool" where
  "quiet \<equiv> changes report_key"

lemma changes_updateUserTakenSpace:
  assumes "updateUserTakenSpace a n d = Inr e" and "\<not> K (userTotalStorageKey a)" and "changes K c d"
  shows "changes K c e"
  using assms by (auto simp: updateUserTakenSpace_def Let_def value_typed_kinds split: if_splits intro!: change_intros)

lemma quiet_AddNextEpochNodes: "AddNextEpochNodes E i n ks c = Inr c' \<Longrightarrow> quiet c c'"
proof (unfold AddNextEpochNodes_def, clarsimp split: if_splits)
  fix b assume "foldR (add_next_node E (nextNodesPrefix (i @ [b]))) ks c = Inr c'"
  then show "quiet c c'"
    by (rule changes_foldR [where g = id, simplified])
      (auto simp: add_next_node_def key_sides intro!: change_intros split: if_splits)
qed

lemma quiet_put_replicas: "put_replicas i rs n c = Inr d \<Longrightarrow> quiet c d"
  by (induction i rs n c rule: put_replicas.induct)
    (auto split: if_splits elim!: changes_trans [rotated] simp: value_typed_kinds intro!: change_intros)

lemma quiet_setContainerQuota: "setContainerQuota E S i sz hard (c, x) = Inr (c', x') \<Longrightarrow> quiet c c'"
  by (auto simp: setContainerQuota_def value_typed_kinds split: option.splits if_splits intro!: change_intros)

lemma quiet_setUserQuota: "setUserQuota E S user sz hard (c, x) = Inr (c', x') \<Longrightarrow> quiet c c'"
  by (auto simp: setUserQuota_def value_typed_kinds split: if_splits intro!: change_intros)

lemma quiet_put_info_rev [change_intros]: "quiet c d \<Longrightarrow> quiet c (put_info_rev i name r d)"
  by (auto simp: put_info_rev_def value_typed_kinds intro!: change_intros)

lemma quiet_PutEACL: "PutEACL E b c = Inr c' \<Longrightarrow> quiet c c'"
  by (auto simp: PutEACL_def Let_def value_typed_kinds split: option.splits if_splits intro!: change_intros)

lemma quiet_create_domain: "create_domain E S i name zone (c, x) = Inr (c', x') \<Longrightarrow> quiet c c'"
  by (auto simp: create_domain_def Let_def value_typed_kinds split: if_splits intro!: change_intros)

lemma quiet_store_container: "quiet c (store_container E i cnr c)"
  by (auto simp: store_container_def notifyNEP11Transfer_def key_sides intro!: change_intros)

lemma quiet_move_container: "move_container E ser to i r c = Inr d \<Longrightarrow> quiet c d"
  by (auto simp: move_container_def Let_def key_sides split: option.splits intro!: change_intros
      elim!: changes_updateUserTakenSpace)

text \<open>Migrations.\<close>

lemma prefix_hd: "prefix p k \<Longrightarrow> p \<noteq> [] \<Longrightarrow> k \<noteq> [] \<and> hd k = hd p"
  by (auto simp: prefix_def)

lemma find_hd: "e \<in> set (LocalFind p c) \<Longrightarrow> p \<noteq> [] \<Longrightarrow> fst e \<noteq> [] \<and> hd (fst e) = hd p"
  using LocalFind_prefix prefix_hd by blast

lemma quiet_find_loop:
  assumes "foldR f (LocalFind p c0) c = Inr d" and "p \<noteq> []"
    and "\<And>k v c d. f (k, v) c = Inr d \<Longrightarrow> k \<noteq> [] \<Longrightarrow> hd k = hd p \<Longrightarrow> quiet c d"
  shows "quiet c d"
  using assms(1)
proof (rule changes_foldR [where g = id, simplified])
  show "quiet s s'" if "kv \<in> set (LocalFind p c0)" "f kv s = Inr s'" for kv s s'
    using assms(3) find_hd [OF that(1) assms(2)] that(2) by (cases kv) auto
qed (rule changes_refl)

lemma quiet_migrate_account: "migrate_account (k, v) c = Inr d \<Longrightarrow> k \<noteq> [] \<Longrightarrow> hd k = CHR ''f'' \<Longrightarrow> quiet c d"
  by (auto simp: migrate_account_def key_sides split: if_splits intro!: change_intros)

lemma quiet_migrate_billing_size: "migrate_billing_size (k, v) c = Inr d \<Longrightarrow> k \<noteq> [] \<Longrightarrow> hd k = CHR ''f'' \<Longrightarrow> quiet c d"
  by (auto simp: migrate_billing_size_def Let_def key_sides split: if_splits option.splits intro!: change_intros)

lemma quiet_migrate_revision: "migrate_revision (k, v) c = Inr d \<Longrightarrow> k \<noteq> [] \<Longrightarrow> hd k = CHR 0x00 \<Longrightarrow> quiet c d"
  by (auto simp: migrate_revision_Inr key_sides intro!: change_intros)

lemma quiet_migrate:
  assumes "cnt_migrate ver c = Inr d"
  shows "quiet c d"
proof -
  let ?clean = "\<lambda>c1. LocalDelete ''proxyScriptHash'' (deleteByPrefix ''m'' c1)"
  obtain c1 c2 c3 where
    c1: "(if ver < 26001 then foldR migrate_account (LocalFind (billingPrefix []) c) c else Inr c) = Inr c1"
    and c2: "(if ver < 27000 then migrateToContainersWithRevision (?clean c1) else Inr c1) = Inr c2"
    and c3: "(if ver < 28000 then andThen (migrateBillingSizes c2) (\<lambda>c. Inr (deleteByPrefix ''x'' c)) else Inr c2) = Inr d"
    using assms by (simp add: cnt_migrate_def del: andThen_Inr_iff split: if_split_asm) (auto split: if_splits)
  have "quiet c c1"
  proof (cases "ver < 26001")
    case True
    then show ?thesis using c1 by (auto simp: billingPrefix_def elim!: quiet_find_loop intro: quiet_migrate_account)
  qed (use c1 in simp)
  also have "quiet c1 c2"
  proof (cases "ver < 27000")
    case True
    have "quiet c1 (?clean c1)"
      by (auto intro!: change_intros simp: report_key_def dest: prefix_hd)
    also have "quiet (?clean c1) c2"
    proof (rule quiet_find_loop)
      show "foldR migrate_revision (LocalFind (infoKey []) (?clean c1)) (?clean c1) = Inr c2"
        using c2 True by (simp add: migrateToContainersWithRevision_def)
      show "quiet c d" if "migrate_revision (k, v) c = Inr d" "k \<noteq> []" "hd k = hd (infoKey [])" for k v c d
        using quiet_migrate_revision [OF that(1,2)] that(3) by (simp add: infoKey_def)
    qed (simp add: infoKey_def)
    finally show ?thesis .
  qed (use c2 in simp)
  also have "quiet c2 d"
    using c3 by (auto simp: migrateBillingSizes_def billingPrefix_def report_key_def split: if_splits dest: prefix_hd
        elim!: quiet_find_loop intro!: change_intros intro: quiet_migrate_billing_size)
  finally show ?thesis .
qed

end
