(* ===== verification/Container_Sums.thy ===== *)
theory Container_Sums
  imports Container_Typing
begin

text \<open>
  The summary of a container's reports is the sum of the reports: what the operations that change reports do
  to both, and the invariant of the whole contract.
\<close>

definition report_size :: "cnt_ser sval \<Rightarrow> int" where
  "report_size v = (case v of Ser (CReport r) \<Rightarrow> nr_ContainerSize r | _ \<Rightarrow> 0)"

definition report_objects :: "cnt_ser sval \<Rightarrow> int" where
  "report_objects v = (case v of Ser (CReport r) \<Rightarrow> nr_NumberOfObjects r | _ \<Rightarrow> 0)"

text \<open>The summary stored for a container; without one it is empty.\<close>

definition stored_summary :: "bytes \<Rightarrow> container \<Rightarrow> report_summary" where
  "stored_summary i c = (case LocalGet (summaryKey i) c of Some (Ser (CSummary s)) \<Rightarrow> s | _ \<Rightarrow> emptySummary)"

definition summarised :: "bytes \<Rightarrow> container \<Rightarrow> bool" where
  "summarised i c \<longleftrightarrow> rs_ContainerSize (stored_summary i c) = LocalSum report_size (reportsPrefix i) c \<and>
     rs_NumberOfObjects (stored_summary i c) = LocalSum report_objects (reportsPrefix i) c"

lemma report_values [simp]: "report_size (Ser (CReport r)) = nr_ContainerSize r" "report_objects (Ser (CReport r)) = nr_NumberOfObjects r"
  "rs_ContainerSize emptySummary = 0" "rs_NumberOfObjects emptySummary = 0"
  by (simp_all add: report_size_def report_objects_def emptySummary_def)

text \<open>The entries of one container's reports and of their summary.\<close>

definition own_key :: "bytes \<Rightarrow> bytes \<Rightarrow> bool" where
  "own_key i k \<longleftrightarrow> prefix (reportsPrefix i) k \<or> k = summaryKey i"

lemma own_report_key: "own_key i k \<Longrightarrow> report_key k"
  by (auto simp: own_key_def report_key_prefix reportsPrefix_def summaryKey_def report_key_def dest: prefix_hd)

lemma changes_mono: "changes K c d \<Longrightarrow> (\<And>k. L k \<Longrightarrow> K k) \<Longrightarrow> changes L c d"
  by (simp add: changes_def)

lemma own_values:
  assumes "changes (own_key i) c d" and "contract_ok c"
  shows "LocalSum f (reportsPrefix i) d = LocalSum f (reportsPrefix i) c" "stored_summary i d = stored_summary i c"
proof -
  have "LocalFind (reportsPrefix i) d = LocalFind (reportsPrefix i) c"
    using assms by (intro LocalFind_cong) (auto simp: changes_def own_key_def)
  then show "LocalSum f (reportsPrefix i) d = LocalSum f (reportsPrefix i) c" by (simp add: LocalSum_find)
  show "stored_summary i d = stored_summary i c" using assms(1) by (simp add: changes_def stored_summary_def own_key_def)
qed

lemma own_summarised: "changes (own_key i) c d \<Longrightarrow> contract_ok c \<Longrightarrow> summarised i d \<longleftrightarrow> summarised i c"
  by (simp add: summarised_def own_values)

lemma quiet_own: "quiet c d \<Longrightarrow> changes (own_key i) c d"
  by (erule changes_mono) (rule own_report_key)

lemmas quiet_report_values = own_values [OF quiet_own]

text \<open>Identifiers have one length, so the reports of different containers do not mix.\<close>

lemma reports_of: "length i = length j \<Longrightarrow> prefix (reportsPrefix i) (reportsPrefix (j @ a)) \<longleftrightarrow> i = j"
  by (auto simp: reportsPrefix_def prefix_def)

lemma not_report: "k \<noteq> [] \<Longrightarrow> hd k \<noteq> CHR ''i'' \<Longrightarrow> \<not> prefix (reportsPrefix i) k"
  by (auto simp: reportsPrefix_def prefix_def)

section \<open>Storing a report\<close>

lemma store_report_effect:
  assumes "store_report cid acc owner rep billing diff sm c = Inr d" and ok: "contract_ok c"
  shows "changes (\<lambda>k. False) c d"
    "length i = length cid \<Longrightarrow> LocalSum f (reportsPrefix i) d = LocalSum f (reportsPrefix i) c +
       (if i = cid then f (Ser (CReport rep)) - entry_val f (LocalGet (reportsPrefix (cid @ acc)) c) else 0)"
    "stored_summary i d = (if i = cid then sm else stored_summary i c)"
proof -
  let ?c1 = "LocalPut (reportsPrefix (cid @ acc)) (Ser (CReport rep)) c"
  let ?c2 = "LocalPut (billingPrefix (cid @ acc)) (Ser (CBilling billing)) ?c1"
  obtain c3 where c3: "updateUserTakenSpace owner diff ?c2 = Inr c3" and d: "d = LocalPut (summaryKey cid) (Ser (CSummary sm)) c3"
    using assms(1) by (auto simp: store_report_def)
  have q: "quiet ?c2 c3" using c3 by (rule changes_updateUserTakenSpace) simp_all
  have ok3: "contract_ok c3" using q ok by (simp add: changes_def)
  have "changes (\<lambda>k. False) c ?c2" by (intro change_intros) (simp_all add: value_typed_kinds)
  moreover have "changes (\<lambda>k. False) ?c2 c3" using q by (simp add: changes_def)
  ultimately have "changes (\<lambda>k. False) c c3" by (rule changes_trans)
  then show "changes (\<lambda>k. False) c d" unfolding d by (intro change_intros) (simp_all add: value_typed_kinds)
  show "LocalSum f (reportsPrefix i) d = LocalSum f (reportsPrefix i) c +
       (if i = cid then f (Ser (CReport rep)) - entry_val f (LocalGet (reportsPrefix (cid @ acc)) c) else 0)" if "length i = length cid"
    using quiet_report_values(1) [where i = i and f = f, OF q] ok ok3 reports_of [OF that, of acc]
    by (simp add: d LocalSum_LocalPut not_report summaryKey_def billingPrefix_def)
  show "stored_summary i d = (if i = cid then sm else stored_summary i c)"
    using quiet_report_values(2) [where i = i, OF q] ok
    by (simp add: d stored_summary_def summaryKey_def reportsPrefix_def billingPrefix_def)
qed

lemma PutReport_stores:
  assumes "PutReport E S cid sz objs k (c, x) = Inr (c', x')"
  obtains summary report rep billing owner diff where
    "read_or emptySummary cnt_summary (summaryKey cid) c = Inr summary"
    "read_or emptyReport cnt_report (reportsPrefix (cid @ rt_std_account E k)) c = Inr report"
    "store_report cid (rt_std_account E k) owner rep billing diff
        (summary\<lparr>rs_ContainerSize := rs_ContainerSize summary - nr_ContainerSize report + sz,
                 rs_NumberOfObjects := rs_NumberOfObjects summary - nr_NumberOfObjects report + objs\<rparr>) c = Inr c'"
    "nr_ContainerSize rep = sz" "nr_NumberOfObjects rep = objs" "LocalGet (infoKey cid) c \<noteq> None"
proof -
  let ?key = "reportsPrefix (cid @ rt_std_account E k)"
  obtain owner netmap epoch summary report billing where
    o: "getOwnerByID E cid c = Inr (Some owner)" and n: "stored_bytes netmapContractKey c = Inr netmap" and e: "netmapEpoch S netmap x = Inr epoch"
    and s: "read_or emptySummary cnt_summary (summaryKey cid) c = Inr summary"
    and r: "read_or emptyReport cnt_report ?key c = Inr report"
    using assms by (auto simp: PutReport_def Let_def split: option.splits if_split_asm)
  have i: "LocalGet (infoKey cid) c \<noteq> None" using o by (auto simp: getOwnerByID_def split: option.splits)
  show ?thesis
  proof (cases "LocalGet ?key c")
    case None
    then have "report = emptyReport" using r by (simp add: read_or_def)
    then have z: "nr_ContainerSize report = 0" "nr_NumberOfObjects report = 0" by (simp_all add: emptyReport_def)
    show ?thesis using assms o n e s r None
      by (auto simp: PutReport_def Let_def z split: if_split_asm intro!: that [OF s r _ _ _ i] simp: first_report_def)
  next
    case (Some v)
    show ?thesis using assms o n e s r Some
      by (auto simp: PutReport_def Let_def split: if_split_asm intro!: that [OF s r _ _ _ i] simp: next_report_def)
  qed
qed

lemma stored_summary_read:
  assumes "typed c"
  shows "read_or emptySummary cnt_summary (summaryKey i) c = Inr s \<longleftrightarrow> stored_summary i c = s"
proof (cases "LocalGet (summaryKey i) c")
  case (Some v)
  then obtain t where "v = Ser (CSummary t)" using typed_kinds(3) [OF assms] by blast
  then show ?thesis using Some by (simp add: read_or_def stored_summary_def)
qed (simp add: read_or_def stored_summary_def)

lemma stored_report_read:
  assumes "typed c" and "read_or emptyReport cnt_report (reportsPrefix i) c = Inr r"
  shows "entry_val report_size (LocalGet (reportsPrefix i) c) = nr_ContainerSize r"
    "entry_val report_objects (LocalGet (reportsPrefix i) c) = nr_NumberOfObjects r"
  using assms(2) by (auto simp: read_or_def emptyReport_def split: option.splits)

lemma PutReport_effect:
  assumes "PutReport E S cid sz objs k (c, x) = Inr (c', x')" and c: "contract_ok c" "typed c" and "length i = length cid" "summarised i c"
  shows "changes (\<lambda>k. False) c c' \<and> summarised i c'"
  using assms(1)
proof (cases rule: PutReport_stores)
  case (1 summary report rep billing owner diff)
  note eff = store_report_effect [OF 1(3) c(1)]
  have s: "stored_summary cid c = summary" using 1(1) stored_summary_read [OF c(2)] by simp
  note r = stored_report_read [OF c(2) 1(2)]
  show ?thesis
    using eff(1) eff(2) [OF assms(4), of report_size] eff(2) [OF assms(4), of report_objects] eff(3) [of i] s r 1(4,5) assms(5)
    by (auto simp: summarised_def)
qed

section \<open>Removing a container\<close>

lemma LocalGet_deleteByPrefix:
  "contract_ok c \<Longrightarrow> LocalGet k (deleteByPrefix p c) = (if prefix p k then None else LocalGet k c)"
proof -
  assume "contract_ok c"
  then have "k \<in> fst ` set (LocalFind p c) \<longleftrightarrow> prefix p k \<and> LocalGet k c \<noteq> None"
    using LocalFind_iff [of c k _ p] by (force simp: image_iff)
  then show ?thesis by (auto simp: deleteByPrefix_def)
qed

lemma contract_ok_deleteByPrefix [simp]: "contract_ok c \<Longrightarrow> contract_ok (deleteByPrefix p c)"
  by (simp add: deleteByPrefix_def)

lemma removeContainer_effect:
  assumes "removeContainer j a c = Inr d" and c: "contract_ok c" and i: "length i = length j" "summarised i c"
  shows "changes (\<lambda>k. False) c d \<and> summarised i d"
proof -
  obtain c0 where c0: "(case LocalGet (summaryKey j) c of None \<Rightarrow> Inr c
      | Some v \<Rightarrow> andThen (cnt_summary v) (\<lambda>s. updateUserTakenSpace a (- rs_ContainerSize s) c)) = Inr c0"
    and d: "d = LocalPut (deletedKey j) (Raw []) (LocalDelete (eACLKey j) (LocalDelete (infoKey j) (LocalDelete (summaryKey j)
      (LocalDelete (containerQuotaKey j) (deleteByPrefix (billingPrefix j) (deleteByPrefix (reportsPrefix j)
      (deleteByPrefix (replicasPrefix j) (deleteByPrefix (nextNodesPrefix j) (deleteByPrefix (nodesPrefix j)
      (LocalDelete (ownerPrefix a @ j) c0))))))))))"
    using assms(1) by (auto simp: removeContainer_def Let_def)
  have q: "quiet c c0" using c0 by (auto split: option.splits intro: changes_updateUserTakenSpace)
  then have ok0: "contract_ok c0" using c by (simp add: changes_def)
  have step: "changes K c0 d" if "\<And>k. K k \<Longrightarrow> own_key i k \<and> i \<noteq> j" for K
  proof -
    have other: "\<not> K k" if "\<not> report_key k" for k using own_report_key that \<open>\<And>k. K k \<Longrightarrow> own_key i k \<and> i \<noteq> j\<close> by blast
    then have pre: "\<not> K k" if "prefix p k" "p \<noteq> []" "\<not> report_key p" for p k using report_key_prefix that by blast
    have rep: "\<not> K k" if "prefix (reportsPrefix j) k" for k
      using that \<open>\<And>k. K k \<Longrightarrow> own_key i k \<and> i \<noteq> j\<close> [of k] i(1) by (auto simp: own_key_def reportsPrefix_def summaryKey_def prefix_def)
    have sum: "\<not> K (summaryKey j)"
      using \<open>\<And>k. K k \<Longrightarrow> own_key i k \<and> i \<noteq> j\<close> [of "summaryKey j"] by (auto simp: own_key_def reportsPrefix_def summaryKey_def)
    have keys: "\<not> K (deletedKey j)" "\<not> K (eACLKey j)" "\<not> K (infoKey j)" "\<not> K (containerQuotaKey j)" "\<not> K (ownerPrefix a @ j)"
      by (rule other; simp add: key_sides)+
    have prefixes: "\<not> K k" if "prefix (billingPrefix j) k \<or> prefix (replicasPrefix j) k \<or> prefix (nextNodesPrefix j) k \<or>
        prefix (nodesPrefix j) k \<or> prefix (reportsPrefix j) k" for k
      using that rep pre [of "billingPrefix j" k] pre [of "replicasPrefix j" k] pre [of "nextNodesPrefix j" k] pre [of "nodesPrefix j" k]
      by (auto simp: cnt_key_defs report_key_def)
    show ?thesis unfolding d
      by (rule changes_updates deleteByPrefix_changes changes_refl keys sum | rule prefixes, blast | simp add: value_typed_kinds)+
  qed
  have "changes (\<lambda>k. False) c0 d" by (rule step) simp_all
  moreover have "changes (\<lambda>k. False) c c0" using q by (rule changes_mono) simp
  moreover have ok_d: "contract_ok d" using ok0 by (simp add: d)
  moreover have "summarised i d"
  proof (cases "i = j")
    case True
    have "LocalGet k d = None" if "prefix (reportsPrefix j) k" for k
      using that ok0 unfolding d by (auto simp: LocalGet_deleteByPrefix cnt_key_defs prefix_def)
    then have "e \<notin> set (LocalFind (reportsPrefix j) d)" for e
      using LocalFind_iff [OF ok_d, of "fst e" "snd e" "reportsPrefix j"] by auto
    then have "LocalFind (reportsPrefix j) d = []" by (metis list.set_intros(1) neq_Nil_conv)
    moreover have "stored_summary j d = emptySummary"
      unfolding d by (simp add: stored_summary_def cnt_key_defs)
    ultimately show ?thesis by (simp add: True summarised_def LocalSum_find)
  next
    case False
    have "changes (own_key i) c0 d" by (rule step) (use False in simp)
    then have "changes (own_key i) c d" using quiet_own [OF q] changes_trans by blast
    then show ?thesis using own_summarised c i(2) by blast
  qed
  ultimately show ?thesis using changes_trans by blast
qed

section \<open>Committing a placement\<close>

text \<open>
  The loop over the old nodes of a container: its summary does not change, the sum of its reports changes by
  the differences counted so far, and the entries of other containers stay.
\<close>

definition dropping :: "bytes \<Rightarrow> container \<Rightarrow> container \<times> int \<times> int \<Rightarrow> bool" where
  "dropping cid c st = (case st of (d, spaceDiff, objsDiff) \<Rightarrow>
     changes (\<lambda>k. report_key k \<and> \<not> prefix (reportsPrefix cid) k) c d \<and>
     LocalSum report_size (reportsPrefix cid) d = LocalSum report_size (reportsPrefix cid) c + spaceDiff \<and>
     LocalSum report_objects (reportsPrefix cid) d = LocalSum report_objects (reportsPrefix cid) c + objsDiff)"

lemma dropping_step:
  assumes "drop_old_node n (k, v) st = Inr st'" and "dropping cid c st" and ok: "contract_ok c"
    and k: "prefix (nodesPrefix cid) k" "length cid = Hash256Len"
  shows "dropping cid c st'"
proof -
  obtain d s o' where st: "st = (d, s, o')" by (cases st)
  have d: "contract_ok d" using assms(2) ok by (simp add: dropping_def st changes_def)
  have cid: "take Hash256Len (drop 1 k) = cid" using k by (auto simp: nodesPrefix_def prefix_def)
  have nk: "\<not> report_key k" "\<not> prefix (reportsPrefix cid) k" using k(1) by (auto simp: report_key_def nodesPrefix_def reportsPrefix_def prefix_def)
  obtain d1 s1 o1 where one: "(if stillInNetmap n k d then Inr st
       else andThen (slice_from (1 + Hash256Len + 1) k) (\<lambda>acc.
         let reportKey = reportsPrefix (cid @ acc) in
         case LocalGet reportKey d of
           None \<Rightarrow> Inr st
         | Some r \<Rightarrow> andThen (cnt_report r) (\<lambda>report.
             Inr (LocalDelete reportKey d, s - nr_ContainerSize report, o' - nr_NumberOfObjects report)))) = Inr (d1, s1, o1)"
    and st': "st' = (LocalDelete k d1, s1, o1)"
    using assms(1) unfolding drop_old_node_def st cid prod.case by (auto split: if_split_asm)
  have "dropping cid c (d1, s1, o1)"
  proof (cases "(d1, s1, o1) = st")
    case False
    then obtain acc r where "LocalGet (reportsPrefix (cid @ acc)) d = Some (Ser (CReport r))"
      and "d1 = LocalDelete (reportsPrefix (cid @ acc)) d" "s1 = s - nr_ContainerSize r" "o1 = o' - nr_NumberOfObjects r"
      using one by (auto simp: Let_def split: if_splits option.splits)
    moreover have "prefix (reportsPrefix cid) (reportsPrefix (cid @ acc))" by (simp add: reportsPrefix_def)
    ultimately show ?thesis using assms(2) d
      by (auto simp: dropping_def st LocalSum_LocalDelete intro!: change_intros)
  qed (use assms(2) in simp)
  moreover from this have "contract_ok d1" using ok by (simp add: dropping_def changes_def)
  ultimately show ?thesis using nk unfolding st'
    by (auto simp: dropping_def LocalSum_LocalDelete intro!: change_intros)
qed

lemma move_new_node_changes:
  assumes "(k, v) = kv" "prefix (nextNodesPrefix i) k" "value_typed k v" "quiet c d"
  shows "quiet c (move_new_node kv d)"
proof -
  have u: "k \<noteq> []" "hd k = CHR ''u''" using assms(2) prefix_hd [of "nextNodesPrefix i" k] by (auto simp: nextNodesPrefix_def)
  then have "\<exists>b. v = Raw b" using assms(3) by (auto simp: value_typed_def split: sval.splits cnt_ser.splits)
  then show ?thesis using assms(1,4) u
    by (auto simp: move_new_node_def value_typed_kinds report_key_def nodesPrefix_def value_typed_def intro!: change_intros)
qed

lemma move_new_nodes_changes:
  assumes "contract_ok c" "typed c"
  shows "quiet c (fold move_new_node (LocalFind (nextNodesPrefix i) c) c)"
proof -
  have "quiet c d \<Longrightarrow> set kvs \<subseteq> set (LocalFind (nextNodesPrefix i) c) \<Longrightarrow> quiet c (fold move_new_node kvs d)" for kvs d
  proof (induction kvs arbitrary: d)
    case (Cons kv kvs)
    obtain k v where kv: "kv = (k, v)" by (cases kv)
    then have "prefix (nextNodesPrefix i) k \<and> LocalGet k c = Some v" using Cons.prems(2) assms(1) by (simp add: LocalFind_iff)
    then have "quiet c (move_new_node kv d)"
      using move_new_node_changes [OF kv [symmetric] _ _ Cons.prems(1)] typedD [OF assms(2)] by blast
    then show ?case using Cons by simp
  qed simp
  then show ?thesis by simp
qed

lemma commit_stat_effect:
  assumes "commit_stat E cid sd od c = Inr d" and c: "contract_ok c"
  shows "changes (\<lambda>k. report_key k \<and> k \<noteq> summaryKey cid) c d"
    "rs_ContainerSize (stored_summary cid d) = rs_ContainerSize (stored_summary cid c) + sd"
    "rs_NumberOfObjects (stored_summary cid d) = rs_NumberOfObjects (stored_summary cid c) + od"
proof -
  have "changes (\<lambda>k. report_key k \<and> k \<noteq> summaryKey cid) c d \<and>
    rs_ContainerSize (stored_summary cid d) = rs_ContainerSize (stored_summary cid c) + sd \<and>
    rs_NumberOfObjects (stored_summary cid d) = rs_NumberOfObjects (stored_summary cid c) + od"
  proof (cases "sd = 0 \<and> od = 0")
    case True
    then show ?thesis using assms by (simp add: commit_stat_def)
  next
    case False
    then obtain s where s: "LocalGet (summaryKey cid) c = Some (Ser (CSummary s))"
      using assms(1) by (auto simp: commit_stat_def split: option.splits if_splits)
    let ?s' = "s\<lparr>rs_ContainerSize := rs_ContainerSize s + sd, rs_NumberOfObjects := rs_NumberOfObjects s + od\<rparr>"
    let ?c1 = "LocalPut (summaryKey cid) (Ser (CSummary ?s')) c"
    have c1: "changes (\<lambda>k. report_key k \<and> k \<noteq> summaryKey cid) c ?c1" by (intro change_intros) (simp_all add: value_typed_kinds)
    obtain a where "d = ?c1 \<or> updateUserTakenSpace a sd ?c1 = Inr d"
      using assms(1) False s by (auto simp: commit_stat_def Let_def split: if_splits option.splits)
    then have q: "quiet ?c1 d" by (auto intro: changes_updateUserTakenSpace)
    have "changes (\<lambda>k. report_key k \<and> k \<noteq> summaryKey cid) c d"
      using c1 changes_mono [OF q, of "\<lambda>k. report_key k \<and> k \<noteq> summaryKey cid"] changes_trans by blast
    moreover have "stored_summary cid d = ?s'"
      using quiet_report_values(2) [where i = cid, OF q] c by (simp add: stored_summary_def)
    ultimately show ?thesis using s by (simp add: stored_summary_def)
  qed
  then show "changes (\<lambda>k. report_key k \<and> k \<noteq> summaryKey cid) c d"
    "rs_ContainerSize (stored_summary cid d) = rs_ContainerSize (stored_summary cid c) + sd"
    "rs_NumberOfObjects (stored_summary cid d) = rs_NumberOfObjects (stored_summary cid c) + od" by blast+
qed

lemma Commit_effect:
  assumes "CommitContainerListUpdate E cid rs c = Inr c'" and c: "contract_ok c" "typed c"
    and i: "length i = Hash256Len" "summarised i c"
  shows "changes (\<lambda>k. False) c c' \<and> summarised i c'"
proof -
  let ?d = "\<lambda>c1. fold move_new_node (LocalFind (nextNodesPrefix cid) c1) c1"
  obtain c1 sd od c4 c5 where len: "length cid = Hash256Len"
    and old: "foldR (drop_old_node (length rs)) (LocalFind (nodesPrefix cid) c) (c, 0, 0) = Inr (c1, sd, od)"
    and reps: "put_replicas cid rs 0 (deleteKeys (map fst (LocalFind (replicasPrefix cid) (?d c1))) (?d c1)) = Inr c4"
    and stat: "commit_stat E cid sd od c4 = Inr c5" and c': "c' = Notify (CntNodesUpdate cid) c5"
    using assms(1) by (auto simp: CommitContainerListUpdate_def Let_def split: if_splits)
  have drop: "dropping cid c (c1, sd, od)"
    using old
  proof (rule foldR_invariant [where P = "dropping cid c"])
    show "dropping cid c st'" if "kv \<in> set (LocalFind (nodesPrefix cid) c)" "dropping cid c st" "drop_old_node (length rs) kv st = Inr st'" for kv st st'
    proof -
      obtain k v where kv: "kv = (k, v)" by (cases kv)
      have "prefix (nodesPrefix cid) k" using LocalFind_prefix [OF that(1)] by (simp add: kv)
      from dropping_step [OF that(3) [unfolded kv] that(2) c(1) this len] show ?thesis .
    qed
  qed (simp add: dropping_def)
  then have c1: "contract_ok c1" "typed c1" "changes (\<lambda>k. report_key k \<and> \<not> prefix (reportsPrefix cid) k) c c1"
    using c by (auto simp: dropping_def changes_def)
  note move_new_nodes_changes [OF c1(1,2), of cid]
  also have "quiet (?d c1) (deleteKeys (map fst (LocalFind (replicasPrefix cid) (?d c1))) (?d c1))"
    using find_hd [of _ "replicasPrefix cid" "?d c1"] by (intro change_intros) (auto simp: report_key_def replicasPrefix_def)
  also have "quiet \<dots> c4" using reps by (rule quiet_put_replicas)
  finally have q: "quiet c1 c4" .
  then have ok4: "contract_ok c4" using c1(1) by (simp add: changes_def)
  note eff = commit_stat_effect [OF stat ok4]
  have "changes (\<lambda>k. False) c c1" by (rule changes_mono [OF c1(3)]) simp
  also have "changes (\<lambda>k. False) c1 c4" by (rule changes_mono [OF q]) simp
  also have "changes (\<lambda>k. False) c4 c5" by (rule changes_mono [OF eff(1)]) simp
  finally have ch: "changes (\<lambda>k. False) c c5" .
  have "summarised i c5"
  proof (cases "i = cid")
    case True
    have keep: "LocalGet k c5 = LocalGet k c4" if "prefix (reportsPrefix cid) k" for k
    proof -
      have "k \<noteq> [] \<and> hd k = CHR ''i''" using prefix_hd [OF that] by (simp add: reportsPrefix_def)
      then have "report_key k \<and> k \<noteq> summaryKey cid" by (auto simp: report_key_def summaryKey_def)
      then show ?thesis using eff(1) unfolding changes_def by blast
    qed
    have "contract_ok c5" using ch c(1) by (simp add: changes_def)
    then have "LocalFind (reportsPrefix cid) c5 = LocalFind (reportsPrefix cid) c4" using ok4 keep by (rule LocalFind_cong)
    then have f: "LocalSum f (reportsPrefix cid) c5 = LocalSum f (reportsPrefix cid) c1" for f
      using quiet_report_values(1) [where i = cid and f = f, OF q c1(1)] by (simp add: LocalSum_find)
    have "report_key (summaryKey cid)" "\<not> prefix (reportsPrefix cid) (summaryKey cid)" by (simp_all add: reportsPrefix_def summaryKey_def report_key_def)
    then have "stored_summary cid c1 = stored_summary cid c" using c1(3) by (simp add: changes_def stored_summary_def)
    moreover have "stored_summary cid c4 = stored_summary cid c1" using quiet_report_values(2) [where i = cid, OF q c1(1)] .
    ultimately show ?thesis using eff(2,3) f drop i(2) by (simp add: summarised_def True dropping_def)
  next
    case False
    have "changes (own_key i) c c1"
      by (rule changes_mono [OF c1(3)])
        (use False i(1) len own_report_key in \<open>auto simp: own_key_def reportsPrefix_def summaryKey_def prefix_def\<close>)
    also have "changes (own_key i) c1 c4" using q by (rule quiet_own)
    also have "changes (own_key i) c4 c5"
      by (rule changes_mono [OF eff(1)]) (use False own_report_key in \<open>auto simp: own_key_def reportsPrefix_def summaryKey_def\<close>)
    finally have "changes (own_key i) c c5" .
    then show ?thesis using own_summarised c(1) i(2) by blast
  qed
  then show ?thesis using ch unfolding c' by (auto simp: summarised_def stored_summary_def intro!: change_intros)
qed

section \<open>The invariant\<close>

definition reports_ok :: "container \<Rightarrow> bool" where
  "reports_ok c \<longleftrightarrow> contract_ok c \<and> typed c \<and> (\<forall>i. LocalGet (infoKey i) c \<noteq> None \<longrightarrow> length i = Hash256Len) \<and>
     (\<forall>i. length i = Hash256Len \<longrightarrow> summarised i c)"

text \<open>An operation keeps it that keeps the reports and creates no container but one with a proper identifier.\<close>

lemma reports_ok_quiet:
  assumes "reports_ok c" and "quiet c d" and "\<And>i. LocalGet (infoKey i) d \<noteq> None \<Longrightarrow> LocalGet (infoKey i) c \<noteq> None \<or> length i = Hash256Len"
  shows "reports_ok d"
proof -
  have c: "contract_ok c" "typed c" "\<And>i. LocalGet (infoKey i) c \<noteq> None \<Longrightarrow> length i = Hash256Len"
    "\<And>i. length i = Hash256Len \<Longrightarrow> summarised i c" using assms(1) unfolding reports_ok_def by blast+
  have "contract_ok d" "typed d" using assms(2) c(1,2) by (simp_all add: changes_def)
  moreover have "LocalGet (infoKey i) d \<noteq> None \<Longrightarrow> length i = Hash256Len" for i using assms(3) c(3) by blast
  moreover have "length i = Hash256Len \<Longrightarrow> summarised i d" for i using c(4) own_summarised [OF quiet_own [OF assms(2)] c(1)] by blast
  ultimately show ?thesis unfolding reports_ok_def by blast
qed

lemma reports_ok_core_same: "reports_ok c \<Longrightarrow> quiet c d \<Longrightarrow> core_same c d \<Longrightarrow> reports_ok d"
  by (erule (1) reports_ok_quiet) (simp add: core_same_get)

lemma reports_ok_core_put:
  "reports_ok c \<Longrightarrow> quiet c d \<Longrightarrow> core_put j v c d \<Longrightarrow> LocalGet (infoKey j) c \<noteq> None \<or> length j = Hash256Len \<Longrightarrow> reports_ok d"
  by (erule (1) reports_ok_quiet) (auto simp: core_put_get split: if_splits)

lemma reports_ok_deployed:
  assumes "cnt_deploy E S resolver args False (new_contract, x) = Inr (c, y)"
  shows "reports_ok c"
proof -
  obtain n b k r where c: "c = LocalPut nnsRootKey (Raw n) (LocalPut nnsContractKey (Raw b)
      (LocalPut balanceContractKey (Raw k) (LocalPut netmapContractKey (Raw r) new_contract)))"
    using assms by (auto simp: cnt_deploy_def Let_def)
  have q: "quiet new_contract c" unfolding c by (intro change_intros) (simp_all add: key_sides NeoFSUserAccountLength_def)
  have new: "reports_ok new_contract" by (simp add: reports_ok_def summarised_def stored_summary_def)
  show ?thesis by (rule reports_ok_quiet [OF new q]) (simp add: c cnt_key_defs)
qed

end
