(* ===== verification/Container_Invariants.thy ===== *)
theory Container_Invariants
  imports Container_Properties Container_Sums
begin

text \<open>
  Two guarantees of the Container contract in every state its life leads to: what it stores has the type its
  readers expect, and the summary of a container's reports is their sum.
\<close>

lemma reports_ok_notify [simp]: "reports_ok (Notify e c) \<longleftrightarrow> reports_ok c"
  by (simp add: reports_ok_def typed_def summarised_def stored_summary_def contract_ok_def Notify_def LocalGet_def LocalSum_def)

lemma reports_ok_notifications [simp]: "reports_ok (c\<lparr>notifications := ns\<rparr>) \<longleftrightarrow> reports_ok c"
  by (simp add: reports_ok_def typed_def summarised_def stored_summary_def contract_ok_def LocalGet_def LocalSum_def)

lemma reports_ok_changed:
  assumes "reports_ok c" and "core_same c d" and "\<And>i. length i = Hash256Len \<Longrightarrow> summarised i c \<Longrightarrow> changes (\<lambda>k. False) c d \<and> summarised i d"
  shows "reports_ok d"
proof -
  have "length (replicate Hash256Len CHR 0x00) = Hash256Len" by simp
  then have "changes (\<lambda>k. False) c d" using assms(1,3) unfolding reports_ok_def by blast
  then have "contract_ok d" "typed d" using assms(1) by (simp_all add: changes_def reports_ok_def)
  then show ?thesis using assms by (simp add: reports_ok_def core_same_get)
qed

lemma reports_ok_reach:
  "cnt_reach P (\<lambda>i. length i = Hash256Len) w w' \<Longrightarrow> reports_ok (fst w) \<Longrightarrow> reports_ok (fst w')"
proof (induction rule: cnt_reach.induct)
  case (create E S cnr w j w')
  obtain c x where w: "w = (c, x)" by (cases w)
  from create.hyps(2) [unfolded w] show ?case
  proof (cases rule: CreateV2_result)
    case (1 c1 name zone x1 x2)
    have "quiet c c1" using 1(4) quiet_create_domain by (auto split: if_splits)
    then have "reports_ok c1" using 1(5) create.prems reports_ok_core_same by (simp add: w)
    then have "reports_ok (store_container E j cnr c1)"
      using reports_ok_core_put [OF _ quiet_store_container core_put_store_container] create.hyps(3) by blast
    then show ?thesis using payment_keeps [OF 1(7), of reports_ok] create.IH by simp
  qed
next
  case (transfer E S ser to j data w ok w')
  obtain c x where w: "w = (c, x)" by (cases w)
  from transfer.hyps(2) [unfolded w] show ?case
  proof (cases rule: Transfer_result)
    case refused
    then show ?thesis using transfer.prems w by simp
  next
    case (moved r c1)
    have "reports_ok c1"
      using moved(2,6) transfer.prems reports_ok_core_put [OF _ quiet_move_container core_put_move_container]
      by (auto simp: w split: if_splits)
    then have "reports_ok (notifyNEP11Transfer j (Some (ci_Owner r)) (Some to) c1)" by (simp add: notifyNEP11Transfer_def)
    then show ?thesis using payment_keeps [OF moved(7), of reports_ok] transfer.IH by simp
  qed
next
  case (remove E S j w w')
  obtain c x c' x' where w: "w = (c, x)" "w' = (c', x')" by (cases w; cases w')
  from remove.hyps(2) [unfolded w] show ?case
  proof (cases rule: Remove_result)
    case (removed r c1 c2)
    have c: "reports_ok c" using remove.prems by (simp add: w)
    have eff: "changes (\<lambda>k. False) c c1 \<and> summarised i c1" if "length i = Hash256Len" for i
      using removeContainer_effect [OF removed(3)] c that removed(8) by (simp add: reports_ok_def)
    have "length (replicate Hash256Len CHR 0x00) = Hash256Len" by simp
    then have "contract_ok c1" "typed c1" using eff c unfolding changes_def reports_ok_def by blast+
    moreover have "LocalGet (infoKey i) c1 \<noteq> None \<Longrightarrow> length i = Hash256Len" for i
      using core_same_removeContainer [OF removed(3)] c unfolding reports_ok_def by (cases "i = j") auto
    ultimately have "reports_ok c1" using eff unfolding reports_ok_def by blast
    moreover have "quiet c1 c2" "core_same c1 c2" using removed(4) by (auto intro!: change_intros core_intros)
    ultimately have "reports_ok c2" by (rule reports_ok_core_same)
    then show ?thesis by (simp add: w removed(6) notifyNEP11Transfer_def)
  qed (use remove.prems w in simp)
next
  case (report E S j sz objs k w w')
  obtain c x c' x' where w: "w = (c, x)" "w' = (c', x')" by (cases w; cases w')
  note r = report.hyps(2) [unfolded w]
  have c: "reports_ok c" using report.prems by (simp add: w)
  have j: "length j = Hash256Len" using r c by (cases rule: PutReport_stores) (auto simp: reports_ok_def)
  have "reports_ok c'"
    by (rule reports_ok_changed [OF c core_same_PutReport [OF r]]) (use PutReport_effect [OF r] c j in \<open>simp add: reports_ok_def\<close>)
  then show ?case by (simp add: w)
next
  case (commit E i rs c c' x)
  have "reports_ok c'"
    by (rule reports_ok_changed [OF _ core_same_CommitContainerListUpdate [OF commit.hyps(2)]])
      (use Commit_effect [OF commit.hyps(2)] commit.prems in \<open>simp_all add: reports_ok_def\<close>)
  then show ?case by simp
next
  case (container_quota E S j sz hard w w')
  then show ?case using reports_ok_core_same [OF _ quiet_setContainerQuota core_same_setContainerQuota] by (cases w; cases w') auto
next
  case (user_quota E S user sz hard w w')
  then show ?case using reports_ok_core_same [OF _ quiet_setUserQuota core_same_setUserQuota] by (cases w; cases w') auto
next
  case (eacl E b c c' x)
  then show ?case using core_put_PutEACL [OF eacl.hyps(2)] quiet_PutEACL [OF eacl.hyps(2)]
    by (auto intro: reports_ok_core_same reports_ok_core_put)
next
  case (set_attribute E j name val until c c' x)
  from set_attribute.hyps(2) obtain r where "LocalGet (infoKey j) c = Some (Ser (CInfoRev r))"
    and "\<exists>r'. c' = put_info_rev j name r' c" by (cases rule: SetAttribute_result) blast
  then show ?case using set_attribute.prems
    by (auto intro: reports_ok_core_put [OF _ quiet_put_info_rev [OF changes_refl] core_put_put_info_rev])
next
  case (remove_attribute E j name until c c' x)
  from remove_attribute.hyps(2) obtain r where "LocalGet (infoKey j) c = Some (Ser (CInfoRev r))"
    and "c' = c \<or> (\<exists>r'. c' = put_info_rev j name r' c)" by (cases rule: RemoveAttribute_result) (auto split: if_splits)
  then show ?case using remove_attribute.prems
    by (auto intro: reports_ok_core_put [OF _ quiet_put_info_rev [OF changes_refl] core_put_put_info_rev])
next
  case (migrate ver c c' x)
  have c: "reports_ok c" using migrate.prems by simp
  then have "contract_ok c" by (simp add: reports_ok_def)
  then have "LocalGet (infoKey i) c' \<noteq> None \<Longrightarrow> LocalGet (infoKey i) c \<noteq> None" for i
    using migrate_keeps(3) [OF migrate.hyps, of i] by (cases "LocalGet (infoKey i) c") simp_all
  then have "reports_ok c'" using reports_ok_quiet [OF c quiet_migrate [OF migrate.hyps]] by blast
  then show ?case by simp
next
  case (add_nodes E i n ks c c' x)
  then show ?case using reports_ok_core_same [OF _ quiet_AddNextEpochNodes core_same_AddNextEpochNodes] by simp
qed simp_all

section \<open>Readers\<close>

definition no_fault :: "'a res \<Rightarrow> bool" where
  "no_fault r \<longleftrightarrow> (\<forall>m. r \<noteq> Inl (Fault m))"

lemma no_fault_simps [simp]: "no_fault (Inr x)" "no_fault (Inl (Panic m))"
  by (simp_all add: no_fault_def)

lemma no_fault_andThen: "no_fault m \<Longrightarrow> (\<And>x. m = Inr x \<Longrightarrow> no_fault (f x)) \<Longrightarrow> no_fault (andThen m f)"
  by (cases m) (auto simp: no_fault_def)

lemma no_fault_mapR: "(\<And>x. x \<in> set xs \<Longrightarrow> \<exists>y. f x = Inr y) \<Longrightarrow> no_fault (mapR f xs)"
proof -
  assume "\<And>x. x \<in> set xs \<Longrightarrow> \<exists>y. f x = Inr y"
  then have "mapR f xs = Inr (map (\<lambda>x. SOME y. f x = Inr y) xs)" by (intro mapR_Inr) (rule someI_ex, blast)
  then show ?thesis by simp
qed

lemma find_values_typed:
  assumes "contract_ok c" "typed c" "v \<in> set (find_values p c)"
  shows "\<exists>k. value_typed (p @ k) v"
proof -
  obtain k where "(k, v) \<in> set (LocalFind p c)" using assms(3) by (auto simp: find_values_def)
  then have "prefix p k" "LocalGet k c = Some v" using LocalFind_iff [OF assms(1)] by simp_all
  then show ?thesis using typedD [OF assms(2)] by (auto simp: prefix_def)
qed

lemma length_scriptHashToAddress [simp]: "length (scriptHashToAddress E h) = NeoFSUserAccountLength"
proof -
  have copy: "off \<le> length buf \<Longrightarrow> length (copy_at buf off src) = length buf" for buf src :: bytes and off
    by (simp add: copy_at_def)
  show ?thesis by (simp add: scriptHashToAddress_def Let_def copy NeoFSUserAccountLength_def)
qed

text \<open>A read of an entry that may be missing.\<close>

lemma no_fault_read_or:
  assumes "\<And>v. LocalGet k c = Some v \<Longrightarrow> \<exists>x. f v = Inr x"
  shows "no_fault (read_or d f k c)"
  using assms by (cases "LocalGet k c") (auto simp: read_or_def)

lemma no_fault_typed_reads:
  assumes "typed c"
  shows "no_fault (read_or d cnt_summary (summaryKey i) c)" "no_fault (read_or r cnt_report (reportsPrefix i) c)"
    "no_fault (read_or b cnt_billing (billingPrefix i) c)" "no_fault (read_or q cnt_quota (containerQuotaKey i) c)"
    "length i = NeoFSUserAccountLength \<Longrightarrow> no_fault (read_or q cnt_quota (userQuotaKey i) c)"
  by (auto intro!: no_fault_read_or dest!: typedD [OF assms] simp: value_typed_kinds)

lemma no_fault_iterate:
  assumes "contract_ok c" "typed c"
  shows "no_fault (IterateReports i c)" "no_fault (IterateBillingStats i c)" "no_fault (IterateAllReportSummaries c)"
proof -
  have "value_typed (reportsPrefix i @ k) v \<Longrightarrow> \<exists>r. v = Ser (CReport r)" "value_typed (billingPrefix i @ k) v \<Longrightarrow> \<exists>b. v = Ser (CBilling b)" for k v
    using value_typed_kinds(2) [of "i @ k" v] value_typed_kinds(4) [of "i @ k" v] by (simp_all add: reportsPrefix_def billingPrefix_def)
  then show "no_fault (IterateReports i c)" "no_fault (IterateBillingStats i c)"
    using find_values_typed [OF assms] unfolding IterateReports_def IterateBillingStats_def
    by (auto intro!: no_fault_mapR) (metis cnt_values(2), metis cnt_values(4))
  have "\<exists>y. (case e of (k, v) \<Rightarrow> andThen (cnt_summary v) (\<lambda>s. Inr (k, s))) = Inr y" if "e \<in> set (find_no_prefix (summaryKey []) c)" for e
  proof -
    obtain k v where e: "e = (k, v)" by (cases e)
    have "LocalGet (summaryKey k) c = Some v" using that find_no_prefix_iff [OF assms(1)] by (simp add: e summaryKey_def)
    then show ?thesis using typed_kinds(3) [OF assms(2)] by (fastforce simp: e)
  qed
  then show "no_fault (IterateAllReportSummaries c)" unfolding IterateAllReportSummaries_def by (rule no_fault_mapR)
qed

lemma no_fault_containers:
  assumes "typed c"
  shows "no_fault (GetRevisionedInfo i c)" "no_fault (getOwnerByID E i c)" "no_fault (cnt_OwnerOf E i c)" "no_fault (cnt_Properties E i c)"
    "no_fault (cnt_Alias i c)" "no_fault (GetEACLData i c)" "no_fault (GetTakenSpaceByUser u c)"
proof -
  have i: "LocalGet (infoKey i) c = Some v \<Longrightarrow> \<exists>r. v = Ser (CInfoRev r)" for v using typed_kinds(1) [OF assms] .
  show "no_fault (GetRevisionedInfo i c)" "no_fault (getOwnerByID E i c)" "no_fault (cnt_Properties E i c)"
    using i by (auto simp: GetRevisionedInfo_def getOwnerByID_def cnt_Properties_def missing_error_def split_beta Let_def split: option.splits)
  show "no_fault (cnt_OwnerOf E i c)"
    using i by (auto simp: cnt_OwnerOf_def getOwnerByID_def missing_error_def slice_def NeoFSUserAccountLength_def split: option.splits)
  show "no_fault (cnt_Alias i c)" "no_fault (GetEACLData i c)" "no_fault (GetTakenSpaceByUser u c)"
    by (auto simp: cnt_Alias_def GetEACLData_def exists_or_NotFound_def check_def GetTakenSpaceByUser_def getTakenSpaceByKey_def
        to_integer_def value_typed_kinds split: option.splits dest!: typedD [OF assms])
qed

section \<open>The properties\<close>

text \<open>C7: what the contract stores always has the type its readers expect. In every state that follows a fresh
  deployment, whatever the operations, the contracts that call back and the migrations in between, no reader
  faults, whatever it is asked for, but for one case: it returns a value, or throws one of the contract's own
  exceptions. The case is that of the two methods that take a public key: bytes that are no key make
  \<open>CreateStandardAccount\<close> fault, for every container that exists and for no other.\<close>

theorem readers_never_fault:
  assumes "cnt_deploy E S resolver args False (new_contract, x) = Inr (c, y)"
    and "cnt_reach P (\<lambda>i. length i = Hash256Len) (c, y) (d, z)"
  shows "(no_fault (GetInfo i d) \<and> no_fault (cnt_OwnerOf E' i d) \<and> no_fault (cnt_Owner E' i d) \<and> no_fault (cnt_Properties E' i d) \<and>
      no_fault (cnt_Alias i d) \<and> no_fault (GetEACLData i d)) \<and>
    (no_fault (GetNodeReportSummary i d) \<and> no_fault (GetReportByAccount i acc d) \<and>
      no_fault (IterateReports i d) \<and> no_fault (IterateAllReportSummaries d) \<and> no_fault (IterateBillingStats i d)) \<and>
    (no_fault (GetReportByNode E' i key d) \<longleftrightarrow> rt_is_key E' key \<or> LocalGet (infoKey i) d = None) \<and>
    (no_fault (GetBillingStatByNode E' i key d) \<longleftrightarrow> rt_is_key E' key \<or> LocalGet (infoKey i) d = None) \<and>
    (no_fault (ContainerQuota i d) \<and> no_fault (UserQuota user d) \<and> no_fault (GetTakenSpaceByUser user d))"
proof -
  have "reports_ok d" using reports_ok_reach [OF assms(2)] reports_ok_deployed [OF assms(1)] by simp
  then have d: "contract_ok d" "typed d" by (simp_all add: reports_ok_def)
  note reads = no_fault_containers [OF d(2)] no_fault_typed_reads [OF d(2)] no_fault_iterate [OF d]
  note nodes = GetReportByNode_def GetBillingStatByNode_def getReportByKey_def exists_or_NotFound_def check_def CreateStandardAccount_def
  have "no_fault (GetReportByNode E' i key d) \<longleftrightarrow> rt_is_key E' key \<or> LocalGet (infoKey i) d = None"
    "no_fault (GetBillingStatByNode E' i key d) \<longleftrightarrow> rt_is_key E' key \<or> LocalGet (infoKey i) d = None"
    using reads by (auto simp: nodes no_fault_def)
  then show ?thesis
    by (intro conjI) (auto simp: GetInfo_def cnt_Owner_def GetNodeReportSummary_def GetReportByAccount_def
        getReportByKey_def ContainerQuota_def UserQuota_def exists_or_NotFound_def check_def
        intro!: no_fault_andThen reads)
qed

text \<open>C2: the summary of a container's reports is their sum. In every state that follows a fresh deployment, the
  sizes and the numbers of objects that the reports of a container's nodes give add up to the summary that is
  charged for: no report counts twice, none is forgotten, and the reports of nodes that left are subtracted.\<close>

theorem summary_is_sum_of_reports:
  assumes "cnt_deploy E S resolver args False (new_contract, x) = Inr (c, y)"
    and "cnt_reach P (\<lambda>i. length i = Hash256Len) (c, y) (d, z)" and "GetNodeReportSummary i d = Inr s"
  shows "\<exists>reports. IterateReports i d = Inr reports \<and> rs_ContainerSize s = sum_list (map nr_ContainerSize reports) \<and>
    rs_NumberOfObjects s = sum_list (map nr_NumberOfObjects reports)"
proof -
  have ok: "reports_ok d" using reports_ok_reach [OF assms(2)] reports_ok_deployed [OF assms(1)] by simp
  then have d: "contract_ok d" "typed d" by (simp_all add: reports_ok_def)
  have i: "LocalGet (infoKey i) d \<noteq> None" and s: "stored_summary i d = s"
    using assms(3) stored_summary_read [OF d(2)] by (auto simp: GetNodeReportSummary_def exists_or_NotFound_def check_def split: if_splits)
  then have len: "length i = Hash256Len" and sum: "summarised i d" using ok by (auto simp: reports_ok_def)
  have "\<exists>r. v = (Ser \<circ> CReport) r" if "v \<in> set (find_values (reportsPrefix i) d)" for v
    using find_values_typed [OF d that] value_typed_kinds(2) [of "i @ k" v for k] by (auto simp: reportsPrefix_def)
  then obtain reports where r: "find_values (reportsPrefix i) d = map (Ser \<circ> CReport) reports"
    using ex_map_conv [of "find_values (reportsPrefix i) d" "Ser \<circ> CReport"] by blast
  have "mapR cnt_report (map (Ser \<circ> CReport) rs) = Inr rs" for rs by (induction rs) simp_all
  then have "IterateReports i d = Inr reports" using len by (simp add: IterateReports_def r)
  moreover have "LocalSum f (reportsPrefix i) d = sum_list (map f (find_values (reportsPrefix i) d))" for f
    by (simp add: LocalSum_find find_values_def comp_def)
  ultimately show ?thesis using sum s by (intro exI [of _ reports]) (simp add: summarised_def r comp_def)
qed

text \<open>A life with one container, two nodes and a report of each.\<close>

definition sample_deploy :: "(container \<times> unit) res" where
  "sample_deploy = cnt_deploy sample_env sample_services (\<lambda>_ _ _. Inr [])
     [ANull, ABytes addrB, ABytes addrA, ANull, ABytes addrC] False (new_contract, ())"

definition sample_life :: "container res" where
  "sample_life = andThen sample_deploy (\<lambda>w.
     andThen (CreateV2 sample_env sample_services cnr_a w) (\<lambda>(i, w).
     andThen (AddNextEpochNodes sample_env i 0 [keyA, keyB] (fst w)) (\<lambda>c.
     andThen (CommitContainerListUpdate sample_env i [CHR 0x01] c) (\<lambda>c.
     andThen (PutReport sample_env sample_services i 100 5 keyA (c, ())) (\<lambda>w.
     andThen (PutReport sample_env sample_services i 50 2 keyB w) (\<lambda>w. Inr (fst w)))))))"

lemma sample_life_summary:
  "\<exists>d. sample_life = Inr d \<and> GetNodeReportSummary id_a d = Inr \<lparr>rs_ContainerSize = 150, rs_NumberOfObjects = 7\<rparr>"
proof -
  have "case sample_life of Inl e \<Rightarrow> False | Inr d \<Rightarrow> GetNodeReportSummary id_a d = Inr \<lparr>rs_ContainerSize = 150, rs_NumberOfObjects = 7\<rparr>"
    by code_simp
  then show ?thesis by (auto split: sum.splits)
qed

lemma sample_life_reach:
  assumes "sample_life = Inr d"
  shows "\<exists>c. sample_deploy = Inr (c, ()) \<and> cnt_reach (\<lambda>_. True) (\<lambda>i. length i = Hash256Len) (c, ()) (d, ())"
proof -
  let ?R = "cnt_reach (\<lambda>_. True) (\<lambda>i. length i = Hash256Len)"
  obtain c0 i c1 c2 c3 c4 where deploy: "sample_deploy = Inr (c0, ())"
    and create: "CreateV2 sample_env sample_services cnr_a (c0, ()) = Inr (i, c1, ())"
    and nodes: "AddNextEpochNodes sample_env i 0 [keyA, keyB] c1 = Inr c2"
    and commit: "CommitContainerListUpdate sample_env i [CHR 0x01] c2 = Inr c3"
    and first: "PutReport sample_env sample_services i 100 5 keyA (c3, ()) = Inr (c4, ())"
    and second: "PutReport sample_env sample_services i 50 2 keyB (c4, ()) = Inr (d, ())"
    using assms by (auto simp: sample_life_def)
  have i: "length i = Hash256Len" using create by (cases rule: CreateV2_result) (simp add: sample_env_def)
  have "?R (c0, ()) (c1, ())"
    by (rule cnt_reach.create [where P = "\<lambda>_. True" and Q = "\<lambda>i. length i = Hash256Len", OF _ create i]) (auto simp: sample_services_def intro: cnt_reach.same)
  moreover have "?R (c1, ()) (c2, ())" using nodes by (rule cnt_reach.add_nodes [rotated]) simp
  moreover have "?R (c2, ()) (c3, ())" using commit by (rule cnt_reach.commit [rotated]) simp
  moreover have "?R (c3, ()) (c4, ())" using first by (rule cnt_reach.report [rotated]) simp
  moreover have "?R (c4, ()) (d, ())" using second by (rule cnt_reach.report [rotated]) simp
  ultimately have "?R (c0, ()) (d, ())" by (blast intro: cnt_reach.step)
  then show ?thesis using deploy by blast
qed

theorem readers_never_fault_witness:
  "\<exists>d. sample_life = Inr d \<and> no_fault (IterateReports id_a d) \<and> no_fault (GetReportByNode sample_env id_a keyA d) \<and> no_fault (GetInfo id_a d)"
proof -
  obtain d where d: "sample_life = Inr d" using sample_life_summary by blast
  then obtain c where c: "sample_deploy = Inr (c, ())" "cnt_reach (\<lambda>_. True) (\<lambda>i. length i = Hash256Len) (c, ()) (d, ())"
    using sample_life_reach by blast
  have key: "rt_is_key sample_env keyA" by code_simp
  from readers_never_fault [OF c(1) [unfolded sample_deploy_def] c(2)] d key show ?thesis by blast
qed

theorem summary_is_sum_of_reports_witness:
  "\<exists>d reports. sample_life = Inr d \<and> IterateReports id_a d = Inr reports \<and>
     sum_list (map nr_ContainerSize reports) = 150 \<and> sum_list (map nr_NumberOfObjects reports) = 7"
proof -
  obtain d where d: "sample_life = Inr d" "GetNodeReportSummary id_a d = Inr \<lparr>rs_ContainerSize = 150, rs_NumberOfObjects = 7\<rparr>"
    using sample_life_summary by blast
  then obtain c where c: "sample_deploy = Inr (c, ())" "cnt_reach (\<lambda>_. True) (\<lambda>i. length i = Hash256Len) (c, ()) (d, ())"
    using sample_life_reach by blast
  from summary_is_sum_of_reports [OF c(1) [unfolded sample_deploy_def] c(2) d(2)] d(1) show ?thesis by auto
qed

end
