(* ===== verification/Settlement_Properties.thy ===== *)
theory Settlement_Properties
  imports Settlement_Ledger Container_Properties
begin

text \<open>
  The settlement of a container's payment with the Container and Netmap contracts it reads: who is paid
  how much, what stays marked, and that an epoch is paid for once.
\<close>

lemma OwnerOf_length: "cnt_OwnerOf E cid cnr = Inr owner \<Longrightarrow> length owner = Hash160Len"
  by (auto simp: cnt_OwnerOf_def split: option.splits)

lemma cnt_Owner_wallet:
  assumes "cnt_OwnerOf E cid cnr = Inr owner"
  shows "\<exists>wallet. cnt_Owner E cid cnr = Inr wallet \<and> WalletToScriptHash wallet = Inr owner"
proof -
  have len: "length owner = Hash160Len" using assms by (rule OwnerOf_length)
  obtain s where s: "scriptHashToAddress E owner = rt_address_version E # owner @ s"
    "length (scriptHashToAddress E owner) = 25" using scriptHashToAddress_eq [OF len] by blast
  then have "length s = 4" using len by simp
  then show ?thesis using assms s len by (simp add: cnt_Owner_def WalletToScriptHash_def)
qed

text \<open>The reads of a settlement when the hashes of the other contracts are known.\<close>

lemma settlement_reads_contracts:
  assumes "LocalGet [balNetmapContractKey] c = Some (Raw h1)" and "LocalGet [balContainerContractKey] c = Some (Raw h2)"
    and "cnt_OwnerOf E cid cnr = Inr owner" and "netmap_Config BasicIncomeRateKey nm = Inr (Some b)"
    and "netmap_Epoch nm = Inr epoch"
  shows "settlement_reads E resolver (contract_readers E cnr nm) cid c = Inr (h1, h2, owner, bytes_int b, epoch, c)"
  using cnt_Owner_wallet [OF assms(3)] assms
  by (auto simp: settlement_reads_def getContractHash_def contract_readers_def)

section \<open>The properties\<close>

text \<open>C13: a settlement pays exactly what is due as long as the owner can. Against the records of the
  Container contract and the network map of the Netmap contract it goes through the billing statistics in
  their order and moves each payment due from the owner's account to the node's, up to the first one the
  owner cannot make. Nothing else moves and the circulation stays. If all are made it returns true, records
  the epoch as paid, drops an unpaid mark and notifies the sum; otherwise it returns false and marks the
  container unpaid since this epoch unless it is marked already.\<close>

theorem settlement_pays_what_is_due:
  assumes "balance_ok c" and "alphabet_ok E" and "length cid = Hash256Len"
    and hashes: "LocalGet [balNetmapContractKey] c = Some (Raw h1)" "LocalGet [balContainerContractKey] c = Some (Raw h2)"
    and reads: "cnt_OwnerOf E cid cnr = Inr owner" "netmap_Config BasicIncomeRateKey nm = Inr (Some (int_bytes rate))"
      "netmap_Epoch nm = Inr epoch" "IterateBillingStats cid cnr = Inr stats"
    and "rate \<noteq> 0" and "1 \<le> epoch" and unpaid: "already_paid cid (epoch - 1) c = Inr False"
    and due: "mapR (due_payment (contract_readers E cnr nm) h1 h2 cid rate epoch) stats = Inr ds"
    and pays: "ps = payments stats ds" "\<forall>(a, p) \<in> set ps. 0 \<le> p \<and> length a = Hash160Len \<and> a \<noteq> owner"
  shows "\<exists>c'. SettleContainerPayment E resolver (contract_readers E cnr nm) cid c =
      Inr (affordable (bal_of c owner) ps = ps, c') \<and>
    (\<forall>b. bal_of c' b = bal_of c b + paid_to b (affordable (bal_of c owner) ps) -
       (if b = owner then paid_sum (affordable (bal_of c owner) ps) else 0)) \<and>
    balance_TotalSupply c' = balance_TotalSupply c \<and>
    LocalGet (paidKey cid) c' =
      (if affordable (bal_of c owner) ps = ps then Some (Raw (int_bytes (epoch - 1))) else LocalGet (paidKey cid) c) \<and>
    LocalGet (unpaidKey cid) c' =
      (if affordable (bal_of c owner) ps = ps then None
       else if LocalGet (unpaidKey cid) c = None then Some (Raw (int_bytes (epoch - 1))) else LocalGet (unpaidKey cid) c) \<and>
    (affordable (bal_of c owner) ps = ps \<longrightarrow>
       last (notifications c') = BalPayment owner cid (epoch - 1) (paid_sum ps))"
proof -
  let ?R = "contract_readers E cnr nm" and ?A = "affordable (bal_of c owner) ps"
  have own: "length owner = Hash160Len" using reads(1) by (rule OwnerOf_length)
  obtain n c1 where l: "settle_loop E (due_payment ?R h1 h2 cid rate epoch) owner stats 0 c = Inr (?A = ps, n, c1)"
    "?A = ps \<longrightarrow> n = paid_sum ps"
    "\<forall>b. bal_of c1 b = bal_of c b + paid_to b ?A - (if b = owner then paid_sum ?A else 0)"
    using settle_loop_spec [OF assms(1) own due pays, of E] by auto
  have "\<forall>r \<in> set stats. length (bs_Account r) = Hash160Len \<or> due_payment ?R h1 h2 cid rate epoch r = Inr None"
    using payments_account [OF due, of "\<lambda>a. length a = Hash160Len"] pays by fast
  then have c1: "balance_ok c1" "supply_of c1 = supply_of c"
    using settle_loop_balanced [OF l(1) assms(1) own] by auto
  have frame: "LocalGet k c1 = LocalGet k c" if "\<And>a. k \<noteq> accKey a" for k
    using settle_loop_frame [OF l(1) that] .
  let ?c2 = "mark_payment cid (epoch - 1) (?A = ps) c1"
  let ?c' = "if ?A = ps then Notify (BalPayment owner cid (epoch - 1) n) (put_int (paidKey cid) (epoch - 1) ?c2) else ?c2"
  have run: "SettleContainerPayment E resolver ?R cid c = Inr (?A = ps, ?c')"
    using settlement_reads_contracts [OF hashes reads(1-3), of resolver] assms(2,3,10,11) unpaid l(1) reads(4)
    by (simp add: SettleContainerPayment_eq Let_def contract_readers_def [of E cnr nm, THEN arg_cong, of r_iterateBillingStats])
  have m: "same_ledger c1 ?c2" using same_ledger_mark [OF c1(1)] .
  then have ok2: "balance_ok ?c2" using c1(1) by (simp add: same_ledger_def)
  have "same_ledger ?c2 (put_int (paidKey cid) (epoch - 1) ?c2)"
    unfolding put_int_def using same_ledger_updates(1) [OF ok2] by simp
  then have led: "same_ledger c1 ?c'"
    using m same_ledger_trans [OF same_ledger_trans [OF m]] same_ledger_Notify by auto
  then have ok': "balance_ok ?c'" using c1(1) by (simp add: same_ledger_def)
  have total: "balance_TotalSupply ?c' = balance_TotalSupply c"
    using getSupply_ok [OF ok'] getSupply_ok [OF assms(1)] led c1(2)
    by (simp add: balance_TotalSupply_def same_ledger_def)
  have bal: "\<forall>b. bal_of ?c' b = bal_of c b + paid_to b ?A - (if b = owner then paid_sum ?A else 0)"
    using l(3) led by (simp add: same_ledger_def)
  have marks: "LocalGet (paidKey cid) ?c' = (if ?A = ps then Some (Raw (int_bytes (epoch - 1))) else LocalGet (paidKey cid) c)"
    "LocalGet (unpaidKey cid) ?c' = (if ?A = ps then None
       else if LocalGet (unpaidKey cid) c = None then Some (Raw (int_bytes (epoch - 1))) else LocalGet (unpaidKey cid) c)"
    using frame [of "paidKey cid"] frame [of "unpaidKey cid"] by (auto simp: mark_payment_simps put_int_def)
  show ?thesis
    by (rule exI [of _ ?c'], intro conjI) (rule run bal total marks | simp add: l(2))+
qed

text \<open>Two nodes of the container \<open>id_a\<close> are due 30 and 90; its owner has 100.\<close>

definition node_acc :: "bytes \<Rightarrow> bytes" where "node_acc k = rt_std_account sample_env k"

definition billed :: "bytes \<Rightarrow> int \<Rightarrow> container \<Rightarrow> container" where
  "billed k n c = LocalPut (reportsPrefix (id_a @ node_acc k)) (Ser (CReport (first_report k n 1 6)))
     (LocalPut (billingPrefix (id_a @ node_acc k)) (Ser (CBilling (first_billing (node_acc k) n 6 1000))) c)"

definition cnt_p :: container where "cnt_p = billed keyC 90 (billed keyB 30 cnt1)"

definition online_node :: "bytes \<Rightarrow> node2" where
  "online_node k = \<lparr>Addresses = [], Attributes = [], Key = k, State = Online\<rparr>"

definition nm_p :: netmap where
  "nm_p = LocalPut (nodeKey 1 keyB) (Ser (SNode (online_node keyB))) (LocalPut (nodeKey 1 keyC) (Ser (SNode (online_node keyC)))
     (LocalPut (configPrefix @ BasicIncomeRateKey) (Raw (int_bytes gigabyte))
       (put_int (epochToNetmapVersionKey 4) 1 (put_int epochKey 7 new_contract))))"

definition bal_p :: balance where
  "bal_p = SetSerialized (accKey addrA) \<lparr>Balance = 100, Until = 0, Parent = []\<rparr>
     (LocalPut [balNetmapContractKey] (Raw addrB) (LocalPut [balContainerContractKey] (Raw addrC) new_contract))"

lemma bal_p_ok: "balance_ok bal_p" "LocalGet [balNetmapContractKey] bal_p = Some (Raw addrB)"
  "LocalGet [balContainerContractKey] bal_p = Some (Raw addrC)" "LocalGet (paidKey i) bal_p = None"
  "LocalGet (unpaidKey i) bal_p = None" "bal_of bal_p a = (if a = addrA then 100 else 0)"
  by (auto simp: bal_p_def balance_ok_def bal_of_def balNetmapContractKey_def balContainerContractKey_def circulation_def
      accKey_def unpaidKey_def paidKey_def)

lemma settle_reads_p:
  "length id_a = Hash256Len" "cnt_OwnerOf sample_env id_a cnt_p = Inr addrA"
  "netmap_Config BasicIncomeRateKey nm_p = Inr (Some (int_bytes gigabyte))" "netmap_Epoch nm_p = Inr 7"
  "IterateBillingStats id_a cnt_p = Inr [first_billing (node_acc keyB) 30 6 1000, first_billing (node_acc keyC) 90 6 1000]"
  "mapR (due_payment (contract_readers sample_env cnt_p nm_p) addrB addrC id_a gigabyte 7)
     [first_billing (node_acc keyB) 30 6 1000, first_billing (node_acc keyC) 90 6 1000] = Inr [Some 30, Some 90]"
  by code_simp+

theorem settlement_pays_what_is_due_witness:
  "\<exists>c'. SettleContainerPayment sample_env (\<lambda>_ _ _. Inr []) (contract_readers sample_env cnt_p nm_p) id_a bal_p = Inr (False, c') \<and>
     bal_of c' addrA = 70 \<and> bal_of c' (node_acc keyB) = 30 \<and> LocalGet (unpaidKey id_a) c' = Some (Raw (int_bytes 6))"
proof -
  have "gigabyte \<noteq> 0" "already_paid id_a (7 - 1) bal_p = Inr False"
    by (simp_all add: gigabyte_def already_paid_def bal_p_ok)
  moreover have accs: "length (node_acc keyB) = 20" "length (node_acc keyC) = 20" "node_acc keyB \<noteq> addrA" "node_acc keyC \<noteq> addrA"
    "node_acc keyC \<noteq> node_acc keyB" by code_simp+
  ultimately show ?thesis
    using settlement_pays_what_is_due [OF bal_p_ok(1) sample_alphabet settle_reads_p(1) bal_p_ok(2,3) settle_reads_p(2-5)
        _ _ _ settle_reads_p(6) refl, of "\<lambda>_ _ _. Inr []"]
    by (auto simp: bal_p_ok first_billing_def)
qed

text \<open>An epoch is paid for once. After a settlement that paid, whatever the Container and Netmap
  contracts answer then, a further settlement of the container in the same epoch or an earlier one
  returns false and changes no account and no mark.\<close>

theorem settlement_once:
  assumes "LocalGet (paidKey cid) c = Some (Raw (int_bytes paid))" and "balance_ok c"
    and "netmap_Epoch nm = Inr epoch" and "1 \<le> epoch" and "epoch - 1 \<le> paid"
    and "netmap_Config BasicIncomeRateKey nm = Inr (Some rate)" and "bytes_int rate \<noteq> 0"
    and "SettleContainerPayment E resolver (contract_readers E cnr nm) cid c = Inr (b, c')"
  shows "\<not> b \<and> bal_of c' = bal_of c \<and> LocalGet (paidKey cid) c' = LocalGet (paidKey cid) c \<and>
    LocalGet (unpaidKey cid) c' = LocalGet (unpaidKey cid) c"
proof -
  obtain h1 h2 owner r e c0 where r: "settlement_reads E resolver (contract_readers E cnr nm) cid c = Inr (h1, h2, owner, r, e, c0)"
    using assms(8) by (auto simp: SettleContainerPayment_eq split: if_splits)
  then have re: "r = bytes_int rate" "e = epoch" using assms(3,6)
    by (auto simp: settlement_reads_def contract_readers_def)
  note s = settlement_reads_ledger [OF r assms(2)]
  have "already_paid cid (epoch - 1) c0 = Inr True" using s(2) assms(1,5) by (simp add: already_paid_def)
  then have "b = False \<and> c' = c0" using assms(4,7,8) r re by (auto simp: SettleContainerPayment_eq split: if_splits)
  then show ?thesis using s by (simp add: same_ledger_def)
qed

definition bal_q :: balance where "bal_q = put_int (paidKey id_a) 6 bal_p"

theorem settlement_once_witness:
  "\<exists>c'. SettleContainerPayment sample_env (\<lambda>_ _ _. Inr []) (contract_readers sample_env cnt_p nm_p) id_a bal_q = Inr (False, c') \<and>
     bal_of c' = bal_of bal_q"
proof -
  have q: "same_ledger bal_p bal_q" unfolding bal_q_def put_int_def using same_ledger_updates(1) [OF bal_p_ok(1)] by simp
  then have ok: "balance_ok bal_q" using bal_p_ok(1) by (simp add: same_ledger_def)
  have "case SettleContainerPayment sample_env (\<lambda>_ _ _. Inr []) (contract_readers sample_env cnt_p nm_p) id_a bal_q
      of Inl _ \<Rightarrow> False | Inr _ \<Rightarrow> True" by code_simp
  then obtain b c' where run: "SettleContainerPayment sample_env (\<lambda>_ _ _. Inr []) (contract_readers sample_env cnt_p nm_p) id_a bal_q
      = Inr (b, c')" by (auto split: sum.splits)
  have paid: "LocalGet (paidKey id_a) bal_q = Some (Raw (int_bytes 6))" by (simp add: bal_q_def)
  show ?thesis
    using settlement_once [OF paid ok settle_reads_p(4) _ _ settle_reads_p(3) _ run] run by (auto simp: gigabyte_def)
qed

end
