(* ===== verification/NeoFS_Contract.thy ===== *)
theory NeoFS_Contract
  imports Common
begin

text \<open>
  The NeoFS contract of the main chain (\<open>contracts/neofs/contract.go\<close>): deposits and withdrawals of
  GAS, the list of Alphabet keys and the configuration. Where the chain has no notary service the
  Alphabet nodes vote with separate transactions. The native GAS contract's \<open>transfer\<close> is a parameter
  that may call the receiver and through it this contract, so it acts on both states.
\<close>

datatype main_event =
    MainDeposit bytes int bytes bytes
  | MainWithdraw bytes int bytes
  | MainCheque bytes bytes int bytes
  | MainAlphabetUpdate bytes "bytes list"
  | MainSetConfig bytes bytes bytes

type_synonym neofs = "(main_ser, main_event) contract"

type_synonym 'o gas_transfer = "bytes \<Rightarrow> bytes \<Rightarrow> int \<Rightarrow> arg \<Rightarrow> neofs \<times> 'o \<Rightarrow> (bool \<times> neofs \<times> 'o) res"

definition withdrawFeeConfigKey :: bytes where "withdrawFeeConfigKey = ''WithdrawFee''"
definition alphabetKey :: bytes where "alphabetKey = ''alphabet''"
definition notaryDisabledKey :: bytes where "notaryDisabledKey = ''notary''"
definition processingContractKey :: bytes where "processingContractKey = ''processingScriptHash''"
definition maxBalanceAmount :: int where "maxBalanceAmount = 9000"
definition maxBalanceAmountGAS :: int where "maxBalanceAmountGAS = maxBalanceAmount * 100000000"
definition ignoreDepositNotification :: bytes where "ignoreDepositNotification = [CHR 0x57, CHR 0x0b]"

section \<open>Configuration and Alphabet list\<close>

definition neofs_setConfig :: "bytes \<Rightarrow> bytes \<Rightarrow> neofs \<Rightarrow> neofs" where
  "neofs_setConfig key val c = LocalPut (''config'' @ key) (Raw val) c"

definition neofs_Config :: "bytes \<Rightarrow> neofs \<Rightarrow> bytes option res" where
  "neofs_Config key c = (case LocalGet (''config'' @ key) c of None \<Rightarrow> Inr None
     | Some v \<Rightarrow> andThen (as_bytes v) (\<lambda>b. Inr (Some b)))"

definition neofs_ListConfig :: "neofs \<Rightarrow> (bytes \<times> bytes) list res" where
  "neofs_ListConfig c = mapR (\<lambda>(k, v). andThen (as_bytes v) (\<lambda>b. Inr (k, b))) (find_no_prefix ''config'' c)"

definition getAlphabetNodes :: "neofs \<Rightarrow> bytes list res" where
  "getAlphabetNodes c = (case LocalGet alphabetKey c of None \<Rightarrow> Inr []
     | Some v \<Rightarrow> andThen (deserialize v) (\<lambda>x. case x of SKeys ks \<Rightarrow> Inr ks | SBallots b \<Rightarrow> Inl (Fault ''not keys'')))"

definition neofs_AlphabetList :: "neofs \<Rightarrow> bytes list res" where
  "neofs_AlphabetList c = getAlphabetNodes c"

definition neofs_multiaddress :: "env \<Rightarrow> bytes list \<Rightarrow> bytes" where
  "neofs_multiaddress E ks = rt_multisig E (int (length ks * 2 div 3 + 1)) ks"

definition neofs_AlphabetAddress :: "env \<Rightarrow> neofs \<Rightarrow> bytes res" where
  "neofs_AlphabetAddress E c = andThen (getAlphabetNodes c) (\<lambda>ks. Inr (neofs_multiaddress E ks))"

section \<open>Deposit and withdrawal\<close>

definition neofs_OnNEP17Payment :: "env \<Rightarrow> bytes \<Rightarrow> int \<Rightarrow> arg \<Rightarrow> neofs \<Rightarrow> neofs res" where
  "neofs_OnNEP17Payment E from amount data c = andThen (arg_bytes data) (\<lambda>rcv.
     if rcv = ignoreDepositNotification then Inr c
     else if amount \<le> 0 then Inl (Abort ''amount must be positive'')
     else if maxBalanceAmountGAS < amount then Inl (Abort ''out of max amount limit'')
     else if rt_caller E \<noteq> rt_gas E then Inl (Abort ''only GAS can be accepted for deposit'')
     else if length rcv = Hash160Len then Inr (Notify (MainDeposit from amount rcv (rt_tx_hash E)) c)
     else if length rcv = 0 then Inr (Notify (MainDeposit from amount from (rt_tx_hash E)) c)
     else Inl (Abort ''invalid data argument, expected Hash160''))"

text \<open>One payment of the fee; a fee that is not configured is Null, which GAS does not take.\<close>

definition pay_withdraw_fee :: "'o gas_transfer \<Rightarrow> bytes \<Rightarrow> int option \<Rightarrow> bytes \<Rightarrow> neofs \<times> 'o \<Rightarrow> (neofs \<times> 'o) res" where
  "pay_withdraw_fee G user fee to w = (case fee of
     None \<Rightarrow> Inl (Fault ''null amount'')
   | Some f \<Rightarrow> andThen (G user to f (ABytes []) w) (\<lambda>(transferred, w).
       if \<not> transferred then Inl (Panic ''failed to transfer withdraw fee, aborting'') else Inr w))"

definition neofs_Withdraw :: "env \<Rightarrow> 'o gas_transfer \<Rightarrow> bytes \<Rightarrow> int \<Rightarrow> neofs \<times> 'o \<Rightarrow> (neofs \<times> 'o) res" where
  "neofs_Withdraw E G user amount w = (case w of (c, others) \<Rightarrow>
     andThen (CheckWitness E user) (\<lambda>ok.
     if \<not> ok then Inl (Panic ''you should be the owner of the wallet'')
     else if amount < 0 then Inl (Panic ''non positive amount number'')
     else if amount > maxBalanceAmount then Inl (Panic ''out of max amount limit'')
     else andThen (to_bool (LocalGet notaryDisabledKey c)) (\<lambda>notaryDisabled.
       andThen (neofs_Config withdrawFeeConfigKey c) (\<lambda>feeRaw.
       let fee = map_option bytes_int feeRaw in
       andThen (if notaryDisabled
         then andThen (getAlphabetNodes c) (\<lambda>alphabet.
           foldR (\<lambda>node w. andThen (CreateStandardAccount E node) (\<lambda>to. pay_withdraw_fee G user fee to w)) alphabet w)
         else (case LocalGet processingContractKey c of
             None \<Rightarrow> Inl (Fault ''null'')
           | Some v \<Rightarrow> andThen (as_bytes v) (\<lambda>to. pay_withdraw_fee G user fee to w))) (\<lambda>(c1, others1).
       Inr (Notify (MainWithdraw user (amount * 100000000) (rt_tx_hash E)) c1, others1))))))"

section \<open>Decisions of the Alphabet\<close>

text \<open>The threshold of votes on a chain without notary service.\<close>

definition vote_threshold :: "bytes list \<Rightarrow> int" where
  "vote_threshold alphabet = int (length alphabet * 2 div 3 + 1)"

text \<open>
  The common beginning of \<open>Cheque\<close> and \<open>AlphabetUpdate\<close>: who calls. \<open>None\<close> is a chain with
  notary service, where the Alphabet's witness was checked; otherwise the Alphabet and the voting key.
\<close>

definition check_invoker :: "env \<Rightarrow> neofs \<Rightarrow> (bytes list \<times> bytes) option res" where
  "check_invoker E c = andThen (to_bool (LocalGet notaryDisabledKey c)) (\<lambda>notaryDisabled.
     if notaryDisabled
     then andThen (getAlphabetNodes c) (\<lambda>alphabet. andThen (InnerRingInvoker E alphabet) (\<lambda>nodeKey.
       if length nodeKey = 0 then Inl (Panic ''this method must be invoked by alphabet'')
       else Inr (Some (alphabet, nodeKey))))
     else andThen (CheckAlphabetWitness E) (\<lambda>_. Inr None))"

text \<open>The voting: whether the decision is made, and the state without its ballot once it is.\<close>

definition collect_vote :: "env \<Rightarrow> bytes \<Rightarrow> (bytes list \<times> bytes) option \<Rightarrow> neofs \<Rightarrow> (bool \<times> neofs) res" where
  "collect_vote E i invoker c = (case invoker of
     None \<Rightarrow> Inr (True, c)
   | Some (alphabet, nodeKey) \<Rightarrow> andThen (Vote E i nodeKey c) (\<lambda>(n, c1).
       if n < vote_threshold alphabet then Inr (False, c1)
       else andThen (RemoveVotes i c1) (\<lambda>c2. Inr (True, c2))))"

definition neofs_Cheque ::
  "env \<Rightarrow> 'o gas_transfer \<Rightarrow> bytes \<Rightarrow> bytes \<Rightarrow> int \<Rightarrow> bytes \<Rightarrow> neofs \<times> 'o \<Rightarrow> (neofs \<times> 'o) res" where
  "neofs_Cheque E G i user amount lockAcc w = (case w of (c, others) \<Rightarrow>
     andThen (check_invoker E c) (\<lambda>invoker.
     andThen (collect_vote E i invoker c) (\<lambda>(made, c1).
     if \<not> made then Inr (c1, others)
     else andThen (G (rt_self E) user amount ANull (c1, others)) (\<lambda>(transferred, c2, others2).
       if \<not> transferred then Inl (Panic ''failed to transfer funds, aborting'')
       else Inr (Notify (MainCheque i user amount lockAcc) c2, others2)))))"

definition neofs_AlphabetUpdate :: "env \<Rightarrow> bytes \<Rightarrow> bytes list \<Rightarrow> neofs \<Rightarrow> neofs res" where
  "neofs_AlphabetUpdate E i args c =
     andThen (to_bool (LocalGet notaryDisabledKey c)) (\<lambda>_.
     if args = [] then Inl (Panic ''bad arguments'')
     else andThen (check_invoker E c) (\<lambda>invoker.
       if \<not> list_all (\<lambda>k. length k = PublicKeyCompressedLen) args
       then Inl (Panic ''invalid public key in alphabet list'')
       else andThen (collect_vote E i invoker c) (\<lambda>(made, c1).
         if \<not> made then Inr c1
         else Inr (Notify (MainAlphabetUpdate i args) (SetSerialized alphabetKey (SKeys args) c1)))))"

text \<open>\<open>SetConfig\<close> tests the configuration key where the others test the key of the caller.\<close>

definition neofs_SetConfig :: "env \<Rightarrow> bytes \<Rightarrow> bytes \<Rightarrow> bytes \<Rightarrow> neofs \<Rightarrow> neofs res" where
  "neofs_SetConfig E i key val c =
     andThen (to_bool (LocalGet notaryDisabledKey c)) (\<lambda>notaryDisabled.
     andThen (if notaryDisabled
       then andThen (getAlphabetNodes c) (\<lambda>alphabet. andThen (InnerRingInvoker E alphabet) (\<lambda>nodeKey.
         if length key = 0 then Inl (Panic ''this method must be invoked by alphabet'')
         else Inr (Some (alphabet, nodeKey))))
       else andThen (CheckAlphabetWitness E) (\<lambda>_. Inr None)) (\<lambda>invoker.
     andThen (collect_vote E i invoker c) (\<lambda>(made, c1).
     if \<not> made then Inr c1
     else Inr (Notify (MainSetConfig i key val) (neofs_setConfig key val c1)))))"

section \<open>Deployment and update\<close>

fun neofs_deploy_config :: "bytes list \<Rightarrow> neofs \<Rightarrow> neofs" where
  "neofs_deploy_config (k # v # cfg) c = neofs_deploy_config cfg (neofs_setConfig k v c)"
| "neofs_deploy_config cfg c = c"

definition neofs_deploy :: "arg list \<Rightarrow> bool \<Rightarrow> neofs \<Rightarrow> neofs res" where
  "neofs_deploy args update c =
     (if update then andThen (last_version args) (\<lambda>version. andThen (CheckVersion version) (\<lambda>_. Inr c))
      else andThen (andThen (arg_at 2 args) arg_byte_arrays) (\<lambda>ks.
        if ks = [] then Inl (Panic ''at least one alphabet key must be provided'')
        else andThen (andThen (arg_at 1 args) arg_bytes) (\<lambda>addrProc.
        if length addrProc \<noteq> Hash160Len then Inl (Panic ''incorrect length of contract script hash'')
        else if \<not> list_all (\<lambda>k. length k = PublicKeyCompressedLen) ks then Inl (Panic ''incorrect public key length'')
        else andThen (andThen (arg_at 0 args) arg_bool) (\<lambda>notaryDisabled.
          let c1 = LocalPut processingContractKey (Raw addrProc) (SetSerialized alphabetKey (SKeys ks) c);
              c2 = put_bool notaryDisabledKey notaryDisabled c1;
              c3 = (if notaryDisabled then InitVote c2 else c2) in
          andThen (andThen (arg_at 3 args) arg_byte_arrays) (\<lambda>cfg.
          if odd (length cfg) then Inl (Panic ''bad configuration'')
          else Inr (neofs_deploy_config cfg c3))))))"

definition neofs_Update ::
  "env \<Rightarrow> (bytes \<Rightarrow> bytes \<Rightarrow> arg list \<Rightarrow> 'w \<Rightarrow> 'w res) \<Rightarrow> bytes \<Rightarrow> bytes \<Rightarrow> arg list option \<Rightarrow> 'w \<Rightarrow> 'w res" where
  "neofs_Update E management nefFile manifest data w =
     andThen (CheckOwnerWitness E (Multiaddress E (InnerRingNodes E) True)) (\<lambda>_.
     management nefFile manifest (AppendVersion data) w)"

end
