(* ===== verification/Voting.thy ===== *)
theory Voting
  imports Sample
begin

text \<open>
  What the voting of \<open>common/vote.go\<close> promises: a decision has a ballot with the distinct keys that voted
  for it, which lives for 20 blocks after its last new voter, \<open>Vote\<close> adds one key and returns how many there are, and
  \<open>RemoveVotes\<close> forgets exactly one decision.
\<close>

section \<open>The well-formed ballot box and its abstraction\<close>

definition ballots_ok :: "ballot list \<Rightarrow> bool" where
  "ballots_ok bs \<longleftrightarrow> distinct (map ID bs) \<and> (\<forall>b \<in> set bs. distinct (Voters b) \<and> Voters b \<noteq> [])"

definition live :: "int \<Rightarrow> ballot \<Rightarrow> bool" where
  "live h b \<longleftrightarrow> h - Height b \<le> blockDiff"

definition voters_of :: "int \<Rightarrow> bytes \<Rightarrow> ballot list \<Rightarrow> bytes set" where
  "voters_of h i bs = set (concat (map Voters (filter (\<lambda>b. ID b = i \<and> live h b) bs)))"

lemma voters_of_unique:
  assumes "distinct (map ID bs)" and "b \<in> set bs" and "ID b = i" and "live h b"
  shows "voters_of h i bs = set (Voters b)"
proof -
  have "b' = b" if "b' \<in> set bs" "ID b' = i" for b'
    using that assms inj_onD [of ID "set bs" b' b] by (simp add: distinct_map)
  then have "{b' \<in> set bs. ID b' = i \<and> live h b'} = {b}" using assms by blast
  then show ?thesis by (simp add: voters_of_def)
qed

lemma voters_of_absent: "i \<notin> ID ` set (filter (live h) bs) \<Longrightarrow> voters_of h i bs = {}"
  by (auto simp: voters_of_def)

lemma voters_of_live: "voters_of h i (filter (live h) bs) = voters_of h i bs"
  by (simp add: voters_of_def conj_commute)

lemma ballots_ok_filter: "ballots_ok bs \<Longrightarrow> ballots_ok (filter P bs)"
  by (auto simp: ballots_ok_def distinct_map_filter)

section \<open>The loop\<close>

lemma vote_loop_absent:
  "i \<notin> ID ` set (filter (live h) cands) \<Longrightarrow>
   vote_loop i frm h cands acc found = Inr (acc @ filter (live h) cands, found)"
  by (induction cands arbitrary: acc) (auto simp: live_def)

definition add_voter :: "bytes \<Rightarrow> bytes \<Rightarrow> int \<Rightarrow> ballot \<Rightarrow> ballot" where
  "add_voter i frm h b = (if ID b = i then \<lparr>ID = i, Voters = Voters b @ [frm], Height = h\<rparr> else b)"

lemma add_voter_other: "i \<notin> ID ` set bs \<Longrightarrow> map (add_voter i frm h) bs = bs"
  by (induction bs) (auto simp: add_voter_def)

lemma ID_add_voter [simp]: "ID (add_voter i frm h b) = ID b"
  by (simp add: add_voter_def)

lemma vote_loop_present:
  assumes "distinct (map ID cands)" and "b \<in> set cands" and "ID b = i" and "live h b"
  shows "vote_loop i frm h cands acc found =
    (if frm \<in> set (Voters b) then Inl (int (length (Voters b)))
     else Inr (acc @ map (add_voter i frm h) (filter (live h) cands), int (length (Voters b)) + 1))"
  using assms
proof (induction cands arbitrary: acc)
  case (Cons cnd cnds)
  show ?case
  proof (cases "ID cnd = i")
    case True
    with Cons.prems have b: "b = cnd" by (auto simp: image_iff)
    with True Cons.prems have "i \<notin> ID ` set (filter (live h) cnds)" by auto
    then show ?thesis using Cons.prems b
      by (simp add: live_def [of h cnd] add_voter_def vote_loop_absent add_voter_other
          Let_def split: if_splits)
  next
    case False
    with Cons.prems have "b \<in> set cnds" by auto
    then show ?thesis using Cons False by (auto simp: live_def add_voter_def)
  qed
qed simp

section \<open>Voting and forgetting\<close>

lemma getBallots_put [simp]: "getBallots (SetSerialized voteKey (SBallots bs) c) = Inr bs"
  by (simp add: getBallots_def)

lemma Vote_cases:
  assumes bs: "getBallots c = Inr bs" and ok: "ballots_ok bs"
  obtains (again) b where "b \<in> set bs" "ID b = i" "live (rt_height E) b" "frm \<in> set (Voters b)"
      "Vote E i frm c = Inr (int (length (Voters b)), c)"
  | (joined) b where "b \<in> set bs" "ID b = i" "live (rt_height E) b" "frm \<notin> set (Voters b)"
      "Vote E i frm c = Inr (int (length (Voters b)) + 1, SetSerialized voteKey
         (SBallots (map (add_voter i frm (rt_height E)) (filter (live (rt_height E)) bs))) c)"
  | (opened) "i \<notin> ID ` set (filter (live (rt_height E)) bs)"
      "Vote E i frm c = Inr (1, SetSerialized voteKey (SBallots (filter (live (rt_height E)) bs @
         [\<lparr>ID = i, Voters = [frm], Height = rt_height E\<rparr>])) c)"
proof (cases "i \<in> ID ` set (filter (live (rt_height E)) bs)")
  case True
  then obtain b where b: "b \<in> set bs" "ID b = i" "live (rt_height E) b" by auto
  then show ?thesis
    using ok bs again joined vote_loop_present [of bs b i "rt_height E" frm "[]" "- 1"]
    by (cases "frm \<in> set (Voters b)") (auto simp: ballots_ok_def Vote_def)
next
  case False
  then show ?thesis using bs opened by (simp add: Vote_def vote_loop_absent)
qed

lemma ballots_ok_add_voter:
  assumes "ballots_ok bs" and "\<And>b. b \<in> set bs \<Longrightarrow> ID b = i \<Longrightarrow> frm \<notin> set (Voters b)"
  shows "ballots_ok (map (add_voter i frm h) bs)"
proof -
  have "map ID (map (add_voter i frm h) bs) = map ID bs" by simp
  then have "distinct (map ID (map (add_voter i frm h) bs))"
    using assms(1) by (simp only: ballots_ok_def)
  moreover have "distinct (Voters b) \<and> Voters b \<noteq> []" if "b \<in> set (map (add_voter i frm h) bs)" for b
    using that assms by (auto simp: ballots_ok_def add_voter_def)
  ultimately show ?thesis by (simp only: ballots_ok_def) blast
qed

lemma voters_of_add_voter_other:
  "j \<noteq> i \<Longrightarrow> voters_of h j (map (add_voter i frm h) bs) = voters_of h j bs"
  by (induction bs) (auto simp: voters_of_def add_voter_def live_def)

lemma Vote_spec:
  assumes bs: "getBallots c = Inr bs" and ok: "ballots_ok bs"
  shows "\<exists>n c' bs'. Vote E i frm c = Inr (n, c') \<and> getBallots c' = Inr bs' \<and> ballots_ok bs' \<and>
     n = int (card (voters_of (rt_height E) i bs')) \<and>
     voters_of (rt_height E) i bs' = insert frm (voters_of (rt_height E) i bs) \<and>
     (\<forall>j. j \<noteq> i \<longrightarrow> voters_of (rt_height E) j bs' = voters_of (rt_height E) j bs)"
  using bs ok
proof (cases rule: Vote_cases [where E = E and i = i and frm = frm])
  case (again b)
  then have "voters_of (rt_height E) i bs = set (Voters b)" "distinct (Voters b)"
    using ok voters_of_unique [of bs b i "rt_height E"] by (simp_all add: ballots_ok_def)
  then show ?thesis using again bs ok
    by (intro exI [of _ "int (length (Voters b))"] exI [of _ c] exI [of _ bs])
      (simp add: distinct_card insert_absorb)
next
  case (joined b)
  let ?h = "rt_height E" and ?L = "filter (live (rt_height E)) bs"
  let ?b = "add_voter i frm ?h b" and ?bs = "map (add_voter i frm ?h) ?L"
  have only: "b' = b" if "b' \<in> set ?L" "ID b' = i" for b'
    using that joined ok inj_onD [of ID "set bs" b' b] by (simp add: ballots_ok_def distinct_map)
  have "frm \<notin> set (Voters b')" if "b' \<in> set ?L" "ID b' = i" for b'
    using only [OF that] joined by simp
  then have ok': "ballots_ok ?bs"
    by (rule ballots_ok_add_voter [OF ballots_ok_filter [OF ok]])
  moreover have "?b \<in> set ?bs" "ID ?b = i" "live ?h ?b"
    using joined by (auto simp: add_voter_def live_def blockDiff_def)
  ultimately have new: "voters_of ?h i ?bs = set (Voters b @ [frm])"
    using voters_of_unique [of ?bs ?b i ?h] joined by (simp add: ballots_ok_def add_voter_def)
  moreover have "voters_of ?h i bs = set (Voters b)"
    using joined ok voters_of_unique [of bs b i ?h] by (simp add: ballots_ok_def)
  moreover have "distinct (Voters b @ [frm])" using joined ok by (auto simp: ballots_ok_def)
  ultimately show ?thesis using joined ok'
    by (auto simp: voters_of_add_voter_other voters_of_live card_insert_if distinct_card)
next
  case opened
  let ?h = "rt_height E" and ?b = "\<lparr>ID = i, Voters = [frm], Height = rt_height E\<rparr>"
  let ?bs = "filter (live ?h) bs @ [?b]"
  have ok': "ballots_ok ?bs" using ok opened by (auto simp: ballots_ok_def distinct_map_filter)
  moreover have "live ?h ?b" by (simp add: live_def blockDiff_def)
  ultimately have "voters_of ?h i ?bs = {frm}"
    using voters_of_unique [of ?bs ?b i ?h] by (simp add: ballots_ok_def)
  moreover have "voters_of ?h i bs = {}" using opened by (intro voters_of_absent)
  moreover have "voters_of ?h j ?bs = voters_of ?h j bs" if "j \<noteq> i" for j
    using that voters_of_live [of ?h j bs] by (simp add: voters_of_def)
  ultimately show ?thesis using opened ok' by auto
qed

text \<open>A new voter renews the whole ballot; a repeated vote leaves everything as it is.\<close>

lemma Vote_renews:
  assumes bs: "getBallots c = Inr bs" and ok: "ballots_ok bs"
    and run: "Vote E i frm c = Inr (n, c')" "getBallots c' = Inr bs'" "ballots_ok bs'"
  shows "if frm \<in> voters_of (rt_height E) i bs then c' = c
    else \<forall>h. rt_height E \<le> h \<and> h \<le> rt_height E + blockDiff \<longrightarrow> voters_of h i bs' = voters_of (rt_height E) i bs'"
  using bs ok
proof (cases rule: Vote_cases [where E = E and i = i and frm = frm])
  case (again b)
  then have "frm \<in> voters_of (rt_height E) i bs" using ok voters_of_unique [of bs b i "rt_height E"] by (simp add: ballots_ok_def)
  then show ?thesis using again run by simp
next
  case (joined b)
  let ?b = "add_voter i frm (rt_height E) b"
  have new: "frm \<notin> voters_of (rt_height E) i bs" using joined ok voters_of_unique [of bs b i "rt_height E"] by (simp add: ballots_ok_def)
  have b: "?b \<in> set bs'" "ID ?b = i" using joined run by auto
  have "voters_of h i bs' = set (Voters ?b)" if "rt_height E \<le> h" "h \<le> rt_height E + blockDiff" for h
    using that b run(3) joined by (intro voters_of_unique) (auto simp: ballots_ok_def live_def add_voter_def)
  then show ?thesis using new by (simp add: blockDiff_def)
next
  case opened
  let ?b = "\<lparr>ID = i, Voters = [frm], Height = rt_height E\<rparr>"
  have new: "frm \<notin> voters_of (rt_height E) i bs" using opened(1) by (simp add: voters_of_absent)
  have b: "?b \<in> set bs'" using opened run by auto
  have "voters_of h i bs' = set (Voters ?b)" if "rt_height E \<le> h" "h \<le> rt_height E + blockDiff" for h
    using that b run(3) by (intro voters_of_unique) (auto simp: ballots_ok_def live_def)
  then show ?thesis using new by (simp add: blockDiff_def)
qed

lemma ballot_index_Some:
  "distinct (map ID bs) \<Longrightarrow> ballot_index i bs = Some j \<Longrightarrow>
   j < length bs \<and> take j bs @ drop (Suc j) bs = filter (\<lambda>b. ID b \<noteq> i) bs"
proof (induction bs arbitrary: j)
  case (Cons b bs)
  show ?case
  proof (cases "ID b = i")
    case True
    then have "filter (\<lambda>b. ID b \<noteq> i) bs = bs"
      using Cons.prems by (auto simp: filter_id_conv image_iff)
    then show ?thesis using Cons.prems True by auto
  next
    case False
    then obtain k where "j = Suc k" "ballot_index i bs = Some k"
      using Cons.prems by auto
    then show ?thesis using Cons False by auto
  qed
qed simp

lemma ballot_index_None: "ballot_index i bs = None \<longleftrightarrow> i \<notin> ID ` set bs"
  by (induction bs) auto

lemma RemoveVotes_spec:
  assumes "getBallots c = Inr bs" and "ballots_ok bs" and "i \<in> ID ` set bs"
  shows "RemoveVotes i c = Inr (SetSerialized voteKey (SBallots (filter (\<lambda>b. ID b \<noteq> i) bs)) c)"
proof -
  obtain j where j: "ballot_index i bs = Some j"
    using assms(3) ballot_index_None [of i bs] by (cases "ballot_index i bs") auto
  then show ?thesis
    using assms ballot_index_Some [of bs i j] by (simp add: RemoveVotes_def ballots_ok_def Let_def)
qed

text \<open>A decision that has just been voted for has a ballot, so accepting it forgets it and it alone.\<close>

lemma Vote_then_RemoveVotes:
  assumes "getBallots c = Inr bs" and "ballots_ok bs" and "Vote E i frm c = Inr (n, c')"
  shows "\<exists>bs' c''. getBallots c' = Inr bs' \<and> RemoveVotes i c' = Inr c'' \<and>
     getBallots c'' = Inr (filter (\<lambda>b. ID b \<noteq> i) bs') \<and>
     ballots_ok (filter (\<lambda>b. ID b \<noteq> i) bs')"
proof -
  obtain bs' where bs': "getBallots c' = Inr bs'" "ballots_ok bs'"
      "voters_of (rt_height E) i bs' = insert frm (voters_of (rt_height E) i bs)"
    using Vote_spec [OF assms(1,2), of E i frm] assms(3) by auto
  then have "i \<in> ID ` set bs'" by (auto simp: voters_of_def)
  then show ?thesis using bs' RemoveVotes_spec [of c' bs' i] by (auto intro: ballots_ok_filter)
qed

lemma storage_frame_SetSerialized: "k \<noteq> voteKey \<Longrightarrow> LocalGet k (SetSerialized voteKey x c) = LocalGet k c"
  by simp

lemma Vote_frame:
  assumes "Vote E i frm c = Inr (n, c')"
  shows "k \<noteq> voteKey \<Longrightarrow> LocalGet k c' = LocalGet k c" and "notifications c' = notifications c"
  using assms by (cases "getBallots c"; auto simp: Vote_def split: sum.split_asm if_split_asm)+

lemma RemoveVotes_frame:
  assumes "RemoveVotes i c = Inr c'"
  shows "k \<noteq> voteKey \<Longrightarrow> LocalGet k c' = LocalGet k c" and "notifications c' = notifications c"
  using assms by (cases "getBallots c"; auto simp: RemoveVotes_def Let_def split: if_split_asm)+

section \<open>The properties\<close>

text \<open>C26: a vote of the main chain's Alphabet counts distinct keys. \<open>voters_of h i\<close> are the voters on
  the ballot of the decision \<open>i\<close> if its last new voter came no more than 20 blocks before \<open>h\<close>; the votes
  before that one may be older. \<open>Vote\<close> always returns on a well-formed ballot box, keeps it well formed and
  returns the number of distinct keys on that ballot with this vote included; no other decision gains or
  loses a voter. A key that is on the ballot already changes nothing, it does not even prolong its life; a new
  key keeps all of them counted for another 20 blocks.\<close>

theorem Vote_counts_distinct_voters:
  assumes "getBallots c = Inr bs" and "ballots_ok bs"
  shows "\<exists>n c' bs'. Vote E i frm c = Inr (n, c') \<and> getBallots c' = Inr bs' \<and> ballots_ok bs' \<and>
     n = int (card (voters_of (rt_height E) i bs')) \<and>
     voters_of (rt_height E) i bs' = insert frm (voters_of (rt_height E) i bs) \<and>
     (\<forall>j. j \<noteq> i \<longrightarrow> voters_of (rt_height E) j bs' = voters_of (rt_height E) j bs) \<and>
     (if frm \<in> voters_of (rt_height E) i bs then c' = c
      else \<forall>h. rt_height E \<le> h \<and> h \<le> rt_height E + blockDiff \<longrightarrow> voters_of h i bs' = voters_of (rt_height E) i bs')"
  using Vote_spec [OF assms, of E i frm] Vote_renews [OF assms, of E i frm] by blast

definition voted_once :: "ballot list" where
  "voted_once = [\<lparr>ID = ''d'', Voters = [keyA], Height = 90\<rparr>, \<lparr>ID = ''old'', Voters = [keyA], Height = 10\<rparr>]"

definition voted_box :: "(main_ser, unit) contract" where
  "voted_box = SetSerialized voteKey (SBallots voted_once) new_contract"

lemma voted_once_ok: "getBallots voted_box = Inr voted_once" "ballots_ok voted_once"
  by (simp_all add: voted_box_def ballots_ok_def voted_once_def)

theorem Vote_counts_distinct_voters_witness: "\<exists>c'. Vote sample_env ''d'' keyB voted_box = Inr (2, c')"
proof -
  have "voters_of (rt_height sample_env) ''d'' voted_once = {keyA}"
    by (simp add: voters_of_def voted_once_def live_def blockDiff_def)
  then show ?thesis
    using Vote_counts_distinct_voters [OF voted_once_ok, of sample_env "''d''" keyB] by auto
qed

text \<open>Forgetting a decision right after a vote for it, as the main chain contract does once the
  threshold is reached, removes the ballot of that decision and no other, and touches nothing but the
  ballots.\<close>

theorem RemoveVotes_after_Vote:
  assumes "getBallots c = Inr bs" and "ballots_ok bs" and "Vote E i frm c = Inr (n, c')"
  shows "\<exists>bs' c''. getBallots c' = Inr bs' \<and> RemoveVotes i c' = Inr c'' \<and>
     getBallots c'' = Inr (filter (\<lambda>b. ID b \<noteq> i) bs') \<and> ballots_ok (filter (\<lambda>b. ID b \<noteq> i) bs') \<and>
     voters_of h i (filter (\<lambda>b. ID b \<noteq> i) bs') = {} \<and>
     (\<forall>k. k \<noteq> voteKey \<longrightarrow> LocalGet k c'' = LocalGet k c)"
proof -
  obtain bs' c'' where r: "getBallots c' = Inr bs'" "RemoveVotes i c' = Inr c''"
      "getBallots c'' = Inr (filter (\<lambda>b. ID b \<noteq> i) bs')" "ballots_ok (filter (\<lambda>b. ID b \<noteq> i) bs')"
    using Vote_then_RemoveVotes [OF assms] by auto
  have "LocalGet k c'' = LocalGet k c" if "k \<noteq> voteKey" for k
    using RemoveVotes_frame(1) [OF r(2) that] Vote_frame(1) [OF assms(3) that] by simp
  moreover have "voters_of h i (filter (\<lambda>b. ID b \<noteq> i) bs') = {}" by (auto simp: voters_of_def)
  ultimately show ?thesis using r by blast
qed

theorem RemoveVotes_after_Vote_witness:
  "\<exists>c' bs' c''. Vote sample_env ''d'' keyB voted_box = Inr (2, c') \<and> RemoveVotes ''d'' c' = Inr c'' \<and>
     getBallots c'' = Inr bs' \<and> voters_of 100 ''d'' bs' = {}"
proof -
  have "\<exists>c'. Vote sample_env ''d'' keyB voted_box = Inr (2, c')"
    by (simp add: Vote_def voted_once_ok) (simp add: voted_once_def blockDiff_def Let_def)
  then show ?thesis using RemoveVotes_after_Vote [OF voted_once_ok, of sample_env "''d''" keyB 2] by blast
qed

end
