(* ===== verification/NeoFS_Properties.thy ===== *)
theory NeoFS_Properties
  imports NeoFS_Contract Voting
begin

text \<open>
  The main chain contract on a chain without notary service, where every decision of the Alphabet is
  collected vote by vote: fewer keys than the threshold decide nothing, whatever happens in between,
  and enough of them within the life of a ballot decide; \<open>SetConfig\<close> counts calls of strangers.
\<close>

section \<open>Everything that can happen\<close>

definition voting_key :: "env \<Rightarrow> neofs \<Rightarrow> bytes res" where
  "voting_key E c = andThen (getAlphabetNodes c) (InnerRingInvoker E)"

text \<open>
  \<open>neofs_reach votes w w'\<close>: the states \<open>w\<close> and \<open>w'\<close> of this contract and of the others are
  connected by operations in which the key that votes for a decision \<open>i\<close> is one of \<open>votes i\<close>
  (the empty key is a caller without any witness of the Alphabet). A transfer of GAS calls the
  receiver, which may do to this contract whatever the relation allows.
\<close>

inductive neofs_reach :: "(bytes \<Rightarrow> bytes \<Rightarrow> bool) \<Rightarrow> neofs \<times> 'o \<Rightarrow> neofs \<times> 'o \<Rightarrow> bool" for votes where
  same: "neofs_reach votes w w"
| step: "neofs_reach votes u v \<Longrightarrow> neofs_reach votes v w \<Longrightarrow> neofs_reach votes u w"
| others: "neofs_reach votes (c, x) (c, y)"
| new_transaction: "neofs_reach votes (c, x) (c\<lparr>notifications := []\<rparr>, x)"
| payment: "neofs_OnNEP17Payment E frm amount data c = Inr c' \<Longrightarrow> neofs_reach votes (c, x) (c', x)"
| upgrade: "neofs_deploy args True c = Inr c' \<Longrightarrow> neofs_reach votes (c, x) (c', x)"
| withdraw: "neofs_Withdraw E G user amount w = Inr w' \<Longrightarrow>
    (\<And>frm to n d u ok v. G frm to n d u = Inr (ok, v) \<Longrightarrow> neofs_reach votes u v) \<Longrightarrow> neofs_reach votes w w'"
| cheque: "neofs_Cheque E G i user amount lockAcc w = Inr w' \<Longrightarrow>
    (\<And>k. voting_key E (fst w) = Inr k \<Longrightarrow> votes i k) \<Longrightarrow>
    (\<And>frm to n d u ok v. G frm to n d u = Inr (ok, v) \<Longrightarrow> neofs_reach votes u v) \<Longrightarrow> neofs_reach votes w w'"
| alphabet: "neofs_AlphabetUpdate E i ks c = Inr c' \<Longrightarrow>
    (\<And>k. voting_key E c = Inr k \<Longrightarrow> votes i k) \<Longrightarrow> neofs_reach votes (c, x) (c', x)"
| set_config: "neofs_SetConfig E i key val c = Inr c' \<Longrightarrow>
    (\<And>k. voting_key E c = Inr k \<Longrightarrow> votes i k) \<Longrightarrow> neofs_reach votes (c, x) (c', x)"

section \<open>Every vote in a ballot was cast\<close>

definition box_ok :: "(bytes \<Rightarrow> bytes \<Rightarrow> bool) \<Rightarrow> neofs \<Rightarrow> bool" where
  "box_ok votes c \<longleftrightarrow> (\<exists>bs. getBallots c = Inr bs \<and> ballots_ok bs \<and>
     (\<forall>b\<in>set bs. \<forall>k\<in>set (Voters b). votes (ID b) k))"

lemma box_ok_frame: "LocalGet voteKey d = LocalGet voteKey c \<Longrightarrow> box_ok votes d = box_ok votes c"
  by (simp add: box_ok_def getBallots_def)

lemma box_ok_Notify [simp]: "box_ok votes (Notify e c) = box_ok votes c"
  by (rule box_ok_frame) simp

lemma box_ok_setConfig [simp]: "box_ok votes (neofs_setConfig key val c) = box_ok votes c"
  by (rule box_ok_frame) (simp add: neofs_setConfig_def voteKey_def)

lemma main_keys_distinct [simp]:
  "voteKey \<noteq> alphabetKey" "alphabetKey \<noteq> voteKey" "voteKey \<noteq> ''config'' @ k" "''config'' @ k \<noteq> voteKey"
  "notaryDisabledKey \<noteq> voteKey" "notaryDisabledKey \<noteq> alphabetKey" "alphabetKey \<noteq> ''config'' @ k"
  by (simp_all add: voteKey_def alphabetKey_def notaryDisabledKey_def)

lemma Vote_signed:
  assumes "box_ok votes c" and "votes i k" and "Vote E i k c = Inr (n, c')"
  shows "box_ok votes c'"
proof -
  obtain bs where bs: "getBallots c = Inr bs" "ballots_ok bs" "\<forall>b\<in>set bs. \<forall>v\<in>set (Voters b). votes (ID b) v"
    using assms(1) by (auto simp: box_ok_def)
  obtain bs' where bs': "getBallots c' = Inr bs'" "ballots_ok bs'"
    using Vote_spec [OF bs(1,2), of E i k] assms(3) by auto
  have "\<forall>b\<in>set bs'. \<forall>v\<in>set (Voters b). votes (ID b) v"
    using bs(1,2)
  proof (cases rule: Vote_cases [where E = E and i = i and frm = k])
    case (again b)
    then show ?thesis using bs bs'(1) assms(3) by simp
  next
    case (joined b)
    then have "bs' = map (add_voter i k (rt_height E)) (filter (live (rt_height E)) bs)"
      using bs'(1) assms(3) by auto
    then show ?thesis using bs(3) assms(2) by (auto simp: add_voter_def)
  next
    case opened
    then have "bs' = filter (live (rt_height E)) bs @ [\<lparr>ID = i, Voters = [k], Height = rt_height E\<rparr>]"
      using bs'(1) assms(3) by auto
    then show ?thesis using bs(3) assms(2) by auto
  qed
  then show ?thesis using bs' by (auto simp: box_ok_def)
qed

lemma RemoveVotes_signed:
  assumes "box_ok votes c" and "Vote E i k c = Inr (n, c1)" and "votes i k" and "RemoveVotes i c1 = Inr c2"
  shows "box_ok votes c2"
proof -
  obtain bs where bs: "getBallots c = Inr bs" "ballots_ok bs" using assms(1) by (auto simp: box_ok_def)
  obtain bs1 where bs1: "getBallots c1 = Inr bs1" "getBallots c2 = Inr (filter (\<lambda>b. ID b \<noteq> i) bs1)"
      "ballots_ok (filter (\<lambda>b. ID b \<noteq> i) bs1)"
    using Vote_then_RemoveVotes [OF bs assms(2)] assms(4) by auto
  moreover have "box_ok votes c1" using Vote_signed assms by blast
  ultimately show ?thesis by (auto simp: box_ok_def)
qed

text \<open>A decision is made only by as many keys as the threshold asks for.\<close>

lemma Vote_bounded:
  assumes "box_ok votes c" and "votes i k" and "Vote E i k c = Inr (n, c')" and "finite {k. votes i k}"
  shows "n \<le> int (card {k. votes i k})"
proof -
  obtain bs where bs: "getBallots c = Inr bs" "ballots_ok bs" using assms(1) by (auto simp: box_ok_def)
  obtain bs' where bs': "getBallots c' = Inr bs'" "n = int (card (voters_of (rt_height E) i bs'))"
    using Vote_spec [OF bs, of E i k] assms(3) by auto
  have "voters_of (rt_height E) i bs' \<subseteq> {k. votes i k}"
    using Vote_signed [OF assms(1-3)] bs'(1) by (auto simp: box_ok_def voters_of_def)
  then show ?thesis using bs'(2) assms(4) by (simp add: card_mono)
qed

text \<open>What changes in a state when nothing but ballots changes.\<close>

definition only_ballots :: "neofs \<Rightarrow> neofs \<Rightarrow> bool" where
  "only_ballots c d \<longleftrightarrow> notifications d = notifications c \<and> (\<forall>k. k \<noteq> voteKey \<longrightarrow> LocalGet k d = LocalGet k c)"

lemma collect_vote_frame: "collect_vote E i invoker c = Inr (made, c') \<Longrightarrow> only_ballots c c'"
  by (cases invoker) (auto simp: collect_vote_def only_ballots_def Vote_frame RemoveVotes_frame split: if_splits)

lemma collect_vote_signed:
  assumes "collect_vote E i invoker c = Inr (made, c')" and "box_ok votes c"
    and "\<And>a k. invoker = Some (a, k) \<Longrightarrow> votes i k"
  shows "box_ok votes c'"
proof (cases invoker)
  case (Some p)
  obtain a k where p: "p = (a, k)" by (cases p)
  have k: "votes i k" using assms(3) Some p by simp
  obtain n c1 where v: "Vote E i k c = Inr (n, c1)" "c' = c1 \<or> RemoveVotes i c1 = Inr c'"
    using assms(1) by (auto simp: collect_vote_def Some p split: if_splits)
  show ?thesis using v(2) Vote_signed [OF assms(2) k v(1)] RemoveVotes_signed [OF assms(2) v(1) k] by auto
qed (use assms in \<open>simp add: collect_vote_def\<close>)

lemma collect_vote_minority:
  assumes "collect_vote E i (Some (a, k)) c = Inr (made, c')" and "box_ok votes c" and "votes i k"
    and "finite {k. votes i k}" and "int (card {k. votes i k}) < vote_threshold a"
  shows "\<not> made"
proof
  assume made
  then obtain n c1 where "Vote E i k c = Inr (n, c1)" "vote_threshold a \<le> n"
    using assms(1) by (auto simp: collect_vote_def split: if_splits)
  then show False using Vote_bounded [of votes c i k E n c1] assms by simp
qed

lemma check_invoker_key: "check_invoker E c = Inr (Some (a, k)) \<Longrightarrow> voting_key E c = Inr k \<and> getAlphabetNodes c = Inr a"
  by (auto simp: check_invoker_def voting_key_def split: if_splits)

text \<open>The operations, read backwards.\<close>

lemma Cheque_result:
  assumes "neofs_Cheque E G i user amount lockAcc (c, x) = Inr (c', x')"
  obtains invoker made c1 where "check_invoker E c = Inr invoker" "collect_vote E i invoker c = Inr (made, c1)"
    "\<not> made \<Longrightarrow> c' = c1 \<and> x' = x"
    "made \<Longrightarrow> \<exists>c2. G (rt_self E) user amount ANull (c1, x) = Inr (True, c2, x') \<and> c' = Notify (MainCheque i user amount lockAcc) c2"
  using assms by (fastforce simp: neofs_Cheque_def split: if_splits)

lemma AlphabetUpdate_result:
  assumes "neofs_AlphabetUpdate E i ks c = Inr c'"
  obtains invoker made c1 where "check_invoker E c = Inr invoker" "collect_vote E i invoker c = Inr (made, c1)"
    "c' = (if made then Notify (MainAlphabetUpdate i ks) (SetSerialized alphabetKey (SKeys ks) c1) else c1)"
  using assms by (auto simp: neofs_AlphabetUpdate_def split: if_splits)

definition config_invoker :: "env \<Rightarrow> bytes \<Rightarrow> neofs \<Rightarrow> (bytes list \<times> bytes) option res" where
  "config_invoker E key c = andThen (to_bool (LocalGet notaryDisabledKey c)) (\<lambda>notaryDisabled.
     if notaryDisabled
     then andThen (getAlphabetNodes c) (\<lambda>alphabet. andThen (InnerRingInvoker E alphabet) (\<lambda>nodeKey.
       if length key = 0 then Inl (Panic ''this method must be invoked by alphabet'')
       else Inr (Some (alphabet, nodeKey))))
     else andThen (CheckAlphabetWitness E) (\<lambda>_. Inr None))"

lemma config_invoker_key:
  "config_invoker E key c = Inr (Some (a, k)) \<Longrightarrow> voting_key E c = Inr k \<and> getAlphabetNodes c = Inr a"
  "config_invoker E key c = Inr invoker \<Longrightarrow> to_bool (LocalGet notaryDisabledKey c) = Inr True \<Longrightarrow> invoker \<noteq> None"
  by (auto simp: config_invoker_def voting_key_def split: if_splits)

lemma SetConfig_result:
  assumes "neofs_SetConfig E i key val c = Inr c'"
  obtains invoker made c1 where "config_invoker E key c = Inr invoker" "collect_vote E i invoker c = Inr (made, c1)"
    "c' = (if made then Notify (MainSetConfig i key val) (neofs_setConfig key val c1) else c1)"
proof -
  have eq: "neofs_SetConfig E i key val c = andThen (config_invoker E key c) (\<lambda>invoker.
     andThen (collect_vote E i invoker c) (\<lambda>(made, c1).
     if \<not> made then Inr c1
     else Inr (Notify (MainSetConfig i key val) (neofs_setConfig key val c1))))"
    by (cases "to_bool (LocalGet notaryDisabledKey c)") (simp_all add: neofs_SetConfig_def config_invoker_def)
  obtain invoker made c1 where "config_invoker E key c = Inr invoker" "collect_vote E i invoker c = Inr (made, c1)"
    "c' = (if made then Notify (MainSetConfig i key val) (neofs_setConfig key val c1) else c1)"
    using assms unfolding eq by (auto split: if_splits)
  then show ?thesis by (rule that)
qed

lemma pay_withdraw_fee_keeps:
  assumes "pay_withdraw_fee G user fee to w = Inr w'" and "P w"
    and "\<And>frm to n d u ok v. G frm to n d u = Inr (ok, v) \<Longrightarrow> P u \<Longrightarrow> P v"
  shows "P w'"
proof -
  obtain f where "G user to f (ABytes []) w = Inr (True, w')"
    using assms(1) by (auto simp: pay_withdraw_fee_def split: option.splits if_splits)
  then show ?thesis using assms(2,3) by blast
qed

lemma Withdraw_keeps:
  assumes "neofs_Withdraw E G user amount w = Inr w'" and "box_ok votes (fst w)"
    and G: "\<And>frm to n d u ok v. G frm to n d u = Inr (ok, v) \<Longrightarrow> box_ok votes (fst u) \<Longrightarrow> box_ok votes (fst v)"
  shows "box_ok votes (fst w')"
proof -
  let ?P = "\<lambda>w. box_ok votes (fst w)"
  obtain c x where w: "w = (c, x)" by (cases w)
  let ?pay = "\<lambda>fee node w. andThen (CreateStandardAccount E node) (\<lambda>to. pay_withdraw_fee G user fee to w)"
  have node: "?P v" if "?pay fee k u = Inr v" "?P u" for fee k u v
    using that by (auto elim!: pay_withdraw_fee_keeps intro: G)
  have loop: "?P v" if "foldR (?pay fee) ks w = Inr v" for ks fee v
    using that assms(2) by (rule foldR_invariant) (rule node)
  have one: "?P v" if "pay_withdraw_fee G user fee to w = Inr v" for to fee v
    using that assms(2) by (rule pay_withdraw_fee_keeps) (rule G)
  have "\<exists>c1 x1. w' = (Notify (MainWithdraw user (amount * 100000000) (rt_tx_hash E)) c1, x1) \<and>
      ((\<exists>fee ks. foldR (?pay fee) ks w = Inr (c1, x1)) \<or>
       (\<exists>fee to. pay_withdraw_fee G user fee to w = Inr (c1, x1)))"
    using assms(1) by (auto simp: w neofs_Withdraw_def Let_def split: if_split_asm option.split_asm) blast+
  then obtain c1 x1 where "w' = (Notify (MainWithdraw user (amount * 100000000) (rt_tx_hash E)) c1, x1)" "?P (c1, x1)"
    using loop one by blast
  then show ?thesis by simp
qed

lemma box_ok_reach: "neofs_reach votes w w' \<Longrightarrow> box_ok votes (fst w) \<Longrightarrow> box_ok votes (fst w')"
proof (induction rule: neofs_reach.induct)
  case (withdraw E G user amount w w')
  show ?case by (rule Withdraw_keeps [OF withdraw.hyps(1) withdraw.prems]) (rule withdraw.IH)
next
  case (cheque E G i user amount lockAcc w w')
  obtain c x c' x' where w: "w = (c, x)" "w' = (c', x')" by (cases w, cases w')
  from cheque.hyps(1) [unfolded w] obtain invoker made c1 where r: "check_invoker E c = Inr invoker"
    "collect_vote E i invoker c = Inr (made, c1)" "\<not> made \<Longrightarrow> c' = c1 \<and> x' = x"
    "made \<Longrightarrow> \<exists>c2. G (rt_self E) user amount ANull (c1, x) = Inr (True, c2, x') \<and>
       c' = Notify (MainCheque i user amount lockAcc) c2" by (rule Cheque_result) blast
  have c1: "box_ok votes c1"
    using collect_vote_signed [OF r(2)] check_invoker_key [of E c] r(1) cheque.hyps(2) cheque.prems w by auto
  show ?case
  proof (cases made)
    case True
    then obtain c2 where "G (rt_self E) user amount ANull (c1, x) = Inr (True, c2, x')"
      and c': "c' = Notify (MainCheque i user amount lockAcc) c2" using r(4) by blast
    then have "box_ok votes c2" using cheque.IH c1 by fastforce
    then show ?thesis by (simp add: w c')
  qed (use r(3) c1 w in simp)
next
  case (alphabet E i ks c c' x)
  from alphabet.hyps(1) obtain invoker made c1 where r: "check_invoker E c = Inr invoker" "collect_vote E i invoker c = Inr (made, c1)"
    "c' = (if made then Notify (MainAlphabetUpdate i ks) (SetSerialized alphabetKey (SKeys ks) c1) else c1)"
    by (rule AlphabetUpdate_result)
  then have "box_ok votes c1"
    using collect_vote_signed [OF r(2)] check_invoker_key [of E c] alphabet by auto
  then show ?case using box_ok_frame [of c' c1] r(3) by (simp split: if_splits)
next
  case (set_config E i key val c c' x)
  from set_config.hyps(1) obtain invoker made c1 where r: "config_invoker E key c = Inr invoker"
    "collect_vote E i invoker c = Inr (made, c1)"
    "c' = (if made then Notify (MainSetConfig i key val) (neofs_setConfig key val c1) else c1)"
    by (rule SetConfig_result)
  then have "box_ok votes c1"
    using collect_vote_signed [OF r(2)] config_invoker_key(1) [of E key c] set_config by auto
  then show ?case using r(3) by (simp split: if_splits)
next
  case (payment E frm amount data c c' x)
  then show ?case
    by (auto simp: neofs_OnNEP17Payment_def split: if_splits)
next
  case (upgrade args c c' x)
  then show ?case by (auto simp: neofs_deploy_def)
next
  case (new_transaction c x)
  then show ?case using box_ok_frame [of "c\<lparr>notifications := []\<rparr>" c] by (simp add: LocalGet_def)
qed auto

section \<open>Votes that add up\<close>

text \<open>The voters so far of a decision, whose ballot is as old as its last vote.\<close>

definition tally :: "bytes \<Rightarrow> int \<Rightarrow> bytes set \<Rightarrow> neofs \<Rightarrow> bool" where
  "tally i h ks c \<longleftrightarrow> (\<exists>bs. getBallots c = Inr bs \<and> ballots_ok bs \<and> voters_of h i bs = ks \<and>
     (\<forall>b\<in>set bs. ID b = i \<and> live h b \<longrightarrow> Height b = h))"

lemma live_later: "h \<le> h' \<Longrightarrow> live h' b \<Longrightarrow> live h b"
  by (simp add: live_def)

lemma tally_later:
  assumes "tally i h ks c" and "h \<le> h'" and "h' \<le> h + blockDiff"
  shows "\<exists>bs. getBallots c = Inr bs \<and> ballots_ok bs \<and> voters_of h' i bs = ks"
proof -
  obtain bs where bs: "getBallots c = Inr bs" "ballots_ok bs" "voters_of h i bs = ks"
    "\<forall>b\<in>set bs. ID b = i \<and> live h b \<longrightarrow> Height b = h" using assms(1) by (auto simp: tally_def)
  have "live h' b \<longleftrightarrow> live h b" if "b \<in> set bs" "ID b = i" for b
    using that bs(4) live_later [OF assms(2)] assms(3) by (auto simp: live_def)
  then have "filter (\<lambda>b. ID b = i \<and> live h' b) bs = filter (\<lambda>b. ID b = i \<and> live h b) bs"
    by (intro filter_cong) auto
  then have "voters_of h' i bs = voters_of h i bs" by (simp only: voters_of_def)
  then show ?thesis using bs(1-3) by simp
qed

lemma Vote_tally:
  assumes bs: "getBallots c = Inr bs" "ballots_ok bs" and new: "k \<notin> voters_of (rt_height E) i bs"
  shows "\<exists>c'. Vote E i k c = Inr (int (card (voters_of (rt_height E) i bs)) + 1, c') \<and>
    tally i (rt_height E) (insert k (voters_of (rt_height E) i bs)) c'"
proof -
  let ?h = "rt_height E"
  obtain n c' bs' where v: "Vote E i k c = Inr (n, c')" "getBallots c' = Inr bs'" "ballots_ok bs'"
    "n = int (card (voters_of ?h i bs'))" "voters_of ?h i bs' = insert k (voters_of ?h i bs)"
    using Vote_spec [OF bs, of E i k] by auto
  have "\<forall>b\<in>set bs'. ID b = i \<and> live ?h b \<longrightarrow> Height b = ?h"
    using bs
  proof (cases rule: Vote_cases [where E = E and i = i and frm = k])
    case (again b)
    then show ?thesis using new by (auto simp: voters_of_def)
  next
    case (joined b)
    then have "bs' = map (add_voter i k ?h) (filter (live ?h) bs)" using v(1,2) by auto
    moreover have "Height (add_voter i k ?h b') = ?h" if "ID b' = i" for b' using that by (simp add: add_voter_def)
    ultimately show ?thesis by (simp only: set_map ball_simps) (metis ID_add_voter imageE)
  next
    case opened
    then have "bs' = filter (live ?h) bs @ [\<lparr>ID = i, Voters = [k], Height = ?h\<rparr>]" using v(1,2) by auto
    then show ?thesis using opened(1) by auto
  qed
  moreover have "finite (voters_of ?h i bs)" by (simp add: voters_of_def)
  ultimately show ?thesis using v new by (auto simp: tally_def)
qed

lemma check_invoker_vote:
  assumes "to_bool (LocalGet notaryDisabledKey c) = Inr True" and "getAlphabetNodes c = Inr a"
    and "InnerRingInvoker E a = Inr k" and "k \<noteq> []"
  shows "check_invoker E c = Inr (Some (a, k))"
  using assms by (simp add: check_invoker_def)

lemma only_ballots_settings:
  assumes "only_ballots c d"
  shows "LocalGet notaryDisabledKey d = LocalGet notaryDisabledKey c" "getAlphabetNodes d = getAlphabetNodes c"
  using assms by (simp_all add: only_ballots_def getAlphabetNodes_def)

text \<open>The calls of one decision, each by another key of the Alphabet and soon enough after the one before.\<close>

fun timely :: "int \<Rightarrow> env list \<Rightarrow> bool" where
  "timely h [] \<longleftrightarrow> True"
| "timely h (E # Es) \<longleftrightarrow> h \<le> rt_height E \<and> rt_height E \<le> h + blockDiff \<and> timely (rt_height E) Es"

fun callers :: "bytes list \<Rightarrow> env list \<Rightarrow> bytes list res" where
  "callers a [] = Inr []"
| "callers a (E # Es) = andThen (InnerRingInvoker E a) (\<lambda>k. andThen (callers a Es) (\<lambda>ks. Inr (k # ks)))"

text \<open>All calls but the last only collect votes.\<close>

lemma AlphabetUpdate_collects:
  assumes "tally i h K c" and "finite K" and "timely h Es" and "callers a Es = Inr ks" and "distinct ks"
    and "set ks \<inter> K = {}" and "[] \<notin> set ks"
    and "to_bool (LocalGet notaryDisabledKey c) = Inr True" and "getAlphabetNodes c = Inr a"
    and "args \<noteq> []" and "list_all (\<lambda>k. length k = PublicKeyCompressedLen) args"
    and "int (card K + length ks) = vote_threshold a" and "ks \<noteq> []"
  shows "\<exists>d. foldR (\<lambda>E. neofs_AlphabetUpdate E i args) Es c =
      Inr (Notify (MainAlphabetUpdate i args) (SetSerialized alphabetKey (SKeys args) d)) \<and> only_ballots c d"
  using assms
proof (induction Es arbitrary: h K c ks)
  case (Cons E Es)
  obtain k ks' where k: "InnerRingInvoker E a = Inr k" "callers a Es = Inr ks'" "ks = k # ks'"
    using Cons.prems(4) by auto
  have fresh: "k \<notin> K" "k \<noteq> []" using Cons.prems(6,7) k(3) by auto
  obtain bs where bs: "getBallots c = Inr bs" "ballots_ok bs" "voters_of (rt_height E) i bs = K"
    using tally_later [OF Cons.prems(1)] Cons.prems(3) by auto
  obtain c1 where v: "Vote E i k c = Inr (int (card K) + 1, c1)" "tally i (rt_height E) (insert k K) c1"
    using Vote_tally [OF bs(1,2), of k E i] fresh bs(3) by auto
  have inv: "check_invoker E c = Inr (Some (a, k))"
    using check_invoker_vote [OF Cons.prems(8,9) k(1) fresh(2)] .
  show ?case
  proof (cases "ks' = []")
    case True
    then have Es: "Es = []" using k(2) by (cases Es) auto
    obtain c2 where c2: "RemoveVotes i c1 = Inr c2" using Vote_then_RemoveVotes [OF bs(1,2) v(1)] by auto
    have "collect_vote E i (Some (a, k)) c = Inr (True, c2)"
      using v(1) c2 Cons.prems(12) k(3) True by (simp add: collect_vote_def)
    then show ?thesis using collect_vote_frame Es inv Cons.prems(8,10,11)
      by (auto simp: neofs_AlphabetUpdate_def)
  next
    case False
    then obtain y ys where "ks' = y # ys" by (cases ks') auto
    then have "int (card K) + 1 < vote_threshold a" using Cons.prems(12) k(3) by simp
    then have made: "collect_vote E i (Some (a, k)) c = Inr (False, c1)" using v(1) by (simp add: collect_vote_def)
    then have frame: "only_ballots c c1" by (rule collect_vote_frame)
    have "neofs_AlphabetUpdate E i args c = Inr c1"
      using made inv Cons.prems(8,10,11) by (simp add: neofs_AlphabetUpdate_def)
    moreover have "\<exists>d. foldR (\<lambda>E. neofs_AlphabetUpdate E i args) Es c1 =
      Inr (Notify (MainAlphabetUpdate i args) (SetSerialized alphabetKey (SKeys args) d)) \<and> only_ballots c1 d"
      using Cons.prems k False fresh v(2) only_ballots_settings [OF frame]
      by (intro Cons.IH [of "rt_height E" "insert k K" c1 ks']) auto
    ultimately show ?thesis using frame by (auto simp: only_ballots_def)
  qed
qed simp

section \<open>The properties\<close>

text \<open>C12: without the notary service a minority decides nothing. Start with an empty ballot box and let
  anything happen: deposits, withdrawals, votes for any decision, decisions, upgrades, contracts called
  back by payments of GAS. If the keys that ever voted for the decision \<open>i\<close>, the calling one
  included, are fewer than two thirds of the Alphabet plus one, then a call of \<open>Cheque\<close>,
  \<open>AlphabetUpdate\<close> or \<open>SetConfig\<close> for it pays nothing, replaces no key, sets no value and
  notifies nothing: it touches the ballots alone. For \<open>SetConfig\<close> one of these keys may be the
  empty one, which stands for callers outside of the Alphabet.\<close>

theorem minority_decides_nothing:
  assumes "getBallots (fst w0) = Inr []" and "neofs_reach votes w0 (c, x)"
    and "to_bool (LocalGet notaryDisabledKey c) = Inr True" and "getAlphabetNodes c = Inr a"
    and "InnerRingInvoker E a = Inr k" and "votes i k" and "finite {k. votes i k}"
    and "int (card {k. votes i k}) < vote_threshold a"
  shows "(\<forall>w. neofs_Cheque E G i user amount lockAcc (c, x) = Inr w \<longrightarrow> only_ballots c (fst w) \<and> snd w = x) \<and>
    (\<forall>d. neofs_AlphabetUpdate E i ks c = Inr d \<longrightarrow> only_ballots c d) \<and>
    (\<forall>d. neofs_SetConfig E i key val c = Inr d \<longrightarrow> only_ballots c d)"
proof -
  have "box_ok votes (fst w0)" using assms(1) by (simp add: box_ok_def ballots_ok_def)
  then have box: "box_ok votes c" using box_ok_reach [OF assms(2)] by simp
  have key: "voting_key E c = Inr k" using assms(4,5) by (simp add: voting_key_def)
  have minority: "\<not> made" if "collect_vote E i invoker c = Inr (made, d)" "invoker \<noteq> None"
      "\<And>a' k'. invoker = Some (a', k') \<Longrightarrow> voting_key E c = Inr k' \<and> getAlphabetNodes c = Inr a'" for invoker made d
    using that key assms(4) collect_vote_minority [OF _ box assms(6-8), of E made d] by auto
  have some: "invoker \<noteq> None" if "check_invoker E c = Inr invoker" for invoker
    using that assms(3) by (auto simp: check_invoker_def split: if_splits)
  show ?thesis
  proof (intro conjI allI impI)
    fix w assume w: "neofs_Cheque E G i user amount lockAcc (c, x) = Inr w"
    then obtain c' x' where "w = (c', x')" by (cases w)
    with w show "only_ballots c (fst w)" "snd w = x"
      using Cheque_result [of E G i user amount lockAcc c x c' x'] minority some check_invoker_key collect_vote_frame
      by (metis fst_conv snd_conv)+
  next
    fix d assume "neofs_AlphabetUpdate E i ks c = Inr d"
    then show "only_ballots c d"
      using minority some check_invoker_key collect_vote_frame by (metis AlphabetUpdate_result)
  next
    fix d assume "neofs_SetConfig E i key val c = Inr d"
    then show "only_ballots c d"
      using minority config_invoker_key assms(3) collect_vote_frame by (metis SetConfig_result)
  qed
qed

definition main0 :: neofs where
  "main0 = SetSerialized alphabetKey (SKeys [keyA, keyB, keyC]) (put_bool notaryDisabledKey True (InitVote new_contract))"

definition env_of :: "bytes \<Rightarrow> int \<Rightarrow> env" where
  "env_of k h = sample_env\<lparr>rt_witness := (\<lambda>a. a = k), rt_height := h\<rparr>"

lemma main0_settings:
  "getBallots main0 = Inr []" "to_bool (LocalGet notaryDisabledKey main0) = Inr True"
  "getAlphabetNodes main0 = Inr [keyA, keyB, keyC]"
  by (simp_all add: main0_def InitVote_def getBallots_def getAlphabetNodes_def put_bool_def alphabetKey_def
      voteKey_def notaryDisabledKey_def to_bool_def bytes_to_bool_def)

lemma env_of_sel [simp]: "rt_witness (env_of k h) b \<longleftrightarrow> b = k" "rt_height (env_of k h) = h"
  by (simp_all add: env_of_def)

lemma keys_nonempty [simp]: "[] \<noteq> keyA" "[] \<noteq> keyB" "[] \<noteq> keyC"
  by (auto simp: keyA_def keyB_def keyC_def)

lemma keyA_addrA [simp]: "keyA \<noteq> addrA"
  by (metis sample_lengths(1,4) numeral_eq_iff semiring_norm(85,87,88,89,90,91))

lemma env_of_invoker [simp]:
  "InnerRingInvoker (env_of keyA h) [keyA, keyB, keyC] = Inr keyA"
  "InnerRingInvoker (env_of keyB h) [keyA, keyB, keyC] = Inr keyB"
  "InnerRingInvoker (env_of keyC h) [keyA, keyB, keyC] = Inr keyC"
  by (simp_all add: CheckWitness_def)

theorem minority_decides_nothing_witness:
  "\<exists>c. neofs_AlphabetUpdate (env_of keyA 100) ''d'' [keyB] main0 = Inr c \<and>
    (\<forall>d. neofs_AlphabetUpdate (env_of keyB 101) ''d'' [keyB] c = Inr d \<longrightarrow> only_ballots c d)"
proof -
  let ?votes = "\<lambda>i k. k = keyA \<or> k = keyB"
  have "case neofs_AlphabetUpdate (env_of keyA 100) ''d'' [keyB] main0 of Inl _ \<Rightarrow> False | Inr c \<Rightarrow>
      to_bool (LocalGet notaryDisabledKey c) = Inr True \<and> getAlphabetNodes c = Inr [keyA, keyB, keyC]" by code_simp
  then obtain c where c: "neofs_AlphabetUpdate (env_of keyA 100) ''d'' [keyB] main0 = Inr c"
    "to_bool (LocalGet notaryDisabledKey c) = Inr True" "getAlphabetNodes c = Inr [keyA, keyB, keyC]"
    by (auto split: sum.splits)
  have "voting_key (env_of keyA 100) main0 = Inr keyA" by (simp add: voting_key_def main0_settings del: InnerRingInvoker.simps)
  then have "neofs_reach ?votes (main0, ()) (c, ())" by (intro neofs_reach.alphabet [OF c(1)]) simp
  moreover have "{k. k = keyA \<or> k = keyB} = {keyA, keyB}" by auto
  ultimately show ?thesis
    using minority_decides_nothing [of "(main0, ())" ?votes c "()" "[keyA, keyB, keyC]" "env_of keyB 101" keyB "''d''"
        undefined undefined undefined undefined "[keyB]"] c
    by (auto simp: main0_settings vote_threshold_def simp del: InnerRingInvoker.simps)
qed

text \<open>C24: without the notary service a quorum decides. If nobody has a live vote for the decision and
  as many different keys of the Alphabet as the threshold asks for call \<open>AlphabetUpdate\<close> for it,
  each within 20 blocks after the one before, then every call succeeds, the last one installs the new
  keys and notifies it once, and nothing else but the ballots changes.\<close>

theorem quorum_decides:
  assumes "getBallots c = Inr bs" and "ballots_ok bs" and "voters_of h i bs = {}" and "timely h Es"
    and "getAlphabetNodes c = Inr a" and "to_bool (LocalGet notaryDisabledKey c) = Inr True"
    and "callers a Es = Inr ks" and "distinct ks" and "[] \<notin> set ks" and "int (length ks) = vote_threshold a"
    and "args \<noteq> []" and "list_all (\<lambda>k. length k = PublicKeyCompressedLen) args"
  shows "\<exists>c'. foldR (\<lambda>E. neofs_AlphabetUpdate E i args) Es c = Inr c' \<and> neofs_AlphabetList c' = Inr args \<and>
    notifications c' = notifications c @ [MainAlphabetUpdate i args] \<and>
    (\<forall>k. k \<noteq> voteKey \<longrightarrow> k \<noteq> alphabetKey \<longrightarrow> LocalGet k c' = LocalGet k c)"
proof -
  have "\<not> live h b" if "b \<in> set bs" "ID b = i" for b
    using that assms(2,3) by (auto simp: voters_of_def ballots_ok_def filter_empty_conv)
  then have "tally i h {} c" using assms(1-3) by (auto simp: tally_def)
  moreover have "ks \<noteq> []" using assms(10) by (auto simp: vote_threshold_def)
  ultimately obtain d where d: "foldR (\<lambda>E. neofs_AlphabetUpdate E i args) Es c =
      Inr (Notify (MainAlphabetUpdate i args) (SetSerialized alphabetKey (SKeys args) d))" "only_ballots c d"
    using AlphabetUpdate_collects [of i h "{}" c Es a ks args] assms by auto
  then show ?thesis
    by (auto simp: only_ballots_def neofs_AlphabetList_def getAlphabetNodes_def)
qed

theorem quorum_decides_witness:
  "\<exists>c'. foldR (\<lambda>E. neofs_AlphabetUpdate E ''d'' [keyC]) [env_of keyB 90, env_of keyA 110, env_of keyC 115] main0 = Inr c' \<and>
     neofs_AlphabetList c' = Inr [keyC]"
  using quorum_decides [of main0 "[]" 85 "''d''" "[env_of keyB 90, env_of keyA 110, env_of keyC 115]"
      "[keyA, keyB, keyC]" "[keyB, keyA, keyC]" "[keyC]"]
  by (auto simp: main0_settings ballots_ok_def voters_of_def vote_threshold_def blockDiff_def simp del: InnerRingInvoker.simps)

text \<open>C30: \<open>SetConfig\<close> takes votes from anybody. It tests the configuration key where \<open>Cheque\<close>
  and \<open>AlphabetUpdate\<close> test the key of the caller, so without the notary service a transaction with no
  witness of the Alphabet at all counts as one more voter: if one vote was missing, it sets the value,
  and it does so alone where the threshold is one. \<open>Cheque\<close> refuses the same caller.\<close>

theorem SetConfig_counts_strangers:
  assumes "to_bool (LocalGet notaryDisabledKey c) = Inr True" and "getAlphabetNodes c = Inr a"
    and "list_all (\<lambda>k. length k = PublicKeyCompressedLen \<and> \<not> rt_witness E k) a" and "key \<noteq> []"
    and "getBallots c = Inr bs" and "ballots_ok bs" and "[] \<notin> voters_of (rt_height E) i bs"
    and "int (card (voters_of (rt_height E) i bs)) + 1 \<ge> vote_threshold a"
  shows "(\<exists>c'. neofs_SetConfig E i key val c = Inr c' \<and> neofs_Config key c' = Inr (Some val)) \<and>
    neofs_Cheque E G i user amount lockAcc (c, x) = Inl (Panic ''this method must be invoked by alphabet'')"
proof -
  have nobody: "list_all (\<lambda>k. length k = PublicKeyCompressedLen \<and> \<not> rt_witness E k) ks \<Longrightarrow> InnerRingInvoker E ks = Inr []" for ks
    by (induction ks) (simp_all add: CheckWitness_def)
  obtain c1 where v: "Vote E i [] c = Inr (int (card (voters_of (rt_height E) i bs)) + 1, c1)"
    using Vote_tally [OF assms(5,6,7)] by auto
  obtain c2 where "RemoveVotes i c1 = Inr c2" using Vote_then_RemoveVotes [OF assms(5,6) v] by auto
  then have "collect_vote E i (Some (a, [])) c = Inr (True, c2)"
    using v assms(8) by (simp add: collect_vote_def)
  then have "neofs_SetConfig E i key val c = Inr (Notify (MainSetConfig i key val) (neofs_setConfig key val c2))"
    using assms(1,2,4) nobody [OF assms(3)] by (simp add: neofs_SetConfig_def)
  moreover have "neofs_Config key (Notify (MainSetConfig i key val) (neofs_setConfig key val c2)) = Inr (Some val)"
    by (simp add: neofs_Config_def neofs_setConfig_def)
  moreover have "neofs_Cheque E G i user amount lockAcc (c, x) = Inl (Panic ''this method must be invoked by alphabet'')"
    using assms(1,2) nobody [OF assms(3)] by (simp add: neofs_Cheque_def check_invoker_def)
  ultimately show ?thesis by blast
qed

definition main1 :: neofs where
  "main1 = SetSerialized alphabetKey (SKeys [keyA]) main0"

theorem SetConfig_counts_strangers_witness:
  "\<exists>c'. neofs_SetConfig (env_of addrA 100) ''d'' withdrawFeeConfigKey ''0'' main1 = Inr c' \<and>
     neofs_Config withdrawFeeConfigKey c' = Inr (Some ''0'')"
  using SetConfig_counts_strangers [of main1 "[keyA]" "env_of addrA 100" withdrawFeeConfigKey "[]" "''d''" "''0''"
      undefined undefined undefined undefined "()"]
  by (simp add: main1_def getBallots_def getAlphabetNodes_def main0_settings [unfolded getBallots_def]
      withdrawFeeConfigKey_def ballots_ok_def voters_of_def vote_threshold_def)

end
