(* ===== verification/Alphabet_Contract.thy ===== *)
theory Alphabet_Contract
  imports Common
begin

text \<open>
  The Alphabet contracts (\<open>contracts/alphabet/contract.go\<close>), which hold the side chain's NEO, vote for
  the committee and distribute the GAS the NEO yields, with the Proxy (\<open>contracts/proxy/contract.go\<close>)
  and Processing (\<open>contracts/processing/contract.go\<close>) contracts, which only verify transactions. The
  native NEO and GAS contracts are parameters acting on their own state.
\<close>

type_synonym alphabet = "(unit, unit) contract"

record 'o natives =
  neoBalanceOf :: "bytes \<Rightarrow> 'o \<Rightarrow> int"
  gasBalanceOf :: "bytes \<Rightarrow> 'o \<Rightarrow> int"
  neoTransfer :: "bytes \<Rightarrow> bytes \<Rightarrow> int \<Rightarrow> arg \<Rightarrow> 'o \<Rightarrow> (bool \<times> 'o) res"
  gasTransfer :: "bytes \<Rightarrow> bytes \<Rightarrow> int \<Rightarrow> arg \<Rightarrow> 'o \<Rightarrow> (bool \<times> 'o) res"
  neoVote :: "bytes \<Rightarrow> bytes \<Rightarrow> 'o \<Rightarrow> (bool \<times> 'o) res"

definition alph_netmapKey :: bytes where "alph_netmapKey = ''netmapScriptHash''"
definition alph_proxyKey :: bytes where "alph_proxyKey = ''proxyScriptHash''"
definition alph_indexKey :: bytes where "alph_indexKey = ''index''"
definition alph_nameKey :: bytes where "alph_nameKey = ''name''"
definition emissionDivisor :: int where "emissionDivisor = 16"
definition emissionProxyPart :: int where "emissionProxyPart = 14"
definition emissionIRPart :: int where "emissionIRPart = 1"

definition alph_OnNEP17Payment :: "env \<Rightarrow> bytes \<Rightarrow> int \<Rightarrow> arg \<Rightarrow> alphabet \<Rightarrow> alphabet res" where
  "alph_OnNEP17Payment E from amount data c =
     (if rt_caller E \<noteq> rt_gas E \<and> rt_caller E \<noteq> rt_neo E
      then Inl (Abort ''alphabet contract accepts GAS and NEO only'') else Inr c)"

definition alph_stored :: "bytes \<Rightarrow> alphabet \<Rightarrow> bytes res" where
  "alph_stored k c = (case LocalGet k c of None \<Rightarrow> Inl (Fault ''null'') | Some v \<Rightarrow> as_bytes v)"

definition alph_Gas :: "env \<Rightarrow> 'o natives \<Rightarrow> 'o \<Rightarrow> int" where "alph_Gas E N others = gasBalanceOf N (rt_self E) others"

definition alph_Neo :: "env \<Rightarrow> 'o natives \<Rightarrow> 'o \<Rightarrow> int" where "alph_Neo E N others = neoBalanceOf N (rt_self E) others"

definition alph_Name :: "alphabet \<Rightarrow> bytes option res" where
  "alph_Name c = (case LocalGet alph_nameKey c of None \<Rightarrow> Inr None | Some v \<Rightarrow> andThen (as_bytes v) (\<lambda>b. Inr (Some b)))"

definition alph_currentEpoch :: "(bytes \<Rightarrow> 'o \<Rightarrow> int res) \<Rightarrow> alphabet \<Rightarrow> 'o \<Rightarrow> int res" where
  "alph_currentEpoch netmapEpoch c others = andThen (alph_stored alph_netmapKey c) (\<lambda>h. netmapEpoch h others)"

definition alph_index :: "alphabet \<Rightarrow> int res" where
  "alph_index c = to_integer (LocalGet alph_indexKey c)"

definition checkPermission :: "env \<Rightarrow> bytes list \<Rightarrow> alphabet \<Rightarrow> bool res" where
  "checkPermission E ir c = andThen (alph_index c) (\<lambda>idx.
     if int (length ir) \<le> idx then Inr False
     else if idx < 0 then Inl (Fault ''index out of range'')
     else CheckWitness E (ir ! nat idx))"

section \<open>Emission\<close>

definition pay_ir_node :: "env \<Rightarrow> 'o natives \<Rightarrow> int \<Rightarrow> bytes \<Rightarrow> 'o \<Rightarrow> 'o res" where
  "pay_ir_node E N gasPerNode node others =
     andThen (CreateStandardAccount E node) (\<lambda>address.
       andThen (gasTransfer N (rt_self E) address gasPerNode ANull others) (\<lambda>(_, others). Inr others))"

definition alph_Emit :: "env \<Rightarrow> 'o natives \<Rightarrow> alphabet \<Rightarrow> 'o \<Rightarrow> 'o res" where
  "alph_Emit E N c others =
     andThen (checkPermission E (AlphabetNodes E) c) (\<lambda>permitted.
     if \<not> permitted then Inl (Panic ''invalid invoker'')
     else let h = rt_self E in
       andThen (neoTransfer N h h (neoBalanceOf N h others) ANull others) (\<lambda>(transferred, o1).
       if \<not> transferred then Inl (Panic ''failed to transfer funds, aborting'')
       else let gasBalance = gasBalanceOf N h o1;
              gasDivided = goDiv gasBalance emissionDivisor;
              proxyGas = gasDivided * emissionProxyPart;
              irGas = gasDivided * emissionIRPart in
         if gasDivided = 0 then Inl (Panic ''no gas to emit'')
         else andThen (alph_stored alph_proxyKey c) (\<lambda>proxy.
           andThen (gasTransfer N h proxy proxyGas ANull o1) (\<lambda>(_, o2).
           let innerRing = InnerRingNodes E in
           andThen (quotient irGas (int (length innerRing))) (\<lambda>gasPerNode.
           if gasPerNode \<noteq> 0 then foldR (pay_ir_node E N gasPerNode) innerRing o2 else Inr o2)))))"

text \<open>The remainder takes the sign of the dividend.\<close>

definition goMod :: "int \<Rightarrow> int \<Rightarrow> int res" where
  "goMod a b = (if b = 0 then Inl (Fault ''division by zero'') else Inr (a - goDiv a b * b))"

definition alph_Vote :: "env \<Rightarrow> 'o natives \<Rightarrow> (bytes \<Rightarrow> 'o \<Rightarrow> int res) \<Rightarrow> int \<Rightarrow> bytes list \<Rightarrow> alphabet \<Rightarrow> 'o \<Rightarrow> 'o res" where
  "alph_Vote E N netmapEpoch epoch candidates c others =
     andThen (alph_index c) (\<lambda>idx.
     andThen (alph_Name c) (\<lambda>name.
     andThen (CheckAlphabetWitness E) (\<lambda>_.
     andThen (alph_currentEpoch netmapEpoch c others) (\<lambda>curEpoch.
     if epoch \<noteq> curEpoch then Inl (Panic ''invalid epoch'')
     else andThen (goMod idx (int (length candidates))) (\<lambda>j.
       if j < 0 then Inl (Fault ''index out of range'')
       else andThen (neoVote N (rt_self E) (candidates ! nat j) others) (\<lambda>(ok, others).
         case name of None \<Rightarrow> Inl (Fault ''null operand'') | Some _ \<Rightarrow> Inr others))))))"

definition alph_Verify :: "env \<Rightarrow> bool res" where "alph_Verify E = ContainsAlphabetWitness E"

section \<open>Deployment and update\<close>

fun sender_index :: "env \<Rightarrow> bytes list \<Rightarrow> nat \<Rightarrow> int res" where
  "sender_index E [] i = Inr (- 1)"
| "sender_index E (k # ks) i = andThen (CreateStandardAccount E k) (\<lambda>account.
     if rt_sender E = account then Inr (int i) else sender_index E ks (Suc i))"

definition alph_address :: "nat \<Rightarrow> bytes res \<Rightarrow> arg list \<Rightarrow> bytes res" where
  "alph_address n fallback args =
     (if n < length args
      then andThen (arg_bytes (args ! n)) (\<lambda>b. if length b = Hash160Len then Inr b else fallback)
      else fallback)"

definition alph_deploy :: "env \<Rightarrow> (bytes \<Rightarrow> string \<Rightarrow> int \<Rightarrow> string list res) \<Rightarrow> arg list \<Rightarrow> bool \<Rightarrow> alphabet \<Rightarrow> alphabet res" where
  "alph_deploy E resolver args isUpdate c =
     (if isUpdate
      then andThen (last_version args) (\<lambda>version. andThen (CheckVersion version) (\<lambda>_.
        Inr (if version < 27000 then LocalDelete ''threshold'' c else c)))
      else andThen (alph_address 1 (ResolveFSContract E resolver ''netmap'') args) (\<lambda>addrNetmap.
        andThen (alph_address 2 (ResolveFSContract E resolver ''proxy'') args) (\<lambda>addrProxy.
        andThen (if length args > 4 \<and> args ! 4 \<noteq> ANull then arg_int (args ! 4)
          else andThen (sender_index E (AlphabetNodes E) 0) (\<lambda>i.
            if i = - 1 then Inl (Panic ''alphabet node not found'') else Inr i)) (\<lambda>idx.
        andThen (if length args > 3
          then andThen (arg_bytes (args ! 3)) (\<lambda>b. Inr (if b \<noteq> [] then b else ''alphabet'' @ itoa10 idx))
          else Inr (''alphabet'' @ itoa10 idx)) (\<lambda>name.
        Inr (put_int alph_indexKey idx (LocalPut alph_nameKey (Raw name)
              (LocalPut alph_proxyKey (Raw addrProxy) (LocalPut alph_netmapKey (Raw addrNetmap) c)))))))))"

definition alph_Update ::
  "env \<Rightarrow> (bytes \<Rightarrow> bytes \<Rightarrow> arg list \<Rightarrow> 'w \<Rightarrow> 'w res) \<Rightarrow> bytes \<Rightarrow> bytes \<Rightarrow> arg list option \<Rightarrow> 'w \<Rightarrow> 'w res" where
  "alph_Update E management nefFile manifest data w = update_by_committee E management nefFile manifest data w"

section \<open>Proxy\<close>

definition proxy_OnNEP17Payment :: "env \<Rightarrow> bytes \<Rightarrow> int \<Rightarrow> arg \<Rightarrow> alphabet \<Rightarrow> alphabet res" where
  "proxy_OnNEP17Payment E from amount data c =
     (if rt_caller E \<noteq> rt_gas E then Inl (Abort ''proxy contract accepts GAS only'') else Inr c)"

definition proxy_deploy :: "arg list \<Rightarrow> bool \<Rightarrow> alphabet \<Rightarrow> alphabet res" where
  "proxy_deploy args isUpdate c =
     (if isUpdate
      then andThen (last_version args) (\<lambda>version. andThen (CheckVersion version) (\<lambda>_.
        Inr (if version < 27000 then LocalDelete ''c'' c else c)))
      else Inr c)"

definition proxy_Update ::
  "env \<Rightarrow> (bytes \<Rightarrow> bytes \<Rightarrow> arg list \<Rightarrow> 'w \<Rightarrow> 'w res) \<Rightarrow> bytes \<Rightarrow> bytes \<Rightarrow> arg list option \<Rightarrow> 'w \<Rightarrow> 'w res" where
  "proxy_Update E management nefFile manifest data w = update_by_committee E management nefFile manifest data w"

definition proxy_Verify :: "env \<Rightarrow> bool" where
  "proxy_Verify E = list_ex (\<lambda>signer. signer = AlphabetAddress E \<or> signer = CommitteeAddress E) (rt_signers E)"

section \<open>Processing\<close>

definition neofsContractKey :: bytes where "neofsContractKey = ''neofsScriptHash''"

definition processing_OnNEP17Payment :: "env \<Rightarrow> bytes \<Rightarrow> int \<Rightarrow> arg \<Rightarrow> alphabet \<Rightarrow> alphabet res" where
  "processing_OnNEP17Payment E from amount data c =
     (if rt_caller E \<noteq> rt_gas E then Inl (Abort ''processing contract accepts GAS only'') else Inr c)"

definition processing_deploy :: "arg list \<Rightarrow> bool \<Rightarrow> alphabet \<Rightarrow> alphabet res" where
  "processing_deploy args isUpdate c =
     (if isUpdate
      then andThen (last_version args) (\<lambda>version. andThen (CheckVersion version) (\<lambda>_. Inr c))
      else andThen (andThen (arg_at 0 args) arg_bytes) (\<lambda>addrNeoFS.
        if length addrNeoFS \<noteq> Hash160Len then Inl (Panic ''incorrect length of contract script hash'')
        else Inr (LocalPut neofsContractKey (Raw addrNeoFS) c)))"

definition processing_Update ::
  "env \<Rightarrow> (bytes \<Rightarrow> bytes \<Rightarrow> arg list \<Rightarrow> 'w \<Rightarrow> 'w res) \<Rightarrow> bytes \<Rightarrow> bytes \<Rightarrow> arg list option \<Rightarrow> 'w \<Rightarrow> 'w res" where
  "processing_Update E management nefFile manifest data w =
     andThen (CheckWitness E (Multiaddress E (rt_alphabet_role E (rt_height E + 1)) True)) (\<lambda>ok.
     if \<not> ok then Inl (Panic ''only side chain committee can update contract'')
     else management nefFile manifest (AppendVersion data) w)"

text \<open>The Alphabet's address comes from the NeoFS contract, whose method is a parameter.\<close>

definition processing_Verify :: "env \<Rightarrow> (bytes \<Rightarrow> 'o \<Rightarrow> bytes res) \<Rightarrow> alphabet \<Rightarrow> 'o \<Rightarrow> bool res" where
  "processing_Verify E alphabetAddress c others =
     andThen (alph_stored neofsContractKey c) (\<lambda>h. andThen (alphabetAddress h others) (CheckWitness E))"

end
