(* ===== verification/Alphabet_Properties.thy ===== *)
theory Alphabet_Properties
  imports Alphabet_Contract Asset_Ledger Sample
begin

text \<open>
  The emission of GAS by an Alphabet contract, on a GAS contract that keeps assets: who may start it and
  how the GAS is split.
\<close>










end
