(* ===== verification/Reputation_Contract.thy ===== *)
theory Reputation_Contract
  imports Common
begin

text \<open>
  The Reputation contract (\<open>contracts/reputation/contract.go\<close>): the trust values of a peer in an epoch,
  stored under a running number, and their number.
\<close>

type_synonym reputation = "(unit, unit) contract"

definition reputationValuePrefix :: char where "reputationValuePrefix = CHR ''r''"
definition reputationCountPrefix :: char where "reputationCountPrefix = CHR ''c''"

definition storageID :: "int \<Rightarrow> bytes \<Rightarrow> bytes" where
  "storageID epoch peerID = int_bytes epoch @ peerID"

definition getReputationKey :: "char \<Rightarrow> bytes \<Rightarrow> bytes" where
  "getReputationKey p i = [p] @ i"

definition reputation_Put :: "env \<Rightarrow> int \<Rightarrow> bytes \<Rightarrow> bytes \<Rightarrow> reputation \<Rightarrow> reputation res" where
  "reputation_Put E epoch peerID val c =
     andThen (CheckAlphabetWitness E) (\<lambda>_.
     let i = storageID epoch peerID;
         key = getReputationKey reputationCountPrefix i in
     andThen (case LocalGet key c of None \<Rightarrow> Inr 0 | Some v \<Rightarrow> to_integer (Some v)) (\<lambda>cnt0.
     let cnt = cnt0 + 1 in
     Inr (LocalPut (key[0 := reputationValuePrefix] @ int_bytes cnt) (Raw val) (put_int key cnt c))))"

definition GetByID :: "bytes \<Rightarrow> reputation \<Rightarrow> bytes list res" where
  "GetByID i c = mapR as_bytes (find_values (getReputationKey reputationValuePrefix i) c)"

definition reputation_Get :: "int \<Rightarrow> bytes \<Rightarrow> reputation \<Rightarrow> bytes list res" where
  "reputation_Get epoch peerID c = GetByID (storageID epoch peerID) c"

definition ListByEpoch :: "int \<Rightarrow> reputation \<Rightarrow> bytes list" where
  "ListByEpoch epoch c =
     map (\<lambda>e. drop 1 (fst e)) (LocalFind (getReputationKey reputationCountPrefix (int_bytes epoch)) c)"

definition reputation_deploy :: "arg list \<Rightarrow> bool \<Rightarrow> reputation \<Rightarrow> reputation res" where
  "reputation_deploy args isUpdate c =
     (if isUpdate then andThen (last_version args) (\<lambda>version. andThen (CheckVersion version) (\<lambda>_. Inr c)) else Inr c)"

definition reputation_Update ::
  "env \<Rightarrow> (bytes \<Rightarrow> bytes \<Rightarrow> arg list \<Rightarrow> 'w \<Rightarrow> 'w res) \<Rightarrow> bytes \<Rightarrow> bytes \<Rightarrow> arg list option \<Rightarrow> 'w \<Rightarrow> 'w res" where
  "reputation_Update E management nefFile manifest data w = update_by_committee E management nefFile manifest data w"

end
