(* ===== verification/Reputation_Properties.thy ===== *)
theory Reputation_Properties
  imports Reputation_Contract Sample "HOL-Library.Multiset"
begin

text \<open>
  The Reputation contract as a log: what was put for a peer in an epoch is what is got, and the first 127
  values in the order they were put, unless the identifier of one pair of epoch and peer begins with that of
  another; and what is got then.
\<close>

section \<open>The log behind the state\<close>

text \<open>A call of \<open>Put\<close>: the identifier made of the epoch and the peer, and the value.\<close>

type_synonym rep_log = "(bytes \<times> bytes) list"

definition rep_values :: "rep_log \<Rightarrow> bytes \<Rightarrow> bytes list" where
  "rep_values l i = map snd (filter (\<lambda>e. fst e = i) l)"

definition rep_key :: "bytes \<Rightarrow> nat \<Rightarrow> bytes" where
  "rep_key i k = CHR ''r'' # i @ int_bytes (int k)"

text \<open>What the state has of one identifier: the number of its values, and under every key that starts with it.\<close>

definition log_state :: "bytes \<Rightarrow> rep_log \<Rightarrow> reputation \<Rightarrow> bool" where
  "log_state i l c \<longleftrightarrow> contract_ok c \<and>
     LocalGet (CHR ''c'' # i) c = (if rep_values l i = [] then None else Some (Raw (int_bytes (int (length (rep_values l i)))))) \<and>
     (\<forall>k \<in> {1..length (rep_values l i)}. LocalGet (rep_key i k) c = Some (Raw (rep_values l i ! (k - 1)))) \<and>
     (\<forall>x. LocalGet (CHR ''r'' # i @ x) c \<noteq> None \<longrightarrow> (\<exists>k \<in> {1..length (rep_values l i)}. CHR ''r'' # i @ x = rep_key i k))"

text \<open>Two identifiers are apart when neither is the beginning of the other.\<close>

definition apart :: "bytes \<Rightarrow> bytes \<Rightarrow> bool" where
  "apart i j \<longleftrightarrow> \<not> prefix i j \<and> \<not> prefix j i"

lemma rep_key_inject: "rep_key i k = rep_key i m \<longleftrightarrow> k = m"
  by (auto simp: rep_key_def)

lemma log_state_new: "log_state i [] new_contract"
  by (simp add: log_state_def rep_values_def)

lemma rep_values_snoc: "rep_values (l @ [(i, v)]) j = rep_values l j @ (if i = j then [v] else [])"
  by (simp add: rep_values_def)

text \<open>A value of an identifier goes under the next number, whatever the number is.\<close>

lemma Put_shape:
  assumes "reputation_Put E epoch peer v c = Inr c'"
  obtains n where "c' = LocalPut (CHR ''r'' # storageID epoch peer @ int_bytes n) (Raw v) (put_int (CHR ''c'' # storageID epoch peer) n c)"
  using assms
  by (auto simp: reputation_Put_def getReputationKey_def reputationCountPrefix_def reputationValuePrefix_def Let_def split: option.split_asm)

lemma Put_log_state_other:
  assumes "reputation_Put E epoch peer v c = Inr c'" and "log_state i l c" and "apart i (storageID epoch peer)"
  shows "log_state i (l @ [(storageID epoch peer, v)]) c'"
proof -
  let ?j = "storageID epoch peer"
  obtain n where c': "c' = LocalPut (CHR ''r'' # ?j @ int_bytes n) (Raw v) (put_int (CHR ''c'' # ?j) n c)"
    by (rule Put_shape [OF assms(1)])
  have "i @ x \<noteq> ?j @ y" for x y using assms(3) by (metis apart_def prefixI prefix_same_cases)
  then have "LocalGet (CHR ''r'' # i @ x) c' = LocalGet (CHR ''r'' # i @ x) c" for x by (simp add: c' put_int_def)
  moreover have "?j \<noteq> i" using assms(3) by (auto simp: apart_def)
  moreover from this have "LocalGet (CHR ''c'' # i) c' = LocalGet (CHR ''c'' # i) c" by (simp add: c' put_int_def)
  moreover have "contract_ok c'" using assms(2) by (simp add: c' put_int_def log_state_def)
  ultimately show ?thesis using assms(2) by (simp add: log_state_def rep_values_snoc rep_key_def)
qed

lemma Put_log_state_same:
  assumes "reputation_Put E epoch peer v c = Inr c'" and "log_state i l c" and i: "i = storageID epoch peer"
  shows "log_state i (l @ [(storageID epoch peer, v)]) c'"
proof -
  let ?n = "length (rep_values l i)"
  have c': "c' = LocalPut (rep_key i (Suc ?n)) (Raw v) (put_int (CHR ''c'' # i) (int (Suc ?n)) c)"
    using assms(1,2) unfolding i
    by (cases "rep_values l (storageID epoch peer) = []")
      (auto simp: reputation_Put_def log_state_def getReputationKey_def reputationCountPrefix_def
        reputationValuePrefix_def rep_key_def add.commute Let_def)
  have ne: "CHR ''r'' # x \<noteq> CHR ''c'' # y" "rep_key i k \<noteq> CHR ''c'' # y" "CHR ''c'' # y \<noteq> rep_key i k" for x y k
    by (simp_all add: rep_key_def)
  have vals: "rep_values (l @ [(storageID epoch peer, v)]) i = rep_values l i @ [v]" using i by (simp add: rep_values_snoc)
  have "LocalGet (rep_key i k) c' = Some (Raw ((rep_values l i @ [v]) ! (k - 1)))" if "k \<in> {1..Suc ?n}" for k
    using that assms(2) ne by (cases "k = Suc ?n") (auto simp: c' log_state_def rep_key_inject put_int_def nth_append)
  moreover have "\<exists>k \<in> {1..Suc ?n}. CHR ''r'' # i @ x = rep_key i k" if "LocalGet (CHR ''r'' # i @ x) c' \<noteq> None" for x
  proof (cases "CHR ''r'' # i @ x = rep_key i (Suc ?n)")
    case False
    then have "LocalGet (CHR ''r'' # i @ x) c \<noteq> None" using that by (simp add: c' put_int_def)
    then obtain k where "k \<in> {1..?n}" "CHR ''r'' # i @ x = rep_key i k" using assms(2) unfolding log_state_def by blast
    then show ?thesis by (intro bexI [of _ k]) auto
  qed auto
  moreover have "LocalGet (CHR ''c'' # i) c' = Some (Raw (int_bytes (int (Suc ?n))))" using ne by (simp add: c' put_int_def)
  moreover have "contract_ok c'" using assms(2) by (simp add: c' put_int_def log_state_def)
  ultimately show ?thesis unfolding log_state_def vals by simp
qed

section \<open>Reading the log\<close>

lemma LocalFind_log:
  assumes "log_state i l c"
  shows "set (LocalFind (CHR ''r'' # i) c) =
    (\<lambda>k. (rep_key i k, Raw (rep_values l i ! (k - 1)))) ` {1..length (rep_values l i)}"
proof (intro set_eqI iffI)
  fix e :: "bytes \<times> unit sval" assume e: "e \<in> set (LocalFind (CHR ''r'' # i) c)"
  obtain key v where kv: "e = (key, v)" by (cases e)
  then have p: "prefix (CHR ''r'' # i) key" and g: "LocalGet key c = Some v"
    using e LocalFind_iff [of c key v "CHR ''r'' # i"] assms(1) by (auto simp: log_state_def)
  then obtain x where x: "key = CHR ''r'' # i @ x" by (auto simp: prefix_def)
  then obtain k where "k \<in> {1..length (rep_values l i)}" "key = rep_key i k" using assms(1) g unfolding log_state_def by blast
  then show "e \<in> (\<lambda>k. (rep_key i k, Raw (rep_values l i ! (k - 1)))) ` {1..length (rep_values l i)}"
    using g assms kv by (auto simp: log_state_def)
next
  fix e :: "bytes \<times> unit sval" assume "e \<in> (\<lambda>k. (rep_key i k, Raw (rep_values l i ! (k - 1)))) ` {1..length (rep_values l i)}"
  then show "e \<in> set (LocalFind (CHR ''r'' # i) c)"
    using assms LocalFind_iff [of c _ _ "CHR ''r'' # i"] by (auto simp: log_state_def rep_key_def)
qed

text \<open>Numbers up to 127 are one byte, so the keys are in the order of the calls.\<close>

lemma byte_less: "k < m \<Longrightarrow> m \<le> 127 \<Longrightarrow> (char_of (k :: nat) :: char) < char_of m"
  by (simp add: less_char_def take_bit_eq_mod)

lemma byte_number: "1 \<le> k \<Longrightarrow> k \<le> 127 \<Longrightarrow> int_bytes (int k) = [char_of k]"
  by (simp add: int_bytes_def int_tail.simps [of "int k"])

lemma rep_key_less: "k < m \<Longrightarrow> 1 \<le> k \<Longrightarrow> m \<le> 127 \<Longrightarrow> rep_key i k < rep_key i m"
  using byte_less [of k m] by (simp add: rep_key_def byte_number)

lemma sorted_keys_unique:
  fixes xs ys :: "(bytes \<times> 'v) list"
  assumes "sorted_wrt (<) (map fst xs)" and "sorted_wrt (<) (map fst ys)" and "set xs = set ys"
  shows "xs = ys"
proof -
  have "sorted_wrt (\<lambda>a b. fst a < fst b) xs" "sorted_wrt (\<lambda>a b. fst a < fst b) ys"
    using assms(1,2) by (simp_all add: sorted_wrt_map)
  then show ?thesis using assms(3)
  proof (induction xs arbitrary: ys)
    case (Cons x xs)
    then obtain y ys' where ys: "ys = y # ys'" by (cases ys) auto
    have less: "\<forall>b \<in> set xs. fst x < fst b" "\<forall>b \<in> set ys'. fst y < fst b" and sets: "insert x (set xs) = insert y (set ys')"
      using Cons.prems ys by auto
    have "x = y" using less sets less_asym by (metis insert_iff)
    moreover have "x \<notin> set xs" "y \<notin> set ys'" using Cons.prems ys by auto
    ultimately have "set xs = set ys'" using Cons.prems(3) ys by auto
    then show ?case using Cons.IH [of ys'] Cons.prems ys \<open>x = y\<close> by simp
  qed simp
qed

lemma Get_log:
  assumes "log_state i l c"
  shows "\<exists>vs. GetByID i c = Inr vs \<and> mset vs = mset (rep_values l i) \<and>
    (length (rep_values l i) \<le> 127 \<longrightarrow> vs = rep_values l i)"
proof -
  let ?n = "length (rep_values l i)"
  let ?f = "\<lambda>k. (rep_key i k, Raw (rep_values l i ! (k - 1)) :: unit sval)"
  let ?F = "LocalFind (CHR ''r'' # i) c" and ?K = "map ?f [1..<Suc ?n]"
  have ok: "contract_ok c" using assms(1) by (simp add: log_state_def)
  have sets: "set ?F = set ?K" using LocalFind_log [OF assms] by (auto simp: image_iff)
  have "distinct ?F" using LocalFind_distinct [OF ok] by (metis distinct_map)
  moreover have "distinct ?K" by (auto simp: distinct_map inj_on_def rep_key_inject)
  ultimately have mset: "mset ?F = mset ?K" using sets set_eq_iff_mset_eq_distinct [of ?F ?K] by blast
  have vals: "map (\<lambda>k. rep_values l i ! (k - 1)) [1..<Suc ?n] = rep_values l i"
    by (rule nth_equalityI) (simp_all del: upt_Suc)
  have raws: "snd e = Raw (case snd e of Raw b \<Rightarrow> b | Ser x \<Rightarrow> [])" if "e \<in> set ?F" for e
    using that sets by auto
  let ?b = "\<lambda>e :: bytes \<times> unit sval. case snd e of Raw b \<Rightarrow> b | Ser x \<Rightarrow> []"
  have "mapR as_bytes (map snd ?F) = Inr (map ?b ?F)"
  proof -
    have "mapR as_bytes (map snd xs) = Inr (map ?b xs)" if "set xs \<subseteq> set ?F" for xs
      using that raws by (induction xs) auto
    then show ?thesis by blast
  qed
  then have get: "GetByID i c = Inr (map ?b ?F)"
    by (simp add: GetByID_def find_values_def getReputationKey_def reputationValuePrefix_def)
  have m: "mset (map ?b ?F) = mset (map ?b ?K)" by (simp only: mset_map mset)
  have "map ?b ?K = map (\<lambda>k. rep_values l i ! (k - 1)) [1..<Suc ?n]" by (simp only: map_map comp_def snd_conv sval.case)
  then have K: "map ?b ?K = rep_values l i" by (simp only: vals)
  have FK: "?F = ?K" if "?n \<le> 127"
  proof (rule sorted_keys_unique)
    show "sorted_wrt (<) (map fst ?F)" using LocalFind_sorted [OF ok] .
    have "sorted_wrt (\<lambda>k m. rep_key i k < rep_key i m) [1..<Suc ?n]"
      by (rule sorted_wrt_mono_rel [OF _ sorted_wrt_upt]) (use that rep_key_less in auto)
    then show "sorted_wrt (<) (map fst ?K)" by (simp add: sorted_wrt_map comp_def del: upt_Suc)
  qed (rule sets)
  have "mset (map ?b ?F) = mset (rep_values l i)" by (simp only: m K)
  moreover have "map ?b ?F = rep_values l i" if "?n \<le> 127" by (simp only: FK [OF that] K)
  ultimately show ?thesis using get by blast
qed

section \<open>The property\<close>

text \<open>The calls of \<open>Put\<close>: the environment, the epoch, the peer and the value.\<close>

definition put_all :: "(env \<times> int \<times> bytes \<times> bytes) list \<Rightarrow> reputation \<Rightarrow> reputation res" where
  "put_all = foldR (\<lambda>(E, epoch, peer, v) c. reputation_Put E epoch peer v c)"

lemma put_all_log:
  assumes "put_all ps c = Inr c'" and "log_state i l c"
    and "\<forall>(E, n, p, v) \<in> set ps. storageID n p = i \<or> apart i (storageID n p)"
  shows "log_state i (l @ map (\<lambda>(E, n, p, v). (storageID n p, v)) ps) c'"
  using assms
proof (induction ps arbitrary: c l)
  case (Cons x ps)
  obtain E n p v where x: "x = (E, n, p, v)" by (cases x)
  obtain c1 where c1: "reputation_Put E n p v c = Inr c1" "put_all ps c1 = Inr c'"
    using Cons.prems(1) x by (auto simp: put_all_def)
  have "log_state i (l @ [(storageID n p, v)]) c1"
    using Put_log_state_same [OF c1(1) Cons.prems(2)] Put_log_state_other [OF c1(1) Cons.prems(2)] Cons.prems(3) x by auto
  then show ?case using Cons.IH [OF c1(2), of "l @ [(storageID n p, v)]"] Cons.prems(3) x by simp
qed (simp add: put_all_def)

text \<open>C33: the trust values of a peer in an epoch are the ones that were put for it. After any calls of
  \<open>Put\<close> on a new contract, in any epochs and for any peers, \<open>Get\<close> returns every value put for that
  epoch and peer as often as it was put and no other value, and in the order of the calls as long as
  there are no more than 127 of them; provided that the identifier of the epoch and the peer is not the beginning
  of another identifier that was put, nor another one its beginning, as the search goes by the beginning of
  the key. Identifiers of one length fulfil this, so keys of one length do in all epochs up to 127, from 128 to 32767
  and so on.\<close>

theorem reputation_Get_after_Put:
  assumes "put_all ps new_contract = Inr c"
    and "\<forall>(E, n, p, v) \<in> set ps. storageID n p = storageID epoch peer \<or>
      \<not> prefix (storageID epoch peer) (storageID n p) \<and> \<not> prefix (storageID n p) (storageID epoch peer)"
    and "vs = map (\<lambda>(E, n, p, v). v) (filter (\<lambda>(E, n, p, v). storageID n p = storageID epoch peer) ps)"
  shows "\<exists>ws. reputation_Get epoch peer c = Inr ws \<and> mset ws = mset vs \<and> (length vs \<le> 127 \<longrightarrow> ws = vs)"
proof -
  let ?l = "map (\<lambda>(E, n, p, v). (storageID n p, v)) ps"
  have "log_state (storageID epoch peer) ?l c"
    using put_all_log [OF assms(1) log_state_new, of "storageID epoch peer"] assms(2) by (simp add: apart_def)
  moreover have "rep_values ?l (storageID epoch peer) = vs"
    unfolding assms(3) by (induction ps) (auto simp: rep_values_def)
  ultimately show ?thesis using Get_log [of "storageID epoch peer" ?l c] by (simp add: reputation_Get_def)
qed

text \<open>Three values in the epochs 7 and 300, whose numbers take one byte and two.\<close>

theorem reputation_Get_after_Put_witness:
  "\<exists>c. put_all [(sample_env, 7, keyA, ''x''), (sample_env, 300, keyA, ''y''), (sample_env, 7, keyA, ''z'')] new_contract = Inr c \<and>
     reputation_Get 7 keyA c = Inr [''x'', ''z''] \<and> reputation_Get 300 keyA c = Inr [''y'']"
proof -
  let ?ps = "[(sample_env, 7, keyA, ''x''), (sample_env, 300, keyA, ''y''), (sample_env, 7, keyA, ''z'')]"
  have "case put_all ?ps new_contract of Inl _ \<Rightarrow> False | Inr _ \<Rightarrow> True" by code_simp
  then obtain c where c: "put_all ?ps new_contract = Inr c" by (auto split: sum.splits)
  have ids: "storageID 7 keyA \<noteq> storageID 300 keyA" "storageID 300 keyA \<noteq> storageID 7 keyA"
    "\<not> prefix (storageID 7 keyA) (storageID 300 keyA)" "\<not> prefix (storageID 300 keyA) (storageID 7 keyA)" by code_simp+
  then show ?thesis
    using reputation_Get_after_Put [OF c, of 7 keyA, OF _ refl] reputation_Get_after_Put [OF c, of 300 keyA, OF _ refl] c
    by (simp add: ids)
qed

text \<open>
  Keys of one length can still collide in epochs of different lengths. The number of the epoch 1 is one byte
  and that of 513 is 1 and 2, so a key that starts with 2 in the epoch 1 and a shifted key in the epoch 513 give
  identifiers of which one begins the other: \<open>Get\<close> for the first peer returns the value of the second.
\<close>

definition peer_one :: bytes where "peer_one = CHR 0x02 # CHR 0x02 # replicate 31 CHR ''A''"
definition peer_two :: bytes where "peer_two = CHR 0x02 # replicate 32 CHR ''A''"

theorem Get_mixes_peers:
  "peer_one \<noteq> peer_two \<and> length peer_one = PublicKeyCompressedLen \<and> length peer_two = PublicKeyCompressedLen \<and>
   (\<exists>c. put_all [(sample_env, 1, peer_one, ''x''), (sample_env, 513, peer_two, ''y'')] new_contract = Inr c \<and>
     reputation_Get 1 peer_one c = Inr [''x'', ''y''])"
proof -
  have "case put_all [(sample_env, 1, peer_one, ''x''), (sample_env, 513, peer_two, ''y'')] new_contract of
      Inl _ \<Rightarrow> False | Inr c \<Rightarrow> reputation_Get 1 peer_one c = Inr [''x'', ''y'']" by code_simp
  moreover have "peer_one \<noteq> peer_two" by code_simp
  ultimately show ?thesis by (simp add: peer_one_def peer_two_def split: sum.splits)
qed

text \<open>The list of an epoch has the same search: the one of the epoch 1 holds the identifiers of the epoch 257.\<close>

theorem ListByEpoch_mixes_epochs:
  "\<exists>c. put_all [(sample_env, 257, keyA, ''x'')] new_contract = Inr c \<and> ListByEpoch 1 c = [storageID 257 keyA]"
proof -
  have "case put_all [(sample_env, 257, keyA, ''x'')] new_contract of
      Inl _ \<Rightarrow> False | Inr c \<Rightarrow> ListByEpoch 1 c = [storageID 257 keyA]" by code_simp
  then show ?thesis by (simp split: sum.splits)
qed

end
