(* ===== verification/Funds.thy ===== *)
theory Funds
  imports Prelude
begin

text \<open>
  \<open>divideFundsEvenly\<close> of the deployment procedure (\<open>deploy/funds.go\<close>): how an amount of tokens is
  split among the Alphabet contracts. The callback's calls are the list of its arguments; amounts are
  unsigned 64-bit integers.
\<close>

fun divide_loop :: "64 word \<Rightarrow> 64 word \<Rightarrow> nat \<Rightarrow> nat \<Rightarrow> (nat \<times> 64 word) list" where
  "divide_loop quot rm i 0 = []"
| "divide_loop quot rm i (Suc k) =
     (if rm > 0 then (i, quot + 1) # divide_loop quot (rm - 1) (Suc i) k
      else if quot = 0 then []
      else (i, quot) # divide_loop quot rm (Suc i) k)"

definition divideFundsEvenly :: "64 word \<Rightarrow> nat \<Rightarrow> (nat \<times> 64 word) list res" where
  "divideFundsEvenly fullAmount n = (if (of_nat n :: 64 word) = 0 then Inl (Panic ''integer divide by zero'')
     else Inr (divide_loop (fullAmount div of_nat n) (fullAmount mod of_nat n) 0 n))"

end
