(* ===== verification/Funds_Properties.thy ===== *)
theory Funds_Properties
  imports Funds
begin

text \<open>
  The division of funds is fair: nothing is lost, the shares differ by one unit at most, and nobody is
  sent zero.
\<close>

text \<open>The shares in closed form: the first \<open>r\<close> get one unit more.\<close>

definition shares :: "nat \<Rightarrow> nat \<Rightarrow> nat \<Rightarrow> nat list" where
  "shares q r k = replicate (min r k) (q + 1) @ (if q = 0 then [] else replicate (k - r) q)"

lemma divide_loop_shares:
  assumes "rm > 0 \<Longrightarrow> unat quot + 1 < 2 ^ 64"
  shows "map fst (divide_loop quot rm i k) = [i..<i + length (divide_loop quot rm i k)] \<and>
    map (\<lambda>p. unat (snd p)) (divide_loop quot rm i k) = shares (unat quot) (unat rm) k"
  using assms
proof (induction quot rm i k rule: divide_loop.induct)
  case (2 quot rm i k)
  show ?case
  proof (cases "rm > 0")
    case True
    then have rm: "unat (rm - 1) = unat rm - 1" "0 < unat rm"
      by (simp_all add: unat_minus_one word_gt_0 unat_gt_0)
    have q: "unat (quot + 1) = unat quot + 1" using 2(3) True
      by (simp add: unat_word_ariths)
    have "map fst (divide_loop quot (rm - 1) (Suc i) k) = [Suc i..<Suc i + length (divide_loop quot (rm - 1) (Suc i) k)] \<and>
      map (\<lambda>p. unat (snd p)) (divide_loop quot (rm - 1) (Suc i) k) = shares (unat quot) (unat (rm - 1)) k"
      using 2(1) True 2(3) by blast
    moreover have "shares (unat quot) (unat rm) (Suc k) = (unat quot + 1) # shares (unat quot) (unat rm - 1) k"
      using rm(2) by (cases "unat rm") (auto simp: shares_def)
    ultimately show ?thesis using True rm(1) q by (simp add: upt_conv_Cons del: upt_Suc)
  next
    case False
    then have rm: "rm = 0" by (simp add: word_gt_0)
    show ?thesis
    proof (cases "quot = 0")
      case True
      then show ?thesis using rm by (simp add: shares_def)
    next
      case False
      have "map fst (divide_loop quot rm (Suc i) k) = [Suc i..<Suc i + length (divide_loop quot rm (Suc i) k)] \<and>
        map (\<lambda>p. unat (snd p)) (divide_loop quot rm (Suc i) k) = shares (unat quot) (unat rm) k"
        using 2(2) False rm by simp
      then show ?thesis using rm False by (simp add: shares_def upt_conv_Cons unat_eq_0 del: upt_Suc)
    qed
  qed
qed (simp add: shares_def)

text \<open>C34: funds are divided evenly. For any amount and any number of recipients from one up,
  \<open>divideFundsEvenly\<close> visits the recipients in order from the first, gives out exactly the amount,
  never zero, each one the amount divided by their number, or one unit more to the first ones, and
  reaches all of them unless there are fewer units than recipients; for no recipient at all it panics.\<close>

theorem divideFundsEvenly_fair:
  assumes "0 < n" and "n < 2 ^ 64"
  shows "divideFundsEvenly full 0 = Inl (Panic ''integer divide by zero'') \<and>
    (\<exists>ps. divideFundsEvenly full n = Inr ps \<and> map fst ps = [0..<min n (unat full)] \<and>
      sum_list (map (\<lambda>p. unat (snd p)) ps) = unat full \<and>
      (\<forall>p \<in> set ps. unat (snd p) \<noteq> 0 \<and> unat (snd p) = unat full div n + of_bool (fst p < unat full mod n)))"
proof -
  let ?q = "full div of_nat n" and ?r = "full mod of_nat n"
  have n: "unat (of_nat n :: 64 word) = n" using assms(2) by (simp add: unsigned_of_nat take_bit_nat_eq_self_iff)
  then have nz: "(of_nat n :: 64 word) \<noteq> 0" using assms(1) by (metis neq0_conv unat_0)
  have q: "unat ?q = unat full div n" and r: "unat ?r = unat full mod n"
    by (simp_all add: unat_div unat_mod n)
  define ps where "ps = divide_loop ?q ?r 0 n"
  have "unat full < 2 ^ 64" using unsigned_less [where 'a = nat, of full] by simp
  have "unat ?q + 1 < 2 ^ 64" if "?r > 0"
  proof -
    have "n \<noteq> 1" using that r by (auto simp: word_gt_0 unat_eq_0 [symmetric])
    then have "unat full div n \<le> unat full div 2" using assms(1) by (intro div_le_mono2) auto
    then show ?thesis using q \<open>unat full < 2 ^ 64\<close> by simp
  qed
  then have ps: "map fst ps = [0..<length ps]" "map (\<lambda>p. unat (snd p)) ps = shares (unat full div n) (unat full mod n) n"
    using divide_loop_shares [of ?r ?q 0 n] by (simp_all add: ps_def q r)
  have rn: "unat full mod n < n" using assms(1) by simp
  have len: "length ps = min n (unat full)"
  proof -
    have "length ps = length (shares (unat full div n) (unat full mod n) n)" using ps(2) by (metis length_map)
    also have "\<dots> = min n (unat full)"
    proof (cases "unat full < n")
      case True
      then show ?thesis by (simp add: shares_def)
    next
      case False
      then have "unat full div n \<noteq> 0" using assms(1) by (simp add: div_eq_0_iff)
      then show ?thesis using rn False by (simp add: shares_def)
    qed
    finally show ?thesis .
  qed
  have total: "sum_list (shares (unat full div n) (unat full mod n) n) = unat full"
  proof -
    have "sum_list (shares (unat full div n) (unat full mod n) n) = unat full mod n * (unat full div n + 1) + (n - unat full mod n) * (unat full div n)"
      using rn by (simp add: shares_def sum_list_replicate min_def)
    also have "\<dots> = unat full mod n + (unat full mod n + (n - unat full mod n)) * (unat full div n)"
      by (simp add: algebra_simps)
    also have "\<dots> = unat full" using rn by simp
    finally show ?thesis .
  qed
  have elem: "unat (snd p) \<noteq> 0 \<and> unat (snd p) = unat full div n + of_bool (fst p < unat full mod n)" if p: "p \<in> set ps" for p
  proof -
    obtain j where j: "j < length ps" "p = ps ! j" using p by (metis in_set_conv_nth)
    have "fst p = j" using ps(1) j by (metis add_0 length_map nth_map nth_upt)
    moreover have "unat (snd p) = shares (unat full div n) (unat full mod n) n ! j"
      using ps(2) j by (metis (no_types, lifting) nth_map)
    moreover have "j < length (shares (unat full div n) (unat full mod n) n)" using ps(2) j by (metis length_map)
    ultimately show ?thesis using rn by (auto simp: shares_def nth_append split: if_splits)
  qed
  have "divideFundsEvenly full n = Inr ps" using nz by (simp add: divideFundsEvenly_def ps_def)
  moreover have "divideFundsEvenly full 0 = Inl (Panic ''integer divide by zero'')" by (simp add: divideFundsEvenly_def)
  moreover have "map fst ps = [0..<min n (unat full)]" using ps(1) len by simp
  moreover have "sum_list (map (\<lambda>p. unat (snd p)) ps) = unat full" using ps(2) total by simp
  ultimately show ?thesis using elem by blast
qed

theorem divideFundsEvenly_fair_witness:
  "\<exists>ps. divideFundsEvenly 17 5 = Inr ps \<and> map fst ps = [0, 1, 2, 3, 4] \<and> sum_list (map (\<lambda>p. unat (snd p)) ps) = 17"
  using divideFundsEvenly_fair [of 5 17] by (auto simp: upt_rec)

end
