(* ===== verification/Deploy_Base.thy ===== *)
theory Deploy_Base
  imports NNS_Contract
begin

text \<open>
  What the deployment procedure (package \<open>deploy\<close>) is made of. It is a client: it reads the network,
  decides and sends transactions, again and again, once per block. The model keeps that shape. What a read
  or a sending gives is a field of an observation, a parameter; the decision of one round is a function from
  the observation and the local state to the new local state, an outcome and the log of what was sent. Logging,
  the parent context and the transport are left out.
\<close>

section \<open>Rounds\<close>

text \<open>
  The outcome of a round: look again (\<open>continue\<close>), or return a value. \<open>block_loop\<close> is the loop
  \<open>for ; ; err = monitor.waitForNextBlock(ctx)\<close>: the first round starts at once, each later one after
  the wait for a block, which fails (\<open>None\<close>) when the context is done or the connection is lost. When the
  observations end, the procedure is still waiting.
\<close>

datatype 'r outcome = Again | Return 'r

fun block_loop :: "('v \<Rightarrow> 's \<Rightarrow> 'r outcome \<times> 's \<times> 'm list) \<Rightarrow> 'r \<Rightarrow> 'v option list \<Rightarrow> 's \<Rightarrow> 'r outcome \<times> 's \<times> 'm list" where
  "block_loop body failed [] s = (Again, s, [])"
| "block_loop body failed (None # vs) s = (Return failed, s, [])"
| "block_loop body failed (Some v # vs) s = (case body v s of
     (Return r, s', ms) \<Rightarrow> (Return r, s', ms)
   | (Again, s', ms) \<Rightarrow> (case block_loop body failed vs s' of (r, s'', ms') \<Rightarrow> (r, s'', ms @ ms')))"

lemma block_loop_invariant:
  assumes "block_loop body failed vs s = (r, s', ms)" and "I s"
    and "\<And>v s r s' ms. Some v \<in> set vs \<Longrightarrow> I s \<Longrightarrow> body v s = (r, s', ms) \<Longrightarrow> I s' \<and> list_all Q ms"
  shows "I s' \<and> list_all Q ms"
  using assms
proof (induction body failed vs s arbitrary: r s' ms rule: block_loop.induct)
  case (3 body failed v vs s)
  obtain r1 s1 ms1 where b: "body v s = (r1, s1, ms1)" by (cases "body v s") auto
  have one: "I s1 \<and> list_all Q ms1" using 3(4) [OF _ 3(3) b] by simp
  show ?case
  proof (cases r1)
    case Again
    obtain r2 s2 ms2 where l: "block_loop body failed vs s1 = (r2, s2, ms2)" by (cases "block_loop body failed vs s1") auto
    have "I s2 \<and> list_all Q ms2"
      by (rule 3(1) [OF b [symmetric] Again refl l conjunct1 [OF one]]) (rule 3(4), simp_all)
    then show ?thesis using 3(2) one by (auto simp: b l Again)
  qed (use 3(2) one b in simp)
qed simp_all

text \<open>Errors of the RPC client, as far as the code tells them apart (\<open>errors.Is\<close>) and their text.\<close>

record rpc_error =
  InsufficientFunds :: bool
  VerificationFailed :: bool
  UnknownContract :: bool
  err_text :: string

definition ErrAlreadyUpdated :: string where
  "ErrAlreadyUpdated = ''contract is already of the latest version''"

definition isErrContractAlreadyUpdated :: "rpc_error \<Rightarrow> bool" where
  "isErrContractAlreadyUpdated e \<longleftrightarrow> sublist ErrAlreadyUpdated (err_text e)"

definition isErrTLDNotFound :: "rpc_error \<Rightarrow> bool" where
  "isErrTLDNotFound e \<longleftrightarrow> sublist ''TLD not found'' (err_text e)"

text \<open>
  \<open>transactionGroupMonitor\<close>: a flag, set when a transaction is tracked and cleared by the routine that
  waits for it. \<open>settle\<close> is what that routine may have done before a round: \<open>done\<close> tells whether it
  has cleared the flag.
\<close>

definition trackPending :: "bool \<Rightarrow> bool" where
  "trackPending pending = True"

definition monitor_reset :: "bool \<Rightarrow> bool" where
  "monitor_reset pending = False"

definition settle :: "bool \<Rightarrow> bool \<Rightarrow> bool" where
  "settle done pending \<longleftrightarrow> pending \<and> \<not> done"

section \<open>Reading the NNS\<close>

text \<open>Stack items as the client tells them apart, and the result of a test invocation.\<close>

datatype item = ItemNull | ItemArray "item list" | ItemBytes bytes | ItemOther

datatype call_result = Item item | CallException string | CallFailed

datatype lookup_error = MissingDomain | MissingDomainRecord | LookupFailed

definition try_bytes :: "item \<Rightarrow> bytes option" where
  "try_bytes i = (case i of ItemBytes b \<Rightarrow> Some b | _ \<Rightarrow> None)"

definition lookupNNSDomainRecord :: "(string \<Rightarrow> call_result) \<Rightarrow> string \<Rightarrow> lookup_error + string" where
  "lookupNNSDomainRecord resolve_call domainName = (case resolve_call domainName of
     CallException e \<Rightarrow> if sublist ''token not found'' e then Inl MissingDomain else Inl LookupFailed
   | CallFailed \<Rightarrow> Inl LookupFailed
   | Item (ItemArray (i # is)) \<Rightarrow> (case try_bytes i of Some b \<Rightarrow> Inr b | None \<Rightarrow> Inl LookupFailed)
   | Item (ItemArray []) \<Rightarrow> Inl MissingDomainRecord
   | Item ItemNull \<Rightarrow> Inl MissingDomainRecord
   | Item _ \<Rightarrow> Inl LookupFailed)"

text \<open>The answer of this repository's own NNS contract to \<open>resolve(name, TXT)\<close>.\<close>

definition nns_resolve_call :: "env \<Rightarrow> nns \<Rightarrow> string \<Rightarrow> call_result" where
  "nns_resolve_call E c name = (case nns_Resolve E name RT_TXT c of
     Inr [] \<Rightarrow> Item ItemNull
   | Inr rs \<Rightarrow> Item (ItemArray (map ItemBytes rs))
   | Inl (Panic m) \<Rightarrow> CallException m
   | Inl (Fault m) \<Rightarrow> CallException m
   | Inl (Abort m) \<Rightarrow> CallException m)"

text \<open>Names and settings (nns.go).\<close>

definition domainBootstrap :: string where "domainBootstrap = ''bootstrap''"
definition domainDesignateNotaryPrefix :: string where "domainDesignateNotaryPrefix = ''designate-committee-notary-''"
definition domainDesignateNotaryTx :: string where "domainDesignateNotaryTx = domainDesignateNotaryPrefix @ ''tx.'' @ domainBootstrap"
definition domainContractAddresses :: string where "domainContractAddresses = ''neofs''"
definition domainContainer :: string where "domainContainer = ''container''"

definition calculateAlphabetContractAddressDomain :: "nat \<Rightarrow> string" where
  "calculateAlphabetContractAddressDomain index = ''alphabet'' @ itoa10 (int index)"

definition designateNotarySignatureDomainForMember :: "nat \<Rightarrow> string" where
  "designateNotarySignatureDomainForMember memberIndex =
     domainDesignateNotaryPrefix @ itoa10 (int memberIndex) @ ''.'' @ domainBootstrap"

definition methodNNSRegister :: string where "methodNNSRegister = ''register''"
definition methodNNSRegisterTLD :: string where "methodNNSRegisterTLD = ''registerTLD''"
definition methodNNSAddRecord :: string where "methodNNSAddRecord = ''addRecord''"
definition methodNNSSetRecord :: string where "methodNNSSetRecord = ''setRecord''"

definition nnsRefresh :: int where "nnsRefresh = 3600"
definition nnsRetry :: int where "nnsRetry = 600"
definition nnsExpire :: int where "nnsExpire = 10 * 365 * 24 * 3600"
definition nnsMinimum :: int where "nnsMinimum = 3600"

text \<open>A call of a contract method: contract, method and arguments.\<close>

datatype carg = CString string | CInt int | CHash bytes | CBytes bytes | CNone | CList "carg list"

datatype call = Call bytes string "carg list"

definition register_call :: "bytes \<Rightarrow> string \<Rightarrow> bytes \<Rightarrow> string \<Rightarrow> call" where
  "register_call nnsContract domain sender email = Call nnsContract methodNNSRegister
     [CString domain, CHash sender, CString email, CInt nnsRefresh, CInt nnsRetry, CInt nnsExpire, CInt nnsMinimum]"

definition add_record_call :: "bytes \<Rightarrow> string \<Rightarrow> string \<Rightarrow> call" where
  "add_record_call nnsContract domain rec = Call nnsContract methodNNSAddRecord [CString domain, CInt RT_TXT, CString rec]"

definition set_record_call :: "bytes \<Rightarrow> string \<Rightarrow> string \<Rightarrow> call" where
  "set_record_call nnsContract domain rec =
     Call nnsContract methodNNSSetRecord [CString domain, CInt RT_TXT, CInt 0, CString rec]"

section \<open>Roles and the parameters of transactions (deploy.go)\<close>

definition checkRole :: "rpc_error + bytes list \<Rightarrow> bytes list \<Rightarrow> rpc_error + bool" where
  "checkRole currentRoles committee = (case currentRoles of
     Inl e \<Rightarrow> Inl e
   | Inr roles \<Rightarrow> if length roles < length committee then Inr False
       else Inr (list_all (\<lambda>k. k \<in> set roles) committee))"

text \<open>First for the notary role, second for the Alphabet's.\<close>

definition checkCommitteeRoles :: "rpc_error + bytes list \<Rightarrow> rpc_error + bytes list \<Rightarrow> bytes list \<Rightarrow> rpc_error + bool \<times> bool" where
  "checkCommitteeRoles notaryKeys alphabetKeys committee = (case checkRole notaryKeys committee of
     Inl e \<Rightarrow> Inl e
   | Inr notaryRole \<Rightarrow> (case checkRole alphabetKeys committee of
       Inl e \<Rightarrow> Inl e
     | Inr alphaRole \<Rightarrow> Inr (notaryRole, alphaRole)))"

text \<open>
  \<open>neoFSRuntimeTransactionModifier\<close>: nonce and last valid block of a transaction whose test invocation
  halted, from the height; unsigned 32-bit integers.
\<close>

definition runtime_span :: "32 word" where "runtime_span = 100"

definition neoFSRuntimeTransactionModifier :: "bool \<Rightarrow> 32 word \<Rightarrow> (32 word \<times> 32 word) option" where
  "neoFSRuntimeTransactionModifier halted curHeight = (if \<not> halted then None
     else let n = curHeight div runtime_span; nonce = n * runtime_span in
       Some (nonce, if (- 1) - runtime_span > nonce then nonce + runtime_span else - 1))"

definition encodeUintConfig :: "64 word \<Rightarrow> bytes" where
  "encodeUintConfig v = int_bytes (uint v)"

end
