(* ===== verification/Base64.thy ===== *)
theory Base64
  imports StdLib
begin

text \<open>
  The standard Base64 encoding (\<open>encoding/base64.StdEncoding\<close>) that the deployment uses for the records
  its members exchange: three bytes become four characters, the last group is padded with equality signs.
  Decoding skips line breaks.
\<close>

definition b64_alphabet :: string where
  "b64_alphabet = ''ABCDEFGHIJKLMNOPQRSTUVWXYZabcdefghijklmnopqrstuvwxyz0123456789+/''"

definition b64_char :: "int \<Rightarrow> char" where
  "b64_char d = b64_alphabet ! nat d"

fun index_of_char :: "char \<Rightarrow> string \<Rightarrow> int \<Rightarrow> int option" where
  "index_of_char c [] i = None"
| "index_of_char c (x # xs) i = (if x = c then Some i else index_of_char c xs (i + 1))"

definition b64_val :: "char \<Rightarrow> int option" where
  "b64_val c = index_of_char c b64_alphabet 0"

text \<open>A 24-bit group as its four digits and as its three bytes.\<close>

definition b64_digits :: "int \<Rightarrow> string" where
  "b64_digits v = [b64_char (v div 262144 mod 64), b64_char (v div 4096 mod 64), b64_char (v div 64 mod 64), b64_char (v mod 64)]"

definition byte_at :: "int \<Rightarrow> char" where
  "byte_at v = char_of (v mod 256)"

definition group :: "char \<Rightarrow> char \<Rightarrow> char \<Rightarrow> int" where
  "group a b c = of_char a * 65536 + of_char b * 256 + of_char c"

fun b64_encode :: "bytes \<Rightarrow> string" where
  "b64_encode [] = []"
| "b64_encode [a] = take 2 (b64_digits (group a CHR 0x00 CHR 0x00)) @ ''==''"
| "b64_encode [a, b] = take 3 (b64_digits (group a b CHR 0x00)) @ ''=''"
| "b64_encode (a # b # c # rest) = b64_digits (group a b c) @ b64_encode rest"

fun b64_quanta :: "string \<Rightarrow> bytes option" where
  "b64_quanta [] = Some []"
| "b64_quanta (p # q # r # s # rest) =
     (case (b64_val p, b64_val q) of
        (Some a, Some b) \<Rightarrow>
          (case (b64_val r, b64_val s) of
             (Some c, Some d) \<Rightarrow>
               let v = a * 262144 + b * 4096 + c * 64 + d in
               map_option (\<lambda>bs. byte_at (v div 65536) # byte_at (v div 256) # byte_at v # bs) (b64_quanta rest)
           | (Some c, None) \<Rightarrow>
               let v = a * 262144 + b * 4096 + c * 64 in
               if s = CHR ''='' \<and> rest = [] then Some [byte_at (v div 65536), byte_at (v div 256)] else None
           | _ \<Rightarrow>
               let v = a * 262144 + b * 4096 in
               if r = CHR ''='' \<and> s = CHR ''='' \<and> rest = [] then Some [byte_at (v div 65536)] else None)
      | _ \<Rightarrow> None)"
| "b64_quanta _ = None"

definition b64_decode :: "string \<Rightarrow> bytes option" where
  "b64_decode s = b64_quanta (filter (\<lambda>c. c \<noteq> CHR 0x0A \<and> c \<noteq> CHR 0x0D) s)"

lemma b64_val_char: "0 \<le> d \<Longrightarrow> d < 64 \<Longrightarrow> b64_val (b64_char d) = Some d"
proof -
  have "\<forall>d \<in> set [0..63]. b64_val (b64_char d) = Some d" by code_simp
  then show "0 \<le> d \<Longrightarrow> d < 64 \<Longrightarrow> b64_val (b64_char d) = Some d" by simp
qed

lemma b64_char_plain: "0 \<le> d \<Longrightarrow> d < 64 \<Longrightarrow> b64_char d \<noteq> CHR 0x0A \<and> b64_char d \<noteq> CHR 0x0D \<and> b64_char d \<noteq> CHR ''=''"
proof -
  have "\<forall>d \<in> set [0..63]. b64_char d \<noteq> CHR 0x0A \<and> b64_char d \<noteq> CHR 0x0D \<and> b64_char d \<noteq> CHR ''=''" by code_simp
  then show "0 \<le> d \<Longrightarrow> d < 64 \<Longrightarrow> b64_char d \<noteq> CHR 0x0A \<and> b64_char d \<noteq> CHR 0x0D \<and> b64_char d \<noteq> CHR ''=''" by simp
qed

lemma b64_val_pad: "b64_val CHR ''='' = None"
  by code_simp

lemma byte_at_of_char: "v mod 256 = of_char c \<Longrightarrow> byte_at v = c"
  by (simp add: byte_at_def)

text \<open>A group is put together again from its digits, and its bytes are those it was made of.\<close>

lemma group_digits:
  fixes v :: int
  assumes "0 \<le> v" and "v < 16777216"
  shows "(v div 262144 mod 64) * 262144 + (v div 4096 mod 64) * 4096 + (v div 64 mod 64) * 64 + v mod 64 = v"
proof -
  define a b c where "a = v div 64" and "b = a div 64" and "c = b div 64"
  have div: "v div 4096 = b" "v div 262144 = c" by (simp_all add: a_def b_def c_def flip: zdiv_zmult2_eq)
  have "0 \<le> c" "c < 64" using assms zdiv_mono1 [of v 16777215 262144] by (simp_all add: pos_imp_zdiv_nonneg_iff flip: div(2))
  moreover have "v = a * 64 + v mod 64" "a = b * 64 + a mod 64" "b = c * 64 + b mod 64"
    by (simp_all add: a_def b_def c_def)
  ultimately show ?thesis unfolding div a_def [symmetric] by (simp only: mod_pos_pos_trivial)
qed

lemma group_bounds: "0 \<le> group a b c" "group a b c < 16777216"
  unfolding group_def using of_char_bounds [of a] of_char_bounds [of b] of_char_bounds [of c] by linarith+

lemma group_bytes: "byte_at (group a b c div 65536) = a" "byte_at (group a b c div 256) = b" "byte_at (group a b c) = c"
proof -
  define x y z :: int where "x = of_char a" and "y = of_char b" and "z = of_char c"
  have less: "0 \<le> x" "x < 256" "0 \<le> y" "y < 256" "0 \<le> z" "z < 256" using of_char_bounds by (simp_all only: x_def y_def z_def)
  have g: "group a b c = z + (y + x * 256) * 256" by (simp add: group_def x_def y_def z_def algebra_simps)
  have d: "(z + (y + x * 256) * 256) div 256 = y + x * 256" "(y + x * 256) div 256 = x" using less by simp_all
  have "group a b c div 65536 = x" using d zdiv_zmult2_eq [of 256 "group a b c" 256] by (simp add: g)
  then show "byte_at (group a b c div 65536) = a" using less by (intro byte_at_of_char) (simp add: x_def)
  have "group a b c div 256 mod 256 = y" "group a b c mod 256 = z" using less by (simp_all only: g d mod_mult_self1) simp_all
  then show "byte_at (group a b c div 256) = b" "byte_at (group a b c) = c"
    by (auto intro!: byte_at_of_char simp: y_def z_def)
qed

lemma group_low_digits:
  "group a b CHR 0x00 mod 64 = 0" "group a CHR 0x00 CHR 0x00 div 64 mod 64 = 0"
proof -
  have "group a b CHR 0x00 = 64 * (of_char a * 1024 + of_char b * 4)" by (simp add: group_def)
  then show "group a b CHR 0x00 mod 64 = 0" by simp
  have "group a CHR 0x00 CHR 0x00 = 64 * (64 * (of_char a * 16))" by (simp add: group_def)
  then show "group a CHR 0x00 CHR 0x00 div 64 mod 64 = 0" by simp
qed

lemma b64_digits_group:
  obtains p q r s where "b64_digits (group a b c) = [b64_char p, b64_char q, b64_char r, b64_char s]"
    "p \<in> {0..<64}" "q \<in> {0..<64}" "r \<in> {0..<64}" "s \<in> {0..<64}" "p * 262144 + q * 4096 + r * 64 + s = group a b c"
    "s = group a b c mod 64" "r = group a b c div 64 mod 64"
proof -
  show thesis
    by (rule that [OF b64_digits_def _ _ _ _ group_digits [OF group_bounds] refl refl]) simp_all
qed

lemma b64_quanta_encode: "b64_quanta (b64_encode bs) = Some bs"
proof (induction bs rule: b64_encode.induct)
  case (2 a)
  obtain p q r s where d: "b64_digits (group a CHR 0x00 CHR 0x00) = [b64_char p, b64_char q, b64_char r, b64_char s]"
    "p \<in> {0..<64}" "q \<in> {0..<64}" "p * 262144 + q * 4096 + r * 64 + s = group a CHR 0x00 CHR 0x00" "s = 0" "r = 0"
    using b64_digits_group [of a "CHR 0x00" "CHR 0x00"] group_low_digits(1) [of a "CHR 0x00"] group_low_digits(2) [of a] by metis
  then show ?case using group_bytes(1) [of a "CHR 0x00" "CHR 0x00"] by (simp add: b64_val_char b64_val_pad Let_def)
next
  case (3 a b)
  obtain p q r s where d: "b64_digits (group a b CHR 0x00) = [b64_char p, b64_char q, b64_char r, b64_char s]"
    "p \<in> {0..<64}" "q \<in> {0..<64}" "r \<in> {0..<64}" "p * 262144 + q * 4096 + r * 64 + s = group a b CHR 0x00" "s = 0"
    using b64_digits_group [of a b "CHR 0x00"] group_low_digits(1) [of a b] by metis
  then show ?case using group_bytes(1,2) [of a b "CHR 0x00"] by (simp add: b64_val_char b64_val_pad Let_def)
next
  case (4 a b c rest)
  obtain p q r s where "b64_digits (group a b c) = [b64_char p, b64_char q, b64_char r, b64_char s]"
    "p \<in> {0..<64}" "q \<in> {0..<64}" "r \<in> {0..<64}" "s \<in> {0..<64}" "p * 262144 + q * 4096 + r * 64 + s = group a b c"
    using b64_digits_group [of a b c] by metis
  then show ?case using 4 group_bytes [of a b c] by (simp add: b64_val_char Let_def)
qed simp

lemma b64_digits_plain: "x \<in> set (b64_digits v) \<Longrightarrow> x \<noteq> CHR 0x0A \<and> x \<noteq> CHR 0x0D"
  using b64_char_plain [of "_ mod 64"] by (auto simp: b64_digits_def)

lemma b64_encode_plain: "x \<in> set (b64_encode bs) \<Longrightarrow> x \<noteq> CHR 0x0A \<and> x \<noteq> CHR 0x0D"
proof (induction bs rule: b64_encode.induct)
  case (2 a)
  then consider "x \<in> set (take 2 (b64_digits (group a CHR 0x00 CHR 0x00)))" | "x = CHR ''=''" by auto
  then show ?case by cases (auto dest!: in_set_takeD b64_digits_plain)
next
  case (3 a b)
  then consider "x \<in> set (take 3 (b64_digits (group a b CHR 0x00)))" | "x = CHR ''=''" by auto
  then show ?case by cases (auto dest!: in_set_takeD b64_digits_plain)
next
  case (4 a b c rest)
  then show ?case by (auto dest: b64_digits_plain)
qed simp

lemma b64_decode_encode [simp]: "b64_decode (b64_encode bs) = Some bs"
proof -
  have "filter (\<lambda>c. c \<noteq> CHR 0x0A \<and> c \<noteq> CHR 0x0D) (b64_encode bs) = b64_encode bs"
    using b64_encode_plain by (intro filter_True) blast
  then show ?thesis by (simp only: b64_decode_def b64_quanta_encode)
qed

end
