(* ===== verification/Deploy_Notary.thy ===== *)
theory Deploy_Notary
  imports Deploy_Base Base64 "HOL-Library.AList"
begin

text \<open>
  Enabling the notary service for the committee (\<open>deploy/notary.go\<close>). The role is designated by a
  transaction that a majority of the committee has to sign before there is a notary service to collect the
  signatures: the first member (the leader) publishes the parameters of the transaction as a record of the
  NNS, the others publish their signatures as records, the leader collects them and sends the transaction.

  Accounts, keys and digests are byte strings. Signing, verification, SHA-256 and the construction of an
  unsigned transaction belong to the client library: they are fields of \<open>notary_prm\<close> and of the
  observation \<open>notary_view\<close>.
\<close>

section \<open>Shared data of the transaction\<close>

record sharedTransactionData =
  sender :: bytes
  validUntilBlock :: "32 word"
  nonce :: "32 word"

definition Uint160Size :: nat where "Uint160Size = 20"
definition sharedTransactionDataLen :: nat where "sharedTransactionDataLen = Uint160Size + 4 + 4"
definition sharedTransactionDataChecksumLen :: nat where "sharedTransactionDataChecksumLen = 4"

definition shared_bytes :: "sharedTransactionData \<Rightarrow> bytes" where
  "shared_bytes x = sender x @ uint32_be (uint (validUntilBlock x)) @ uint32_be (uint (nonce x))"

definition encodeToString :: "sharedTransactionData \<Rightarrow> string" where
  "encodeToString x = b64_encode (shared_bytes x)"

definition decodeString :: "string \<Rightarrow> sharedTransactionData option" where
  "decodeString s = (case b64_decode s of
     None \<Rightarrow> None
   | Some b \<Rightarrow> if length b \<noteq> sharedTransactionDataLen then None
       else Some \<lparr>sender = take Uint160Size b,
         validUntilBlock = word_of_int (be_uint32 (take 4 (drop Uint160Size b))),
         nonce = word_of_int (be_uint32 (take 4 (drop (Uint160Size + 4) b)))\<rparr>)"

definition unshiftChecksum :: "(bytes \<Rightarrow> bytes) \<Rightarrow> sharedTransactionData \<Rightarrow> bytes \<Rightarrow> bytes" where
  "unshiftChecksum sha256 x payload = take sharedTransactionDataChecksumLen (sha256 (shared_bytes x)) @ payload"

definition shiftChecksum :: "(bytes \<Rightarrow> bytes) \<Rightarrow> sharedTransactionData \<Rightarrow> bytes \<Rightarrow> bool \<times> bytes" where
  "shiftChecksum sha256 x payload =
     (if length payload < sharedTransactionDataChecksumLen then (False, payload)
      else if \<not> prefix (take sharedTransactionDataChecksumLen (sha256 (shared_bytes x))) payload then (False, [])
      else (True, drop sharedTransactionDataChecksumLen payload))"

section \<open>The transaction\<close>

text \<open>
  \<open>tx_content\<close> is everything the client library fills in (the script and the fees). Two witnesses belong
  to the transaction, the leader's and the committee's; \<open>tx_committee_script\<close> is the invocation script
  of the second (\<open>Scripts[1].InvocationScript\<close>), to which the signatures are appended.
\<close>

record transaction =
  tx_nonce :: "32 word"
  tx_vub :: "32 word"
  tx_signers :: "bytes list"
  tx_content :: bytes
  tx_committee_script :: bytes

definition sharedTxDataMatches :: "transaction \<Rightarrow> sharedTransactionData \<Rightarrow> bool" where
  "sharedTxDataMatches tx d \<longleftrightarrow> nonce d = tx_nonce tx \<and> validUntilBlock d = tx_vub tx \<and>
     tx_signers tx \<noteq> [] \<and> tx_signers tx ! 0 = sender d"

definition makeUnsignedDesignateCommitteeNotaryTx ::
  "rpc_error + transaction \<Rightarrow> sharedTransactionData \<Rightarrow> rpc_error + transaction" where
  "makeUnsignedDesignateCommitteeNotaryTx unsignedTx d = (case unsignedTx of
     Inl e \<Rightarrow> Inl e
   | Inr tx \<Rightarrow> Inr (tx\<lparr>tx_vub := validUntilBlock d, tx_nonce := nonce d, tx_signers := (tx_signers tx)[0 := sender d]\<rparr>))"

section \<open>Parameters, observations and messages\<close>

datatype msg = SendCall call | SendTx transaction | Designate "bytes list"

record notary_prm =
  p_nns :: bytes                                  \<comment> \<open>address of the NNS contract\<close>
  p_email :: string
  p_committee :: "bytes list"                     \<comment> \<open>keys, in order\<close>
  p_majority :: nat                               \<comment> \<open>GetMajorityHonestNodeCount of the committee's size\<close>
  p_index :: nat                                  \<comment> \<open>of the local account in the committee\<close>
  p_sender :: bytes                               \<comment> \<open>local account\<close>
  p_key :: bytes                                  \<comment> \<open>key of the local account\<close>
  p_sign_local :: "transaction \<Rightarrow> transaction option"      \<comment> \<open>localAcc.SignTx\<close>
  p_sign_committee :: "transaction \<Rightarrow> transaction option"  \<comment> \<open>committeeMultiSigAcc.SignTx\<close>
  p_sign_hash :: "transaction \<Rightarrow> bytes"           \<comment> \<open>localAcc.SignHashable\<close>
  p_verify :: "bytes \<Rightarrow> bytes \<Rightarrow> transaction \<Rightarrow> bool"      \<comment> \<open>key.VerifyHashable(signature, transaction)\<close>
  p_sha256 :: "bytes \<Rightarrow> bytes"

record notary_view =
  v_roles :: "rpc_error + bytes list"             \<comment> \<open>GetDesignatedByRole(P2PNotary)\<close>
  v_height :: "32 word"
  v_max_increment :: "rpc_error + 32 word"        \<comment> \<open>GetVersion, MaxValidUntilBlockIncrement\<close>
  v_random :: "32 word"
  v_resolve :: "string \<Rightarrow> call_result"             \<comment> \<open>NNS resolution of TXT records\<close>
  v_unsigned :: "rpc_error + transaction"         \<comment> \<open>DesignateAsRoleUnsigned\<close>
  v_send :: "msg \<Rightarrow> rpc_error option"              \<comment> \<open>the error of a sending, if any\<close>
  v_order :: "(nat \<times> bytes) list \<Rightarrow> (nat \<times> bytes) list"  \<comment> \<open>order in which Go walks through the map\<close>
  v_register_done :: bool                         \<comment> \<open>what the monitors have seen since the last round\<close>
  v_set_done :: bool
  v_designate_done :: bool

definition v_lookup :: "notary_view \<Rightarrow> string \<Rightarrow> lookup_error + string" where
  "v_lookup v = lookupNNSDomainRecord (v_resolve v)"

text \<open>A log entry is a message with whether the network took it.\<close>

type_synonym log = "(msg \<times> bool) list"

definition log_of :: "notary_view \<Rightarrow> msg \<Rightarrow> log" where
  "log_of v m = [(m, v_send v m = None)]"

section \<open>A committee of one\<close>

definition local_tick :: "notary_prm \<Rightarrow> notary_view \<Rightarrow> bool \<Rightarrow> bool \<times> log" where
  "local_tick P v pending0 =
     (let pending = settle (v_designate_done v) pending0; m = Designate [p_key P] in
      if pending then (pending, [])
      else (case v_send v m of
          Some e \<Rightarrow> (pending, [(m, False)])
        | None \<Rightarrow> (trackPending pending, [(m, True)])))"

section \<open>The leader\<close>

record leader =
  l_tx :: "transaction option"
  l_sigs :: "(nat \<times> bytes) list"   \<comment> \<open>committee index to signature\<close>
  l_full :: bool                   \<comment> \<open>txFullySigned\<close>
  l_tried :: bool                  \<comment> \<open>triedDesignateRoleTx\<close>
  l_register :: bool               \<comment> \<open>the three monitors\<close>
  l_set :: bool
  l_designate :: bool

definition new_leader :: leader where
  "new_leader = \<lparr>l_tx = None, l_sigs = [], l_full = False, l_tried = False,
     l_register = False, l_set = False, l_designate = False\<rparr>"

definition resetTx :: "leader \<Rightarrow> leader" where
  "resetTx st = st\<lparr>l_tx := None, l_sigs := [], l_full := False, l_set := monitor_reset (l_set st),
     l_designate := monitor_reset (l_designate st)\<rparr>"

definition defaultValidUntilBlockIncrement :: "32 word" where "defaultValidUntilBlockIncrement = 120"

definition shared_vub :: "32 word \<Rightarrow> 32 word \<Rightarrow> 32 word" where
  "shared_vub height maxIncrement = (if defaultValidUntilBlockIncrement \<le> maxIncrement
     then height + defaultValidUntilBlockIncrement else height + maxIncrement)"

definition generateAndShareTxData :: "notary_prm \<Rightarrow> notary_view \<Rightarrow> bool \<Rightarrow> leader \<Rightarrow> leader \<times> log" where
  "generateAndShareTxData P v recordExists st0 =
     (let st = resetTx st0 in
      case v_max_increment v of
        Inl e \<Rightarrow> (st, [])
      | Inr maxIncrement \<Rightarrow>
          let d = \<lparr>sender = p_sender P, validUntilBlock = shared_vub (v_height v) maxIncrement, nonce = v_random v\<rparr>;
              m = SendCall (if recordExists then set_record_call (p_nns P) domainDesignateNotaryTx (encodeToString d)
                            else add_record_call (p_nns P) domainDesignateNotaryTx (encodeToString d)) in
          case v_send v m of
            Some e \<Rightarrow> (st, [(m, False)])
          | None \<Rightarrow> (st\<lparr>l_set := trackPending (l_set st)\<rparr>, [(m, True)]))"

text \<open>The domain of the shared data is missing: register it, unless that is under way.\<close>

definition register_tx_domain :: "notary_prm \<Rightarrow> notary_view \<Rightarrow> string \<Rightarrow> bool \<Rightarrow> bool \<times> log" where
  "register_tx_domain P v domain pending =
     (if pending then (pending, [])
      else let m = SendCall (register_call (p_nns P) domain (p_sender P) (p_email P)) in
        case v_send v m of
          Some e \<Rightarrow> (pending, [(m, False)])
        | None \<Rightarrow> (trackPending pending, [(m, True)]))"

text \<open>
  The transaction for the shared data: the one made before when it still matches, otherwise a new one,
  signed twice. The boolean tells whether the round goes on. A signing that fails leaves the transaction as it is.
\<close>

definition leader_new_tx :: "notary_prm \<Rightarrow> notary_view \<Rightarrow> sharedTransactionData \<Rightarrow> bool \<times> transaction option" where
  "leader_new_tx P v d = (case makeUnsignedDesignateCommitteeNotaryTx (v_unsigned v) d of
     Inl e \<Rightarrow> (False, None)
   | Inr tx \<Rightarrow> (case p_sign_local P tx of
       None \<Rightarrow> (False, Some tx)
     | Some tx1 \<Rightarrow> (case p_sign_committee P tx1 of
         None \<Rightarrow> (False, Some tx1)
       | Some tx2 \<Rightarrow> (True, Some tx2))))"

definition leader_make_tx :: "notary_prm \<Rightarrow> notary_view \<Rightarrow> sharedTransactionData \<Rightarrow> transaction option \<Rightarrow> bool \<times> transaction option" where
  "leader_make_tx P v d old = (case old of
     None \<Rightarrow> leader_new_tx P v d
   | Some tx \<Rightarrow> if sharedTxDataMatches tx d then (True, Some tx) else leader_new_tx P v d)"

text \<open>
  The loop that collects signatures: \<open>None\<close> when there are too many invalid ones. The indices run over
  \<open>range committee[1:]\<close>, that is from 0 to the size minus two.
\<close>

definition needRemoteSignatures :: "notary_prm \<Rightarrow> nat" where
  "needRemoteSignatures P = p_majority P - 1"

definition member_signature :: "notary_prm \<Rightarrow> notary_view \<Rightarrow> sharedTransactionData \<Rightarrow> nat \<Rightarrow> bytes option" where
  "member_signature P v d i = (case v_lookup v (designateNotarySignatureDomainForMember i) of
     Inl e \<Rightarrow> None
   | Inr rec \<Rightarrow> (case b64_decode rec of
       None \<Rightarrow> None
     | Some bRec \<Rightarrow> (case shiftChecksum (p_sha256 P) d bRec of
         (checksumMatches, bSignature) \<Rightarrow> if checksumMatches then Some bSignature else None)))"

fun collect_signatures ::
  "notary_prm \<Rightarrow> notary_view \<Rightarrow> sharedTransactionData \<Rightarrow> transaction \<Rightarrow> nat list \<Rightarrow> nat \<Rightarrow> (nat \<times> bytes) list \<Rightarrow> (nat \<times> bytes) list option" where
  "collect_signatures P v d tx [] invalid sigs = Some sigs"
| "collect_signatures P v d tx (i # is) invalid sigs = (case member_signature P v d i of
     None \<Rightarrow> collect_signatures P v d tx is invalid sigs
   | Some sig \<Rightarrow>
       if \<not> p_verify P (p_committee P ! i) sig tx
       then (if invalid + 1 + p_majority P > length (p_committee P) then None
             else collect_signatures P v d tx is (invalid + 1) sigs)
       else let sigs' = AList.update i sig sigs in
         if length sigs' = needRemoteSignatures P then Some sigs'
         else collect_signatures P v d tx is invalid sigs')"

text \<open>The signatures are appended to the invocation script: PUSHDATA1, length, signature.\<close>

definition push_signature :: "bytes \<Rightarrow> bytes" where
  "push_signature sig = [CHR 0x0C, char_of (length sig)] @ sig"

definition finalize_tx :: "notary_view \<Rightarrow> (nat \<times> bytes) list \<Rightarrow> transaction \<Rightarrow> transaction" where
  "finalize_tx v sigs tx =
     tx\<lparr>tx_committee_script := tx_committee_script tx @ concat (map (push_signature \<circ> snd) (v_order v sigs))\<rparr>"

text \<open>The end of the round, when there are enough signatures.\<close>

definition leader_send :: "notary_prm \<Rightarrow> notary_view \<Rightarrow> transaction \<Rightarrow> leader \<Rightarrow> leader \<times> log" where
  "leader_send P v tx st0 =
     (if l_register st0 then (st0, [])
      else if l_tried st0 then generateAndShareTxData P v True st0
      else let tx' = (if l_full st0 then tx else finalize_tx v (l_sigs st0) tx);
               st = st0\<lparr>l_tx := Some tx', l_full := True\<rparr>; m = SendTx tx' in
        case v_send v m of
          Some e \<Rightarrow>
            if InsufficientFunds e then (st, [(m, False)])
            else if VerificationFailed e
            then (case generateAndShareTxData P v True st of (st', ms) \<Rightarrow> (st', (m, False) # ms))
            else (st, [(m, False)])
        | None \<Rightarrow> (st\<lparr>l_tried := True, l_designate := trackPending (l_designate st)\<rparr>, [(m, True)]))"

definition leader_collect :: "notary_prm \<Rightarrow> notary_view \<Rightarrow> sharedTransactionData \<Rightarrow> transaction \<Rightarrow> leader \<Rightarrow> leader \<times> log" where
  "leader_collect P v d tx st =
     (if length (l_sigs st) < needRemoteSignatures P
      then (case collect_signatures P v d tx [0..<length (p_committee P) - 1] 0 (l_sigs st) of
          None \<Rightarrow> generateAndShareTxData P v True st
        | Some sigs \<Rightarrow>
            let st' = st\<lparr>l_sigs := sigs\<rparr> in
            if length sigs < needRemoteSignatures P then (st', []) else leader_send P v tx st')
      else leader_send P v tx st)"

definition leader_tick :: "notary_prm \<Rightarrow> notary_view \<Rightarrow> leader \<Rightarrow> leader \<times> log" where
  "leader_tick P v st0 =
     (let st = st0\<lparr>l_register := settle (v_register_done v) (l_register st0),
                   l_set := settle (v_set_done v) (l_set st0),
                   l_designate := settle (v_designate_done v) (l_designate st0)\<rparr> in
      case v_lookup v domainDesignateNotaryTx of
        Inl MissingDomain \<Rightarrow>
          (case register_tx_domain P v domainDesignateNotaryTx (l_register st) of (r, ms) \<Rightarrow> (st\<lparr>l_register := r\<rparr>, ms))
      | Inl LookupFailed \<Rightarrow> (st, [])
      | Inl MissingDomainRecord \<Rightarrow> if l_set st then (st, []) else generateAndShareTxData P v False st
      | Inr strSharedTxData \<Rightarrow> (case decodeString strSharedTxData of
            None \<Rightarrow> (st, [])
          | Some d \<Rightarrow>
              if v_height v > validUntilBlock d then generateAndShareTxData P v True st
              else (case leader_make_tx P v d (l_tx st) of
                  (False, tx) \<Rightarrow> (st\<lparr>l_tx := tx\<rparr>, [])
                | (True, None) \<Rightarrow> (st, [])
                | (True, Some tx) \<Rightarrow> leader_collect P v d tx (st\<lparr>l_tx := Some tx\<rparr>))))"

section \<open>The other members\<close>

record signer =
  s_tx :: "transaction option"
  s_register :: bool
  s_set :: bool

definition new_signer :: signer where
  "new_signer = \<lparr>s_tx = None, s_register = False, s_set = False\<rparr>"

definition signer_resetTx :: "signer \<Rightarrow> signer" where
  "signer_resetTx st = st\<lparr>s_tx := None, s_set := monitor_reset (s_set st)\<rparr>"

text \<open>The signature record to publish: signed data with the checksum of the shared data in front.\<close>

definition signature_record :: "notary_prm \<Rightarrow> sharedTransactionData \<Rightarrow> transaction \<Rightarrow> string" where
  "signature_record P d tx = b64_encode (unshiftChecksum (p_sha256 P) d (p_sign_hash P tx))"

definition publish_signature ::
  "notary_prm \<Rightarrow> notary_view \<Rightarrow> sharedTransactionData \<Rightarrow> transaction \<Rightarrow> string \<Rightarrow> bool \<Rightarrow> signer \<Rightarrow> signer \<times> log" where
  "publish_signature P v d tx domain recordExists st =
     (let rec = signature_record P d tx;
          m = SendCall (if recordExists then set_record_call (p_nns P) domain rec else add_record_call (p_nns P) domain rec) in
      case v_send v m of
        Some e \<Rightarrow> (st, [(m, False)])
      | None \<Rightarrow> (st\<lparr>s_set := trackPending (s_set st)\<rparr>, [(m, True)]))"

text \<open>Whether the record this member has published is still its signature of the transaction.\<close>

definition record_is_stale :: "notary_prm \<Rightarrow> sharedTransactionData \<Rightarrow> transaction \<Rightarrow> bytes \<Rightarrow> bool" where
  "record_is_stale P d tx bRec = (case shiftChecksum (p_sha256 P) d bRec of
     (checksumMatches, bSignature) \<Rightarrow> \<not> checksumMatches \<or> \<not> p_verify P (p_key P) bSignature tx)"

definition signer_record :: "notary_prm \<Rightarrow> notary_view \<Rightarrow> sharedTransactionData \<Rightarrow> transaction \<Rightarrow> signer \<Rightarrow> signer \<times> log" where
  "signer_record P v d tx st =
     (let domain = designateNotarySignatureDomainForMember (p_index P) in
      case v_lookup v domain of
        Inl MissingDomain \<Rightarrow>
          (case register_tx_domain P v domain (s_register st) of (r, ms) \<Rightarrow> (st\<lparr>s_register := r\<rparr>, ms))
      | Inl LookupFailed \<Rightarrow> (st, [])
      | Inl MissingDomainRecord \<Rightarrow> if s_set st then (st, []) else publish_signature P v d tx domain False st
      | Inr rec \<Rightarrow> (case b64_decode rec of
            None \<Rightarrow> (st, [])
          | Some bRec \<Rightarrow> if record_is_stale P d tx bRec then publish_signature P v d tx domain True st else (st, [])))"

definition signer_tick :: "notary_prm \<Rightarrow> notary_view \<Rightarrow> signer \<Rightarrow> signer \<times> log" where
  "signer_tick P v st0 =
     (let st = st0\<lparr>s_register := settle (v_register_done v) (s_register st0), s_set := settle (v_set_done v) (s_set st0)\<rparr> in
      case v_lookup v domainDesignateNotaryTx of
        Inl e \<Rightarrow> (st, [])
      | Inr strSharedTxData \<Rightarrow> (case decodeString strSharedTxData of
            None \<Rightarrow> (st, [])
          | Some d \<Rightarrow>
              if v_height v > validUntilBlock d then (signer_resetTx st, [])
              else (case (case s_tx st of
                      None \<Rightarrow> makeUnsignedDesignateCommitteeNotaryTx (v_unsigned v) d
                    | Some tx \<Rightarrow> if sharedTxDataMatches tx d then Inr tx else makeUnsignedDesignateCommitteeNotaryTx (v_unsigned v) d) of
                  Inl e \<Rightarrow> (st\<lparr>s_tx := None\<rparr>, [])
                | Inr tx \<Rightarrow> signer_record P v d tx (st\<lparr>s_tx := Some tx\<rparr>))))"

section \<open>Until the role is there\<close>

text \<open>
  \<open>enableNotary\<close>: each round checks the role of the members first. The state is that of the member's part:
  the only member, the leader or another.
\<close>

datatype member_state = Local bool | Leader leader | Signer signer

definition member_start :: "notary_prm \<Rightarrow> member_state" where
  "member_start P = (if length (p_committee P) = 1 then Local False
     else if p_index P = 0 then Leader new_leader else Signer new_signer)"

fun member_tick :: "notary_prm \<Rightarrow> notary_view \<Rightarrow> member_state \<Rightarrow> member_state \<times> log" where
  "member_tick P v (Local pending) = (case local_tick P v pending of (s, ms) \<Rightarrow> (Local s, ms))"
| "member_tick P v (Leader st) = (case leader_tick P v st of (s, ms) \<Rightarrow> (Leader s, ms))"
| "member_tick P v (Signer st) = (case signer_tick P v st of (s, ms) \<Rightarrow> (Signer s, ms))"

definition enableNotary_round :: "notary_prm \<Rightarrow> notary_view \<Rightarrow> member_state \<Rightarrow> (string + unit) outcome \<times> member_state \<times> log" where
  "enableNotary_round P v s = (case checkRole (v_roles v) (p_committee P) of
     Inl e \<Rightarrow> (Again, s, [])
   | Inr True \<Rightarrow> (Return (Inr ()), s, [])
   | Inr False \<Rightarrow> (Again, member_tick P v s))"

definition enableNotary :: "notary_prm \<Rightarrow> notary_view option list \<Rightarrow> (string + unit) outcome \<times> member_state \<times> log" where
  "enableNotary P vs = block_loop (enableNotary_round P)
     (Inl ''wait for Notary service to be enabled for the committee'') vs (member_start P)"

end
