(* ===== verification/Notary_Properties.thy ===== *)
theory Notary_Properties
  imports Deploy_Notary Sample "HOL-Library.Multiset"
begin

text \<open>
  What the procedure that enables the notary service does: the members understand each other's records,
  the leader sends the designation with a quorum of valid signatures, but sends it once at most and never
  looks at the record of the last member.
\<close>

section \<open>Records\<close>

lemma shared_bytes_parts:
  assumes "length (sender d) = Uint160Size"
  shows "length (shared_bytes d) = sharedTransactionDataLen" "take Uint160Size (shared_bytes d) = sender d"
    "take 4 (drop Uint160Size (shared_bytes d)) = uint32_be (uint (validUntilBlock d))"
    "take 4 (drop (Uint160Size + 4) (shared_bytes d)) = uint32_be (uint (nonce d))"
  using assms by (simp_all add: shared_bytes_def sharedTransactionDataLen_def)

lemma be_uint32_word: "word_of_int (be_uint32 (uint32_be (uint w))) = (w :: 32 word)"
proof -
  have "uint w < 4294967296" using unsigned_less [of w] by simp
  then show ?thesis by (simp add: be_uint32_be)
qed

lemma decodeString_encodeToString: "length (sender d) = Uint160Size \<Longrightarrow> decodeString (encodeToString d) = Some d"
  using shared_bytes_parts [of d] by (simp add: decodeString_def encodeToString_def be_uint32_word)

lemma shiftChecksum_unshiftChecksum:
  "length (sha256 (shared_bytes d)) = 32 \<Longrightarrow> shiftChecksum sha256 d (unshiftChecksum sha256 d payload) = (True, payload)"
  by (simp add: shiftChecksum_def unshiftChecksum_def sharedTransactionDataChecksumLen_def)

section \<open>What the leader's steps send\<close>

fun sends_tx :: "msg \<times> bool \<Rightarrow> bool" where
  "sends_tx (SendTx t, ok) \<longleftrightarrow> True"
| "sends_tx _ \<longleftrightarrow> False"

lemma share_log:
  assumes "generateAndShareTxData P v b st = (st', ms)"
  shows "\<not> list_ex sends_tx ms" "l_tried st' = l_tried st" "l_sigs st' = []"
  using assms by (auto simp: generateAndShareTxData_def Let_def resetTx_def split: sum.splits option.splits)

lemma register_log: "register_tx_domain P v name p = (r, ms) \<Longrightarrow> \<not> list_ex sends_tx ms"
  by (auto simp: register_tx_domain_def Let_def split: if_splits option.splits)

text \<open>The three ways a sending step ends.\<close>

lemma leader_send_cases:
  assumes "leader_send P v tx st = (st', ms)"
  obtains (silent) "\<not> list_ex sends_tx ms" "l_tried st' = l_tried st" "l_sigs st' \<in> {[], l_sigs st}"
  | (refused) "\<not> l_tried st" "l_tried st' = l_tried st" "l_sigs st' \<in> {[], l_sigs st}"
      "filter sends_tx ms = [(SendTx (if l_full st then tx else finalize_tx v (l_sigs st) tx), False)]"
  | (accepted) "\<not> l_tried st" "l_tried st'" "l_sigs st' = l_sigs st"
      "ms = [(SendTx (if l_full st then tx else finalize_tx v (l_sigs st) tx), True)]"
proof -
  let ?t = "if l_full st then tx else finalize_tx v (l_sigs st) tx"
  let ?st = "st\<lparr>l_tx := Some ?t, l_full := True\<rparr>"
  consider "l_register st" | "\<not> l_register st" "l_tried st" | "\<not> l_register st" "\<not> l_tried st" by blast
  then show ?thesis
  proof cases
    case 1
    then show ?thesis using assms silent by (simp add: leader_send_def)
  next
    case 2
    then have "generateAndShareTxData P v True st = (st', ms)" using assms by (simp add: leader_send_def)
    then show ?thesis using share_log silent by blast
  next
    case 3
    show ?thesis
    proof (cases "v_send v (SendTx ?t)")
      case None
      then show ?thesis using assms accepted 3 by (auto simp: leader_send_def Let_def)
    next
      case (Some e)
      consider "st' = ?st" "ms = [(SendTx ?t, False)]"
        | ms' where "generateAndShareTxData P v True ?st = (st', ms')" "ms = (SendTx ?t, False) # ms'"
        using assms Some 3 by (auto simp: leader_send_def Let_def split: if_splits prod.splits)
      then show ?thesis
      proof cases
        case 1
        then show ?thesis using refused 3 by simp
      next
        case 2
        then have "filter sends_tx ms' = []" "l_tried st' = l_tried st" "l_sigs st' = []"
          using share_log [OF 2(1)] by (auto simp: list_ex_iff filter_empty_conv)
        then show ?thesis using refused 3 2(2) by simp
      qed
    qed
  qed
qed

text \<open>A round either sends nothing of the kind or comes down to a sending step for the shared data.\<close>

lemma leader_tick_cases:
  assumes "leader_tick P v st = (st', ms)"
  obtains (silent) "\<not> list_ex sends_tx ms" "l_tried st' = l_tried st" "l_sigs st' \<in> {[], l_sigs st}"
  | (collecting) d tx sigs where "collect_signatures P v d tx [0..<length (p_committee P) - 1] 0 (l_sigs st) = Some sigs"
      "\<not> list_ex sends_tx ms" "l_tried st' = l_tried st" "l_sigs st' = sigs"
  | (sending) rec d tx sigs st1 where "v_lookup v domainDesignateNotaryTx = Inr rec" "decodeString rec = Some d"
      "v_height v \<le> validUntilBlock d" "leader_make_tx P v d (l_tx st) = (True, Some tx)"
      "length (l_sigs st) < needRemoteSignatures P \<longrightarrow>
         collect_signatures P v d tx [0..<length (p_committee P) - 1] 0 (l_sigs st) = Some sigs"
      "needRemoteSignatures P \<le> length (l_sigs st) \<longrightarrow> sigs = l_sigs st"
      "needRemoteSignatures P \<le> length sigs" "l_sigs st1 = sigs" "l_tried st1 = l_tried st" "l_full st1 = l_full st"
      "leader_send P v tx st1 = (st', ms)"
proof -
  let ?st = "st\<lparr>l_register := settle (v_register_done v) (l_register st), l_set := settle (v_set_done v) (l_set st),
    l_designate := settle (v_designate_done v) (l_designate st)\<rparr>"
  have share: thesis if "generateAndShareTxData P v b s = (st', ms)" "l_tried s = l_tried st" for b s
    using silent share_log [OF that(1)] that(2) by simp
  have collect: thesis if "v_lookup v domainDesignateNotaryTx = Inr rec" "decodeString rec = Some d" "v_height v \<le> validUntilBlock d"
    and tx: "leader_make_tx P v d (l_tx st) = (True, Some tx)" and "leader_collect P v d tx (?st\<lparr>l_tx := Some tx\<rparr>) = (st', ms)" for rec d tx
  proof (cases "length (l_sigs st) < needRemoteSignatures P")
    case True
    show ?thesis
    proof (cases "collect_signatures P v d tx [0..<length (p_committee P) - 1] 0 (l_sigs st)")
      case None
      then show ?thesis using that(5) True share [of True] by (auto simp: leader_collect_def)
    next
      case (Some sigs)
      show ?thesis
      proof (cases "length sigs < needRemoteSignatures P")
        case True
        then show ?thesis using that(5) Some \<open>length (l_sigs st) < _\<close> collecting [OF Some] by (auto simp: leader_collect_def Let_def)
      next
        case False
        then show ?thesis using that Some True by (intro sending [OF that(1-4)]) (auto simp: leader_collect_def Let_def)
      qed
    qed
  next
    case False
    then show ?thesis using that by (intro sending [OF that(1-4)]) (auto simp: leader_collect_def Let_def)
  qed
  show ?thesis using assms share register_log collect silent
    by (auto simp: leader_tick_def Let_def not_less split: sum.splits lookup_error.splits option.splits if_splits prod.splits bool.splits)
qed

section \<open>Signatures\<close>

lemma update_signature:
  "set (AList.update i s xs) \<subseteq> insert (i, s) (set xs)" "distinct (map fst xs) \<Longrightarrow> distinct (map fst (AList.update i s xs))"
  by (induction xs) (auto simp: distinct_update)

lemma collected:
  assumes "collect_signatures P v d tx is invalid sigs = Some sigs'" and "distinct (map fst sigs)"
  shows "distinct (map fst sigs') \<and> (\<forall>(i, s) \<in> set sigs'. (i, s) \<in> set sigs \<or>
    i \<in> set is \<and> member_signature P v d i = Some s \<and> p_verify P (p_committee P ! i) s tx)"
  using assms
proof (induction P v d tx "is" invalid sigs rule: collect_signatures.induct)
  case (2 P v d tx i "is" invalid sigs)
  show ?case
  proof (cases "member_signature P v d i")
    case None
    then show ?thesis using 2 by fastforce
  next
    case (Some s)
    show ?thesis
    proof (cases "p_verify P (p_committee P ! i) s tx")
      case False
      then show ?thesis using 2 Some by (fastforce split: if_splits)
    next
      case True
      note upd = update_signature [where i = i and s = s and xs = sigs]
      show ?thesis
      proof (cases "length (AList.update i s sigs) = needRemoteSignatures P")
        case True
        then show ?thesis using 2(4,5) Some \<open>p_verify P _ s tx\<close> upd by auto
      next
        case False
        then have "distinct (map fst sigs') \<and> (\<forall>(j, t) \<in> set sigs'. (j, t) \<in> set (AList.update i s sigs) \<or>
            j \<in> set is \<and> member_signature P v d j = Some t \<and> p_verify P (p_committee P ! j) t tx)"
          using 2(3) [OF Some] 2(4,5) Some True upd(2) by simp
        then show ?thesis using upd(1) True Some by fastforce
      qed
    qed
  qed
qed simp

section \<open>Runs of the leader\<close>

fun accepted_tx :: "msg \<times> bool \<Rightarrow> bool" where
  "accepted_tx (m, ok) \<longleftrightarrow> sends_tx (m, ok) \<and> ok"

lemma accepted_sends: "accepted_tx x \<Longrightarrow> sends_tx x"
  by (cases x; cases "snd x") auto

lemma filter_accepted: "filter accepted_tx ms = filter accepted_tx (filter sends_tx ms)"
  using accepted_sends by (induction ms) auto

lemma leader_tick_once:
  assumes "leader_tick P v st = (st', ms)"
  shows "length (filter accepted_tx ms) + of_bool (l_tried st) = (of_bool (l_tried st') :: nat)"
proof -
  have quiet: "filter accepted_tx ms = []" if "\<not> list_ex sends_tx ms"
    using that accepted_sends by (auto simp: list_ex_iff filter_empty_conv)
  from assms show ?thesis
  proof (cases rule: leader_tick_cases)
    case (sending rec d tx sigs st1)
    from sending(11) show ?thesis
      by (cases rule: leader_send_cases) (use sending(9) quiet in \<open>simp_all add: filter_accepted\<close>)
  qed (simp_all add: quiet)
qed

lemma leader_round:
  assumes "leader_tick P v st = (st1, ms1)"
  obtains "enableNotary_round P v (Leader st) = (Again, Leader st, [])"
  | "enableNotary_round P v (Leader st) = (Return (Inr ()), Leader st, [])"
  | "enableNotary_round P v (Leader st) = (Again, Leader st1, ms1)"
proof (cases "checkRole (v_roles v) (p_committee P)")
  case (Inl e)
  then show ?thesis using that(1) by (simp add: enableNotary_round_def)
next
  case (Inr b)
  then show ?thesis using that(2,3) assms by (cases b) (simp_all add: enableNotary_round_def)
qed

lemma enableNotary_once:
  "block_loop (enableNotary_round P) f vs (Leader st) = (r, s', ms) \<Longrightarrow>
   length (filter accepted_tx ms) + of_bool (l_tried st) \<le> 1"
proof (induction vs arbitrary: st r s' ms)
  case (Cons w vs)
  show ?case
  proof (cases w)
    case (Some v)
    obtain st1 ms1 where t: "leader_tick P v st = (st1, ms1)" by (cases "leader_tick P v st")
    obtain r2 s2 ms2 where l: "block_loop (enableNotary_round P) f vs (Leader st1) = (r2, s2, ms2)"
      by (cases "block_loop (enableNotary_round P) f vs (Leader st1)") auto
    obtain r3 s3 ms3 where l0: "block_loop (enableNotary_round P) f vs (Leader st) = (r3, s3, ms3)"
      by (cases "block_loop (enableNotary_round P) f vs (Leader st)") auto
    from t show ?thesis
      by (cases rule: leader_round)
        (use Cons.prems leader_tick_once [OF t] Cons.IH [OF l] Cons.IH [OF l0] in \<open>auto simp: Some l l0 of_bool_def split: if_splits\<close>)
  qed (use Cons.prems in simp)
qed simp

lemma length_update: "length (AList.update i s xs) \<le> Suc (length xs)"
  by (induction xs) auto

lemma collected_length:
  "collect_signatures P v d tx is invalid sigs = Some sigs' \<Longrightarrow> length sigs < needRemoteSignatures P \<Longrightarrow>
   length sigs' \<le> needRemoteSignatures P"
proof (induction P v d tx "is" invalid sigs rule: collect_signatures.induct)
  case (2 P v d tx i "is" invalid sigs)
  show ?case
  proof (cases "member_signature P v d i")
    case (Some s)
    then show ?thesis using 2 length_update [of i s sigs] by (auto simp: Let_def split: if_splits)
  qed (use 2 in simp)
qed simp

text \<open>Only rounds that find a record under a member's domain can add that member's signature.\<close>

lemma member_signature_record:
  "member_signature P v d i = Some s \<Longrightarrow> \<exists>rec. v_lookup v (designateNotarySignatureDomainForMember i) = Inr rec"
  by (auto simp: member_signature_def split: sum.splits)

lemma leader_without_records:
  assumes "leader_tick P v st = (st', ms)" and "distinct (map fst (l_sigs st))" and "fst ` set (l_sigs st) \<subseteq> S"
    and S: "finite S" "card S < needRemoteSignatures P"
    and records: "\<And>i rec. i < length (p_committee P) - 1 \<Longrightarrow>
      v_lookup v (designateNotarySignatureDomainForMember i) = Inr rec \<Longrightarrow> i \<in> S"
  shows "distinct (map fst (l_sigs st')) \<and> fst ` set (l_sigs st') \<subseteq> S \<and> list_all (\<lambda>m. \<not> sends_tx m) ms"
proof -
  have few: "length xs < needRemoteSignatures P" if "distinct (map fst xs)" "fst ` set xs \<subseteq> S" for xs :: "(nat \<times> bytes) list"
    using distinct_card [OF that(1)] card_mono [OF S(1) that(2)] S(2) by simp
  have col: "distinct (map fst sigs) \<and> fst ` set sigs \<subseteq> S"
    if "collect_signatures P v d tx [0..<length (p_committee P) - 1] 0 (l_sigs st) = Some sigs" for d tx sigs
  proof
    note c = collected [OF that assms(2)]
    show "distinct (map fst sigs)" using c by blast
    show "fst ` set sigs \<subseteq> S"
    proof
      fix i assume "i \<in> fst ` set sigs"
      then obtain s where "(i, s) \<in> set sigs" by auto
      then consider "(i, s) \<in> set (l_sigs st)" | "i < length (p_committee P) - 1" "member_signature P v d i = Some s"
        using c by auto
      then show "i \<in> S"
      proof cases
        case 1
        then show ?thesis using assms(3) by force
      next
        case 2
        then show ?thesis using records [of i] member_signature_record by blast
      qed
    qed
  qed
  have quiet: "list_all (\<lambda>m. \<not> sends_tx m) xs" if "\<not> list_ex sends_tx xs" for xs
    using that by (simp add: list_ex_iff list_all_iff)
  from assms(1) show ?thesis
  proof (cases rule: leader_tick_cases)
    case silent
    then have "l_sigs st' = [] \<or> l_sigs st' = l_sigs st" by simp
    then show ?thesis using assms(2,3) quiet [OF silent(1)] by (elim disjE) simp_all
  next
    case (collecting d tx sigs)
    then show ?thesis using col quiet by simp
  next
    case (sending rec d tx sigs st1)
    then have "distinct (map fst sigs) \<and> fst ` set sigs \<subseteq> S" using col [of d tx sigs] few [OF assms(2,3)] by simp
    then show ?thesis using few [of sigs] sending(7) by simp
  qed
qed

lemma keep_matching:
  assumes "leader_make_tx P v d old = (True, Some tx)"
    and "\<And>t t'. p_sign_local P t = Some t' \<or> p_sign_committee P t = Some t' \<Longrightarrow>
      tx_nonce t' = tx_nonce t \<and> tx_vub t' = tx_vub t \<and> tx_signers t' = tx_signers t"
    and "\<And>t. v_unsigned v = Inr t \<Longrightarrow> tx_signers t \<noteq> []"
  shows "sharedTxDataMatches tx d"
proof -
  have "sharedTxDataMatches tx d" if new: "leader_new_tx P v d = (True, Some tx)"
  proof -
    obtain t t1 where t: "v_unsigned v = Inr t"
      "p_sign_local P (t\<lparr>tx_vub := validUntilBlock d, tx_nonce := nonce d, tx_signers := (tx_signers t)[0 := sender d]\<rparr>) = Some t1"
      "p_sign_committee P t1 = Some tx"
      using new by (auto simp: leader_new_tx_def makeUnsignedDesignateCommitteeNotaryTx_def split: sum.splits option.splits)
    then show ?thesis using assms(2) [OF disjI2 [OF t(3)]] assms(2) [OF disjI1 [OF t(2)]] assms(3) [OF t(1)]
      by (simp add: sharedTxDataMatches_def)
  qed
  then show ?thesis using assms(1) by (auto simp: leader_make_tx_def split: option.splits if_splits)
qed

text \<open>The domains of the members differ from each other and from that of the shared data.\<close>

lemma itoa10_inject: "itoa10 m = itoa10 n \<longleftrightarrow> m = n"
  by (metis atoi10_itoa10 sum.inject(2))

lemma signature_domain_inject:
  "designateNotarySignatureDomainForMember i = designateNotarySignatureDomainForMember j \<longleftrightarrow> i = j"
  by (simp add: designateNotarySignatureDomainForMember_def itoa10_inject)

lemma signature_domain_tx: "designateNotarySignatureDomainForMember i \<noteq> domainDesignateNotaryTx"
proof
  assume "designateNotarySignatureDomainForMember i = domainDesignateNotaryTx"
  then have "itoa10 (int i) @ ''.'' @ domainBootstrap = ''tx'' @ ''.'' @ domainBootstrap"
    by (simp add: designateNotarySignatureDomainForMember_def domainDesignateNotaryTx_def)
  then have "itoa10 (int i) = ''tx''" by (simp only: append_same_eq)
  then have "atoi10 ''tx'' = Inr (int i)" by (metis atoi10_itoa10)
  moreover have "atoi10 ''tx'' = Inl (Fault ''invalid format'')" by code_simp
  ultimately show False by simp
qed

text \<open>The leader's round does not depend on the record of the last member.\<close>

lemma leader_ignores_last_member:
  assumes "2 \<le> length (p_committee P)"
  shows "leader_tick P (v\<lparr>v_resolve := (v_resolve v)(designateNotarySignatureDomainForMember (length (p_committee P) - 1) := r)\<rparr>) st =
    leader_tick P v st"
proof -
  define n where "n = length (p_committee P) - 1"
  let ?v = "v\<lparr>v_resolve := (v_resolve v)(designateNotarySignatureDomainForMember n := r)\<rparr>"
  have look: "v_lookup ?v x = v_lookup v x" if "x \<noteq> designateNotarySignatureDomainForMember n" for x
    using that by (simp add: v_lookup_def lookupNNSDomainRecord_def)
  have sig: "member_signature P ?v d i = member_signature P v d i" if "i \<noteq> n" for d i
    using that by (simp add: member_signature_def look signature_domain_inject)
  have col: "collect_signatures P ?v d tx is k sigs = collect_signatures P v d tx is k sigs" if "n \<notin> set is" for d tx "is" k sigs
    using that by (induction "is" arbitrary: k sigs) (auto simp: sig Let_def split: option.splits)
  have same: "v_max_increment ?v = v_max_increment v" "v_height ?v = v_height v" "v_random ?v = v_random v"
    "v_send ?v = v_send v" "v_order ?v = v_order v" by simp_all
  have share: "generateAndShareTxData P ?v b s = generateAndShareTxData P v b s" for b s
    unfolding generateAndShareTxData_def same by (rule refl)
  have send: "leader_send P ?v tx s = leader_send P v tx s" for tx s
    unfolding leader_send_def finalize_tx_def share same by (rule refl)
  have range: "collect_signatures P ?v d tx [0..<n] k sigs = collect_signatures P v d tx [0..<n] k sigs" for d tx k sigs
    by (rule col) simp
  have "leader_collect P ?v d tx s = leader_collect P v d tx s" for d tx s
    unfolding leader_collect_def n_def [symmetric] range send share by (rule refl)
  moreover have "leader_new_tx P ?v d = leader_new_tx P v d" for d by (simp add: leader_new_tx_def)
  moreover have "register_tx_domain P ?v x p = register_tx_domain P v x p" for x p by (simp add: register_tx_domain_def)
  moreover have "v_lookup ?v domainDesignateNotaryTx = v_lookup v domainDesignateNotaryTx"
    using look [of domainDesignateNotaryTx] signature_domain_tx [of n] by metis
  moreover have "v_register_done ?v = v_register_done v" "v_set_done ?v = v_set_done v" "v_designate_done ?v = v_designate_done v"
    by simp_all
  ultimately show ?thesis unfolding leader_tick_def leader_make_tx_def n_def [symmetric] by (simp only: same share)
qed

section \<open>The properties\<close>

text \<open>C32: the members understand each other. What the leader publishes decodes to the parameters it chose,
  and the record a member publishes, put under the member's domain, is read by the leader as exactly the
  member's signature of the transaction, with the checksum of the shared data accepted; Base64 and the
  checksum in front lose nothing.\<close>

theorem signature_exchange:
  assumes "length (sender d) = Uint160Size" and "length (p_sha256 S (shared_bytes d)) = 32" and "p_sha256 L = p_sha256 S"
    and "v_resolve v (designateNotarySignatureDomainForMember i) = Item (ItemArray (ItemBytes (signature_record S d tx) # rest))"
  shows "decodeString (encodeToString d) = Some d \<and> member_signature L v d i = Some (p_sign_hash S tx)"
  using assms shiftChecksum_unshiftChecksum [of "p_sha256 S" d "p_sign_hash S tx"] decodeString_encodeToString [of d]
  by (simp add: member_signature_def v_lookup_def lookupNNSDomainRecord_def try_bytes_def signature_record_def)

text \<open>C11: a designation transaction carries a quorum. When the leader, in a round it starts without
  collected signatures, sends the designation, then the transaction has the nonce, the last valid block and the
  sender that the NNS record holds, that block is not passed, and the script of the committee's witness is
  extended by exactly the missing number of signatures (a majority less the leader's own), of distinct
  members, each of which verifies for this very transaction.\<close>

theorem leader_sends_quorum:
  assumes "leader_tick P v st = (st', ms)" and "(SendTx t, ok) \<in> set ms" and "l_sigs st = []" and "\<not> l_full st"
    and "\<And>t t'. p_sign_local P t = Some t' \<or> p_sign_committee P t = Some t' \<Longrightarrow>
      tx_nonce t' = tx_nonce t \<and> tx_vub t' = tx_vub t \<and> tx_signers t' = tx_signers t"
    and "\<And>t. v_unsigned v = Inr t \<Longrightarrow> tx_signers t \<noteq> []" and "\<And>xs. mset (v_order v xs) = mset xs"
  shows "\<exists>rec d tx sigs. v_lookup v domainDesignateNotaryTx = Inr rec \<and> decodeString rec = Some d \<and>
    v_height v \<le> validUntilBlock d \<and> sharedTxDataMatches tx d \<and>
    distinct (map fst sigs) \<and> length sigs = needRemoteSignatures P \<and>
    (\<forall>(i, s) \<in> set sigs. i < length (p_committee P) - 1 \<and> p_verify P (p_committee P ! i) s tx) \<and>
    (\<exists>order. mset order = mset sigs \<and>
      t = tx\<lparr>tx_committee_script := tx_committee_script tx @ concat (map (push_signature \<circ> snd) order)\<rparr>)"
proof -
  have sent: "list_ex sends_tx ms" using assms(2) by (auto simp: list_ex_iff intro!: bexI [of _ "(SendTx t, ok)"])
  from assms(1) show ?thesis
  proof (cases rule: leader_tick_cases)
    case (sending rec d tx sigs st1)
    have tx: "sharedTxDataMatches tx d" using keep_matching [OF sending(4) assms(5,6)] by simp
    have t: "t = finalize_tx v sigs tx"
    proof -
      from sending(11) have "(SendTx t, ok) \<in> set (filter sends_tx ms) \<Longrightarrow> t = finalize_tx v sigs tx"
        by (cases rule: leader_send_cases) (use sending(8,10) assms(4) in \<open>auto simp: list_ex_iff\<close>)
      then show ?thesis using assms(2) by simp
    qed
    have sigs: "distinct (map fst sigs) \<and> length sigs = needRemoteSignatures P \<and>
      (\<forall>(i, s) \<in> set sigs. i < length (p_committee P) - 1 \<and> p_verify P (p_committee P ! i) s tx)"
    proof (cases "needRemoteSignatures P = 0")
      case True
      then show ?thesis using sending(6) assms(3) by simp
    next
      case False
      then have c: "collect_signatures P v d tx [0..<length (p_committee P) - 1] 0 [] = Some sigs"
        using sending(5) assms(3) by simp
      then show ?thesis using collected [OF c] collected_length [OF c] sending(7) False by fastforce
    qed
    show ?thesis
      using sending(1-3) tx sigs t assms(7) [of sigs] unfolding finalize_tx_def by blast
  qed (use sent in simp_all)
qed

text \<open>The run of a leader.\<close>

lemma leader_run:
  "p_index P = 0 \<Longrightarrow> length (p_committee P) \<noteq> 1 \<Longrightarrow> enableNotary P vs = (r, s, ms) \<Longrightarrow>
   block_loop (enableNotary_round P) (Inl ''wait for Notary service to be enabled for the committee'') vs (Leader new_leader) = (r, s, ms)"
  by (simp add: enableNotary_def member_start_def)

text \<open>C17: the leader designates once at most. Over a whole run, whatever the network answers, at most
  one designation transaction is taken: once one was, every later round only publishes new shared data,
  even when the transaction has expired without an effect.\<close>

theorem leader_designates_once:
  assumes "p_index P = 0" and "length (p_committee P) \<noteq> 1" and "enableNotary P vs = (r, s, ms)"
  shows "length (filter accepted_tx ms) \<le> 1"
  using enableNotary_once [OF leader_run [OF assms(1-3)]] by simp

text \<open>C25: no quorum, no designation. If over a run only the members of a set smaller than the number of
  signatures the leader needs have records under their domains, counting the members from 0 to the one
  before the last only, the leader never sends a designation. The last member's record does not count:
  a leader of two, whose own domain stays empty, never succeeds.\<close>

theorem leader_needs_records:
  assumes "p_index P = 0" and "length (p_committee P) \<noteq> 1" and "finite S" and "card S < needRemoteSignatures P"
    and "\<And>v i rec. Some v \<in> set vs \<Longrightarrow> i < length (p_committee P) - 1 \<Longrightarrow>
      v_lookup v (designateNotarySignatureDomainForMember i) = Inr rec \<Longrightarrow> i \<in> S"
    and "enableNotary P vs = (r, s, ms)"
  shows "list_all (\<lambda>m. \<not> sends_tx m) ms"
proof -
  define I where "I = (\<lambda>s. \<exists>st. s = Leader st \<and> distinct (map fst (l_sigs st)) \<and> fst ` set (l_sigs st) \<subseteq> S)"
  have "I s \<and> list_all (\<lambda>m. \<not> sends_tx m) ms"
  proof (rule block_loop_invariant [OF leader_run [OF assms(1,2,6)]])
    show "I (Leader new_leader)" by (simp add: I_def new_leader_def)
  next
    fix v s r s' ms assume v: "Some v \<in> set vs" and "I s" and b: "enableNotary_round P v s = (r, s', ms)"
    then obtain st where st: "s = Leader st" "distinct (map fst (l_sigs st))" "fst ` set (l_sigs st) \<subseteq> S" by (auto simp: I_def)
    obtain st1 ms1 where t: "leader_tick P v st = (st1, ms1)" by (cases "leader_tick P v st")
    note w = leader_without_records [OF t st(2,3) assms(3,4) assms(5) [OF v]]
    from t show "I s' \<and> list_all (\<lambda>m. \<not> sends_tx m) ms"
      by (cases rule: leader_round) (use b st w in \<open>auto simp: I_def\<close>)
  qed
  then show ?thesis by blast
qed

section \<open>Concrete runs\<close>

definition sample_shared :: sharedTransactionData where
  "sample_shared = \<lparr>sender = addrA, validUntilBlock = 200, nonce = 7\<rparr>"

definition sample_prm :: "bytes list \<Rightarrow> nat \<Rightarrow> notary_prm" where
  "sample_prm ks i = \<lparr>p_nns = addrC, p_email = ''o@com'', p_committee = ks, p_majority = 2, p_index = i, p_sender = addrA,
     p_key = ks ! i, p_sign_local = Some, p_sign_committee = (\<lambda>t. Some (t\<lparr>tx_committee_script := push_signature (take 4 (ks ! i))\<rparr>)),
     p_sign_hash = (\<lambda>t. take 4 (ks ! i)), p_verify = (\<lambda>k s t. s = take 4 k), p_sha256 = (\<lambda>b. replicate 32 CHR ''s'')\<rparr>"

definition sample_tx :: transaction where
  "sample_tx = \<lparr>tx_nonce = 0, tx_vub = 0, tx_signers = [addrA, addrC], tx_content = ''designate'', tx_committee_script = []\<rparr>"

text \<open>The record of the shared data is there, and the signature of one member.\<close>

definition sample_notary_view :: "bytes list \<Rightarrow> nat \<Rightarrow> notary_view" where
  "sample_notary_view ks i = \<lparr>v_roles = Inr [], v_height = 100, v_max_increment = Inr 1000, v_random = 9,
     v_resolve = (\<lambda>x. if x = domainDesignateNotaryTx then Item (ItemArray [ItemBytes (encodeToString sample_shared)])
       else if x = designateNotarySignatureDomainForMember i
       then Item (ItemArray [ItemBytes (signature_record (sample_prm ks i) sample_shared sample_tx)])
       else CallException ''token not found''),
     v_unsigned = Inr sample_tx, v_send = (\<lambda>m. None), v_order = rev,
     v_register_done = True, v_set_done = True, v_designate_done = True\<rparr>"

lemma sample_shared_sel [simp]: "sender sample_shared = addrA" "validUntilBlock sample_shared = 200" "nonce sample_shared = 7"
  by (simp_all add: sample_shared_def)

theorem signature_exchange_witness:
  "decodeString (encodeToString sample_shared) = Some sample_shared \<and>
   member_signature (sample_prm [keyA, keyB, keyC] 0) (sample_notary_view [keyA, keyB, keyC] 1) sample_shared 1 = Some (take 4 keyB)"
  using signature_exchange [of sample_shared "sample_prm [keyA, keyB, keyC] 1" "sample_prm [keyA, keyB, keyC] 0"
      "sample_notary_view [keyA, keyB, keyC] 1" 1 sample_tx "[]"] signature_domain_tx [of 1]
  by (simp add: sample_prm_def sample_notary_view_def Uint160Size_def)

definition three :: notary_prm where "three = sample_prm [keyA, keyB, keyC] 0"
definition three_view :: notary_view where "three_view = sample_notary_view [keyA, keyB, keyC] 1"
definition two :: notary_prm where "two = sample_prm [keyA, keyB] 0"
definition two_view :: notary_view where "two_view = sample_notary_view [keyA, keyB] 1"

definition three_designation :: transaction where
  "three_designation = \<lparr>tx_nonce = 7, tx_vub = 200, tx_signers = [addrA, addrC], tx_content = ''designate'',
     tx_committee_script = push_signature (take 4 keyA) @ push_signature (take 4 keyB)\<rparr>"

lemma three_tick: "snd (leader_tick three three_view new_leader) = [(SendTx three_designation, True)]"
  by code_simp

theorem leader_sends_quorum_witness:
  "\<exists>st' ms. leader_tick three three_view new_leader = (st', ms) \<and> (SendTx three_designation, True) \<in> set ms \<and>
     (\<exists>rec d tx sigs. v_lookup three_view domainDesignateNotaryTx = Inr rec \<and> decodeString rec = Some d \<and>
       v_height three_view \<le> validUntilBlock d \<and> sharedTxDataMatches tx d \<and> distinct (map fst sigs) \<and>
       length sigs = needRemoteSignatures three \<and>
       (\<forall>(i, s) \<in> set sigs. i < length (p_committee three) - 1 \<and> p_verify three (p_committee three ! i) s tx) \<and>
       (\<exists>order. mset order = mset sigs \<and>
         three_designation = tx\<lparr>tx_committee_script := tx_committee_script tx @ concat (map (push_signature \<circ> snd) order)\<rparr>))"
proof -
  obtain st' ms where t: "leader_tick three three_view new_leader = (st', ms)" by (cases "leader_tick three three_view new_leader")
  then have sent: "(SendTx three_designation, True) \<in> set ms" using three_tick by simp
  have "\<exists>rec d tx sigs. v_lookup three_view domainDesignateNotaryTx = Inr rec \<and> decodeString rec = Some d \<and>
       v_height three_view \<le> validUntilBlock d \<and> sharedTxDataMatches tx d \<and> distinct (map fst sigs) \<and>
       length sigs = needRemoteSignatures three \<and>
       (\<forall>(i, s) \<in> set sigs. i < length (p_committee three) - 1 \<and> p_verify three (p_committee three ! i) s tx) \<and>
       (\<exists>order. mset order = mset sigs \<and>
         three_designation = tx\<lparr>tx_committee_script := tx_committee_script tx @ concat (map (push_signature \<circ> snd) order)\<rparr>)"
    by (rule leader_sends_quorum [OF t sent])
      (auto simp: new_leader_def three_def three_view_def sample_prm_def sample_notary_view_def sample_tx_def)
  then show ?thesis using t sent by blast
qed

text \<open>Three rounds with the same answers: a designation, and then shared data again and again.\<close>

lemma three_run:
  "map (\<lambda>(m, ok). (sends_tx (m, ok), ok)) (snd (snd (enableNotary three [Some three_view, Some three_view, Some three_view]))) =
   [(True, True), (False, True), (False, True)]"
  by code_simp

theorem leader_designates_once_witness:
  "length (filter accepted_tx (snd (snd (enableNotary three [Some three_view, Some three_view, Some three_view])))) \<le> 1 \<and>
   length (snd (snd (enableNotary three [Some three_view, Some three_view, Some three_view]))) = 3"
proof -
  let ?run = "enableNotary three [Some three_view, Some three_view, Some three_view]"
  have "length (filter accepted_tx (snd (snd ?run))) \<le> 1"
    by (rule leader_designates_once [where P = three and r = "fst ?run" and s = "fst (snd ?run)"])
      (simp_all add: three_def sample_prm_def)
  then show ?thesis using arg_cong [OF three_run, of length] by simp
qed

theorem leader_needs_records_witness:
  "list_all (\<lambda>m. \<not> sends_tx m) (snd (snd (enableNotary two [Some two_view, Some two_view]))) \<and>
   v_lookup two_view (designateNotarySignatureDomainForMember 1) =
     Inr (signature_record (sample_prm [keyA, keyB] 1) sample_shared sample_tx)"
proof -
  let ?run = "enableNotary two [Some two_view, Some two_view]"
  have rec: "v_lookup two_view (designateNotarySignatureDomainForMember i) = Inr rec \<Longrightarrow> i = 1" for i rec
    by (auto simp: two_view_def v_lookup_def lookupNNSDomainRecord_def sample_notary_view_def signature_domain_inject signature_domain_tx
        split: if_splits)
  have "list_all (\<lambda>m. \<not> sends_tx m) (snd (snd ?run))"
    by (rule leader_needs_records [where P = two and S = "{}" and r = "fst ?run" and s = "fst (snd ?run)" and vs = "[Some two_view, Some two_view]"])
      (use rec in \<open>auto simp: two_def sample_prm_def needRemoteSignatures_def\<close>)
  moreover have "v_lookup two_view (designateNotarySignatureDomainForMember 1) =
      Inr (signature_record (sample_prm [keyA, keyB] 1) sample_shared sample_tx)"
    using signature_domain_tx [of 1]
    by (simp add: two_view_def v_lookup_def lookupNNSDomainRecord_def sample_notary_view_def try_bytes_def)
  ultimately show ?thesis by blast
qed

end
