(* ===== verification/Deploy_Contracts.thy ===== *)
theory Deploy_Contracts
  imports Deploy_Base
begin

text \<open>
  Bringing the contracts to the chain (\<open>deploy/contracts.go\<close>, \<open>deploy/nns.go\<close>): the NNS contract
  first, then each contract is looked up by its domain, deployed when it is missing, updated when the chain
  has an older version, and recorded in the NNS. Addresses are byte strings; the manifests, the compiled
  contracts and the transactions around a call are left to the client library.
\<close>

section \<open>Signers of the committee's transactions\<close>

datatype condition = CondCalledByEntry | CondCalledByContract bytes | CondScriptHash bytes
  | CondAnd "condition list" | CondOr "condition list"

datatype scope = ScopeNone | CalledByEntry | CustomContracts "bytes list" | Rules "condition list"

record signer_account =
  acct :: bytes
  scope :: scope

datatype WitnessSet = NoWitness | WitnessValidators | WitnessValidatorsAndCommittee

text \<open>
  The numbers of signatures (\<open>GetMajorityHonestNodeCount\<close>, \<open>GetDefaultHonestNodeCount\<close>) and the address
  of a multi-signature account come from the client library.
\<close>

record accounts =
  a_local :: bytes
  a_majority :: "nat \<Rightarrow> nat"
  a_default :: "nat \<Rightarrow> nat"
  a_multisig :: "nat \<Rightarrow> bytes list \<Rightarrow> bytes"

definition committee_account :: "accounts \<Rightarrow> bytes list \<Rightarrow> bytes" where
  "committee_account A committee = a_multisig A (a_majority A (length committee)) committee"

definition validators_account :: "accounts \<Rightarrow> bytes list \<Rightarrow> bytes" where
  "validators_account A committee = a_multisig A (a_default A (length committee)) committee"

definition custom_committee_signers :: "accounts \<Rightarrow> bytes list \<Rightarrow> bytes \<Rightarrow> signer_account list \<Rightarrow> signer_account list" where
  "custom_committee_signers A committee payer extraSigners =
     [\<lparr>acct = payer, scope = ScopeNone\<rparr>, \<lparr>acct = committee_account A committee, scope = CalledByEntry\<rparr>] @ extraSigners"

definition newCommitteeNotaryActor :: "accounts \<Rightarrow> bytes list \<Rightarrow> signer_account list" where
  "newCommitteeNotaryActor A committee = custom_committee_signers A committee (a_local A) []"

definition newProxyCommitteeNotaryActor :: "accounts \<Rightarrow> bytes list \<Rightarrow> bytes \<Rightarrow> signer_account list \<Rightarrow> signer_account list" where
  "newProxyCommitteeNotaryActor A committee proxyContract extraSigners =
     custom_committee_signers A committee proxyContract extraSigners"

definition updater_rules :: "bytes \<Rightarrow> bytes list \<Rightarrow> condition list" where
  "updater_rules deployedContract allowed =
     [CondCalledByEntry, CondAnd [CondCalledByContract deployedContract, CondOr (map CondScriptHash allowed)]]"

definition newNotaryUpdaterActor :: "accounts \<Rightarrow> bytes list \<Rightarrow> bytes \<Rightarrow> bytes \<Rightarrow> bytes list \<Rightarrow> signer_account list" where
  "newNotaryUpdaterActor A committee proxyContract deployedContract allowed =
     (let payer = \<lparr>acct = proxyContract, scope = ScopeNone\<rparr>; n = length committee;
          rules = Rules (updater_rules deployedContract allowed) in
      if allowed = [] then [payer, \<lparr>acct = committee_account A committee, scope = CalledByEntry\<rparr>]
      else if a_majority A n = a_default A n then [payer, \<lparr>acct = committee_account A committee, scope = rules\<rparr>]
      else [payer, \<lparr>acct = committee_account A committee, scope = CalledByEntry\<rparr>,
            \<lparr>acct = validators_account A committee, scope = rules\<rparr>])"

text \<open>Signers of a deployment that needs witnesses (\<open>syncNeoFSContract\<close>).\<close>

definition deploy_signers :: "accounts \<Rightarrow> bytes list \<Rightarrow> WitnessSet \<Rightarrow> bytes list \<Rightarrow> bytes \<Rightarrow> signer_account list" where
  "deploy_signers A committee witness allowed nnsContract =
     (let payer = \<lparr>acct = a_local A, scope = ScopeNone\<rparr>; v = validators_account A committee; c = committee_account A committee in
      if witness = WitnessValidatorsAndCommittee
      then (if c = v then [payer, \<lparr>acct = c, scope = CustomContracts (allowed @ [nnsContract])\<rparr>]
            else [payer, \<lparr>acct = v, scope = CustomContracts allowed\<rparr>, \<lparr>acct = c, scope = CustomContracts [nnsContract]\<rparr>])
      else [payer, \<lparr>acct = v, scope = CustomContracts allowed\<rparr>])"

section \<open>Messages and observations\<close>

text \<open>
  \<open>Wait\<close> is the wait for a block inside a round. A sending is a transaction of the local account
  (\<open>Local\<close>) or a notary request (\<open>Notary\<close>); several calls in one script are a list.
\<close>

datatype dmsg = Wait | LocalTx "call list" | NotaryTx "call list" | UpdateTx bytes | NotaryTxOf "signer_account list" "call list"

type_synonym dlog = "(dmsg \<times> bool) list"

record contract_state =
  cs_hash :: bytes
  cs_name :: string

record chain_view =
  w_wait :: bool                                      \<comment> \<open>waitForNextBlock inside a round succeeds\<close>
  w_height :: "32 word"
  w_resolve :: "string \<Rightarrow> call_result"                 \<comment> \<open>NNS resolution of TXT records\<close>
  w_by_id :: "rpc_error + contract_state"             \<comment> \<open>GetContractStateByID(1)\<close>
  w_contract :: "bytes \<Rightarrow> rpc_error + contract_state"  \<comment> \<open>GetContractStateByHash\<close>
  w_test :: "call \<Rightarrow> bool"                             \<comment> \<open>a test invocation of the local account succeeds\<close>
  w_make_update :: "bytes \<Rightarrow> rpc_error option"         \<comment> \<open>MakeTunedCall of update on a contract\<close>
  w_actor :: bool                                     \<comment> \<open>newNotaryUpdaterActor succeeds\<close>
  w_extra_args :: "carg list option"                  \<comment> \<open>buildExtraDeployArgs\<close>
  w_send :: "dmsg \<Rightarrow> rpc_error option"
  w_done :: "nat \<Rightarrow> bool"                              \<comment> \<open>monitors that saw their transaction since the last round\<close>
  w_done_late :: "nat \<Rightarrow> bool"                         \<comment> \<open>\<dots> or during the wait of the round\<close>

definition w_lookup :: "chain_view \<Rightarrow> string \<Rightarrow> lookup_error + string" where
  "w_lookup v = lookupNNSDomainRecord (w_resolve v)"

section \<open>The NNS contract itself\<close>

definition readNNSOnChainState :: "chain_view \<Rightarrow> rpc_error + contract_state option" where
  "readNNSOnChainState v = (case w_by_id v of
     Inl e \<Rightarrow> if UnknownContract e then Inr None else Inl e
   | Inr cs \<Rightarrow> Inr (Some cs))"

definition nnsContractName :: string where "nnsContractName = ''NameService''"

record nns_prm =
  n_try_deploy :: bool
  n_management :: bytes
  n_email :: string
  n_artifacts :: "carg list"     \<comment> \<open>compiled contract and manifest\<close>

definition initNNSContract_round :: "nns_prm \<Rightarrow> chain_view \<Rightarrow> bool \<Rightarrow> (string + bytes) outcome \<times> bool \<times> dlog" where
  "initNNSContract_round P v pending0 =
     (let pending = settle (w_done v 0) pending0 in
      case readNNSOnChainState v of
        Inl e \<Rightarrow> (Again, pending, [])
      | Inr (Some cs) \<Rightarrow> if cs_name cs \<noteq> nnsContractName then (Return (Inl ''wrong name of the contract with ID=1''), pending, [])
          else (Return (Inr (cs_hash cs)), pending, [])
      | Inr None \<Rightarrow>
          if \<not> n_try_deploy P then (Again, pending, [])
          else if pending then (Again, pending, [])
          else let m = LocalTx [Call (n_management P) ''deploy'' (n_artifacts P @
                 [CList [CList [CList [CString domainBootstrap, CString (n_email P)],
                                CList [CString domainContractAddresses, CString (n_email P)]]]])] in
            case w_send v m of
              Some e \<Rightarrow> (Again, pending, [(m, False)])
            | None \<Rightarrow> (Again, trackPending pending, [(m, True)]))"

definition initNNSContract :: "nns_prm \<Rightarrow> chain_view option list \<Rightarrow> (string + bytes) outcome \<times> bool \<times> dlog" where
  "initNNSContract P vs = block_loop (initNNSContract_round P) (Inl ''wait for NNS contract synchronization'') vs False"

definition updateNNSContract_round :: "chain_view \<Rightarrow> bool \<Rightarrow> (string + unit) outcome \<times> bool \<times> dlog" where
  "updateNNSContract_round v pending0 =
     (let pending = settle (w_done v 0) pending0 in
      case readNNSOnChainState v of
        Inl e \<Rightarrow> (Again, pending, [])
      | Inr None \<Rightarrow> (Return (Inl ''missing required NNS contract on the chain''), pending, [])
      | Inr (Some cs) \<Rightarrow> (case w_make_update v (cs_hash cs) of
            Some e \<Rightarrow> if isErrContractAlreadyUpdated e then (Return (Inr ()), pending, []) else (Again, pending, [])
          | None \<Rightarrow>
              if pending then (Again, pending, [])
              else (case w_send v (UpdateTx (cs_hash cs)) of
                  Some e \<Rightarrow> (Again, pending, [(UpdateTx (cs_hash cs), False)])
                | None \<Rightarrow> (Again, trackPending pending, [(UpdateTx (cs_hash cs), True)]))))"

definition updateNNSContract :: "chain_view option list \<Rightarrow> (string + unit) outcome \<times> bool \<times> dlog" where
  "updateNNSContract vs = block_loop updateNNSContract_round (Inl ''wait for NNS contract synchronization'') vs False"

section \<open>Recording a contract in the NNS\<close>

record record_prm =
  r_nns :: bytes
  r_email :: string
  r_sender :: bytes

definition tld_call :: "record_prm \<Rightarrow> call" where
  "tld_call P = Call (r_nns P) methodNNSRegisterTLD
     [CString domainContractAddresses, CString (r_email P), CInt nnsRefresh, CInt nnsRetry, CInt nnsExpire, CInt nnsMinimum]"

text \<open>The two monitors are \<open>setRecordTxMonitor\<close> and \<open>registerTLDTxMonitor\<close>.\<close>

definition setNeoFSContractDomainRecord ::
  "record_prm \<Rightarrow> chain_view \<Rightarrow> string \<Rightarrow> string \<Rightarrow> bool \<times> bool \<Rightarrow> (bool \<times> bool) \<times> dlog" where
  "setNeoFSContractDomainRecord P v domain rec pending = (case pending of (set_pending, tld_pending) \<Rightarrow>
     if set_pending then (pending, [])
     else let register = register_call (r_nns P) domain (r_sender P) (r_email P); add = add_record_call (r_nns P) domain rec;
              m = LocalTx [register, add]; t = NotaryTx [tld_call P] in
       if \<not> w_test v register then (pending, [])
       else if \<not> w_test v add then (pending, [])
       else (case w_send v m of
           None \<Rightarrow> ((trackPending set_pending, tld_pending), [(m, True)])
         | Some e \<Rightarrow>
             if InsufficientFunds e then (pending, [(m, False)])
             else if isErrTLDNotFound e
             then (if tld_pending then (pending, [(m, False)])
                   else (case w_send v t of
                       Some e' \<Rightarrow> (pending, [(m, False), (t, False)])
                     | None \<Rightarrow> ((set_pending, trackPending tld_pending), [(m, False), (t, True)])))
             else (pending, [(m, False)])))"

section \<open>Synchronisation of a contract\<close>

datatype read_error = ReadLookup lookup_error | InvalidContractDomainRecord | ReadContract rpc_error

record sync_prm =
  y_record :: record_prm
  y_decode_le :: "string \<Rightarrow> bytes option"         \<comment> \<open>util.Uint160DecodeStringLE\<close>
  y_address :: "string \<Rightarrow> bytes option"           \<comment> \<open>address.StringToUint160\<close>
  y_encode_le :: "bytes \<Rightarrow> string"                \<comment> \<open>Hash.StringLE\<close>
  y_create_hash :: "bytes \<Rightarrow> bytes"               \<comment> \<open>CreateContractHash of the local contract, by deployer\<close>
  y_domain :: string                             \<comment> \<open>domainName\<close>
  y_try_deploy :: bool
  y_prefilled :: bool                            \<comment> \<open>prefilledNNSRecord\<close>
  y_designated :: "bytes option"                 \<comment> \<open>designatedDeployer\<close>
  y_witness :: WitnessSet                        \<comment> \<open>deployWitness\<close>
  y_proxy :: bytes
  y_is_proxy :: bool
  y_accounts :: accounts
  y_committee :: "bytes list"
  y_allowed :: "bytes list"                      \<comment> \<open>validatorsDeployAllowedContracts\<close>
  y_management :: bytes
  y_artifacts :: "carg list"

definition readContractOnChainStateByDomainName :: "sync_prm \<Rightarrow> chain_view \<Rightarrow> string \<Rightarrow> read_error + contract_state" where
  "readContractOnChainStateByDomainName P v domainName = (case w_lookup v domainName of
     Inl e \<Rightarrow> Inl (ReadLookup e)
   | Inr rec \<Rightarrow> (case (case y_decode_le P rec of Some a \<Rightarrow> Some a | None \<Rightarrow> y_address P rec) of
       None \<Rightarrow> Inl InvalidContractDomainRecord
     | Some addr \<Rightarrow> (case w_contract v addr of Inl e \<Rightarrow> Inl (ReadContract e) | Inr cs \<Rightarrow> Inr cs)))"

record sync =
  z_deploy :: bool         \<comment> \<open>monitors\<close>
  z_update :: bool
  z_set :: bool
  z_tld :: bool
  z_updated :: bool        \<comment> \<open>alreadyUpdated\<close>
  z_record_ok :: bool      \<comment> \<open>nnsRecordWithoutContractIsOK\<close>
  z_signers :: "signer_account list option"  \<comment> \<open>contractUpdaterActor\<close>

definition new_sync :: "sync_prm \<Rightarrow> sync" where
  "new_sync P = \<lparr>z_deploy = False, z_update = False, z_set = False, z_tld = False, z_updated = False,
     z_record_ok = (y_prefilled P \<and> y_try_deploy P), z_signers = None\<rparr>"

definition domainNameForAddress :: "sync_prm \<Rightarrow> string" where
  "domainNameForAddress P = y_domain P @ ''.'' @ domainContractAddresses"

text \<open>
  What the chain has: \<open>None\<close> when the round is over, otherwise whether the domain record is missing and the
  contract, if there is one.
\<close>

definition deployer_account :: "sync_prm \<Rightarrow> bytes option" where
  "deployer_account P = (if y_try_deploy P then Some (a_local (y_accounts P)) else y_designated P)"

definition on_chain :: "sync_prm \<Rightarrow> chain_view \<Rightarrow> bool \<Rightarrow> (bool \<times> contract_state option) option" where
  "on_chain P v record_ok = (case readContractOnChainStateByDomainName P v (domainNameForAddress P) of
     Inr cs \<Rightarrow> Some (False, Some cs)
   | Inl (ReadContract e) \<Rightarrow> if UnknownContract e \<and> record_ok then Some (False, None) else None
   | Inl InvalidContractDomainRecord \<Rightarrow> None
   | Inl (ReadLookup LookupFailed) \<Rightarrow> None
   | Inl (ReadLookup _) \<Rightarrow> (case deployer_account P of
         None \<Rightarrow> None
       | Some deployer \<Rightarrow> (case w_contract v (y_create_hash P deployer) of
             Inr cs \<Rightarrow> Some (True, Some cs)
           | Inl e \<Rightarrow> if UnknownContract e then Some (True, None) else None)))"

text \<open>The contract is missing: deploy it.\<close>

definition deploy_message :: "sync_prm \<Rightarrow> carg list \<Rightarrow> dmsg" where
  "deploy_message P args =
     (let c = Call (y_management P) ''deploy'' (y_artifacts P @ [CList args]) in
      if y_witness P = NoWitness then LocalTx [c] else NotaryTxOf (deploy_signers (y_accounts P) (y_committee P)
        (y_witness P) (y_allowed P) (r_nns (y_record P))) [c])"

definition sync_deploy :: "sync_prm \<Rightarrow> chain_view \<Rightarrow> sync \<Rightarrow> sync \<times> dlog" where
  "sync_deploy P v st =
     (if \<not> y_try_deploy P then (st, [])
      else if z_deploy st then (st, [])
      else (case w_extra_args v of
          None \<Rightarrow> (st, [])
        | Some args \<Rightarrow> let m = deploy_message P args in
            case w_send v m of
              Some e \<Rightarrow> (st, [(m, False)])
            | None \<Rightarrow> (st\<lparr>z_record_ok := False, z_deploy := trackPending (z_deploy st)\<rparr>, [(m, True)])))"

text \<open>The contract is there: update it unless that is done.\<close>

definition sync_update :: "sync_prm \<Rightarrow> chain_view \<Rightarrow> bool \<Rightarrow> contract_state \<Rightarrow> sync \<Rightarrow> (string + bytes) outcome \<times> sync \<times> dlog" where
  "sync_update P v missing cs st0 =
     (let signers = (case z_signers st0 of
           Some s \<Rightarrow> Some s
         | None \<Rightarrow> if w_actor v then Some (newNotaryUpdaterActor (y_accounts P) (y_committee P)
              (if y_is_proxy P then cs_hash cs else y_proxy P) (cs_hash cs) (y_allowed P)) else None);
         st = st0\<lparr>z_signers := signers\<rparr> in
      if signers = None then (Return (Inl ''create Notary service client''), st, [])
      else (case w_make_update v (cs_hash cs) of
          Some e \<Rightarrow>
            if isErrContractAlreadyUpdated e
            then (if \<not> missing then (Return (Inr (cs_hash cs)), st, []) else (Again, st\<lparr>z_updated := True\<rparr>, []))
            else (Again, st, [])
        | None \<Rightarrow>
            if z_update st then (Again, st, [])
            else (case w_send v (UpdateTx (cs_hash cs)) of
                Some e \<Rightarrow> (Again, st, [(UpdateTx (cs_hash cs), False)])
              | None \<Rightarrow> (Again, st\<lparr>z_update := trackPending (z_update st)\<rparr>, [(UpdateTx (cs_hash cs), True)]))))"

definition sync_found :: "sync_prm \<Rightarrow> chain_view \<Rightarrow> bool \<Rightarrow> contract_state \<Rightarrow> sync \<Rightarrow> (string + bytes) outcome \<times> sync \<times> dlog" where
  "sync_found P v missing cs st =
     (if z_updated st
      then (if \<not> missing then (Return (Inr (cs_hash cs)), st, [])
            else (case setNeoFSContractDomainRecord (y_record P) v (domainNameForAddress P) (y_encode_le P (cs_hash cs)) (z_set st, z_tld st) of
                ((s, t), ms) \<Rightarrow> (Again, st\<lparr>z_set := s, z_tld := t\<rparr>, ms)))
      else sync_update P v missing cs st)"

definition sync_settle :: "(nat \<Rightarrow> bool) \<Rightarrow> sync \<Rightarrow> sync" where
  "sync_settle done st = st\<lparr>z_deploy := settle (done 0) (z_deploy st), z_update := settle (done 1) (z_update st),
     z_set := settle (done 2) (z_set st), z_tld := settle (done 3) (z_tld st)\<rparr>"

definition sync_pending :: "sync \<Rightarrow> bool" where
  "sync_pending st \<longleftrightarrow> z_deploy st \<or> z_update st \<or> z_set st \<or> z_tld st"

definition sync_step :: "sync_prm \<Rightarrow> chain_view \<Rightarrow> sync \<Rightarrow> (string + bytes) outcome \<times> sync \<times> dlog" where
  "sync_step P v st = (case on_chain P v (z_record_ok st) of
     None \<Rightarrow> (Again, st, [])
   | Some (missing, None) \<Rightarrow> (Again, sync_deploy P v st)
   | Some (missing, Some cs) \<Rightarrow> sync_found P v missing cs st)"

text \<open>One turn of the loop of \<open>syncNeoFSContract\<close>: it waits for a block only when something is pending.\<close>

definition sync_round :: "sync_prm \<Rightarrow> chain_view \<Rightarrow> sync \<Rightarrow> (string + bytes) outcome \<times> sync \<times> dlog" where
  "sync_round P v st0 =
     (let st = sync_settle (w_done v) st0 in
      if sync_pending st
      then (if \<not> w_wait v then (Return (Inl ''wait for the contract synchronization''), st, [(Wait, False)])
            else (case sync_step P v (sync_settle (w_done_late v) st) of (r, st', ms) \<Rightarrow> (r, st', (Wait, True) # ms)))
      else sync_step P v st)"

definition syncNeoFSContract :: "sync_prm \<Rightarrow> chain_view list \<Rightarrow> (string + bytes) outcome \<times> sync \<times> dlog" where
  "syncNeoFSContract P vs = block_loop (sync_round P) (Inl []) (map Some vs) (new_sync P)"

text \<open>\<open>prefillNNS\<close>: the address of the Container contract is recorded before it is deployed.\<close>

definition prefillNNS_round :: "sync_prm \<Rightarrow> bytes \<Rightarrow> chain_view \<Rightarrow> unit \<Rightarrow> (string + unit) outcome \<times> unit \<times> dlog" where
  "prefillNNS_round P precalculated v u =
     (let domain = domainContainer @ ''.'' @ domainContractAddresses in
      case w_lookup v domain of
        Inr rec \<Rightarrow> (Return (Inr ()), u, [])
      | Inl MissingDomain \<Rightarrow>
          if \<not> y_try_deploy P then (Again, u, [])
          else (Again, u, snd (setNeoFSContractDomainRecord (y_record P) v domain (y_encode_le P precalculated) (False, False)))
      | Inl _ \<Rightarrow> (Return (Inl ''container contract lookup in NNS''), u, []))"

definition prefillNNS :: "sync_prm \<Rightarrow> bytes \<Rightarrow> chain_view option list \<Rightarrow> (string + unit) outcome \<times> unit \<times> dlog" where
  "prefillNNS P precalculated vs = block_loop (prefillNNS_round P precalculated) (Inl ''wait for the contract synchronization'') vs ()"

end
