(* ===== verification/Deploy_Funds.thy ===== *)
theory Deploy_Funds
  imports Deploy_Contracts Funds
begin

text \<open>
  Distribution of funds and roles (\<open>deploy/funds.go\<close>, \<open>deploy/alphabet.go\<close>, \<open>autoReplenishNotaryBalance\<close>
  of \<open>deploy/notary.go\<close>). Amounts are the unbounded integers of \<open>math/big\<close>; a read that may fail is an
  option. One monitor per loop, its state a boolean.
\<close>

definition GASFactor :: int where "GASFactor = 100000000"
definition initialAlphabetGASAmount :: int where "initialAlphabetGASAmount = 10000"
definition validatorLowerGASThreshold :: int where "validatorLowerGASThreshold = 10"
definition initialProxyGASPercent :: int where "initialProxyGASPercent = 90"

text \<open>Script hashes of the native tokens are parameters, a transfer is from, to and amount.\<close>

record funds_prm =
  f_gas :: bytes
  f_neo :: bytes
  f_accounts :: accounts
  f_committee :: "bytes list"             \<comment> \<open>keys\<close>
  f_account_of :: "bytes \<Rightarrow> bytes"         \<comment> \<open>script hash of a key\<close>
  f_validators :: bytes                   \<comment> \<open>validator multi-signature account\<close>
  f_proxy :: bytes
  f_try :: bool                           \<comment> \<open>tryTransfer\<close>

record funds_view =
  b_gas :: "bytes \<Rightarrow> int option"           \<comment> \<open>GAS balances\<close>
  b_neo :: "bytes \<Rightarrow> int option"
  b_notary :: "int option"                \<comment> \<open>notary balance of the local account\<close>
  b_send :: "dmsg \<Rightarrow> rpc_error option"
  b_done :: bool

definition transfer_call :: "bytes \<Rightarrow> bytes \<Rightarrow> bytes \<Rightarrow> int \<Rightarrow> call" where
  "transfer_call token frm to amount = Call token ''transfer'' [CHash frm, CHash to, CInt amount, CNone]"

text \<open>The end of a round that sends: the monitor tracks what was taken.\<close>

definition send_tracked :: "(dmsg \<Rightarrow> rpc_error option) \<Rightarrow> dmsg \<Rightarrow> bool \<Rightarrow> 'r outcome \<times> bool \<times> dlog" where
  "send_tracked send m pending = (case send m of
     Some e \<Rightarrow> (Again, pending, [(m, False)])
   | None \<Rightarrow> (Again, trackPending pending, [(m, True)]))"

section \<open>Initial transfer to the committee\<close>

definition lowerGASThreshold :: int where "lowerGASThreshold = validatorLowerGASThreshold * GASFactor"

text \<open>
  The transfers to the members: each one below half of the initial amount gets that amount, as long as there
  is GAS left; \<open>None\<close> when a balance cannot be read. The result is the transfers and the rest.
\<close>

definition memberAmount :: "int \<Rightarrow> int" where
  "memberAmount remGAS = (let toTransfer = initialAlphabetGASAmount * GASFactor in
     if remGAS \<le> toTransfer then remGAS else toTransfer)"

fun member_transfers :: "funds_view \<Rightarrow> bytes list \<Rightarrow> int \<Rightarrow> ((bytes \<times> int) list \<times> int) option" where
  "member_transfers v [] remGAS = Some ([], remGAS)"
| "member_transfers v (acc # accs) remGAS = (case b_gas v acc of
     None \<Rightarrow> None
   | Some balance \<Rightarrow>
       if balance \<ge> initialAlphabetGASAmount * GASFactor div 2 then member_transfers v accs remGAS
       else let amount = memberAmount remGAS; rest = remGAS - amount in
         if rest \<le> 0 then Some ([(acc, amount)], rest)
         else map_option (\<lambda>(ts, r). ((acc, amount) # ts, r)) (member_transfers v accs rest))"

definition gas_transfers :: "funds_prm \<Rightarrow> funds_view \<Rightarrow> int \<Rightarrow> (bytes \<times> int) list option" where
  "gas_transfers P v remGAS =
     (let committeeMultiSig = committee_account (f_accounts P) (f_committee P) in
      map_option (\<lambda>(ts, rest). if f_validators P \<noteq> committeeMultiSig \<and> rest > 0 then ts @ [(committeeMultiSig, rest)] else ts)
        (member_transfers v (map (f_account_of P) (f_committee P)) (remGAS - lowerGASThreshold)))"

definition makeInitialTransferToCommittee_round ::
  "funds_prm \<Rightarrow> funds_view \<Rightarrow> bool \<Rightarrow> (string + unit) outcome \<times> bool \<times> dlog" where
  "makeInitialTransferToCommittee_round P v pending0 =
     (let pending = settle (b_done v) pending0; frm = f_validators P;
          committeeMultiSig = committee_account (f_accounts P) (f_committee P) in
      case (b_gas v frm, b_neo v frm) of
        (Some remGAS, Some remNEO) \<Rightarrow>
          if remGAS \<le> lowerGASThreshold then (Return (Inr ()), pending, [])
          else (case gas_transfers P v remGAS of
              None \<Rightarrow> (Again, pending, [])
            | Some ts \<Rightarrow>
                let calls = map (\<lambda>(to, amount). transfer_call (f_gas P) frm to amount) ts @
                      (if frm \<noteq> committeeMultiSig \<and> remNEO > 0 then [transfer_call (f_neo P) frm committeeMultiSig remNEO] else []) in
                if calls = [] then (Return (Inr ()), pending, [])
                else if \<not> f_try P then (Again, pending, [])
                else if pending then (Again, pending, [])
                else send_tracked (b_send v) (NotaryTx calls) pending)
      | _ \<Rightarrow> (Again, pending, []))"

definition makeInitialTransferToCommittee :: "funds_prm \<Rightarrow> funds_view option list \<Rightarrow> (string + unit) outcome \<times> bool \<times> dlog" where
  "makeInitialTransferToCommittee P vs =
     block_loop (makeInitialTransferToCommittee_round P) (Inl ''wait for distribution of initial funds'') vs False"

section \<open>GAS for the Proxy contract\<close>

definition transferGASToProxy_round :: "funds_prm \<Rightarrow> funds_view \<Rightarrow> bool \<Rightarrow> (string + unit) outcome \<times> bool \<times> dlog" where
  "transferGASToProxy_round P v pending0 =
     (let pending = settle (b_done v) pending0; committeeMultiSig = committee_account (f_accounts P) (f_committee P) in
      case b_gas v (f_proxy P) of
        None \<Rightarrow> (Again, pending, [])
      | Some proxyBalance \<Rightarrow>
          if proxyBalance > 0 then (Return (Inr ()), pending, [])
          else if \<not> f_try P then (Again, pending, [])
          else (case b_gas v committeeMultiSig of
              None \<Rightarrow> (Again, pending, [])
            | Some committeeBalance \<Rightarrow>
                let amount = committeeBalance * initialProxyGASPercent div 100 in
                if amount \<le> 0 then (Return (Inr ()), pending, [])
                else if pending then (Again, pending, [])
                else send_tracked (b_send v) (NotaryTx [transfer_call (f_gas P) committeeMultiSig (f_proxy P) amount]) pending))"

definition transferGASToProxy :: "funds_prm \<Rightarrow> funds_view option list \<Rightarrow> (string + unit) outcome \<times> bool \<times> dlog" where
  "transferGASToProxy P vs = block_loop (transferGASToProxy_round P) (Inl ''wait for distribution of initial funds'') vs False"

section \<open>NEO for the Alphabet contracts\<close>

text \<open>The monitor of this loop is set but never asked.\<close>

definition distributeNEO_round :: "funds_prm \<Rightarrow> bytes list \<Rightarrow> funds_view \<Rightarrow> bool \<Rightarrow> (string + unit) outcome \<times> bool \<times> dlog" where
  "distributeNEO_round P alphabetContracts v pending0 =
     (let pending = settle (b_done v) pending0; committeeMultiSig = committee_account (f_accounts P) (f_committee P) in
      case b_neo v committeeMultiSig of
        None \<Rightarrow> (Again, pending, [])
      | Some bal \<Rightarrow>
          if bal \<le> 0 then (Return (Inr ()), pending, [])
          else if bal \<ge> 2 ^ 64 then (Return (Inl ''NEO balance exceeds uint64''), pending, [])
          else (case divideFundsEvenly (word_of_int bal) (length alphabetContracts) of
              Inl e \<Rightarrow> (Return (Inl ''panic''), pending, [])
            | Inr parts \<Rightarrow> send_tracked (b_send v)
                (NotaryTx (map (\<lambda>(i, amount). transfer_call (f_neo P) committeeMultiSig (alphabetContracts ! i) (uint amount)) parts)) pending))"

definition distributeNEOToAlphabetContracts ::
  "funds_prm \<Rightarrow> bytes list \<Rightarrow> funds_view option list \<Rightarrow> (string + unit) outcome \<times> bool \<times> dlog" where
  "distributeNEOToAlphabetContracts P alphabetContracts vs = block_loop (distributeNEO_round P alphabetContracts)
     (Inl ''wait for distribution of NEO between Alphabet contracts'') vs False"

section \<open>Notary deposit of the local account\<close>

definition singleNotaryDepositAmount :: int where "singleNotaryDepositAmount = 100000000"
definition refillProportion :: int where "refillProportion = 5"

definition autoReplenish_round :: "funds_prm \<Rightarrow> bytes \<Rightarrow> funds_view \<Rightarrow> bool \<Rightarrow> (string + unit) outcome \<times> bool \<times> dlog" where
  "autoReplenish_round P notary v pending0 =
     (let pending = settle (b_done v) pending0; me = a_local (f_accounts P) in
      case b_notary v of
        None \<Rightarrow> (Again, pending, [])
      | Some notaryBalance \<Rightarrow>
          if notaryBalance * refillProportion \<ge> singleNotaryDepositAmount then (Again, pending, [])
          else if pending then (Again, pending, [])
          else send_tracked (b_send v) (LocalTx [Call (f_gas P) ''transfer''
            [CHash me, CHash notary, CInt singleNotaryDepositAmount, CList [CHash me, CInt 4294967295]]]) pending)"

section \<open>The Alphabet\<close>

record alphabet_view =
  h_roles :: "rpc_error + bytes list"          \<comment> \<open>designated NeoFSAlphabet keys\<close>
  h_candidates :: "bytes list list option"     \<comment> \<open>the chunks of registered candidates, None when reading fails\<close>
  h_price :: "int option"                      \<comment> \<open>price of a registration\<close>
  h_send :: "dmsg \<Rightarrow> rpc_error option"
  h_done :: bool

definition designateNeoFSAlphabet_round ::
  "funds_prm \<Rightarrow> bytes \<Rightarrow> alphabet_view \<Rightarrow> bool \<Rightarrow> (string + unit) outcome \<times> bool \<times> dlog" where
  "designateNeoFSAlphabet_round P roleContract v pending0 =
     (let pending = settle (h_done v) pending0 in
      case checkRole (h_roles v) (f_committee P) of
        Inl e \<Rightarrow> (Again, pending, [])
      | Inr ok \<Rightarrow>
          if ok then (Return (Inr ()), pending, [])
          else if pending then (Again, pending, [])
          else send_tracked (h_send v) (NotaryTxOf (newCommitteeNotaryActor (f_accounts P) (f_committee P))
            [Call roleContract ''designateAsRole'' [CInt 16, CList (map CBytes (f_committee P))]]) pending)"

definition designateNeoFSAlphabet ::
  "funds_prm \<Rightarrow> bytes \<Rightarrow> alphabet_view option list \<Rightarrow> (string + unit) outcome \<times> bool \<times> dlog" where
  "designateNeoFSAlphabet P roleContract vs = block_loop (designateNeoFSAlphabet_round P roleContract)
     (Inl ''wait for NeoFS Alphabet role to be designated for the committee'') vs False"

text \<open>The indices of the Alphabet members that are among the candidates, chunk by chunk.\<close>

definition register_chunk :: "bytes list \<Rightarrow> bytes list \<Rightarrow> nat list \<Rightarrow> nat list" where
  "register_chunk alphabet candidates registered =
     registered @ filter (\<lambda>i. i \<notin> set registered \<and> alphabet ! i \<in> set candidates) [0..<length alphabet]"

fun register_chunks :: "bytes list \<Rightarrow> bytes list list \<Rightarrow> nat list \<Rightarrow> nat list" where
  "register_chunks alphabet [] registered = registered"
| "register_chunks alphabet (cs # css) registered = (if cs = [] then registered
     else register_chunks alphabet css (register_chunk alphabet cs registered))"

definition minPrice :: int where "minPrice = 1"

definition set_price_call :: "bytes \<Rightarrow> int \<Rightarrow> call" where
  "set_price_call neo price = Call neo ''setRegisterPrice'' [CInt price]"

definition register_calls :: "funds_prm \<Rightarrow> bytes list \<Rightarrow> nat list \<Rightarrow> int \<Rightarrow> call list" where
  "register_calls P alphabet registered originalPrice =
     (if originalPrice > minPrice then [set_price_call (f_neo P) minPrice] else []) @
     map (\<lambda>i. Call (f_gas P) ''transfer'' [CHash (f_account_of P (alphabet ! i)), CHash (f_neo P), CInt minPrice, CBytes (alphabet ! i)])
       (filter (\<lambda>i. i \<notin> set registered) [0..<length alphabet]) @
     (if originalPrice > minPrice then [set_price_call (f_neo P) originalPrice] else [])"

definition candidate_signers :: "funds_prm \<Rightarrow> bytes list \<Rightarrow> nat list \<Rightarrow> signer_account list" where
  "candidate_signers P alphabet registered =
     map (\<lambda>i. \<lparr>acct = f_account_of P (alphabet ! i), scope = CustomContracts [f_gas P, f_neo P]\<rparr>)
       (filter (\<lambda>i. i \<notin> set registered) [0..<length alphabet])"

definition initVoteForAlphabet_round ::
  "funds_prm \<Rightarrow> bytes list \<Rightarrow> alphabet_view \<Rightarrow> bool \<Rightarrow> (string + unit) outcome \<times> bool \<times> dlog" where
  "initVoteForAlphabet_round P alphabet v pending0 =
     (let pending = settle (h_done v) pending0 in
      case h_candidates v of
        None \<Rightarrow> (Again, pending, [])
      | Some chunks \<Rightarrow>
          let registered = register_chunks alphabet chunks [] in
          if length registered = length alphabet then (Return (Inr ()), pending, [])
          else if pending then (Again, pending, [])
          else (case h_price v of
              None \<Rightarrow> (Again, pending, [])
            | Some originalPrice \<Rightarrow> send_tracked (h_send v)
                (NotaryTxOf (newProxyCommitteeNotaryActor (f_accounts P) (f_committee P) (f_proxy P) (candidate_signers P alphabet registered))
                  (register_calls P alphabet registered originalPrice)) pending))"

text \<open>Before its loop \<open>initVoteForAlphabet\<close> reads the Alphabet.\<close>

definition initVoteForAlphabet :: "funds_prm \<Rightarrow> rpc_error + bytes list \<Rightarrow> alphabet_view option list \<Rightarrow> (string + unit) outcome \<times> bool \<times> dlog" where
  "initVoteForAlphabet P designated vs = (case designated of
     Inl e \<Rightarrow> (Return (Inl ''request NeoFS Alphabet members''), False, [])
   | Inr alphabet \<Rightarrow>
       if alphabet = [] then (Return (Inl ''no NeoFS Alphabet members are set''), False, [])
       else block_loop (initVoteForAlphabet_round P alphabet)
         (Inl ''wait for NeoFS Alphabet to be registered as candidates to validators'') vs False)"

end
