(* ===== verification/Deploy_Listener.thy ===== *)
theory Deploy_Listener
  imports Deploy_Funds
begin

text \<open>
  The listener that signs notary requests for the local committee member (\<open>listenCommitteeNotaryRequests\<close>
  of \<open>deploy/notary.go\<close>), and the whole procedure (\<open>Deploy\<close> of \<open>deploy/deploy.go\<close>) as the sequence of
  its stages.
\<close>

section \<open>Notary requests\<close>

record witness =
  invocation :: bytes
  verification :: bytes

record main_tx =
  mt_hash :: bytes
  mt_signers :: "signer_account list"
  mt_scripts :: "witness list"

text \<open>What the library's parsers and signers give for a transaction.\<close>

record listener_prm =
  q_notary :: bytes                                \<comment> \<open>notary.Hash\<close>
  q_local :: bytes
  q_committee :: bytes                             \<comment> \<open>multi-signature accounts\<close>
  q_validators :: bytes
  q_committee_sign :: "main_tx \<Rightarrow> bytes"            \<comment> \<open>SignHashable of both\<close>
  q_validators_sign :: "main_tx \<Rightarrow> bytes"
  q_parse_signature :: "bytes \<Rightarrow> bytes option"     \<comment> \<open>scparser.ParseSignatureContract\<close>
  q_parse_multisig :: "bytes \<Rightarrow> (nat \<times> bytes list) option"  \<comment> \<open>scparser.ParseMultiSigContract\<close>
  q_key_account :: "bytes \<Rightarrow> bytes option"         \<comment> \<open>account of an encoded key, if it decodes\<close>
  q_multisig_account :: "nat \<Rightarrow> bytes option list \<Rightarrow> bytes option"  \<comment> \<open>FakeMultisigAccount; an undecodable key is None\<close>

text \<open>
  The roles the signers of the transaction have: the indices of the notary contract, the local account, the
  committee's and the validators' account. \<open>None\<close> when the local signature is there already.
\<close>

record roles =
  i_notary :: "nat option"
  i_local :: "nat option"
  i_committee :: "nat option"
  i_validators :: "nat option"

definition no_roles :: roles where
  "no_roles = \<lparr>i_notary = None, i_local = None, i_committee = None, i_validators = None\<rparr>"

fun find_roles :: "listener_prm \<Rightarrow> main_tx \<Rightarrow> nat list \<Rightarrow> roles \<Rightarrow> roles option" where
  "find_roles P tx [] r = Some r"
| "find_roles P tx (i # is) r =
     (let a = acct (mt_signers tx ! i); script = invocation (mt_scripts tx ! i) in
      if a = q_notary P then find_roles P tx is (r\<lparr>i_notary := Some i\<rparr>)
      else if a = q_local P
      then (if script \<noteq> [] then None else find_roles P tx is (r\<lparr>i_local := Some i\<rparr>))
      else if a = q_committee P
      then (if sublist (q_committee_sign P tx) script then None else find_roles P tx is (r\<lparr>i_committee := Some i\<rparr>))
      else if a = q_validators P
      then (if sublist (q_validators_sign P tx) script then None else find_roles P tx is (r\<lparr>i_validators := Some i\<rparr>))
      else find_roles P tx is r)"

text \<open>
  The account of a foreign signer, from its verification script: \<open>Inr None\<close> drops the signer,
  \<open>Inl ()\<close> the request.
\<close>

definition foreign_account :: "listener_prm \<Rightarrow> main_tx \<Rightarrow> nat \<Rightarrow> unit + bytes option" where
  "foreign_account P tx i =
     (let script = verification (mt_scripts tx ! i) in
      if script = [] then Inr (Some (acct (mt_signers tx ! i)))
      else (case q_parse_signature P script of
          Some bSenderKey \<Rightarrow> Inr (q_key_account P bSenderKey)
        | None \<Rightarrow> (case q_parse_multisig P script of
              Some (m, bKeys) \<Rightarrow> Inr (q_multisig_account P m (map (q_key_account P) bKeys))
            | None \<Rightarrow> Inl ())))"

text \<open>The signers of the new request: the transaction's signer with the account that signs for it.\<close>

fun request_signers :: "listener_prm \<Rightarrow> main_tx \<Rightarrow> roles \<Rightarrow> nat list \<Rightarrow> (signer_account \<times> bytes) list option" where
  "request_signers P tx r [] = Some []"
| "request_signers P tx r (i # is) =
     (if i_notary r = Some i then request_signers P tx r is
      else let s = mt_signers tx ! i in
        if i_local r = Some i then map_option ((#) (s, q_local P)) (request_signers P tx r is)
        else if i_committee r = Some i then map_option ((#) (s, q_committee P)) (request_signers P tx r is)
        else if i_validators r = Some i then map_option ((#) (s, q_validators P)) (request_signers P tx r is)
        else (case foreign_account P tx i of
            Inl u \<Rightarrow> None
          | Inr None \<Rightarrow> request_signers P tx r is
          | Inr (Some a) \<Rightarrow> map_option ((#) (s, a)) (request_signers P tx r is)))"

text \<open>
  One event: the new set of processed transactions, and the signers of the request to sign and send, if the
  request is not skipped.
\<close>

definition handle_request ::
  "listener_prm \<Rightarrow> bytes set \<Rightarrow> bool \<Rightarrow> main_tx \<Rightarrow> bytes set \<times> (signer_account \<times> bytes) list option" where
  "handle_request P processed added tx =
     (if mt_hash tx \<in> processed then (processed, None)
      else let processed' = insert (mt_hash tx) processed; n = length (mt_signers tx) in
        if \<not> added then (processed', None)
        else if length (mt_scripts tx) \<noteq> n then (processed', None)
        else if n = 0 \<or> acct (mt_signers tx ! (n - 1)) \<noteq> q_notary P then (processed', None)
        else (case find_roles P tx [0..<n] no_roles of
            None \<Rightarrow> (processed', None)
          | Some r \<Rightarrow>
              if i_notary r = None then (processed', None)
              else if i_local r = None \<and> i_committee r = None \<and> i_validators r = None then (processed', None)
              else (processed', request_signers P tx r [0..<n])))"

fun handle_requests ::
  "listener_prm \<Rightarrow> bytes set \<Rightarrow> (bool \<times> main_tx) list \<Rightarrow> (main_tx \<times> (signer_account \<times> bytes) list) list" where
  "handle_requests P processed [] = []"
| "handle_requests P processed ((added, tx) # es) = (case handle_request P processed added tx of
     (processed', r) \<Rightarrow> (case r of None \<Rightarrow> [] | Some signers \<Rightarrow> [(tx, signers)]) @ handle_requests P processed' es)"

section \<open>The procedure\<close>

text \<open>
  A stage with the parameters the procedure passes on. \<open>Sync\<close> is the synchronisation of a contract: its
  kind, domain, whether this member deploys it, the designated deployer, the witnesses, the contracts the
  witnesses may call, and the Proxy contract, which does not exist when the Proxy contract itself is
  synchronised.
\<close>

datatype contract_kind = Proxy | Netmap | Balance | Reputation | Container | Alphabet

datatype stage = InitialTransfer bool | InitNNS bool | EnableNotary | DesignateAlphabet | PrefillNNS bool
  | Sync contract_kind string bool "bytes option" WitnessSet "bytes list" bool "bytes option" "carg list"
  | FundProxy bytes bool | InitVote bytes | UpdateNNS bytes | DistributeNEO bytes "bytes list"

record network_configuration =
  MaxObjectSize :: "64 word"
  StoragePrice :: "64 word"
  EpochDuration :: "64 word"
  ContainerFee :: "64 word"
  ContainerAliasFee :: "64 word"
  EigenTrustIterations :: "64 word"
  EigenTrustAlpha :: string          \<comment> \<open>strconv.FormatFloat of the value\<close>
  WithdrawalFee :: "64 word"
  Raw :: "(string \<times> bytes) list"

definition netConfig :: "network_configuration \<Rightarrow> carg list" where
  "netConfig c =
     [CBytes ''MaxObjectSize'', CBytes (encodeUintConfig (MaxObjectSize c)),
      CBytes ''BasicIncomeRate'', CBytes (encodeUintConfig (StoragePrice c)),
      CBytes ''EpochDuration'', CBytes (encodeUintConfig (EpochDuration c)),
      CBytes ''ContainerFee'', CBytes (encodeUintConfig (ContainerFee c)),
      CBytes ''ContainerAliasFee'', CBytes (encodeUintConfig (ContainerAliasFee c)),
      CBytes ''EigenTrustIterations'', CBytes (encodeUintConfig (EigenTrustIterations c)),
      CBytes ''EigenTrustAlpha'', CBytes (EigenTrustAlpha c),
      CBytes ''WithdrawFee'', CBytes (encodeUintConfig (WithdrawalFee c))] @
     concat (map (\<lambda>(name, value). [CBytes name, CBytes value]) (Raw c))"

definition netmap_args :: "network_configuration \<Rightarrow> carg list" where
  "netmap_args c = [CInt 0, CHash (replicate 20 CHR 0x00), CHash (replicate 20 CHR 0x00), CList [], CList (netConfig c)]"

text \<open>Running a stage gives an error, or an address (empty where there is none) and the new state of the world.\<close>

type_synonym 'w runner = "stage \<Rightarrow> 'w \<Rightarrow> string + bytes \<times> 'w"

definition bind :: "'e + 'a \<Rightarrow> ('a \<Rightarrow> 'e + 'b) \<Rightarrow> 'e + 'b" where
  "bind m f = (case m of Inl e \<Rightarrow> Inl e | Inr x \<Rightarrow> f x)"

definition run_if :: "bool \<Rightarrow> 'w runner \<Rightarrow> stage \<Rightarrow> 'w \<Rightarrow> string + 'w" where
  "run_if b run s w = (if b then bind (run s w) (\<lambda>(a, w'). Inr w') else Inr w)"

text \<open>Up to the Alphabet: funds, NNS, notary service and roles.\<close>

definition deploy_prepare :: "'w runner \<Rightarrow> bool \<Rightarrow> bool \<Rightarrow> bool \<Rightarrow> 'w \<Rightarrow> string + 'w" where
  "deploy_prepare run leads notaryRolesSet alphaRolesSet w =
     bind (run_if notaryRolesSet run (InitialTransfer leads) w) (\<lambda>w.
     bind (run (InitNNS leads) w) (\<lambda>(nns, w).
     bind (run_if (\<not> notaryRolesSet) run EnableNotary w) (\<lambda>w.
     bind (run_if (\<not> notaryRolesSet) run (InitialTransfer leads) w) (\<lambda>w.
     run_if (\<not> alphaRolesSet) run DesignateAlphabet w))))"

text \<open>The Proxy contract, which pays for the updates of all others, then the update of the NNS contract.\<close>

definition deploy_proxy :: "'w runner \<Rightarrow> bool \<Rightarrow> 'w \<Rightarrow> string + bytes \<times> 'w" where
  "deploy_proxy run leads w =
     bind (run (PrefillNNS leads) w) (\<lambda>(_, w).
     bind (run (Sync Proxy ''proxy'' leads None NoWitness [] False None []) w) (\<lambda>(proxy, w).
     bind (run (FundProxy proxy leads) w) (\<lambda>(_, w).
     bind (run (InitVote proxy) w) (\<lambda>(_, w).
     bind (run (UpdateNNS proxy) w) (\<lambda>(_, w).
     Inr (proxy, w))))))"

text \<open>The contracts in the order of their dependencies.\<close>

definition deploy_contracts :: "'w runner \<Rightarrow> bool \<Rightarrow> bytes \<Rightarrow> network_configuration \<Rightarrow> 'w \<Rightarrow> string + 'w" where
  "deploy_contracts run leads proxy config w =
     bind (run (Sync Netmap ''netmap'' leads None NoWitness [] False (Some proxy) (netmap_args config)) w) (\<lambda>(netmap, w).
     bind (run (Sync Balance ''balance'' leads None WitnessValidators [netmap] False (Some proxy) []) w) (\<lambda>(_, w).
     bind (run (Sync Reputation ''reputation'' leads None NoWitness [] False (Some proxy) []) w) (\<lambda>(_, w).
     bind (run (Sync Container ''container'' leads None WitnessValidatorsAndCommittee [netmap] True (Some proxy) []) w) (\<lambda>(_, w).
     Inr w))))"

text \<open>Each member deploys its own Alphabet contract; the designated deployer stays set once it was set.\<close>

fun deploy_alphabet ::
  "'w runner \<Rightarrow> bytes \<Rightarrow> bytes list \<Rightarrow> nat \<Rightarrow> nat list \<Rightarrow> bytes option \<Rightarrow> 'w \<Rightarrow> string + bytes list \<times> 'w" where
  "deploy_alphabet run proxy members me [] designated w = Inr ([], w)"
| "deploy_alphabet run proxy members me (ind # inds) designated w =
     (let designated' = (if ind = me then designated else Some (members ! ind)) in
      bind (run (Sync Alphabet (calculateAlphabetContractAddressDomain ind) (ind = me) designated' NoWitness [] False (Some proxy) []) w)
        (\<lambda>(a, w). bind (deploy_alphabet run proxy members me inds designated' w) (\<lambda>(as, w). Inr (a # as, w))))"

definition leader_index :: "bytes list \<Rightarrow> bytes \<Rightarrow> nat option" where
  "leader_index committee key = (if key \<in> set committee then Some (length (takeWhile (\<lambda>k. k \<noteq> key) committee)) else None)"

definition Deploy :: "'w runner \<Rightarrow> bytes list \<Rightarrow> bytes list \<Rightarrow> bytes \<Rightarrow> bool \<Rightarrow> bool \<Rightarrow> network_configuration \<Rightarrow> 'w \<Rightarrow> string + 'w" where
  "Deploy run committee members key notaryRolesSet alphaRolesSet config w = (case leader_index committee key of
     None \<Rightarrow> Inl ''local account does not belong to any Neo committee member''
   | Some me \<Rightarrow> let leads = (me = 0) in
       bind (deploy_prepare run leads notaryRolesSet alphaRolesSet w) (\<lambda>w.
       bind (deploy_proxy run leads w) (\<lambda>(proxy, w).
       bind (deploy_contracts run leads proxy config w) (\<lambda>w.
       bind (deploy_alphabet run proxy members me [0..<length committee] None w) (\<lambda>(alphabetContracts, w).
       bind (run (DistributeNEO proxy alphabetContracts) w) (\<lambda>(_, w). Inr w))))))"

text \<open>
  \<open>Contract\<close>, the deployment of a single contract: the parameters of the synchronisation, which only the
  first member of the committee tries to deploy.
\<close>

definition contract_sync_prm :: "sync_prm \<Rightarrow> nat \<Rightarrow> sync_prm" where
  "contract_sync_prm P localAccCommitteeIndex =
     P\<lparr>y_try_deploy := (localAccCommitteeIndex = 0), y_prefilled := False, y_is_proxy := False, y_allowed := []\<rparr>"

definition deploy_Contract :: "sync_prm \<Rightarrow> bytes \<Rightarrow> chain_view list \<Rightarrow> (string + bytes) outcome \<times> dlog" where
  "deploy_Contract P key vs = (case leader_index (y_committee P) key of
     None \<Rightarrow> (Return (Inl ''local account does not belong to any Neo committee member''), [])
   | Some i \<Rightarrow> (case syncNeoFSContract (contract_sync_prm P i) vs of (r, st, ms) \<Rightarrow> (r, ms)))"

end
