(* ===== verification/Deploy_Properties.thy ===== *)
theory Deploy_Properties
  imports Deploy_Listener Sample
begin

text \<open>
  What the deployment procedure achieves: a contract is brought to a chain that does what it is asked, the
  initial funds are handed out without loss, and a notary request is signed once.
\<close>

section \<open>A chain that cooperates\<close>

text \<open>
  For one contract: whether it is deployed, up to date and recorded in the NNS, and whether the top-level
  domain exists. The view of the chain answers truthfully, every sending is taken, except that a record needs
  the top-level domain, and what was taken has its effect before the next round.
\<close>

record chain =
  c_deployed :: bool
  c_current :: bool
  c_recorded :: bool
  c_tld :: bool

definition plain_error :: rpc_error where
  "plain_error = \<lparr>InsufficientFunds = False, VerificationFailed = False, UnknownContract = False, err_text = []\<rparr>"

definition contract_hash :: "sync_prm \<Rightarrow> bytes" where
  "contract_hash P = y_create_hash P (a_local (y_accounts P))"

definition view_of :: "sync_prm \<Rightarrow> chain \<Rightarrow> chain_view" where
  "view_of P c = \<lparr>w_wait = True, w_height = 0,
     w_resolve = (\<lambda>x. if x = domainNameForAddress P \<and> c_recorded c
       then Item (ItemArray [ItemBytes (y_encode_le P (contract_hash P))]) else CallException ''token not found''),
     w_by_id = Inl plain_error,
     w_contract = (\<lambda>a. if c_deployed c \<and> a = contract_hash P then Inr \<lparr>cs_hash = a, cs_name = []\<rparr>
       else Inl (plain_error\<lparr>UnknownContract := True\<rparr>)),
     w_test = (\<lambda>_. True),
     w_make_update = (\<lambda>_. if c_current c then Some (plain_error\<lparr>err_text := ErrAlreadyUpdated\<rparr>) else None),
     w_actor = True, w_extra_args = Some [],
     w_send = (\<lambda>m. case m of LocalTx [a, b] \<Rightarrow> if c_tld c then None else Some (plain_error\<lparr>err_text := ''TLD not found''\<rparr>)
       | _ \<Rightarrow> None),
     w_done = (\<lambda>_. False), w_done_late = (\<lambda>_. True)\<rparr>"

text \<open>
  Only the right messages have an effect: the deployment, the update of the contract's own hash, the record of
  its hash under its own domain, and the registration of the top-level domain.
\<close>

definition record_message :: "sync_prm \<Rightarrow> dmsg" where
  "record_message P = (let R = y_record P in
     LocalTx [register_call (r_nns R) (domainNameForAddress P) (r_sender R) (r_email R),
       add_record_call (r_nns R) (domainNameForAddress P) (y_encode_le P (contract_hash P))])"

definition take_effect :: "sync_prm \<Rightarrow> dmsg \<times> bool \<Rightarrow> chain \<Rightarrow> chain" where
  "take_effect P x c = (case x of (m, taken) \<Rightarrow>
     if \<not> taken then c
     else if m = deploy_message P [] then c\<lparr>c_deployed := True, c_current := True\<rparr>
     else if m = UpdateTx (contract_hash P) then c\<lparr>c_current := True\<rparr>
     else if m = record_message P then c\<lparr>c_recorded := True\<rparr>
     else if m = NotaryTx [tld_call (y_record P)] then c\<lparr>c_tld := True\<rparr>
     else c)"

text \<open>Rounds one after another, with the chain they leave.\<close>

fun sync_with :: "sync_prm \<Rightarrow> nat \<Rightarrow> chain \<Rightarrow> sync \<Rightarrow> (string + bytes) outcome \<times> chain" where
  "sync_with P 0 c st = (Again, c)"
| "sync_with P (Suc k) c st = (case sync_round P (view_of P c) st of
     (Return r, st', ms) \<Rightarrow> (Return r, fold (take_effect P) ms c)
   | (Again, st', ms) \<Rightarrow> sync_with P k (fold (take_effect P) ms c) st')"

lemma on_chain_view:
  assumes "y_try_deploy P" and "y_decode_le P (y_encode_le P (contract_hash P)) = Some (contract_hash P)"
  shows "on_chain P (view_of P c) ok = (let cs = \<lparr>cs_hash = contract_hash P, cs_name = []\<rparr> in
     if c_deployed c then Some (\<not> c_recorded c, Some cs)
     else if \<not> c_recorded c then Some (True, None) else if ok then Some (False, None) else None)"
  using assms by (simp add: on_chain_def readContractOnChainStateByDomainName_def w_lookup_def lookupNNSDomainRecord_def view_of_def
      try_bytes_def deployer_account_def contract_hash_def plain_error_def)

lemma deploy_message_view [simp]:
  "w_send (view_of P c) (deploy_message P args) = None"
  "take_effect P (deploy_message P [], True) c = c\<lparr>c_deployed := True, c_current := True\<rparr>"
  by (simp_all add: view_of_def deploy_message_def take_effect_def Let_def)

lemma take_effect_simps [simp]:
  "take_effect P (m, False) c = c" "take_effect P (Wait, b) c = c"
  "take_effect P (UpdateTx (contract_hash P), True) c = c\<lparr>c_current := True\<rparr>"
  "take_effect P (record_message P, True) c = c\<lparr>c_recorded := True\<rparr>"
  "take_effect P (NotaryTx [tld_call (y_record P)], True) c = c\<lparr>c_tld := True\<rparr>"
  by (simp_all add: take_effect_def deploy_message_def record_message_def Let_def)

lemma record_message_view [simp]:
  "w_send (view_of P c) (record_message P) = (if c_tld c then None else Some (plain_error\<lparr>err_text := ''TLD not found''\<rparr>))"
  by (simp add: view_of_def record_message_def Let_def)

lemma view_of_sel [simp]:
  "w_wait (view_of P c)" "w_test (view_of P c) x" "w_actor (view_of P c)" "w_extra_args (view_of P c) = Some []"
  "w_make_update (view_of P c) h = (if c_current c then Some (plain_error\<lparr>err_text := ErrAlreadyUpdated\<rparr>) else None)"
  "w_send (view_of P c) (UpdateTx h) = None" "w_send (view_of P c) (NotaryTx cs) = None"
  "w_send (view_of P c) (LocalTx [a, b]) = (if c_tld c then None else Some (plain_error\<lparr>err_text := ''TLD not found''\<rparr>))"
  "w_done (view_of P c) i = False" "w_done_late (view_of P c) i = True"
  by (simp_all add: view_of_def)

lemma plain_errors [simp]:
  "isErrContractAlreadyUpdated (plain_error\<lparr>err_text := ErrAlreadyUpdated\<rparr>)"
  "isErrTLDNotFound (plain_error\<lparr>err_text := ''TLD not found''\<rparr>)"
  "\<not> InsufficientFunds (plain_error\<lparr>err_text := x\<rparr>)"
  by (simp_all add: isErrContractAlreadyUpdated_def isErrTLDNotFound_def plain_error_def)

lemma setNeoFSContractDomainRecord_view:
  "setNeoFSContractDomainRecord (y_record P) (view_of P c) (domainNameForAddress P) (y_encode_le P (contract_hash P)) (s, t) =
     (if s then ((s, t), [])
      else if c_tld c then ((trackPending s, t), [(record_message P, True)])
      else if t then ((s, t), [(record_message P, False)])
      else ((s, trackPending t), [(record_message P, False), (NotaryTx [tld_call (y_record P)], True)]))"
proof -
  have eq: "LocalTx [register_call (r_nns (y_record P)) (domainNameForAddress P) (r_sender (y_record P)) (r_email (y_record P)),
      add_record_call (r_nns (y_record P)) (domainNameForAddress P) (y_encode_le P (contract_hash P))] = record_message P"
    by (simp add: record_message_def Let_def)
  show ?thesis unfolding setNeoFSContractDomainRecord_def by (simp add: Let_def eq)
qed

lemma sync_waits:
  assumes "y_try_deploy P" and "y_decode_le P (y_encode_le P (contract_hash P)) = Some (contract_hash P)"
    and "c_recorded c" and "\<not> c_deployed c" and "\<not> y_prefilled P"
  shows "sync_with P k c (new_sync P) = (Again, c)"
proof -
  have "sync_round P (view_of P c) (new_sync P) = (Again, new_sync P, [])"
    using assms(3-5) by (simp add: sync_round_def sync_step_def sync_settle_def sync_pending_def settle_def
        on_chain_view [OF assms(1,2)] new_sync_def Let_def)
  then show ?thesis by (induction k) simp_all
qed

text \<open>C16: a synchronisation comes to an end, and its answer is right. On a chain that answers truthfully and
  takes what it is sent, the member that deploys a contract brings it to the chain from any state of it, missing
  or outdated, recorded in the NNS or not, with or without the top-level domain: within six rounds
  \<open>syncNeoFSContract\<close> returns the address, and then the contract is deployed and up to date and its hash
  is recorded under its domain. One state is different: where the NNS has the record of a contract that is missing,
  and the call does not expect such a record (\<open>prefilledNNSRecord\<close>), the member waits for others, without end and
  without sending anything. The hash must survive being written into a record.\<close>

theorem sync_completes:
  assumes "y_try_deploy P" and "y_decode_le P (y_encode_le P (contract_hash P)) = Some (contract_hash P)"
  shows "if c_recorded c \<and> \<not> c_deployed c \<and> \<not> y_prefilled P
    then \<forall>k. sync_with P k c (new_sync P) = (Again, c)
    else \<exists>c'. sync_with P 6 c (new_sync P) = (Return (Inr (contract_hash P)), c') \<and>
      c_deployed c' \<and> c_current c' \<and> c_recorded c'"
proof -
  note defs = sync_round_def sync_step_def sync_settle_def sync_pending_def settle_def trackPending_def on_chain_view [OF assms(1,2)]
    sync_deploy_def sync_found_def sync_update_def setNeoFSContractDomainRecord_view new_sync_def assms(1)
  have "\<exists>c'. sync_with P 6 c (new_sync P) = (Return (Inr (contract_hash P)), c') \<and>
      c_deployed c' \<and> c_current c' \<and> c_recorded c'"
    if "c_recorded c \<Longrightarrow> c_deployed c \<or> y_prefilled P"
    using that
    by (cases "c_deployed c"; cases "c_current c"; cases "c_recorded c"; cases "c_tld c")
      (simp_all add: numeral_eq_Suc defs Let_def split_beta)
  then show ?thesis using sync_waits [OF assms] by auto
qed

text \<open>
  A member that does not deploy, or whose request failed, has nothing pending: its loop runs on without
  waiting for a block, and nothing in it ends the loop before the contract is there.
\<close>

lemma sync_step_idle:
  assumes "\<not> y_try_deploy P" and "on_chain P v False = None \<or> on_chain P v False = Some (missing, None)"
  shows "sync_round P v (new_sync P) = (Again, new_sync P, [])"
proof -
  have "sync_settle d (new_sync P) = new_sync P" and "\<not> sync_pending (new_sync P)" and "\<not> z_record_ok (new_sync P)" for d
    using assms(1) by (simp_all add: sync_settle_def new_sync_def settle_def sync_pending_def)
  then show ?thesis using assms by (auto simp: sync_round_def sync_step_def sync_deploy_def)
qed

lemma sync_spins:
  assumes "\<not> y_try_deploy P" and "\<forall>v \<in> set vs. on_chain P v False = None \<or> (\<exists>missing. on_chain P v False = Some (missing, None))"
  shows "syncNeoFSContract P vs = (Again, new_sync P, [])"
proof -
  have "block_loop (sync_round P) (Inl []) (map Some vs) (new_sync P) = (Again, new_sync P, [])"
    using assms(2)
  proof (induction vs)
    case (Cons v vs)
    then obtain missing where "on_chain P v False = None \<or> on_chain P v False = Some (missing, None)" by auto
    from sync_step_idle [OF assms(1) this] Cons show ?case by simp
  qed simp
  then show ?thesis by (simp add: syncNeoFSContract_def)
qed

text \<open>A concrete contract: hashes written as they are, everything missing on the chain.\<close>

definition sample_accounts :: accounts where
  "sample_accounts = \<lparr>a_local = addrA, a_majority = (\<lambda>n. n div 2 + 1), a_default = (\<lambda>n. n - (n - 1) div 3),
     a_multisig = (\<lambda>m ks. take 20 (concat ks))\<rparr>"

definition sample_sync :: sync_prm where
  "sample_sync = \<lparr>y_record = \<lparr>r_nns = addrC, r_email = ''nonexistent@nspcc.io'', r_sender = addrA\<rparr>,
     y_decode_le = (\<lambda>s. if length s = 20 then Some s else None), y_address = (\<lambda>_. None), y_encode_le = (\<lambda>b. b),
     y_create_hash = (\<lambda>b. rev b), y_domain = domainContainer, y_try_deploy = True, y_prefilled = False,
     y_designated = None, y_witness = NoWitness, y_proxy = addrB, y_is_proxy = False, y_accounts = sample_accounts,
     y_committee = [keyA, keyB], y_allowed = [], y_management = addrC, y_artifacts = []\<rparr>"

theorem sync_completes_witness:
  "\<exists>c'. sync_with sample_sync 6 \<lparr>c_deployed = False, c_current = False, c_recorded = False, c_tld = False\<rparr> (new_sync sample_sync) =
    (Return (Inr (rev addrA)), c') \<and> c_deployed c' \<and> c_current c' \<and> c_recorded c'"
  using sync_completes [of sample_sync "\<lparr>c_deployed = False, c_current = False, c_recorded = False, c_tld = False\<rparr>"]
  by (simp add: sample_sync_def sample_accounts_def contract_hash_def)

section \<open>Initial funds\<close>

lemma member_transfers_spec:
  assumes "member_transfers v accs rem = Some (ts, rest)" and "0 < rem"
  shows "0 \<le> rest \<and> sum_list (map snd ts) + rest = rem \<and>
    (\<forall>(a, x) \<in> set ts. 0 < x \<and> x \<le> initialAlphabetGASAmount * GASFactor \<and> a \<in> set accs \<and>
       (\<exists>b. b_gas v a = Some b \<and> b < initialAlphabetGASAmount * GASFactor div 2)) \<and>
    (0 < rest \<longrightarrow> (\<forall>a \<in> set accs. \<exists>b. b_gas v a = Some b \<and>
       (initialAlphabetGASAmount * GASFactor div 2 \<le> b \<or> (a, initialAlphabetGASAmount * GASFactor) \<in> set ts)))"
  using assms
proof (induction accs arbitrary: rem ts)
  case (Cons acc accs)
  obtain b where b: "b_gas v acc = Some b" using Cons.prems by (cases "b_gas v acc") auto
  let ?full = "initialAlphabetGASAmount * GASFactor"
  have full: "0 < ?full" by (simp add: initialAlphabetGASAmount_def GASFactor_def)
  show ?case
  proof (cases "?full div 2 \<le> b")
    case True
    then have "member_transfers v accs rem = Some (ts, rest)" using Cons.prems(1) b by simp
    from Cons.IH [OF this Cons.prems(2)] True b show ?thesis by fastforce
  next
    case False
    define x where "x = memberAmount rem"
    have x: "0 < x" "x \<le> ?full" "x \<le> rem" "x = rem \<or> x = ?full" "x \<noteq> ?full \<Longrightarrow> x = rem"
      using Cons.prems(2) full by (auto simp: x_def memberAmount_def Let_def split: if_splits)
    show ?thesis
    proof (cases "rem - x \<le> 0")
      case True
      then have "ts = [(acc, x)]" "rest = rem - x" using Cons.prems(1) b False by (simp_all add: x_def Let_def)
      then show ?thesis using True x b False by auto
    next
      case more: False
      then obtain ts' where ts': "member_transfers v accs (rem - x) = Some (ts', rest)" "ts = (acc, x) # ts'"
        using Cons.prems(1) b False by (auto simp: x_def Let_def)
      have "x = ?full" using x(5) more by auto
      with Cons.IH [OF ts'(1)] more ts'(2) x b False show ?thesis by fastforce
    qed
  qed
qed simp

text \<open>C23: the initial transfer loses nothing. A round that sends a request shares out all GAS of the validators'
  account but the ten GAS kept for fees: members with less than 5000 GAS get at most 10000 each, all positive
  amounts, and when something is left every such member got 10000. When the committee has an account other than
  the validators', it gets exactly what is left, together with all NEO. When the two are the same account (small
  committees, where a majority and the honest number coincide), the rest and the NEO stay there and the request
  holds the transfers to the members only.\<close>

theorem initial_transfer_exact:
  assumes "makeInitialTransferToCommittee_round P v pending = (r, pending', ms)" and "(NotaryTx calls, ok) \<in> set ms"
    and "differs \<longleftrightarrow> f_validators P \<noteq> committee_account (f_accounts P) (f_committee P)"
  shows "\<exists>remGAS remNEO ts rest. b_gas v (f_validators P) = Some remGAS \<and> b_neo v (f_validators P) = Some remNEO \<and>
    calls = map (\<lambda>(to, amount). transfer_call (f_gas P) (f_validators P) to amount)
        (ts @ (if differs \<and> 0 < rest then [(committee_account (f_accounts P) (f_committee P), rest)] else [])) @
      (if differs \<and> 0 < remNEO then [transfer_call (f_neo P) (f_validators P) (committee_account (f_accounts P) (f_committee P)) remNEO] else []) \<and>
    sum_list (map snd ts) + rest = remGAS - 10 * 10 ^ 8 \<and> 0 \<le> rest \<and>
    (\<forall>(to, amount) \<in> set ts. 0 < amount \<and> amount \<le> 10000 * 10 ^ 8 \<and> to \<in> f_account_of P ` set (f_committee P) \<and>
      (\<exists>b. b_gas v to = Some b \<and> b < 5000 * 10 ^ 8)) \<and>
    (0 < rest \<longrightarrow> (\<forall>key \<in> set (f_committee P). \<exists>b. b_gas v (f_account_of P key) = Some b \<and>
      (5000 * 10 ^ 8 \<le> b \<or> (f_account_of P key, 10000 * 10 ^ 8) \<in> set ts)))"
proof -
  let ?to = "committee_account (f_accounts P) (f_committee P)" and ?frm = "f_validators P"
  obtain remGAS remNEO ts0 where b: "b_gas v ?frm = Some remGAS" "b_neo v ?frm = Some remNEO" "lowerGASThreshold < remGAS"
    and g: "gas_transfers P v remGAS = Some ts0"
    and calls: "calls = map (\<lambda>(to, amount). transfer_call (f_gas P) ?frm to amount) ts0 @
      (if differs \<and> 0 < remNEO then [transfer_call (f_neo P) ?frm ?to remNEO] else [])"
    using assms(1,2) unfolding makeInitialTransferToCommittee_round_def Let_def assms(3) [symmetric]
    by (auto simp: send_tracked_def not_le split: option.splits if_splits)
  obtain ts rest where t: "member_transfers v (map (f_account_of P) (f_committee P)) (remGAS - lowerGASThreshold) = Some (ts, rest)"
    "ts0 = ts @ (if differs \<and> 0 < rest then [(?to, rest)] else [])"
    using g unfolding gas_transfers_def Let_def assms(3) [symmetric] by auto
  have num: "lowerGASThreshold = 10 * 10 ^ 8" "initialAlphabetGASAmount * GASFactor = 10000 * 10 ^ 8"
    "initialAlphabetGASAmount * GASFactor div 2 = 5000 * 10 ^ 8"
    by (simp_all add: lowerGASThreshold_def validatorLowerGASThreshold_def GASFactor_def initialAlphabetGASAmount_def)
  have "0 < remGAS - lowerGASThreshold" using b(3) by simp
  note spec = member_transfers_spec [OF t(1) this, unfolded num(3) num(2)]
  show ?thesis
    by (intro exI [of _ remGAS] exI [of _ remNEO] exI [of _ ts] exI [of _ rest] conjI)
      (use b calls t(2) spec num(1) in \<open>auto simp: split_beta\<close>)
qed

text \<open>Two members, 15010 GAS and one NEO: 10000 GAS for the first, 5000 for the second, which had nothing.\<close>

definition sample_funds :: funds_prm where
  "sample_funds = \<lparr>f_gas = ''GAS'', f_neo = ''NEO'', f_accounts = sample_accounts, f_committee = [keyA, keyB],
     f_account_of = take 20, f_validators = addrC, f_proxy = addrB, f_try = True\<rparr>"

definition sample_funds_view :: funds_view where
  "sample_funds_view = \<lparr>b_gas = (\<lambda>a. Some (if a = addrC then 1501000000000 else 0)), b_neo = (\<lambda>a. Some 1),
     b_notary = None, b_send = (\<lambda>_. None), b_done = False\<rparr>"

definition sample_calls :: "call list" where
  "sample_calls = [transfer_call ''GAS'' addrC (take 20 keyA) 1000000000000, transfer_call ''GAS'' addrC (take 20 keyB) 500000000000,
     transfer_call ''NEO'' addrC (take 20 keyA) 1]"

lemma sample_round:
  "makeInitialTransferToCommittee_round sample_funds sample_funds_view False = (Again, True, [(NotaryTx sample_calls, True)])"
  by code_simp

theorem initial_transfer_exact_witness:
  "\<exists>ts rest. sum_list (map snd ts) + rest = 1500000000000 \<and> 0 \<le> rest \<and> sample_calls =
    map (\<lambda>(to, amount). transfer_call ''GAS'' addrC to amount) (ts @ (if 0 < rest then [(take 20 keyA, rest)] else [])) @
    [transfer_call ''NEO'' addrC (take 20 keyA) 1]"
proof -
  have c: "committee_account (f_accounts sample_funds) (f_committee sample_funds) = take 20 keyA"
    by (simp add: committee_account_def sample_funds_def sample_accounts_def)
  have v: "b_gas sample_funds_view addrC = Some 1501000000000" "b_neo sample_funds_view addrC = Some 1"
    "f_gas sample_funds = ''GAS''" "f_neo sample_funds = ''NEO''" "f_validators sample_funds = addrC"
    by (simp_all add: sample_funds_def sample_funds_view_def)
  have "True \<longleftrightarrow> f_validators sample_funds \<noteq> committee_account (f_accounts sample_funds) (f_committee sample_funds)" by code_simp
  from initial_transfer_exact [OF sample_round _ this, of sample_calls True, OF list.set_intros(1)] obtain remGAS remNEO ts rest where
    r: "Some 1501000000000 = Some remGAS" "Some 1 = Some remNEO" "sum_list (map snd ts) + rest = remGAS - 10 * 10 ^ 8" "0 \<le> rest"
    and calls: "sample_calls = map (\<lambda>(to, amount). transfer_call ''GAS'' addrC to amount) (ts @ (if 0 < rest then [(take 20 keyA, rest)] else [])) @
      (if 0 < remNEO then [transfer_call ''NEO'' addrC (take 20 keyA) remNEO] else [])"
    unfolding c v simp_thms by blast
  from calls r(2) have "sample_calls = map (\<lambda>(to, amount). transfer_call ''GAS'' addrC to amount) (ts @ (if 0 < rest then [(take 20 keyA, rest)] else [])) @
    [transfer_call ''NEO'' addrC (take 20 keyA) 1]" by simp
  moreover from r have "sum_list (map snd ts) + rest = 1500000000000" by simp
  ultimately show ?thesis using r(4) by blast
qed

section \<open>Notary requests\<close>

text \<open>A role found means that the signer is that account and that the local signature is not there yet.\<close>

definition roles_ok :: "listener_prm \<Rightarrow> main_tx \<Rightarrow> roles \<Rightarrow> bool" where
  "roles_ok P tx r \<longleftrightarrow>
     (case i_local r of None \<Rightarrow> True | Some i \<Rightarrow> i < length (mt_signers tx) \<and> acct (mt_signers tx ! i) = q_local P \<and>
        invocation (mt_scripts tx ! i) = []) \<and>
     (case i_committee r of None \<Rightarrow> True | Some i \<Rightarrow> i < length (mt_signers tx) \<and> acct (mt_signers tx ! i) = q_committee P \<and>
        \<not> sublist (q_committee_sign P tx) (invocation (mt_scripts tx ! i))) \<and>
     (case i_validators r of None \<Rightarrow> True | Some i \<Rightarrow> i < length (mt_signers tx) \<and> acct (mt_signers tx ! i) = q_validators P \<and>
        \<not> sublist (q_validators_sign P tx) (invocation (mt_scripts tx ! i)))"

lemma find_roles_ok:
  "find_roles P tx is r = Some r' \<Longrightarrow> roles_ok P tx r \<Longrightarrow> set is \<subseteq> {..<length (mt_signers tx)} \<Longrightarrow> roles_ok P tx r'"
proof (induction P tx "is" r rule: find_roles.induct)
  case (2 P tx i "is" r)
  let ?a = "acct (mt_signers tx ! i)"
  have i: "i < length (mt_signers tx)" "set is \<subseteq> {..<length (mt_signers tx)}" using 2(8) by auto
  consider (notary) "?a = q_notary P" | (local) "?a \<noteq> q_notary P" "?a = q_local P"
    | (committee) "?a \<noteq> q_notary P" "?a \<noteq> q_local P" "?a = q_committee P"
    | (validators) "?a \<noteq> q_notary P" "?a \<noteq> q_local P" "?a \<noteq> q_committee P" "?a = q_validators P"
    | (other) "?a \<noteq> q_notary P" "?a \<noteq> q_local P" "?a \<noteq> q_committee P" "?a \<noteq> q_validators P" by blast
  then show ?case
  proof cases
    case notary
    then show ?thesis using 2(1) [OF refl refl notary] 2(6,7) i(2) by (simp add: Let_def roles_ok_def)
  next
    case local
    then show ?thesis using 2(2) [OF refl refl local] 2(6,7) i by (auto simp: Let_def roles_ok_def split: if_splits)
  next
    case committee
    then show ?thesis using 2(3) [OF refl refl committee] 2(6,7) i by (auto simp: Let_def roles_ok_def split: if_splits)
  next
    case validators
    then show ?thesis using 2(4) [OF refl refl validators] 2(6,7) i by (auto simp: Let_def roles_ok_def split: if_splits)
  next
    case other
    then show ?thesis using 2(5) [OF refl refl other] 2(6,7) i(2) by (simp add: Let_def)
  qed
qed simp

text \<open>What a request that is signed looks like.\<close>

definition to_be_signed :: "listener_prm \<Rightarrow> main_tx \<Rightarrow> bool" where
  "to_be_signed P tx \<longleftrightarrow> mt_signers tx \<noteq> [] \<and> acct (last (mt_signers tx)) = q_notary P \<and>
     length (mt_scripts tx) = length (mt_signers tx) \<and>
     (\<exists>i < length (mt_signers tx). let a = acct (mt_signers tx ! i); script = invocation (mt_scripts tx ! i) in
        a = q_local P \<and> script = [] \<or> a = q_committee P \<and> \<not> sublist (q_committee_sign P tx) script \<or>
        a = q_validators P \<and> \<not> sublist (q_validators_sign P tx) script)"

lemma handle_request_signed:
  assumes "handle_request P processed added tx = (processed', Some signers)"
  shows "added" "mt_hash tx \<notin> processed" "to_be_signed P tx"
proof -
  let ?n = "length (mt_signers tx)"
  obtain r where r: "added" "mt_hash tx \<notin> processed" "length (mt_scripts tx) = ?n" "?n \<noteq> 0"
    "acct (mt_signers tx ! (?n - 1)) = q_notary P" "find_roles P tx [0..<?n] no_roles = Some r"
    "\<not> (i_local r = None \<and> i_committee r = None \<and> i_validators r = None)"
    using assms by (auto simp: handle_request_def Let_def split: if_splits option.splits)
  have "roles_ok P tx no_roles" by (simp add: roles_ok_def no_roles_def)
  moreover have "set [0..<?n] \<subseteq> {..<?n}" by auto
  ultimately have ok: "roles_ok P tx r" by (rule find_roles_ok [OF r(6)])
  consider i where "i_local r = Some i" | i where "i_committee r = Some i" | i where "i_validators r = Some i" using r(7) by auto
  then have "\<exists>i < ?n. let a = acct (mt_signers tx ! i); script = invocation (mt_scripts tx ! i) in
      a = q_local P \<and> script = [] \<or> a = q_committee P \<and> \<not> sublist (q_committee_sign P tx) script \<or>
      a = q_validators P \<and> \<not> sublist (q_validators_sign P tx) script"
    by cases (use ok in \<open>auto simp: roles_ok_def Let_def\<close>)
  then show "added" "mt_hash tx \<notin> processed" "to_be_signed P tx"
    using r(1-5) by (simp_all add: to_be_signed_def last_conv_nth)
qed

text \<open>C29: a notary request is signed once, and only when it asks for it. Of any sequence of events the listener
  signs and sends requests with different main transactions only, each of an added request whose transaction
  has the notary contract as its last signer, a script for each signer, and among the signers the local, the
  committee's or the validators' account, not yet signed for by the local key.\<close>

theorem listener_signs_once:
  "distinct (map (mt_hash \<circ> fst) (handle_requests P {} events)) \<and>
   list_all (\<lambda>(tx, signers). (True, tx) \<in> set events \<and> to_be_signed P tx) (handle_requests P {} events)"
proof -
  have "distinct (map (mt_hash \<circ> fst) (handle_requests P processed es)) \<and>
     mt_hash ` fst ` set (handle_requests P processed es) \<inter> processed = {} \<and>
     list_all (\<lambda>(tx, signers). (True, tx) \<in> set es \<and> to_be_signed P tx) (handle_requests P processed es)" for es processed
  proof (induction es arbitrary: processed)
    case (Cons e es)
    obtain added tx where e: "e = (added, tx)" by (cases e)
    obtain processed' r where h: "handle_request P processed added tx = (processed', r)" by (cases "handle_request P processed added tx")
    have p: "processed' = insert (mt_hash tx) processed"
      using h by (auto simp: handle_request_def Let_def split: if_splits option.splits)
    have weak: "list_all (\<lambda>(tx, signers). (True, tx) \<in> set es \<and> to_be_signed P tx) xs \<Longrightarrow>
        list_all (\<lambda>(tx, signers). (True, tx) \<in> set (e # es) \<and> to_be_signed P tx) xs" for xs :: "(main_tx \<times> (signer_account \<times> bytes) list) list"
      by (induction xs) auto
    note ih = Cons.IH [of processed']
    show ?case
    proof (cases r)
      case None
      then have "handle_requests P processed (e # es) = handle_requests P processed' es" by (simp add: e h)
      then show ?thesis using ih weak by (auto simp: p)
    next
      case (Some signers)
      then have eq: "handle_requests P processed (e # es) = (tx, signers) # handle_requests P processed' es" by (simp add: e h)
      note s = handle_request_signed [OF h [unfolded Some]]
      have "(True, tx) \<in> set (e # es)" using s(1) by (simp add: e)
      then show ?thesis unfolding eq using ih weak s(2,3) by (auto simp: p)
    qed
  qed simp
  from this [of "{}" events] show ?thesis by blast
qed

end
