(* ===== verification/Deploy_Monitor.thy ===== *)
theory Deploy_Monitor
  imports Deploy_Base
begin

text \<open>
  The monitor of the chain (\<open>blockchainMonitor\<close> of \<open>deploy/util.go\<close>): a routine that receives the
  headers, the loop that waits for a block, and the request to stop. The routine and its callers share the
  height and three channels, so their runs are sequences of events in the order in which they happen:
  a header arrives, the header channel is closed, a reader takes the notice of a new block, and, in a
  waiting loop, the case its \<open>select\<close> takes.
\<close>

record monitor =
  height :: "32 word"
  new_block :: bool        \<comment> \<open>chNewBlock, a channel of one notice, is full\<close>
  conn_lost :: bool        \<comment> \<open>chConnLost is closed\<close>
  exit_closed :: bool      \<comment> \<open>chExit is closed\<close>
  listening :: bool

definition newBlockchainMonitor :: "32 word \<Rightarrow> monitor" where
  "newBlockchainMonitor initialBlockCount =
     \<lparr>height = initialBlockCount - 1, new_block = False, conn_lost = False, exit_closed = False, listening = True\<rparr>"

text \<open>
  \<open>TakeCtx\<close>, \<open>TakeLost\<close> and \<open>TakeTick\<close> are the three cases of the waiting \<open>select\<close>; \<open>TakeLost\<close>
  can only be taken when the connection is lost.
\<close>

datatype event = Header "32 word" | HeadersClosed | NoticeTaken | TakeCtx | TakeLost | TakeTick

definition listen :: "event \<Rightarrow> monitor \<Rightarrow> monitor" where
  "listen e m = (if \<not> listening m then m else case e of
     Header h \<Rightarrow> m\<lparr>height := h, new_block := True\<rparr>
   | HeadersClosed \<Rightarrow> m\<lparr>conn_lost := True, exit_closed := True, listening := False\<rparr>
   | NoticeTaken \<Rightarrow> m\<lparr>new_block := False\<rparr>
   | _ \<Rightarrow> m)"

text \<open>The wait: \<open>None\<close> while it goes on. The result comes with the state and the events left.\<close>

fun wait_loop :: "32 word \<Rightarrow> event list \<Rightarrow> monitor \<Rightarrow> (string + unit) option \<times> monitor \<times> event list" where
  "wait_loop initialBlock [] m = (None, m, [])"
| "wait_loop initialBlock (e # es) m =
     (if e = TakeCtx then (Some (Inl ''context is done''), m, es)
      else if e = TakeLost \<and> conn_lost m then (Some (Inl ''connection to the blockchain is lost''), m, es)
      else if e = TakeTick \<and> initialBlock < height m then (Some (Inr ()), m, es)
      else wait_loop initialBlock es (listen e m))"

definition waitForNextBlock :: "event list \<Rightarrow> monitor \<Rightarrow> (string + unit) option \<times> monitor \<times> event list" where
  "waitForNextBlock es m = wait_loop (height m) es m"

text \<open>
  The stop sends on \<open>chExit\<close>, which has no buffer, and closes it. The routine receives from it only next to
  a header, and then it may hand over the notice instead, when there is room for one: \<open>choices\<close> tells
  which. Sending on a closed channel, or one that is closed meanwhile, is a panic.
\<close>

fun monitor_stop :: "event list \<Rightarrow> bool list \<Rightarrow> monitor \<Rightarrow> (string + unit) option \<times> monitor" where
  "monitor_stop es choices m = (if exit_closed m then (Some (Inl ''send on closed channel''), m)
     else case es of
       [] \<Rightarrow> (None, m)
     | Header h # es' \<Rightarrow>
         if \<not> listening m then (None, m)
         else if \<not> new_block m \<and> (case choices of [] \<Rightarrow> False | exit # _ \<Rightarrow> \<not> exit)
         then monitor_stop es' (tl choices) (listen (Header h) m)
         else (Some (Inr ()), m\<lparr>height := h, exit_closed := True, listening := False\<rparr>)
     | e # es' \<Rightarrow> monitor_stop es' choices (listen e m))"

section \<open>What they guarantee\<close>

text \<open>A wait that succeeds has seen a higher block; one that fails has its reason.\<close>

lemma wait_loop_result:
  assumes "wait_loop initialBlock es m = (Some r, m', es')"
  shows "(case r of Inr u \<Rightarrow> initialBlock < height m' | Inl e \<Rightarrow> e = ''context is done'' \<or> conn_lost m')"
  using assms by (induction initialBlock es m rule: wait_loop.induct) (auto split: if_splits)

text \<open>
  As soon as a higher block arrives, the next tick ends the wait, unless the context ends first: heights that
  grow keep the condition.
\<close>

lemma wait_loop_header:
  assumes "initialBlock < height m" and "listening m" and "\<forall>e \<in> set es. e = NoticeTaken \<or> (\<exists>h. e = Header h \<and> initialBlock < h)"
  shows "\<exists>m'. wait_loop initialBlock (es @ TakeTick # rest) m = (Some (Inr ()), m', rest)"
  using assms
proof (induction es arbitrary: m)
  case (Cons e es)
  then have "initialBlock < height (listen e m)" "listening (listen e m)" by (auto simp: listen_def)
  from Cons.IH [OF this] Cons.prems(3) show ?case by auto
qed simp

lemma next_block_ends_wait:
  assumes "listening m" and "height m < h"
  shows "\<exists>m'. waitForNextBlock (Header h # TakeTick # rest) m = (Some (Inr ()), m', rest)"
  using assms wait_loop_header [of "height m" "listen (Header h) m" "[]" rest] by (auto simp: waitForNextBlock_def listen_def)

text \<open>The three flags of a lost connection go together, whatever happens.\<close>

definition lost_together :: "monitor \<Rightarrow> bool" where
  "lost_together m \<longleftrightarrow> (conn_lost m \<longrightarrow> exit_closed m \<and> \<not> listening m)"

lemma listen_lost_together: "lost_together m \<Longrightarrow> lost_together (listen e m)"
  by (cases e) (auto simp: lost_together_def listen_def)

lemma wait_loop_lost_together: "wait_loop i es m = (r, m', es') \<Longrightarrow> lost_together m \<Longrightarrow> lost_together m'"
  by (induction i es m rule: wait_loop.induct) (auto split: if_splits dest: listen_lost_together)

text \<open>
  A wait that reports the lost connection leaves a monitor whose stop panics: the routine has closed the
  channel on which the stop sends.
\<close>

lemma stop_panics_after_loss:
  assumes "waitForNextBlock es (newBlockchainMonitor count) = (Some (Inl ''connection to the blockchain is lost''), m, es')"
  shows "monitor_stop es'' choices m = (Some (Inl ''send on closed channel''), m)"
proof -
  have "lost_together (newBlockchainMonitor count)" by (simp add: lost_together_def newBlockchainMonitor_def)
  then have "lost_together m" using assms wait_loop_lost_together unfolding waitForNextBlock_def by blast
  moreover have "conn_lost m" using wait_loop_result [OF assms [unfolded waitForNextBlock_def]] by simp
  ultimately show ?thesis by (simp add: lost_together_def)
qed

end
