(* ===== verification/Common_Properties.thy ===== *)
theory Common_Properties
  imports Sample
begin

text \<open>
  What the shared package promises the contracts: the quorums of its multisignature addresses, the guard
  of updates, and the resolution of contract hashes through the name service.
\<close>

section \<open>Quorums\<close>

lemma threshold_bounds:
  "2 * n < 3 * multiaddress_threshold n False" "n < 2 * multiaddress_threshold n True"
  "0 < n \<Longrightarrow> multiaddress_threshold n c \<le> n"
  by (auto simp: multiaddress_threshold_def; presburger)+

lemma overlap:
  assumes "finite N" and "S \<subseteq> N" and "T \<subseteq> N"
  shows "card S + card T \<le> card N + card (S \<inter> T)"
proof -
  have "card (S \<union> T) \<le> card N" using assms by (intro card_mono) auto
  moreover have "card S + card T = card (S \<union> T) + card (S \<inter> T)"
    using assms by (intro card_Un_Int) (auto intro: finite_subset)
  ultimately show ?thesis by simp
qed

text \<open>\<open>Multiaddress\<close> asks for a number of signatures that the keys can give, and that makes any
  two sets of signers large enough for it share a key: with a committee address at least one, with an
  Alphabet address more than a third of all keys, so that two decisions of a third of faulty keys cannot
  contradict each other.\<close>

theorem Multiaddress_quorums_overlap:
  assumes "distinct n" and "n \<noteq> []" and "S \<subseteq> set n" and "T \<subseteq> set n"
    and "multiaddress_threshold (length n) committee \<le> card S"
    and "multiaddress_threshold (length n) committee \<le> card T"
  shows "Multiaddress E n committee = rt_multisig E (int (multiaddress_threshold (length n) committee)) n \<and>
    1 \<le> multiaddress_threshold (length n) committee \<and> multiaddress_threshold (length n) committee \<le> length n \<and>
    (if committee then S \<inter> T \<noteq> {} else length n < 3 * card (S \<inter> T))"
proof -
  have len: "card (set n) = length n" using assms(1) by (rule distinct_card)
  note ov = overlap [OF finite_set assms(3,4)]
  have "length n < 3 * card (S \<inter> T)" if "\<not> committee"
    using ov assms(5,6) threshold_bounds(1) [of "length n"] that len by simp
  moreover have "S \<inter> T \<noteq> {}" if committee
  proof
    assume "S \<inter> T = {}"
    with ov assms(5,6) threshold_bounds(2) [of "length n"] that len show False by simp
  qed
  ultimately show ?thesis using threshold_bounds(3) [of "length n" committee] assms(2)
    by (auto simp: Multiaddress_def multiaddress_threshold_def)
qed

theorem Multiaddress_quorums_overlap_witness:
  "multiaddress_threshold 4 False = 3 \<and> (4 :: nat) < 3 * card ({keyA, keyB, keyC} \<inter> {keyA, keyB, addrA})"
proof -
  have d: "distinct [keyA, keyB, keyC, addrA]" "keyA \<noteq> addrA" "keyB \<noteq> addrA" "keyC \<noteq> addrA"
    by (auto dest: arg_cong [of _ _ length])
  then have c: "card {keyA, keyB, keyC} = 3" "card {keyA, keyB, addrA} = 3" by simp_all
  show ?thesis
    using Multiaddress_quorums_overlap [OF d(1), of "{keyA, keyB, keyC}" "{keyA, keyB, addrA}" False] c
    by (simp add: multiaddress_threshold_def)
qed

section \<open>Updates\<close>

text \<open>An update of any contract is let through only with the committee's witness, and it starts
  from a version the code supports: the version a contract appends to the arguments of its update is its
  own, so updating from a supported version to the current one passes the version check and updating the
  current one to itself is refused.\<close>

theorem update_guarded:
  "(update_by_committee E management nefFile manifest data w = Inr w' \<longrightarrow>
      witnessed E (CommitteeAddress E) \<and> management nefFile manifest (AppendVersion data) w = Inr w') \<and>
   last_version (AppendVersion data) = Inr Version \<and>
   (CheckVersion v = Inr () \<longleftrightarrow> PrevVersion \<le> v \<and> v < Version) \<and>
   CheckVersion Version \<noteq> Inr () \<and> CheckVersion PrevVersion = Inr ()"
proof -
  have "PrevVersion < Version" by (simp add: PrevVersion_def Version_def)
  then show ?thesis
    using last_version_AppendVersion [of data] CheckVersion_Inr [of PrevVersion "()"]
    by (auto simp: update_by_committee_def HasUpdateAccess_def witnessed_def split: if_split_asm)
qed

theorem update_guarded_witness:
  "CheckVersion 27000 = Inr () \<and> CheckVersion 24999 \<noteq> Inr () \<and> CheckVersion 28000 \<noteq> Inr () \<and>
   witnessed sample_env (CommitteeAddress sample_env)"
  using update_guarded [of sample_env "\<lambda>_ _ _ w. Inr w" "[]" "[]" None "()" "()" 27000]
    update_guarded [of sample_env "\<lambda>_ _ _ w. Inr w" "[]" "[]" None "()" "()" 24999]
    update_guarded [of sample_env "\<lambda>_ _ _ w. Inr w" "[]" "[]" None "()" "()" 28000]
  by (simp add: PrevVersion_def Version_def update_by_committee_def HasUpdateAccess_def CheckWitness_def
      CommitteeAddress_def Multiaddress_def)

section \<open>Contract hashes in the name service\<close>

text \<open>The hexadecimal form of a script hash in an NNS record: little endian, two digits for a byte.\<close>

definition hex_digit :: "int \<Rightarrow> char" where
  "hex_digit d = (if d < 10 then char_of (48 + d) else char_of (87 + d))"

definition hex_byte :: "char \<Rightarrow> string" where
  "hex_byte b = [hex_digit (of_char b div 16), hex_digit (of_char b mod 16)]"

definition hex_hash :: "bytes \<Rightarrow> string" where
  "hex_hash h = concat (map hex_byte (rev h))"

text \<open>The documented behaviour of \<open>std.Atoi\<close> in base 16: two's complement of the byte.\<close>

definition signed_byte :: "char \<Rightarrow> int" where
  "signed_byte b = (if of_char b < (128 :: int) then of_char b else of_char b - 256)"

lemma length_hex_hash: "length (hex_hash h) = 2 * length h"
  by (induction h) (auto simp: hex_hash_def hex_byte_def)

lemma take_drop_concat2:
  "(\<And>b. b \<in> set xs \<Longrightarrow> length (f b) = 2) \<Longrightarrow> i < length xs \<Longrightarrow> take 2 (drop (2 * i) (concat (map f xs))) = f (xs ! i)"
proof (induction xs arbitrary: i)
  case (Cons x xs)
  then show ?case by (cases i) simp_all
qed simp

lemma set_byte_signed: "set_byte (signed_byte b) = Inr b"
proof -
  have b: "0 \<le> (of_char b :: int)" "(of_char b :: int) < 256"
    by (rule of_char_bounds)+
  have "(char_of (signed_byte b) :: char) = b"
  proof (cases "of_char b < (128 :: int)")
    case False
    have "(char_of (of_char b - 256 :: int) :: char) = char_of ((of_char b - 256 :: int) mod 256)"
      by (metis char_of_mod_256)
    also have "(of_char b - 256 :: int) mod 256 = of_char b" using b by (simp add: mod_diff_eq)
    finally show ?thesis using False by (simp add: signed_byte_def)
  qed (simp add: signed_byte_def)
  then show ?thesis using b by (simp add: set_byte_def signed_byte_def)
qed

text \<open>A contract hash published in the name service as forty hexadecimal digits, least significant
  byte first, resolves to that very hash, for every hash and whichever record follows it; the only
  assumption is what the standard library documents of \<open>Atoi\<close> for two hexadecimal digits.\<close>

theorem ResolveFSContractWithNNS_hex:
  assumes "\<And>b. rt_atoi16 E (hex_byte b) = Inr (signed_byte b)" and "length h = Hash160Len"
    and "resolve nns (contractName @ ''.'' @ ''neofs'') 16 = Inr (hex_hash h # records)"
  shows "ResolveFSContractWithNNS E resolve nns contractName = Inr h"
proof -
  have at: "take 2 (drop ((Hash160Len - i - 1) * 2) (hex_hash h)) = hex_byte (h ! i)" if "i < Hash160Len" for i
  proof -
    have "take 2 (drop (2 * (Hash160Len - i - 1)) (concat (map hex_byte (rev h)))) = hex_byte (rev h ! (Hash160Len - i - 1))"
      using that assms(2) by (intro take_drop_concat2) (auto simp: hex_byte_def)
    also have "rev h ! (Hash160Len - i - 1) = h ! i" using that assms(2) by (simp add: rev_nth)
    finally show ?thesis by (simp add: hex_hash_def mult.commute)
  qed
  have "mapR (\<lambda>i. let ii = (Hash160Len - i - 1) * 2 in
          andThen (rt_atoi16 E (take 2 (drop ii (hex_hash h)))) set_byte) [0..<Hash160Len]
      = Inr (map ((!) h) [0..<Hash160Len])"
    by (rule mapR_Inr) (simp only: Let_def at atLeastLessThan_iff set_upt assms(1) andThen.simps set_byte_signed)
  moreover have "map ((!) h) [0..<Hash160Len] = h" using assms(2) map_nth [of h] by (simp only:)
  ultimately show ?thesis using assms(2,3)
    by (simp only: ResolveFSContractWithNNS_def andThen.simps list.case length_hex_hash if_True simp_thms)
qed

definition unhex :: "char \<Rightarrow> int" where
  "unhex c = (if of_char c < (58 :: int) then of_char c - 48 else of_char c - 87)"

definition hex_env :: env where
  "hex_env = sample_env\<lparr>rt_atoi16 := (\<lambda>s. case s of [a, b] \<Rightarrow>
     (let v = unhex a * 16 + unhex b in Inr (if v < 128 then v else v - 256)) | _ \<Rightarrow> Inl (Fault ''invalid format''))\<rparr>"

lemma unhex_hex_digit: "0 \<le> d \<Longrightarrow> d < 16 \<Longrightarrow> unhex (hex_digit d) = d"
  by (auto simp: unhex_def hex_digit_def simp del: of_char_of simp add: of_char_of_int)

lemma hex_env_atoi: "rt_atoi16 hex_env (hex_byte b) = Inr (signed_byte b)"
proof -
  have b: "0 \<le> (of_char b :: int)" "(of_char b :: int) < 256"
    by (rule of_char_bounds)+
  have "(of_char b :: int) div 16 < 16" using b by (simp add: div_less_iff_less_mult)
  then have "unhex (hex_digit (of_char b div 16)) = of_char b div 16" "unhex (hex_digit (of_char b mod 16)) = of_char b mod 16"
    using b by (simp_all add: unhex_hex_digit pos_imp_zdiv_nonneg_iff)
  then show ?thesis by (simp add: hex_env_def hex_byte_def Let_def signed_byte_def)
qed

theorem ResolveFSContractWithNNS_hex_witness:
  "ResolveFSContractWithNNS hex_env (\<lambda>_ _ _. Inr [hex_hash addrB]) addrC ''netmap'' = Inr addrB"
  by (rule ResolveFSContractWithNNS_hex [where records = "[]"]) (simp_all add: hex_env_atoi)

end
