(* ===== verification/Stack_Item.thy ===== *)
theory Stack_Item
  imports Common "HOL-Library.AList"
begin

text \<open>
  What the client wrappers of the contracts (\<open>rpc/*/rpcbinding.go\<close>) share: the items a contract returns and
  notifies, the conversions of single fields, the structures made of them, the parameters of a call, and the
  events of an application log. The wrappers repeat the same steps for every structure; each step is one
  definition here, every structure a definition of its own in the theories that follow.

  The items are the values of the virtual machine; a Go value \<open>item.Value()\<close> is a list for an array or a
  structure, a list of pairs for a map. How the client library converts a single item (\<open>TryInteger\<close> and so
  on) and a value into a parameter is a parameter of the model, the record \<open>client\<close>; what the properties need
  of it is the predicate \<open>client_ok\<close>.
\<close>

section \<open>Items and errors\<close>

datatype item =
    INull
  | IBool bool
  | IInt int
  | IBytes bytes
  | IBuffer bytes
  | IArray "item list"
  | IStruct "item list"
  | IMap "(item \<times> item) list"
  | IOther

text \<open>An error a Go function returns, and a panic of the Go run time, which no caller here recovers.\<close>

datatype go_error = Err string | GoPanic string

type_synonym 'a go = "go_error + 'a"

text \<open>\<open>fmt.Errorf("...: %w", err)\<close>.\<close>

definition in_context :: "string \<Rightarrow> 'a go \<Rightarrow> 'a go" where
  "in_context ctx r = (case r of Inl (Err e) \<Rightarrow> Inl (Err (ctx @ '': '' @ e)) | Inl (GoPanic p) \<Rightarrow> Inl (GoPanic p) | Inr x \<Rightarrow> Inr x)"

definition field :: "string \<Rightarrow> 'a go \<Rightarrow> 'a go" where
  "field name r = in_context (''field '' @ name) r"

text \<open>Values handed to \<open>smartcontract.NewParameterFromValue\<close>, and the parameters of a call.\<close>

datatype 'k go_value =
    VInt int
  | VBool bool
  | VBytes bytes
  | VString string
  | VUint160 bytes
  | VUint256 bytes
  | VKey 'k

datatype 'k param = PAny | PValue "'k go_value" | PArray "'k param list" | PMap "('k param \<times> 'k param) list"

record 'k client =
  try_integer :: "item \<Rightarrow> int go"              \<comment> \<open>Item.TryInteger\<close>
  try_bytes :: "item \<Rightarrow> bytes go"              \<comment> \<open>Item.TryBytes\<close>
  try_bool :: "item \<Rightarrow> bool go"                \<comment> \<open>Item.TryBool\<close>
  item_type :: "item \<Rightarrow> string"                \<comment> \<open>Item.Type().String()\<close>
  uint160_be :: "bytes \<Rightarrow> bytes go"            \<comment> \<open>util.Uint160DecodeBytesBE\<close>
  uint256_be :: "bytes \<Rightarrow> bytes go"            \<comment> \<open>util.Uint256DecodeBytesBE\<close>
  public_key :: "bytes \<Rightarrow> 'k go"               \<comment> \<open>keys.NewPublicKeyFromBytes for P-256\<close>
  key_bytes :: "'k \<Rightarrow> bytes"                   \<comment> \<open>PublicKey.Bytes\<close>
  new_parameter :: "'k go_value \<Rightarrow> 'k param go" \<comment> \<open>smartcontract.NewParameterFromValue\<close>
  arrives :: "'k param \<Rightarrow> item"              \<comment> \<open>the item the called contract gets for a parameter\<close>

section \<open>UTF-8\<close>

text \<open>
  \<open>utf8.Valid\<close>: the shortest encodings of the code points up to 10FFFF but for the surrogates. The second
  byte of a sequence has a range that depends on the first.
\<close>

definition between :: "nat \<Rightarrow> nat \<Rightarrow> char \<Rightarrow> bool" where
  "between a b c \<longleftrightarrow> a \<le> of_char c \<and> of_char c \<le> b"

fun utf8_valid :: "bytes \<Rightarrow> bool" where
  "utf8_valid [] = True"
| "utf8_valid (a # bs) =
     (if between 0 127 a then utf8_valid bs
      else if between 194 223 a then (case bs of b # bs' \<Rightarrow> between 128 191 b \<and> utf8_valid bs' | _ \<Rightarrow> False)
      else if between 224 239 a then (case bs of
          b # c # bs' \<Rightarrow> between (if of_char a = (224 :: nat) then 160 else 128) (if of_char a = (237 :: nat) then 159 else 191) b
            \<and> between 128 191 c \<and> utf8_valid bs'
        | _ \<Rightarrow> False)
      else if between 240 244 a then (case bs of
          b # c # d # bs' \<Rightarrow> between (if of_char a = (240 :: nat) then 144 else 128) (if of_char a = (244 :: nat) then 143 else 191) b
            \<and> between 128 191 c \<and> between 128 191 d \<and> utf8_valid bs'
        | _ \<Rightarrow> False)
      else False)"

lemma utf8_valid_ascii: "\<forall>c \<in> set s. of_char c < (128 :: nat) \<Longrightarrow> utf8_valid s"
  by (induction s) (auto simp: between_def)

declare utf8_valid.simps(2) [simp del]

section \<open>Single fields\<close>

definition item_string :: "'k client \<Rightarrow> item \<Rightarrow> string go" where
  "item_string L i = andThen (try_bytes L i) (\<lambda>b. if utf8_valid b then Inr b else Inl (Err ''not a UTF-8 string''))"

definition item_uint160 :: "'k client \<Rightarrow> item \<Rightarrow> bytes go" where
  "item_uint160 L i = andThen (try_bytes L i) (uint160_be L)"

definition item_uint256 :: "'k client \<Rightarrow> item \<Rightarrow> bytes go" where
  "item_uint256 L i = andThen (try_bytes L i) (uint256_be L)"

definition item_key :: "'k client \<Rightarrow> item \<Rightarrow> 'k go" where
  "item_key L i = andThen (try_bytes L i) (public_key L)"

text \<open>\<open>item.Value().([]stackitem.Item)\<close> and \<open>item.Value().([]stackitem.MapElement)\<close>.\<close>

fun item_elements :: "item \<Rightarrow> item list option" where
  "item_elements (IArray xs) = Some xs"
| "item_elements (IStruct xs) = Some xs"
| "item_elements _ = None"

fun item_pairs :: "item \<Rightarrow> (item \<times> item) list option" where
  "item_pairs (IMap ps) = Some ps"
| "item_pairs _ = None"

primrec items_from :: "nat \<Rightarrow> (item \<Rightarrow> 'a go) \<Rightarrow> item list \<Rightarrow> 'a list go" where
  "items_from n f [] = Inr []"
| "items_from n f (x # xs) = andThen (in_context (''item '' @ itoa10 (int n)) (f x)) (\<lambda>y.
     andThen (items_from (Suc n) f xs) (\<lambda>ys. Inr (y # ys)))"

definition item_list :: "(item \<Rightarrow> 'a go) \<Rightarrow> item \<Rightarrow> 'a list go" where
  "item_list f i = (case item_elements i of None \<Rightarrow> Inl (Err ''not an array'') | Some xs \<Rightarrow> items_from 0 f xs)"

text \<open>
  A Go map is the list of its entries. The loop over the pairs of the item: the key, the value, the assignment,
  which may panic where the key is a dynamic value.
\<close>

fun pairs_from ::
  "(item \<Rightarrow> 'a go) \<Rightarrow> (item \<Rightarrow> 'b go) \<Rightarrow> ('a \<Rightarrow> bool) \<Rightarrow> nat \<Rightarrow> (item \<times> item) list \<Rightarrow> ('a \<times> 'b) list \<Rightarrow> ('a \<times> 'b) list go" where
  "pairs_from f g hashable n [] m = Inr m"
| "pairs_from f g hashable n ((k, v) # ps) m =
     andThen (in_context (''key '' @ itoa10 (int n)) (f k)) (\<lambda>k'.
     andThen (in_context (''value '' @ itoa10 (int n)) (g v)) (\<lambda>v'.
     if \<not> hashable k' then Inl (GoPanic ''hash of unhashable type'')
     else pairs_from f g hashable (Suc n) ps (AList.update k' v' m)))"

definition item_map :: "'k client \<Rightarrow> (item \<Rightarrow> 'a go) \<Rightarrow> (item \<Rightarrow> 'b go) \<Rightarrow> ('a \<Rightarrow> bool) \<Rightarrow> item \<Rightarrow> ('a \<times> 'b) list go" where
  "item_map L f g hashable i = (case item_pairs i of
     None \<Rightarrow> Inl (Err (item_type L i @ '' is not a map''))
   | Some ps \<Rightarrow> pairs_from f g hashable 0 ps [])"

definition item_string_map :: "'k client \<Rightarrow> item \<Rightarrow> (string \<times> string) list go" where
  "item_string_map L i = item_map L (item_string L) (item_string L) (\<lambda>_. True) i"

text \<open>The dynamic value of an item can be a key of a Go map unless it is a slice.\<close>

fun value_hashable :: "item \<Rightarrow> bool" where
  "value_hashable (IBytes _) = False"
| "value_hashable (IBuffer _) = False"
| "value_hashable (IArray _) = False"
| "value_hashable (IStruct _) = False"
| "value_hashable (IMap _) = False"
| "value_hashable _ = True"

section \<open>Structures\<close>

definition struct_items :: "nat \<Rightarrow> item \<Rightarrow> item list go" where
  "struct_items n i = (case item_elements i of
     None \<Rightarrow> Inl (Err ''not an array'')
   | Some arr \<Rightarrow> if length arr \<noteq> n then Inl (Err ''wrong number of structure elements'') else Inr arr)"

text \<open>The argument is the result of a call; a Null is a nil pointer.\<close>

definition item_to :: "(item \<Rightarrow> 'a go) \<Rightarrow> item go \<Rightarrow> 'a option go" where
  "item_to from r = andThen r (\<lambda>i. if i = INull then Inr None else andThen (from i) (\<lambda>x. Inr (Some x)))"

text \<open>The loop of steps \<open>itm, err = ...\<close>, \<open>append\<close>.\<close>

primrec each_field :: "(string \<times> 'a go) list \<Rightarrow> 'a list go" where
  "each_field [] = Inr []"
| "each_field (f # fs) = andThen (field (fst f) (snd f)) (\<lambda>x. andThen (each_field fs) (\<lambda>xs. Inr (x # xs)))"

text \<open>Slices and maps, where nil and empty differ, are options.\<close>

primrec elements_out :: "nat \<Rightarrow> ('a \<Rightarrow> 'b go) \<Rightarrow> 'a list \<Rightarrow> 'b list go" where
  "elements_out n f [] = Inr []"
| "elements_out n f (x # xs) = andThen (in_context (''item '' @ itoa10 (int n)) (f x)) (\<lambda>y.
     andThen (elements_out (Suc n) f xs) (\<lambda>ys. Inr (y # ys)))"

definition slice_item :: "('a \<Rightarrow> item go) \<Rightarrow> 'a list option \<Rightarrow> item go" where
  "slice_item f xs = (case xs of None \<Rightarrow> Inr INull | Some xs \<Rightarrow> andThen (elements_out 0 f xs) (\<lambda>is. Inr (IArray is)))"

definition slice_param :: "('a \<Rightarrow> 'k param go) \<Rightarrow> 'a list option \<Rightarrow> 'k param go" where
  "slice_param f xs = (case xs of None \<Rightarrow> Inr PAny | Some xs \<Rightarrow> andThen (elements_out 0 f xs) (\<lambda>ps. Inr (PArray ps)))"

definition string_map_item :: "(string \<times> string) list option \<Rightarrow> item go" where
  "string_map_item m = (case m of None \<Rightarrow> Inr INull | Some kvs \<Rightarrow> Inr (IMap (map (\<lambda>(k, v). (IBytes k, IBytes v)) kvs)))"

definition pair_param :: "'k client \<Rightarrow> string \<times> string \<Rightarrow> ('k param \<times> 'k param) go" where
  "pair_param L kv =
     andThen (in_context (''key '' @ fst kv) (new_parameter L (VString (fst kv)))) (\<lambda>k.
     andThen (in_context (''key '' @ fst kv @ '', wrong value'') (new_parameter L (VString (snd kv)))) (\<lambda>v. Inr (k, v)))"

definition string_map_param :: "'k client \<Rightarrow> (string \<times> string) list option \<Rightarrow> 'k param go" where
  "string_map_param L m = (case m of None \<Rightarrow> Inr PAny | Some kvs \<Rightarrow> andThen (mapR (pair_param L) kvs) (\<lambda>ps. Inr (PMap ps)))"

section \<open>Events\<close>

text \<open>The item of an event is an array, or nil.\<close>

definition event_items :: "nat \<Rightarrow> item list option \<Rightarrow> item list go" where
  "event_items n i = (case i of
     None \<Rightarrow> Inl (Err ''nil item'')
   | Some arr \<Rightarrow> if length arr \<noteq> n then Inl (Err ''wrong number of structure elements'') else Inr arr)"

type_synonym notification = "string \<times> item list option"

text \<open>An application log: its executions with their events; nil is \<open>None\<close>.\<close>

type_synonym app_log = "notification list list option"

primrec scan_events :: "string \<Rightarrow> string \<Rightarrow> (item list option \<Rightarrow> 'e go) \<Rightarrow> nat \<Rightarrow> nat \<Rightarrow> notification list \<Rightarrow> 'e list go" where
  "scan_events name type parse i j [] = Inr []"
| "scan_events name type parse i j (e # es) =
     (if fst e \<noteq> name then scan_events name type parse i (Suc j) es
      else andThen (in_context (''failed to deserialize '' @ type @ '' from stackitem (execution #'' @ itoa10 (int i)
          @ '', event #'' @ itoa10 (int j) @ '')'') (parse (snd e))) (\<lambda>x.
        andThen (scan_events name type parse i (Suc j) es) (\<lambda>xs. Inr (x # xs))))"

primrec scan_executions :: "string \<Rightarrow> string \<Rightarrow> (item list option \<Rightarrow> 'e go) \<Rightarrow> nat \<Rightarrow> notification list list \<Rightarrow> 'e list go" where
  "scan_executions name type parse i [] = Inr []"
| "scan_executions name type parse i (ex # exs) = andThen (scan_events name type parse i 0 ex) (\<lambda>xs.
     andThen (scan_executions name type parse (Suc i) exs) (\<lambda>ys. Inr (xs @ ys)))"

definition events_from :: "string \<Rightarrow> string \<Rightarrow> (item list option \<Rightarrow> 'e go) \<Rightarrow> app_log \<Rightarrow> 'e list go" where
  "events_from name type parse log = (case log of
     None \<Rightarrow> Inl (Err ''nil application log'')
   | Some exs \<Rightarrow> scan_executions name type parse 0 exs)"

section \<open>The laws of the client library\<close>

text \<open>
  An integer, a byte string and a truth value are converted to themselves; a Null is no byte string; hashes of
  the right length and encoded keys are accepted; every value makes a parameter, and a parameter arrives as the
  item of its kind, an array as an array.
\<close>

fun value_item :: "'k client \<Rightarrow> 'k go_value \<Rightarrow> item" where
  "value_item L (VInt n) = IInt n"
| "value_item L (VBool b) = IBool b"
| "value_item L (VBytes b) = IBytes b"
| "value_item L (VString s) = IBytes s"
| "value_item L (VUint160 h) = IBytes h"
| "value_item L (VUint256 h) = IBytes h"
| "value_item L (VKey k) = IBytes (key_bytes L k)"

definition client_ok :: "'k client \<Rightarrow> bool" where
  "client_ok L \<longleftrightarrow>
     (\<forall>n. try_integer L (IInt n) = Inr n) \<and> (\<forall>b. try_bytes L (IBytes b) = Inr b) \<and> (\<forall>b. try_bool L (IBool b) = Inr b) \<and>
     (\<exists>e. try_bytes L INull = Inl (Err e)) \<and>
     (\<forall>b. length b = Hash160Len \<longrightarrow> uint160_be L b = Inr b) \<and> (\<forall>b. length b = Hash256Len \<longrightarrow> uint256_be L b = Inr b) \<and>
     (\<forall>k. public_key L (key_bytes L k) = Inr k) \<and> (\<forall>v. new_parameter L v = Inr (PValue v)) \<and>
     arrives L PAny = INull \<and> (\<forall>v. arrives L (PValue v) = value_item L v) \<and>
     (\<forall>ps. arrives L (PArray ps) = IArray (map (arrives L) ps)) \<and>
     (\<forall>ps. arrives L (PMap ps) = IMap (map (\<lambda>(k, v). (arrives L k, arrives L v)) ps))"

lemma client_okD:
  assumes "client_ok L"
  shows "try_integer L (IInt n) = Inr n" "try_bytes L (IBytes b) = Inr b" "try_bool L (IBool t) = Inr t"
    "\<exists>e. try_bytes L INull = Inl (Err e)" "length b = Hash160Len \<Longrightarrow> uint160_be L b = Inr b"
    "length b = Hash256Len \<Longrightarrow> uint256_be L b = Inr b" "public_key L (key_bytes L k) = Inr k"
    "new_parameter L v = Inr (PValue v)" "arrives L PAny = INull" "arrives L (PValue v) = value_item L v"
    "arrives L (PArray ps) = IArray (map (arrives L) ps)"
    "arrives L (PMap qs) = IMap (map (\<lambda>(p, q). (arrives L p, arrives L q)) qs)"
  using assms unfolding client_ok_def by simp_all

section \<open>Reading back what was written\<close>

lemma context_Inr [simp]: "in_context ctx (Inr x) = Inr x" "field name (Inr x) = Inr x"
  by (simp_all add: in_context_def field_def)

lemma context_Err [simp]: "in_context ctx (Inl (Err e)) = Inl (Err (ctx @ '': '' @ e))"
  "field name (Inl (Err e)) = Inl (Err (''field '' @ name @ '': '' @ e))" "in_context ctx (Inl (GoPanic p)) = Inl (GoPanic p)"
  "field name (Inl (GoPanic p)) = Inl (GoPanic p)"
  by (simp_all add: in_context_def field_def)

lemma item_fields:
  assumes "client_ok L"
  shows "utf8_valid s \<Longrightarrow> item_string L (IBytes s) = Inr s" "length h = Hash160Len \<Longrightarrow> item_uint160 L (IBytes h) = Inr h"
    "length i = Hash256Len \<Longrightarrow> item_uint256 L (IBytes i) = Inr i" "item_key L (IBytes b) = public_key L b"
  using client_okD [OF assms] by (simp_all add: item_string_def item_uint160_def item_uint256_def item_key_def)

lemma items_from_map: "\<forall>x \<in> set xs. f (g x) = Inr (h x) \<Longrightarrow> items_from n f (map g xs) = Inr (map h xs)"
  by (induction xs arbitrary: n) auto

lemma elements_out_map: "\<forall>x \<in> set xs. f x = Inr (g x) \<Longrightarrow> elements_out n f xs = Inr (map g xs)"
  by (induction xs arbitrary: n) auto

lemma item_list_map: "\<forall>x \<in> set xs. f (g x) = Inr (h x) \<Longrightarrow> item_list f (IArray (map g xs)) = Inr (map h xs)"
  by (simp add: item_list_def items_from_map)

lemma update_new: "k \<notin> fst ` set m \<Longrightarrow> AList.update k v m = m @ [(k, v)]"
  by (induction m) auto

lemma pairs_from_map:
  assumes "\<forall>(k, v) \<in> set kvs. f (p k) = Inr k \<and> g (q v) = Inr v \<and> ok k" and "distinct (map fst (m @ kvs))"
  shows "pairs_from f g ok n (map (\<lambda>(k, v). (p k, q v)) kvs) m = Inr (m @ kvs)"
  using assms by (induction kvs arbitrary: n m) (auto simp: update_new)

lemma item_string_map_back:
  assumes "client_ok L" and "distinct (map fst kvs)" and "\<forall>(k, v) \<in> set kvs. utf8_valid k \<and> utf8_valid v"
  shows "item_string_map L (IMap (map (\<lambda>(k, v). (IBytes k, IBytes v)) kvs)) = Inr kvs"
proof -
  have "\<forall>(k, v) \<in> set kvs. item_string L (IBytes k) = Inr k \<and> item_string L (IBytes v) = Inr v \<and> True"
    using assms(3) item_fields(1) [OF assms(1)] by blast
  from pairs_from_map [OF this, of "[]"] assms(2) show ?thesis by (simp add: item_string_map_def item_map_def)
qed

lemma mapR_map: "\<forall>x \<in> set xs. f x = Inr (g x) \<Longrightarrow> mapR f xs = Inr (map g xs)"
  by (induction xs) auto

lemma string_map_param_back:
  assumes "client_ok L" and "distinct (map fst kvs)" and "\<forall>(k, v) \<in> set kvs. utf8_valid k \<and> utf8_valid v"
  shows "\<exists>p. string_map_param L (Some kvs) = Inr p \<and> item_string_map L (arrives L p) = Inr kvs"
proof -
  have "mapR (pair_param L) kvs = Inr (map (\<lambda>(k, v). (PValue (VString k), PValue (VString v))) kvs)"
    by (rule mapR_map) (auto simp: pair_param_def client_okD(8) [OF assms(1)])
  then show ?thesis
    using item_string_map_back [OF assms] client_okD(10,12) [OF assms(1)] by (simp add: string_map_param_def comp_def split_def)
qed

lemma scan_events_filter:
  assumes "\<forall>e \<in> set es. fst e = name \<longrightarrow> parse (snd e) = Inr (f (snd e))"
  shows "scan_events name type parse i j es = Inr (map (f \<circ> snd) (filter (\<lambda>e. fst e = name) es))"
  using assms by (induction es arbitrary: j) auto

lemma events_from_filter:
  assumes "\<forall>e \<in> set (concat exs). fst e = name \<longrightarrow> parse (snd e) = Inr (f (snd e))"
  shows "events_from name type parse (Some exs) = Inr (map (f \<circ> snd) (filter (\<lambda>e. fst e = name) (concat exs)))"
proof -
  have "scan_executions name type parse i exs = Inr (map (f \<circ> snd) (filter (\<lambda>e. fst e = name) (concat exs)))" for i
    using assms
  proof (induction exs arbitrary: i)
    case (Cons ex exs)
    then have "\<forall>e \<in> set ex. fst e = name \<longrightarrow> parse (snd e) = Inr (f (snd e))" by simp
    from scan_events_filter [OF this] Cons show ?case by simp
  qed simp
  then show ?thesis by (simp add: events_from_def)
qed

text \<open>One event that cannot be read makes the whole log unreadable.\<close>

lemma scan_events_fails:
  assumes "e \<in> set es" and "fst e = name" and "parse (snd e) = Inl x"
  shows "\<exists>y. scan_events name type parse i j es = Inl y"
  using assms
proof (induction es arbitrary: j)
  case (Cons a es)
  show ?case
  proof (cases "a = e")
    case True
    then show ?thesis using Cons.prems by (cases x) simp_all
  next
    case False
    then have "e \<in> set es" using Cons.prems(1) by simp
    from Cons.IH [OF this Cons.prems(2,3), of "Suc j"] obtain y where "scan_events name type parse i (Suc j) es = Inl y" by blast
    then show ?thesis by (cases "in_context (''failed to deserialize '' @ type @ '' from stackitem (execution #'' @ itoa10 (int i)
          @ '', event #'' @ itoa10 (int j) @ '')'') (parse (snd a))") simp_all
  qed
qed simp

lemma events_from_fails:
  assumes "e \<in> set (concat exs)" and "fst e = name" and "parse (snd e) = Inl x"
  shows "\<exists>y. events_from name type parse (Some exs) = Inl y"
proof -
  have "\<exists>y. scan_executions name type parse i exs = Inl y" for i
    using assms(1)
  proof (induction exs arbitrary: i)
    case (Cons ex exs)
    show ?case
    proof (cases "e \<in> set ex")
      case True
      from scan_events_fails [where parse = parse and type = type and i = i and j = 0, OF this assms(2) assms(3)] show ?thesis by auto
    next
      case False
      with Cons.prems have "e \<in> set (concat exs)" by simp
      from Cons.IH [OF this, of "Suc i"] show ?thesis by (cases "scan_events name type parse i 0 ex") auto
    qed
  qed simp
  then show ?thesis by (simp add: events_from_def)
qed

end
