(* ===== verification/Rpc_Container.thy ===== *)
theory Rpc_Container
  imports Stack_Item
begin

text \<open>
  The client wrapper of the Container contract (\<open>rpc/container/rpcbinding.go\<close>): its structures with their
  conversions from and to stack items and to the parameters of a call, and the events it reads from an
  application log. Hashes are their big endian bytes, pointers and slices that may be nil are options.
\<close>

section \<open>Structures\<close>

record ContainerAPIVersion =
  cv_Major :: int
  cv_Minor :: int

definition ContainerAPIVersion_FromStackItem :: "'k client \<Rightarrow> item \<Rightarrow> ContainerAPIVersion go" where
  "ContainerAPIVersion_FromStackItem L i = andThen (struct_items 2 i) (\<lambda>arr.
     andThen (field ''Major'' (try_integer L (arr ! 0))) (\<lambda>major.
     andThen (field ''Minor'' (try_integer L (arr ! 1))) (\<lambda>minor.
     Inr \<lparr>cv_Major = major, cv_Minor = minor\<rparr>)))"

definition itemToContainerAPIVersion :: "'k client \<Rightarrow> item go \<Rightarrow> ContainerAPIVersion option go" where
  "itemToContainerAPIVersion L r = item_to (ContainerAPIVersion_FromStackItem L) r"

definition ContainerAPIVersion_ToStackItem :: "ContainerAPIVersion option \<Rightarrow> item go" where
  "ContainerAPIVersion_ToStackItem res = (case res of None \<Rightarrow> Inr INull | Some x \<Rightarrow> andThen (each_field
     [(''Major'', Inr (IInt (cv_Major x))),
      (''Minor'', Inr (IInt (cv_Minor x)))])
     (\<lambda>items. Inr (IStruct items)))"

definition ContainerAPIVersion_ToSCParameter :: "'k client \<Rightarrow> ContainerAPIVersion option \<Rightarrow> 'k param go" where
  "ContainerAPIVersion_ToSCParameter L res = (case res of None \<Rightarrow> Inr PAny | Some x \<Rightarrow> andThen (each_field
     [(''Major'', new_parameter L (VInt (cv_Major x))),
      (''Minor'', new_parameter L (VInt (cv_Minor x)))])
     (\<lambda>prms. Inr (PArray prms)))"

record ContainerAttribute =
  ca_Key :: string
  ca_Value :: string

definition ContainerAttribute_FromStackItem :: "'k client \<Rightarrow> item \<Rightarrow> ContainerAttribute go" where
  "ContainerAttribute_FromStackItem L i = andThen (struct_items 2 i) (\<lambda>arr.
     andThen (field ''Key'' (item_string L (arr ! 0))) (\<lambda>key.
     andThen (field ''Value'' (item_string L (arr ! 1))) (\<lambda>value'.
     Inr \<lparr>ca_Key = key, ca_Value = value'\<rparr>)))"

definition itemToContainerAttribute :: "'k client \<Rightarrow> item go \<Rightarrow> ContainerAttribute option go" where
  "itemToContainerAttribute L r = item_to (ContainerAttribute_FromStackItem L) r"

definition ContainerAttribute_ToStackItem :: "ContainerAttribute option \<Rightarrow> item go" where
  "ContainerAttribute_ToStackItem res = (case res of None \<Rightarrow> Inr INull | Some x \<Rightarrow> andThen (each_field
     [(''Key'', Inr (IBytes (ca_Key x))),
      (''Value'', Inr (IBytes (ca_Value x)))])
     (\<lambda>items. Inr (IStruct items)))"

definition ContainerAttribute_ToSCParameter :: "'k client \<Rightarrow> ContainerAttribute option \<Rightarrow> 'k param go" where
  "ContainerAttribute_ToSCParameter L res = (case res of None \<Rightarrow> Inr PAny | Some x \<Rightarrow> andThen (each_field
     [(''Key'', new_parameter L (VString (ca_Key x))),
      (''Value'', new_parameter L (VString (ca_Value x)))])
     (\<lambda>prms. Inr (PArray prms)))"

record ContainerEpochBillingStat =
  cb_Account :: bytes
  cb_LatestContainerSize :: int
  cb_LatestEpoch :: int
  cb_LastUpdateTime :: int
  cb_LatestEpochAverageSize :: int
  cb_PreviousContainerSize :: int
  cb_PreviousEpoch :: int
  cb_PreviousEpochAverageSize :: int

definition ContainerEpochBillingStat_FromStackItem :: "'k client \<Rightarrow> item \<Rightarrow> ContainerEpochBillingStat go" where
  "ContainerEpochBillingStat_FromStackItem L i = andThen (struct_items 8 i) (\<lambda>arr.
     andThen (field ''Account'' (item_uint160 L (arr ! 0))) (\<lambda>account.
     andThen (field ''LatestContainerSize'' (try_integer L (arr ! 1))) (\<lambda>latestContainerSize.
     andThen (field ''LatestEpoch'' (try_integer L (arr ! 2))) (\<lambda>latestEpoch.
     andThen (field ''LastUpdateTime'' (try_integer L (arr ! 3))) (\<lambda>lastUpdateTime.
     andThen (field ''LatestEpochAverageSize'' (try_integer L (arr ! 4))) (\<lambda>latestEpochAverageSize.
     andThen (field ''PreviousContainerSize'' (try_integer L (arr ! 5))) (\<lambda>previousContainerSize.
     andThen (field ''PreviousEpoch'' (try_integer L (arr ! 6))) (\<lambda>previousEpoch.
     andThen (field ''PreviousEpochAverageSize'' (try_integer L (arr ! 7))) (\<lambda>previousEpochAverageSize.
     Inr \<lparr>cb_Account = account, cb_LatestContainerSize = latestContainerSize, cb_LatestEpoch = latestEpoch,
       cb_LastUpdateTime = lastUpdateTime, cb_LatestEpochAverageSize = latestEpochAverageSize,
       cb_PreviousContainerSize = previousContainerSize, cb_PreviousEpoch = previousEpoch,
       cb_PreviousEpochAverageSize = previousEpochAverageSize\<rparr>)))))))))"

definition itemToContainerEpochBillingStat :: "'k client \<Rightarrow> item go \<Rightarrow> ContainerEpochBillingStat option go" where
  "itemToContainerEpochBillingStat L r = item_to (ContainerEpochBillingStat_FromStackItem L) r"

definition ContainerEpochBillingStat_ToStackItem :: "ContainerEpochBillingStat option \<Rightarrow> item go" where
  "ContainerEpochBillingStat_ToStackItem res = (case res of None \<Rightarrow> Inr INull | Some x \<Rightarrow> andThen (each_field
     [(''Account'', Inr (IBytes (cb_Account x))),
      (''LatestContainerSize'', Inr (IInt (cb_LatestContainerSize x))),
      (''LatestEpoch'', Inr (IInt (cb_LatestEpoch x))),
      (''LastUpdateTime'', Inr (IInt (cb_LastUpdateTime x))),
      (''LatestEpochAverageSize'', Inr (IInt (cb_LatestEpochAverageSize x))),
      (''PreviousContainerSize'', Inr (IInt (cb_PreviousContainerSize x))),
      (''PreviousEpoch'', Inr (IInt (cb_PreviousEpoch x))),
      (''PreviousEpochAverageSize'', Inr (IInt (cb_PreviousEpochAverageSize x)))])
     (\<lambda>items. Inr (IStruct items)))"

definition ContainerEpochBillingStat_ToSCParameter :: "'k client \<Rightarrow> ContainerEpochBillingStat option \<Rightarrow> 'k param go" where
  "ContainerEpochBillingStat_ToSCParameter L res = (case res of None \<Rightarrow> Inr PAny | Some x \<Rightarrow> andThen (each_field
     [(''Account'', new_parameter L (VUint160 (cb_Account x))),
      (''LatestContainerSize'', new_parameter L (VInt (cb_LatestContainerSize x))),
      (''LatestEpoch'', new_parameter L (VInt (cb_LatestEpoch x))),
      (''LastUpdateTime'', new_parameter L (VInt (cb_LastUpdateTime x))),
      (''LatestEpochAverageSize'', new_parameter L (VInt (cb_LatestEpochAverageSize x))),
      (''PreviousContainerSize'', new_parameter L (VInt (cb_PreviousContainerSize x))),
      (''PreviousEpoch'', new_parameter L (VInt (cb_PreviousEpoch x))),
      (''PreviousEpochAverageSize'', new_parameter L (VInt (cb_PreviousEpochAverageSize x)))])
     (\<lambda>prms. Inr (PArray prms)))"

record ContainerInfo =
  cc_Version :: "ContainerAPIVersion option"
  cc_Owner :: bytes
  cc_Nonce :: bytes
  cc_BasicACL :: int
  cc_Attributes :: "ContainerAttribute option list option"
  cc_StoragePolicy :: bytes

definition ContainerInfo_FromStackItem :: "'k client \<Rightarrow> item \<Rightarrow> ContainerInfo go" where
  "ContainerInfo_FromStackItem L i = andThen (struct_items 6 i) (\<lambda>arr.
     andThen (field ''Version'' (itemToContainerAPIVersion L (Inr (arr ! 0)))) (\<lambda>version.
     andThen (field ''Owner'' (item_uint160 L (arr ! 1))) (\<lambda>owner.
     andThen (field ''Nonce'' (try_bytes L (arr ! 2))) (\<lambda>nonce.
     andThen (field ''BasicACL'' (try_integer L (arr ! 3))) (\<lambda>basicACL.
     andThen (field ''Attributes'' (item_list (\<lambda>i. itemToContainerAttribute L (Inr i)) (arr ! 4))) (\<lambda>attributes.
     andThen (field ''StoragePolicy'' (try_bytes L (arr ! 5))) (\<lambda>storagePolicy.
     Inr \<lparr>cc_Version = version, cc_Owner = owner, cc_Nonce = nonce, cc_BasicACL = basicACL,
       cc_Attributes = Some attributes, cc_StoragePolicy = storagePolicy\<rparr>)))))))"

definition itemToContainerInfo :: "'k client \<Rightarrow> item go \<Rightarrow> ContainerInfo option go" where
  "itemToContainerInfo L r = item_to (ContainerInfo_FromStackItem L) r"

definition ContainerInfo_ToStackItem :: "ContainerInfo option \<Rightarrow> item go" where
  "ContainerInfo_ToStackItem res = (case res of None \<Rightarrow> Inr INull | Some x \<Rightarrow> andThen (each_field
     [(''Version'', ContainerAPIVersion_ToStackItem (cc_Version x)),
      (''Owner'', Inr (IBytes (cc_Owner x))),
      (''Nonce'', Inr (IBytes (cc_Nonce x))),
      (''BasicACL'', Inr (IInt (cc_BasicACL x))),
      (''Attributes'', slice_item ContainerAttribute_ToStackItem (cc_Attributes x)),
      (''StoragePolicy'', Inr (IBytes (cc_StoragePolicy x)))])
     (\<lambda>items. Inr (IStruct items)))"

definition ContainerInfo_ToSCParameter :: "'k client \<Rightarrow> ContainerInfo option \<Rightarrow> 'k param go" where
  "ContainerInfo_ToSCParameter L res = (case res of None \<Rightarrow> Inr PAny | Some x \<Rightarrow> andThen (each_field
     [(''Version'', ContainerAPIVersion_ToSCParameter L (cc_Version x)),
      (''Owner'', new_parameter L (VUint160 (cc_Owner x))),
      (''Nonce'', new_parameter L (VBytes (cc_Nonce x))),
      (''BasicACL'', new_parameter L (VInt (cc_BasicACL x))),
      (''Attributes'', slice_param (ContainerAttribute_ToSCParameter L) (cc_Attributes x)),
      (''StoragePolicy'', new_parameter L (VBytes (cc_StoragePolicy x)))])
     (\<lambda>prms. Inr (PArray prms)))"

record ContainerInfoWithRevision =
  cr_Info :: "ContainerInfo option"
  cr_Revision :: int

definition ContainerInfoWithRevision_FromStackItem :: "'k client \<Rightarrow> item \<Rightarrow> ContainerInfoWithRevision go" where
  "ContainerInfoWithRevision_FromStackItem L i = andThen (struct_items 2 i) (\<lambda>arr.
     andThen (field ''Info'' (itemToContainerInfo L (Inr (arr ! 0)))) (\<lambda>info.
     andThen (field ''Revision'' (try_integer L (arr ! 1))) (\<lambda>revision.
     Inr \<lparr>cr_Info = info, cr_Revision = revision\<rparr>)))"

definition itemToContainerInfoWithRevision :: "'k client \<Rightarrow> item go \<Rightarrow> ContainerInfoWithRevision option go" where
  "itemToContainerInfoWithRevision L r = item_to (ContainerInfoWithRevision_FromStackItem L) r"

definition ContainerInfoWithRevision_ToStackItem :: "ContainerInfoWithRevision option \<Rightarrow> item go" where
  "ContainerInfoWithRevision_ToStackItem res = (case res of None \<Rightarrow> Inr INull | Some x \<Rightarrow> andThen (each_field
     [(''Info'', ContainerInfo_ToStackItem (cr_Info x)),
      (''Revision'', Inr (IInt (cr_Revision x)))])
     (\<lambda>items. Inr (IStruct items)))"

definition ContainerInfoWithRevision_ToSCParameter :: "'k client \<Rightarrow> ContainerInfoWithRevision option \<Rightarrow> 'k param go" where
  "ContainerInfoWithRevision_ToSCParameter L res = (case res of None \<Rightarrow> Inr PAny | Some x \<Rightarrow> andThen (each_field
     [(''Info'', ContainerInfo_ToSCParameter L (cr_Info x)),
      (''Revision'', new_parameter L (VInt (cr_Revision x)))])
     (\<lambda>prms. Inr (PArray prms)))"

record 'k ContainerNodeReport =
  cn_PublicKey :: "'k"
  cn_ContainerSize :: int
  cn_NumberOfObjects :: int
  cn_NumberOfReports :: int
  cn_LastUpdateEpoch :: int

definition ContainerNodeReport_FromStackItem :: "'k client \<Rightarrow> item \<Rightarrow> 'k ContainerNodeReport go" where
  "ContainerNodeReport_FromStackItem L i = andThen (struct_items 5 i) (\<lambda>arr.
     andThen (field ''PublicKey'' (item_key L (arr ! 0))) (\<lambda>publicKey.
     andThen (field ''ContainerSize'' (try_integer L (arr ! 1))) (\<lambda>containerSize.
     andThen (field ''NumberOfObjects'' (try_integer L (arr ! 2))) (\<lambda>numberOfObjects.
     andThen (field ''NumberOfReports'' (try_integer L (arr ! 3))) (\<lambda>numberOfReports.
     andThen (field ''LastUpdateEpoch'' (try_integer L (arr ! 4))) (\<lambda>lastUpdateEpoch.
     Inr \<lparr>cn_PublicKey = publicKey, cn_ContainerSize = containerSize, cn_NumberOfObjects = numberOfObjects,
       cn_NumberOfReports = numberOfReports, cn_LastUpdateEpoch = lastUpdateEpoch\<rparr>))))))"

definition itemToContainerNodeReport :: "'k client \<Rightarrow> item go \<Rightarrow> 'k ContainerNodeReport option go" where
  "itemToContainerNodeReport L r = item_to (ContainerNodeReport_FromStackItem L) r"

definition ContainerNodeReport_ToStackItem :: "'k client \<Rightarrow> 'k ContainerNodeReport option \<Rightarrow> item go" where
  "ContainerNodeReport_ToStackItem L res = (case res of None \<Rightarrow> Inr INull | Some x \<Rightarrow> andThen (each_field
     [(''PublicKey'', Inr (IBytes (key_bytes L (cn_PublicKey x)))),
      (''ContainerSize'', Inr (IInt (cn_ContainerSize x))),
      (''NumberOfObjects'', Inr (IInt (cn_NumberOfObjects x))),
      (''NumberOfReports'', Inr (IInt (cn_NumberOfReports x))),
      (''LastUpdateEpoch'', Inr (IInt (cn_LastUpdateEpoch x)))])
     (\<lambda>items. Inr (IStruct items)))"

definition ContainerNodeReport_ToSCParameter :: "'k client \<Rightarrow> 'k ContainerNodeReport option \<Rightarrow> 'k param go" where
  "ContainerNodeReport_ToSCParameter L res = (case res of None \<Rightarrow> Inr PAny | Some x \<Rightarrow> andThen (each_field
     [(''PublicKey'', new_parameter L (VKey (cn_PublicKey x))),
      (''ContainerSize'', new_parameter L (VInt (cn_ContainerSize x))),
      (''NumberOfObjects'', new_parameter L (VInt (cn_NumberOfObjects x))),
      (''NumberOfReports'', new_parameter L (VInt (cn_NumberOfReports x))),
      (''LastUpdateEpoch'', new_parameter L (VInt (cn_LastUpdateEpoch x)))])
     (\<lambda>prms. Inr (PArray prms)))"

record ContainerNodeReportSummary =
  cs_ContainerSize :: int
  cs_NumberOfObjects :: int

definition ContainerNodeReportSummary_FromStackItem :: "'k client \<Rightarrow> item \<Rightarrow> ContainerNodeReportSummary go" where
  "ContainerNodeReportSummary_FromStackItem L i = andThen (struct_items 2 i) (\<lambda>arr.
     andThen (field ''ContainerSize'' (try_integer L (arr ! 0))) (\<lambda>containerSize.
     andThen (field ''NumberOfObjects'' (try_integer L (arr ! 1))) (\<lambda>numberOfObjects.
     Inr \<lparr>cs_ContainerSize = containerSize, cs_NumberOfObjects = numberOfObjects\<rparr>)))"

definition itemToContainerNodeReportSummary :: "'k client \<Rightarrow> item go \<Rightarrow> ContainerNodeReportSummary option go" where
  "itemToContainerNodeReportSummary L r = item_to (ContainerNodeReportSummary_FromStackItem L) r"

definition ContainerNodeReportSummary_ToStackItem :: "ContainerNodeReportSummary option \<Rightarrow> item go" where
  "ContainerNodeReportSummary_ToStackItem res = (case res of None \<Rightarrow> Inr INull | Some x \<Rightarrow> andThen (each_field
     [(''ContainerSize'', Inr (IInt (cs_ContainerSize x))),
      (''NumberOfObjects'', Inr (IInt (cs_NumberOfObjects x)))])
     (\<lambda>items. Inr (IStruct items)))"

definition ContainerNodeReportSummary_ToSCParameter :: "'k client \<Rightarrow> ContainerNodeReportSummary option \<Rightarrow> 'k param go" where
  "ContainerNodeReportSummary_ToSCParameter L res = (case res of None \<Rightarrow> Inr PAny | Some x \<Rightarrow> andThen (each_field
     [(''ContainerSize'', new_parameter L (VInt (cs_ContainerSize x))),
      (''NumberOfObjects'', new_parameter L (VInt (cs_NumberOfObjects x)))])
     (\<lambda>prms. Inr (PArray prms)))"

text \<open>The structure \<open>ContainerQuota\<close> of the wrapper; the contract's method of that name is another.\<close>

record ContainerQuotaLimits =
  cq_SoftLimit :: int
  cq_HardLimit :: int

definition ContainerQuota_FromStackItem :: "'k client \<Rightarrow> item \<Rightarrow> ContainerQuotaLimits go" where
  "ContainerQuota_FromStackItem L i = andThen (struct_items 2 i) (\<lambda>arr.
     andThen (field ''SoftLimit'' (try_integer L (arr ! 0))) (\<lambda>softLimit.
     andThen (field ''HardLimit'' (try_integer L (arr ! 1))) (\<lambda>hardLimit.
     Inr \<lparr>cq_SoftLimit = softLimit, cq_HardLimit = hardLimit\<rparr>)))"

definition itemToContainerQuota :: "'k client \<Rightarrow> item go \<Rightarrow> ContainerQuotaLimits option go" where
  "itemToContainerQuota L r = item_to (ContainerQuota_FromStackItem L) r"

definition ContainerQuota_ToStackItem :: "ContainerQuotaLimits option \<Rightarrow> item go" where
  "ContainerQuota_ToStackItem res = (case res of None \<Rightarrow> Inr INull | Some x \<Rightarrow> andThen (each_field
     [(''SoftLimit'', Inr (IInt (cq_SoftLimit x))),
      (''HardLimit'', Inr (IInt (cq_HardLimit x)))])
     (\<lambda>items. Inr (IStruct items)))"

definition ContainerQuota_ToSCParameter :: "'k client \<Rightarrow> ContainerQuotaLimits option \<Rightarrow> 'k param go" where
  "ContainerQuota_ToSCParameter L res = (case res of None \<Rightarrow> Inr PAny | Some x \<Rightarrow> andThen (each_field
     [(''SoftLimit'', new_parameter L (VInt (cq_SoftLimit x))),
      (''HardLimit'', new_parameter L (VInt (cq_HardLimit x)))])
     (\<lambda>prms. Inr (PArray prms)))"

section \<open>Events\<close>

record AttributeChangedEvent =
  ac_ContainerID :: bytes
  ac_Attribute :: string

definition AttributeChangedEvent_FromStackItem :: "'k client \<Rightarrow> item list option \<Rightarrow> AttributeChangedEvent go" where
  "AttributeChangedEvent_FromStackItem L i = andThen (event_items 2 i) (\<lambda>arr.
     andThen (field ''ContainerID'' (item_uint256 L (arr ! 0))) (\<lambda>containerID.
     andThen (field ''Attribute'' (item_string L (arr ! 1))) (\<lambda>attribute.
     Inr \<lparr>ac_ContainerID = containerID, ac_Attribute = attribute\<rparr>)))"

definition AttributeChangedEventsFromApplicationLog :: "'k client \<Rightarrow> app_log \<Rightarrow> AttributeChangedEvent list go" where
  "AttributeChangedEventsFromApplicationLog L log =
     events_from ''AttributeChanged'' ''AttributeChangedEvent'' (AttributeChangedEvent_FromStackItem L) log"

record EACLChangedEvent =
  ec_ContainerID :: bytes

definition EACLChangedEvent_FromStackItem :: "'k client \<Rightarrow> item list option \<Rightarrow> EACLChangedEvent go" where
  "EACLChangedEvent_FromStackItem L i = andThen (event_items 1 i) (\<lambda>arr.
     andThen (field ''ContainerID'' (item_uint256 L (arr ! 0))) (\<lambda>containerID.
     Inr \<lparr>ec_ContainerID = containerID\<rparr>))"

definition EACLChangedEventsFromApplicationLog :: "'k client \<Rightarrow> app_log \<Rightarrow> EACLChangedEvent list go" where
  "EACLChangedEventsFromApplicationLog L log =
     events_from ''EACLChanged'' ''EACLChangedEvent'' (EACLChangedEvent_FromStackItem L) log"

record NodesUpdateEvent =
  nu_ContainerID :: bytes

definition NodesUpdateEvent_FromStackItem :: "'k client \<Rightarrow> item list option \<Rightarrow> NodesUpdateEvent go" where
  "NodesUpdateEvent_FromStackItem L i = andThen (event_items 1 i) (\<lambda>arr.
     andThen (field ''ContainerID'' (item_uint256 L (arr ! 0))) (\<lambda>containerID.
     Inr \<lparr>nu_ContainerID = containerID\<rparr>))"

definition NodesUpdateEventsFromApplicationLog :: "'k client \<Rightarrow> app_log \<Rightarrow> NodesUpdateEvent list go" where
  "NodesUpdateEventsFromApplicationLog L log =
     events_from ''NodesUpdate'' ''NodesUpdateEvent'' (NodesUpdateEvent_FromStackItem L) log"

record ContainerQuotaSetEvent =
  cqs_ContainerID :: bytes
  cqs_LimitValue :: int
  cqs_Hard :: bool

definition ContainerQuotaSetEvent_FromStackItem :: "'k client \<Rightarrow> item list option \<Rightarrow> ContainerQuotaSetEvent go" where
  "ContainerQuotaSetEvent_FromStackItem L i = andThen (event_items 3 i) (\<lambda>arr.
     andThen (field ''ContainerID'' (item_uint256 L (arr ! 0))) (\<lambda>containerID.
     andThen (field ''LimitValue'' (try_integer L (arr ! 1))) (\<lambda>limitValue.
     andThen (field ''Hard'' (try_bool L (arr ! 2))) (\<lambda>hard.
     Inr \<lparr>cqs_ContainerID = containerID, cqs_LimitValue = limitValue, cqs_Hard = hard\<rparr>))))"

definition ContainerQuotaSetEventsFromApplicationLog :: "'k client \<Rightarrow> app_log \<Rightarrow> ContainerQuotaSetEvent list go" where
  "ContainerQuotaSetEventsFromApplicationLog L log =
     events_from ''ContainerQuotaSet'' ''ContainerQuotaSetEvent'' (ContainerQuotaSetEvent_FromStackItem L) log"

record UserQuotaSetEvent =
  uqs_UserID :: bytes
  uqs_LimitValue :: int
  uqs_Hard :: bool

definition UserQuotaSetEvent_FromStackItem :: "'k client \<Rightarrow> item list option \<Rightarrow> UserQuotaSetEvent go" where
  "UserQuotaSetEvent_FromStackItem L i = andThen (event_items 3 i) (\<lambda>arr.
     andThen (field ''UserID'' (try_bytes L (arr ! 0))) (\<lambda>userID.
     andThen (field ''LimitValue'' (try_integer L (arr ! 1))) (\<lambda>limitValue.
     andThen (field ''Hard'' (try_bool L (arr ! 2))) (\<lambda>hard.
     Inr \<lparr>uqs_UserID = userID, uqs_LimitValue = limitValue, uqs_Hard = hard\<rparr>))))"

definition UserQuotaSetEventsFromApplicationLog :: "'k client \<Rightarrow> app_log \<Rightarrow> UserQuotaSetEvent list go" where
  "UserQuotaSetEventsFromApplicationLog L log =
     events_from ''UserQuotaSet'' ''UserQuotaSetEvent'' (UserQuotaSetEvent_FromStackItem L) log"

record ContainerUpdatedEvent =
  cu_Container :: bytes
  cu_Revision :: int

definition ContainerUpdatedEvent_FromStackItem :: "'k client \<Rightarrow> item list option \<Rightarrow> ContainerUpdatedEvent go" where
  "ContainerUpdatedEvent_FromStackItem L i = andThen (event_items 2 i) (\<lambda>arr.
     andThen (field ''Container'' (item_uint256 L (arr ! 0))) (\<lambda>container.
     andThen (field ''Revision'' (try_integer L (arr ! 1))) (\<lambda>revision.
     Inr \<lparr>cu_Container = container, cu_Revision = revision\<rparr>)))"

definition ContainerUpdatedEventsFromApplicationLog :: "'k client \<Rightarrow> app_log \<Rightarrow> ContainerUpdatedEvent list go" where
  "ContainerUpdatedEventsFromApplicationLog L log =
     events_from ''ContainerUpdated'' ''ContainerUpdatedEvent'' (ContainerUpdatedEvent_FromStackItem L) log"

end
