(* ===== verification/Rpc_Netmap.thy ===== *)
theory Rpc_Netmap
  imports Stack_Item
begin

text \<open>
  The client wrapper of the Netmap contract (\<open>rpc/netmap/rpcbinding.go\<close>).
\<close>

section \<open>Structures\<close>

text \<open>The attributes of a node are a Go map, as the list of its entries.\<close>

record 'k NetmapCandidate =
  nc_Addresses :: "string list option"
  nc_Attributes :: "(string \<times> string) list option"
  nc_Key :: "'k"
  nc_State :: int
  nc_LastActiveEpoch :: int

definition NetmapCandidate_FromStackItem :: "'k client \<Rightarrow> item \<Rightarrow> 'k NetmapCandidate go" where
  "NetmapCandidate_FromStackItem L i = andThen (struct_items 5 i) (\<lambda>arr.
     andThen (field ''Addresses'' (item_list (item_string L) (arr ! 0))) (\<lambda>addresses.
     andThen (field ''Attributes'' (item_string_map L (arr ! 1))) (\<lambda>attributes.
     andThen (field ''Key'' (item_key L (arr ! 2))) (\<lambda>key.
     andThen (field ''State'' (try_integer L (arr ! 3))) (\<lambda>state.
     andThen (field ''LastActiveEpoch'' (try_integer L (arr ! 4))) (\<lambda>lastActiveEpoch.
     Inr \<lparr>nc_Addresses = Some addresses, nc_Attributes = Some attributes, nc_Key = key, nc_State = state,
       nc_LastActiveEpoch = lastActiveEpoch\<rparr>))))))"

definition itemToNetmapCandidate :: "'k client \<Rightarrow> item go \<Rightarrow> 'k NetmapCandidate option go" where
  "itemToNetmapCandidate L r = item_to (NetmapCandidate_FromStackItem L) r"

definition NetmapCandidate_ToStackItem :: "'k client \<Rightarrow> 'k NetmapCandidate option \<Rightarrow> item go" where
  "NetmapCandidate_ToStackItem L res = (case res of None \<Rightarrow> Inr INull | Some x \<Rightarrow> andThen (each_field
     [(''Addresses'', slice_item (\<lambda>v. Inr (IBytes v)) (nc_Addresses x)),
      (''Attributes'', string_map_item (nc_Attributes x)),
      (''Key'', Inr (IBytes (key_bytes L (nc_Key x)))),
      (''State'', Inr (IInt (nc_State x))),
      (''LastActiveEpoch'', Inr (IInt (nc_LastActiveEpoch x)))])
     (\<lambda>items. Inr (IStruct items)))"

definition NetmapCandidate_ToSCParameter :: "'k client \<Rightarrow> 'k NetmapCandidate option \<Rightarrow> 'k param go" where
  "NetmapCandidate_ToSCParameter L res = (case res of None \<Rightarrow> Inr PAny | Some x \<Rightarrow> andThen (each_field
     [(''Addresses'', slice_param (\<lambda>v. new_parameter L (VString v)) (nc_Addresses x)),
      (''Attributes'', string_map_param L (nc_Attributes x)),
      (''Key'', new_parameter L (VKey (nc_Key x))),
      (''State'', new_parameter L (VInt (nc_State x))),
      (''LastActiveEpoch'', new_parameter L (VInt (nc_LastActiveEpoch x)))])
     (\<lambda>prms. Inr (PArray prms)))"

record NetmapConfigRecord =
  ncr_Key :: bytes
  ncr_Value :: bytes

definition NetmapConfigRecord_FromStackItem :: "'k client \<Rightarrow> item \<Rightarrow> NetmapConfigRecord go" where
  "NetmapConfigRecord_FromStackItem L i = andThen (struct_items 2 i) (\<lambda>arr.
     andThen (field ''Key'' (try_bytes L (arr ! 0))) (\<lambda>key.
     andThen (field ''Value'' (try_bytes L (arr ! 1))) (\<lambda>value'.
     Inr \<lparr>ncr_Key = key, ncr_Value = value'\<rparr>)))"

definition itemToNetmapConfigRecord :: "'k client \<Rightarrow> item go \<Rightarrow> NetmapConfigRecord option go" where
  "itemToNetmapConfigRecord L r = item_to (NetmapConfigRecord_FromStackItem L) r"

definition NetmapConfigRecord_ToStackItem :: "NetmapConfigRecord option \<Rightarrow> item go" where
  "NetmapConfigRecord_ToStackItem res = (case res of None \<Rightarrow> Inr INull | Some x \<Rightarrow> andThen (each_field
     [(''Key'', Inr (IBytes (ncr_Key x))),
      (''Value'', Inr (IBytes (ncr_Value x)))])
     (\<lambda>items. Inr (IStruct items)))"

definition NetmapConfigRecord_ToSCParameter :: "'k client \<Rightarrow> NetmapConfigRecord option \<Rightarrow> 'k param go" where
  "NetmapConfigRecord_ToSCParameter L res = (case res of None \<Rightarrow> Inr PAny | Some x \<Rightarrow> andThen (each_field
     [(''Key'', new_parameter L (VBytes (ncr_Key x))),
      (''Value'', new_parameter L (VBytes (ncr_Value x)))])
     (\<lambda>prms. Inr (PArray prms)))"

record 'k NetmapNode2 =
  nn_Addresses :: "string list option"
  nn_Attributes :: "(string \<times> string) list option"
  nn_Key :: "'k"
  nn_State :: int

definition NetmapNode2_FromStackItem :: "'k client \<Rightarrow> item \<Rightarrow> 'k NetmapNode2 go" where
  "NetmapNode2_FromStackItem L i = andThen (struct_items 4 i) (\<lambda>arr.
     andThen (field ''Addresses'' (item_list (item_string L) (arr ! 0))) (\<lambda>addresses.
     andThen (field ''Attributes'' (item_string_map L (arr ! 1))) (\<lambda>attributes.
     andThen (field ''Key'' (item_key L (arr ! 2))) (\<lambda>key.
     andThen (field ''State'' (try_integer L (arr ! 3))) (\<lambda>state.
     Inr \<lparr>nn_Addresses = Some addresses, nn_Attributes = Some attributes, nn_Key = key, nn_State = state\<rparr>)))))"

definition itemToNetmapNode2 :: "'k client \<Rightarrow> item go \<Rightarrow> 'k NetmapNode2 option go" where
  "itemToNetmapNode2 L r = item_to (NetmapNode2_FromStackItem L) r"

definition NetmapNode2_ToStackItem :: "'k client \<Rightarrow> 'k NetmapNode2 option \<Rightarrow> item go" where
  "NetmapNode2_ToStackItem L res = (case res of None \<Rightarrow> Inr INull | Some x \<Rightarrow> andThen (each_field
     [(''Addresses'', slice_item (\<lambda>v. Inr (IBytes v)) (nn_Addresses x)),
      (''Attributes'', string_map_item (nn_Attributes x)),
      (''Key'', Inr (IBytes (key_bytes L (nn_Key x)))),
      (''State'', Inr (IInt (nn_State x)))])
     (\<lambda>items. Inr (IStruct items)))"

definition NetmapNode2_ToSCParameter :: "'k client \<Rightarrow> 'k NetmapNode2 option \<Rightarrow> 'k param go" where
  "NetmapNode2_ToSCParameter L res = (case res of None \<Rightarrow> Inr PAny | Some x \<Rightarrow> andThen (each_field
     [(''Addresses'', slice_param (\<lambda>v. new_parameter L (VString v)) (nn_Addresses x)),
      (''Attributes'', string_map_param L (nn_Attributes x)),
      (''Key'', new_parameter L (VKey (nn_Key x))),
      (''State'', new_parameter L (VInt (nn_State x)))])
     (\<lambda>prms. Inr (PArray prms)))"

section \<open>Events\<close>

text \<open>The addresses and attributes of a new node are read as dynamic values, the keys of a Go map among them.\<close>

record 'k AddNodeEvent =
  an_PublicKey :: "'k"
  an_Addresses :: "item list"
  an_Attributes :: "(item \<times> item) list"

definition AddNodeEvent_FromStackItem :: "'k client \<Rightarrow> item list option \<Rightarrow> 'k AddNodeEvent go" where
  "AddNodeEvent_FromStackItem L i = andThen (event_items 3 i) (\<lambda>arr.
     andThen (field ''PublicKey'' (item_key L (arr ! 0))) (\<lambda>publicKey.
     andThen (field ''Addresses'' (item_list Inr (arr ! 1))) (\<lambda>addresses.
     andThen (field ''Attributes'' (item_map L Inr Inr value_hashable (arr ! 2))) (\<lambda>attributes.
     Inr \<lparr>an_PublicKey = publicKey, an_Addresses = addresses, an_Attributes = attributes\<rparr>))))"

definition AddNodeEventsFromApplicationLog :: "'k client \<Rightarrow> app_log \<Rightarrow> 'k AddNodeEvent list go" where
  "AddNodeEventsFromApplicationLog L log =
     events_from ''AddNode'' ''AddNodeEvent'' (AddNodeEvent_FromStackItem L) log"

record 'k AddPeerSuccessEvent =
  ap_PublicKey :: "'k"

definition AddPeerSuccessEvent_FromStackItem :: "'k client \<Rightarrow> item list option \<Rightarrow> 'k AddPeerSuccessEvent go" where
  "AddPeerSuccessEvent_FromStackItem L i = andThen (event_items 1 i) (\<lambda>arr.
     andThen (field ''PublicKey'' (item_key L (arr ! 0))) (\<lambda>publicKey.
     Inr \<lparr>ap_PublicKey = publicKey\<rparr>))"

definition AddPeerSuccessEventsFromApplicationLog :: "'k client \<Rightarrow> app_log \<Rightarrow> 'k AddPeerSuccessEvent list go" where
  "AddPeerSuccessEventsFromApplicationLog L log =
     events_from ''AddPeerSuccess'' ''AddPeerSuccessEvent'' (AddPeerSuccessEvent_FromStackItem L) log"

record 'k UpdateStateSuccessEvent =
  us_PublicKey :: "'k"
  us_State :: int

definition UpdateStateSuccessEvent_FromStackItem :: "'k client \<Rightarrow> item list option \<Rightarrow> 'k UpdateStateSuccessEvent go" where
  "UpdateStateSuccessEvent_FromStackItem L i = andThen (event_items 2 i) (\<lambda>arr.
     andThen (field ''PublicKey'' (item_key L (arr ! 0))) (\<lambda>publicKey.
     andThen (field ''State'' (try_integer L (arr ! 1))) (\<lambda>state.
     Inr \<lparr>us_PublicKey = publicKey, us_State = state\<rparr>)))"

definition UpdateStateSuccessEventsFromApplicationLog :: "'k client \<Rightarrow> app_log \<Rightarrow> 'k UpdateStateSuccessEvent list go" where
  "UpdateStateSuccessEventsFromApplicationLog L log =
     events_from ''UpdateStateSuccess'' ''UpdateStateSuccessEvent'' (UpdateStateSuccessEvent_FromStackItem L) log"

record NewEpochEvent =
  ne_Epoch :: int

definition NewEpochEvent_FromStackItem :: "'k client \<Rightarrow> item list option \<Rightarrow> NewEpochEvent go" where
  "NewEpochEvent_FromStackItem L i = andThen (event_items 1 i) (\<lambda>arr.
     andThen (field ''Epoch'' (try_integer L (arr ! 0))) (\<lambda>epoch.
     Inr \<lparr>ne_Epoch = epoch\<rparr>))"

definition NewEpochEventsFromApplicationLog :: "'k client \<Rightarrow> app_log \<Rightarrow> NewEpochEvent list go" where
  "NewEpochEventsFromApplicationLog L log =
     events_from ''NewEpoch'' ''NewEpochEvent'' (NewEpochEvent_FromStackItem L) log"

record NewEpochSubscriptionEvent =
  nes_Contract :: bytes

definition NewEpochSubscriptionEvent_FromStackItem :: "'k client \<Rightarrow> item list option \<Rightarrow> NewEpochSubscriptionEvent go" where
  "NewEpochSubscriptionEvent_FromStackItem L i = andThen (event_items 1 i) (\<lambda>arr.
     andThen (field ''Contract'' (item_uint160 L (arr ! 0))) (\<lambda>contract.
     Inr \<lparr>nes_Contract = contract\<rparr>))"

definition NewEpochSubscriptionEventsFromApplicationLog :: "'k client \<Rightarrow> app_log \<Rightarrow> NewEpochSubscriptionEvent list go" where
  "NewEpochSubscriptionEventsFromApplicationLog L log =
     events_from ''NewEpochSubscription'' ''NewEpochSubscriptionEvent'' (NewEpochSubscriptionEvent_FromStackItem L) log"

record NewEpochUnsubscriptionEvent =
  neu_Contract :: bytes

definition NewEpochUnsubscriptionEvent_FromStackItem :: "'k client \<Rightarrow> item list option \<Rightarrow> NewEpochUnsubscriptionEvent go" where
  "NewEpochUnsubscriptionEvent_FromStackItem L i = andThen (event_items 1 i) (\<lambda>arr.
     andThen (field ''Contract'' (item_uint160 L (arr ! 0))) (\<lambda>contract.
     Inr \<lparr>neu_Contract = contract\<rparr>))"

definition NewEpochUnsubscriptionEventsFromApplicationLog :: "'k client \<Rightarrow> app_log \<Rightarrow> NewEpochUnsubscriptionEvent list go" where
  "NewEpochUnsubscriptionEventsFromApplicationLog L log =
     events_from ''NewEpochUnsubscription'' ''NewEpochUnsubscriptionEvent'' (NewEpochUnsubscriptionEvent_FromStackItem L) log"

record NewNetmapEvent =
  nnm_Version :: int

definition NewNetmapEvent_FromStackItem :: "'k client \<Rightarrow> item list option \<Rightarrow> NewNetmapEvent go" where
  "NewNetmapEvent_FromStackItem L i = andThen (event_items 1 i) (\<lambda>arr.
     andThen (field ''Version'' (try_integer L (arr ! 0))) (\<lambda>version.
     Inr \<lparr>nnm_Version = version\<rparr>))"

definition NewNetmapEventsFromApplicationLog :: "'k client \<Rightarrow> app_log \<Rightarrow> NewNetmapEvent list go" where
  "NewNetmapEventsFromApplicationLog L log =
     events_from ''NewNetmap'' ''NewNetmapEvent'' (NewNetmapEvent_FromStackItem L) log"

end
