(* ===== verification/Rpc_Events.thy ===== *)
theory Rpc_Events
  imports Stack_Item
begin

text \<open>
  The client wrappers of the Balance, NeoFS and NNS contracts (\<open>rpc/balance/rpcbinding.go\<close>,
  \<open>rpc/neofs/rpcbinding.go\<close>, \<open>rpc/nns/rpcbinding.go\<close>): structures and events.
\<close>

section \<open>Balance: structures and events\<close>

record BalanceAccount =
  ba_Balance :: int
  ba_Until :: int
  ba_Parent :: bytes

definition BalanceAccount_FromStackItem :: "'k client \<Rightarrow> item \<Rightarrow> BalanceAccount go" where
  "BalanceAccount_FromStackItem L i = andThen (struct_items 3 i) (\<lambda>arr.
     andThen (field ''Balance'' (try_integer L (arr ! 0))) (\<lambda>balance.
     andThen (field ''Until'' (try_integer L (arr ! 1))) (\<lambda>until'.
     andThen (field ''Parent'' (try_bytes L (arr ! 2))) (\<lambda>parent.
     Inr \<lparr>ba_Balance = balance, ba_Until = until', ba_Parent = parent\<rparr>))))"

definition itemToBalanceAccount :: "'k client \<Rightarrow> item go \<Rightarrow> BalanceAccount option go" where
  "itemToBalanceAccount L r = item_to (BalanceAccount_FromStackItem L) r"

definition BalanceAccount_ToStackItem :: "BalanceAccount option \<Rightarrow> item go" where
  "BalanceAccount_ToStackItem res = (case res of None \<Rightarrow> Inr INull | Some x \<Rightarrow> andThen (each_field
     [(''Balance'', Inr (IInt (ba_Balance x))),
      (''Until'', Inr (IInt (ba_Until x))),
      (''Parent'', Inr (IBytes (ba_Parent x)))])
     (\<lambda>items. Inr (IStruct items)))"

definition BalanceAccount_ToSCParameter :: "'k client \<Rightarrow> BalanceAccount option \<Rightarrow> 'k param go" where
  "BalanceAccount_ToSCParameter L res = (case res of None \<Rightarrow> Inr PAny | Some x \<Rightarrow> andThen (each_field
     [(''Balance'', new_parameter L (VInt (ba_Balance x))),
      (''Until'', new_parameter L (VInt (ba_Until x))),
      (''Parent'', new_parameter L (VBytes (ba_Parent x)))])
     (\<lambda>prms. Inr (PArray prms)))"

record BalanceToken =
  bt_Symbol :: string
  bt_Decimals :: int
  bt_CirculationKey :: string

definition BalanceToken_FromStackItem :: "'k client \<Rightarrow> item \<Rightarrow> BalanceToken go" where
  "BalanceToken_FromStackItem L i = andThen (struct_items 3 i) (\<lambda>arr.
     andThen (field ''Symbol'' (item_string L (arr ! 0))) (\<lambda>symbol.
     andThen (field ''Decimals'' (try_integer L (arr ! 1))) (\<lambda>decimals.
     andThen (field ''CirculationKey'' (item_string L (arr ! 2))) (\<lambda>circulationKey.
     Inr \<lparr>bt_Symbol = symbol, bt_Decimals = decimals, bt_CirculationKey = circulationKey\<rparr>))))"

definition itemToBalanceToken :: "'k client \<Rightarrow> item go \<Rightarrow> BalanceToken option go" where
  "itemToBalanceToken L r = item_to (BalanceToken_FromStackItem L) r"

definition BalanceToken_ToStackItem :: "BalanceToken option \<Rightarrow> item go" where
  "BalanceToken_ToStackItem res = (case res of None \<Rightarrow> Inr INull | Some x \<Rightarrow> andThen (each_field
     [(''Symbol'', Inr (IBytes (bt_Symbol x))),
      (''Decimals'', Inr (IInt (bt_Decimals x))),
      (''CirculationKey'', Inr (IBytes (bt_CirculationKey x)))])
     (\<lambda>items. Inr (IStruct items)))"

definition BalanceToken_ToSCParameter :: "'k client \<Rightarrow> BalanceToken option \<Rightarrow> 'k param go" where
  "BalanceToken_ToSCParameter L res = (case res of None \<Rightarrow> Inr PAny | Some x \<Rightarrow> andThen (each_field
     [(''Symbol'', new_parameter L (VString (bt_Symbol x))),
      (''Decimals'', new_parameter L (VInt (bt_Decimals x))),
      (''CirculationKey'', new_parameter L (VString (bt_CirculationKey x)))])
     (\<lambda>prms. Inr (PArray prms)))"

record LockEvent =
  le_TxID :: bytes
  le_From :: bytes
  le_To :: bytes
  le_Amount :: int
  le_Until :: int

definition LockEvent_FromStackItem :: "'k client \<Rightarrow> item list option \<Rightarrow> LockEvent go" where
  "LockEvent_FromStackItem L i = andThen (event_items 5 i) (\<lambda>arr.
     andThen (field ''TxID'' (try_bytes L (arr ! 0))) (\<lambda>txID.
     andThen (field ''From'' (item_uint160 L (arr ! 1))) (\<lambda>from'.
     andThen (field ''To'' (item_uint160 L (arr ! 2))) (\<lambda>to'.
     andThen (field ''Amount'' (try_integer L (arr ! 3))) (\<lambda>amount.
     andThen (field ''Until'' (try_integer L (arr ! 4))) (\<lambda>until'.
     Inr \<lparr>le_TxID = txID, le_From = from', le_To = to', le_Amount = amount, le_Until = until'\<rparr>))))))"

definition LockEventsFromApplicationLog :: "'k client \<Rightarrow> app_log \<Rightarrow> LockEvent list go" where
  "LockEventsFromApplicationLog L log =
     events_from ''Lock'' ''LockEvent'' (LockEvent_FromStackItem L) log"

record TransferXEvent =
  tx_From :: bytes
  tx_To :: bytes
  tx_Amount :: int
  tx_Details :: bytes

definition TransferXEvent_FromStackItem :: "'k client \<Rightarrow> item list option \<Rightarrow> TransferXEvent go" where
  "TransferXEvent_FromStackItem L i = andThen (event_items 4 i) (\<lambda>arr.
     andThen (field ''From'' (item_uint160 L (arr ! 0))) (\<lambda>from'.
     andThen (field ''To'' (item_uint160 L (arr ! 1))) (\<lambda>to'.
     andThen (field ''Amount'' (try_integer L (arr ! 2))) (\<lambda>amount.
     andThen (field ''Details'' (try_bytes L (arr ! 3))) (\<lambda>details.
     Inr \<lparr>tx_From = from', tx_To = to', tx_Amount = amount, tx_Details = details\<rparr>)))))"

definition TransferXEventsFromApplicationLog :: "'k client \<Rightarrow> app_log \<Rightarrow> TransferXEvent list go" where
  "TransferXEventsFromApplicationLog L log =
     events_from ''TransferX'' ''TransferXEvent'' (TransferXEvent_FromStackItem L) log"

record PaymentEvent =
  pe_UserID :: bytes
  pe_ContainerID :: bytes
  pe_Epoch :: int
  pe_Amount :: int

definition PaymentEvent_FromStackItem :: "'k client \<Rightarrow> item list option \<Rightarrow> PaymentEvent go" where
  "PaymentEvent_FromStackItem L i = andThen (event_items 4 i) (\<lambda>arr.
     andThen (field ''UserID'' (item_uint160 L (arr ! 0))) (\<lambda>userID.
     andThen (field ''ContainerID'' (item_uint256 L (arr ! 1))) (\<lambda>containerID.
     andThen (field ''Epoch'' (try_integer L (arr ! 2))) (\<lambda>epoch.
     andThen (field ''Amount'' (try_integer L (arr ! 3))) (\<lambda>amount.
     Inr \<lparr>pe_UserID = userID, pe_ContainerID = containerID, pe_Epoch = epoch, pe_Amount = amount\<rparr>)))))"

definition PaymentEventsFromApplicationLog :: "'k client \<Rightarrow> app_log \<Rightarrow> PaymentEvent list go" where
  "PaymentEventsFromApplicationLog L log =
     events_from ''Payment'' ''PaymentEvent'' (PaymentEvent_FromStackItem L) log"

record ChangePaymentStatusEvent =
  cps_ContainerID :: bytes
  cps_Epoch :: int
  cps_Unpaid :: bool

definition ChangePaymentStatusEvent_FromStackItem :: "'k client \<Rightarrow> item list option \<Rightarrow> ChangePaymentStatusEvent go" where
  "ChangePaymentStatusEvent_FromStackItem L i = andThen (event_items 3 i) (\<lambda>arr.
     andThen (field ''ContainerID'' (item_uint256 L (arr ! 0))) (\<lambda>containerID.
     andThen (field ''Epoch'' (try_integer L (arr ! 1))) (\<lambda>epoch.
     andThen (field ''Unpaid'' (try_bool L (arr ! 2))) (\<lambda>unpaid.
     Inr \<lparr>cps_ContainerID = containerID, cps_Epoch = epoch, cps_Unpaid = unpaid\<rparr>))))"

definition ChangePaymentStatusEventsFromApplicationLog :: "'k client \<Rightarrow> app_log \<Rightarrow> ChangePaymentStatusEvent list go" where
  "ChangePaymentStatusEventsFromApplicationLog L log =
     events_from ''ChangePaymentStatus'' ''ChangePaymentStatusEvent'' (ChangePaymentStatusEvent_FromStackItem L) log"

section \<open>NeoFS: structures and events\<close>

record 'k CommonBallot =
  cob_ID :: bytes
  cob_Voters :: "'k list option"
  cob_Height :: int

definition CommonBallot_FromStackItem :: "'k client \<Rightarrow> item \<Rightarrow> 'k CommonBallot go" where
  "CommonBallot_FromStackItem L i = andThen (struct_items 3 i) (\<lambda>arr.
     andThen (field ''ID'' (try_bytes L (arr ! 0))) (\<lambda>iD.
     andThen (field ''Voters'' (item_list (item_key L) (arr ! 1))) (\<lambda>voters.
     andThen (field ''Height'' (try_integer L (arr ! 2))) (\<lambda>height.
     Inr \<lparr>cob_ID = iD, cob_Voters = Some voters, cob_Height = height\<rparr>))))"

definition itemToCommonBallot :: "'k client \<Rightarrow> item go \<Rightarrow> 'k CommonBallot option go" where
  "itemToCommonBallot L r = item_to (CommonBallot_FromStackItem L) r"

definition CommonBallot_ToStackItem :: "'k client \<Rightarrow> 'k CommonBallot option \<Rightarrow> item go" where
  "CommonBallot_ToStackItem L res = (case res of None \<Rightarrow> Inr INull | Some x \<Rightarrow> andThen (each_field
     [(''ID'', Inr (IBytes (cob_ID x))),
      (''Voters'', slice_item (\<lambda>v. Inr (IBytes (key_bytes L v))) (cob_Voters x)),
      (''Height'', Inr (IInt (cob_Height x)))])
     (\<lambda>items. Inr (IStruct items)))"

definition CommonBallot_ToSCParameter :: "'k client \<Rightarrow> 'k CommonBallot option \<Rightarrow> 'k param go" where
  "CommonBallot_ToSCParameter L res = (case res of None \<Rightarrow> Inr PAny | Some x \<Rightarrow> andThen (each_field
     [(''ID'', new_parameter L (VBytes (cob_ID x))),
      (''Voters'', slice_param (\<lambda>v. new_parameter L (VKey v)) (cob_Voters x)),
      (''Height'', new_parameter L (VInt (cob_Height x)))])
     (\<lambda>prms. Inr (PArray prms)))"

record 'k CommonIRNode =
  coi_PublicKey :: "'k"

definition CommonIRNode_FromStackItem :: "'k client \<Rightarrow> item \<Rightarrow> 'k CommonIRNode go" where
  "CommonIRNode_FromStackItem L i = andThen (struct_items 1 i) (\<lambda>arr.
     andThen (field ''PublicKey'' (item_key L (arr ! 0))) (\<lambda>publicKey.
     Inr \<lparr>coi_PublicKey = publicKey\<rparr>))"

definition itemToCommonIRNode :: "'k client \<Rightarrow> item go \<Rightarrow> 'k CommonIRNode option go" where
  "itemToCommonIRNode L r = item_to (CommonIRNode_FromStackItem L) r"

definition CommonIRNode_ToStackItem :: "'k client \<Rightarrow> 'k CommonIRNode option \<Rightarrow> item go" where
  "CommonIRNode_ToStackItem L res = (case res of None \<Rightarrow> Inr INull | Some x \<Rightarrow> andThen (each_field
     [(''PublicKey'', Inr (IBytes (key_bytes L (coi_PublicKey x))))])
     (\<lambda>items. Inr (IStruct items)))"

definition CommonIRNode_ToSCParameter :: "'k client \<Rightarrow> 'k CommonIRNode option \<Rightarrow> 'k param go" where
  "CommonIRNode_ToSCParameter L res = (case res of None \<Rightarrow> Inr PAny | Some x \<Rightarrow> andThen (each_field
     [(''PublicKey'', new_parameter L (VKey (coi_PublicKey x)))])
     (\<lambda>prms. Inr (PArray prms)))"

record NeofsRecord =
  nr_Key :: bytes
  nr_Val :: bytes

definition NeofsRecord_FromStackItem :: "'k client \<Rightarrow> item \<Rightarrow> NeofsRecord go" where
  "NeofsRecord_FromStackItem L i = andThen (struct_items 2 i) (\<lambda>arr.
     andThen (field ''Key'' (try_bytes L (arr ! 0))) (\<lambda>key.
     andThen (field ''Val'' (try_bytes L (arr ! 1))) (\<lambda>val.
     Inr \<lparr>nr_Key = key, nr_Val = val\<rparr>)))"

definition itemToNeofsRecord :: "'k client \<Rightarrow> item go \<Rightarrow> NeofsRecord option go" where
  "itemToNeofsRecord L r = item_to (NeofsRecord_FromStackItem L) r"

definition NeofsRecord_ToStackItem :: "NeofsRecord option \<Rightarrow> item go" where
  "NeofsRecord_ToStackItem res = (case res of None \<Rightarrow> Inr INull | Some x \<Rightarrow> andThen (each_field
     [(''Key'', Inr (IBytes (nr_Key x))),
      (''Val'', Inr (IBytes (nr_Val x)))])
     (\<lambda>items. Inr (IStruct items)))"

definition NeofsRecord_ToSCParameter :: "'k client \<Rightarrow> NeofsRecord option \<Rightarrow> 'k param go" where
  "NeofsRecord_ToSCParameter L res = (case res of None \<Rightarrow> Inr PAny | Some x \<Rightarrow> andThen (each_field
     [(''Key'', new_parameter L (VBytes (nr_Key x))),
      (''Val'', new_parameter L (VBytes (nr_Val x)))])
     (\<lambda>prms. Inr (PArray prms)))"

record DepositEvent =
  de_From :: bytes
  de_Amount :: int
  de_Receiver :: bytes
  de_TxHash :: bytes

definition DepositEvent_FromStackItem :: "'k client \<Rightarrow> item list option \<Rightarrow> DepositEvent go" where
  "DepositEvent_FromStackItem L i = andThen (event_items 4 i) (\<lambda>arr.
     andThen (field ''From'' (item_uint160 L (arr ! 0))) (\<lambda>from'.
     andThen (field ''Amount'' (try_integer L (arr ! 1))) (\<lambda>amount.
     andThen (field ''Receiver'' (item_uint160 L (arr ! 2))) (\<lambda>receiver.
     andThen (field ''TxHash'' (item_uint256 L (arr ! 3))) (\<lambda>txHash.
     Inr \<lparr>de_From = from', de_Amount = amount, de_Receiver = receiver, de_TxHash = txHash\<rparr>)))))"

definition DepositEventsFromApplicationLog :: "'k client \<Rightarrow> app_log \<Rightarrow> DepositEvent list go" where
  "DepositEventsFromApplicationLog L log =
     events_from ''Deposit'' ''DepositEvent'' (DepositEvent_FromStackItem L) log"

record WithdrawEvent =
  we_User :: bytes
  we_Amount :: int
  we_TxHash :: bytes

definition WithdrawEvent_FromStackItem :: "'k client \<Rightarrow> item list option \<Rightarrow> WithdrawEvent go" where
  "WithdrawEvent_FromStackItem L i = andThen (event_items 3 i) (\<lambda>arr.
     andThen (field ''User'' (item_uint160 L (arr ! 0))) (\<lambda>user.
     andThen (field ''Amount'' (try_integer L (arr ! 1))) (\<lambda>amount.
     andThen (field ''TxHash'' (item_uint256 L (arr ! 2))) (\<lambda>txHash.
     Inr \<lparr>we_User = user, we_Amount = amount, we_TxHash = txHash\<rparr>))))"

definition WithdrawEventsFromApplicationLog :: "'k client \<Rightarrow> app_log \<Rightarrow> WithdrawEvent list go" where
  "WithdrawEventsFromApplicationLog L log =
     events_from ''Withdraw'' ''WithdrawEvent'' (WithdrawEvent_FromStackItem L) log"

record ChequeEvent =
  ch_Id :: bytes
  ch_User :: bytes
  ch_Amount :: int
  ch_LockAccount :: bytes

definition ChequeEvent_FromStackItem :: "'k client \<Rightarrow> item list option \<Rightarrow> ChequeEvent go" where
  "ChequeEvent_FromStackItem L i = andThen (event_items 4 i) (\<lambda>arr.
     andThen (field ''Id'' (try_bytes L (arr ! 0))) (\<lambda>id.
     andThen (field ''User'' (item_uint160 L (arr ! 1))) (\<lambda>user.
     andThen (field ''Amount'' (try_integer L (arr ! 2))) (\<lambda>amount.
     andThen (field ''LockAccount'' (try_bytes L (arr ! 3))) (\<lambda>lockAccount.
     Inr \<lparr>ch_Id = id, ch_User = user, ch_Amount = amount, ch_LockAccount = lockAccount\<rparr>)))))"

definition ChequeEventsFromApplicationLog :: "'k client \<Rightarrow> app_log \<Rightarrow> ChequeEvent list go" where
  "ChequeEventsFromApplicationLog L log =
     events_from ''Cheque'' ''ChequeEvent'' (ChequeEvent_FromStackItem L) log"

record 'k AlphabetUpdateEvent =
  au_Id :: bytes
  au_Alphabet :: "'k list option"

definition AlphabetUpdateEvent_FromStackItem :: "'k client \<Rightarrow> item list option \<Rightarrow> 'k AlphabetUpdateEvent go" where
  "AlphabetUpdateEvent_FromStackItem L i = andThen (event_items 2 i) (\<lambda>arr.
     andThen (field ''Id'' (try_bytes L (arr ! 0))) (\<lambda>id.
     andThen (field ''Alphabet'' (item_list (item_key L) (arr ! 1))) (\<lambda>alphabet.
     Inr \<lparr>au_Id = id, au_Alphabet = Some alphabet\<rparr>)))"

definition AlphabetUpdateEventsFromApplicationLog :: "'k client \<Rightarrow> app_log \<Rightarrow> 'k AlphabetUpdateEvent list go" where
  "AlphabetUpdateEventsFromApplicationLog L log =
     events_from ''AlphabetUpdate'' ''AlphabetUpdateEvent'' (AlphabetUpdateEvent_FromStackItem L) log"

record SetConfigEvent =
  sc_Id :: bytes
  sc_Key :: bytes
  sc_Value :: bytes

definition SetConfigEvent_FromStackItem :: "'k client \<Rightarrow> item list option \<Rightarrow> SetConfigEvent go" where
  "SetConfigEvent_FromStackItem L i = andThen (event_items 3 i) (\<lambda>arr.
     andThen (field ''Id'' (try_bytes L (arr ! 0))) (\<lambda>id.
     andThen (field ''Key'' (try_bytes L (arr ! 1))) (\<lambda>key.
     andThen (field ''Value'' (try_bytes L (arr ! 2))) (\<lambda>value'.
     Inr \<lparr>sc_Id = id, sc_Key = key, sc_Value = value'\<rparr>))))"

definition SetConfigEventsFromApplicationLog :: "'k client \<Rightarrow> app_log \<Rightarrow> SetConfigEvent list go" where
  "SetConfigEventsFromApplicationLog L log =
     events_from ''SetConfig'' ''SetConfigEvent'' (SetConfigEvent_FromStackItem L) log"

section \<open>NNS: structure and events\<close>

record NnsNameState =
  ns_Owner :: bytes
  ns_Name :: string
  ns_Expiration :: int
  ns_Admin :: bytes

definition NnsNameState_FromStackItem :: "'k client \<Rightarrow> item \<Rightarrow> NnsNameState go" where
  "NnsNameState_FromStackItem L i = andThen (struct_items 4 i) (\<lambda>arr.
     andThen (field ''Owner'' (item_uint160 L (arr ! 0))) (\<lambda>owner.
     andThen (field ''Name'' (item_string L (arr ! 1))) (\<lambda>name.
     andThen (field ''Expiration'' (try_integer L (arr ! 2))) (\<lambda>expiration.
     andThen (field ''Admin'' (item_uint160 L (arr ! 3))) (\<lambda>admin.
     Inr \<lparr>ns_Owner = owner, ns_Name = name, ns_Expiration = expiration, ns_Admin = admin\<rparr>)))))"

definition itemToNnsNameState :: "'k client \<Rightarrow> item go \<Rightarrow> NnsNameState option go" where
  "itemToNnsNameState L r = item_to (NnsNameState_FromStackItem L) r"

definition NnsNameState_ToStackItem :: "NnsNameState option \<Rightarrow> item go" where
  "NnsNameState_ToStackItem res = (case res of None \<Rightarrow> Inr INull | Some x \<Rightarrow> andThen (each_field
     [(''Owner'', Inr (IBytes (ns_Owner x))),
      (''Name'', Inr (IBytes (ns_Name x))),
      (''Expiration'', Inr (IInt (ns_Expiration x))),
      (''Admin'', Inr (IBytes (ns_Admin x)))])
     (\<lambda>items. Inr (IStruct items)))"

definition NnsNameState_ToSCParameter :: "'k client \<Rightarrow> NnsNameState option \<Rightarrow> 'k param go" where
  "NnsNameState_ToSCParameter L res = (case res of None \<Rightarrow> Inr PAny | Some x \<Rightarrow> andThen (each_field
     [(''Owner'', new_parameter L (VUint160 (ns_Owner x))),
      (''Name'', new_parameter L (VString (ns_Name x))),
      (''Expiration'', new_parameter L (VInt (ns_Expiration x))),
      (''Admin'', new_parameter L (VUint160 (ns_Admin x)))])
     (\<lambda>prms. Inr (PArray prms)))"

record SetAdminEvent =
  sa_Name :: string
  sa_OldAdmin :: bytes
  sa_NewAdmin :: bytes

definition SetAdminEvent_FromStackItem :: "'k client \<Rightarrow> item list option \<Rightarrow> SetAdminEvent go" where
  "SetAdminEvent_FromStackItem L i = andThen (event_items 3 i) (\<lambda>arr.
     andThen (field ''Name'' (item_string L (arr ! 0))) (\<lambda>name.
     andThen (field ''OldAdmin'' (item_uint160 L (arr ! 1))) (\<lambda>oldAdmin.
     andThen (field ''NewAdmin'' (item_uint160 L (arr ! 2))) (\<lambda>newAdmin.
     Inr \<lparr>sa_Name = name, sa_OldAdmin = oldAdmin, sa_NewAdmin = newAdmin\<rparr>))))"

definition SetAdminEventsFromApplicationLog :: "'k client \<Rightarrow> app_log \<Rightarrow> SetAdminEvent list go" where
  "SetAdminEventsFromApplicationLog L log =
     events_from ''SetAdmin'' ''SetAdminEvent'' (SetAdminEvent_FromStackItem L) log"

record RenewEvent =
  re_Name :: string
  re_OldExpiration :: int
  re_NewExpiration :: int

definition RenewEvent_FromStackItem :: "'k client \<Rightarrow> item list option \<Rightarrow> RenewEvent go" where
  "RenewEvent_FromStackItem L i = andThen (event_items 3 i) (\<lambda>arr.
     andThen (field ''Name'' (item_string L (arr ! 0))) (\<lambda>name.
     andThen (field ''OldExpiration'' (try_integer L (arr ! 1))) (\<lambda>oldExpiration.
     andThen (field ''NewExpiration'' (try_integer L (arr ! 2))) (\<lambda>newExpiration.
     Inr \<lparr>re_Name = name, re_OldExpiration = oldExpiration, re_NewExpiration = newExpiration\<rparr>))))"

definition RenewEventsFromApplicationLog :: "'k client \<Rightarrow> app_log \<Rightarrow> RenewEvent list go" where
  "RenewEventsFromApplicationLog L log =
     events_from ''Renew'' ''RenewEvent'' (RenewEvent_FromStackItem L) log"

end
