(* ===== verification/Rpc_Codecs.thy ===== *)
theory Rpc_Codecs
  imports Rpc_Container Rpc_Netmap Rpc_Events
begin

text \<open>
  The structures of the client wrappers survive their conversions: an item made of a structure is read back as
  that structure, and so is the item that arrives at the contract when the structure is sent as a parameter.
\<close>

definition reads_back ::
  "'k client \<Rightarrow> (item go \<Rightarrow> 'a option go) \<Rightarrow> ('a option \<Rightarrow> item go) \<Rightarrow> ('a option \<Rightarrow> 'k param go) \<Rightarrow> 'a option \<Rightarrow> bool" where
  "reads_back L from out par x \<longleftrightarrow> (\<exists>i. out x = Inr i \<and> from (Inr i) = Inr x) \<and>
     (\<exists>p. par x = Inr p \<and> from (Inr (arrives L p)) = Inr x)"

lemma item_to_simps [simp]: "item_to f (Inr INull) = Inr None"
  "item_to f (Inr (IStruct is)) = andThen (f (IStruct is)) (\<lambda>x. Inr (Some x))"
  "item_to f (Inr (IArray is)) = andThen (f (IArray is)) (\<lambda>x. Inr (Some x))"
  by (simp_all add: item_to_def)

lemma struct_items_simps [simp]:
  "struct_items n (IStruct is) = (if length is \<noteq> n then Inl (Err ''wrong number of structure elements'') else Inr is)"
  "struct_items n (IArray is) = (if length is \<noteq> n then Inl (Err ''wrong number of structure elements'') else Inr is)"
  by (simp_all add: struct_items_def)

lemma reads_back_nil:
  assumes "client_ok L" and "out None = Inr INull" and "par None = Inr PAny" and "from (Inr INull) = Inr None"
  shows "reads_back L from out par None"
  using client_okD(9) [OF assms(1)] assms by (simp add: reads_back_def)

section \<open>Structures of integers, byte strings and texts\<close>

lemmas plain_structs =
  itemToContainerAPIVersion_def ContainerAPIVersion_FromStackItem_def ContainerAPIVersion_ToStackItem_def ContainerAPIVersion_ToSCParameter_def
  itemToContainerAttribute_def ContainerAttribute_FromStackItem_def ContainerAttribute_ToStackItem_def ContainerAttribute_ToSCParameter_def
  itemToContainerEpochBillingStat_def ContainerEpochBillingStat_FromStackItem_def ContainerEpochBillingStat_ToStackItem_def ContainerEpochBillingStat_ToSCParameter_def
  itemToContainerNodeReport_def ContainerNodeReport_FromStackItem_def ContainerNodeReport_ToStackItem_def ContainerNodeReport_ToSCParameter_def
  itemToContainerNodeReportSummary_def ContainerNodeReportSummary_FromStackItem_def ContainerNodeReportSummary_ToStackItem_def ContainerNodeReportSummary_ToSCParameter_def
  itemToContainerQuota_def ContainerQuota_FromStackItem_def ContainerQuota_ToStackItem_def ContainerQuota_ToSCParameter_def
  itemToNetmapConfigRecord_def NetmapConfigRecord_FromStackItem_def NetmapConfigRecord_ToStackItem_def NetmapConfigRecord_ToSCParameter_def
  itemToBalanceAccount_def BalanceAccount_FromStackItem_def BalanceAccount_ToStackItem_def BalanceAccount_ToSCParameter_def
  itemToBalanceToken_def BalanceToken_FromStackItem_def BalanceToken_ToStackItem_def BalanceToken_ToSCParameter_def
  itemToCommonIRNode_def CommonIRNode_FromStackItem_def CommonIRNode_ToStackItem_def CommonIRNode_ToSCParameter_def
  itemToNeofsRecord_def NeofsRecord_FromStackItem_def NeofsRecord_ToStackItem_def NeofsRecord_ToSCParameter_def
  itemToNnsNameState_def NnsNameState_FromStackItem_def NnsNameState_ToStackItem_def NnsNameState_ToSCParameter_def

lemmas plain_laws = client_okD(1-3) client_okD(7-11) item_fields

definition attribute_valid :: "ContainerAttribute \<Rightarrow> bool" where
  "attribute_valid a \<longleftrightarrow> utf8_valid (ca_Key a) \<and> utf8_valid (ca_Value a)"

lemma container_plain:
  assumes "client_ok L"
  shows "reads_back L (itemToContainerAPIVersion L) ContainerAPIVersion_ToStackItem (ContainerAPIVersion_ToSCParameter L) ver"
    "(\<And>a. attr = Some a \<Longrightarrow> attribute_valid a) \<Longrightarrow>
      reads_back L (itemToContainerAttribute L) ContainerAttribute_ToStackItem (ContainerAttribute_ToSCParameter L) attr"
    "(\<And>b. stat = Some b \<Longrightarrow> length (cb_Account b) = Hash160Len) \<Longrightarrow>
      reads_back L (itemToContainerEpochBillingStat L) ContainerEpochBillingStat_ToStackItem (ContainerEpochBillingStat_ToSCParameter L) stat"
    "reads_back L (itemToContainerNodeReport L) (ContainerNodeReport_ToStackItem L) (ContainerNodeReport_ToSCParameter L) report"
    "reads_back L (itemToContainerNodeReportSummary L) ContainerNodeReportSummary_ToStackItem (ContainerNodeReportSummary_ToSCParameter L) summary"
    "reads_back L (itemToContainerQuota L) ContainerQuota_ToStackItem (ContainerQuota_ToSCParameter L) quota"
proof -
  note laws = plain_laws [OF assms] and defs = reads_back_def plain_structs
  show "reads_back L (itemToContainerAPIVersion L) ContainerAPIVersion_ToStackItem (ContainerAPIVersion_ToSCParameter L) ver"
    by (cases ver) (simp_all add: defs laws)
  show "reads_back L (itemToContainerAttribute L) ContainerAttribute_ToStackItem (ContainerAttribute_ToSCParameter L) attr"
    if "\<And>a. attr = Some a \<Longrightarrow> attribute_valid a"
    using that by (cases attr) (simp_all add: defs laws attribute_valid_def)
  show "reads_back L (itemToContainerEpochBillingStat L) ContainerEpochBillingStat_ToStackItem (ContainerEpochBillingStat_ToSCParameter L) stat"
    if "\<And>b. stat = Some b \<Longrightarrow> length (cb_Account b) = Hash160Len"
    using that by (cases stat) (simp_all add: defs laws)
  show "reads_back L (itemToContainerNodeReport L) (ContainerNodeReport_ToStackItem L) (ContainerNodeReport_ToSCParameter L) report"
    by (cases report) (simp_all add: defs laws)
  show "reads_back L (itemToContainerNodeReportSummary L) ContainerNodeReportSummary_ToStackItem (ContainerNodeReportSummary_ToSCParameter L) summary"
    by (cases summary) (simp_all add: defs laws)
  show "reads_back L (itemToContainerQuota L) ContainerQuota_ToStackItem (ContainerQuota_ToSCParameter L) quota"
    by (cases quota) (simp_all add: defs laws)
qed


lemma other_plain:
  assumes "client_ok L"
  shows "reads_back L (itemToNetmapConfigRecord L) NetmapConfigRecord_ToStackItem (NetmapConfigRecord_ToSCParameter L) config"
    "reads_back L (itemToBalanceAccount L) BalanceAccount_ToStackItem (BalanceAccount_ToSCParameter L) account"
    "(\<And>t. token = Some t \<Longrightarrow> utf8_valid (bt_Symbol t) \<and> utf8_valid (bt_CirculationKey t)) \<Longrightarrow>
      reads_back L (itemToBalanceToken L) BalanceToken_ToStackItem (BalanceToken_ToSCParameter L) token"
    "reads_back L (itemToCommonIRNode L) (CommonIRNode_ToStackItem L) (CommonIRNode_ToSCParameter L) node"
    "reads_back L (itemToNeofsRecord L) NeofsRecord_ToStackItem (NeofsRecord_ToSCParameter L) entry"
    "(\<And>s. domain = Some s \<Longrightarrow> length (ns_Owner s) = Hash160Len \<and> length (ns_Admin s) = Hash160Len \<and> utf8_valid (ns_Name s)) \<Longrightarrow>
      reads_back L (itemToNnsNameState L) NnsNameState_ToStackItem (NnsNameState_ToSCParameter L) domain"
proof -
  note laws = plain_laws [OF assms] and defs = reads_back_def plain_structs
  show "reads_back L (itemToNetmapConfigRecord L) NetmapConfigRecord_ToStackItem (NetmapConfigRecord_ToSCParameter L) config"
    by (cases config) (simp_all add: defs laws)
  show "reads_back L (itemToBalanceAccount L) BalanceAccount_ToStackItem (BalanceAccount_ToSCParameter L) account"
    by (cases account) (simp_all add: defs laws)
  show "reads_back L (itemToBalanceToken L) BalanceToken_ToStackItem (BalanceToken_ToSCParameter L) token"
    if "\<And>t. token = Some t \<Longrightarrow> utf8_valid (bt_Symbol t) \<and> utf8_valid (bt_CirculationKey t)"
    using that by (cases token) (simp_all add: defs laws)
  show "reads_back L (itemToCommonIRNode L) (CommonIRNode_ToStackItem L) (CommonIRNode_ToSCParameter L) node"
    by (cases node) (simp_all add: defs laws)
  show "reads_back L (itemToNeofsRecord L) NeofsRecord_ToStackItem (NeofsRecord_ToSCParameter L) entry"
    by (cases entry) (simp_all add: defs laws)
  show "reads_back L (itemToNnsNameState L) NnsNameState_ToStackItem (NnsNameState_ToSCParameter L) domain"
    if "\<And>s. domain = Some s \<Longrightarrow> length (ns_Owner s) = Hash160Len \<and> length (ns_Admin s) = Hash160Len \<and> utf8_valid (ns_Name s)"
    using that by (cases domain) (simp_all add: defs laws)
qed

section \<open>Structures with lists, maps and structures\<close>

text \<open>The elements of a slice, written and read one by one; \<open>w\<close> is how they arrive.\<close>

lemma elements_back:
  assumes "\<forall>x \<in> set xs. \<exists>y. f x = Inr y \<and> h (w y) = Inr x"
  shows "\<exists>ys. elements_out n f xs = Inr ys \<and> items_from m h (map w ys) = Inr xs"
  using assms
proof (induction xs arbitrary: n m)
  case (Cons x xs)
  then obtain y ys where "f x = Inr y" "h (w y) = Inr x" "elements_out (Suc n) f xs = Inr ys" "items_from (Suc m) h (map w ys) = Inr xs"
    by (metis list.set_intros)
  then show ?case by simp
qed simp

lemma slice_item_back:
  assumes "\<forall>x \<in> set xs. \<exists>y. f x = Inr y \<and> h y = Inr x"
  shows "\<exists>i. slice_item f (Some xs) = Inr i \<and> item_list h i = Inr xs"
  using elements_back [of xs f h "\<lambda>y. y" 0 0] assms by (auto simp: slice_item_def item_list_def)

lemma slice_param_back:
  assumes "client_ok L" and "\<forall>x \<in> set xs. \<exists>y. f x = Inr y \<and> h (arrives L y) = Inr x"
  shows "\<exists>p. slice_param f (Some xs) = Inr p \<and> item_list h (arrives L p) = Inr xs"
  using elements_back [of xs f h "arrives L" 0 0] assms(2) client_okD(11) [OF assms(1)] by (auto simp: slice_param_def item_list_def)

lemma reads_back_item: "reads_back L from out par x \<Longrightarrow> \<exists>i. out x = Inr i \<and> from (Inr i) = Inr x"
  and reads_back_param: "reads_back L from out par x \<Longrightarrow> \<exists>p. par x = Inr p \<and> from (Inr (arrives L p)) = Inr x"
  by (simp_all add: reads_back_def)

definition container_valid :: "ContainerInfo \<Rightarrow> bool" where
  "container_valid c \<longleftrightarrow> length (cc_Owner c) = Hash160Len \<and>
     (\<exists>as. cc_Attributes c = Some as \<and> (\<forall>a. Some a \<in> set as \<longrightarrow> attribute_valid a))"

lemma container_info_back:
  assumes "client_ok L" and "\<And>c. cnr = Some c \<Longrightarrow> container_valid c"
  shows "reads_back L (itemToContainerInfo L) ContainerInfo_ToStackItem (ContainerInfo_ToSCParameter L) cnr"
proof (cases cnr)
  case (Some c)
  note laws = plain_laws [OF assms(1)]
  from assms(2) [OF Some] obtain as where owner: "length (cc_Owner c) = Hash160Len" and as: "cc_Attributes c = Some as"
    and valid: "\<forall>a. Some a \<in> set as \<longrightarrow> attribute_valid a"
    by (auto simp: container_valid_def)
  have attr: "reads_back L (itemToContainerAttribute L) ContainerAttribute_ToStackItem (ContainerAttribute_ToSCParameter L) a"
    if "a \<in> set as" for a
    by (rule container_plain(2) [OF assms(1)]) (use valid that in auto)
  obtain vi where vi: "ContainerAPIVersion_ToStackItem (cc_Version c) = Inr vi" "itemToContainerAPIVersion L (Inr vi) = Inr (cc_Version c)"
    using reads_back_item [OF container_plain(1) [OF assms(1)]] by blast
  obtain vp where vp: "ContainerAPIVersion_ToSCParameter L (cc_Version c) = Inr vp" "itemToContainerAPIVersion L (Inr (arrives L vp)) = Inr (cc_Version c)"
    using reads_back_param [OF container_plain(1) [OF assms(1)]] by blast
  obtain ai where ai: "slice_item ContainerAttribute_ToStackItem (Some as) = Inr ai"
    "item_list (\<lambda>i. itemToContainerAttribute L (Inr i)) ai = Inr as"
    using slice_item_back [of as ContainerAttribute_ToStackItem "\<lambda>i. itemToContainerAttribute L (Inr i)"] reads_back_item [OF attr] by blast
  obtain ap where ap: "slice_param (ContainerAttribute_ToSCParameter L) (Some as) = Inr ap"
    "item_list (\<lambda>i. itemToContainerAttribute L (Inr i)) (arrives L ap) = Inr as"
    using slice_param_back [OF assms(1), of as "ContainerAttribute_ToSCParameter L" "\<lambda>i. itemToContainerAttribute L (Inr i)"]
      reads_back_param [OF attr] by blast
  from Some owner as vi vp ai ap show ?thesis
    by (cases c) (simp add: reads_back_def laws itemToContainerInfo_def ContainerInfo_FromStackItem_def ContainerInfo_ToStackItem_def ContainerInfo_ToSCParameter_def)
qed (simp add: reads_back_def itemToContainerInfo_def ContainerInfo_ToStackItem_def ContainerInfo_ToSCParameter_def client_okD(9) [OF assms(1)])

lemma container_revision_back:
  assumes "client_ok L" and "\<And>r c. cnr = Some r \<Longrightarrow> cr_Info r = Some c \<Longrightarrow> container_valid c"
  shows "reads_back L (itemToContainerInfoWithRevision L) ContainerInfoWithRevision_ToStackItem (ContainerInfoWithRevision_ToSCParameter L) cnr"
proof (cases cnr)
  case (Some r)
  have info: "reads_back L (itemToContainerInfo L) ContainerInfo_ToStackItem (ContainerInfo_ToSCParameter L) (cr_Info r)"
    using container_info_back [OF assms(1)] assms(2) [OF Some] by blast
  from Some reads_back_item [OF info] reads_back_param [OF info] show ?thesis
    by (cases r) (auto simp: reads_back_def plain_laws [OF assms(1)] itemToContainerInfoWithRevision_def ContainerInfoWithRevision_FromStackItem_def
        ContainerInfoWithRevision_ToStackItem_def ContainerInfoWithRevision_ToSCParameter_def)
qed (simp add: reads_back_def itemToContainerInfoWithRevision_def ContainerInfoWithRevision_ToStackItem_def
    ContainerInfoWithRevision_ToSCParameter_def client_okD(9) [OF assms(1)])

text \<open>The addresses, the attributes and the keys.\<close>

lemma strings_back:
  assumes "client_ok L" and "\<forall>s \<in> set xs. utf8_valid s"
  shows "\<exists>i. slice_item (\<lambda>v. Inr (IBytes v)) (Some xs) = Inr i \<and> item_list (item_string L) i = Inr xs"
    "\<exists>p. slice_param (\<lambda>v. new_parameter L (VString v)) (Some xs) = Inr p \<and> item_list (item_string L) (arrives L p) = Inr xs"
proof -
  show "\<exists>i. slice_item (\<lambda>v. Inr (IBytes v)) (Some xs) = Inr i \<and> item_list (item_string L) i = Inr xs"
    by (rule slice_item_back) (use assms in \<open>simp add: plain_laws\<close>)
  show "\<exists>p. slice_param (\<lambda>v. new_parameter L (VString v)) (Some xs) = Inr p \<and> item_list (item_string L) (arrives L p) = Inr xs"
    by (rule slice_param_back [OF assms(1)]) (use assms in \<open>simp add: plain_laws\<close>)
qed

lemma keys_back:
  assumes "client_ok L"
  shows "\<exists>i. slice_item (\<lambda>v. Inr (IBytes (key_bytes L v))) (Some ks) = Inr i \<and> item_list (item_key L) i = Inr ks"
    "\<exists>p. slice_param (\<lambda>v. new_parameter L (VKey v)) (Some ks) = Inr p \<and> item_list (item_key L) (arrives L p) = Inr ks"
proof -
  show "\<exists>i. slice_item (\<lambda>v. Inr (IBytes (key_bytes L v))) (Some ks) = Inr i \<and> item_list (item_key L) i = Inr ks"
    by (rule slice_item_back) (use assms in \<open>simp add: plain_laws\<close>)
  show "\<exists>p. slice_param (\<lambda>v. new_parameter L (VKey v)) (Some ks) = Inr p \<and> item_list (item_key L) (arrives L p) = Inr ks"
    by (rule slice_param_back [OF assms]) (use assms in \<open>simp add: plain_laws\<close>)
qed

definition node_data_valid :: "string list option \<Rightarrow> (string \<times> string) list option \<Rightarrow> bool" where
  "node_data_valid addrs attrs \<longleftrightarrow> (\<exists>xs. addrs = Some xs \<and> (\<forall>s \<in> set xs. utf8_valid s)) \<and>
     (\<exists>kvs. attrs = Some kvs \<and> distinct (map fst kvs) \<and> (\<forall>(k, v) \<in> set kvs. utf8_valid k \<and> utf8_valid v))"

lemma string_map_item_back:
  assumes "client_ok L" and "distinct (map fst kvs)" and "\<forall>(k, v) \<in> set kvs. utf8_valid k \<and> utf8_valid v"
  shows "\<exists>i. string_map_item (Some kvs) = Inr i \<and> item_string_map L i = Inr kvs"
  using item_string_map_back [OF assms] by (simp add: string_map_item_def)

lemma node_data_back:
  assumes "client_ok L" and "node_data_valid addrs attrs"
  obtains xs kvs ia im pa pm where "addrs = Some xs" "attrs = Some kvs"
    "slice_item (\<lambda>v. Inr (IBytes v)) (Some xs) = Inr ia" "item_list (item_string L) ia = Inr xs"
    "string_map_item (Some kvs) = Inr im" "item_string_map L im = Inr kvs"
    "slice_param (\<lambda>v. new_parameter L (VString v)) (Some xs) = Inr pa" "item_list (item_string L) (arrives L pa) = Inr xs"
    "string_map_param L (Some kvs) = Inr pm" "item_string_map L (arrives L pm) = Inr kvs"
proof -
  from assms(2) obtain xs kvs where x: "addrs = Some xs" "\<forall>s \<in> set xs. utf8_valid s"
    and k: "attrs = Some kvs" "distinct (map fst kvs)" "\<forall>(k, v) \<in> set kvs. utf8_valid k \<and> utf8_valid v"
    unfolding node_data_valid_def by (elim conjE exE)
  from that x k strings_back [OF assms(1) x(2)] string_map_item_back [OF assms(1) k(2,3)] string_map_param_back [OF assms(1) k(2,3)]
  show thesis by (elim exE conjE)
qed

lemma netmap_candidate_back:
  assumes "client_ok L" and "\<And>c. cand = Some c \<Longrightarrow> node_data_valid (nc_Addresses c) (nc_Attributes c)"
  shows "reads_back L (itemToNetmapCandidate L) (NetmapCandidate_ToStackItem L) (NetmapCandidate_ToSCParameter L) cand"
proof (cases cand)
  case (Some c)
  from node_data_back [OF assms(1) assms(2) [OF Some]] obtain xs kvs ia im pa pm where
    "nc_Addresses c = Some xs" "nc_Attributes c = Some kvs"
    "slice_item (\<lambda>v. Inr (IBytes v)) (Some xs) = Inr ia" "item_list (item_string L) ia = Inr xs"
    "string_map_item (Some kvs) = Inr im" "item_string_map L im = Inr kvs"
    "slice_param (\<lambda>v. new_parameter L (VString v)) (Some xs) = Inr pa" "item_list (item_string L) (arrives L pa) = Inr xs"
    "string_map_param L (Some kvs) = Inr pm" "item_string_map L (arrives L pm) = Inr kvs" .
  with Some show ?thesis
    by (cases c) (simp add: reads_back_def plain_laws [OF assms(1)] itemToNetmapCandidate_def NetmapCandidate_FromStackItem_def
        NetmapCandidate_ToStackItem_def NetmapCandidate_ToSCParameter_def)
qed (simp add: reads_back_def itemToNetmapCandidate_def NetmapCandidate_ToStackItem_def NetmapCandidate_ToSCParameter_def client_okD(9) [OF assms(1)])

lemma netmap_node_back:
  assumes "client_ok L" and "\<And>n. node = Some n \<Longrightarrow> node_data_valid (nn_Addresses n) (nn_Attributes n)"
  shows "reads_back L (itemToNetmapNode2 L) (NetmapNode2_ToStackItem L) (NetmapNode2_ToSCParameter L) node"
proof (cases node)
  case (Some n)
  from node_data_back [OF assms(1) assms(2) [OF Some]] obtain xs kvs ia im pa pm where
    "nn_Addresses n = Some xs" "nn_Attributes n = Some kvs"
    "slice_item (\<lambda>v. Inr (IBytes v)) (Some xs) = Inr ia" "item_list (item_string L) ia = Inr xs"
    "string_map_item (Some kvs) = Inr im" "item_string_map L im = Inr kvs"
    "slice_param (\<lambda>v. new_parameter L (VString v)) (Some xs) = Inr pa" "item_list (item_string L) (arrives L pa) = Inr xs"
    "string_map_param L (Some kvs) = Inr pm" "item_string_map L (arrives L pm) = Inr kvs" .
  with Some show ?thesis
    by (cases n) (simp add: reads_back_def plain_laws [OF assms(1)] itemToNetmapNode2_def NetmapNode2_FromStackItem_def
        NetmapNode2_ToStackItem_def NetmapNode2_ToSCParameter_def)
qed (simp add: reads_back_def itemToNetmapNode2_def NetmapNode2_ToStackItem_def NetmapNode2_ToSCParameter_def client_okD(9) [OF assms(1)])

lemma ballot_back:
  assumes "client_ok L" and "\<And>b. ballot = Some b \<Longrightarrow> cob_Voters b \<noteq> None"
  shows "reads_back L (itemToCommonBallot L) (CommonBallot_ToStackItem L) (CommonBallot_ToSCParameter L) ballot"
proof (cases ballot)
  case (Some b)
  with assms(2) obtain ks where "cob_Voters b = Some ks" by blast
  with Some keys_back [OF assms(1), of ks] show ?thesis
    by (cases b) (auto simp: reads_back_def plain_laws [OF assms(1)] itemToCommonBallot_def CommonBallot_FromStackItem_def
        CommonBallot_ToStackItem_def CommonBallot_ToSCParameter_def)
qed (simp add: reads_back_def itemToCommonBallot_def CommonBallot_ToStackItem_def CommonBallot_ToSCParameter_def client_okD(9) [OF assms(1)])

end
