(* ===== verification/Rpc_Notifications.thy ===== *)
theory Rpc_Notifications
  imports Rpc_Codecs Balance_Contract Netmap_Contract Container_Data NeoFS_Contract NNS_Contract
begin

text \<open>
  From the contracts to their clients: the notifications the contracts throw (\<open>runtime.Notify\<close>), as the items of
  an application log, and what the client wrappers read of them.
\<close>

section \<open>Notifications as items\<close>

text \<open>An account that is nil in the code is Null; it is the empty byte string of the model.\<close>

definition hash_item :: "bytes \<Rightarrow> item" where
  "hash_item h = (if h = [] then INull else IBytes h)"

definition hash_option_item :: "bytes option \<Rightarrow> item" where
  "hash_option_item h = (case h of None \<Rightarrow> INull | Some b \<Rightarrow> IBytes b)"

primrec bal_notification :: "bal_event \<Rightarrow> notification" where
  "bal_notification (BalTransfer frm to amount) = (''Transfer'', Some [hash_item frm, hash_item to, IInt amount])"
| "bal_notification (BalTransferX frm to amount details) =
     (''TransferX'', Some [hash_item frm, hash_item to, IInt amount, IBytes details])"
| "bal_notification (BalLock txDetails frm to amount until) =
     (''Lock'', Some [IBytes txDetails, IBytes frm, IBytes to, IInt amount, IInt until])"
| "bal_notification (BalPayment owner cid epoch amount) = (''Payment'', Some [IBytes owner, IBytes cid, IInt epoch, IInt amount])"
| "bal_notification (BalChangePaymentStatus cid epoch unpaid) = (''ChangePaymentStatus'', Some [IBytes cid, IInt epoch, IBool unpaid])"

primrec cnt_notification :: "cnt_event \<Rightarrow> notification" where
  "cnt_notification (CntTransfer frm to amount tokenID) =
     (''Transfer'', Some [hash_option_item frm, hash_option_item to, IInt amount, IBytes tokenID])"
| "cnt_notification (CntNodesUpdate i) = (''NodesUpdate'', Some [IBytes i])"
| "cnt_notification (CntEACLChanged i) = (''EACLChanged'', Some [IBytes i])"
| "cnt_notification (CntContainerUpdated i revision) = (''ContainerUpdated'', Some [IBytes i, IInt revision])"
| "cnt_notification (CntContainerQuotaSet i n hard) = (''ContainerQuotaSet'', Some [IBytes i, IInt n, IBool hard])"
| "cnt_notification (CntUserQuotaSet user n hard) = (''UserQuotaSet'', Some [IBytes user, IInt n, IBool hard])"
| "cnt_notification (CntAttributeChanged i name) = (''AttributeChanged'', Some [IBytes i, IBytes name])"

primrec nm_notification :: "nm_event \<Rightarrow> notification" where
  "nm_notification (NmAddNode key addrs attrs) =
     (''AddNode'', Some [IBytes key, IArray (map IBytes addrs), IMap (map (\<lambda>(k, v). (IBytes k, IBytes v)) attrs)])"
| "nm_notification (NmUpdateStateSuccess key s) = (''UpdateStateSuccess'', Some [IBytes key, IInt s])"
| "nm_notification (NmNewEpoch epoch) = (''NewEpoch'', Some [IInt epoch])"
| "nm_notification (NmNewNetmap version) = (''NewNetmap'', Some [IInt version])"
| "nm_notification (NmNewEpochSubscription h) = (''NewEpochSubscription'', Some [IBytes h])"
| "nm_notification (NmNewEpochUnsubscription h) = (''NewEpochUnsubscription'', Some [IBytes h])"

primrec main_notification :: "main_event \<Rightarrow> notification" where
  "main_notification (MainDeposit frm amount rcv tx) = (''Deposit'', Some [IBytes frm, IInt amount, IBytes rcv, IBytes tx])"
| "main_notification (MainWithdraw user amount tx) = (''Withdraw'', Some [IBytes user, IInt amount, IBytes tx])"
| "main_notification (MainCheque i user amount lockAcc) = (''Cheque'', Some [IBytes i, IBytes user, IInt amount, IBytes lockAcc])"
| "main_notification (MainAlphabetUpdate i keys) = (''AlphabetUpdate'', Some [IBytes i, IArray (map IBytes keys)])"
| "main_notification (MainSetConfig i key val) = (''SetConfig'', Some [IBytes i, IBytes key, IBytes val])"

primrec nns_notification :: "nns_event \<Rightarrow> notification" where
  "nns_notification (NnsTransfer frm to amount tokenID) =
     (''Transfer'', Some [hash_item frm, hash_item to, IInt amount, IBytes tokenID])"
| "nns_notification (NnsRenew name old new) = (''Renew'', Some [IBytes name, IInt old, IInt new])"
| "nns_notification (NnsSetAdmin name old new) = (''SetAdmin'', Some [IBytes name, hash_option_item old, hash_option_item new])"

lemma nm_notification_name: "fst (nm_notification e) \<noteq> ''AddPeerSuccess''"
  by (cases e) simp_all

text \<open>The log of transactions that throw the given notifications.\<close>

definition log_of :: "('e \<Rightarrow> notification) \<Rightarrow> 'e list list \<Rightarrow> app_log" where
  "log_of n exs = Some (map (map n) exs)"

section \<open>Reading a log\<close>

text \<open>\<open>sel\<close> selects the notifications of one kind with what the client makes of them.\<close>

lemma events_selected:
  assumes ok: "\<forall>e \<in> set (concat exs). ok e"
    and name: "\<And>e. ok e \<Longrightarrow> (fst (n e) = name \<longleftrightarrow> sel e \<noteq> None)"
    and parse: "\<And>e x. ok e \<Longrightarrow> sel e = Some x \<Longrightarrow> parse (snd (n e)) = Inr x"
  shows "events_from name type parse (log_of n exs) = Inr (List.map_filter sel (concat exs))"
proof -
  let ?f = "\<lambda>i. projr (parse i)"
  have "\<forall>e \<in> set (concat (map (map n) exs)). fst e = name \<longrightarrow> parse (snd e) = Inr (?f (snd e))"
  proof (intro ballI impI)
    fix e assume "e \<in> set (concat (map (map n) exs))" and e: "fst e = name"
    then obtain a where a: "a \<in> set (concat exs)" "e = n a" by auto
    then obtain x where "sel a = Some x" using ok name [of a] e by auto
    with a ok parse [of a x] have "parse (snd e) = Inr x" by blast
    then show "parse (snd e) = Inr (?f (snd e))" by simp
  qed
  from events_from_filter [OF this]
  have "events_from name type parse (log_of n exs) = Inr (map (?f \<circ> snd) (filter (\<lambda>e. fst e = name) (map n (concat exs))))"
    by (simp add: log_of_def map_concat)
  moreover have "map (?f \<circ> snd) (filter (\<lambda>e. fst e = name) (map n es)) = List.map_filter sel es" if "set es \<subseteq> set (concat exs)" for es
    using that
  proof (induction es)
    case (Cons e es)
    then have e: "e \<in> set (concat exs)" and "set es \<subseteq> set (concat exs)" by auto
    with Cons.IH ok name [of e] parse [of e] show ?case by (cases "sel e") (auto simp: List.map_filter_def)
  qed (simp add: List.map_filter_def)
  ultimately show ?thesis by simp
qed

section \<open>What the clients read\<close>

text \<open>Notifications that fit the types the wrappers expect.\<close>

primrec cnt_readable :: "cnt_event \<Rightarrow> bool" where
  "cnt_readable (CntTransfer frm to amount tokenID) = True"
| "cnt_readable (CntNodesUpdate i) = (length i = Hash256Len)"
| "cnt_readable (CntEACLChanged i) = (length i = Hash256Len)"
| "cnt_readable (CntContainerUpdated i revision) = (length i = Hash256Len)"
| "cnt_readable (CntContainerQuotaSet i n hard) = (length i = Hash256Len)"
| "cnt_readable (CntUserQuotaSet user n hard) = True"
| "cnt_readable (CntAttributeChanged i name) = (length i = Hash256Len \<and> utf8_valid name)"

primrec bal_readable :: "bal_event \<Rightarrow> bool" where
  "bal_readable (BalTransfer frm to amount) = True"
| "bal_readable (BalTransferX frm to amount details) = True"
| "bal_readable (BalLock txDetails frm to amount until) = (length frm = Hash160Len \<and> length to = Hash160Len)"
| "bal_readable (BalPayment owner cid epoch amount) = (length owner = Hash160Len \<and> length cid = Hash256Len)"
| "bal_readable (BalChangePaymentStatus cid epoch unpaid) = (length cid = Hash256Len)"

text \<open>A transfer that is read has a sender and a receiver.\<close>

definition transferX_readable :: "bal_event \<Rightarrow> bool" where
  "transferX_readable e = (case e of
     BalTransferX frm to amount details \<Rightarrow> length frm = Hash160Len \<and> length to = Hash160Len | _ \<Rightarrow> True)"

lemma event_items_simp [simp]:
  "event_items n (Some is) = (if length is \<noteq> n then Inl (Err ''wrong number of structure elements'') else Inr is)"
  by (simp add: event_items_def)

lemma hash_item_bytes [simp]: "length h = Hash160Len \<Longrightarrow> hash_item h = IBytes h"
  by (auto simp: hash_item_def)

lemmas container_events = NodesUpdateEventsFromApplicationLog_def NodesUpdateEvent_FromStackItem_def
  EACLChangedEventsFromApplicationLog_def EACLChangedEvent_FromStackItem_def
  ContainerUpdatedEventsFromApplicationLog_def ContainerUpdatedEvent_FromStackItem_def
  ContainerQuotaSetEventsFromApplicationLog_def ContainerQuotaSetEvent_FromStackItem_def
  UserQuotaSetEventsFromApplicationLog_def UserQuotaSetEvent_FromStackItem_def
  AttributeChangedEventsFromApplicationLog_def AttributeChangedEvent_FromStackItem_def

lemma container_log_read:
  assumes "client_ok L" and "\<forall>e \<in> set (concat exs). cnt_readable e"
  shows "NodesUpdateEventsFromApplicationLog L (log_of cnt_notification exs) = Inr (List.map_filter
      (\<lambda>e. case e of CntNodesUpdate i \<Rightarrow> Some \<lparr>nu_ContainerID = i\<rparr> | _ \<Rightarrow> None) (concat exs))"
    "EACLChangedEventsFromApplicationLog L (log_of cnt_notification exs) = Inr (List.map_filter
      (\<lambda>e. case e of CntEACLChanged i \<Rightarrow> Some \<lparr>ec_ContainerID = i\<rparr> | _ \<Rightarrow> None) (concat exs))"
    "ContainerUpdatedEventsFromApplicationLog L (log_of cnt_notification exs) = Inr (List.map_filter
      (\<lambda>e. case e of CntContainerUpdated i r \<Rightarrow> Some \<lparr>cu_Container = i, cu_Revision = r\<rparr> | _ \<Rightarrow> None) (concat exs))"
    "ContainerQuotaSetEventsFromApplicationLog L (log_of cnt_notification exs) = Inr (List.map_filter
      (\<lambda>e. case e of CntContainerQuotaSet i n h \<Rightarrow> Some \<lparr>cqs_ContainerID = i, cqs_LimitValue = n, cqs_Hard = h\<rparr> | _ \<Rightarrow> None) (concat exs))"
    "UserQuotaSetEventsFromApplicationLog L (log_of cnt_notification exs) = Inr (List.map_filter
      (\<lambda>e. case e of CntUserQuotaSet u n h \<Rightarrow> Some \<lparr>uqs_UserID = u, uqs_LimitValue = n, uqs_Hard = h\<rparr> | _ \<Rightarrow> None) (concat exs))"
    "AttributeChangedEventsFromApplicationLog L (log_of cnt_notification exs) = Inr (List.map_filter
      (\<lambda>e. case e of CntAttributeChanged i s \<Rightarrow> Some \<lparr>ac_ContainerID = i, ac_Attribute = s\<rparr> | _ \<Rightarrow> None) (concat exs))"
  unfolding container_events
  by - ((rule events_selected [OF assms(2)]; auto simp: plain_laws [OF assms(1)] split: cnt_event.split_asm cnt_event.split)+)


lemmas balance_events = LockEventsFromApplicationLog_def LockEvent_FromStackItem_def
  TransferXEventsFromApplicationLog_def TransferXEvent_FromStackItem_def
  PaymentEventsFromApplicationLog_def PaymentEvent_FromStackItem_def
  ChangePaymentStatusEventsFromApplicationLog_def ChangePaymentStatusEvent_FromStackItem_def

lemma balance_log_read:
  assumes "client_ok L" and "\<forall>e \<in> set (concat exs). bal_readable e"
  shows "LockEventsFromApplicationLog L (log_of bal_notification exs) = Inr (List.map_filter
      (\<lambda>e. case e of BalLock t f r a u \<Rightarrow> Some \<lparr>le_TxID = t, le_From = f, le_To = r, le_Amount = a, le_Until = u\<rparr> | _ \<Rightarrow> None) (concat exs))"
    "PaymentEventsFromApplicationLog L (log_of bal_notification exs) = Inr (List.map_filter
      (\<lambda>e. case e of BalPayment u i n a \<Rightarrow> Some \<lparr>pe_UserID = u, pe_ContainerID = i, pe_Epoch = n, pe_Amount = a\<rparr> | _ \<Rightarrow> None) (concat exs))"
    "ChangePaymentStatusEventsFromApplicationLog L (log_of bal_notification exs) = Inr (List.map_filter
      (\<lambda>e. case e of BalChangePaymentStatus i n u \<Rightarrow> Some \<lparr>cps_ContainerID = i, cps_Epoch = n, cps_Unpaid = u\<rparr> | _ \<Rightarrow> None) (concat exs))"
  unfolding balance_events
  by - ((rule events_selected [OF assms(2)]; auto simp: plain_laws [OF assms(1)] split: bal_event.split_asm bal_event.split)+)

lemma transferX_log_read:
  assumes "client_ok L" and "\<forall>e \<in> set (concat exs). transferX_readable e"
  shows "TransferXEventsFromApplicationLog L (log_of bal_notification exs) = Inr (List.map_filter
      (\<lambda>e. case e of BalTransferX f r a d \<Rightarrow> Some \<lparr>tx_From = f, tx_To = r, tx_Amount = a, tx_Details = d\<rparr> | _ \<Rightarrow> None) (concat exs))"
  unfolding balance_events
  by (rule events_selected [OF assms(2)];
    auto simp: plain_laws [OF assms(1)] transferX_readable_def split: bal_event.split_asm bal_event.split)

text \<open>The keys of nodes are bytes on the chain and keys for the client.\<close>

primrec nm_readable :: "'k client \<Rightarrow> nm_event \<Rightarrow> bool" where
  "nm_readable L (NmAddNode key addrs attrs) = True"
| "nm_readable L (NmUpdateStateSuccess key s) = (\<exists>k. public_key L key = Inr k)"
| "nm_readable L (NmNewEpoch epoch) = True"
| "nm_readable L (NmNewNetmap version) = True"
| "nm_readable L (NmNewEpochSubscription h) = (length h = Hash160Len)"
| "nm_readable L (NmNewEpochUnsubscription h) = (length h = Hash160Len)"

lemmas netmap_events = UpdateStateSuccessEventsFromApplicationLog_def UpdateStateSuccessEvent_FromStackItem_def
  NewEpochEventsFromApplicationLog_def NewEpochEvent_FromStackItem_def
  NewNetmapEventsFromApplicationLog_def NewNetmapEvent_FromStackItem_def
  NewEpochSubscriptionEventsFromApplicationLog_def NewEpochSubscriptionEvent_FromStackItem_def
  NewEpochUnsubscriptionEventsFromApplicationLog_def NewEpochUnsubscriptionEvent_FromStackItem_def

lemma netmap_log_read:
  assumes "client_ok L" and "\<forall>e \<in> set (concat exs). nm_readable L e"
  shows "UpdateStateSuccessEventsFromApplicationLog L (log_of nm_notification exs) = Inr (List.map_filter
      (\<lambda>e. case e of NmUpdateStateSuccess key s \<Rightarrow> Some \<lparr>us_PublicKey = projr (public_key L key), us_State = s\<rparr> | _ \<Rightarrow> None) (concat exs))"
    "NewEpochEventsFromApplicationLog L (log_of nm_notification exs) = Inr (List.map_filter
      (\<lambda>e. case e of NmNewEpoch n \<Rightarrow> Some \<lparr>ne_Epoch = n\<rparr> | _ \<Rightarrow> None) (concat exs))"
    "NewNetmapEventsFromApplicationLog L (log_of nm_notification exs) = Inr (List.map_filter
      (\<lambda>e. case e of NmNewNetmap n \<Rightarrow> Some \<lparr>nnm_Version = n\<rparr> | _ \<Rightarrow> None) (concat exs))"
    "NewEpochSubscriptionEventsFromApplicationLog L (log_of nm_notification exs) = Inr (List.map_filter
      (\<lambda>e. case e of NmNewEpochSubscription h \<Rightarrow> Some \<lparr>nes_Contract = h\<rparr> | _ \<Rightarrow> None) (concat exs))"
    "NewEpochUnsubscriptionEventsFromApplicationLog L (log_of nm_notification exs) = Inr (List.map_filter
      (\<lambda>e. case e of NmNewEpochUnsubscription h \<Rightarrow> Some \<lparr>neu_Contract = h\<rparr> | _ \<Rightarrow> None) (concat exs))"
  unfolding netmap_events
  by - ((rule events_selected [OF assms(2)]; auto simp: plain_laws [OF assms(1)] split: nm_event.split_asm nm_event.split)+)

text \<open>
  A new node that is read has no attributes, since the keys of a map of dynamic values cannot be byte slices.
  The event \<open>AddPeerSuccess\<close> is declared by the contract's configuration only: no method throws it.
\<close>

definition add_node_readable :: "'k client \<Rightarrow> nm_event \<Rightarrow> bool" where
  "add_node_readable L e = (case e of
     NmAddNode key addrs attrs \<Rightarrow> attrs = [] \<and> (\<exists>k. public_key L key = Inr k) | _ \<Rightarrow> True)"

lemma dynamic_list: "item_list Inr (IArray (map IBytes bs)) = Inr (map IBytes bs)"
  by (rule item_list_map) simp

lemma add_node_log_read:
  assumes "client_ok L" and "\<forall>e \<in> set (concat exs). add_node_readable L e"
  shows "AddNodeEventsFromApplicationLog L (log_of nm_notification exs) = Inr (List.map_filter
      (\<lambda>e. case e of NmAddNode key addrs attrs \<Rightarrow> Some \<lparr>an_PublicKey = projr (public_key L key),
         an_Addresses = map IBytes addrs, an_Attributes = []\<rparr> | _ \<Rightarrow> None) (concat exs))"
  unfolding AddNodeEventsFromApplicationLog_def AddNodeEvent_FromStackItem_def
  by (rule events_selected [OF assms(2)];
    auto simp: plain_laws [OF assms(1)] add_node_readable_def dynamic_list item_map_def split: nm_event.split_asm nm_event.split)

lemma add_peer_log_read: "AddPeerSuccessEventsFromApplicationLog L (log_of nm_notification exs) = Inr []"
proof -
  have "AddPeerSuccessEventsFromApplicationLog L (log_of nm_notification exs) = Inr (List.map_filter (\<lambda>_. None) (concat exs))"
    unfolding AddPeerSuccessEventsFromApplicationLog_def
    by (rule events_selected [where ok = "\<lambda>_. True"]) (auto simp: nm_notification_name)
  then show ?thesis by (simp add: List.map_filter_def)
qed

primrec main_readable :: "'k client \<Rightarrow> main_event \<Rightarrow> bool" where
  "main_readable L (MainDeposit frm amount rcv tx) = (length frm = Hash160Len \<and> length rcv = Hash160Len \<and> length tx = Hash256Len)"
| "main_readable L (MainWithdraw user amount tx) = (length user = Hash160Len \<and> length tx = Hash256Len)"
| "main_readable L (MainCheque i user amount lockAcc) = (length user = Hash160Len)"
| "main_readable L (MainAlphabetUpdate i keys) = (\<forall>b \<in> set keys. \<exists>k. public_key L b = Inr k)"
| "main_readable L (MainSetConfig i key val) = True"

lemmas main_events = DepositEventsFromApplicationLog_def DepositEvent_FromStackItem_def
  WithdrawEventsFromApplicationLog_def WithdrawEvent_FromStackItem_def
  ChequeEventsFromApplicationLog_def ChequeEvent_FromStackItem_def
  AlphabetUpdateEventsFromApplicationLog_def AlphabetUpdateEvent_FromStackItem_def
  SetConfigEventsFromApplicationLog_def SetConfigEvent_FromStackItem_def

lemma key_list_read:
  assumes "client_ok L" and "\<forall>b \<in> set bs. \<exists>k. public_key L b = Inr k"
  shows "item_list (item_key L) (IArray (map IBytes bs)) = Inr (map (\<lambda>b. projr (public_key L b)) bs)"
proof (rule item_list_map, intro ballI)
  fix b assume "b \<in> set bs"
  with assms(2) obtain k where "public_key L b = Inr k" by blast
  then show "item_key L (IBytes b) = Inr (projr (public_key L b))" by (simp add: item_fields(4) [OF assms(1)])
qed

lemma main_log_read:
  assumes "client_ok L" and "\<forall>e \<in> set (concat exs). main_readable L e"
  shows "DepositEventsFromApplicationLog L (log_of main_notification exs) = Inr (List.map_filter
      (\<lambda>e. case e of MainDeposit f a r t \<Rightarrow> Some \<lparr>de_From = f, de_Amount = a, de_Receiver = r, de_TxHash = t\<rparr> | _ \<Rightarrow> None) (concat exs))"
    "WithdrawEventsFromApplicationLog L (log_of main_notification exs) = Inr (List.map_filter
      (\<lambda>e. case e of MainWithdraw u a t \<Rightarrow> Some \<lparr>we_User = u, we_Amount = a, we_TxHash = t\<rparr> | _ \<Rightarrow> None) (concat exs))"
    "ChequeEventsFromApplicationLog L (log_of main_notification exs) = Inr (List.map_filter
      (\<lambda>e. case e of MainCheque i u a l \<Rightarrow> Some \<lparr>ch_Id = i, ch_User = u, ch_Amount = a, ch_LockAccount = l\<rparr> | _ \<Rightarrow> None) (concat exs))"
    "AlphabetUpdateEventsFromApplicationLog L (log_of main_notification exs) = Inr (List.map_filter
      (\<lambda>e. case e of MainAlphabetUpdate i bs \<Rightarrow> Some \<lparr>au_Id = i, au_Alphabet = Some (map (\<lambda>b. projr (public_key L b)) bs)\<rparr> | _ \<Rightarrow> None) (concat exs))"
    "SetConfigEventsFromApplicationLog L (log_of main_notification exs) = Inr (List.map_filter
      (\<lambda>e. case e of MainSetConfig i k v \<Rightarrow> Some \<lparr>sc_Id = i, sc_Key = k, sc_Value = v\<rparr> | _ \<Rightarrow> None) (concat exs))"
  unfolding main_events
  by - ((rule events_selected [OF assms(2)];
      auto simp: plain_laws [OF assms(1)] key_list_read [OF assms(1)] split: main_event.split_asm main_event.split)+)

primrec nns_readable :: "nns_event \<Rightarrow> bool" where
  "nns_readable (NnsTransfer frm to amount tokenID) = True"
| "nns_readable (NnsRenew name old new) = utf8_valid name"
| "nns_readable (NnsSetAdmin name old new) = True"

text \<open>A change of the administrator that is read has both the old and the new one.\<close>

definition set_admin_readable :: "nns_event \<Rightarrow> bool" where
  "set_admin_readable e = (case e of
     NnsSetAdmin name old new \<Rightarrow>
       utf8_valid name \<and> (\<exists>a. old = Some a \<and> length a = Hash160Len) \<and> (\<exists>a. new = Some a \<and> length a = Hash160Len)
   | _ \<Rightarrow> True)"

lemmas nns_events = RenewEventsFromApplicationLog_def RenewEvent_FromStackItem_def
  SetAdminEventsFromApplicationLog_def SetAdminEvent_FromStackItem_def

lemma nns_log_read:
  assumes "client_ok L" and "\<forall>e \<in> set (concat exs). nns_readable e"
  shows "RenewEventsFromApplicationLog L (log_of nns_notification exs) = Inr (List.map_filter
      (\<lambda>e. case e of NnsRenew n a b \<Rightarrow> Some \<lparr>re_Name = n, re_OldExpiration = a, re_NewExpiration = b\<rparr> | _ \<Rightarrow> None) (concat exs))"
  unfolding nns_events
  by (rule events_selected [OF assms(2)];
      auto simp: plain_laws [OF assms(1)] hash_option_item_def split: nns_event.split_asm nns_event.split option.split_asm)

lemma set_admin_log_read:
  assumes "client_ok L" and "\<forall>e \<in> set (concat exs). set_admin_readable e"
  shows "SetAdminEventsFromApplicationLog L (log_of nns_notification exs) = Inr (List.map_filter
      (\<lambda>e. case e of NnsSetAdmin n (Some a) (Some b) \<Rightarrow> Some \<lparr>sa_Name = n, sa_OldAdmin = a, sa_NewAdmin = b\<rparr> | _ \<Rightarrow> None) (concat exs))"
  unfolding nns_events
  by (rule events_selected [OF assms(2)];
      auto simp: plain_laws [OF assms(1)] set_admin_readable_def hash_option_item_def
        split: nns_event.split_asm nns_event.split option.split_asm)

section \<open>What they cannot read\<close>

text \<open>A Null is no hash, so one such notification hides all events of its name in the log.\<close>

lemma null_hash:
  assumes "client_ok L"
  obtains e where "field name (item_uint160 L INull) = Inl e"
  using client_okD(4) [OF assms] that by (auto simp: item_uint160_def)

lemma log_unreadable:
  assumes "e \<in> set (concat exs)" and "fst (n e) = name" and "\<exists>x. parse (snd (n e)) = Inl x"
  shows "\<exists>y. events_from name type parse (log_of n exs) = Inl y"
proof -
  from assms(1) have "n e \<in> set (concat (map (map n) exs))" by auto
  with assms(2,3) show ?thesis unfolding log_of_def by (blast intro: events_from_fails)
qed

lemma transfer_unreadable:
  assumes "client_ok L" and "BalTransferX frm to amount details \<in> set (concat exs)" and "frm = [] \<or> to = []"
  shows "\<exists>y. TransferXEventsFromApplicationLog L (log_of bal_notification exs) = Inl y"
  unfolding TransferXEventsFromApplicationLog_def
proof (rule log_unreadable [OF assms(2)])
  show "\<exists>x. TransferXEvent_FromStackItem L (snd (bal_notification (BalTransferX frm to amount details))) = Inl x"
  proof (cases "frm = []")
    case True
    obtain x where "field ''From'' (item_uint160 L INull) = Inl x" using null_hash [OF assms(1)] .
    with True show ?thesis by (simp add: TransferXEvent_FromStackItem_def hash_item_def)
  next
    case False
    obtain x where "field ''To'' (item_uint160 L INull) = Inl x" using null_hash [OF assms(1)] .
    with False assms(3) show ?thesis
      by (cases "field ''From'' (item_uint160 L (hash_item frm))") (simp_all add: TransferXEvent_FromStackItem_def hash_item_def)
  qed
qed simp


lemma set_admin_unreadable:
  assumes "client_ok L" and "NnsSetAdmin name old new \<in> set (concat exs)" and "old = None \<or> new = None"
  shows "\<exists>y. SetAdminEventsFromApplicationLog L (log_of nns_notification exs) = Inl y"
  unfolding SetAdminEventsFromApplicationLog_def
proof (rule log_unreadable [OF assms(2)])
  show "\<exists>x. SetAdminEvent_FromStackItem L (snd (nns_notification (NnsSetAdmin name old new))) = Inl x"
  proof (cases "field ''Name'' (item_string L (IBytes name))")
    case (Inr s)
    obtain x y where "field ''OldAdmin'' (item_uint160 L INull) = Inl x" "field ''NewAdmin'' (item_uint160 L INull) = Inl y"
      using null_hash [OF assms(1)] by metis
    with Inr assms(3) show ?thesis
      by (cases "field ''OldAdmin'' (item_uint160 L (hash_option_item old))")
        (auto simp: SetAdminEvent_FromStackItem_def hash_option_item_def)
  qed (simp add: SetAdminEvent_FromStackItem_def)
qed simp

text \<open>A node with attributes: their keys are byte slices, which no Go map takes as keys.\<close>

lemma add_node_panics:
  assumes "client_ok L" and "public_key L key = Inr k" and "attrs \<noteq> []"
  shows "AddNodeEvent_FromStackItem L (snd (nm_notification (NmAddNode key addrs attrs))) = Inl (GoPanic ''hash of unhashable type'')"
proof -
  obtain a v as where "attrs = (a, v) # as" using assms(3) by (cases attrs) auto
  moreover have "item_list Inr (IArray (map IBytes addrs)) = Inr (map IBytes addrs)" by (rule item_list_map) simp
  ultimately show ?thesis using assms(2) by (simp add: AddNodeEvent_FromStackItem_def item_fields(4) [OF assms(1)] item_map_def)
qed

end
