(* ===== verification/Rpc_Readers.thy ===== *)
theory Rpc_Readers
  imports Rpc_Notifications Container_State
begin

text \<open>
  The Container contract seen through its client wrapper (\<open>rpc/container/rpcbinding.go\<close>): what the contract's
  methods return as stack items, the calls of the wrapper that return structures, and a container on its way from
  the client into the contract and back.
\<close>

section \<open>The contract's structures as items\<close>

text \<open>Structures are arrays of their fields in the order of their declarations; a nil key or hash is Null.\<close>

definition attribute_item :: "attribute \<Rightarrow> item" where
  "attribute_item a = IStruct [IBytes (a_Key a), IBytes (a_Value a)]"

definition info_item :: "info \<Rightarrow> item" where
  "info_item c = IStruct [IStruct [IInt (uint (Major (ci_Version c))), IInt (uint (Minor (ci_Version c)))],
     IBytes (ci_Owner c), IBytes (ci_Nonce c), IInt (uint (ci_BasicACL c)), IArray (map attribute_item (ci_Attributes c)),
     IBytes (ci_StoragePolicy c)]"

definition info_rev_item :: "info_rev \<Rightarrow> item" where
  "info_rev_item r = IStruct [info_item (info.truncate r), IInt (ci_Revision r)]"

definition report_item :: "node_report \<Rightarrow> item" where
  "report_item r = IStruct [hash_item (nr_PublicKey r), IInt (nr_ContainerSize r), IInt (nr_NumberOfObjects r),
     IInt (nr_NumberOfReports r), IInt (nr_LastUpdateEpoch r)]"

definition summary_item :: "report_summary \<Rightarrow> item" where
  "summary_item s = IStruct [IInt (rs_ContainerSize s), IInt (rs_NumberOfObjects s)]"

definition billing_item :: "billing_stat \<Rightarrow> item" where
  "billing_item b = IStruct [hash_item (bs_Account b), IInt (bs_LatestContainerSize b), IInt (bs_LatestEpoch b),
     IInt (bs_LastUpdateTime b), IInt (bs_LatestEpochAverageSize b), IInt (bs_PreviousContainerSize b),
     IInt (bs_PreviousEpoch b), IInt (bs_PreviousEpochAverageSize b)]"

definition quota_item :: "quota \<Rightarrow> item" where
  "quota_item q = IStruct [IInt (q_SoftLimit q), IInt (q_HardLimit q)]"

section \<open>A node that answers calls\<close>

text \<open>
  The test invocation of a method, with \<open>unwrap.Item\<close>: the item it returns, or an error where it faulted. The
  text of the error is the node's, the parameter \<open>fault\<close>.
\<close>

definition answer :: "(error \<Rightarrow> string) \<Rightarrow> ('a \<Rightarrow> item) \<Rightarrow> 'a res \<Rightarrow> item go" where
  "answer fault out r = (case r of Inl e \<Rightarrow> Inl (Err (fault e)) | Inr x \<Rightarrow> Inr (out x))"

definition container_rpc :: "'k client \<Rightarrow> (error \<Rightarrow> string) \<Rightarrow> env \<Rightarrow> container \<Rightarrow> string \<Rightarrow> 'k go_value list \<Rightarrow> item go" where
  "container_rpc L fault E d method args = (case args of
     [VUint256 i] \<Rightarrow>
       if method = ''getInfo'' then answer fault info_item (GetInfo i d)
       else if method = ''getRevisionedInfo'' then answer fault info_rev_item (GetRevisionedInfo i d)
       else if method = ''getNodeReportSummary'' then answer fault summary_item (GetNodeReportSummary i d)
       else if method = ''containerQuota'' then answer fault quota_item (ContainerQuota i d)
       else Inl (Err ''method not found'')
   | [VBytes user] \<Rightarrow>
       if method = ''userQuota'' then answer fault quota_item (UserQuota user d) else Inl (Err ''method not found'')
   | [VUint256 i, VKey k] \<Rightarrow>
       if method = ''getReportByNode'' then answer fault report_item (GetReportByNode E i (key_bytes L k) d)
       else if method = ''getBillingStatByNode'' then answer fault billing_item (GetBillingStatByNode E i (key_bytes L k) d)
       else Inl (Err ''method not found'')
   | [VUint256 i, VUint160 a] \<Rightarrow>
       if method = ''getReportByAccount'' then answer fault report_item (GetReportByAccount i a d) else Inl (Err ''method not found'')
   | _ \<Rightarrow> Inl (Err ''method not found''))"

section \<open>The wrapper's methods\<close>

text \<open>\<open>call\<close> is \<open>unwrap.Item\<close> of \<open>invoker.Call\<close> with the hash of the contract.\<close>

definition client_GetInfo :: "'k client \<Rightarrow> (string \<Rightarrow> 'k go_value list \<Rightarrow> item go) \<Rightarrow> bytes \<Rightarrow> ContainerInfo option go" where
  "client_GetInfo L call i = itemToContainerInfo L (call ''getInfo'' [VUint256 i])"

definition client_GetRevisionedInfo ::
  "'k client \<Rightarrow> (string \<Rightarrow> 'k go_value list \<Rightarrow> item go) \<Rightarrow> bytes \<Rightarrow> ContainerInfoWithRevision option go" where
  "client_GetRevisionedInfo L call i = itemToContainerInfoWithRevision L (call ''getRevisionedInfo'' [VUint256 i])"

definition client_GetNodeReportSummary ::
  "'k client \<Rightarrow> (string \<Rightarrow> 'k go_value list \<Rightarrow> item go) \<Rightarrow> bytes \<Rightarrow> ContainerNodeReportSummary option go" where
  "client_GetNodeReportSummary L call i = itemToContainerNodeReportSummary L (call ''getNodeReportSummary'' [VUint256 i])"

definition client_ContainerQuota :: "'k client \<Rightarrow> (string \<Rightarrow> 'k go_value list \<Rightarrow> item go) \<Rightarrow> bytes \<Rightarrow> ContainerQuotaLimits option go" where
  "client_ContainerQuota L call i = itemToContainerQuota L (call ''containerQuota'' [VUint256 i])"

definition client_UserQuota :: "'k client \<Rightarrow> (string \<Rightarrow> 'k go_value list \<Rightarrow> item go) \<Rightarrow> bytes \<Rightarrow> ContainerQuotaLimits option go" where
  "client_UserQuota L call user = itemToContainerQuota L (call ''userQuota'' [VBytes user])"

definition client_GetReportByNode ::
  "'k client \<Rightarrow> (string \<Rightarrow> 'k go_value list \<Rightarrow> item go) \<Rightarrow> bytes \<Rightarrow> 'k \<Rightarrow> 'k ContainerNodeReport option go" where
  "client_GetReportByNode L call i k = itemToContainerNodeReport L (call ''getReportByNode'' [VUint256 i, VKey k])"

definition client_GetReportByAccount ::
  "'k client \<Rightarrow> (string \<Rightarrow> 'k go_value list \<Rightarrow> item go) \<Rightarrow> bytes \<Rightarrow> bytes \<Rightarrow> 'k ContainerNodeReport option go" where
  "client_GetReportByAccount L call i a = itemToContainerNodeReport L (call ''getReportByAccount'' [VUint256 i, VUint160 a])"

definition client_GetBillingStatByNode ::
  "'k client \<Rightarrow> (string \<Rightarrow> 'k go_value list \<Rightarrow> item go) \<Rightarrow> bytes \<Rightarrow> 'k \<Rightarrow> ContainerEpochBillingStat option go" where
  "client_GetBillingStatByNode L call i k = itemToContainerEpochBillingStat L (call ''getBillingStatByNode'' [VUint256 i, VKey k])"

section \<open>What the client sees\<close>

definition client_attribute :: "attribute \<Rightarrow> ContainerAttribute" where
  "client_attribute a = \<lparr>ca_Key = a_Key a, ca_Value = a_Value a\<rparr>"

definition client_info :: "info \<Rightarrow> ContainerInfo" where
  "client_info c = \<lparr>cc_Version = Some \<lparr>cv_Major = uint (Major (ci_Version c)), cv_Minor = uint (Minor (ci_Version c))\<rparr>,
     cc_Owner = ci_Owner c, cc_Nonce = ci_Nonce c, cc_BasicACL = uint (ci_BasicACL c),
     cc_Attributes = Some (map (\<lambda>a. Some (client_attribute a)) (ci_Attributes c)), cc_StoragePolicy = ci_StoragePolicy c\<rparr>"

definition client_summary :: "report_summary \<Rightarrow> ContainerNodeReportSummary" where
  "client_summary s = \<lparr>cs_ContainerSize = rs_ContainerSize s, cs_NumberOfObjects = rs_NumberOfObjects s\<rparr>"

definition client_quota :: "quota \<Rightarrow> ContainerQuotaLimits" where
  "client_quota q = \<lparr>cq_SoftLimit = q_SoftLimit q, cq_HardLimit = q_HardLimit q\<rparr>"

definition client_report :: "'k \<Rightarrow> node_report \<Rightarrow> 'k ContainerNodeReport" where
  "client_report k r = \<lparr>cn_PublicKey = k, cn_ContainerSize = nr_ContainerSize r, cn_NumberOfObjects = nr_NumberOfObjects r,
     cn_NumberOfReports = nr_NumberOfReports r, cn_LastUpdateEpoch = nr_LastUpdateEpoch r\<rparr>"

definition client_billing :: "billing_stat \<Rightarrow> ContainerEpochBillingStat" where
  "client_billing b = \<lparr>cb_Account = bs_Account b, cb_LatestContainerSize = bs_LatestContainerSize b, cb_LatestEpoch = bs_LatestEpoch b,
     cb_LastUpdateTime = bs_LastUpdateTime b, cb_LatestEpochAverageSize = bs_LatestEpochAverageSize b,
     cb_PreviousContainerSize = bs_PreviousContainerSize b, cb_PreviousEpoch = bs_PreviousEpoch b,
     cb_PreviousEpochAverageSize = bs_PreviousEpochAverageSize b\<rparr>"

text \<open>Containers a client can read: an owner of 20 bytes and attributes in UTF-8.\<close>

definition info_readable :: "info \<Rightarrow> bool" where
  "info_readable c \<longleftrightarrow> length (ci_Owner c) = Hash160Len \<and> (\<forall>a \<in> set (ci_Attributes c). utf8_valid (a_Key a) \<and> utf8_valid (a_Value a))"

lemma item_to_answer:
  "item_to f (answer fault out (Inl e)) = Inl (Err (fault e))"
  "item_to f (answer fault out (Inr x)) = item_to f (Inr (out x))"
  by (simp_all add: answer_def item_to_def)

lemma info_read:
  assumes "client_ok L" and "info_readable c"
  shows "itemToContainerInfo L (Inr (info_item c)) = Inr (Some (client_info c))"
proof -
  have "item_list (\<lambda>i. itemToContainerAttribute L (Inr i)) (IArray (map attribute_item (ci_Attributes c))) =
      Inr (map (\<lambda>a. Some (client_attribute a)) (ci_Attributes c))"
    by (rule item_list_map) (use assms(2) in \<open>auto simp: info_readable_def attribute_item_def client_attribute_def
      itemToContainerAttribute_def ContainerAttribute_FromStackItem_def plain_laws [OF assms(1)]\<close>)
  then show ?thesis
    using assms(2) by (simp add: info_item_def client_info_def info_readable_def itemToContainerInfo_def ContainerInfo_FromStackItem_def
        itemToContainerAPIVersion_def ContainerAPIVersion_FromStackItem_def plain_laws [OF assms(1)])
qed

lemma info_rev_read:
  assumes "client_ok L" and "info_readable (info.truncate r)"
  shows "itemToContainerInfoWithRevision L (Inr (info_rev_item r)) =
    Inr (Some \<lparr>cr_Info = Some (client_info (info.truncate r)), cr_Revision = ci_Revision r\<rparr>)"
  using info_read [OF assms] by (simp add: info_rev_item_def itemToContainerInfoWithRevision_def
      ContainerInfoWithRevision_FromStackItem_def plain_laws [OF assms(1)])

lemma summary_read: "client_ok L \<Longrightarrow> itemToContainerNodeReportSummary L (Inr (summary_item s)) = Inr (Some (client_summary s))"
  by (simp add: summary_item_def client_summary_def itemToContainerNodeReportSummary_def ContainerNodeReportSummary_FromStackItem_def plain_laws)

lemma quota_read: "client_ok L \<Longrightarrow> itemToContainerQuota L (Inr (quota_item q)) = Inr (Some (client_quota q))"
  by (simp add: quota_item_def client_quota_def itemToContainerQuota_def ContainerQuota_FromStackItem_def plain_laws)

lemma report_read: "client_ok L \<Longrightarrow> public_key L (nr_PublicKey r) = Inr k \<Longrightarrow> nr_PublicKey r \<noteq> [] \<Longrightarrow>
    itemToContainerNodeReport L (Inr (report_item r)) = Inr (Some (client_report k r))"
  by (simp add: report_item_def hash_item_def client_report_def itemToContainerNodeReport_def ContainerNodeReport_FromStackItem_def plain_laws)

lemma billing_read: "client_ok L \<Longrightarrow> length (bs_Account b) = Hash160Len \<Longrightarrow>
    itemToContainerEpochBillingStat L (Inr (billing_item b)) = Inr (Some (client_billing b))"
  by (simp add: billing_item_def client_billing_def itemToContainerEpochBillingStat_def ContainerEpochBillingStat_FromStackItem_def plain_laws)

text \<open>The zero values of a report and of billing statistics have no key and no account: no client reads them.\<close>

lemma zero_report_unreadable:
  assumes "client_ok L"
  shows "\<exists>e. itemToContainerNodeReport L (Inr (report_item emptyReport)) = Inl e"
  using client_okD(4) [OF assms] by (auto simp: report_item_def emptyReport_def hash_item_def itemToContainerNodeReport_def
      ContainerNodeReport_FromStackItem_def item_key_def)

lemma zero_billing_unreadable:
  assumes "client_ok L"
  shows "\<exists>e. itemToContainerEpochBillingStat L (Inr (billing_item emptyBilling)) = Inl e"
  using client_okD(4) [OF assms] by (auto simp: billing_item_def emptyBilling_def hash_item_def itemToContainerEpochBillingStat_def
      ContainerEpochBillingStat_FromStackItem_def item_uint160_def)

end
