(* ===== verification/Rpc_Clients.thy ===== *)
theory Rpc_Clients
  imports Rpc_Readers
begin

text \<open>
  A container on its way from a client to the contract: the parameter made of the structure arrives as the
  container it describes. And a concrete client, with structures for examples.
\<close>

section \<open>A container sent to the contract\<close>

text \<open>How the contract takes its argument apart.\<close>

definition item_attribute :: "item \<Rightarrow> attribute option" where
  "item_attribute i = (case item_elements i of Some [IBytes k, IBytes v] \<Rightarrow> Some \<lparr>a_Key = k, a_Value = v\<rparr> | _ \<Rightarrow> None)"

definition item_version :: "item \<Rightarrow> api_version option" where
  "item_version i = (case item_elements i of
     Some [IInt major, IInt minor] \<Rightarrow> Some \<lparr>Major = word_of_int major, Minor = word_of_int minor\<rparr> | _ \<Rightarrow> None)"

definition item_info :: "item \<Rightarrow> info option" where
  "item_info i = (case item_elements i of
     Some [v, IBytes ownr, IBytes nonce, IInt acl, as, IBytes policy] \<Rightarrow>
       (case (item_version v, item_elements as) of
          (Some ver, Some is) \<Rightarrow> map_option (\<lambda>attrs. \<lparr>ci_Version = ver, ci_Owner = ownr, ci_Nonce = nonce,
             ci_BasicACL = word_of_int acl, ci_Attributes = attrs, ci_StoragePolicy = policy\<rparr>) (those (map item_attribute is))
        | _ \<Rightarrow> None)
   | _ \<Rightarrow> None)"

text \<open>What a client may send: everything there, numbers that fit the contract's types.\<close>

definition sendable :: "ContainerInfo \<Rightarrow> bool" where
  "sendable c \<longleftrightarrow> length (cc_Owner c) = Hash160Len \<and>
     (\<exists>v. cc_Version c = Some v \<and> 0 \<le> cv_Major v \<and> cv_Major v < 2 ^ 32 \<and> 0 \<le> cv_Minor v \<and> cv_Minor v < 2 ^ 32) \<and>
     0 \<le> cc_BasicACL c \<and> cc_BasicACL c < 2 ^ 32 \<and>
     (\<exists>as. cc_Attributes c = Some (map Some as) \<and> (\<forall>a \<in> set as. attribute_valid a))"

lemma those_map_Some: "those (map (\<lambda>x. Some (f x)) xs) = Some (map f xs)"
  by (induction xs) simp_all

lemma sent_container:
  assumes "client_ok L" and "sendable c"
  obtains p cnr where "ContainerInfo_ToSCParameter L (Some c) = Inr p" "item_info (arrives L p) = Some cnr"
    "client_info cnr = c" "info_readable cnr" "ci_Owner cnr = cc_Owner c"
proof -
  note laws = client_okD [OF assms(1)]
  from assms(2) obtain v as where owner: "length (cc_Owner c) = Hash160Len" and v: "cc_Version c = Some v"
    and range: "0 \<le> cv_Major v" "cv_Major v < 2 ^ 32" "0 \<le> cv_Minor v" "cv_Minor v < 2 ^ 32" "0 \<le> cc_BasicACL c" "cc_BasicACL c < 2 ^ 32"
    and as: "cc_Attributes c = Some (map Some as)" and valid: "\<forall>a \<in> set as. attribute_valid a"
    by (auto simp: sendable_def)
  let ?attr = "\<lambda>a. \<lparr>a_Key = ca_Key a, a_Value = ca_Value a\<rparr> :: attribute"
  let ?cnr = "\<lparr>ci_Version = \<lparr>Major = word_of_int (cv_Major v), Minor = word_of_int (cv_Minor v)\<rparr>, ci_Owner = cc_Owner c, ci_Nonce = cc_Nonce c,
    ci_BasicACL = word_of_int (cc_BasicACL c), ci_Attributes = map ?attr as, ci_StoragePolicy = cc_StoragePolicy c\<rparr>"
  let ?param = "\<lambda>a. PArray [PValue (VString (ca_Key a)), PValue (VString (ca_Value a))]"
  have "elements_out 0 (ContainerAttribute_ToSCParameter L) (map Some as) = Inr (map (?param \<circ> the) (map Some as))"
    by (rule elements_out_map) (auto simp: ContainerAttribute_ToSCParameter_def laws)
  then have attrs: "slice_param (ContainerAttribute_ToSCParameter L) (cc_Attributes c) = Inr (PArray (map ?param as))"
    by (simp add: as slice_param_def comp_def)
  let ?p = "PArray [PArray [PValue (VInt (cv_Major v)), PValue (VInt (cv_Minor v))], PValue (VUint160 (cc_Owner c)), PValue (VBytes (cc_Nonce c)),
    PValue (VInt (cc_BasicACL c)), PArray (map ?param as), PValue (VBytes (cc_StoragePolicy c))]"
  have p: "ContainerInfo_ToSCParameter L (Some c) = Inr ?p"
    by (simp add: ContainerInfo_ToSCParameter_def ContainerAPIVersion_ToSCParameter_def laws v attrs)
  have attribute: "item_attribute \<circ> (arrives L \<circ> ?param) = (\<lambda>a. Some (?attr a))"
    by (rule ext) (simp add: item_attribute_def laws)
  have "item_info (arrives L ?p) = Some ?cnr"
    using those_map_Some [of ?attr as] by (simp add: item_info_def item_version_def laws attribute)
  moreover have "client_info ?cnr = c"
  proof -
    have "uint (word_of_int n :: 32 word) = n" if "0 \<le> n" "n < 2 ^ 32" for n
      using that by (simp add: uint_word_of_int take_bit_eq_mod)
    moreover have "client_attribute (?attr a) = a" for a by (simp add: client_attribute_def)
    ultimately show ?thesis using range v as by (simp add: client_info_def comp_def)
  qed
  moreover have "info_readable ?cnr" using owner valid by (auto simp: info_readable_def attribute_valid_def)
  ultimately show thesis using that p by simp
qed

section \<open>A client\<close>

text \<open>Keys are their bytes, any bytes are a key; conversions of other items than the laws speak of fail.\<close>

fun sample_value :: "bytes go_value \<Rightarrow> item" where
  "sample_value (VInt n) = IInt n"
| "sample_value (VBool b) = IBool b"
| "sample_value (VBytes b) = IBytes b"
| "sample_value (VString s) = IBytes s"
| "sample_value (VUint160 h) = IBytes h"
| "sample_value (VUint256 h) = IBytes h"
| "sample_value (VKey k) = IBytes k"

fun sample_arrives :: "bytes param \<Rightarrow> item" where
  "sample_arrives PAny = INull"
| "sample_arrives (PValue v) = sample_value v"
| "sample_arrives (PArray ps) = IArray (map sample_arrives ps)"
| "sample_arrives (PMap ps) = IMap (map (\<lambda>(k, v). (sample_arrives k, sample_arrives v)) ps)"

definition conversion_failed :: "'a go" where "conversion_failed = Inl (Err ''invalid conversion'')"

definition sample_client :: "bytes client" where
  "sample_client = \<lparr>
     try_integer = (\<lambda>i. case i of IInt n \<Rightarrow> Inr n | _ \<Rightarrow> conversion_failed),
     try_bytes = (\<lambda>i. case i of IBytes b \<Rightarrow> Inr b | IBuffer b \<Rightarrow> Inr b | _ \<Rightarrow> conversion_failed),
     try_bool = (\<lambda>i. case i of IBool b \<Rightarrow> Inr b | _ \<Rightarrow> conversion_failed),
     item_type = (\<lambda>_. ''Any''),
     uint160_be = (\<lambda>b. if length b = Hash160Len then Inr b else Inl (Err ''wrong length'')),
     uint256_be = (\<lambda>b. if length b = Hash256Len then Inr b else Inl (Err ''wrong length'')),
     public_key = Inr, key_bytes = (\<lambda>k. k), new_parameter = (\<lambda>v. Inr (PValue v)), arrives = sample_arrives\<rparr>"

lemma sample_client_ok: "client_ok sample_client"
proof -
  have "value_item sample_client v = sample_value v" for v by (cases v) (simp_all add: sample_client_def)
  moreover have "arrives sample_client = sample_arrives" by (simp add: sample_client_def)
  ultimately show ?thesis unfolding client_ok_def by (simp add: conversion_failed_def) (simp add: sample_client_def conversion_failed_def)
qed

definition sample_container :: ContainerInfo where
  "sample_container = client_info cnr_a"

lemma sample_container_fields:
  "sample_container = \<lparr>cc_Version = Some \<lparr>cv_Major = 2, cv_Minor = 18\<rparr>, cc_Owner = addrA, cc_Nonce = replicate 16 CHR ''n'', cc_BasicACL = 0x1FBFBFFF,
     cc_Attributes = Some (map Some [\<lparr>ca_Key = ''Name'', ca_Value = ''photos''\<rparr>, \<lparr>ca_Key = ''Timestamp'', ca_Value = ''17''\<rparr>]),
     cc_StoragePolicy = ''REP 3''\<rparr>"
  by (simp add: sample_container_def client_info_def client_attribute_def cnr_a_def)

definition sample_candidate :: "bytes NetmapCandidate" where
  "sample_candidate = \<lparr>nc_Addresses = Some [''/ip4/10.0.0.1'', ''/ip4/10.0.0.2''],
     nc_Attributes = Some [(''Price'', ''10''), (''Country'', ''FI'')], nc_Key = keyA, nc_State = 1, nc_LastActiveEpoch = 7\<rparr>"

lemma sample_structures_valid: "container_valid sample_container" "sendable sample_container"
  "node_data_valid (nc_Addresses sample_candidate) (nc_Attributes sample_candidate)" "info_readable cnr_a"
proof -
  have utf8 [simp]: "utf8_valid ''Name''" "utf8_valid ''photos''" "utf8_valid ''Timestamp''" "utf8_valid ''17''"
    "utf8_valid ''/ip4/10.0.0.1''" "utf8_valid ''/ip4/10.0.0.2''" "utf8_valid ''Price''" "utf8_valid ''10''" "utf8_valid ''Country''" "utf8_valid ''FI''"
    by code_simp+
  show "container_valid sample_container" by (simp add: container_valid_def sample_container_fields attribute_valid_def)
  show "node_data_valid (nc_Addresses sample_candidate) (nc_Attributes sample_candidate)"
    by (simp add: node_data_valid_def sample_candidate_def)
  show "info_readable cnr_a" by (simp add: info_readable_def cnr_a_def)
  have "\<exists>as. cc_Attributes sample_container = Some (map Some as) \<and> (\<forall>a \<in> set as. attribute_valid a)"
    by (rule exI [of _ "[\<lparr>ca_Key = ''Name'', ca_Value = ''photos''\<rparr>, \<lparr>ca_Key = ''Timestamp'', ca_Value = ''17''\<rparr>]"])
      (simp add: sample_container_fields attribute_valid_def)
  then show "sendable sample_container" by (simp add: sendable_def) (simp add: sample_container_fields)
qed

end
