(* ===== verification/Rpc_Properties.thy ===== *)
theory Rpc_Properties
  imports Rpc_Clients Container_Invariants Balance_Properties
begin

text \<open>
  What the client wrappers promise: structures survive their conversions, notifications are read as they were
  thrown, the methods show the contract's state, and a container created through the wrapper is read back
  unchanged; and what no wrapper can read.
\<close>

section \<open>A container that was created\<close>

lemma created_info:
  assumes "CreateV2 E S cnr (c, x) = Inr (i, w')" and "contract_ok c" and "\<not> rt_is_contract E (ci_Owner cnr)"
  shows "GetInfo i (fst w') = Inr cnr"
  using assms(1)
proof (cases rule: CreateV2_result)
  case (1 c1 name zone x1 x2)
  have "contract_ok c1" using 1(5) assms(2) by (simp add: core_same_def)
  moreover have "w' = (store_container E i cnr c1, x2)" using 1(7) assms(3) by (simp add: onNEP11Payment_def)
  ultimately show ?thesis
    by (simp add: GetInfo_def GetRevisionedInfo_def store_container_def notifyNEP11Transfer_def initInfo_def
        ownerPrefix_def infoKey_def info.defs)
qed


section \<open>The properties\<close>

text \<open>C38: a structure of the wrappers that is turned into a stack item, or sent as a parameter and received as
  an item, is read back as it was: the container with its revision, its reports, billing statistics and quotas,
  the candidates and nodes of the network map with their addresses and attributes, and the ballots. Lists and
  maps must not be nil, texts must be UTF-8 and accounts 20 bytes; nil pointers survive.\<close>

theorem client_structures_read_back:
  assumes "client_ok L"
    and "\<And>r c. cnr = Some r \<Longrightarrow> cr_Info r = Some c \<Longrightarrow> container_valid c"
    and "\<And>b. stat = Some b \<Longrightarrow> length (cb_Account b) = Hash160Len"
    and "\<And>c. cand = Some c \<Longrightarrow> node_data_valid (nc_Addresses c) (nc_Attributes c)"
    and "\<And>n. node = Some n \<Longrightarrow> node_data_valid (nn_Addresses n) (nn_Attributes n)"
    and "\<And>b. ballot = Some b \<Longrightarrow> cob_Voters b \<noteq> None"
  shows "(reads_back L (itemToContainerInfoWithRevision L) ContainerInfoWithRevision_ToStackItem (ContainerInfoWithRevision_ToSCParameter L) cnr \<and>
      reads_back L (itemToContainerEpochBillingStat L) ContainerEpochBillingStat_ToStackItem (ContainerEpochBillingStat_ToSCParameter L) stat \<and>
      reads_back L (itemToContainerNodeReport L) (ContainerNodeReport_ToStackItem L) (ContainerNodeReport_ToSCParameter L) report \<and>
      reads_back L (itemToContainerNodeReportSummary L) ContainerNodeReportSummary_ToStackItem (ContainerNodeReportSummary_ToSCParameter L) summary \<and>
      reads_back L (itemToContainerQuota L) ContainerQuota_ToStackItem (ContainerQuota_ToSCParameter L) quota) \<and>
    (reads_back L (itemToNetmapCandidate L) (NetmapCandidate_ToStackItem L) (NetmapCandidate_ToSCParameter L) cand \<and>
      reads_back L (itemToNetmapNode2 L) (NetmapNode2_ToStackItem L) (NetmapNode2_ToSCParameter L) node) \<and>
    reads_back L (itemToCommonBallot L) (CommonBallot_ToStackItem L) (CommonBallot_ToSCParameter L) ballot"
  using container_revision_back [OF assms(1,2)] container_plain(3) [OF assms(1,3)] container_plain(4-6) [OF assms(1)]
    netmap_candidate_back [OF assms(1,4)] netmap_node_back [OF assms(1,5)] ballot_back [OF assms(1,6)] by simp

text \<open>C39: the client reads the notifications of a log as the contracts threw them: whatever transactions the log
  has, each of the 24 functions returns exactly the notifications of its kind, in their order, with their
  arguments in place. Identifiers must have their 32 bytes, accounts 20, texts must be UTF-8 and keys decode.
  Three functions give up the whole log for one notification they cannot read, so they need more of it:
  \<open>TransferX\<close> that every transfer has a sender and a receiver (a mint or a burn has not), \<open>SetAdmin\<close> that
  every name has an old and a new administrator, \<open>AddNode\<close> that no node has attributes. And
  \<open>AddPeerSuccess\<close>, which no contract throws, is found in no log.\<close>

theorem client_reads_notifications:
  assumes "client_ok L" and "\<forall>e \<in> set (concat cs). cnt_readable e" and "\<forall>e \<in> set (concat bs). bal_readable e"
    and "\<forall>e \<in> set (concat ns). nm_readable L e" and "\<forall>e \<in> set (concat ms). main_readable L e"
    and "\<forall>e \<in> set (concat rs). nns_readable e"
  shows "(NodesUpdateEventsFromApplicationLog L (log_of cnt_notification cs) = Inr (List.map_filter
        (\<lambda>e. case e of CntNodesUpdate i \<Rightarrow> Some \<lparr>nu_ContainerID = i\<rparr> | _ \<Rightarrow> None) (concat cs)) \<and>
      EACLChangedEventsFromApplicationLog L (log_of cnt_notification cs) = Inr (List.map_filter
        (\<lambda>e. case e of CntEACLChanged i \<Rightarrow> Some \<lparr>ec_ContainerID = i\<rparr> | _ \<Rightarrow> None) (concat cs)) \<and>
      ContainerUpdatedEventsFromApplicationLog L (log_of cnt_notification cs) = Inr (List.map_filter
        (\<lambda>e. case e of CntContainerUpdated i r \<Rightarrow> Some \<lparr>cu_Container = i, cu_Revision = r\<rparr> | _ \<Rightarrow> None) (concat cs)) \<and>
      ContainerQuotaSetEventsFromApplicationLog L (log_of cnt_notification cs) = Inr (List.map_filter
        (\<lambda>e. case e of CntContainerQuotaSet i n h \<Rightarrow> Some \<lparr>cqs_ContainerID = i, cqs_LimitValue = n, cqs_Hard = h\<rparr> | _ \<Rightarrow> None) (concat cs)) \<and>
      UserQuotaSetEventsFromApplicationLog L (log_of cnt_notification cs) = Inr (List.map_filter
        (\<lambda>e. case e of CntUserQuotaSet u n h \<Rightarrow> Some \<lparr>uqs_UserID = u, uqs_LimitValue = n, uqs_Hard = h\<rparr> | _ \<Rightarrow> None) (concat cs)) \<and>
      AttributeChangedEventsFromApplicationLog L (log_of cnt_notification cs) = Inr (List.map_filter
        (\<lambda>e. case e of CntAttributeChanged i s \<Rightarrow> Some \<lparr>ac_ContainerID = i, ac_Attribute = s\<rparr> | _ \<Rightarrow> None) (concat cs))) \<and>
    (LockEventsFromApplicationLog L (log_of bal_notification bs) = Inr (List.map_filter
        (\<lambda>e. case e of BalLock t f r a u \<Rightarrow> Some \<lparr>le_TxID = t, le_From = f, le_To = r, le_Amount = a, le_Until = u\<rparr> | _ \<Rightarrow> None) (concat bs)) \<and>
      PaymentEventsFromApplicationLog L (log_of bal_notification bs) = Inr (List.map_filter
        (\<lambda>e. case e of BalPayment u i n a \<Rightarrow> Some \<lparr>pe_UserID = u, pe_ContainerID = i, pe_Epoch = n, pe_Amount = a\<rparr> | _ \<Rightarrow> None) (concat bs)) \<and>
      ChangePaymentStatusEventsFromApplicationLog L (log_of bal_notification bs) = Inr (List.map_filter
        (\<lambda>e. case e of BalChangePaymentStatus i n u \<Rightarrow> Some \<lparr>cps_ContainerID = i, cps_Epoch = n, cps_Unpaid = u\<rparr> | _ \<Rightarrow> None) (concat bs)) \<and>
      ((\<forall>e \<in> set (concat bs). transferX_readable e) \<longrightarrow> TransferXEventsFromApplicationLog L (log_of bal_notification bs) = Inr (List.map_filter
        (\<lambda>e. case e of BalTransferX f r a d \<Rightarrow> Some \<lparr>tx_From = f, tx_To = r, tx_Amount = a, tx_Details = d\<rparr> | _ \<Rightarrow> None) (concat bs)))) \<and>
    (UpdateStateSuccessEventsFromApplicationLog L (log_of nm_notification ns) = Inr (List.map_filter
        (\<lambda>e. case e of NmUpdateStateSuccess key s \<Rightarrow> Some \<lparr>us_PublicKey = projr (public_key L key), us_State = s\<rparr> | _ \<Rightarrow> None) (concat ns)) \<and>
      NewEpochEventsFromApplicationLog L (log_of nm_notification ns) = Inr (List.map_filter
        (\<lambda>e. case e of NmNewEpoch n \<Rightarrow> Some \<lparr>ne_Epoch = n\<rparr> | _ \<Rightarrow> None) (concat ns)) \<and>
      NewNetmapEventsFromApplicationLog L (log_of nm_notification ns) = Inr (List.map_filter
        (\<lambda>e. case e of NmNewNetmap n \<Rightarrow> Some \<lparr>nnm_Version = n\<rparr> | _ \<Rightarrow> None) (concat ns)) \<and>
      NewEpochSubscriptionEventsFromApplicationLog L (log_of nm_notification ns) = Inr (List.map_filter
        (\<lambda>e. case e of NmNewEpochSubscription h \<Rightarrow> Some \<lparr>nes_Contract = h\<rparr> | _ \<Rightarrow> None) (concat ns)) \<and>
      NewEpochUnsubscriptionEventsFromApplicationLog L (log_of nm_notification ns) = Inr (List.map_filter
        (\<lambda>e. case e of NmNewEpochUnsubscription h \<Rightarrow> Some \<lparr>neu_Contract = h\<rparr> | _ \<Rightarrow> None) (concat ns)) \<and>
      AddPeerSuccessEventsFromApplicationLog L (log_of nm_notification ns) = Inr [] \<and>
      ((\<forall>e \<in> set (concat ns). add_node_readable L e) \<longrightarrow> AddNodeEventsFromApplicationLog L (log_of nm_notification ns) = Inr (List.map_filter
        (\<lambda>e. case e of NmAddNode key addrs attrs \<Rightarrow> Some \<lparr>an_PublicKey = projr (public_key L key), an_Addresses = map IBytes addrs, an_Attributes = []\<rparr> | _ \<Rightarrow> None) (concat ns)))) \<and>
    (DepositEventsFromApplicationLog L (log_of main_notification ms) = Inr (List.map_filter
        (\<lambda>e. case e of MainDeposit f a r t \<Rightarrow> Some \<lparr>de_From = f, de_Amount = a, de_Receiver = r, de_TxHash = t\<rparr> | _ \<Rightarrow> None) (concat ms)) \<and>
      WithdrawEventsFromApplicationLog L (log_of main_notification ms) = Inr (List.map_filter
        (\<lambda>e. case e of MainWithdraw u a t \<Rightarrow> Some \<lparr>we_User = u, we_Amount = a, we_TxHash = t\<rparr> | _ \<Rightarrow> None) (concat ms)) \<and>
      ChequeEventsFromApplicationLog L (log_of main_notification ms) = Inr (List.map_filter
        (\<lambda>e. case e of MainCheque i u a l \<Rightarrow> Some \<lparr>ch_Id = i, ch_User = u, ch_Amount = a, ch_LockAccount = l\<rparr> | _ \<Rightarrow> None) (concat ms)) \<and>
      AlphabetUpdateEventsFromApplicationLog L (log_of main_notification ms) = Inr (List.map_filter
        (\<lambda>e. case e of MainAlphabetUpdate i bs \<Rightarrow> Some \<lparr>au_Id = i, au_Alphabet = Some (map (\<lambda>b. projr (public_key L b)) bs)\<rparr> | _ \<Rightarrow> None) (concat ms)) \<and>
      SetConfigEventsFromApplicationLog L (log_of main_notification ms) = Inr (List.map_filter
        (\<lambda>e. case e of MainSetConfig i k v \<Rightarrow> Some \<lparr>sc_Id = i, sc_Key = k, sc_Value = v\<rparr> | _ \<Rightarrow> None) (concat ms))) \<and>
    (RenewEventsFromApplicationLog L (log_of nns_notification rs) = Inr (List.map_filter
        (\<lambda>e. case e of NnsRenew n a b \<Rightarrow> Some \<lparr>re_Name = n, re_OldExpiration = a, re_NewExpiration = b\<rparr> | _ \<Rightarrow> None) (concat rs)) \<and>
      ((\<forall>e \<in> set (concat rs). set_admin_readable e) \<longrightarrow> SetAdminEventsFromApplicationLog L (log_of nns_notification rs) = Inr (List.map_filter
        (\<lambda>e. case e of NnsSetAdmin n (Some a) (Some b) \<Rightarrow> Some \<lparr>sa_Name = n, sa_OldAdmin = a, sa_NewAdmin = b\<rparr> | _ \<Rightarrow> None) (concat rs))))"
  by (intro conjI impI container_log_read [OF assms(1,2)] balance_log_read [OF assms(1,3)] netmap_log_read [OF assms(1,4)]
      main_log_read [OF assms(1,5)] nns_log_read [OF assms(1,6)] transferX_log_read [OF assms(1)] add_node_log_read [OF assms(1)]
      set_admin_log_read [OF assms(1)] add_peer_log_read; assumption)

text \<open>What the client shows of a result of the contract.\<close>

definition shown :: "(error \<Rightarrow> string) \<Rightarrow> ('a \<Rightarrow> 'b) \<Rightarrow> 'a res \<Rightarrow> 'b option go" where
  "shown fault view r = (case r of Inl e \<Rightarrow> Inl (Err (fault e)) | Inr x \<Rightarrow> Inr (Some (view x)))"

lemma answer_shown:
  assumes "\<And>x. r = Inr x \<Longrightarrow> item_to f (Inr (out x)) = Inr (Some (view x))"
  shows "item_to f (answer fault out r) = shown fault view r"
  using assms by (cases r) (simp_all add: item_to_answer shown_def)

text \<open>C9: the wrapper shows the contract. Called on a node in any state of the Container contract, each of the
  eight methods of the client that return a structure returns the contract's value, field by field: the containers
  with their revisions, the summaries of their reports, the quotas, and the reports and billing records of nodes.
  The five methods about a container or a user err exactly when the contract's method faults or throws. The three
  about a node err then, and also when the node never reported: the contract answers zero values, which the client
  cannot read because they have no key and no account. What is stored must be readable: the owner and the account of
  a billing record have 20 bytes, attributes are UTF-8, and the key in a report is one the client knows.\<close>

theorem client_shows_contract:
  assumes "client_ok L" and "\<And>c. GetInfo i d = Inr c \<Longrightarrow> info_readable c"
    and "\<And>r. GetReportByNode E i (key_bytes L k) d = Inr r \<Longrightarrow> r = emptyReport \<or> nr_PublicKey r = key_bytes L k \<and> key_bytes L k \<noteq> []"
    and "\<And>r. GetReportByAccount i acc d = Inr r \<Longrightarrow> r = emptyReport \<or> nr_PublicKey r = key_bytes L k' \<and> key_bytes L k' \<noteq> []"
    and "\<And>b. GetBillingStatByNode E i (key_bytes L k) d = Inr b \<Longrightarrow> b = emptyBilling \<or> length (bs_Account b) = Hash160Len"
  shows "(client_GetInfo L (container_rpc L fault E d) i = shown fault client_info (GetInfo i d) \<and>
      client_GetRevisionedInfo L (container_rpc L fault E d) i = shown fault
        (\<lambda>r. \<lparr>cr_Info = Some (client_info (info.truncate r)), cr_Revision = ci_Revision r\<rparr>) (GetRevisionedInfo i d) \<and>
      client_GetNodeReportSummary L (container_rpc L fault E d) i = shown fault client_summary (GetNodeReportSummary i d) \<and>
      client_ContainerQuota L (container_rpc L fault E d) i = shown fault client_quota (ContainerQuota i d) \<and>
      client_UserQuota L (container_rpc L fault E d) user = shown fault client_quota (UserQuota user d)) \<and>
    (\<exists>e. client_GetReportByNode L (container_rpc L fault E d) i k =
      (if GetReportByNode E i (key_bytes L k) d = Inr emptyReport then Inl e
       else shown fault (client_report k) (GetReportByNode E i (key_bytes L k) d))) \<and>
    (\<exists>e. client_GetReportByAccount L (container_rpc L fault E d) i acc =
      (if GetReportByAccount i acc d = Inr emptyReport then Inl e
       else shown fault (client_report k') (GetReportByAccount i acc d))) \<and>
    (\<exists>e. client_GetBillingStatByNode L (container_rpc L fault E d) i k =
      (if GetBillingStatByNode E i (key_bytes L k) d = Inr emptyBilling then Inl e
       else shown fault client_billing (GetBillingStatByNode E i (key_bytes L k) d)))"
proof -
  have rev: "info_readable (info.truncate r)" if "GetRevisionedInfo i d = Inr r" for r
    using assms(2) that by (simp add: GetInfo_def)
  note defs = client_GetInfo_def client_GetRevisionedInfo_def client_GetNodeReportSummary_def client_ContainerQuota_def
    client_UserQuota_def container_rpc_def itemToContainerInfo_def itemToContainerInfoWithRevision_def
    itemToContainerNodeReportSummary_def itemToContainerQuota_def
  note reads = info_read [OF assms(1) assms(2)] info_rev_read [OF assms(1) rev] summary_read [OF assms(1)] quota_read [OF assms(1)]
  have report: "\<exists>e. itemToContainerNodeReport L (answer fault report_item r) =
      (if r = Inr emptyReport then Inl e else shown fault (client_report j) r)"
    if stored: "\<And>x. r = Inr x \<Longrightarrow> x = emptyReport \<or> nr_PublicKey x = key_bytes L j \<and> key_bytes L j \<noteq> []" for r j
  proof (cases "r = Inr emptyReport")
    case True
    then show ?thesis using zero_report_unreadable [OF assms(1)] by (simp add: answer_def)
  next
    case False
    have "itemToContainerNodeReport L (Inr (report_item x)) = Inr (Some (client_report j x))" if "r = Inr x" for x
      using stored [OF that] that False client_okD(7) [OF assms(1)] by (intro report_read [OF assms(1)]) auto
    then show ?thesis using False by (simp add: itemToContainerNodeReport_def answer_shown)
  qed
  have billing: "\<exists>e. itemToContainerEpochBillingStat L (answer fault billing_item r) =
      (if r = Inr emptyBilling then Inl e else shown fault client_billing r)"
    if stored: "\<And>x. r = Inr x \<Longrightarrow> x = emptyBilling \<or> length (bs_Account x) = Hash160Len" for r
  proof (cases "r = Inr emptyBilling")
    case True
    then show ?thesis using zero_billing_unreadable [OF assms(1)] by (simp add: answer_def)
  next
    case False
    have "itemToContainerEpochBillingStat L (Inr (billing_item x)) = Inr (Some (client_billing x))" if "r = Inr x" for x
      using stored [OF that] that False by (intro billing_read [OF assms(1)]) auto
    then show ?thesis using False by (simp add: itemToContainerEpochBillingStat_def answer_shown)
  qed
  show ?thesis
    by (intro conjI) (use report [OF assms(3)] report [OF assms(4)] billing [OF assms(5)] in
      \<open>simp_all add: defs client_GetReportByNode_def client_GetReportByAccount_def client_GetBillingStatByNode_def answer_shown
        reads [unfolded itemToContainerInfo_def itemToContainerInfoWithRevision_def itemToContainerNodeReportSummary_def
          itemToContainerQuota_def]\<close>)
qed

text \<open>A node that never reported. For a container that exists the contract answers with zero values, as its
  documentation says; the key and the account are missing in them, so each of the three methods of the client
  returns an error, as it does for a container that does not exist.\<close>

theorem client_needs_a_report:
  assumes "client_ok L" and "LocalGet (infoKey i) d \<noteq> None"
    and "LocalGet (reportsPrefix (i @ rt_std_account E (key_bytes L k))) d = None"
    and "LocalGet (billingPrefix (i @ rt_std_account E (key_bytes L k))) d = None"
    and "rt_is_key E (key_bytes L k)" and "length (rt_std_account E (key_bytes L k)) = Hash160Len"
  shows "(GetReportByNode E i (key_bytes L k) d = Inr emptyReport \<and>
      (\<exists>e. client_GetReportByNode L (container_rpc L fault E d) i k = Inl e)) \<and>
    (GetReportByAccount i (rt_std_account E (key_bytes L k)) d = Inr emptyReport \<and>
      (\<exists>e. client_GetReportByAccount L (container_rpc L fault E d) i (rt_std_account E (key_bytes L k)) = Inl e)) \<and>
    (GetBillingStatByNode E i (key_bytes L k) d = Inr emptyBilling \<and>
      (\<exists>e. client_GetBillingStatByNode L (container_rpc L fault E d) i k = Inl e))"
proof -
  have "GetReportByNode E i (key_bytes L k) d = Inr emptyReport" "GetReportByAccount i (rt_std_account E (key_bytes L k)) d = Inr emptyReport"
    "GetBillingStatByNode E i (key_bytes L k) d = Inr emptyBilling"
    using assms(2-6) by (simp_all add: GetReportByNode_def GetReportByAccount_def GetBillingStatByNode_def getReportByKey_def
        exists_or_NotFound_def read_or_def check_def)
  then show ?thesis
    using zero_report_unreadable [OF assms(1)] zero_billing_unreadable [OF assms(1)]
    by (simp add: client_GetReportByNode_def client_GetReportByAccount_def client_GetBillingStatByNode_def container_rpc_def answer_def)
qed

text \<open>C37: a container created through the client is read back. The parameter made of the structure arrives at the
  contract as the container it describes; when the contract creates it, for an owner that is no contract, the
  client reads under the identifier exactly the structure it sent.\<close>

theorem created_container_is_read_back:
  assumes "client_ok L" and "sendable c"
    and "CreateV2 E S cnr (d, x) = Inr (i, w')" and "contract_ok d" and "\<not> rt_is_contract E (cc_Owner c)"
    and "\<And>p. ContainerInfo_ToSCParameter L (Some c) = Inr p \<Longrightarrow> item_info (arrives L p) = Some cnr"
  shows "client_GetInfo L (container_rpc L fault E' (fst w')) i = Inr (Some c)"
proof -
  from sent_container [OF assms(1,2)] obtain p cnr' where p: "ContainerInfo_ToSCParameter L (Some c) = Inr p"
    and cnr': "item_info (arrives L p) = Some cnr'" "client_info cnr' = c" "info_readable cnr'" "ci_Owner cnr' = cc_Owner c" .
  from assms(6) [OF p] cnr'(1) have cnr: "cnr' = cnr" by simp
  have "GetInfo i (fst w') = Inr cnr"
    by (rule created_info [OF assms(3,4)]) (use assms(5) cnr' cnr in simp)
  then show ?thesis using info_read [OF assms(1)] cnr'(2,3) cnr
    by (simp add: client_GetInfo_def container_rpc_def answer_def)
qed

text \<open>C40: the tokens of a deposit stay hidden. Minting and burning throw a \<open>TransferX\<close> without a sender or a
  receiver; the wrapper takes both for hashes, so it reads no \<open>TransferX\<close> at all of an application log with
  such a transaction, whatever other transfers the log has.\<close>

theorem minted_transfers_unreadable:
  assumes "client_ok L" and "balance_Mint E to amount details b = Inr b' \<or> balance_Burn E to amount details b = Inr b'"
    and "notifications b' \<in> set exs"
  shows "\<exists>e. TransferXEventsFromApplicationLog L (log_of bal_notification exs) = Inl e"
proof -
  have "\<exists>frm rcv n msg. BalTransferX frm rcv n msg \<in> set (notifications b') \<and> (frm = [] \<or> rcv = [])"
    using assms(2)
  proof
    assume "balance_Mint E to amount details b = Inr b'"
    then obtain c1 s where "transfer E [] to amount True (MintTransferDetails details) b = Inr (True, c1)"
      "b' = put_int circulation s c1" by (auto simp: balance_Mint_def split: if_splits)
    then have "BalTransferX [] to amount (MintTransferDetails details) \<in> set (notifications b')"
      by (auto simp: transfer_def put_int_def split: if_splits)
    then show ?thesis by blast
  next
    assume "balance_Burn E to amount details b = Inr b'"
    then obtain c1 s where "transfer E to [] amount True (BurnTransferDetails details) b = Inr (True, c1)"
      "b' = put_int circulation s c1" by (auto simp: balance_Burn_def split: if_splits)
    then have "BalTransferX to [] amount (BurnTransferDetails details) \<in> set (notifications b')"
      by (auto simp: transfer_def put_int_def split: if_splits)
    then show ?thesis by blast
  qed
  then obtain frm rcv n msg where e: "BalTransferX frm rcv n msg \<in> set (notifications b')" "frm = [] \<or> rcv = []" by blast
  from e(1) assms(3) have "BalTransferX frm rcv n msg \<in> set (concat exs)" by auto
  from transfer_unreadable [OF assms(1) this e(2)] show ?thesis .
qed

section \<open>Witnesses\<close>

theorem client_structures_read_back_witness:
  "reads_back sample_client (itemToContainerInfoWithRevision sample_client) ContainerInfoWithRevision_ToStackItem
      (ContainerInfoWithRevision_ToSCParameter sample_client) (Some \<lparr>cr_Info = Some sample_container, cr_Revision = 4\<rparr>) \<and>
    reads_back sample_client (itemToNetmapCandidate sample_client) (NetmapCandidate_ToStackItem sample_client)
      (NetmapCandidate_ToSCParameter sample_client) (Some sample_candidate)"
proof -
  have r: "container_valid c" if "Some \<lparr>cr_Info = Some sample_container, cr_Revision = 4\<rparr> = Some r" "cr_Info r = Some c" for r c
    using that sample_structures_valid(1) by auto
  have n: "node_data_valid (nc_Addresses c) (nc_Attributes c)" if "Some sample_candidate = Some c" for c
    using that sample_structures_valid(3) by auto
  from client_structures_read_back [where stat = None and node = None and ballot = None
      and cnr = "Some \<lparr>cr_Info = Some sample_container, cr_Revision = 4\<rparr>" and cand = "Some sample_candidate", OF sample_client_ok r _ n] show ?thesis by simp
qed

theorem client_reads_notifications_witness:
  "NodesUpdateEventsFromApplicationLog sample_client (log_of cnt_notification [[CntNodesUpdate cidX, CntEACLChanged cidY], [CntNodesUpdate cidY]]) =
      Inr [\<lparr>nu_ContainerID = cidX\<rparr>, \<lparr>nu_ContainerID = cidY\<rparr>] \<and>
    TransferXEventsFromApplicationLog sample_client (log_of bal_notification [[BalTransferX addrA addrB 5 ''fee'']]) =
      Inr [\<lparr>tx_From = addrA, tx_To = addrB, tx_Amount = 5, tx_Details = ''fee''\<rparr>] \<and>
    NewEpochEventsFromApplicationLog sample_client (log_of nm_notification [[NmNewNetmap 3, NmNewEpoch 8]]) = Inr [\<lparr>ne_Epoch = 8\<rparr>] \<and>
    RenewEventsFromApplicationLog sample_client (log_of nns_notification [[NnsRenew ''a.fs'' 1 2]]) =
      Inr [\<lparr>re_Name = ''a.fs'', re_OldExpiration = 1, re_NewExpiration = 2\<rparr>]"
proof -
  have utf: "utf8_valid ''a.fs''" by code_simp
  show ?thesis
    using client_reads_notifications [of sample_client "[[CntNodesUpdate cidX, CntEACLChanged cidY], [CntNodesUpdate cidY]]"
        "[[BalTransferX addrA addrB 5 ''fee'']]" "[[NmNewNetmap 3, NmNewEpoch 8]]" "[[MainSetConfig [] [] []]]"
        "[[NnsRenew ''a.fs'' 1 2]]", OF sample_client_ok]
    by (simp add: List.map_filter_def transferX_readable_def utf)
qed

theorem client_shows_contract_witness:
  "\<exists>d. sample_life = Inr d \<and>
     client_GetNodeReportSummary sample_client (container_rpc sample_client (\<lambda>_. ''fault'') sample_env d) id_a =
       Inr (Some \<lparr>cs_ContainerSize = 150, cs_NumberOfObjects = 7\<rparr>) \<and>
     (\<exists>e. client_GetReportByNode sample_client (container_rpc sample_client (\<lambda>_. ''fault'') sample_env d) id_a keyC = Inl e) \<and>
     client_GetInfo sample_client (container_rpc sample_client (\<lambda>_. ''fault'') sample_env d) cidX = Inl (Err ''fault'')"
proof -
  have keys [simp]: "key_bytes sample_client k = k" for k by (simp add: sample_client_def)
  obtain d where d: "sample_life = Inr d" "GetNodeReportSummary id_a d = Inr \<lparr>rs_ContainerSize = 150, rs_NumberOfObjects = 7\<rparr>"
    using sample_life_summary by blast
  have "case sample_life of Inl e \<Rightarrow> False | Inr d \<Rightarrow> GetInfo cidX d = Inl (Panic NotFoundError) \<and>
      (case GetReportByNode sample_env cidX keyA d of Inl _ \<Rightarrow> True | Inr r \<Rightarrow> False) \<and>
      (case GetReportByAccount cidX [] d of Inl _ \<Rightarrow> True | Inr r \<Rightarrow> False) \<and>
      (case GetBillingStatByNode sample_env cidX keyA d of Inl _ \<Rightarrow> True | Inr r \<Rightarrow> False)" by code_simp
  then have missing: "GetInfo cidX d = Inl (Panic NotFoundError)" "\<And>r. GetReportByNode sample_env cidX keyA d \<noteq> Inr r"
    "\<And>r. GetReportByAccount cidX [] d \<noteq> Inr r" "\<And>b. GetBillingStatByNode sample_env cidX keyA d \<noteq> Inr b"
    by (auto simp: d(1) split: sum.splits)
  let ?acc = "rt_std_account sample_env keyA"
  have "case sample_life of Inl e \<Rightarrow> False | Inr d \<Rightarrow> GetInfo id_a d = Inr cnr_a \<and>
      GetReportByNode sample_env id_a keyC d = Inr emptyReport \<and> GetBillingStatByNode sample_env id_a keyC d = Inr emptyBilling \<and>
      (case GetReportByAccount id_a ?acc d of Inl _ \<Rightarrow> False | Inr r \<Rightarrow> nr_PublicKey r = keyA)" by code_simp
  then have found: "GetInfo id_a d = Inr cnr_a" "GetReportByNode sample_env id_a keyC d = Inr emptyReport"
    "GetBillingStatByNode sample_env id_a keyC d = Inr emptyBilling"
    "\<And>r. GetReportByAccount id_a ?acc d = Inr r \<Longrightarrow> nr_PublicKey r = keyA"
    by (auto simp: d(1) split: sum.splits)
  let ?rpc = "container_rpc sample_client (\<lambda>_. ''fault'') sample_env d"
  have key: "keyA \<noteq> []" by (simp add: keyA_def)
  have "client_GetInfo sample_client ?rpc cidX = shown (\<lambda>_. ''fault'') client_info (GetInfo cidX d)"
    by (rule client_shows_contract [where k = keyA and k' = keyA and acc = "[]", THEN conjunct1, THEN conjunct1, OF sample_client_ok])
      (simp_all add: missing)
  moreover have "client_GetNodeReportSummary sample_client ?rpc id_a = shown (\<lambda>_. ''fault'') client_summary (GetNodeReportSummary id_a d)"
    "\<exists>e. client_GetReportByNode sample_client ?rpc id_a keyC = Inl e"
    using client_shows_contract [where k = keyC and k' = keyA and acc = ?acc and i = id_a and d = d and E = sample_env
        and fault = "\<lambda>_. ''fault''", OF sample_client_ok] found sample_structures_valid(4) key by auto
  ultimately show ?thesis using d missing(1) by (intro exI [of _ d]) (simp add: shown_def client_summary_def)
qed

theorem client_needs_a_report_witness:
  "\<exists>e. client_GetReportByNode sample_client (container_rpc sample_client (\<lambda>_. ''fault'') sample_env cnt1) id_a keyA = Inl e"
proof -
  have "LocalGet (infoKey id_a) cnt1 \<noteq> None" by (simp add: cnt1_def store_container_def notifyNEP11Transfer_def)
  moreover have "LocalGet (reportsPrefix (id_a @ rt_std_account sample_env keyA)) cnt1 = None"
    "LocalGet (billingPrefix (id_a @ rt_std_account sample_env keyA)) cnt1 = None"
    "rt_is_key sample_env keyA" "length (rt_std_account sample_env keyA) = Hash160Len" by code_simp+
  ultimately show ?thesis
    using client_needs_a_report [OF sample_client_ok, of id_a cnt1 sample_env keyA "\<lambda>_. ''fault''"] by (simp add: sample_client_def)
qed

theorem created_container_is_read_back_witness:
  "\<exists>w'. CreateV2 sample_env sample_services cnr_a (cnt0, ()) = Inr (id_a, w') \<and>
     client_GetInfo sample_client (container_rpc sample_client (\<lambda>_. ''fault'') sample_env (fst w')) id_a = Inr (Some sample_container)"
proof -
  have "case CreateV2 sample_env sample_services cnr_a (cnt0, ()) of Inl e \<Rightarrow> False | Inr (i, w) \<Rightarrow> i = id_a" by code_simp
  then obtain w' where w': "CreateV2 sample_env sample_services cnr_a (cnt0, ()) = Inr (id_a, w')" by (auto split: sum.splits)
  have "contract_ok cnt0" by (simp add: cnt0_def)
  moreover have "case ContainerInfo_ToSCParameter sample_client (Some sample_container) of Inl e \<Rightarrow> False
    | Inr p \<Rightarrow> item_info (arrives sample_client p) = Some cnr_a" unfolding sample_container_fields by code_simp
  then have "\<And>p. ContainerInfo_ToSCParameter sample_client (Some sample_container) = Inr p \<Longrightarrow> item_info (arrives sample_client p) = Some cnr_a"
    by (auto split: sum.splits)
  ultimately show ?thesis
    using created_container_is_read_back [OF sample_client_ok sample_structures_valid(2) w'] w' by simp
qed

theorem minted_transfers_unreadable_witness:
  "\<exists>e. TransferXEventsFromApplicationLog sample_client
     (log_of bal_notification [[BalTransferX addrA addrB 3 ''fee''], notifications minted]) = Inl e"
  by (rule minted_transfers_unreadable [OF sample_client_ok disjI1 [OF minted_eq]]) simp

end
