(* ===== verification/Wrapper_Base.thy ===== *)
theory Wrapper_Base
  imports Stack_Item
begin

text \<open>
  The two sides of every client wrapper: a \<open>ContractReader\<close> hands the arguments of a method to an invoker and
  unwraps what the call leaves on the stack; a \<open>Contract\<close> hands them to an actor, which makes a transaction of
  them. Both belong to the client library and are parameters: the record \<open>invoker\<close> with the functions of the
  package \<open>unwrap\<close>, and the record \<open>actor\<close>. The wrappers of the contracts are in the theories that follow, one
  definition per method; the three methods \<open>X\<close>, \<open>XTransaction\<close> and \<open>XUnsigned\<close> of a writer are one definition
  with a \<open>way\<close>.
\<close>

section \<open>Arguments\<close>

text \<open>
  The values a wrapper passes on: a single value, a list of keys, lists of lists of signatures, a structure. The
  library converts a structure by its \<open>ToSCParameter\<close>, so it is the result of that method.
\<close>

datatype 'k arg = Val "'k go_value" | Keys "'k list" | Sigs "bytes list list" | Convertible "'k param go"

section \<open>Readers\<close>

record ('k, 'r, 'i) invoker =
  i_Call :: "bytes \<Rightarrow> string \<Rightarrow> 'k arg list \<Rightarrow> 'r"                       \<comment> \<open>Invoker.Call\<close>
  i_CallAndExpandIterator :: "bytes \<Rightarrow> string \<Rightarrow> int \<Rightarrow> 'k arg list \<Rightarrow> 'r"
  i_Item :: "'r \<Rightarrow> item go"                                                  \<comment> \<open>unwrap.Item\<close>
  i_BigInt :: "'r \<Rightarrow> int go"
  i_Bool :: "'r \<Rightarrow> bool go"
  i_Bytes :: "'r \<Rightarrow> bytes go"
  i_UTF8String :: "'r \<Rightarrow> string go"
  i_Uint160 :: "'r \<Rightarrow> bytes go"
  i_ArrayOfUTF8Strings :: "'r \<Rightarrow> string list go"
  i_ArrayOfBytes :: "'r \<Rightarrow> bytes list go"
  i_Array :: "'r \<Rightarrow> item list go"
  i_SessionIterator :: "'r \<Rightarrow> 'i go"

record ('k, 'r, 'i) ContractReader =
  r_invoker :: "('k, 'r, 'i) invoker"
  r_hash :: bytes

definition NewReader :: "('k, 'r, 'i) invoker \<Rightarrow> bytes \<Rightarrow> ('k, 'r, 'i) ContractReader" where
  "NewReader I h = \<lparr>r_invoker = I, r_hash = h\<rparr>"

definition inv_call :: "('k, 'r, 'i) ContractReader \<Rightarrow> string \<Rightarrow> 'k arg list \<Rightarrow> 'r" where
  "inv_call R method args = i_Call (r_invoker R) (r_hash R) method args"

definition inv_expand :: "('k, 'r, 'i) ContractReader \<Rightarrow> string \<Rightarrow> int \<Rightarrow> 'k arg list \<Rightarrow> 'r" where
  "inv_expand R method n args = i_CallAndExpandIterator (r_invoker R) (r_hash R) method n args"

text \<open>\<open>unwrap.F(...)\<close>.\<close>

abbreviation unwrap :: "('k, 'r, 'i) ContractReader \<Rightarrow> (('k, 'r, 'i) invoker \<Rightarrow> 'r \<Rightarrow> 'a go) \<Rightarrow> 'r \<Rightarrow> 'a go" where
  "unwrap R F \<equiv> F (r_invoker R)"

section \<open>Writers\<close>

text \<open>
  \<open>'t\<close> are transactions, \<open>'s\<close> scripts. No attributes are given to an unsigned transaction. A method of the contract
  that returns whether it succeeded is called by a script that asserts it.
\<close>

record ('k, 't, 's) actor =
  a_SendCall :: "bytes \<Rightarrow> string \<Rightarrow> 'k arg list \<Rightarrow> (bytes \<times> nat) go"
  a_MakeCall :: "bytes \<Rightarrow> string \<Rightarrow> 'k arg list \<Rightarrow> 't go"
  a_MakeUnsignedCall :: "bytes \<Rightarrow> string \<Rightarrow> 'k arg list \<Rightarrow> 't go"
  a_CreateCallWithAssertScript :: "bytes \<Rightarrow> string \<Rightarrow> 'k arg list \<Rightarrow> 's go"
  a_SendRun :: "'s \<Rightarrow> (bytes \<times> nat) go"
  a_MakeRun :: "'s \<Rightarrow> 't go"
  a_MakeUnsignedRun :: "'s \<Rightarrow> 't go"

record ('k, 't, 's) Contract =
  c_actor :: "('k, 't, 's) actor"
  c_hash :: bytes

definition New :: "('k, 't, 's) actor \<Rightarrow> bytes \<Rightarrow> ('k, 't, 's) Contract" where
  "New A h = \<lparr>c_actor = A, c_hash = h\<rparr>"

datatype way = Send | Make | MakeUnsigned

text \<open>The hash of the transaction sent with the block until which it is valid, or a transaction.\<close>

datatype 't submitted = Sent bytes nat | Made 't

definition sent :: "(bytes \<times> nat) go \<Rightarrow> 't submitted go" where
  "sent r = andThen r (\<lambda>(h, vub). Inr (Sent h vub))"

definition made :: "'t go \<Rightarrow> 't submitted go" where
  "made r = andThen r (\<lambda>t. Inr (Made t))"

definition by_call :: "('k, 't, 's) Contract \<Rightarrow> way \<Rightarrow> string \<Rightarrow> 'k arg list \<Rightarrow> 't submitted go" where
  "by_call c w method args = (case w of
     Send \<Rightarrow> sent (a_SendCall (c_actor c) (c_hash c) method args)
   | Make \<Rightarrow> made (a_MakeCall (c_actor c) (c_hash c) method args)
   | MakeUnsigned \<Rightarrow> made (a_MakeUnsignedCall (c_actor c) (c_hash c) method args))"

definition by_script :: "('k, 't, 's) Contract \<Rightarrow> way \<Rightarrow> string \<Rightarrow> 'k arg list \<Rightarrow> 't submitted go" where
  "by_script c w method args = andThen (a_CreateCallWithAssertScript (c_actor c) (c_hash c) method args) (\<lambda>script. case w of
     Send \<Rightarrow> sent (a_SendRun (c_actor c) script)
   | Make \<Rightarrow> made (a_MakeRun (c_actor c) script)
   | MakeUnsigned \<Rightarrow> made (a_MakeUnsignedRun (c_actor c) script))"

end
