(* ===== verification/Wrapper_Container.thy ===== *)
theory Wrapper_Container
  imports Wrapper_Base Rpc_Container
begin

text \<open>
  The methods of the client wrapper of the Container contract (\<open>rpc/container/rpcbinding.go\<close>) that do not return
  structures; the others are in \<open>Rpc_Readers\<close>.
\<close>

section \<open>Readers\<close>

definition rpc_container_Alias :: "('k, 'r, 'i) ContractReader \<Rightarrow> bytes \<Rightarrow> string go" where
  "rpc_container_Alias R cid = unwrap R i_UTF8String (inv_call R ''alias'' [Val (VBytes cid)])"

definition rpc_container_ContainersOf :: "('k, 'r, 'i) ContractReader \<Rightarrow> bytes \<Rightarrow> 'i go" where
  "rpc_container_ContainersOf R owner = unwrap R i_SessionIterator (inv_call R ''containersOf'' [Val (VBytes owner)])"

definition rpc_container_ContainersOfExpanded ::
  "('k, 'r, 'i) ContractReader \<Rightarrow> bytes \<Rightarrow> int \<Rightarrow> item list go" where
  "rpc_container_ContainersOfExpanded R owner numOfIteratorItems =
     unwrap R i_Array (inv_expand R ''containersOf'' numOfIteratorItems [Val (VBytes owner)])"

definition rpc_container_Count :: "('k, 'r, 'i) ContractReader \<Rightarrow> int go" where
  "rpc_container_Count R = unwrap R i_BigInt (inv_call R ''count'' [])"

definition rpc_container_GetEACLData :: "('k, 'r, 'i) ContractReader \<Rightarrow> bytes \<Rightarrow> bytes go" where
  "rpc_container_GetEACLData R i = unwrap R i_Bytes (inv_call R ''getEACLData'' [Val (VBytes i)])"

definition rpc_container_GetTakenSpaceByUser :: "('k, 'r, 'i) ContractReader \<Rightarrow> bytes \<Rightarrow> int go" where
  "rpc_container_GetTakenSpaceByUser R user = unwrap R i_BigInt (inv_call R ''getTakenSpaceByUser'' [Val (VBytes user)])"

definition rpc_container_IterateAllReportSummaries :: "('k, 'r, 'i) ContractReader \<Rightarrow> 'i go" where
  "rpc_container_IterateAllReportSummaries R = unwrap R i_SessionIterator (inv_call R ''iterateAllReportSummaries'' [])"

definition rpc_container_IterateAllReportSummariesExpanded ::
  "('k, 'r, 'i) ContractReader \<Rightarrow> int \<Rightarrow> item list go" where
  "rpc_container_IterateAllReportSummariesExpanded R numOfIteratorItems =
     unwrap R i_Array (inv_expand R ''iterateAllReportSummaries'' numOfIteratorItems [])"

definition rpc_container_IterateBillingStats :: "('k, 'r, 'i) ContractReader \<Rightarrow> bytes \<Rightarrow> 'i go" where
  "rpc_container_IterateBillingStats R cid = unwrap R i_SessionIterator (inv_call R ''iterateBillingStats'' [Val (VUint256 cid)])"

definition rpc_container_IterateBillingStatsExpanded ::
  "('k, 'r, 'i) ContractReader \<Rightarrow> bytes \<Rightarrow> int \<Rightarrow> item list go" where
  "rpc_container_IterateBillingStatsExpanded R cid numOfIteratorItems =
     unwrap R i_Array (inv_expand R ''iterateBillingStats'' numOfIteratorItems [Val (VUint256 cid)])"

definition rpc_container_IterateReports :: "('k, 'r, 'i) ContractReader \<Rightarrow> bytes \<Rightarrow> 'i go" where
  "rpc_container_IterateReports R cid = unwrap R i_SessionIterator (inv_call R ''iterateReports'' [Val (VUint256 cid)])"

definition rpc_container_IterateReportsExpanded ::
  "('k, 'r, 'i) ContractReader \<Rightarrow> bytes \<Rightarrow> int \<Rightarrow> item list go" where
  "rpc_container_IterateReportsExpanded R cid numOfIteratorItems =
     unwrap R i_Array (inv_expand R ''iterateReports'' numOfIteratorItems [Val (VUint256 cid)])"

definition rpc_container_Nodes :: "('k, 'r, 'i) ContractReader \<Rightarrow> bytes \<Rightarrow> int \<Rightarrow> 'i go" where
  "rpc_container_Nodes R cID placementVector =
     unwrap R i_SessionIterator (inv_call R ''nodes'' [Val (VUint256 cID), Val (VInt placementVector)])"

definition rpc_container_NodesExpanded ::
  "('k, 'r, 'i) ContractReader \<Rightarrow> bytes \<Rightarrow> int \<Rightarrow> int \<Rightarrow> item list go" where
  "rpc_container_NodesExpanded R cID placementVector numOfIteratorItems =
     unwrap R i_Array (inv_expand R ''nodes'' numOfIteratorItems [Val (VUint256 cID), Val (VInt placementVector)])"

definition rpc_container_Owner :: "('k, 'r, 'i) ContractReader \<Rightarrow> bytes \<Rightarrow> bytes go" where
  "rpc_container_Owner R containerID = unwrap R i_Bytes (inv_call R ''owner'' [Val (VBytes containerID)])"

definition rpc_container_ReplicasNumbers :: "('k, 'r, 'i) ContractReader \<Rightarrow> bytes \<Rightarrow> 'i go" where
  "rpc_container_ReplicasNumbers R cID = unwrap R i_SessionIterator (inv_call R ''replicasNumbers'' [Val (VUint256 cID)])"

definition rpc_container_ReplicasNumbersExpanded ::
  "('k, 'r, 'i) ContractReader \<Rightarrow> bytes \<Rightarrow> int \<Rightarrow> item list go" where
  "rpc_container_ReplicasNumbersExpanded R cID numOfIteratorItems =
     unwrap R i_Array (inv_expand R ''replicasNumbers'' numOfIteratorItems [Val (VUint256 cID)])"

definition rpc_container_VerifyPlacementSignatures ::
  "('k, 'r, 'i) ContractReader \<Rightarrow> bytes \<Rightarrow> bytes \<Rightarrow> bytes list list \<Rightarrow> bool go" where
  "rpc_container_VerifyPlacementSignatures R cid msg sigs =
     unwrap R i_Bool (inv_call R ''verifyPlacementSignatures'' [Val (VUint256 cid), Val (VBytes msg), Sigs sigs])"

definition rpc_container_Version :: "('k, 'r, 'i) ContractReader \<Rightarrow> int go" where
  "rpc_container_Version R = unwrap R i_BigInt (inv_call R ''version'' [])"

section \<open>Writers\<close>

definition rpc_container_AddNextEpochNodes ::
  "('k, 't, 's) Contract \<Rightarrow> way \<Rightarrow> bytes \<Rightarrow> int \<Rightarrow> 'k list \<Rightarrow> 't submitted go" where
  "rpc_container_AddNextEpochNodes c w cID placementVector publicKeys =
     by_call c w ''addNextEpochNodes'' [Val (VUint256 cID), Val (VInt placementVector), Keys publicKeys]"

definition rpc_container_CommitContainerListUpdate ::
  "('k, 't, 's) Contract \<Rightarrow> way \<Rightarrow> bytes \<Rightarrow> bytes \<Rightarrow> 't submitted go" where
  "rpc_container_CommitContainerListUpdate c w cID replicas =
     by_call c w ''commitContainerListUpdate'' [Val (VUint256 cID), Val (VBytes replicas)]"

definition rpc_container_CreateV2 ::
  "'k client \<Rightarrow> ('k, 't, 's) Contract \<Rightarrow> way \<Rightarrow> ContainerInfo option \<Rightarrow> bytes \<Rightarrow> bytes \<Rightarrow> bytes \<Rightarrow> 't submitted go" where
  "rpc_container_CreateV2 L c w cnr invocScript verifScript sessionToken =
     by_call c w ''createV2'' [Convertible (ContainerInfo_ToSCParameter L cnr), Val (VBytes invocScript), Val (VBytes verifScript), Val (VBytes sessionToken)]"

definition rpc_container_CreateV22 ::
  "'k client \<Rightarrow> ('k, 't, 's) Contract \<Rightarrow> way \<Rightarrow> ContainerInfo option \<Rightarrow> bytes \<Rightarrow> 't submitted go" where
  "rpc_container_CreateV22 L c w cnr originalRequest =
     by_call c w ''createV2'' [Convertible (ContainerInfo_ToSCParameter L cnr), Val (VBytes originalRequest)]"

definition rpc_container_PutEACL ::
  "('k, 't, 's) Contract \<Rightarrow> way \<Rightarrow> bytes \<Rightarrow> bytes \<Rightarrow> bytes \<Rightarrow> bytes \<Rightarrow> 't submitted go" where
  "rpc_container_PutEACL c w eACL invocScript verifScript sessionToken =
     by_call c w ''putEACL'' [Val (VBytes eACL), Val (VBytes invocScript), Val (VBytes verifScript), Val (VBytes sessionToken)]"

definition rpc_container_PutEACL2 ::
  "('k, 't, 's) Contract \<Rightarrow> way \<Rightarrow> bytes \<Rightarrow> bytes \<Rightarrow> 't submitted go" where
  "rpc_container_PutEACL2 c w eACL originalRequest = by_call c w ''putEACL'' [Val (VBytes eACL), Val (VBytes originalRequest)]"

definition rpc_container_PutReport ::
  "('k, 't, 's) Contract \<Rightarrow> way \<Rightarrow> bytes \<Rightarrow> int \<Rightarrow> int \<Rightarrow> 'k \<Rightarrow> 't submitted go" where
  "rpc_container_PutReport c w cid sizeBytes objsNumber pubKey =
     by_call c w ''putReport'' [Val (VUint256 cid), Val (VInt sizeBytes), Val (VInt objsNumber), Val (VKey pubKey)]"

definition rpc_container_Remove ::
  "('k, 't, 's) Contract \<Rightarrow> way \<Rightarrow> bytes \<Rightarrow> bytes \<Rightarrow> bytes \<Rightarrow> bytes \<Rightarrow> 't submitted go" where
  "rpc_container_Remove c w i invocScript verifScript sessionToken =
     by_call c w ''remove'' [Val (VBytes i), Val (VBytes invocScript), Val (VBytes verifScript), Val (VBytes sessionToken)]"

definition rpc_container_RemoveAttribute ::
  "('k, 't, 's) Contract \<Rightarrow> way \<Rightarrow> bytes \<Rightarrow> string \<Rightarrow> int \<Rightarrow> bytes \<Rightarrow> bytes \<Rightarrow> bytes \<Rightarrow> 't submitted go" where
  "rpc_container_RemoveAttribute c w cID name' validUntil invocScript verifScript sessionToken =
     by_call c w ''removeAttribute'' [Val (VUint256 cID), Val (VString name'), Val (VInt validUntil), Val (VBytes invocScript), Val (VBytes verifScript), Val (VBytes sessionToken)]"

definition rpc_container_Remove2 ::
  "('k, 't, 's) Contract \<Rightarrow> way \<Rightarrow> bytes \<Rightarrow> bytes \<Rightarrow> 't submitted go" where
  "rpc_container_Remove2 c w i originalRequest = by_call c w ''remove'' [Val (VBytes i), Val (VBytes originalRequest)]"

definition rpc_container_SetAttribute ::
  "('k, 't, 's) Contract \<Rightarrow> way \<Rightarrow> bytes \<Rightarrow> string \<Rightarrow> string \<Rightarrow> int \<Rightarrow> bytes \<Rightarrow> bytes \<Rightarrow> bytes \<Rightarrow> 't submitted go" where
  "rpc_container_SetAttribute c w cID name' value' validUntil invocScript verifScript sessionToken =
     by_call c w ''setAttribute'' [Val (VUint256 cID), Val (VString name'), Val (VString value'), Val (VInt validUntil), Val (VBytes invocScript), Val (VBytes verifScript), Val (VBytes sessionToken)]"

definition rpc_container_SetHardContainerQuota ::
  "('k, 't, 's) Contract \<Rightarrow> way \<Rightarrow> bytes \<Rightarrow> int \<Rightarrow> 't submitted go" where
  "rpc_container_SetHardContainerQuota c w cID sz = by_call c w ''setHardContainerQuota'' [Val (VUint256 cID), Val (VInt sz)]"

definition rpc_container_SetHardUserQuota ::
  "('k, 't, 's) Contract \<Rightarrow> way \<Rightarrow> bytes \<Rightarrow> int \<Rightarrow> 't submitted go" where
  "rpc_container_SetHardUserQuota c w user sz = by_call c w ''setHardUserQuota'' [Val (VBytes user), Val (VInt sz)]"

definition rpc_container_SetSoftContainerQuota ::
  "('k, 't, 's) Contract \<Rightarrow> way \<Rightarrow> bytes \<Rightarrow> int \<Rightarrow> 't submitted go" where
  "rpc_container_SetSoftContainerQuota c w cID sz = by_call c w ''setSoftContainerQuota'' [Val (VUint256 cID), Val (VInt sz)]"

definition rpc_container_SetSoftUserQuota ::
  "('k, 't, 's) Contract \<Rightarrow> way \<Rightarrow> bytes \<Rightarrow> int \<Rightarrow> 't submitted go" where
  "rpc_container_SetSoftUserQuota c w user sz = by_call c w ''setSoftUserQuota'' [Val (VBytes user), Val (VInt sz)]"

end
