(* ===== verification/Wrapper_Netmap.thy ===== *)
theory Wrapper_Netmap
  imports Wrapper_Base Rpc_Netmap
begin

text \<open>
  The methods of the client wrapper of the Netmap contract (\<open>rpc/netmap/rpcbinding.go\<close>).
\<close>

section \<open>Readers\<close>

definition rpc_netmap_CleanupThreshold :: "('k, 'r, 'i) ContractReader \<Rightarrow> int go" where
  "rpc_netmap_CleanupThreshold R = unwrap R i_BigInt (inv_call R ''cleanupThreshold'' [])"

definition rpc_netmap_Config :: "('k, 'r, 'i) ContractReader \<Rightarrow> bytes \<Rightarrow> bytes go" where
  "rpc_netmap_Config R key = unwrap R i_Bytes (inv_call R ''config'' [Val (VBytes key)])"

definition rpc_netmap_Epoch :: "('k, 'r, 'i) ContractReader \<Rightarrow> int go" where
  "rpc_netmap_Epoch R = unwrap R i_BigInt (inv_call R ''epoch'' [])"

definition rpc_netmap_GetEpochBlock :: "('k, 'r, 'i) ContractReader \<Rightarrow> int \<Rightarrow> int go" where
  "rpc_netmap_GetEpochBlock R epoch = unwrap R i_BigInt (inv_call R ''getEpochBlock'' [Val (VInt epoch)])"

definition rpc_netmap_GetEpochBlockByTime :: "('k, 'r, 'i) ContractReader \<Rightarrow> int \<Rightarrow> int go" where
  "rpc_netmap_GetEpochBlockByTime R ts = unwrap R i_BigInt (inv_call R ''getEpochBlockByTime'' [Val (VInt ts)])"

definition rpc_netmap_GetEpochTime :: "('k, 'r, 'i) ContractReader \<Rightarrow> int \<Rightarrow> int go" where
  "rpc_netmap_GetEpochTime R epoch = unwrap R i_BigInt (inv_call R ''getEpochTime'' [Val (VInt epoch)])"

definition rpc_netmap_IsStorageNode :: "('k, 'r, 'i) ContractReader \<Rightarrow> 'k \<Rightarrow> bool go" where
  "rpc_netmap_IsStorageNode R key = unwrap R i_Bool (inv_call R ''isStorageNode'' [Val (VKey key)])"

definition rpc_netmap_IsStorageNode2 :: "('k, 'r, 'i) ContractReader \<Rightarrow> 'k \<Rightarrow> int \<Rightarrow> bool go" where
  "rpc_netmap_IsStorageNode2 R key epoch = unwrap R i_Bool (inv_call R ''isStorageNode'' [Val (VKey key), Val (VInt epoch)])"

definition rpc_netmap_IsStorageNodeStatus ::
  "('k, 'r, 'i) ContractReader \<Rightarrow> 'k \<Rightarrow> int \<Rightarrow> int \<Rightarrow> bool go" where
  "rpc_netmap_IsStorageNodeStatus R key epoch status' =
     unwrap R i_Bool (inv_call R ''isStorageNodeStatus'' [Val (VKey key), Val (VInt epoch), Val (VInt status')])"

definition rpc_netmap_LastEpochTime :: "('k, 'r, 'i) ContractReader \<Rightarrow> int go" where
  "rpc_netmap_LastEpochTime R = unwrap R i_BigInt (inv_call R ''lastEpochTime'' [])"

definition rpc_netmap_ListCandidates :: "('k, 'r, 'i) ContractReader \<Rightarrow> 'i go" where
  "rpc_netmap_ListCandidates R = unwrap R i_SessionIterator (inv_call R ''listCandidates'' [])"

definition rpc_netmap_ListCandidatesExpanded :: "('k, 'r, 'i) ContractReader \<Rightarrow> int \<Rightarrow> item list go" where
  "rpc_netmap_ListCandidatesExpanded R numOfIteratorItems =
     unwrap R i_Array (inv_expand R ''listCandidates'' numOfIteratorItems [])"

definition rpc_netmap_ListConfig ::
  "'k client \<Rightarrow> ('k, 'r, 'i) ContractReader \<Rightarrow> (NetmapConfigRecord option list) go" where
  "rpc_netmap_ListConfig L R =
     andThen (unwrap R i_Item (inv_call R ''listConfig'' [])) (item_list (\<lambda>x. itemToNetmapConfigRecord L (Inr x)))"

definition rpc_netmap_ListNodes :: "('k, 'r, 'i) ContractReader \<Rightarrow> 'i go" where
  "rpc_netmap_ListNodes R = unwrap R i_SessionIterator (inv_call R ''listNodes'' [])"

definition rpc_netmap_ListNodesExpanded :: "('k, 'r, 'i) ContractReader \<Rightarrow> int \<Rightarrow> item list go" where
  "rpc_netmap_ListNodesExpanded R numOfIteratorItems = unwrap R i_Array (inv_expand R ''listNodes'' numOfIteratorItems [])"

definition rpc_netmap_ListNodes2 :: "('k, 'r, 'i) ContractReader \<Rightarrow> int \<Rightarrow> 'i go" where
  "rpc_netmap_ListNodes2 R epoch = unwrap R i_SessionIterator (inv_call R ''listNodes'' [Val (VInt epoch)])"

definition rpc_netmap_ListNodes2Expanded ::
  "('k, 'r, 'i) ContractReader \<Rightarrow> int \<Rightarrow> int \<Rightarrow> item list go" where
  "rpc_netmap_ListNodes2Expanded R epoch numOfIteratorItems =
     unwrap R i_Array (inv_expand R ''listNodes'' numOfIteratorItems [Val (VInt epoch)])"

definition rpc_netmap_ListNodesVersion :: "('k, 'r, 'i) ContractReader \<Rightarrow> int \<Rightarrow> 'i go" where
  "rpc_netmap_ListNodesVersion R version' = unwrap R i_SessionIterator (inv_call R ''listNodesVersion'' [Val (VInt version')])"

definition rpc_netmap_ListNodesVersionExpanded ::
  "('k, 'r, 'i) ContractReader \<Rightarrow> int \<Rightarrow> int \<Rightarrow> item list go" where
  "rpc_netmap_ListNodesVersionExpanded R version' numOfIteratorItems =
     unwrap R i_Array (inv_expand R ''listNodesVersion'' numOfIteratorItems [Val (VInt version')])"

definition rpc_netmap_NetworkMapVersion :: "('k, 'r, 'i) ContractReader \<Rightarrow> int go" where
  "rpc_netmap_NetworkMapVersion R = unwrap R i_BigInt (inv_call R ''networkMapVersion'' [])"

definition rpc_netmap_UnusedCandidate ::
  "'k client \<Rightarrow> ('k, 'r, 'i) ContractReader \<Rightarrow> 'k NetmapCandidate option go" where
  "rpc_netmap_UnusedCandidate L R = itemToNetmapCandidate L (unwrap R i_Item (inv_call R ''unusedCandidate'' []))"

definition rpc_netmap_Version :: "('k, 'r, 'i) ContractReader \<Rightarrow> int go" where
  "rpc_netmap_Version R = unwrap R i_BigInt (inv_call R ''version'' [])"

section \<open>Writers\<close>

definition rpc_netmap_AddNode ::
  "'k client \<Rightarrow> ('k, 't, 's) Contract \<Rightarrow> way \<Rightarrow> 'k NetmapNode2 option \<Rightarrow> 't submitted go" where
  "rpc_netmap_AddNode L c w n = by_call c w ''addNode'' [Convertible (NetmapNode2_ToSCParameter L n)]"

definition rpc_netmap_DeleteNode :: "('k, 't, 's) Contract \<Rightarrow> way \<Rightarrow> 'k \<Rightarrow> 't submitted go" where
  "rpc_netmap_DeleteNode c w pkey = by_call c w ''deleteNode'' [Val (VKey pkey)]"

definition rpc_netmap_LastEpochBlock :: "('k, 't, 's) Contract \<Rightarrow> way \<Rightarrow> 't submitted go" where
  "rpc_netmap_LastEpochBlock c w = by_call c w ''lastEpochBlock'' []"

definition rpc_netmap_NewEpoch :: "('k, 't, 's) Contract \<Rightarrow> way \<Rightarrow> int \<Rightarrow> 't submitted go" where
  "rpc_netmap_NewEpoch c w epochNum = by_call c w ''newEpoch'' [Val (VInt epochNum)]"

definition rpc_netmap_SetCleanupThreshold ::
  "('k, 't, 's) Contract \<Rightarrow> way \<Rightarrow> int \<Rightarrow> 't submitted go" where
  "rpc_netmap_SetCleanupThreshold c w value' = by_call c w ''setCleanupThreshold'' [Val (VInt value')]"

definition rpc_netmap_SetConfig ::
  "('k, 't, 's) Contract \<Rightarrow> way \<Rightarrow> bytes \<Rightarrow> bytes \<Rightarrow> bytes \<Rightarrow> 't submitted go" where
  "rpc_netmap_SetConfig c w i key value' = by_call c w ''setConfig'' [Val (VBytes i), Val (VBytes key), Val (VBytes value')]"

definition rpc_netmap_SubscribeForNewEpoch ::
  "('k, 't, 's) Contract \<Rightarrow> way \<Rightarrow> bytes \<Rightarrow> 't submitted go" where
  "rpc_netmap_SubscribeForNewEpoch c w contract' = by_call c w ''subscribeForNewEpoch'' [Val (VUint160 contract')]"

definition rpc_netmap_UnsubscribeFromNewEpoch ::
  "('k, 't, 's) Contract \<Rightarrow> way \<Rightarrow> bytes \<Rightarrow> 't submitted go" where
  "rpc_netmap_UnsubscribeFromNewEpoch c w contract' = by_call c w ''unsubscribeFromNewEpoch'' [Val (VUint160 contract')]"

definition rpc_netmap_UpdateSnapshotCount ::
  "('k, 't, 's) Contract \<Rightarrow> way \<Rightarrow> int \<Rightarrow> 't submitted go" where
  "rpc_netmap_UpdateSnapshotCount c w n = by_call c w ''updateSnapshotCount'' [Val (VInt n)]"

definition rpc_netmap_UpdateState ::
  "('k, 't, 's) Contract \<Rightarrow> way \<Rightarrow> int \<Rightarrow> 'k \<Rightarrow> 't submitted go" where
  "rpc_netmap_UpdateState c w state' publicKey = by_call c w ''updateState'' [Val (VInt state'), Val (VKey publicKey)]"

end
