(* ===== verification/Wrapper_Balance.thy ===== *)
theory Wrapper_Balance
  imports Wrapper_Base
begin

text \<open>
  The methods of the client wrapper of the Balance contract (\<open>rpc/balance/rpcbinding.go\<close>); those of NEP-17 come from the
  client library.
\<close>

section \<open>Readers\<close>

definition rpc_balance_GetUnpaidContainerEpoch :: "('k, 'r, 'i) ContractReader \<Rightarrow> bytes \<Rightarrow> int go" where
  "rpc_balance_GetUnpaidContainerEpoch R cid = unwrap R i_BigInt (inv_call R ''getUnpaidContainerEpoch'' [Val (VUint256 cid)])"

definition rpc_balance_IterateUnpaid :: "('k, 'r, 'i) ContractReader \<Rightarrow> 'i go" where
  "rpc_balance_IterateUnpaid R = unwrap R i_SessionIterator (inv_call R ''iterateUnpaid'' [])"

definition rpc_balance_IterateUnpaidExpanded :: "('k, 'r, 'i) ContractReader \<Rightarrow> int \<Rightarrow> item list go" where
  "rpc_balance_IterateUnpaidExpanded R numOfIteratorItems = unwrap R i_Array (inv_expand R ''iterateUnpaid'' numOfIteratorItems [])"

definition rpc_balance_Version :: "('k, 'r, 'i) ContractReader \<Rightarrow> int go" where
  "rpc_balance_Version R = unwrap R i_BigInt (inv_call R ''version'' [])"

section \<open>Writers\<close>

definition rpc_balance_Burn ::
  "('k, 't, 's) Contract \<Rightarrow> way \<Rightarrow> bytes \<Rightarrow> int \<Rightarrow> bytes \<Rightarrow> 't submitted go" where
  "rpc_balance_Burn c w from' amount txDetails =
     by_call c w ''burn'' [Val (VUint160 from'), Val (VInt amount), Val (VBytes txDetails)]"

definition rpc_balance_Lock ::
  "('k, 't, 's) Contract \<Rightarrow> way \<Rightarrow> bytes \<Rightarrow> bytes \<Rightarrow> bytes \<Rightarrow> int \<Rightarrow> int \<Rightarrow> 't submitted go" where
  "rpc_balance_Lock c w txDetails from' to' amount until =
     by_call c w ''lock'' [Val (VBytes txDetails), Val (VUint160 from'), Val (VUint160 to'), Val (VInt amount), Val (VInt until)]"

definition rpc_balance_Mint ::
  "('k, 't, 's) Contract \<Rightarrow> way \<Rightarrow> bytes \<Rightarrow> int \<Rightarrow> bytes \<Rightarrow> 't submitted go" where
  "rpc_balance_Mint c w to' amount txDetails = by_call c w ''mint'' [Val (VUint160 to'), Val (VInt amount), Val (VBytes txDetails)]"

definition rpc_balance_NewEpoch :: "('k, 't, 's) Contract \<Rightarrow> way \<Rightarrow> int \<Rightarrow> 't submitted go" where
  "rpc_balance_NewEpoch c w epochNum = by_call c w ''newEpoch'' [Val (VInt epochNum)]"

definition rpc_balance_SettleContainerPayment ::
  "('k, 't, 's) Contract \<Rightarrow> way \<Rightarrow> bytes \<Rightarrow> 't submitted go" where
  "rpc_balance_SettleContainerPayment c w cid = by_script c w ''settleContainerPayment'' [Val (VUint256 cid)]"

definition rpc_balance_TransferX ::
  "('k, 't, 's) Contract \<Rightarrow> way \<Rightarrow> bytes \<Rightarrow> bytes \<Rightarrow> int \<Rightarrow> bytes \<Rightarrow> 't submitted go" where
  "rpc_balance_TransferX c w from' to' amount details =
     by_script c w ''transferX'' [Val (VUint160 from'), Val (VUint160 to'), Val (VInt amount), Val (VBytes details)]"

end
