(* ===== verification/Wrapper_NNS.thy ===== *)
theory Wrapper_NNS
  imports Wrapper_Base
begin

text \<open>
  The methods of the client wrapper of the NNS contract (\<open>rpc/nns/rpcbinding.go\<close>); those of NEP-11 come from the client
  library.
\<close>

section \<open>Readers\<close>

definition rpc_nns_GetAllRecords :: "('k, 'r, 'i) ContractReader \<Rightarrow> string \<Rightarrow> 'i go" where
  "rpc_nns_GetAllRecords R name' = unwrap R i_SessionIterator (inv_call R ''getAllRecords'' [Val (VString name')])"

definition rpc_nns_GetAllRecordsExpanded ::
  "('k, 'r, 'i) ContractReader \<Rightarrow> string \<Rightarrow> int \<Rightarrow> item list go" where
  "rpc_nns_GetAllRecordsExpanded R name' numOfIteratorItems =
     unwrap R i_Array (inv_expand R ''getAllRecords'' numOfIteratorItems [Val (VString name')])"

definition rpc_nns_GetNeoRecordsIterator :: "('k, 'r, 'i) ContractReader \<Rightarrow> string \<Rightarrow> 'i go" where
  "rpc_nns_GetNeoRecordsIterator R name' = unwrap R i_SessionIterator (inv_call R ''getNeoRecordsIterator'' [Val (VString name')])"

definition rpc_nns_GetNeoRecordsIteratorExpanded ::
  "('k, 'r, 'i) ContractReader \<Rightarrow> string \<Rightarrow> int \<Rightarrow> item list go" where
  "rpc_nns_GetNeoRecordsIteratorExpanded R name' numOfIteratorItems =
     unwrap R i_Array (inv_expand R ''getNeoRecordsIterator'' numOfIteratorItems [Val (VString name')])"

definition rpc_nns_GetPrice :: "('k, 'r, 'i) ContractReader \<Rightarrow> int go" where
  "rpc_nns_GetPrice R = unwrap R i_BigInt (inv_call R ''getPrice'' [])"

definition rpc_nns_GetRecords ::
  "('k, 'r, 'i) ContractReader \<Rightarrow> string \<Rightarrow> int \<Rightarrow> string list go" where
  "rpc_nns_GetRecords R name' type' =
     unwrap R i_ArrayOfUTF8Strings (inv_call R ''getRecords'' [Val (VString name'), Val (VInt type')])"

definition rpc_nns_HasNeoRecord ::
  "('k, 'r, 'i) ContractReader \<Rightarrow> string \<Rightarrow> bytes \<Rightarrow> bool go" where
  "rpc_nns_HasNeoRecord R name' address =
     unwrap R i_Bool (inv_call R ''hasNeoRecord'' [Val (VString name'), Val (VUint160 address)])"

definition rpc_nns_IsAvailable :: "('k, 'r, 'i) ContractReader \<Rightarrow> string \<Rightarrow> bool go" where
  "rpc_nns_IsAvailable R name' = unwrap R i_Bool (inv_call R ''isAvailable'' [Val (VString name')])"

definition rpc_nns_Resolve ::
  "('k, 'r, 'i) ContractReader \<Rightarrow> string \<Rightarrow> int \<Rightarrow> string list go" where
  "rpc_nns_Resolve R name' type' = unwrap R i_ArrayOfUTF8Strings (inv_call R ''resolve'' [Val (VString name'), Val (VInt type')])"

definition rpc_nns_ResolveNeoIterator :: "('k, 'r, 'i) ContractReader \<Rightarrow> string \<Rightarrow> 'i go" where
  "rpc_nns_ResolveNeoIterator R name' = unwrap R i_SessionIterator (inv_call R ''resolveNeoIterator'' [Val (VString name')])"

definition rpc_nns_ResolveNeoIteratorExpanded ::
  "('k, 'r, 'i) ContractReader \<Rightarrow> string \<Rightarrow> int \<Rightarrow> item list go" where
  "rpc_nns_ResolveNeoIteratorExpanded R name' numOfIteratorItems =
     unwrap R i_Array (inv_expand R ''resolveNeoIterator'' numOfIteratorItems [Val (VString name')])"

definition rpc_nns_Roots :: "('k, 'r, 'i) ContractReader \<Rightarrow> 'i go" where
  "rpc_nns_Roots R = unwrap R i_SessionIterator (inv_call R ''roots'' [])"

definition rpc_nns_RootsExpanded :: "('k, 'r, 'i) ContractReader \<Rightarrow> int \<Rightarrow> item list go" where
  "rpc_nns_RootsExpanded R numOfIteratorItems = unwrap R i_Array (inv_expand R ''roots'' numOfIteratorItems [])"

definition rpc_nns_Version :: "('k, 'r, 'i) ContractReader \<Rightarrow> int go" where
  "rpc_nns_Version R = unwrap R i_BigInt (inv_call R ''version'' [])"

section \<open>Writers\<close>

definition rpc_nns_AddNeoRecord ::
  "('k, 't, 's) Contract \<Rightarrow> way \<Rightarrow> string \<Rightarrow> bytes \<Rightarrow> 't submitted go" where
  "rpc_nns_AddNeoRecord c w name' address = by_call c w ''addNeoRecord'' [Val (VString name'), Val (VUint160 address)]"

definition rpc_nns_AddRecord ::
  "('k, 't, 's) Contract \<Rightarrow> way \<Rightarrow> string \<Rightarrow> int \<Rightarrow> string \<Rightarrow> 't submitted go" where
  "rpc_nns_AddRecord c w name' type' data' = by_call c w ''addRecord'' [Val (VString name'), Val (VInt type'), Val (VString data')]"

definition rpc_nns_DeleteNeoRecord ::
  "('k, 't, 's) Contract \<Rightarrow> way \<Rightarrow> string \<Rightarrow> bytes \<Rightarrow> 't submitted go" where
  "rpc_nns_DeleteNeoRecord c w name' address = by_call c w ''deleteNeoRecord'' [Val (VString name'), Val (VUint160 address)]"

definition rpc_nns_DeleteRecords ::
  "('k, 't, 's) Contract \<Rightarrow> way \<Rightarrow> string \<Rightarrow> int \<Rightarrow> 't submitted go" where
  "rpc_nns_DeleteRecords c w name' type' = by_call c w ''deleteRecords'' [Val (VString name'), Val (VInt type')]"

definition rpc_nns_Register ::
  "('k, 't, 's) Contract \<Rightarrow> way \<Rightarrow> string \<Rightarrow> bytes \<Rightarrow> string \<Rightarrow> int \<Rightarrow> int \<Rightarrow> int \<Rightarrow> int \<Rightarrow> 't submitted go" where
  "rpc_nns_Register c w name' owner email refresh retry expire ttl =
     by_script c w ''register'' [Val (VString name'), Val (VUint160 owner), Val (VString email), Val (VInt refresh), Val (VInt retry), Val (VInt expire), Val (VInt ttl)]"

definition rpc_nns_RegisterTLD ::
  "('k, 't, 's) Contract \<Rightarrow> way \<Rightarrow> string \<Rightarrow> string \<Rightarrow> int \<Rightarrow> int \<Rightarrow> int \<Rightarrow> int \<Rightarrow> 't submitted go" where
  "rpc_nns_RegisterTLD c w name' email refresh retry expire ttl =
     by_call c w ''registerTLD'' [Val (VString name'), Val (VString email), Val (VInt refresh), Val (VInt retry), Val (VInt expire), Val (VInt ttl)]"

definition rpc_nns_Renew ::
  "('k, 't, 's) Contract \<Rightarrow> way \<Rightarrow> string \<Rightarrow> int \<Rightarrow> 't submitted go" where
  "rpc_nns_Renew c w name' years = by_call c w ''renew'' [Val (VString name'), Val (VInt years)]"

definition rpc_nns_Renew2 :: "('k, 't, 's) Contract \<Rightarrow> way \<Rightarrow> string \<Rightarrow> 't submitted go" where
  "rpc_nns_Renew2 c w name' = by_call c w ''renew'' [Val (VString name')]"

definition rpc_nns_SetAdmin ::
  "('k, 't, 's) Contract \<Rightarrow> way \<Rightarrow> string \<Rightarrow> bytes \<Rightarrow> 't submitted go" where
  "rpc_nns_SetAdmin c w name' admin = by_call c w ''setAdmin'' [Val (VString name'), Val (VUint160 admin)]"

definition rpc_nns_SetPrice :: "('k, 't, 's) Contract \<Rightarrow> way \<Rightarrow> int \<Rightarrow> 't submitted go" where
  "rpc_nns_SetPrice c w price = by_call c w ''setPrice'' [Val (VInt price)]"

definition rpc_nns_SetRecord ::
  "('k, 't, 's) Contract \<Rightarrow> way \<Rightarrow> string \<Rightarrow> int \<Rightarrow> int \<Rightarrow> string \<Rightarrow> 't submitted go" where
  "rpc_nns_SetRecord c w name' type' i data' =
     by_call c w ''setRecord'' [Val (VString name'), Val (VInt type'), Val (VInt i), Val (VString data')]"

definition rpc_nns_UpdateSOA ::
  "('k, 't, 's) Contract \<Rightarrow> way \<Rightarrow> string \<Rightarrow> string \<Rightarrow> int \<Rightarrow> int \<Rightarrow> int \<Rightarrow> int \<Rightarrow> 't submitted go" where
  "rpc_nns_UpdateSOA c w name' email refresh retry expire ttl =
     by_call c w ''updateSOA'' [Val (VString name'), Val (VString email), Val (VInt refresh), Val (VInt retry), Val (VInt expire), Val (VInt ttl)]"

end
