(* ===== verification/Wrapper_Others.thy ===== *)
theory Wrapper_Others
  imports Wrapper_Base Rpc_Events
begin

text \<open>
  The methods of the client wrappers of the NeoFS, Processing, Alphabet, Proxy and Reputation contracts.
\<close>

section \<open>\<open>rpc/neofs\<close>\<close>

subsection \<open>Readers\<close>

definition rpc_neofs_AlphabetAddress :: "('k, 'r, 'i) ContractReader \<Rightarrow> bytes go" where
  "rpc_neofs_AlphabetAddress R = unwrap R i_Uint160 (inv_call R ''alphabetAddress'' [])"

definition rpc_neofs_AlphabetList ::
  "'k client \<Rightarrow> ('k, 'r, 'i) ContractReader \<Rightarrow> ('k CommonIRNode option list) go" where
  "rpc_neofs_AlphabetList L R =
     andThen (unwrap R i_Item (inv_call R ''alphabetList'' [])) (item_list (\<lambda>x. itemToCommonIRNode L (Inr x)))"

definition rpc_neofs_Config :: "('k, 'r, 'i) ContractReader \<Rightarrow> bytes \<Rightarrow> bytes go" where
  "rpc_neofs_Config R key = unwrap R i_Bytes (inv_call R ''config'' [Val (VBytes key)])"

definition rpc_neofs_ListConfig ::
  "'k client \<Rightarrow> ('k, 'r, 'i) ContractReader \<Rightarrow> (NeofsRecord option list) go" where
  "rpc_neofs_ListConfig L R =
     andThen (unwrap R i_Item (inv_call R ''listConfig'' [])) (item_list (\<lambda>x. itemToNeofsRecord L (Inr x)))"

definition rpc_neofs_Version :: "('k, 'r, 'i) ContractReader \<Rightarrow> int go" where
  "rpc_neofs_Version R = unwrap R i_BigInt (inv_call R ''version'' [])"

subsection \<open>Writers\<close>

definition rpc_neofs_AlphabetUpdate ::
  "('k, 't, 's) Contract \<Rightarrow> way \<Rightarrow> bytes \<Rightarrow> 'k list \<Rightarrow> 't submitted go" where
  "rpc_neofs_AlphabetUpdate c w i keys = by_call c w ''alphabetUpdate'' [Val (VBytes i), Keys keys]"

definition rpc_neofs_Cheque ::
  "('k, 't, 's) Contract \<Rightarrow> way \<Rightarrow> bytes \<Rightarrow> bytes \<Rightarrow> int \<Rightarrow> bytes \<Rightarrow> 't submitted go" where
  "rpc_neofs_Cheque c w i user amount lockAcc =
     by_call c w ''cheque'' [Val (VBytes i), Val (VUint160 user), Val (VInt amount), Val (VBytes lockAcc)]"

definition rpc_neofs_SetConfig ::
  "('k, 't, 's) Contract \<Rightarrow> way \<Rightarrow> bytes \<Rightarrow> bytes \<Rightarrow> bytes \<Rightarrow> 't submitted go" where
  "rpc_neofs_SetConfig c w i key value' = by_call c w ''setConfig'' [Val (VBytes i), Val (VBytes key), Val (VBytes value')]"

definition rpc_neofs_Withdraw ::
  "('k, 't, 's) Contract \<Rightarrow> way \<Rightarrow> bytes \<Rightarrow> int \<Rightarrow> 't submitted go" where
  "rpc_neofs_Withdraw c w user amount = by_call c w ''withdraw'' [Val (VUint160 user), Val (VInt amount)]"

section \<open>\<open>rpc/processing\<close>\<close>

subsection \<open>Readers\<close>

definition rpc_processing_Verify :: "('k, 'r, 'i) ContractReader \<Rightarrow> bool go" where
  "rpc_processing_Verify R = unwrap R i_Bool (inv_call R ''verify'' [])"

definition rpc_processing_Version :: "('k, 'r, 'i) ContractReader \<Rightarrow> int go" where
  "rpc_processing_Version R = unwrap R i_BigInt (inv_call R ''version'' [])"

section \<open>\<open>rpc/alphabet\<close>\<close>

subsection \<open>Readers\<close>

definition rpc_alphabet_Gas :: "('k, 'r, 'i) ContractReader \<Rightarrow> int go" where
  "rpc_alphabet_Gas R = unwrap R i_BigInt (inv_call R ''gas'' [])"

definition rpc_alphabet_Name :: "('k, 'r, 'i) ContractReader \<Rightarrow> string go" where
  "rpc_alphabet_Name R = unwrap R i_UTF8String (inv_call R ''name'' [])"

definition rpc_alphabet_Neo :: "('k, 'r, 'i) ContractReader \<Rightarrow> int go" where
  "rpc_alphabet_Neo R = unwrap R i_BigInt (inv_call R ''neo'' [])"

definition rpc_alphabet_Verify :: "('k, 'r, 'i) ContractReader \<Rightarrow> bool go" where
  "rpc_alphabet_Verify R = unwrap R i_Bool (inv_call R ''verify'' [])"

definition rpc_alphabet_Version :: "('k, 'r, 'i) ContractReader \<Rightarrow> int go" where
  "rpc_alphabet_Version R = unwrap R i_BigInt (inv_call R ''version'' [])"

subsection \<open>Writers\<close>

definition rpc_alphabet_Emit :: "('k, 't, 's) Contract \<Rightarrow> way \<Rightarrow> 't submitted go" where
  "rpc_alphabet_Emit c w = by_call c w ''emit'' []"

definition rpc_alphabet_Vote ::
  "('k, 't, 's) Contract \<Rightarrow> way \<Rightarrow> int \<Rightarrow> 'k list \<Rightarrow> 't submitted go" where
  "rpc_alphabet_Vote c w epoch candidates = by_call c w ''vote'' [Val (VInt epoch), Keys candidates]"

section \<open>\<open>rpc/proxy\<close>\<close>

subsection \<open>Readers\<close>

definition rpc_proxy_Verify :: "('k, 'r, 'i) ContractReader \<Rightarrow> bool go" where
  "rpc_proxy_Verify R = unwrap R i_Bool (inv_call R ''verify'' [])"

definition rpc_proxy_Version :: "('k, 'r, 'i) ContractReader \<Rightarrow> int go" where
  "rpc_proxy_Version R = unwrap R i_BigInt (inv_call R ''version'' [])"

section \<open>\<open>rpc/reputation\<close>\<close>

subsection \<open>Readers\<close>

definition rpc_reputation_Get ::
  "('k, 'r, 'i) ContractReader \<Rightarrow> int \<Rightarrow> bytes \<Rightarrow> bytes list go" where
  "rpc_reputation_Get R epoch peerID = unwrap R i_ArrayOfBytes (inv_call R ''get'' [Val (VInt epoch), Val (VBytes peerID)])"

definition rpc_reputation_GetByID :: "('k, 'r, 'i) ContractReader \<Rightarrow> bytes \<Rightarrow> bytes list go" where
  "rpc_reputation_GetByID R i = unwrap R i_ArrayOfBytes (inv_call R ''getByID'' [Val (VBytes i)])"

definition rpc_reputation_ListByEpoch :: "('k, 'r, 'i) ContractReader \<Rightarrow> int \<Rightarrow> bytes list go" where
  "rpc_reputation_ListByEpoch R epoch = unwrap R i_ArrayOfBytes (inv_call R ''listByEpoch'' [Val (VInt epoch)])"

subsection \<open>Writers\<close>

definition rpc_reputation_Put ::
  "('k, 't, 's) Contract \<Rightarrow> way \<Rightarrow> int \<Rightarrow> bytes \<Rightarrow> bytes \<Rightarrow> 't submitted go" where
  "rpc_reputation_Put c w epoch peerID value' = by_call c w ''put'' [Val (VInt epoch), Val (VBytes peerID), Val (VBytes value')]"

definition rpc_reputation_Version :: "('k, 't, 's) Contract \<Rightarrow> way \<Rightarrow> 't submitted go" where
  "rpc_reputation_Version c w = by_call c w ''version'' []"

end
