(* ===== verification/Contract_Methods.thy ===== *)
theory Contract_Methods
  imports Wrapper_Container Wrapper_Netmap Wrapper_Balance Wrapper_NNS Wrapper_Others Rpc_Clients
    Settlement NNS_Contract Netmap_Contract NeoFS_Contract Alphabet_Contract Reputation_Contract
begin

text \<open>
  A transaction of the client on the chain. A contract is called by the name of a method and the number of its
  arguments: each contract has the table of the methods it exports, as the compiler makes it of the exported
  functions and of the overloads named in its \<open>config.yml\<close>. What an actor of the client library puts into a
  transaction is the parameter \<open>content\<close> with the hypothesis \<open>actor_ok\<close>.
\<close>

section \<open>Arguments\<close>

fun bytes_of :: "item \<Rightarrow> bytes" where
  "bytes_of (IBytes b) = b"
| "bytes_of (IBuffer b) = b"
| "bytes_of _ = []"

fun int_of :: "item \<Rightarrow> int" where
  "int_of (IInt n) = n"
| "int_of _ = 0"

definition list_of :: "item \<Rightarrow> item list" where
  "list_of i = (case item_elements i of Some is \<Rightarrow> is | None \<Rightarrow> [])"

definition keys_of :: "item \<Rightarrow> bytes list" where
  "keys_of i = map bytes_of (list_of i)"

lemma taken_apart [simp]: "list_of (IArray is) = is" "list_of (IStruct is) = is" "keys_of (IArray is) = map bytes_of is"
  by (simp_all add: list_of_def keys_of_def)

text \<open>A node is taken apart like a container.\<close>

definition item_node :: "item \<Rightarrow> node2 option" where
  "item_node i = (case item_elements i of
     Some [as, IMap kvs, IBytes k, IInt s] \<Rightarrow>
       Some \<lparr>Addresses = map bytes_of (list_of as), Attributes = map (\<lambda>(k, v). (bytes_of k, bytes_of v)) kvs, Key = k, State = s\<rparr>
   | _ \<Rightarrow> None)"

text \<open>The item a contract gets for an argument of a wrapper.\<close>

fun arg_item :: "'k client \<Rightarrow> 'k arg \<Rightarrow> item go" where
  "arg_item L (Val v) = andThen (new_parameter L v) (\<lambda>p. Inr (arrives L p))"
| "arg_item L (Keys ks) = Inr (IArray (map (\<lambda>k. IBytes (key_bytes L k)) ks))"
| "arg_item L (Sigs ss) = Inr (IArray (map (\<lambda>s. IArray (map IBytes s)) ss))"
| "arg_item L (Convertible r) = andThen r (\<lambda>p. Inr (arrives L p))"

section \<open>Transactions\<close>

record invocation =
  iv_hash :: bytes
  iv_method :: string
  iv_args :: "item list"
  iv_assert :: bool

definition actor_ok :: "'k client \<Rightarrow> ('t submitted \<Rightarrow> invocation) \<Rightarrow> ('k, 't, 's) Contract \<Rightarrow> bool" where
  "actor_ok L content c \<longleftrightarrow> (\<forall>w m args is s. mapR (arg_item L) args = Inr is \<longrightarrow>
     (by_call c w m args = Inr s \<longrightarrow>
        content s = \<lparr>iv_hash = c_hash c, iv_method = m, iv_args = is, iv_assert = False\<rparr>) \<and>
     (by_script c w m args = Inr s \<longrightarrow>
        content s = \<lparr>iv_hash = c_hash c, iv_method = m, iv_args = is, iv_assert = True\<rparr>))"

text \<open>
  A method with its name and number of arguments. The truth value is what it returns; it is \<open>True\<close> where nothing
  is asserted about it.
\<close>

type_synonym 'w vm_method = "(string \<times> nat) \<times> (item list \<Rightarrow> 'w \<Rightarrow> (bool \<times> 'w) res)"

definition run_method :: "'w vm_method list \<Rightarrow> bytes \<Rightarrow> invocation \<Rightarrow> 'w \<Rightarrow> 'w res" where
  "run_method methods h iv w =
     (if iv_hash iv \<noteq> h then Inl (Fault ''called contract not found'')
      else case map_of methods (iv_method iv, length (iv_args iv)) of
        None \<Rightarrow> Inl (Fault ''method not found'')
      | Some f \<Rightarrow> andThen (f (iv_args iv) w) (\<lambda>r.
          if iv_assert iv \<and> \<not> fst r then Inl (Fault ''ASSERT failed'') else Inr (snd r)))"

definition void :: "'w res \<Rightarrow> (bool \<times> 'w) res" where
  "void r = andThen r (\<lambda>w. Inr (True, w))"

definition value_void :: "('a \<times> 'w) res \<Rightarrow> (bool \<times> 'w) res" where
  "value_void r = andThen r (\<lambda>x. Inr (True, snd x))"

definition of_state :: "('c \<Rightarrow> 'c res) \<Rightarrow> 'c \<times> 'o \<Rightarrow> ('c \<times> 'o) res" where
  "of_state f w = andThen (f (fst w)) (\<lambda>c. Inr (c, snd w))"

definition taken :: "'a option \<Rightarrow> ('a \<Rightarrow> 'b res) \<Rightarrow> 'b res" where
  "taken x f = (case x of None \<Rightarrow> Inl (Fault ''invalid argument'') | Some a \<Rightarrow> f a)"

section \<open>The methods of the contracts\<close>

definition container_methods :: "env \<Rightarrow> 'o services \<Rightarrow> (container \<times> 'o) vm_method list" where
  "container_methods E S =
     [((''addNextEpochNodes'', 3), \<lambda>a w. void (of_state (AddNextEpochNodes E (bytes_of (a ! 0)) (int_of (a ! 1)) (keys_of (a ! 2))) w)),
      ((''commitContainerListUpdate'', 2), \<lambda>a w. void (of_state (CommitContainerListUpdate E (bytes_of (a ! 0)) (bytes_of (a ! 1))) w)),
      ((''createV2'', 4), \<lambda>a w. taken (item_info (a ! 0)) (\<lambda>cnr. value_void (CreateV2 E S cnr w))),
      ((''createV2'', 2), \<lambda>a w. taken (item_info (a ! 0)) (\<lambda>cnr. void (CreateV2Overloaded E S cnr (bytes_of (a ! 1)) w))),
      ((''putEACL'', 4), \<lambda>a w. void (of_state (PutEACL E (bytes_of (a ! 0))) w)),
      ((''putEACL'', 2), \<lambda>a w. void (of_state (PutEACLOverloaded E (bytes_of (a ! 0)) (bytes_of (a ! 1))) w)),
      ((''putReport'', 4), \<lambda>a w. void (PutReport E S (bytes_of (a ! 0)) (int_of (a ! 1)) (int_of (a ! 2)) (bytes_of (a ! 3)) w)),
      ((''remove'', 4), \<lambda>a w. void (cnt_Remove E S (bytes_of (a ! 0)) w)),
      ((''remove'', 2), \<lambda>a w. void (RemoveOverloaded E S (bytes_of (a ! 0)) (bytes_of (a ! 1)) w)),
      ((''removeAttribute'', 6), \<lambda>a w. void (of_state (RemoveAttribute E (bytes_of (a ! 0)) (bytes_of (a ! 1)) (int_of (a ! 2))) w)),
      ((''setAttribute'', 7), \<lambda>a w. void (of_state (SetAttribute E (bytes_of (a ! 0)) (bytes_of (a ! 1)) (bytes_of (a ! 2)) (int_of (a ! 3))) w)),
      ((''setHardContainerQuota'', 2), \<lambda>a w. void (SetHardContainerQuota E S (bytes_of (a ! 0)) (int_of (a ! 1)) w)),
      ((''setHardUserQuota'', 2), \<lambda>a w. void (SetHardUserQuota E S (bytes_of (a ! 0)) (int_of (a ! 1)) w)),
      ((''setSoftContainerQuota'', 2), \<lambda>a w. void (SetSoftContainerQuota E S (bytes_of (a ! 0)) (int_of (a ! 1)) w)),
      ((''setSoftUserQuota'', 2), \<lambda>a w. void (SetSoftUserQuota E S (bytes_of (a ! 0)) (int_of (a ! 1)) w))]"

text \<open>What the Netmap contract asks of other contracts: the names, the number of containers, the subscribers.\<close>

record 'o netmap_links =
  nl_resolve :: "bytes \<Rightarrow> string \<Rightarrow> int \<Rightarrow> string list res"
  nl_containers :: "bytes \<Rightarrow> 'o \<Rightarrow> int res"
  nl_call :: "bytes \<Rightarrow> string \<Rightarrow> int \<Rightarrow> netmap \<times> 'o \<Rightarrow> (netmap \<times> 'o) res"

definition netmap_methods :: "env \<Rightarrow> 'o netmap_links \<Rightarrow> (netmap \<times> 'o) vm_method list" where
  "netmap_methods E N =
     [((''addNode'', 1), \<lambda>a w. taken (item_node (a ! 0)) (\<lambda>n. void (netmap_AddNode E (nl_resolve N) (nl_containers N) (nl_call N) n w))),
      ((''deleteNode'', 1), \<lambda>a w. void (of_state (netmap_DeleteNode E (bytes_of (a ! 0))) w)),
      ((''lastEpochBlock'', 0), \<lambda>a w. void (andThen (netmap_LastEpochBlock (fst w)) (\<lambda>_. Inr w))),
      ((''newEpoch'', 1), \<lambda>a w. void (netmap_NewEpoch E (nl_call N) (int_of (a ! 0)) w)),
      ((''setCleanupThreshold'', 1), \<lambda>a w. void (of_state (netmap_SetCleanupThreshold E (int_of (a ! 0))) w)),
      ((''setConfig'', 3), \<lambda>a w. void (of_state (netmap_SetConfig E (bytes_of (a ! 0)) (bytes_of (a ! 1)) (bytes_of (a ! 2))) w)),
      ((''subscribeForNewEpoch'', 1), \<lambda>a w. void (of_state (netmap_SubscribeForNewEpoch E (bytes_of (a ! 0))) w)),
      ((''unsubscribeFromNewEpoch'', 1), \<lambda>a w. void (of_state (netmap_UnsubscribeFromNewEpoch E (bytes_of (a ! 0))) w)),
      ((''updateSnapshotCount'', 1), \<lambda>a w. void (of_state (netmap_UpdateSnapshotCount E (int_of (a ! 0))) w)),
      ((''updateState'', 2), \<lambda>a w. void (of_state (netmap_UpdateState E (int_of (a ! 0)) (bytes_of (a ! 1))) w))]"

definition balance_methods :: "env \<Rightarrow> (bytes \<Rightarrow> string \<Rightarrow> int \<Rightarrow> string list res) \<Rightarrow> readers \<Rightarrow> balance vm_method list" where
  "balance_methods E resolver R =
     [((''burn'', 3), \<lambda>a c. void (balance_Burn E (bytes_of (a ! 0)) (int_of (a ! 1)) (bytes_of (a ! 2)) c)),
      ((''lock'', 5), \<lambda>a c. void (balance_Lock E (bytes_of (a ! 0)) (bytes_of (a ! 1)) (bytes_of (a ! 2)) (int_of (a ! 3)) (int_of (a ! 4)) c)),
      ((''mint'', 3), \<lambda>a c. void (balance_Mint E (bytes_of (a ! 0)) (int_of (a ! 1)) (bytes_of (a ! 2)) c)),
      ((''newEpoch'', 1), \<lambda>a c. void (balance_NewEpoch E (int_of (a ! 0)) c)),
      ((''settleContainerPayment'', 1), \<lambda>a c. SettleContainerPayment E resolver R (bytes_of (a ! 0)) c),
      ((''transferX'', 4), \<lambda>a c. balance_TransferX E (bytes_of (a ! 0)) (bytes_of (a ! 1)) (int_of (a ! 2)) (bytes_of (a ! 3)) c)]"

type_synonym 'o nft_payment = "bytes \<Rightarrow> bytes \<Rightarrow> int \<Rightarrow> bytes \<Rightarrow> Runtime.arg \<Rightarrow> nns \<times> 'o \<Rightarrow> (nns \<times> 'o) res"

definition nns_methods :: "env \<Rightarrow> 'o nft_payment \<Rightarrow> (nns \<times> 'o) vm_method list" where
  "nns_methods E payment =
     [((''addNeoRecord'', 2), \<lambda>a w. void (of_state (nns_AddNeoRecord E (bytes_of (a ! 0)) (bytes_of (a ! 1))) w)),
      ((''addRecord'', 3), \<lambda>a w. void (of_state (nns_AddRecord E (bytes_of (a ! 0)) (int_of (a ! 1)) (bytes_of (a ! 2))) w)),
      ((''deleteNeoRecord'', 2), \<lambda>a w. void (of_state (nns_DeleteNeoRecord E (bytes_of (a ! 0)) (bytes_of (a ! 1))) w)),
      ((''deleteRecords'', 2), \<lambda>a w. void (of_state (nns_DeleteRecords E (bytes_of (a ! 0)) (int_of (a ! 1))) w)),
      ((''register'', 7), \<lambda>a w. nns_Register E payment (bytes_of (a ! 0)) (bytes_of (a ! 1)) (bytes_of (a ! 2))
         (int_of (a ! 3)) (int_of (a ! 4)) (int_of (a ! 5)) (int_of (a ! 6)) w),
      ((''registerTLD'', 6), \<lambda>a w. void (of_state (nns_RegisterTLD E (bytes_of (a ! 0)) (bytes_of (a ! 1))
         (int_of (a ! 2)) (int_of (a ! 3)) (int_of (a ! 4)) (int_of (a ! 5))) w)),
      ((''renew'', 2), \<lambda>a w. value_void (andThen (nns_Renew E (bytes_of (a ! 0)) (int_of (a ! 1)) (fst w)) (\<lambda>(t, c). Inr (t, c, snd w)))),
      ((''renew'', 1), \<lambda>a w. value_void (andThen (nns_RenewDefault E (bytes_of (a ! 0)) (fst w)) (\<lambda>(t, c). Inr (t, c, snd w)))),
      ((''setAdmin'', 2), \<lambda>a w. void (of_state (nns_SetAdmin E (bytes_of (a ! 0)) (if a ! 1 = INull then None else Some (bytes_of (a ! 1)))) w)),
      ((''setPrice'', 1), \<lambda>a w. void (of_state (nns_SetPrice E (int_of (a ! 0))) w)),
      ((''setRecord'', 4), \<lambda>a w. void (of_state (nns_SetRecord E (bytes_of (a ! 0)) (int_of (a ! 1)) (int_of (a ! 2)) (bytes_of (a ! 3))) w)),
      ((''updateSOA'', 6), \<lambda>a w. void (of_state (nns_UpdateSOA E (bytes_of (a ! 0)) (bytes_of (a ! 1))
         (int_of (a ! 2)) (int_of (a ! 3)) (int_of (a ! 4)) (int_of (a ! 5))) w))]"

definition neofs_methods :: "env \<Rightarrow> 'o gas_transfer \<Rightarrow> (neofs \<times> 'o) vm_method list" where
  "neofs_methods E G =
     [((''alphabetUpdate'', 2), \<lambda>a w. void (of_state (neofs_AlphabetUpdate E (bytes_of (a ! 0)) (keys_of (a ! 1))) w)),
      ((''cheque'', 4), \<lambda>a w. void (neofs_Cheque E G (bytes_of (a ! 0)) (bytes_of (a ! 1)) (int_of (a ! 2)) (bytes_of (a ! 3)) w)),
      ((''setConfig'', 3), \<lambda>a w. void (of_state (neofs_SetConfig E (bytes_of (a ! 0)) (bytes_of (a ! 1)) (bytes_of (a ! 2))) w)),
      ((''withdraw'', 2), \<lambda>a w. void (neofs_Withdraw E G (bytes_of (a ! 0)) (int_of (a ! 1)) w))]"

definition alphabet_methods :: "env \<Rightarrow> 'o natives \<Rightarrow> (bytes \<Rightarrow> 'o \<Rightarrow> int res) \<Rightarrow> (alphabet \<times> 'o) vm_method list" where
  "alphabet_methods E N epoch =
     [((''emit'', 0), \<lambda>a w. void (andThen (alph_Emit E N (fst w) (snd w)) (\<lambda>x. Inr (fst w, x)))),
      ((''vote'', 2), \<lambda>a w. void (andThen (alph_Vote E N epoch (int_of (a ! 0)) (keys_of (a ! 1)) (fst w) (snd w)) (\<lambda>x. Inr (fst w, x))))]"

definition reputation_methods :: "env \<Rightarrow> reputation vm_method list" where
  "reputation_methods E =
     [((''put'', 3), \<lambda>a c. void (reputation_Put E (int_of (a ! 0)) (bytes_of (a ! 1)) (bytes_of (a ! 2)) c)),
      ((''version'', 0), \<lambda>a c. void (Inr c))]"

section \<open>What a call of a wrapper does\<close>

text \<open>Whatever the wrapper returns without an error, the transaction, once in a block, does \<open>f\<close>.\<close>

definition does :: "('t submitted \<Rightarrow> invocation) \<Rightarrow> 'w vm_method list \<Rightarrow> bytes \<Rightarrow> 't submitted go \<Rightarrow> ('w \<Rightarrow> 'w res) \<Rightarrow> bool" where
  "does content methods h r f \<longleftrightarrow> (\<forall>s. r = Inr s \<longrightarrow> run_method methods h (content s) = f)"

text \<open>A method that must return \<open>True\<close>.\<close>

definition asserted :: "(bool \<times> 'w) res \<Rightarrow> 'w res" where
  "asserted r = andThen r (\<lambda>r. if \<not> fst r then Inl (Fault ''ASSERT failed'') else Inr (snd r))"

lemma call_does:
  assumes "actor_ok L content c" and "mapR (arg_item L) args = Inr is"
    and "\<And>w. run_method methods (c_hash c) \<lparr>iv_hash = c_hash c, iv_method = m, iv_args = is, iv_assert = False\<rparr> w = f w"
  shows "does content methods (c_hash c) (by_call c w m args) f"
proof -
  from assms(3) have "run_method methods (c_hash c) \<lparr>iv_hash = c_hash c, iv_method = m, iv_args = is, iv_assert = False\<rparr> = f" by auto
  then show ?thesis using assms(1,2) unfolding does_def actor_ok_def by metis
qed

lemma script_does:
  assumes "actor_ok L content c" and "mapR (arg_item L) args = Inr is"
    and "\<And>w. run_method methods (c_hash c) \<lparr>iv_hash = c_hash c, iv_method = m, iv_args = is, iv_assert = True\<rparr> w = f w"
  shows "does content methods (c_hash c) (by_script c w m args) f"
proof -
  from assms(3) have "run_method methods (c_hash c) \<lparr>iv_hash = c_hash c, iv_method = m, iv_args = is, iv_assert = True\<rparr> = f" by auto
  then show ?thesis using assms(1,2) unfolding does_def actor_ok_def by metis
qed

text \<open>The method is found by its name and its number of arguments, and its result is what the transaction leaves.\<close>

lemma method_runs:
  "run_method methods h \<lparr>iv_hash = h, iv_method = m, iv_args = is, iv_assert = False\<rparr> w =
    (case map_of methods (m, length is) of None \<Rightarrow> Inl (Fault ''method not found'') | Some g \<Rightarrow> andThen (g is w) (\<lambda>r. Inr (snd r)))"
  "run_method methods h \<lparr>iv_hash = h, iv_method = m, iv_args = is, iv_assert = True\<rparr> w =
    (case map_of methods (m, length is) of None \<Rightarrow> Inl (Fault ''method not found'') | Some g \<Rightarrow> asserted (g is w))"
  by (simp_all add: run_method_def asserted_def split: option.split)

lemma void_left [simp]: "andThen (void r) (\<lambda>p. Inr (snd p)) = r"
  by (cases r) (simp_all add: void_def)

lemma value_left [simp]: "andThen (value_void r) (\<lambda>p. Inr (snd p)) = andThen r (\<lambda>p. Inr (snd p))"
  by (cases r) (simp_all add: value_void_def)

lemma taken_Some [simp]: "taken (Some x) f = f x"
  by (simp add: taken_def)

lemma keys_sent [simp]: "bytes_of \<circ> (\<lambda>k. IBytes (f k)) = f"
  by (simp add: comp_def)

lemma value_arrives: "client_ok L \<Longrightarrow> arg_item L (Val v) = Inr (value_item L v)"
  by (simp add: client_okD(8,10))

section \<open>An actor\<close>

text \<open>An actor without a connection: it makes transactions, which hold the call, and sends none.\<close>

definition offline_actor :: "'k client \<Rightarrow> ('k, invocation, invocation) actor" where
  "offline_actor L = (let
     pack = (\<lambda>asserted h m args. andThen (mapR (arg_item L) args) (\<lambda>is.
       Inr \<lparr>iv_hash = h, iv_method = m, iv_args = is, iv_assert = asserted\<rparr>)) in
     \<lparr>a_SendCall = (\<lambda>_ _ _. Inl (Err ''not connected'')), a_MakeCall = pack False, a_MakeUnsignedCall = pack False,
      a_CreateCallWithAssertScript = pack True, a_SendRun = (\<lambda>_. Inl (Err ''not connected'')), a_MakeRun = Inr, a_MakeUnsignedRun = Inr\<rparr>)"

fun transaction_call :: "invocation submitted \<Rightarrow> invocation" where
  "transaction_call (Made t) = t"
| "transaction_call (Sent h vub) = \<lparr>iv_hash = h, iv_method = [], iv_args = [], iv_assert = False\<rparr>"

lemma offline_actor_ok: "actor_ok L transaction_call (New (offline_actor L) h)"
  unfolding actor_ok_def
  by (auto simp: New_def offline_actor_def by_call_def by_script_def sent_def made_def Let_def split: way.splits)

end
