(* ===== verification/Wrapper_Properties.thy ===== *)
theory Wrapper_Properties
  imports Contract_Methods
begin

text \<open>
  What the writers of the wrappers do: a transaction they make runs the contract's operation of the method's name
  on the arguments given to the wrapper, each in its place.
\<close>

named_theorems wrapped \<open>the writers of the wrappers\<close>

declare rpc_container_AddNextEpochNodes_def [wrapped] rpc_container_CommitContainerListUpdate_def [wrapped]
  rpc_container_CreateV2_def [wrapped] rpc_container_CreateV22_def [wrapped] rpc_container_PutEACL_def [wrapped]
  rpc_container_PutEACL2_def [wrapped] rpc_container_PutReport_def [wrapped] rpc_container_Remove_def [wrapped]
  rpc_container_RemoveAttribute_def [wrapped] rpc_container_Remove2_def [wrapped] rpc_container_SetAttribute_def [wrapped]
  rpc_container_SetHardContainerQuota_def [wrapped] rpc_container_SetHardUserQuota_def [wrapped]
  rpc_container_SetSoftContainerQuota_def [wrapped] rpc_container_SetSoftUserQuota_def [wrapped] rpc_netmap_AddNode_def [wrapped]
  rpc_netmap_DeleteNode_def [wrapped] rpc_netmap_LastEpochBlock_def [wrapped] rpc_netmap_NewEpoch_def [wrapped]
  rpc_netmap_SetCleanupThreshold_def [wrapped] rpc_netmap_SetConfig_def [wrapped] rpc_netmap_SubscribeForNewEpoch_def [wrapped]
  rpc_netmap_UnsubscribeFromNewEpoch_def [wrapped] rpc_netmap_UpdateSnapshotCount_def [wrapped] rpc_netmap_UpdateState_def [wrapped]
  rpc_balance_Burn_def [wrapped] rpc_balance_Lock_def [wrapped] rpc_balance_Mint_def [wrapped] rpc_balance_NewEpoch_def [wrapped]
  rpc_balance_SettleContainerPayment_def [wrapped] rpc_balance_TransferX_def [wrapped] rpc_nns_AddNeoRecord_def [wrapped]
  rpc_nns_AddRecord_def [wrapped] rpc_nns_DeleteNeoRecord_def [wrapped] rpc_nns_DeleteRecords_def [wrapped] rpc_nns_Register_def [wrapped]
  rpc_nns_RegisterTLD_def [wrapped] rpc_nns_Renew_def [wrapped] rpc_nns_Renew2_def [wrapped] rpc_nns_SetAdmin_def [wrapped]
  rpc_nns_SetPrice_def [wrapped] rpc_nns_SetRecord_def [wrapped] rpc_nns_UpdateSOA_def [wrapped] rpc_neofs_AlphabetUpdate_def [wrapped]
  rpc_neofs_Cheque_def [wrapped] rpc_neofs_SetConfig_def [wrapped] rpc_neofs_Withdraw_def [wrapped] rpc_alphabet_Emit_def [wrapped]
  rpc_alphabet_Vote_def [wrapped] rpc_reputation_Put_def [wrapped] rpc_reputation_Version_def [wrapped]

section \<open>Structures on their way\<close>

lemma sent_convertible:
  assumes "client_ok L" and "sendable c"
  obtains i cnr where "arg_item L (Convertible (ContainerInfo_ToSCParameter L (Some c))) = Inr i" "item_info i = Some cnr"
    "client_info cnr = c"
  using sent_container [OF assms] by (metis andThen.simps(2) arg_item.simps(4))

definition node_of :: "'k client \<Rightarrow> 'k NetmapNode2 \<Rightarrow> node2" where
  "node_of L n = \<lparr>Addresses = the (nn_Addresses n), Attributes = the (nn_Attributes n), Key = key_bytes L (nn_Key n), State = nn_State n\<rparr>"

lemma sent_node:
  assumes "client_ok L" and "nn_Addresses n \<noteq> None" and "nn_Attributes n \<noteq> None"
  obtains i where "arg_item L (Convertible (NetmapNode2_ToSCParameter L (Some n))) = Inr i" "item_node i = Some (node_of L n)"
proof -
  note laws = client_okD [OF assms(1)]
  from assms(2,3) obtain as kvs where n: "nn_Addresses n = Some as" "nn_Attributes n = Some kvs" by auto
  have "elements_out 0 (\<lambda>v. new_parameter L (VString v)) as = Inr (map (\<lambda>v. PValue (VString v)) as)"
    by (rule elements_out_map) (simp add: laws(8))
  moreover have "mapR (pair_param L) kvs = Inr (map (\<lambda>(k, v). (PValue (VString k), PValue (VString v))) kvs)"
    by (rule mapR_map) (auto simp: pair_param_def laws(8))
  ultimately have "NetmapNode2_ToSCParameter L (Some n) = Inr (PArray [PArray (map (\<lambda>v. PValue (VString v)) as),
      PMap (map (\<lambda>(k, v). (PValue (VString k), PValue (VString v))) kvs), PValue (VKey (nn_Key n)), PValue (VInt (nn_State n))])"
    by (simp add: NetmapNode2_ToSCParameter_def n slice_param_def string_map_param_def laws(8))
  then have "arg_item L (Convertible (NetmapNode2_ToSCParameter L (Some n))) = Inr (IArray [IArray (map IBytes as),
      IMap (map (\<lambda>(k, v). (IBytes k, IBytes v)) kvs), IBytes (key_bytes L (nn_Key n)), IInt (nn_State n)])"
    by (simp add: laws(10,11,12) comp_def split_def)
  then show thesis by (rule that) (simp add: item_node_def node_of_def n comp_def split_def)
qed

section \<open>The methods of each wrapper\<close>

lemma container_calls:
  fixes E :: env and S :: "'o services"
  assumes "client_ok L" and "actor_ok L content c"
  defines "M \<equiv> container_methods E S"
  shows "does content M (c_hash c) (rpc_container_AddNextEpochNodes c w cid n ks)
      (of_state (AddNextEpochNodes E cid n (map (key_bytes L) ks)))"
    "does content M (c_hash c) (rpc_container_CommitContainerListUpdate c w cid replicas)
      (of_state (CommitContainerListUpdate E cid replicas))"
    "does content M (c_hash c) (rpc_container_PutReport c w cid n m k) (PutReport E S cid n m (key_bytes L k))"
    "does content M (c_hash c) (rpc_container_SetAttribute c w cid a v t is vs tok) (of_state (SetAttribute E cid a v t))"
    "does content M (c_hash c) (rpc_container_RemoveAttribute c w cid a t is vs tok) (of_state (RemoveAttribute E cid a t))"
    "does content M (c_hash c) (rpc_container_PutEACL c w table is vs tok) (of_state (PutEACL E table))"
    "does content M (c_hash c) (rpc_container_PutEACL2 c w table req) (of_state (PutEACLOverloaded E table req))"
    "does content M (c_hash c) (rpc_container_Remove c w cid is vs tok) (cnt_Remove E S cid)"
    "does content M (c_hash c) (rpc_container_Remove2 c w cid req) (RemoveOverloaded E S cid req)"
    "does content M (c_hash c) (rpc_container_SetHardContainerQuota c w cid n) (SetHardContainerQuota E S cid n)"
    "does content M (c_hash c) (rpc_container_SetHardUserQuota c w user n) (SetHardUserQuota E S user n)"
    "does content M (c_hash c) (rpc_container_SetSoftContainerQuota c w cid n) (SetSoftContainerQuota E S cid n)"
    "does content M (c_hash c) (rpc_container_SetSoftUserQuota c w user n) (SetSoftUserQuota E S user n)"
  unfolding M_def wrapped
  by (rule call_does [OF assms(2)], simp add: value_arrives [OF assms(1)] del: arg_item.simps(1), simp add: container_methods_def method_runs)+

lemma container_creations:
  assumes "client_ok L" and "actor_ok L content c" and "sendable info"
  shows "\<exists>cnr. client_info cnr = info \<and>
      does content (container_methods E S) (c_hash c) (rpc_container_CreateV2 L c w (Some info) is vs tok)
        (\<lambda>W. andThen (CreateV2 E S cnr W) (\<lambda>r. Inr (snd r))) \<and>
      does content (container_methods E S) (c_hash c) (rpc_container_CreateV22 L c w (Some info) req) (CreateV2Overloaded E S cnr req)"
proof -
  from sent_convertible [OF assms(1,3)] obtain i cnr where sent: "arg_item L (Convertible (ContainerInfo_ToSCParameter L (Some info))) = Inr i"
    and cnr: "item_info i = Some cnr" "client_info cnr = info" .
  have "does content (container_methods E S) (c_hash c) (rpc_container_CreateV2 L c w (Some info) is vs tok)
      (\<lambda>W. andThen (CreateV2 E S cnr W) (\<lambda>r. Inr (snd r)))" unfolding wrapped
    by (rule call_does [OF assms(2)], simp add: value_arrives [OF assms(1)] sent del: arg_item.simps(1,4), simp add: container_methods_def method_runs cnr(1))
  moreover have "does content (container_methods E S) (c_hash c) (rpc_container_CreateV22 L c w (Some info) req) (CreateV2Overloaded E S cnr req)"
    unfolding wrapped
    by (rule call_does [OF assms(2)], simp add: value_arrives [OF assms(1)] sent del: arg_item.simps(1,4), simp add: container_methods_def method_runs cnr(1))
  ultimately show ?thesis using cnr(2) by blast
qed

lemma netmap_calls:
  fixes E :: env and N :: "'o netmap_links"
  assumes "client_ok L" and "actor_ok L content c"
  defines "M \<equiv> netmap_methods E N"
  shows "does content M (c_hash c) (rpc_netmap_DeleteNode c w k) (of_state (netmap_DeleteNode E (key_bytes L k)))"
    "does content M (c_hash c) (rpc_netmap_LastEpochBlock c w) (\<lambda>W. andThen (netmap_LastEpochBlock (fst W)) (\<lambda>_. Inr W))"
    "does content M (c_hash c) (rpc_netmap_NewEpoch c w n) (netmap_NewEpoch E (nl_call N) n)"
    "does content M (c_hash c) (rpc_netmap_SetCleanupThreshold c w n) (of_state (netmap_SetCleanupThreshold E n))"
    "does content M (c_hash c) (rpc_netmap_SetConfig c w i key v) (of_state (netmap_SetConfig E i key v))"
    "does content M (c_hash c) (rpc_netmap_SubscribeForNewEpoch c w h) (of_state (netmap_SubscribeForNewEpoch E h))"
    "does content M (c_hash c) (rpc_netmap_UnsubscribeFromNewEpoch c w h) (of_state (netmap_UnsubscribeFromNewEpoch E h))"
    "does content M (c_hash c) (rpc_netmap_UpdateSnapshotCount c w n) (of_state (netmap_UpdateSnapshotCount E n))"
    "does content M (c_hash c) (rpc_netmap_UpdateState c w n k) (of_state (netmap_UpdateState E n (key_bytes L k)))"
  unfolding M_def wrapped
  by (rule call_does [OF assms(2)], simp add: value_arrives [OF assms(1)] del: arg_item.simps(1), simp add: netmap_methods_def method_runs)+

lemma netmap_new_node:
  assumes "client_ok L" and "actor_ok L content c" and "nn_Addresses n \<noteq> None" and "nn_Attributes n \<noteq> None"
  shows "does content (netmap_methods E N) (c_hash c) (rpc_netmap_AddNode L c w (Some n))
    (netmap_AddNode E (nl_resolve N) (nl_containers N) (nl_call N) (node_of L n))"
proof -
  from sent_node [OF assms(1,3,4)] obtain i where sent: "arg_item L (Convertible (NetmapNode2_ToSCParameter L (Some n))) = Inr i"
    and i: "item_node i = Some (node_of L n)" .
  show ?thesis unfolding wrapped
    by (rule call_does [OF assms(2)], simp add: sent del: arg_item.simps(4), simp add: netmap_methods_def method_runs i)
qed

lemma balance_calls:
  assumes "client_ok L" and "actor_ok L content c"
  defines "M \<equiv> \<lambda>E resolver R. balance_methods E resolver R"
  shows "does content (M E resolver R) (c_hash c) (rpc_balance_Burn c w a n details) (balance_Burn E a n details)"
    "does content (M E resolver R) (c_hash c) (rpc_balance_Lock c w details a b n until) (balance_Lock E details a b n until)"
    "does content (M E resolver R) (c_hash c) (rpc_balance_Mint c w a n details) (balance_Mint E a n details)"
    "does content (M E resolver R) (c_hash c) (rpc_balance_NewEpoch c w n) (balance_NewEpoch E n)"
  unfolding M_def wrapped
  by (rule call_does [OF assms(2)], simp add: value_arrives [OF assms(1)] del: arg_item.simps(1), simp add: balance_methods_def method_runs)+

lemma balance_asserted_calls:
  assumes "client_ok L" and "actor_ok L content c"
  shows "does content (balance_methods E resolver R) (c_hash c) (rpc_balance_SettleContainerPayment c w cid)
      (\<lambda>b. asserted (SettleContainerPayment E resolver R cid b))"
    "does content (balance_methods E resolver R) (c_hash c) (rpc_balance_TransferX c w a b n details)
      (\<lambda>s. asserted (balance_TransferX E a b n details s))"
  unfolding wrapped
  by (rule script_does [OF assms(2)], simp add: value_arrives [OF assms(1)] del: arg_item.simps(1), simp add: balance_methods_def method_runs)+

lemma nns_calls:
  fixes E :: env and payment :: "'o nft_payment"
  assumes "client_ok L" and "actor_ok L content c"
  defines "M \<equiv> nns_methods E payment"
  shows "does content M (c_hash c) (rpc_nns_AddNeoRecord c w name a) (of_state (nns_AddNeoRecord E name a))"
    "does content M (c_hash c) (rpc_nns_AddRecord c w name n d) (of_state (nns_AddRecord E name n d))"
    "does content M (c_hash c) (rpc_nns_DeleteNeoRecord c w name a) (of_state (nns_DeleteNeoRecord E name a))"
    "does content M (c_hash c) (rpc_nns_DeleteRecords c w name n) (of_state (nns_DeleteRecords E name n))"
    "does content M (c_hash c) (rpc_nns_RegisterTLD c w name email t1 t2 t3 t4) (of_state (nns_RegisterTLD E name email t1 t2 t3 t4))"
    "does content M (c_hash c) (rpc_nns_Renew c w name n)
      (\<lambda>W. andThen (andThen (nns_Renew E name n (fst W)) (\<lambda>(t, d). Inr (t, d, snd W))) (\<lambda>r. Inr (snd r)))"
    "does content M (c_hash c) (rpc_nns_Renew2 c w name)
      (\<lambda>W. andThen (andThen (nns_RenewDefault E name (fst W)) (\<lambda>(t, d). Inr (t, d, snd W))) (\<lambda>r. Inr (snd r)))"
    "does content M (c_hash c) (rpc_nns_SetAdmin c w name a) (of_state (nns_SetAdmin E name (Some a)))"
    "does content M (c_hash c) (rpc_nns_SetPrice c w n) (of_state (nns_SetPrice E n))"
    "does content M (c_hash c) (rpc_nns_SetRecord c w name n i d) (of_state (nns_SetRecord E name n i d))"
    "does content M (c_hash c) (rpc_nns_UpdateSOA c w name email t1 t2 t3 t4) (of_state (nns_UpdateSOA E name email t1 t2 t3 t4))"
  unfolding M_def wrapped
  by (rule call_does [OF assms(2)], simp add: value_arrives [OF assms(1)] del: arg_item.simps(1), simp add: nns_methods_def method_runs)+

lemma nns_asserted_call:
  assumes "client_ok L" and "actor_ok L content c"
  shows "does content (nns_methods E payment) (c_hash c) (rpc_nns_Register c w name a email t1 t2 t3 t4)
      (\<lambda>W. asserted (nns_Register E payment name a email t1 t2 t3 t4 W))"
  unfolding wrapped
  by (rule script_does [OF assms(2)], simp add: value_arrives [OF assms(1)] del: arg_item.simps(1), simp add: nns_methods_def method_runs)

lemma neofs_calls:
  fixes E :: env and G :: "'o gas_transfer"
  assumes "client_ok L" and "actor_ok L content c"
  defines "M \<equiv> neofs_methods E G"
  shows "does content M (c_hash c) (rpc_neofs_AlphabetUpdate c w i ks) (of_state (neofs_AlphabetUpdate E i (map (key_bytes L) ks)))"
    "does content M (c_hash c) (rpc_neofs_Cheque c w i user n lockAcc) (neofs_Cheque E G i user n lockAcc)"
    "does content M (c_hash c) (rpc_neofs_SetConfig c w i key v) (of_state (neofs_SetConfig E i key v))"
    "does content M (c_hash c) (rpc_neofs_Withdraw c w user n) (neofs_Withdraw E G user n)"
  unfolding M_def wrapped
  by (rule call_does [OF assms(2)], simp add: value_arrives [OF assms(1)] del: arg_item.simps(1), simp add: neofs_methods_def method_runs)+

lemma alphabet_and_reputation_calls:
  assumes "client_ok L" and "actor_ok L content c"
  shows "does content (alphabet_methods E N epoch) (c_hash c) (rpc_alphabet_Emit c w)
      (\<lambda>W. andThen (alph_Emit E N (fst W) (snd W)) (\<lambda>x. Inr (fst W, x)))"
    "does content (alphabet_methods E N epoch) (c_hash c) (rpc_alphabet_Vote c w n ks)
      (\<lambda>W. andThen (alph_Vote E N epoch n (map (key_bytes L) ks) (fst W) (snd W)) (\<lambda>x. Inr (fst W, x)))"
    "does content (reputation_methods E) (c_hash c) (rpc_reputation_Put c w n peer v) (reputation_Put E n peer v)"
    "does content (reputation_methods E) (c_hash c) (rpc_reputation_Version c w) Inr"
  unfolding wrapped
  by (rule call_does [OF assms(2)], simp add: value_arrives [OF assms(1)] del: arg_item.simps(1),
      simp add: alphabet_methods_def reputation_methods_def method_runs)+

end
