(* ===== verification/Contract_Answers.thy ===== *)
theory Contract_Answers
  imports Contract_Methods
begin

text \<open>
  The readers of the wrappers. A call of a safe method ends with an item, or with an iterator that the node expands
  to its first items; \<open>reader_ok\<close> is what an invoker and the functions of the package \<open>unwrap\<close> do with it. The
  readers of the wrappers then return what the contract's methods return.
\<close>

section \<open>Answers of a node\<close>

datatype reply = Answer item | Iterator "item list"

type_synonym 'd vm_reader = "(string \<times> nat) \<times> (item list \<Rightarrow> 'd \<Rightarrow> reply res)"

definition ask :: "'d vm_reader list \<Rightarrow> 'd \<Rightarrow> string \<Rightarrow> item list \<Rightarrow> reply res" where
  "ask methods d m is = (case map_of methods (m, length is) of None \<Rightarrow> Inl (Fault ''method not found'') | Some f \<Rightarrow> f is d)"

definition unwraps :: "(error \<Rightarrow> string) \<Rightarrow> (item \<Rightarrow> 'a go) \<Rightarrow> reply res \<Rightarrow> 'a go" where
  "unwraps fault f r = (case r of Inl e \<Rightarrow> Inl (Err (fault e)) | Inr (Answer i) \<Rightarrow> f i | Inr (Iterator _) \<Rightarrow> Inl (Err ''interop item''))"

definition expands :: "(error \<Rightarrow> string) \<Rightarrow> int \<Rightarrow> reply res \<Rightarrow> item list go" where
  "expands fault n r = (case r of Inl e \<Rightarrow> Inl (Err (fault e)) | Inr (Answer _) \<Rightarrow> Inl (Err ''not an iterator'')
     | Inr (Iterator is) \<Rightarrow> Inr (take (nat n) is))"

definition reader_ok :: "'k client \<Rightarrow> (error \<Rightarrow> string) \<Rightarrow> 'd vm_reader list \<Rightarrow> 'd \<Rightarrow> ('k, 'r, 'i) ContractReader \<Rightarrow> bool" where
  "reader_ok L fault methods d R \<longleftrightarrow> (\<forall>m args is. mapR (arg_item L) args = Inr is \<longrightarrow>
     unwrap R i_Item (inv_call R m args) = unwraps fault Inr (ask methods d m is) \<and>
     unwrap R i_BigInt (inv_call R m args) = unwraps fault (try_integer L) (ask methods d m is) \<and>
     unwrap R i_Bool (inv_call R m args) = unwraps fault (try_bool L) (ask methods d m is) \<and>
     unwrap R i_Bytes (inv_call R m args) = unwraps fault (try_bytes L) (ask methods d m is) \<and>
     unwrap R i_UTF8String (inv_call R m args) = unwraps fault (item_string L) (ask methods d m is) \<and>
     unwrap R i_Uint160 (inv_call R m args) = unwraps fault (item_uint160 L) (ask methods d m is) \<and>
     unwrap R i_ArrayOfUTF8Strings (inv_call R m args) = unwraps fault (item_list (item_string L)) (ask methods d m is) \<and>
     unwrap R i_ArrayOfBytes (inv_call R m args) = unwraps fault (item_list (try_bytes L)) (ask methods d m is) \<and>
     (\<forall>n. unwrap R i_Array (inv_expand R m n args) = expands fault n (ask methods d m is)))"

lemma reader_okD:
  assumes "reader_ok L fault methods d R" and "mapR (arg_item L) args = Inr is"
  shows "unwrap R i_Item (inv_call R m args) = unwraps fault Inr (ask methods d m is)"
    "unwrap R i_BigInt (inv_call R m args) = unwraps fault (try_integer L) (ask methods d m is)"
    "unwrap R i_Bool (inv_call R m args) = unwraps fault (try_bool L) (ask methods d m is)"
    "unwrap R i_Bytes (inv_call R m args) = unwraps fault (try_bytes L) (ask methods d m is)"
    "unwrap R i_UTF8String (inv_call R m args) = unwraps fault (item_string L) (ask methods d m is)"
    "unwrap R i_Uint160 (inv_call R m args) = unwraps fault (item_uint160 L) (ask methods d m is)"
    "unwrap R i_ArrayOfUTF8Strings (inv_call R m args) = unwraps fault (item_list (item_string L)) (ask methods d m is)"
    "unwrap R i_ArrayOfBytes (inv_call R m args) = unwraps fault (item_list (try_bytes L)) (ask methods d m is)"
    "unwrap R i_Array (inv_expand R m n args) = expands fault n (ask methods d m is)"
  using assms unfolding reader_ok_def by blast+

text \<open>What a method returns, as an answer.\<close>

definition answers :: "('a \<Rightarrow> item) \<Rightarrow> 'a res \<Rightarrow> reply res" where
  "answers f r = andThen r (\<lambda>x. Inr (Answer (f x)))"

definition iterates :: "('a \<Rightarrow> item) \<Rightarrow> 'a list res \<Rightarrow> reply res" where
  "iterates f r = andThen r (\<lambda>xs. Inr (Iterator (map f xs)))"

definition bytes_item :: "bytes option \<Rightarrow> item" where
  "bytes_item b = (case b of None \<Rightarrow> INull | Some b \<Rightarrow> IBytes b)"

text \<open>What the client gets: the value, or an error with the text of the fault.\<close>

definition answered :: "(error \<Rightarrow> string) \<Rightarrow> 'a res \<Rightarrow> 'a go" where
  "answered fault r = (case r of Inl e \<Rightarrow> Inl (Err (fault e)) | Inr x \<Rightarrow> Inr x)"

lemma answer_unwrapped:
  assumes "\<And>x. r = Inr x \<Longrightarrow> f (g x) = Inr x"
  shows "unwraps fault f (answers g r) = answered fault r"
  using assms by (cases r) (simp_all add: unwraps_def answers_def answered_def)

section \<open>The Netmap contract\<close>

definition map_item :: "(string \<times> string) list \<Rightarrow> item" where
  "map_item kvs = IMap (map (\<lambda>(k, v). (IBytes k, IBytes v)) kvs)"

definition node_item :: "node2 \<Rightarrow> item" where
  "node_item n = IStruct [IArray (map IBytes (Addresses n)), map_item (Attributes n), IBytes (Key n), IInt (State n)]"

definition candidate_item :: "candidate \<Rightarrow> item" where
  "candidate_item c = IStruct [IArray (map IBytes (Addresses c)), map_item (Attributes c), IBytes (Key c), IInt (State c),
     IInt (LastActiveEpoch c)]"

definition config_item :: "bytes \<times> bytes \<Rightarrow> item" where
  "config_item kv = IStruct [IBytes (fst kv), IBytes (snd kv)]"

definition netmap_readers :: "netmap vm_reader list" where
  "netmap_readers =
     [((''cleanupThreshold'', 0), \<lambda>a d. answers IInt (netmap_CleanupThreshold d)),
      ((''config'', 1), \<lambda>a d. answers bytes_item (netmap_Config (bytes_of (a ! 0)) d)),
      ((''epoch'', 0), \<lambda>a d. answers IInt (netmap_Epoch d)),
      ((''getEpochBlock'', 1), \<lambda>a d. answers IInt (netmap_GetEpochBlock (int_of (a ! 0)) d)),
      ((''getEpochBlockByTime'', 1), \<lambda>a d. answers IInt (netmap_GetEpochBlockByTime (int_of (a ! 0)) d)),
      ((''getEpochTime'', 1), \<lambda>a d. answers IInt (netmap_GetEpochTime (int_of (a ! 0)) d)),
      ((''isStorageNode'', 1), \<lambda>a d. answers IBool (netmap_IsStorageNode (bytes_of (a ! 0)) d)),
      ((''isStorageNode'', 2), \<lambda>a d. answers IBool (netmap_IsStorageNodeInEpoch (bytes_of (a ! 0)) (int_of (a ! 1)) d)),
      ((''isStorageNodeStatus'', 3), \<lambda>a d. answers IBool
         (netmap_IsStorageNodeStatus (bytes_of (a ! 0)) (int_of (a ! 1)) (int_of (a ! 2)) d)),
      ((''lastEpochTime'', 0), \<lambda>a d. answers IInt (netmap_LastEpochTime d)),
      ((''listCandidates'', 0), \<lambda>a d. iterates candidate_item (netmap_ListCandidates d)),
      ((''listConfig'', 0), \<lambda>a d. answers (\<lambda>kvs. IArray (map config_item kvs)) (netmap_ListConfig d)),
      ((''listNodes'', 0), \<lambda>a d. iterates node_item (netmap_ListNodes d)),
      ((''listNodes'', 1), \<lambda>a d. iterates node_item (netmap_ListNodesEpoch (int_of (a ! 0)) d)),
      ((''listNodesVersion'', 1), \<lambda>a d. iterates node_item (netmap_ListNodesVersion (int_of (a ! 0)) d)),
      ((''networkMapVersion'', 0), \<lambda>a d. answers IInt (netmap_NetworkMapVersion d))]"

lemma netmap_numbers:
  assumes "client_ok L" and "reader_ok L fault netmap_readers d R"
  shows "rpc_netmap_Epoch R = answered fault (netmap_Epoch d)"
    "rpc_netmap_CleanupThreshold R = answered fault (netmap_CleanupThreshold d)"
    "rpc_netmap_GetEpochBlock R n = answered fault (netmap_GetEpochBlock n d)"
    "rpc_netmap_GetEpochBlockByTime R n = answered fault (netmap_GetEpochBlockByTime n d)"
    "rpc_netmap_GetEpochTime R n = answered fault (netmap_GetEpochTime n d)"
    "rpc_netmap_IsStorageNode R k = answered fault (netmap_IsStorageNode (key_bytes L k) d)"
    "rpc_netmap_IsStorageNode2 R k n = answered fault (netmap_IsStorageNodeInEpoch (key_bytes L k) n d)"
    "rpc_netmap_IsStorageNodeStatus R k n s = answered fault (netmap_IsStorageNodeStatus (key_bytes L k) n s d)"
    "rpc_netmap_LastEpochTime R = answered fault (netmap_LastEpochTime d)"
    "rpc_netmap_NetworkMapVersion R = answered fault (netmap_NetworkMapVersion d)"
  unfolding rpc_netmap_Epoch_def rpc_netmap_CleanupThreshold_def rpc_netmap_GetEpochBlock_def rpc_netmap_GetEpochBlockByTime_def
    rpc_netmap_GetEpochTime_def rpc_netmap_IsStorageNode_def rpc_netmap_IsStorageNode2_def rpc_netmap_IsStorageNodeStatus_def
    rpc_netmap_LastEpochTime_def rpc_netmap_NetworkMapVersion_def
  by (subst reader_okD [OF assms(2)], simp add: value_arrives [OF assms(1)] del: arg_item.simps(1),
      simp add: ask_def netmap_readers_def answer_unwrapped client_okD(1,3) [OF assms(1)])+

text \<open>A node as a client has it, with the key it decodes.\<close>

definition node_view :: "'k \<Rightarrow> node2 \<Rightarrow> 'k NetmapNode2" where
  "node_view k n = \<lparr>nn_Addresses = Some (Addresses n), nn_Attributes = Some (Attributes n), nn_Key = k, nn_State = State n\<rparr>"

definition candidate_view :: "'k \<Rightarrow> candidate \<Rightarrow> 'k NetmapCandidate" where
  "candidate_view k c = \<lparr>nc_Addresses = Some (Addresses c), nc_Attributes = Some (Attributes c), nc_Key = k, nc_State = State c,
     nc_LastActiveEpoch = LastActiveEpoch c\<rparr>"

definition node_readable :: "'k client \<Rightarrow> (node2 \<Rightarrow> 'k) \<Rightarrow> node2 \<Rightarrow> bool" where
  "node_readable L key n \<longleftrightarrow> key_bytes L (key n) = Key n \<and> (\<forall>s \<in> set (Addresses n). utf8_valid s) \<and>
     distinct (map fst (Attributes n)) \<and> (\<forall>(k, v) \<in> set (Attributes n). utf8_valid k \<and> utf8_valid v)"

lemma node_fields_read:
  assumes "client_ok L" and "node_readable L key n"
  shows "item_list (item_string L) (IArray (map IBytes (Addresses n))) = Inr (Addresses n)"
    "item_string_map L (map_item (Attributes n)) = Inr (Attributes n)" "item_key L (IBytes (Key n)) = Inr (key n)"
proof -
  have "item_list (item_string L) (IArray (map IBytes (Addresses n))) = Inr (map (\<lambda>s. s) (Addresses n))"
    by (rule item_list_map) (use assms(2) in \<open>auto simp: node_readable_def item_fields [OF assms(1)]\<close>)
  then show "item_list (item_string L) (IArray (map IBytes (Addresses n))) = Inr (Addresses n)" by simp
  show "item_string_map L (map_item (Attributes n)) = Inr (Attributes n)"
    unfolding map_item_def by (rule item_string_map_back [OF assms(1)]) (use assms(2) in \<open>simp_all add: node_readable_def\<close>)
  from assms(2) have "Key n = key_bytes L (key n)" by (simp add: node_readable_def)
  then show "item_key L (IBytes (Key n)) = Inr (key n)" by (simp add: item_fields(4) [OF assms(1)] client_okD(7) [OF assms(1)])
qed

lemma node_read:
  assumes "client_ok L" and "node_readable L key n"
  shows "NetmapNode2_FromStackItem L (node_item n) = Inr (node_view (key n) n)"
  by (simp add: NetmapNode2_FromStackItem_def node_item_def node_view_def struct_items_def node_fields_read [OF assms] client_okD(1) [OF assms(1)])

lemma candidate_read:
  assumes "client_ok L" and "node_readable L key (node2.truncate c)"
  shows "NetmapCandidate_FromStackItem L (candidate_item c) = Inr (candidate_view (key (node2.truncate c)) c)"
  using node_fields_read [OF assms]
  by (simp add: NetmapCandidate_FromStackItem_def candidate_item_def candidate_view_def struct_items_def client_okD(1) [OF assms(1)] node2.defs)

lemma items_read:
  assumes "r = Inr xs" and "length xs \<le> nat m" and "\<And>x. x \<in> set xs \<Longrightarrow> f (g x) = Inr (h x)"
  shows "andThen (expands fault m (iterates g r)) (mapR f) = Inr (map h xs)"
proof -
  have "mapR f (map g xs) = Inr (map h xs)" using assms(3) by (induction xs) auto
  then show ?thesis using assms(1,2) by (simp add: expands_def iterates_def)
qed

lemma netmap_lists:
  assumes "client_ok L" and "reader_ok L fault netmap_readers d R"
  shows "rpc_netmap_ListNodesExpanded R m = expands fault m (iterates node_item (netmap_ListNodes d))"
    "rpc_netmap_ListNodes2Expanded R n m = expands fault m (iterates node_item (netmap_ListNodesEpoch n d))"
    "rpc_netmap_ListNodesVersionExpanded R n m = expands fault m (iterates node_item (netmap_ListNodesVersion n d))"
    "rpc_netmap_ListCandidatesExpanded R m = expands fault m (iterates candidate_item (netmap_ListCandidates d))"
  unfolding rpc_netmap_ListNodesExpanded_def rpc_netmap_ListNodes2Expanded_def rpc_netmap_ListNodesVersionExpanded_def
    rpc_netmap_ListCandidatesExpanded_def
  by (subst reader_okD [OF assms(2)], simp add: value_arrives [OF assms(1)] del: arg_item.simps(1),
      simp add: ask_def netmap_readers_def)+

lemma netmap_settings:
  assumes "client_ok L" and "reader_ok L fault netmap_readers d R"
  shows "netmap_Config key d = Inr (Some v) \<Longrightarrow> rpc_netmap_Config R key = Inr v"
    "netmap_ListConfig d = Inr kvs \<Longrightarrow> rpc_netmap_ListConfig L R = Inr (map (\<lambda>kv. Some \<lparr>ncr_Key = fst kv, ncr_Value = snd kv\<rparr>) kvs)"
proof -
  have "rpc_netmap_Config R key = unwraps fault (try_bytes L) (answers bytes_item (netmap_Config key d))"
    unfolding rpc_netmap_Config_def
    by (subst reader_okD [OF assms(2)], simp add: value_arrives [OF assms(1)] del: arg_item.simps(1),
      simp add: ask_def netmap_readers_def)
  then show "rpc_netmap_Config R key = Inr v" if "netmap_Config key d = Inr (Some v)"
    using that by (simp add: unwraps_def answers_def bytes_item_def client_okD(2) [OF assms(1)])
  have read: "itemToNetmapConfigRecord L (Inr (config_item kv)) = Inr (Some \<lparr>ncr_Key = fst kv, ncr_Value = snd kv\<rparr>)" for kv
    by (simp add: itemToNetmapConfigRecord_def item_to_def NetmapConfigRecord_FromStackItem_def config_item_def struct_items_def
        client_okD(2) [OF assms(1)])
  have "rpc_netmap_ListConfig L R = andThen (unwraps fault Inr (answers (\<lambda>kvs. IArray (map config_item kvs)) (netmap_ListConfig d)))
      (item_list (\<lambda>x. itemToNetmapConfigRecord L (Inr x)))"
    unfolding rpc_netmap_ListConfig_def
    by (subst reader_okD [OF assms(2)], simp, simp add: ask_def netmap_readers_def)
  then show "rpc_netmap_ListConfig L R = Inr (map (\<lambda>kv. Some \<lparr>ncr_Key = fst kv, ncr_Value = snd kv\<rparr>) kvs)" if "netmap_ListConfig d = Inr kvs"
    using that read by (simp add: unwraps_def answers_def item_list_map)
qed

section \<open>A node\<close>

text \<open>An invoker of a node in the state \<open>d\<close>; it keeps no sessions.\<close>

definition node_invoker :: "'k client \<Rightarrow> (error \<Rightarrow> string) \<Rightarrow> 'd vm_reader list \<Rightarrow> 'd \<Rightarrow> ('k, reply res, unit) invoker" where
  "node_invoker L fault methods d = (let
     call = (\<lambda>m args. case mapR (arg_item L) args of Inl _ \<Rightarrow> Inl (Fault ''invalid argument'') | Inr is \<Rightarrow> ask methods d m is) in
     \<lparr>i_Call = (\<lambda>h. call),
      i_CallAndExpandIterator = (\<lambda>h m n args. case call m args of Inr (Iterator is) \<Rightarrow> Inr (Iterator (take (nat n) is)) | r \<Rightarrow> r),
      i_Item = unwraps fault Inr, i_BigInt = unwraps fault (try_integer L), i_Bool = unwraps fault (try_bool L),
      i_Bytes = unwraps fault (try_bytes L), i_UTF8String = unwraps fault (item_string L), i_Uint160 = unwraps fault (item_uint160 L),
      i_ArrayOfUTF8Strings = unwraps fault (item_list (item_string L)), i_ArrayOfBytes = unwraps fault (item_list (try_bytes L)),
      i_Array = (\<lambda>r. case r of Inl e \<Rightarrow> Inl (Err (fault e)) | Inr (Answer _) \<Rightarrow> Inl (Err ''not an iterator'') | Inr (Iterator is) \<Rightarrow> Inr is),
      i_SessionIterator = (\<lambda>_. Inl (Err ''sessions are disabled''))\<rparr>)"

lemma node_reader_ok: "reader_ok L fault methods d (NewReader (node_invoker L fault methods d) h)"
  unfolding reader_ok_def
  by (auto simp: NewReader_def node_invoker_def inv_call_def inv_expand_def expands_def Let_def split: sum.split reply.split)

end
