(* ===== verification/Client_Names.thy ===== *)
theory Client_Names
  imports Contract_Answers NNS_State Common_Properties
begin

text \<open>
  Contracts by their names, off the chain: \<open>rpc/nns/hashes.go\<close>, the client's counterpart of \<open>common/nns.go\<close>. The
  deployment publishes the hash of a contract as a text record; the theory follows the record from the NNS
  contract to the client and to the other contracts.
\<close>

section \<open>Addresses in records\<close>

definition nns_ID :: int where "nns_ID = 1"

definition nns_ContractTLD :: string where "nns_ContractTLD = ''neofs''"

definition nep18Prefix :: string where "nep18Prefix = ''address=''"

text \<open>The two decoders of the client library; only whether they fail is used of an error.\<close>

record decoders =
  Uint160DecodeStringLE :: "string \<Rightarrow> bytes option"
  StringToUint160 :: "string \<Rightarrow> bytes option"

text \<open>\<open>strings.TrimPrefix\<close>.\<close>

definition TrimPrefix :: "string \<Rightarrow> string \<Rightarrow> string" where
  "TrimPrefix s p = (if prefix p s then drop (length p) s else s)"

definition AddressFromRecord :: "decoders \<Rightarrow> string \<Rightarrow> bytes go" where
  "AddressFromRecord A s = (case Uint160DecodeStringLE A s of
     Some h \<Rightarrow> Inr h
   | None \<Rightarrow> (case StringToUint160 A (TrimPrefix s nep18Prefix) of
       Some h \<Rightarrow> Inr h
     | None \<Rightarrow> Inl (Err ''no valid address found'')))"

primrec AddressFromRecords :: "decoders \<Rightarrow> string list \<Rightarrow> bytes go" where
  "AddressFromRecords A [] = Inl (Err ''no valid addresses are found'')"
| "AddressFromRecords A (s # strs) = (case AddressFromRecord A s of Inr h \<Rightarrow> Inr h | Inl _ \<Rightarrow> AddressFromRecords A strs)"

definition rpc_ResolveFSContract :: "decoders \<Rightarrow> ('k, 'r, 'i) ContractReader \<Rightarrow> string \<Rightarrow> bytes go" where
  "rpc_ResolveFSContract A R name = andThen (rpc_nns_Resolve R (name @ ''.'' @ nns_ContractTLD) RT_TXT) (AddressFromRecords A)"

text \<open>The argument asks the node for the hash of the contract with an identifier.\<close>

definition InferHash :: "(int \<Rightarrow> bytes go) \<Rightarrow> bytes go" where
  "InferHash getter = getter nns_ID"

definition NewInferredReader :: "(int \<Rightarrow> bytes go) \<Rightarrow> ('k, 'r, 'i) invoker \<Rightarrow> ('k, 'r, 'i) ContractReader go" where
  "NewInferredReader getter I = andThen (InferHash getter) (\<lambda>h. Inr (NewReader I h))"

definition NewInferred :: "(int \<Rightarrow> bytes go) \<Rightarrow> ('k, 't, 's) actor \<Rightarrow> ('k, 't, 's) Contract go" where
  "NewInferred getter A = andThen (InferHash getter) (\<lambda>h. Inr (New A h))"

section \<open>The NNS on a node\<close>

definition nns_readers :: "env \<Rightarrow> nns vm_reader list" where
  "nns_readers E =
     [((''getAllRecords'', 1), \<lambda>a d. iterates (\<lambda>r. IStruct [IBytes (rs_Name r), IInt (rs_Type r), IBytes (rs_Data r), IInt (rs_ID r)])
         (nns_GetAllRecords E (bytes_of (a ! 0)) d)),
      ((''getNeoRecordsIterator'', 1), \<lambda>a d. iterates IBytes (nns_GetNeoRecordsIterator E (bytes_of (a ! 0)) d)),
      ((''getPrice'', 0), \<lambda>a d. answers IInt (nns_GetPrice d)),
      ((''getRecords'', 2), \<lambda>a d. answers (\<lambda>rs. IArray (map IBytes rs)) (nns_GetRecords E (bytes_of (a ! 0)) (int_of (a ! 1)) d)),
      ((''hasNeoRecord'', 2), \<lambda>a d. answers IBool (nns_HasNeoRecord E (bytes_of (a ! 0)) (bytes_of (a ! 1)) d)),
      ((''isAvailable'', 1), \<lambda>a d. answers IBool (nns_IsAvailable E (bytes_of (a ! 0)) d)),
      ((''resolve'', 2), \<lambda>a d. answers (\<lambda>rs. IArray (map IBytes rs)) (nns_Resolve E (bytes_of (a ! 0)) (int_of (a ! 1)) d)),
      ((''resolveNeoIterator'', 1), \<lambda>a d. iterates IBytes (nns_ResolveNeoIterator E (bytes_of (a ! 0)) d)),
      ((''roots'', 0), \<lambda>a d. iterates IBytes (Inr (nns_Roots d)))]"

lemma texts_read:
  assumes "client_ok L" and "\<forall>s \<in> set ss. utf8_valid s"
  shows "item_list (item_string L) (IArray (map IBytes ss)) = Inr ss"
  using item_list_map [of ss "item_string L" IBytes "\<lambda>s. s"] assms(2) by (simp add: item_fields(1) [OF assms(1)])

lemma nns_answers:
  assumes "client_ok L" and "reader_ok L fault (nns_readers E) d R"
  shows "rpc_nns_GetPrice R = answered fault (nns_GetPrice d)"
    "rpc_nns_HasNeoRecord R name a = answered fault (nns_HasNeoRecord E name a d)"
    "rpc_nns_IsAvailable R name = answered fault (nns_IsAvailable E name d)"
  unfolding rpc_nns_GetPrice_def rpc_nns_HasNeoRecord_def rpc_nns_IsAvailable_def
  by (subst reader_okD [OF assms(2)], simp add: value_arrives [OF assms(1)] del: arg_item.simps(1),
      simp add: ask_def nns_readers_def answer_unwrapped client_okD(1,3) [OF assms(1)])+

lemma nns_texts:
  assumes "client_ok L" and "reader_ok L fault (nns_readers E) d R"
  shows "(\<And>rs. nns_Resolve E name n d = Inr rs \<Longrightarrow> \<forall>s \<in> set rs. utf8_valid s) \<Longrightarrow>
      rpc_nns_Resolve R name n = answered fault (nns_Resolve E name n d)"
    "(\<And>rs. nns_GetRecords E name n d = Inr rs \<Longrightarrow> \<forall>s \<in> set rs. utf8_valid s) \<Longrightarrow>
      rpc_nns_GetRecords R name n = answered fault (nns_GetRecords E name n d)"
  unfolding rpc_nns_Resolve_def rpc_nns_GetRecords_def
  by (subst reader_okD [OF assms(2)], simp add: value_arrives [OF assms(1)] del: arg_item.simps(1),
      simp add: ask_def nns_readers_def answer_unwrapped texts_read [OF assms(1)])+

section \<open>A record that was added\<close>

text \<open>The name has records, but neither texts nor an alias: a name that was just registered.\<close>

definition no_texts :: "env \<Rightarrow> string \<Rightarrow> nns \<Rightarrow> bool" where
  "no_texts E name c \<longleftrightarrow> (\<forall>tok. tokenIDFromName E name c = Inr tok \<longrightarrow> (\<forall>v \<in> set (find_values (getRecordsKey E tok name) c).
     \<exists>r. v = Ser (SRecord r) \<and> rs_Type r \<noteq> RT_TXT \<and> rs_Type r \<noteq> RT_CNAME))"

lemma filter_one:
  assumes "distinct (map fst xs)" and "(k, v) \<in> set xs" and "\<And>k' v'. (k', v') \<in> set xs \<Longrightarrow> P v' \<longleftrightarrow> k' = k"
  shows "filter P (map snd xs) = [v]"
proof -
  obtain ys zs where xs: "xs = ys @ (k, v) # zs" using assms(2) by (auto dest: split_list)
  have "\<not> P v'" if "(k', v') \<in> set ys \<union> set zs" for k' v'
    using that assms(1,3) unfolding xs by (force simp: image_iff)
  then have "\<forall>w \<in> set (map snd ys) \<union> set (map snd zs). \<not> P w" by fastforce
  then have "filter P (map snd ys) = []" "filter P (map snd zs) = []" by (auto simp: filter_empty_conv)
  moreover have "P v" using assms(2,3) by blast
  ultimately show ?thesis by (simp add: xs)
qed

lemma record_keys_differ: "getIdRecordKey E t n RT_TXT i = Inr k \<Longrightarrow> getIdRecordKey E t' n' RT_SOA j = Inr k' \<Longrightarrow> k \<noteq> k'"
  by (auto simp: getIdRecordKey_def set_byte_def RT_TXT_def RT_SOA_def split: if_splits)

lemma nns_record_iff: "nns_record v = Inr r \<longleftrightarrow> v = Ser (SRecord r)"
proof (cases v)
  case (Ser x)
  then show ?thesis by (cases x) (simp_all add: nns_record_def)
qed (simp add: nns_record_def deserialize_def)

lemma soa_serial_updated:
  assumes "updateSoaSerial E tok c = Inr c'"
  obtains k rec d where "getIdRecordKey E tok tok RT_SOA 0 = Inr k" "LocalGet k c = Some (Ser (SRecord rec))"
    "c' = LocalPut k (Ser (SRecord (rec\<lparr>rs_Data := d\<rparr>))) c"
  using assms by (auto simp: updateSoaSerial_def nns_record_iff Let_def split: option.splits if_splits)

lemma added_text_records:
  assumes "nns_AddRecord E name RT_TXT text' c = Inr c'" and "no_texts E name c" and "contract_ok c"
  obtains tok ns rs where "tokenIDFromName E name c = Inr tok"
    "getFragmentedNameState E tok (string_split CHR ''.'' tok) c = Inr ns"
    "mapR nns_record (find_values (getRecordsKey E tok name) c') = Inr rs"
    "map rs_Data (filter (\<lambda>r. rs_Type r = RT_TXT) rs) = [text']" "last_cname rs = []"
proof -
  from assms(1) obtain tok ns i c1 where tok: "tokenIDFromName E name c = Inr tok"
    and ns: "getFragmentedNameState E tok (string_split CHR ''.'' tok) c = Inr ns"
    and c1: "storeRecord E tok name RT_TXT i text' c = Inr c1" and c': "updateSoaSerial E tok c1 = Inr c'"
    by (auto simp: nns_AddRecord_def checkRecord_def RT_A_def RT_CNAME_def RT_TXT_def RT_AAAA_def RT_Neo_def Let_def split: if_splits)
  let ?p = "getRecordsKey E tok name"
  let ?new = "\<lparr>rs_Name = name, rs_Type = RT_TXT, rs_Data = text', rs_ID = i\<rparr>"
  from c1 obtain k where k: "getIdRecordKey E tok name RT_TXT i = Inr k" and c1: "c1 = LocalPut k (Ser (SRecord ?new)) c"
    by (auto simp: storeRecord_def)
  from c' obtain ks rec d where ks: "getIdRecordKey E tok tok RT_SOA 0 = Inr ks" and rec: "LocalGet ks c1 = Some (Ser (SRecord rec))"
    and c': "c' = LocalPut ks (Ser (SRecord (rec\<lparr>rs_Data := d\<rparr>))) c1"
    by (rule soa_serial_updated)
  have differ: "k \<noteq> ks" using record_keys_differ [OF k ks] .
  have ok': "contract_ok c'" using assms(3) by (simp add: c' c1)
  have old: "\<exists>r. v = Ser (SRecord r) \<and> rs_Type r \<noteq> RT_TXT \<and> rs_Type r \<noteq> RT_CNAME"
    if "LocalGet q c = Some v" "prefix ?p q" for q v
  proof -
    from that have "v \<in> set (find_values ?p c)" using LocalFind_iff [OF assms(3)] by (force simp: find_values_def image_iff)
    then show ?thesis using assms(2) tok by (simp add: no_texts_def)
  qed
  have entries: "\<exists>r. v = Ser (SRecord r) \<and> (if q = k then r = ?new else rs_Type r \<noteq> RT_TXT \<and> rs_Type r \<noteq> RT_CNAME)"
    if "(q, v) \<in> set (LocalFind ?p c')" for q v
  proof -
    from that have q: "prefix ?p q" "LocalGet q c' = Some v" using LocalFind_iff [OF ok'] by auto
    show ?thesis using q old [OF _ q(1)] rec differ by (auto simp: c' c1 split: if_splits)
  qed
  have new: "(k, Ser (SRecord ?new)) \<in> set (LocalFind ?p c')"
    using k differ LocalFind_iff [OF ok'] by (auto simp: c' c1 getIdRecordKey_def)
  define record_of where "record_of = (\<lambda>v. case v of Ser (SRecord r) \<Rightarrow> r | _ \<Rightarrow> ?new)"
  have rs: "mapR nns_record (find_values ?p c') = Inr (map record_of (find_values ?p c'))"
    by (rule mapR_map) (use entries in \<open>force simp: find_values_def nns_record_def record_of_def\<close>)
  have "filter (\<lambda>v. rs_Type (record_of v) = RT_TXT) (map snd (LocalFind ?p c')) = [Ser (SRecord ?new)]"
    by (rule filter_one [OF LocalFind_distinct [OF ok'] new]) (use entries in \<open>force simp: record_of_def split: if_splits\<close>)
  then have "map record_of (filter (\<lambda>v. rs_Type (record_of v) = RT_TXT) (find_values ?p c')) = [?new]"
    by (simp add: find_values_def record_of_def)
  then have "map rs_Data (filter (\<lambda>r. rs_Type r = RT_TXT) (map record_of (find_values ?p c'))) = [text']"
    by (simp add: filter_map comp_def)
  moreover have "last_cname (map record_of (find_values ?p c')) = []"
  proof -
    have "rs_Type r \<noteq> RT_CNAME" if "r \<in> set (map record_of (find_values ?p c'))" for r
      using that entries by (force simp: find_values_def record_of_def RT_TXT_def RT_CNAME_def split: if_splits)
    moreover have "fold (\<lambda>r cname. if rs_Type r = RT_CNAME then rs_Data r else cname) xs a = a"
      if "\<forall>r \<in> set xs. rs_Type r \<noteq> RT_CNAME" for xs and a using that by (induction xs) auto
    ultimately show ?thesis unfolding last_cname_def by blast
  qed
  ultimately show thesis by (rule that [OF tok ns rs])
qed

text \<open>Names are looked up in the tokens only.\<close>

lemma token_walk_same: "token_same c d \<Longrightarrow> token_walk E n fs rest d = token_walk E n fs rest c"
  by (induction E n fs rest c rule: token_walk.induct) (auto simp: token_same_def split: option.split intro!: andThen_cong)

lemma parent_walk_same: "token_same c d \<Longrightarrow> parent_walk E fs n d = parent_walk E fs n c"
  by (induction E fs n c rule: parent_walk.induct) (auto simp: token_same_def Let_def split: option.split intro!: andThen_cong)

lemma names_same:
  assumes "token_same c d"
  shows "tokenIDFromName E n d = tokenIDFromName E n c" "getFragmentedNameState E t fs d = getFragmentedNameState E t fs c"
  using assms by (simp_all add: tokenIDFromName_def token_walk_same [OF assms] getFragmentedNameState_def parentExpired_def
      parent_walk_same [OF assms] getNameStateWithKey_def token_same_def)

lemma added_text_resolves:
  assumes "nns_AddRecord E name RT_TXT text' c = Inr c'" and "no_texts E name c" and "contract_ok c"
    and "CHR ''.'' \<in> set name" and "last name \<noteq> CHR ''.''"
  shows "nns_Resolve E name RT_TXT c' = Inr [text']"
proof -
  from added_text_records [OF assms(1-3)] obtain tok ns rs where tok: "tokenIDFromName E name c = Inr tok"
    and ns: "getFragmentedNameState E tok (string_split CHR ''.'' tok) c = Inr ns"
    and rs: "mapR nns_record (find_values (getRecordsKey E tok name) c') = Inr rs"
    and texts: "map rs_Data (filter (\<lambda>r. rs_Type r = RT_TXT) rs) = [text']" "last_cname rs = []" .
  note same = names_same [OF token_same_AddRecord [OF assms(1)]]
  have "getFragmentedNameState E tok [] c = getFragmentedNameState E tok (string_split CHR ''.'' tok) c"
    by (simp add: getFragmentedNameState_def)
  then have "getFragmentedNameState E tok [] c' = Inr ns" by (simp only: ns same(2))
  then have "getAllRecords E name [] c' = Inr (find_values (getRecordsKey E tok name) c')"
    using tok same(1) by (simp add: getAllRecords_def)
  moreover have "length (string_split CHR ''.'' name) \<noteq> 1" using assms(4) string_split_single by blast
  moreover have "name \<noteq> []" using assms(4) by auto
  ultimately show ?thesis using rs texts assms(5)
    by (simp add: nns_Resolve_def RT_TXT_def RT_Neo_def RT_CNAME_def resolve.simps [of E "[]"] drop_last_dot_def Let_def)
qed

end
