(* ===== verification/Client_Properties.thy ===== *)
theory Client_Properties
  imports Wrapper_Properties Client_Names Container_Properties
begin

text \<open>
  What a user of the client wrappers can rely on: a call does on the chain what its name says, the network map and
  its settings are read as the contract keeps them, and a contract is found under the name it was published by.
\<close>

section \<open>Calls\<close>

text \<open>C8: a client's transactions to Container and Netmap do what was asked. Whenever a method of the wrappers returns
  a transaction, in whichever of the three ways, its execution runs the operation of that name of the contract with
  the arguments in their places, whatever the state: all writers of both wrappers, also where two of them share a
  method by their number of arguments; a container arrives as the structure that was sent, a node with its
  addresses and attributes.\<close>

theorem client_calls_containers_and_nodes:
  fixes E :: env and S :: "'o services" and N :: "'p netmap_links" and content :: "'t submitted \<Rightarrow> invocation"
    and c :: "('k, 't, 's) Contract"
  assumes "client_ok L" and "actor_ok L content c" and "sendable info" and "nn_Addresses node \<noteq> None" and "nn_Attributes node \<noteq> None"
  shows "(does content (container_methods E S) (c_hash c) (rpc_container_AddNextEpochNodes c w cid n ks)
        (of_state (AddNextEpochNodes E cid n (map (key_bytes L) ks))) \<and>
      does content (container_methods E S) (c_hash c) (rpc_container_CommitContainerListUpdate c w cid replicas)
        (of_state (CommitContainerListUpdate E cid replicas)) \<and>
      does content (container_methods E S) (c_hash c) (rpc_container_PutReport c w cid n m k) (PutReport E S cid n m (key_bytes L k)) \<and>
      does content (container_methods E S) (c_hash c) (rpc_container_SetAttribute c w cid a v t is vs tok)
        (of_state (SetAttribute E cid a v t)) \<and>
      does content (container_methods E S) (c_hash c) (rpc_container_RemoveAttribute c w cid a t is vs tok)
        (of_state (RemoveAttribute E cid a t)) \<and>
      does content (container_methods E S) (c_hash c) (rpc_container_PutEACL c w table is vs tok) (of_state (PutEACL E table)) \<and>
      does content (container_methods E S) (c_hash c) (rpc_container_PutEACL2 c w table req)
        (of_state (PutEACLOverloaded E table req)) \<and>
      does content (container_methods E S) (c_hash c) (rpc_container_Remove c w cid is vs tok) (cnt_Remove E S cid) \<and>
      does content (container_methods E S) (c_hash c) (rpc_container_Remove2 c w cid req) (RemoveOverloaded E S cid req) \<and>
      does content (container_methods E S) (c_hash c) (rpc_container_SetHardContainerQuota c w cid n)
        (SetHardContainerQuota E S cid n) \<and>
      does content (container_methods E S) (c_hash c) (rpc_container_SetHardUserQuota c w user n) (SetHardUserQuota E S user n) \<and>
      does content (container_methods E S) (c_hash c) (rpc_container_SetSoftContainerQuota c w cid n)
        (SetSoftContainerQuota E S cid n) \<and>
      does content (container_methods E S) (c_hash c) (rpc_container_SetSoftUserQuota c w user n) (SetSoftUserQuota E S user n) \<and>
      (\<exists>cnr. client_info cnr = info \<and>
        does content (container_methods E S) (c_hash c) (rpc_container_CreateV2 L c w (Some info) is vs tok)
          (\<lambda>W. andThen (CreateV2 E S cnr W) (\<lambda>r. Inr (snd r))) \<and>
        does content (container_methods E S) (c_hash c) (rpc_container_CreateV22 L c w (Some info) req) (CreateV2Overloaded E S cnr req))) \<and>
    (does content (netmap_methods E N) (c_hash c) (rpc_netmap_DeleteNode c w k) (of_state (netmap_DeleteNode E (key_bytes L k))) \<and>
      does content (netmap_methods E N) (c_hash c) (rpc_netmap_LastEpochBlock c w)
        (\<lambda>W. andThen (netmap_LastEpochBlock (fst W)) (\<lambda>_. Inr W)) \<and>
      does content (netmap_methods E N) (c_hash c) (rpc_netmap_NewEpoch c w n) (netmap_NewEpoch E (nl_call N) n) \<and>
      does content (netmap_methods E N) (c_hash c) (rpc_netmap_SetCleanupThreshold c w n) (of_state (netmap_SetCleanupThreshold E n)) \<and>
      does content (netmap_methods E N) (c_hash c) (rpc_netmap_SetConfig c w i key v) (of_state (netmap_SetConfig E i key v)) \<and>
      does content (netmap_methods E N) (c_hash c) (rpc_netmap_SubscribeForNewEpoch c w h)
        (of_state (netmap_SubscribeForNewEpoch E h)) \<and>
      does content (netmap_methods E N) (c_hash c) (rpc_netmap_UnsubscribeFromNewEpoch c w h)
        (of_state (netmap_UnsubscribeFromNewEpoch E h)) \<and>
      does content (netmap_methods E N) (c_hash c) (rpc_netmap_UpdateSnapshotCount c w n) (of_state (netmap_UpdateSnapshotCount E n)) \<and>
      does content (netmap_methods E N) (c_hash c) (rpc_netmap_UpdateState c w n k)
        (of_state (netmap_UpdateState E n (key_bytes L k))) \<and>
      does content (netmap_methods E N) (c_hash c) (rpc_netmap_AddNode L c w (Some node))
        (netmap_AddNode E (nl_resolve N) (nl_containers N) (nl_call N) (node_of L node)))"
  by (intro conjI container_calls [OF assms(1,2)] container_creations [OF assms(1-3)] netmap_calls [OF assms(1,2)]
      netmap_new_node [OF assms(1,2,4,5)])

text \<open>C35: the same for the tokens, the names and the main chain. A transfer with details, a settlement and a
  registration are asserted: where the contract answers \<open>False\<close> the whole transaction fails, so nothing is left of
  it.\<close>

theorem client_calls_tokens_and_names:
  fixes E :: env and payment :: "'o nft_payment" and G :: "'p gas_transfer" and content :: "'t submitted \<Rightarrow> invocation"
    and c :: "('k, 't, 's) Contract"
  assumes "client_ok L" and "actor_ok L content c"
  shows "(does content (balance_methods E resolver B) (c_hash c) (rpc_balance_Burn c w a n details) (balance_Burn E a n details) \<and>
      does content (balance_methods E resolver B) (c_hash c) (rpc_balance_Lock c w details a b n until)
        (balance_Lock E details a b n until) \<and>
      does content (balance_methods E resolver B) (c_hash c) (rpc_balance_Mint c w a n details) (balance_Mint E a n details) \<and>
      does content (balance_methods E resolver B) (c_hash c) (rpc_balance_NewEpoch c w n) (balance_NewEpoch E n) \<and>
      does content (balance_methods E resolver B) (c_hash c) (rpc_balance_SettleContainerPayment c w cid)
        (\<lambda>b. asserted (SettleContainerPayment E resolver B cid b)) \<and>
      does content (balance_methods E resolver B) (c_hash c) (rpc_balance_TransferX c w a b n details)
        (\<lambda>s. asserted (balance_TransferX E a b n details s))) \<and>
    (does content (nns_methods E payment) (c_hash c) (rpc_nns_AddNeoRecord c w name a) (of_state (nns_AddNeoRecord E name a)) \<and>
      does content (nns_methods E payment) (c_hash c) (rpc_nns_AddRecord c w name n d) (of_state (nns_AddRecord E name n d)) \<and>
      does content (nns_methods E payment) (c_hash c) (rpc_nns_DeleteNeoRecord c w name a) (of_state (nns_DeleteNeoRecord E name a)) \<and>
      does content (nns_methods E payment) (c_hash c) (rpc_nns_DeleteRecords c w name n) (of_state (nns_DeleteRecords E name n)) \<and>
      does content (nns_methods E payment) (c_hash c) (rpc_nns_RegisterTLD c w name email t1 t2 t3 t4)
        (of_state (nns_RegisterTLD E name email t1 t2 t3 t4)) \<and>
      does content (nns_methods E payment) (c_hash c) (rpc_nns_Renew c w name n)
        (\<lambda>W. andThen (andThen (nns_Renew E name n (fst W)) (\<lambda>(t, d). Inr (t, d, snd W))) (\<lambda>r. Inr (snd r))) \<and>
      does content (nns_methods E payment) (c_hash c) (rpc_nns_Renew2 c w name)
        (\<lambda>W. andThen (andThen (nns_RenewDefault E name (fst W)) (\<lambda>(t, d). Inr (t, d, snd W))) (\<lambda>r. Inr (snd r))) \<and>
      does content (nns_methods E payment) (c_hash c) (rpc_nns_SetAdmin c w name a) (of_state (nns_SetAdmin E name (Some a))) \<and>
      does content (nns_methods E payment) (c_hash c) (rpc_nns_SetPrice c w n) (of_state (nns_SetPrice E n)) \<and>
      does content (nns_methods E payment) (c_hash c) (rpc_nns_SetRecord c w name n i d) (of_state (nns_SetRecord E name n i d)) \<and>
      does content (nns_methods E payment) (c_hash c) (rpc_nns_UpdateSOA c w name email t1 t2 t3 t4)
        (of_state (nns_UpdateSOA E name email t1 t2 t3 t4)) \<and>
      does content (nns_methods E payment) (c_hash c) (rpc_nns_Register c w name a email t1 t2 t3 t4)
        (\<lambda>W. asserted (nns_Register E payment name a email t1 t2 t3 t4 W))) \<and>
    (does content (neofs_methods E G) (c_hash c) (rpc_neofs_AlphabetUpdate c w u ks)
        (of_state (neofs_AlphabetUpdate E u (map (key_bytes L) ks))) \<and>
      does content (neofs_methods E G) (c_hash c) (rpc_neofs_Cheque c w u user n lockAcc) (neofs_Cheque E G u user n lockAcc) \<and>
      does content (neofs_methods E G) (c_hash c) (rpc_neofs_SetConfig c w u key v) (of_state (neofs_SetConfig E u key v)) \<and>
      does content (neofs_methods E G) (c_hash c) (rpc_neofs_Withdraw c w user n) (neofs_Withdraw E G user n)) \<and>
    (does content (alphabet_methods E N epoch) (c_hash c) (rpc_alphabet_Emit c w)
        (\<lambda>W. andThen (alph_Emit E N (fst W) (snd W)) (\<lambda>x. Inr (fst W, x))) \<and>
      does content (alphabet_methods E N epoch) (c_hash c) (rpc_alphabet_Vote c w n ks)
        (\<lambda>W. andThen (alph_Vote E N epoch n (map (key_bytes L) ks) (fst W) (snd W)) (\<lambda>x. Inr (fst W, x))) \<and>
      does content (reputation_methods E) (c_hash c) (rpc_reputation_Put c w n peer v) (reputation_Put E n peer v) \<and>
      does content (reputation_methods E) (c_hash c) (rpc_reputation_Version c w) Inr)"
  by (intro conjI balance_calls [OF assms] balance_asserted_calls [OF assms] nns_calls [OF assms] nns_asserted_call [OF assms]
      neofs_calls [OF assms] alphabet_and_reputation_calls [OF assms])

section \<open>Answers\<close>

text \<open>C36: a client reads the network map and its settings as the contract keeps them. The epoch, its block and time,
  the search by time and the questions about single nodes are answered with the contract's values, and an error
  where it faults; the nodes of an epoch and the candidates, expanded from their iterators with room for all, are
  read as the contract's lists, in their order, with addresses, attributes, keys and states; and so are the
  settings.\<close>

theorem client_reads_network_map:
  assumes "client_ok L" and "reader_ok L fault netmap_readers d R"
    and "netmap_ListNodesEpoch epoch d = Inr ns" and "\<forall>n \<in> set ns. node_readable L key n"
    and "netmap_ListCandidates d = Inr cs" and "\<forall>n \<in> set cs. node_readable L key (node2.truncate n)"
    and "netmap_ListConfig d = Inr kvs" and "length ns \<le> nat m" and "length cs \<le> nat m"
  shows "(rpc_netmap_Epoch R = answered fault (netmap_Epoch d) \<and>
      rpc_netmap_GetEpochBlock R epoch = answered fault (netmap_GetEpochBlock epoch d) \<and>
      rpc_netmap_GetEpochTime R epoch = answered fault (netmap_GetEpochTime epoch d) \<and>
      rpc_netmap_GetEpochBlockByTime R t = answered fault (netmap_GetEpochBlockByTime t d) \<and>
      rpc_netmap_IsStorageNode R k = answered fault (netmap_IsStorageNode (key_bytes L k) d) \<and>
      rpc_netmap_IsStorageNode2 R k epoch = answered fault (netmap_IsStorageNodeInEpoch (key_bytes L k) epoch d) \<and>
      rpc_netmap_IsStorageNodeStatus R k epoch s = answered fault (netmap_IsStorageNodeStatus (key_bytes L k) epoch s d)) \<and>
    (andThen (rpc_netmap_ListNodes2Expanded R epoch m) (mapR (NetmapNode2_FromStackItem L)) = Inr (map (\<lambda>n. node_view (key n) n) ns) \<and>
      andThen (rpc_netmap_ListCandidatesExpanded R m) (mapR (NetmapCandidate_FromStackItem L)) =
        Inr (map (\<lambda>n. candidate_view (key (node2.truncate n)) n) cs)) \<and>
    (rpc_netmap_ListConfig L R = Inr (map (\<lambda>kv. Some \<lparr>ncr_Key = fst kv, ncr_Value = snd kv\<rparr>) kvs) \<and>
      (\<forall>name value'. netmap_Config name d = Inr (Some value') \<longrightarrow> rpc_netmap_Config R name = Inr value'))"
proof -
  have "andThen (rpc_netmap_ListNodes2Expanded R epoch m) (mapR (NetmapNode2_FromStackItem L)) = Inr (map (\<lambda>n. node_view (key n) n) ns)"
    unfolding netmap_lists [OF assms(1,2)] by (rule items_read [OF assms(3,8)]) (use assms(4) node_read [OF assms(1)] in blast)
  moreover have "andThen (rpc_netmap_ListCandidatesExpanded R m) (mapR (NetmapCandidate_FromStackItem L)) =
      Inr (map (\<lambda>n. candidate_view (key (node2.truncate n)) n) cs)"
    unfolding netmap_lists [OF assms(1,2)] by (rule items_read [OF assms(5,9)]) (use assms(6) candidate_read [OF assms(1)] in blast)
  ultimately show ?thesis
    using netmap_settings [OF assms(1,2)] assms(7) by (simp add: netmap_numbers [OF assms(1,2)])
qed

section \<open>Names\<close>

text \<open>How a contract's hash may stand in a record: hexadecimal digits, least significant byte first, an address, or an
  address as an attribute of NEP-18.\<close>

definition names_hash :: "env \<Rightarrow> decoders \<Rightarrow> string \<Rightarrow> bytes \<Rightarrow> bool" where
  "names_hash E A s h \<longleftrightarrow> s = hex_hash h \<or>
     Uint160DecodeStringLE A s = None \<and> StringToUint160 A s = Some h \<and> rt_address_to_hash E s = h \<and> length s \<noteq> 2 * Hash160Len \<and>
       \<not> prefix nep18Prefix s \<and> utf8_valid s"

lemma hex_digit_ascii: "0 \<le> n \<Longrightarrow> n < 16 \<Longrightarrow> of_char (hex_digit n) < (128 :: nat)"
proof -
  assume n: "0 \<le> n" "n < 16"
  then have "(of_char (hex_digit n) :: int) < 128" by (auto simp: hex_digit_def)
  moreover have "int (of_char (hex_digit n)) = of_char (hex_digit n)" by (simp only: of_nat_of_char)
  ultimately show ?thesis by linarith
qed

lemma hex_hash_utf8: "utf8_valid (hex_hash h)"
proof (rule utf8_valid_ascii)
  have "of_char c < (128 :: nat)" if "c \<in> set (hex_byte b)" for b c
  proof -
    have b: "0 \<le> (of_char b :: int)" "(of_char b :: int) < 256" by (rule of_char_bounds)+
    then have "(of_char b :: int) div 16 < 16" by (simp add: div_less_iff_less_mult)
    with b that show ?thesis by (auto simp: hex_byte_def pos_imp_zdiv_nonneg_iff intro: hex_digit_ascii)
  qed
  then show "\<forall>c \<in> set (hex_hash h). of_char c < (128 :: nat)" by (auto simp: hex_hash_def)
qed

lemma record_decoded:
  assumes "names_hash E A s h" and "length h = Hash160Len"
    and "\<And>x. length x = Hash160Len \<Longrightarrow> Uint160DecodeStringLE A (hex_hash x) = Some x"
  shows "AddressFromRecord A s = Inr h" "utf8_valid s"
  using assms hex_hash_utf8 by (auto simp: names_hash_def AddressFromRecord_def TrimPrefix_def)

text \<open>C10: a published contract is found. After the text record of a name below \<open>neofs\<close> that had none was added with
  the hash of a contract, in hexadecimal or as an address, the name resolves to that record, the client finds the
  contract by its name, and so do the other contracts; the client takes the form of NEP-18 as well.\<close>

theorem published_contract_is_found:
  assumes "client_ok L" and "contract_ok c" and "no_texts E (name @ ''.neofs'') c"
    and "nns_AddRecord E (name @ ''.neofs'') RT_TXT record c = Inr c'" and "names_hash E A record h" and "length h = Hash160Len"
    and "\<And>b. rt_atoi16 E (hex_byte b) = Inr (signed_byte b)"
    and "\<And>x. length x = Hash160Len \<Longrightarrow> Uint160DecodeStringLE A (hex_hash x) = Some x"
    and "reader_ok L fault (nns_readers E) c' R"
  shows "nns_Resolve E (name @ ''.neofs'') RT_TXT c' = Inr [record] \<and>
    rpc_ResolveFSContract A R name = Inr h \<and>
    ResolveFSContractWithNNS E (\<lambda>_ n t. nns_Resolve E n t c') nns name = Inr h \<and>
    (Uint160DecodeStringLE A (nep18Prefix @ record) = None \<longrightarrow> StringToUint160 A record = Some h \<longrightarrow>
      AddressFromRecord A (nep18Prefix @ record) = Inr h)"
proof -
  have resolved: "nns_Resolve E (name @ ''.neofs'') RT_TXT c' = Inr [record]"
    by (rule added_text_resolves [OF assms(4,3,2)]) simp_all
  note decoded = record_decoded [OF assms(5,6,8)]
  have "rpc_nns_Resolve R (name @ ''.neofs'') RT_TXT = Inr [record]"
    using nns_texts(1) [OF assms(1,9), of "name @ ''.neofs''" RT_TXT] resolved decoded(2) by (simp add: answered_def)
  then have client: "rpc_ResolveFSContract A R name = Inr h"
    by (simp add: rpc_ResolveFSContract_def nns_ContractTLD_def decoded(1))
  have "ResolveFSContractWithNNS E (\<lambda>_ n t. nns_Resolve E n t c') nns name = Inr h"
  proof (cases "record = hex_hash h")
    case True
    then show ?thesis using ResolveFSContractWithNNS_hex [OF assms(7,6)] resolved by (simp add: RT_TXT_def)
  next
    case False
    then show ?thesis using assms(5) resolved by (simp add: names_hash_def ResolveFSContractWithNNS_def RT_TXT_def)
  qed
  then show ?thesis using resolved client by (simp add: AddressFromRecord_def TrimPrefix_def)
qed

section \<open>Witnesses\<close>

definition sample_contract :: "(bytes, invocation, invocation) Contract" where
  "sample_contract = New (offline_actor sample_client) addrC"

lemma sample_contract_ok: "actor_ok sample_client transaction_call sample_contract" "c_hash sample_contract = addrC"
  unfolding sample_contract_def by (rule offline_actor_ok) (simp add: New_def)

lemma sample_client_values [simp]:
  "new_parameter sample_client v = Inr (PValue v)" "arrives sample_client = sample_arrives" "key_bytes sample_client k = k"
  by (simp_all add: sample_client_def)

lemma sample_contract_calls:
  "by_call sample_contract Make m args = made (andThen (mapR (arg_item sample_client) args)
     (\<lambda>is. Inr \<lparr>iv_hash = addrC, iv_method = m, iv_args = is, iv_assert = False\<rparr>))"
  "by_script sample_contract Make m args = made (andThen (mapR (arg_item sample_client) args)
     (\<lambda>is. Inr \<lparr>iv_hash = addrC, iv_method = m, iv_args = is, iv_assert = True\<rparr>))"
proof -
  show "by_call sample_contract Make m args = made (andThen (mapR (arg_item sample_client) args)
     (\<lambda>is. Inr \<lparr>iv_hash = addrC, iv_method = m, iv_args = is, iv_assert = False\<rparr>))"
    by (simp add: by_call_def sample_contract_def New_def offline_actor_def)
  show "by_script sample_contract Make m args = made (andThen (mapR (arg_item sample_client) args)
     (\<lambda>is. Inr \<lparr>iv_hash = addrC, iv_method = m, iv_args = is, iv_assert = True\<rparr>))"
    by (cases "mapR (arg_item sample_client) args") (simp_all add: by_script_def sample_contract_def New_def offline_actor_def made_def)
qed

definition sample_node :: "bytes NetmapNode2" where
  "sample_node = \<lparr>nn_Addresses = Some [''/ip4/10.0.0.1''], nn_Attributes = Some [(''Price'', ''10'')], nn_Key = keyA, nn_State = 1\<rparr>"

definition sample_links :: "unit netmap_links" where
  "sample_links = \<lparr>nl_resolve = (\<lambda>_ _ _. Inr []), nl_containers = (\<lambda>_ _. Inr 1), nl_call = (\<lambda>_ _ _ w. Inr w)\<rparr>"

theorem client_calls_containers_and_nodes_witness:
  "\<exists>s t. rpc_container_PutReport sample_contract Make cidX 100 3 keyA = Inr s \<and>
    run_method (container_methods sample_env sample_services) addrC (transaction_call s) = PutReport sample_env sample_services cidX 100 3 keyA \<and>
    rpc_netmap_AddNode sample_client sample_contract Make (Some sample_node) = Inr t \<and>
    run_method (netmap_methods sample_env sample_links) addrC (transaction_call t) =
      netmap_AddNode sample_env (nl_resolve sample_links) (nl_containers sample_links) (nl_call sample_links) (node_of sample_client sample_node)"
proof -
  note runs = client_calls_containers_and_nodes [where E = sample_env and S = sample_services and N = sample_links and w = Make and
      node = sample_node and cid = cidX and n = 100 and m = 3 and k = keyA, OF sample_client_ok sample_contract_ok(1) sample_structures_valid(2)]
  have node: "nn_Addresses sample_node \<noteq> None" "nn_Attributes sample_node \<noteq> None" by (simp_all add: sample_node_def)
  obtain s where s: "rpc_container_PutReport sample_contract Make cidX 100 3 keyA = Inr s"
    by (simp add: wrapped sample_contract_calls made_def)
  obtain t where t: "rpc_netmap_AddNode sample_client sample_contract Make (Some sample_node) = Inr t"
    by (simp add: wrapped sample_contract_calls made_def NetmapNode2_ToSCParameter_def sample_node_def slice_param_def string_map_param_def pair_param_def)
  have "does transaction_call (container_methods sample_env sample_services) (c_hash sample_contract)
      (rpc_container_PutReport sample_contract Make cidX 100 3 keyA) (PutReport sample_env sample_services cidX 100 3 (key_bytes sample_client keyA))"
    by (rule runs [OF node, THEN conjunct1, THEN conjunct2, THEN conjunct2, THEN conjunct1])
  moreover have "does transaction_call (netmap_methods sample_env sample_links) (c_hash sample_contract)
      (rpc_netmap_AddNode sample_client sample_contract Make (Some sample_node))
      (netmap_AddNode sample_env (nl_resolve sample_links) (nl_containers sample_links) (nl_call sample_links) (node_of sample_client sample_node))"
    by (rule runs [OF node, THEN conjunct2, THEN conjunct2, THEN conjunct2, THEN conjunct2, THEN conjunct2, THEN conjunct2,
        THEN conjunct2, THEN conjunct2, THEN conjunct2, THEN conjunct2])
  ultimately show ?thesis using s t by (simp add: does_def sample_contract_ok(2))
qed

theorem client_calls_tokens_and_names_witness:
  "\<exists>s. rpc_balance_TransferX sample_contract Make addrA addrB 10 [] = Inr s \<and>
    run_method (balance_methods sample_env (\<lambda>_ _ _. Inr []) (contract_readers sample_env new_contract new_contract)) addrC
      (transaction_call s) new_contract = Inl (Fault ''ASSERT failed'')"
proof -
  obtain s where s: "rpc_balance_TransferX sample_contract Make addrA addrB 10 [] = Inr s"
    by (simp add: wrapped sample_contract_calls made_def)
  have "does transaction_call (balance_methods sample_env (\<lambda>_ _ _. Inr []) (contract_readers sample_env new_contract new_contract))
      (c_hash sample_contract) (rpc_balance_TransferX sample_contract Make addrA addrB 10 [])
      (\<lambda>s. asserted (balance_TransferX sample_env addrA addrB 10 [] s))"
    by (rule client_calls_tokens_and_names [where E = sample_env and w = Make and a = addrA and b = addrB and n = 10 and details = "[]"
        and resolver = "\<lambda>_ _ _. Inr []" and B = "contract_readers sample_env new_contract new_contract",
        OF sample_client_ok sample_contract_ok(1), THEN conjunct1, THEN conjunct2, THEN conjunct2, THEN conjunct2, THEN conjunct2, THEN conjunct2])
  moreover have "balance_TransferX sample_env addrA addrB 10 [] new_contract = Inr (False, new_contract)" by code_simp
  ultimately show ?thesis using s by (simp add: does_def sample_contract_ok(2) asserted_def)
qed

definition nm_live :: netmap where
  "nm_live = LocalPut (candKey keyB) (Ser (SCand \<lparr>Addresses = [''/ip4/10.0.0.2''], Attributes = [(''Price'', ''20'')], Key = keyB, State = 1,
       LastActiveEpoch = 7\<rparr>))
     (LocalPut (nodeKey 3 keyA) (Ser (SNode \<lparr>Addresses = [''/ip4/10.0.0.1''], Attributes = [(''Price'', ''10'')], Key = keyA, State = 1\<rparr>))
     (LocalPut (epochToNetmapVersionKey 6) (Raw (int_bytes 3)) (put_int epochKey 7
     (LocalPut (configPrefix @ ''ContainerFee'') (Raw (int_bytes 10)) new_contract))))"

theorem client_reads_network_map_witness:
  "\<exists>R :: (bytes, reply res, unit) ContractReader. rpc_netmap_Epoch R = Inr 7 \<and> rpc_netmap_ListConfig sample_client R = Inr [Some \<lparr>ncr_Key = ''ContainerFee'', ncr_Value = int_bytes 10\<rparr>] \<and>
    andThen (rpc_netmap_ListNodes2Expanded R 7 10) (mapR (NetmapNode2_FromStackItem sample_client)) =
      Inr [\<lparr>nn_Addresses = Some [''/ip4/10.0.0.1''], nn_Attributes = Some [(''Price'', ''10'')], nn_Key = keyA, nn_State = 1\<rparr>]"
proof -
  let ?R = "NewReader (node_invoker sample_client (\<lambda>_. ''fault'') netmap_readers nm_live) addrC"
  have utf8 [simp]: "utf8_valid ''/ip4/10.0.0.1''" "utf8_valid ''/ip4/10.0.0.2''" "utf8_valid ''Price''" "utf8_valid ''10''" "utf8_valid ''20''"
    by code_simp+
  have "case netmap_ListNodesEpoch 7 nm_live of Inr ns \<Rightarrow>
      ns = [\<lparr>Addresses = [''/ip4/10.0.0.1''], Attributes = [(''Price'', ''10'')], Key = keyA, State = 1\<rparr>] | _ \<Rightarrow> False" by code_simp
  then have ns: "netmap_ListNodesEpoch 7 nm_live = Inr [\<lparr>Addresses = [''/ip4/10.0.0.1''], Attributes = [(''Price'', ''10'')], Key = keyA, State = 1\<rparr>]"
    by (auto split: sum.splits)
  have "case netmap_ListCandidates nm_live of Inr cs \<Rightarrow>
      cs = [\<lparr>Addresses = [''/ip4/10.0.0.2''], Attributes = [(''Price'', ''20'')], Key = keyB, State = 1, LastActiveEpoch = 7\<rparr>] | _ \<Rightarrow> False" by code_simp
  then have cs: "netmap_ListCandidates nm_live = Inr [\<lparr>Addresses = [''/ip4/10.0.0.2''], Attributes = [(''Price'', ''20'')], Key = keyB, State = 1,
      LastActiveEpoch = 7\<rparr>]" by (auto split: sum.splits)
  have "case netmap_ListConfig nm_live of Inr kvs \<Rightarrow> kvs = [(''ContainerFee'', int_bytes 10)] | _ \<Rightarrow> False" by code_simp
  then have kvs: "netmap_ListConfig nm_live = Inr [(''ContainerFee'', int_bytes 10)]" by (auto split: sum.splits)
  have "case netmap_Epoch nm_live of Inr n \<Rightarrow> n = 7 | _ \<Rightarrow> False" by code_simp
  then have epoch: "netmap_Epoch nm_live = Inr 7" by (auto split: sum.splits)
  have readable: "\<forall>n \<in> set [\<lparr>Addresses = [''/ip4/10.0.0.1''], Attributes = [(''Price'', ''10'')], Key = keyA, State = 1\<rparr>].
      node_readable sample_client Key n" "\<forall>n \<in> set [\<lparr>Addresses = [''/ip4/10.0.0.2''], Attributes = [(''Price'', ''20'')], Key = keyB, State = 1,
      LastActiveEpoch = 7\<rparr>]. node_readable sample_client Key (node2.truncate n)"
    by (simp_all add: node_readable_def node2.defs)
  show ?thesis
    using client_reads_network_map [OF sample_client_ok node_reader_ok [where fault = "\<lambda>_. ''fault''" and h = addrC] ns readable(1) cs readable(2) kvs, where m = 10] epoch
    by (intro exI [of _ ?R]) (simp add: answered_def node_view_def)
qed

text \<open>Hexadecimal digits are decoded in pairs.\<close>

fun unhex_bytes :: "string \<Rightarrow> bytes" where
  "unhex_bytes (a # b # s) = char_of (unhex a * 16 + unhex b) # unhex_bytes s"
| "unhex_bytes _ = []"

definition sample_decoders :: decoders where
  "sample_decoders = \<lparr>Uint160DecodeStringLE = (\<lambda>s. if length s = 2 * Hash160Len then Some (rev (unhex_bytes s)) else None),
     StringToUint160 = (\<lambda>s. if length s = Hash160Len then Some s else None)\<rparr>"

lemma unhex_concat: "unhex_bytes (concat (map hex_byte xs)) = xs"
proof (induction xs)
  case (Cons b xs)
  have b: "0 \<le> (of_char b :: int)" "(of_char b :: int) < 256" by (rule of_char_bounds)+
  then have "(of_char b :: int) div 16 < 16" by (simp add: div_less_iff_less_mult)
  then have "unhex (hex_digit (of_char b div 16)) * 16 + unhex (hex_digit (of_char b mod 16)) = of_char b"
    using b by (simp add: unhex_hex_digit pos_imp_zdiv_nonneg_iff)
  then show ?case using Cons by (simp add: hex_byte_def)
qed simp

lemma sample_decodes:
  assumes "length h = Hash160Len"
  shows "Uint160DecodeStringLE sample_decoders (hex_hash h) = Some h"
proof -
  have "unhex_bytes (hex_hash h) = rev h" using unhex_concat [of "rev h"] by (simp only: hex_hash_def)
  then show ?thesis using assms by (simp add: sample_decoders_def length_hex_hash)
qed

definition nns_live :: nns where
  "nns_live = LocalPut (the (case getIdRecordKey hex_env ''netmap.neofs'' ''netmap.neofs'' RT_SOA 0 of Inr k \<Rightarrow> Some k | _ \<Rightarrow> None))
      (Ser (SRecord \<lparr>rs_Name = ''netmap.neofs'', rs_Type = RT_SOA, rs_Data = ''netmap.neofs a@b 1 2 3 4 5'', rs_ID = 0\<rparr>))
     (putNameState hex_env \<lparr>Owner = addrA, Name = ''netmap.neofs'', Expiration = 9000, Admin = None\<rparr>
     (putNameState hex_env \<lparr>Owner = [], Name = ''neofs'', Expiration = 9000, Admin = None\<rparr> new_contract))"

lemma record_case: "(case v of Ser (SRecord r) \<Rightarrow> P r | _ \<Rightarrow> False) \<longleftrightarrow> (\<exists>r. v = Ser (SRecord r) \<and> P r)"
proof (cases v)
  case (Ser x)
  then show ?thesis by (cases x) simp_all
qed simp

theorem published_contract_is_found_witness:
  "\<exists>c' R. nns_AddRecord hex_env ''netmap.neofs'' RT_TXT (hex_hash addrB) nns_live = Inr c' \<and>
    rpc_ResolveFSContract sample_decoders (R :: (bytes, reply res, unit) ContractReader) ''netmap'' = Inr addrB \<and>
    ResolveFSContractWithNNS hex_env (\<lambda>_ n t. nns_Resolve hex_env n t c') addrC ''netmap'' = Inr addrB"
proof -
  have "case nns_AddRecord hex_env ''netmap.neofs'' RT_TXT (hex_hash addrB) nns_live of Inl _ \<Rightarrow> False | Inr _ \<Rightarrow> True" by code_simp
  then obtain c' where c': "nns_AddRecord hex_env (''netmap'' @ ''.neofs'') RT_TXT (hex_hash addrB) nns_live = Inr c'"
    by (auto split: sum.splits)
  have "contract_ok nns_live" by (simp add: nns_live_def putNameState_def putNameStateWithKey_def)
  have "case tokenIDFromName hex_env ''netmap.neofs'' nns_live of Inl _ \<Rightarrow> False | Inr tok \<Rightarrow>
      \<forall>v \<in> set (find_values (getRecordsKey hex_env tok ''netmap.neofs'') nns_live).
        (case v of Ser (SRecord r) \<Rightarrow> rs_Type r \<noteq> RT_TXT \<and> rs_Type r \<noteq> RT_CNAME | _ \<Rightarrow> False)" by code_simp
  then have "no_texts hex_env (''netmap'' @ ''.neofs'') nns_live"
    by (auto simp: no_texts_def record_case split: sum.splits)
  moreover have "names_hash hex_env sample_decoders (hex_hash addrB) addrB" by (simp add: names_hash_def)
  moreover have "length addrB = Hash160Len" by simp
  ultimately show ?thesis
    using published_contract_is_found [OF sample_client_ok \<open>contract_ok nns_live\<close> _ c' _ _ hex_env_atoi sample_decodes
        node_reader_ok [where fault = "\<lambda>_. ''fault''" and h = addrC], where nns = addrC and h = addrB] c'
    by (intro exI [of _ c'] exI [of _ "NewReader (node_invoker sample_client (\<lambda>_. ''fault'') (nns_readers hex_env) c') addrC"]) simp
qed

end
