(* ===== verification/Contract_Files.thy ===== *)
theory Contract_Files
  imports Stack_Item
begin

text \<open>
  The compiled contracts of the repository (\<open>contracts/contracts.go\<close>): which directories hold the contracts of the
  side chain and of the main chain, in the order of their deployment, and how a contract is read. The embedded
  file system and the decoders of the library are parameters.
\<close>

definition nefName :: string where "nefName = ''contract.nef''"
definition manifestName :: string where "manifestName = ''manifest.json''"
definition errInvalidNEF :: string where "errInvalidNEF = ''invalid NEF''"
definition errInvalidManifest :: string where "errInvalidManifest = ''invalid manifest''"

definition fsContracts :: "string list" where
  "fsContracts = [''nns'', ''proxy'', ''netmap'', ''balance'', ''reputation'', ''container'', ''alphabet'']"

definition mainContracts :: "string list" where
  "mainContracts = [''neofs'', ''processing'']"

record ('n, 'm) stored_contract =
  NEF :: 'n
  Manifest :: 'm

record ('f, 'n, 'm) file_system =
  fs_Open :: "string \<Rightarrow> 'f go"
  nef_DecodeBinary :: "'f \<Rightarrow> 'n go"
  json_Decode :: "'f \<Rightarrow> 'm go"

definition readContractFromDir :: "('f, 'n, 'm) file_system \<Rightarrow> string \<Rightarrow> ('n, 'm) stored_contract go" where
  "readContractFromDir fs dir =
     andThen (in_context ''open NEF'' (fs_Open fs (dir @ ''/'' @ nefName))) (\<lambda>fNEF.
     andThen (in_context ''open manifest'' (fs_Open fs (dir @ ''/'' @ manifestName))) (\<lambda>fManifest.
     andThen (in_context errInvalidNEF (nef_DecodeBinary fs fNEF)) (\<lambda>n.
     andThen (in_context errInvalidManifest (json_Decode fs fManifest)) (\<lambda>man.
     Inr \<lparr>NEF = n, Manifest = man\<rparr>))))"

definition read_dirs :: "('f, 'n, 'm) file_system \<Rightarrow> string list \<Rightarrow> ('n, 'm) stored_contract list go" where
  "read_dirs fs dirs = mapR (\<lambda>dir. in_context (''read contract '' @ dir) (readContractFromDir fs dir)) dirs"

definition GetFS :: "('f, 'n, 'm) file_system \<Rightarrow> ('n, 'm) stored_contract list go" where
  "GetFS fs = read_dirs fs fsContracts"

definition GetMain :: "('f, 'n, 'm) file_system \<Rightarrow> ('n, 'm) stored_contract list go" where
  "GetMain fs = read_dirs fs mainContracts"

text \<open>All or nothing, in the order of the directories: a contract per directory, or an error.\<close>

lemma in_context_Inr_iff [simp]: "in_context s r = Inr x \<longleftrightarrow> r = Inr x"
  by (auto simp: in_context_def split: sum.splits go_error.splits)

lemma read_dirs_all:
  "read_dirs fs dirs = Inr cs \<longleftrightarrow> length cs = length dirs \<and> (\<forall>i < length dirs. readContractFromDir fs (dirs ! i) = Inr (cs ! i))"
proof (induction dirs arbitrary: cs)
  case (Cons d dirs)
  show ?case
  proof (cases cs)
    case (Cons c cs')
    then show ?thesis using Cons.IH [of cs'] by (auto simp: read_dirs_def less_Suc_eq_0_disj)
  qed (simp add: read_dirs_def)
qed (auto simp: read_dirs_def)

lemma contracts_in_order:
  assumes "GetFS fs = Inr cs"
  shows "length cs = 7" "readContractFromDir fs ''nns'' = Inr (hd cs)" "readContractFromDir fs ''alphabet'' = Inr (last cs)"
proof -
  have all: "length cs = 7" "\<forall>i < 7. readContractFromDir fs (fsContracts ! i) = Inr (cs ! i)"
    using assms by (simp_all add: GetFS_def read_dirs_all fsContracts_def)
  then show "length cs = 7" by simp
  have "cs \<noteq> []" using all(1) by auto
  then show "readContractFromDir fs ''nns'' = Inr (hd cs)" "readContractFromDir fs ''alphabet'' = Inr (last cs)"
    using all(1) all(2) [rule_format, of 0] all(2) [rule_format, of 6] by (simp_all add: fsContracts_def hd_conv_nth last_conv_nth)
qed

end
