(* ===== verification/Spec2Isabelle.thy ===== *)
theory Spec2Isabelle
  imports Balance_Properties Netmap_Properties NNS_Properties Container_Invariants Settlement_Properties NeoFS_Properties Alphabet_Properties Reputation_Properties Funds_Properties Notary_Properties Deploy_Properties Deploy_Monitor Voting Proto Common_Properties Rpc_Properties Client_Properties Contract_Files
begin

text \<open>
  A verification development of the smart contracts of NeoFS and of the procedure that deploys them.

  \<^bold>\<open>The program.\<close> NeoFS keeps its accounting on two chains. On the side chain run the contracts Balance (the
  tokens of the users), Netmap (the storage nodes and the epochs), Container (the containers, their nodes and
  the reports that are paid for), Reputation, Alphabet (the emission of GAS), Proxy and NNS (domain names, by
  which the contracts find each other); on the main chain NeoFS (deposits and withdrawals) and Processing. The
  package \<open>common\<close> holds what they share: witnesses, versions, voting, name resolution. The package \<open>deploy\<close>
  is an off-chain procedure that every committee member runs and that brings the notary service, the contracts,
  their names and their funds to a fresh chain. The contracts call each other: Netmap calls its subscribers
  (Balance and Container) in a new epoch, Balance reads Container and Netmap when it settles a payment,
  Container charges its fees by Balance, registers names in NNS and reads the configuration in Netmap,
  Alphabet pays by the native GAS.

  \<^bold>\<open>The foundations.\<close> \<open>Prelude\<close> has byte strings, results (\<open>error + 'a\<close>, where \<open>Panic m\<close> is an exception
  thrown by \<open>panic\<close> and \<open>Fault m\<close> a fault of the virtual machine), the loops \<open>foldR\<close> and \<open>mapR\<close>, and the
  conversions of integers. \<open>Storage\<close> is a contract's storage, an ordered map from keys to values, with the locale
  \<open>kv_store\<close> of its laws and its interpretation; a contract's state is its storage and the notifications of the
  transaction. \<open>StdLib\<close> has the functions of the virtual machine's standard library, \<open>Runtime\<close> the record
  \<open>env\<close> of what a call asks of the chain (witnesses, height, time, digests, the committee) and \<open>Sample\<close> a concrete
  environment for the witnesses. \<open>Proto\<close> is \<open>internal/proto\<close> on 64-bit words.

  \<^bold>\<open>The contracts.\<close> For each contract one theory of its data and operations, then theories of what they do.
  \<^item> \<open>Common\<close>, \<open>Voting\<close>, \<open>Common_Properties\<close>: \<open>common/*.go\<close>; ballots count distinct voters and live for 20 blocks after
    the last new one, quorums overlap,
    updates are guarded, contract names resolve.
  \<^item> \<open>Balance_Contract\<close>, \<open>Balance_Ledger\<close>, \<open>Balance_Properties\<close>: \<open>contracts/balance\<close>. A ledger, a function from
    accounts to amounts, is refined by every operation; \<open>bal_reach\<close> is everything that can happen to the
    contract, with the amount that \<open>Lock\<close> has overwritten in accounts that held assets; the recorded circulation is
    that amount and the sum of the accounts.
  \<^item> \<open>Settlement\<close>, \<open>Settlement_Ledger\<close>, \<open>Settlement_Properties\<close>: \<open>SettleContainerPayment\<close>, with the models of
    Container and Netmap it reads. The locale \<open>asset_ledger\<close> (\<open>Asset_Ledger\<close>) is the contract of a keeper of
    assets as its callers rely on it, for the payers it obeys and the accounts it pays to; Balance is proved to be one.
  \<^item> \<open>Netmap_Contract\<close>, \<open>Netmap_State\<close>, \<open>Netmap_Properties\<close>: \<open>contracts/netmap\<close>. Candidates, versions of the map and
    the epoch as functions of the storage; what a new epoch needs and changes, which version was in force, what the
    binary search by time finds, with and without skipped epochs.
  \<^item> \<open>Container_Data\<close>, \<open>Container_Lifecycle\<close>, \<open>Container_Nodes\<close>, \<open>Container_Reports\<close>, \<open>Container_Contract\<close>:
    \<open>contracts/container\<close>. \<open>Container_Encoding\<close> shows what \<open>toBytes\<close> writes, \<open>Container_State\<close> has the reachability
    \<open>cnt_reach\<close> (operations, migrations and calls back from other contracts in any order),
    \<open>Container_Properties\<close> deletion and locks, \<open>Container_Typing\<close> the types of what is stored, \<open>Container_Sums\<close> and
    \<open>Container_Invariants\<close> which readers can fault and on what, and that the summary of a container's reports is their sum.
  \<^item> \<open>NNS_Contract\<close>, \<open>NNS_State\<close>, \<open>NNS_Accounting\<close>, \<open>NNS_Properties\<close>: \<open>contracts/nns\<close>. Supply, balances and token
    lists are those of the names; who can take a domain; which names are well formed; how far aliases lead.
  \<^item> \<open>NeoFS_Contract\<close>, \<open>NeoFS_Properties\<close>: \<open>contracts/neofs\<close> with and without the notary service.
  \<^item> \<open>Alphabet_Contract\<close>, \<open>Alphabet_Properties\<close> (also Proxy and Processing), \<open>Reputation_Contract\<close>,
    \<open>Reputation_Properties\<close>: who may emit GAS and how it is split, from whose account only; what is put for a peer in an
    epoch is got again as long as no identifier begins with another, and what is got otherwise.

  \<^bold>\<open>The deployment.\<close> \<open>Deploy_Base\<close> has the names, the records of the NNS, the digests of shared data and the loop
  over blocks; \<open>Deploy_Notary\<close> the three ways in which a member enables the notary service; \<open>Deploy_Listener\<close> the
  listener that signs notary requests and the staged procedure itself; \<open>Deploy_Contracts\<close> the synchronisation of
  the contracts; \<open>Deploy_Funds\<close> and \<open>Funds\<close> the transfers of GAS and NEO; \<open>Deploy_Monitor\<close> the routine that
  follows the blocks, as sequences of what its channels bring. A round of a loop is a function of what the member
  reads from the chain (a parameter of every round), of its own variables and of whether its sendings are
  accepted; it yields the new variables and the messages sent. \<open>Base64\<close> is the encoding of the records.
  \<open>Notary_Properties\<close>, \<open>Deploy_Properties\<close>, \<open>Funds_Properties\<close> hold what is proved.

  \<^bold>\<open>The clients.\<close> The packages \<open>rpc/*\<close> are the contracts as a program off the chain uses them. \<open>Stack_Item\<close> has what
  their wrappers share: the items of the virtual machine, errors and panics of Go, the conversions of single
  fields, lists and maps, and the scan of an application log. What the client library converts is the record
  \<open>client\<close> of parameters, with the laws \<open>client_ok\<close>.
  \<^item> \<open>Rpc_Container\<close>, \<open>Rpc_Netmap\<close>, \<open>Rpc_Events\<close>: every structure and event of the wrappers (\<open>S_FromStackItem\<close>,
    \<open>itemToS\<close>, \<open>S_ToStackItem\<close>, \<open>S_ToSCParameter\<close>, \<open>XEventsFromApplicationLog\<close>). \<open>Rpc_Codecs\<close> shows that
    structures survive their conversions, \<open>Rpc_Notifications\<close> that the events read are those the contracts threw.
    The Go type \<open>ContainerQuota\<close> is the record \<open>ContainerQuotaLimits\<close>: the contract has a method of that name.
  \<^item> \<open>Rpc_Readers\<close>, \<open>Rpc_Clients\<close>, \<open>Rpc_Properties\<close>: the Container contract seen through its wrapper, a container from
    the client to the contract and back, and what no wrapper can read.
  \<^item> \<open>Wrapper_Base\<close> has invokers and actors, \<open>Wrapper_Container\<close>, \<open>Wrapper_Netmap\<close>, \<open>Wrapper_Balance\<close>,
    \<open>Wrapper_NNS\<close>, \<open>Wrapper_Others\<close> the methods of the wrappers, \<open>rpc_<package>_<Method>\<close>; a writer with its variants
    \<open>Transaction\<close> and \<open>Unsigned\<close> is one definition. \<open>Contract_Methods\<close> has the methods each contract exports, by name and
    number of arguments, and what a transaction does; \<open>Contract_Answers\<close> what a node answers; \<open>Wrapper_Properties\<close>
    and \<open>Client_Properties\<close> that calls and answers are those of the contracts.
  \<^item> \<open>Client_Names\<close>: \<open>rpc/nns/hashes.go\<close>, from a published hash to the contract a client finds. \<open>Contract_Files\<close>:
    \<open>contracts/contracts.go\<close>.

  \<^bold>\<open>Bounds.\<close> No definition runs on fuel: loops are structural recursions over the entries or the bytes they read,
  and a resolution follows its redirects by a counter of the code. The deployment's endless loops are functions of
  the list of rounds; \<open>sync_completes\<close> shows that six are enough
  for a contract to be deployed, brought up to date and recorded. Numbers of the virtual machine are \<open>int\<close>, those
  of \<open>internal/proto\<close>, of the fund division and of the block heights are words of 32 and 64 bits.

  \<^bold>\<open>What is assumed.\<close> Digests, signatures, multi-signature addresses, the accounts of public keys, native
  contracts and the libraries of the client are parameters. \<open>CreateStandardAccount\<close> faults on bytes that are no key
  (\<open>rt_is_key\<close>). Where a property needs a law of one of them it is a hypothesis of the property, and
  the witness gives a function that has it: digests of 32 bytes that differ on the names in use, a native token
  that moves what a contract pays from its own account (\<open>asset_ledger\<close>, \<open>gas_assets\<close>). Arguments of methods have the types their declarations give. Called
  contracts that are not of the repository may call back: where the code hands over control a state transformer
  takes the whole state, restricted in the reachability to what calls of methods can do. The machine's limit
  of 256 bits on integers is not modelled. A comparison with Null is false in the machine; a missing integer that
  is only compared is modelled so for the fees of a container, elsewhere reading it faults. An iterator
  yields the entries present when it was made. Notifications are those of the current transaction.

  \<^bold>\<open>Not modelled.\<close> Tests, migration tests, dumps and scripts, which read a live network; logging; the constructors
  of network clients; sessions of iterators, and the parts of the wrappers that the client library brings (NEP-11,
  NEP-17 and NEP-22); nil keys and nil integers inside the structures of a client; the formatting of floating
  point configuration values; the constant methods \<open>Version\<close>, \<open>Symbol\<close> and \<open>Decimals\<close>.
\<close>

end
